(* ===== verification/Prelude.thy ===== *)
theory Prelude
  imports Main "HOL-Library.AList" "HOL-Library.Word" "HOL-Library.Sublist"
begin

section \<open>Shared vocabulary of the development\<close>

text \<open>
  Go values as this development writes them, and the generic facts about them.
  \<^item> A Go \<open>string\<close> is a list of bytes, here a HOL \<open>string\<close> (a list of 8-bit characters); \<open>[]byte\<close> is
    a list of \<open>8 word\<close>. The case conversions are the ones for ASCII text.
  \<^item> A Go \<open>map\<close> (and a \<open>sync.Map\<close>) is an association list with distinct keys: \<open>map_of\<close> reads it,
    \<open>AList.update\<close> and \<open>AList.delete\<close> write it, and its order stands for the arbitrary
    order in which a \<open>range\<close> loop visits it.
  \<^item> A \<open>time.Time\<close> is the number of nanoseconds since the Unix epoch, a \<open>time.Duration\<close> a
    number of nanoseconds, both as \<open>int\<close>.
  \<^item> A call that may panic returns an option, with \<open>None\<close> for the panic.
\<close>

named_theorems gomap_simps "reading a Go map after a write"

type_synonym byte = "8 word"
type_synonym u16 = "16 word"
type_synonym u32 = "32 word"
type_synonym u64 = "64 word"
type_synonym ('k, 'v) gomap = "('k \<times> 'v) list"
type_synonym gotime = int
type_synonym duration = int

lemma unat_byte: "unat (b :: byte) < 256"
  by (rule less_le_trans [OF unsigned_less]) simp

subsection \<open>Go maps\<close>

definition gomap_ok :: "('k, 'v) gomap \<Rightarrow> bool" where
  "gomap_ok m \<longleftrightarrow> distinct (map fst m)"

lemma gomap_ok_Nil [simp]: "gomap_ok []"
  by (simp add: gomap_ok_def)

lemma gomap_ok_update [simp, intro]: "gomap_ok m \<Longrightarrow> gomap_ok (AList.update k v m)"
  by (simp add: gomap_ok_def distinct_update)

lemma gomap_ok_delete [simp, intro]: "gomap_ok m \<Longrightarrow> gomap_ok (AList.delete k m)"
  by (simp add: gomap_ok_def distinct_delete)

lemma gomap_ok_filter [simp, intro]: "gomap_ok m \<Longrightarrow> gomap_ok (filter P m)"
  unfolding gomap_ok_def by (induction m) auto

lemma map_of_update_iff [gomap_simps]:
  "map_of (AList.update k v m) k' = (if k' = k then Some v else map_of m k')"
  by (simp add: update_conv')

lemma map_of_delete_iff [gomap_simps]:
  "map_of (AList.delete k m) k' = (if k' = k then None else map_of m k')"
  by (simp add: AList.delete_conv')

lemma map_of_filter_gomap [gomap_simps]:
  assumes "gomap_ok m"
  shows "map_of (filter P m) k =
    (case map_of m k of None \<Rightarrow> None | Some v \<Rightarrow> if P (k, v) then Some v else None)"
  using assms
proof (induction m)
  case Nil
  then show ?case by simp
next
  case (Cons kv m)
  obtain k0 v0 where kv: "kv = (k0, v0)" by (cases kv)
  have out: "k0 \<notin> fst ` set m" and ok: "gomap_ok m"
    using Cons.prems by (auto simp: gomap_ok_def kv)
  have "map_of m k0 = None" using out by (simp add: map_of_eq_None_iff)
  then show ?case using Cons.IH [OF ok] by (auto simp: kv)
qed

text \<open>The keys of a map, and the fact that its length counts them.\<close>

definition gomap_keys :: "('k, 'v) gomap \<Rightarrow> 'k list" where
  "gomap_keys m = map fst m"

lemma set_gomap_keys [simp]: "set (gomap_keys m) = dom (map_of m)"
  by (simp add: gomap_keys_def dom_map_of_conv_image_fst)

lemma length_gomap: "gomap_ok m \<Longrightarrow> length m = card (dom (map_of m))"
  by (metis distinct_card gomap_ok_def length_map gomap_keys_def set_gomap_keys)


subsection \<open>Strings\<close>

abbreviation byte_of :: "char \<Rightarrow> nat" where
  "byte_of c \<equiv> of_char c"

definition is_digit :: "char \<Rightarrow> bool" where
  "is_digit c \<longleftrightarrow> 48 \<le> byte_of c \<and> byte_of c \<le> 57"

definition is_upper :: "char \<Rightarrow> bool" where
  "is_upper c \<longleftrightarrow> 65 \<le> byte_of c \<and> byte_of c \<le> 90"

definition is_lower :: "char \<Rightarrow> bool" where
  "is_lower c \<longleftrightarrow> 97 \<le> byte_of c \<and> byte_of c \<le> 122"

definition lower_char :: "char \<Rightarrow> char" where
  "lower_char c = (if is_upper c then char_of (byte_of c + 32) else c)"

definition upper_char :: "char \<Rightarrow> char" where
  "upper_char c = (if is_lower c then char_of (byte_of c - 32) else c)"

text \<open>\<open>strings.ToLower\<close>, \<open>strings.ToUpper\<close> and \<open>strings.EqualFold\<close> on ASCII text.\<close>

definition to_lower :: "string \<Rightarrow> string" where
  "to_lower s = map lower_char s"

definition to_upper :: "string \<Rightarrow> string" where
  "to_upper s = map upper_char s"

definition equal_fold :: "string \<Rightarrow> string \<Rightarrow> bool" where
  "equal_fold s t \<longleftrightarrow> to_lower s = to_lower t"

lemma byte_of_char_of: "n < 256 \<Longrightarrow> byte_of (char_of n) = n"
  by (simp add: of_char_of)

lemma lower_char_idem [simp]: "lower_char (lower_char c) = lower_char c"
  by (auto simp: lower_char_def is_upper_def byte_of_char_of)

lemma to_lower_idem [simp]: "to_lower (to_lower s) = to_lower s"
  by (simp add: to_lower_def)

lemma length_to_lower [simp]: "length (to_lower s) = length s"
  by (simp add: to_lower_def)

lemma to_lower_append [simp]: "to_lower (s @ t) = to_lower s @ to_lower t"
  by (simp add: to_lower_def)

lemma to_lower_eq_Nil [simp]: "to_lower s = [] \<longleftrightarrow> s = []"
  by (simp add: to_lower_def)

lemma equal_fold_refl [simp]: "equal_fold s s"
  by (simp add: equal_fold_def)

text \<open>\<open>strings.HasPrefix\<close>, \<open>strings.HasSuffix\<close>, \<open>strings.Contains\<close>.\<close>

definition has_prefix :: "string \<Rightarrow> string \<Rightarrow> bool" where
  "has_prefix s p \<longleftrightarrow> prefix p s"

definition has_suffix :: "string \<Rightarrow> string \<Rightarrow> bool" where
  "has_suffix s p \<longleftrightarrow> prefix (rev p) (rev s)"

fun str_contains :: "string \<Rightarrow> string \<Rightarrow> bool" where
  "str_contains [] p = (p = [])"
| "str_contains (c # s) p = (prefix p (c # s) \<or> str_contains s p)"

lemma has_prefix_take: "has_prefix s p \<longleftrightarrow> take (length p) s = p"
  by (auto simp: has_prefix_def prefix_def) (metis append_take_drop_id)

lemma has_suffix_iff: "has_suffix s p \<longleftrightarrow> suffix p s"
  by (simp add: has_suffix_def suffix_to_prefix)

lemma str_contains_iff: "str_contains s p \<longleftrightarrow> (\<exists>a b. s = a @ p @ b)"
proof (induction s)
  case Nil
  then show ?case by simp
next
  case (Cons c s)
  have "(\<exists>a b. c # s = a @ p @ b) \<longleftrightarrow> (\<exists>b. c # s = p @ b) \<or> (\<exists>a b. s = a @ p @ b)"
    by (metis append_Cons append_Nil list.inject neq_Nil_conv)
  then show ?case by (simp add: Cons.IH prefix_def)
qed

lemma str_contains_Nil [simp]: "str_contains s []"
  by (cases s) auto

lemma str_contains_self [simp]: "str_contains s s"
  by (cases s) auto

lemma str_contains_append: "str_contains s p \<Longrightarrow> str_contains (a @ s @ b) p"
  unfolding str_contains_iff by (metis append.assoc)

lemma str_contains_has_prefix: "has_prefix s p \<Longrightarrow> str_contains s p"
  by (auto simp: has_prefix_def prefix_def str_contains_iff intro: exI [of _ "[]"])

text \<open>
  \<open>strings.Index\<close> for a single byte (\<open>None\<close> for -1), \<open>strings.LastIndex\<close>, \<open>strings.IndexAny\<close>
  and the splits the code makes with them.
\<close>

fun index_where :: "(char \<Rightarrow> bool) \<Rightarrow> string \<Rightarrow> nat option" where
  "index_where P [] = None"
| "index_where P (c # s) = (if P c then Some 0 else map_option Suc (index_where P s))"

definition index_byte :: "char \<Rightarrow> string \<Rightarrow> nat option" where
  "index_byte c = index_where (\<lambda>d. d = c)"

fun last_index_byte :: "char \<Rightarrow> string \<Rightarrow> nat option" where
  "last_index_byte c [] = None"
| "last_index_byte c (d # s) =
     (case last_index_byte c s of Some i \<Rightarrow> Some (Suc i)
      | None \<Rightarrow> if d = c then Some 0 else None)"

lemma index_where_Some:
  "index_where P s = Some i \<Longrightarrow> i < length s \<and> P (s ! i) \<and> (\<forall>j<i. \<not> P (s ! j))"
  by (induction s arbitrary: i) (auto split: if_splits simp: less_Suc_eq_0_disj)

lemma index_where_None: "index_where P s = None \<longleftrightarrow> (\<forall>c \<in> set s. \<not> P c)"
  by (induction s) auto

lemma index_where_append:
  "(\<forall>c \<in> set s. \<not> P c) \<Longrightarrow> P c \<Longrightarrow> index_where P (s @ c # t) = Some (length s)"
  by (induction s) auto

lemma last_index_byte_None: "last_index_byte c s = None \<longleftrightarrow> c \<notin> set s"
  by (induction s) (auto split: option.splits)

lemma last_index_byte_Some:
  "last_index_byte c s = Some i \<Longrightarrow>
     i < length s \<and> s ! i = c \<and> c \<notin> set (drop (Suc i) s)"
proof (induction s arbitrary: i)
  case Nil
  then show ?case by simp
next
  case (Cons d s)
  show ?case
  proof (cases "last_index_byte c s")
    case None
    with Cons.prems show ?thesis by (auto split: if_splits simp: last_index_byte_None)
  next
    case (Some j)
    with Cons show ?thesis by auto
  qed
qed

lemma last_index_byte_append:
  "c \<notin> set t \<Longrightarrow> last_index_byte c (s @ c # t) = Some (length s)"
  by (induction s) (auto simp: last_index_byte_None split: option.splits)

text \<open>\<open>strings.SplitN(s, sep, 2)\<close> for a one-byte separator: \<open>None\<close> when it does not occur.\<close>

definition cut_byte :: "char \<Rightarrow> string \<Rightarrow> (string \<times> string) option" where
  "cut_byte c s = map_option (\<lambda>i. (take i s, drop (Suc i) s)) (index_byte c s)"

lemma cut_byte_append:
  assumes "c \<notin> set s"
  shows "cut_byte c (s @ c # t) = Some (s, t)"
proof -
  have "index_byte c (s @ c # t) = Some (length s)"
    unfolding index_byte_def using assms by (intro index_where_append) auto
  then show ?thesis by (simp add: cut_byte_def)
qed

lemma cut_byte_iff: "cut_byte c v = Some (p, s) \<longleftrightarrow> v = p @ c # s \<and> c \<notin> set p"
proof
  assume "cut_byte c v = Some (p, s)"
  then obtain i where i: "index_byte c v = Some i" "p = take i v" "s = drop (Suc i) v"
    by (auto simp: cut_byte_def)
  then have at: "i < length v" "v ! i = c" "\<And>j. j < i \<Longrightarrow> v ! j \<noteq> c"
    using index_where_Some by (fastforce simp: index_byte_def)+
  then have "c \<notin> set p" using i(2) by (auto simp: in_set_conv_nth)
  moreover have "v = p @ c # s" using i at id_take_nth_drop [of i v] by simp
  ultimately show "v = p @ c # s \<and> c \<notin> set p" by simp
qed (simp add: cut_byte_append)

text \<open>\<open>strings.TrimSpace\<close> on ASCII white space.\<close>

definition is_space :: "char \<Rightarrow> bool" where
  "is_space c \<longleftrightarrow> byte_of c \<in> {9, 10, 11, 12, 13, 32}"

definition trim_where :: "(char \<Rightarrow> bool) \<Rightarrow> string \<Rightarrow> string" where
  "trim_where P s = rev (dropWhile P (rev (dropWhile P s)))"

definition trim_ws :: "string \<Rightarrow> string" where
  "trim_ws = trim_where is_space"

text \<open>\<open>strings.Join\<close> and \<open>strings.Split\<close> at a byte.\<close>

fun join_with :: "string \<Rightarrow> string list \<Rightarrow> string" where
  "join_with sep [] = []"
| "join_with sep [x] = x"
| "join_with sep (x # y # ys) = x @ sep @ join_with sep (y # ys)"

subsection \<open>Decimal numbers\<close>

definition digit_char :: "nat \<Rightarrow> char" where
  "digit_char d = char_of (48 + d)"

definition digit_val :: "char \<Rightarrow> nat" where
  "digit_val c = byte_of c - 48"

fun show_nat :: "nat \<Rightarrow> string" where
  "show_nat n = (if n < 10 then [digit_char n] else show_nat (n div 10) @ [digit_char (n mod 10)])"

declare show_nat.simps [simp del]

text \<open>\<open>strconv.Itoa\<close>, \<open>strconv.FormatInt(_, 10)\<close> and \<open>%d\<close>.\<close>

definition itoa :: "int \<Rightarrow> string" where
  "itoa i = (if i < 0 then CHR ''-'' # show_nat (nat (- i)) else show_nat (nat i))"

fun read_digits :: "nat \<Rightarrow> string \<Rightarrow> nat option" where
  "read_digits acc [] = Some acc"
| "read_digits acc (c # s) =
     (if is_digit c then read_digits (10 * acc + digit_val c) s else None)"

text \<open>
  \<open>strconv.ParseInt(s, 10, 64)\<close>: a value, a syntax error, or a range error (on which Go also
  returns the nearest representable value, which \<open>strconv.Atoi\<close> passes on).
\<close>

datatype parsed_int = Parsed int | SyntaxErr | RangeErr int

definition max_int64 :: int where "max_int64 = 2 ^ 63 - 1"
definition min_int64 :: int where "min_int64 = - (2 ^ 63)"

definition parse_int64 :: "string \<Rightarrow> parsed_int" where
  "parse_int64 s =
     (let (neg, ds) = (case s of [] \<Rightarrow> (False, [])
                       | c # t \<Rightarrow> if c = CHR ''-'' then (True, t)
                                  else if c = CHR ''+'' then (False, t) else (False, s))
      in if ds = [] then SyntaxErr
         else case read_digits 0 ds of
           None \<Rightarrow> SyntaxErr
         | Some n \<Rightarrow>
             if neg then (if int n > 2 ^ 63 then RangeErr min_int64 else Parsed (- int n))
             else (if int n > max_int64 then RangeErr max_int64 else Parsed (int n)))"

text \<open>The value \<open>strconv.Atoi\<close> returns when its error is ignored.\<close>

definition atoi_value :: "string \<Rightarrow> int" where
  "atoi_value s = (case parse_int64 s of Parsed i \<Rightarrow> i | SyntaxErr \<Rightarrow> 0 | RangeErr i \<Rightarrow> i)"

lemma digit_char_props [simp]:
  assumes "d < 10"
  shows "is_digit (digit_char d)" and "digit_val (digit_char d) = d"
  using assms by (auto simp: digit_char_def is_digit_def digit_val_def byte_of_char_of)

lemma read_digits_append:
  "read_digits acc (s @ t) = Option.bind (read_digits acc s) (\<lambda>a. read_digits a t)"
  by (induction s arbitrary: acc) auto

lemma read_digits_show_nat: "read_digits 0 (show_nat n) = Some n"
proof (induction n rule: show_nat.induct)
  case (1 n)
  show ?case
  proof (cases "n < 10")
    case True
    then show ?thesis by (simp add: show_nat.simps [of n])
  next
    case False
    with "1.IH" have "read_digits 0 (show_nat (n div 10)) = Some (n div 10)" by simp
    with False show ?thesis by (simp add: show_nat.simps [of n] read_digits_append)
  qed
qed

lemma show_nat_ne [simp]: "show_nat n \<noteq> []"
  by (subst show_nat.simps) simp

lemma show_nat_digits: "\<forall>c \<in> set (show_nat n). is_digit c"
proof (induction n rule: show_nat.induct)
  case (1 n)
  then show ?case by (cases "n < 10") (auto simp: show_nat.simps [of n])
qed

lemma digit_not_sign: "is_digit c \<Longrightarrow> c \<noteq> CHR ''-'' \<and> c \<noteq> CHR ''+''"
  by (auto simp: is_digit_def)

lemma parse_int64_itoa:
  assumes "min_int64 \<le> i" and "i \<le> max_int64"
  shows "parse_int64 (itoa i) = Parsed i"
proof (cases "i < 0")
  case True
  then have "int (nat (- i)) = - i" by simp
  with True assms show ?thesis
    by (simp add: parse_int64_def itoa_def read_digits_show_nat min_int64_def)
next
  case False
  obtain c t where s: "show_nat (nat i) = c # t"
    using show_nat_ne [of "nat i"] by (cases "show_nat (nat i)") auto
  have "is_digit c" using show_nat_digits [of "nat i"] s by simp
  then have sign: "c \<noteq> CHR ''-''" "c \<noteq> CHR ''+''" using digit_not_sign by blast+
  have "read_digits 0 (c # t) = Some (nat i)" using read_digits_show_nat [of "nat i"] s by simp
  with False assms sign s show ?thesis
    by (simp add: parse_int64_def itoa_def max_int64_def del: read_digits.simps)
qed

subsection \<open>Time\<close>

definition second :: duration where "second = 1000000000"
definition millisecond :: duration where "millisecond = 1000000"
definition minute :: duration where "minute = 60 * second"
definition hour :: duration where "hour = 60 * minute"

text \<open>
  \<open>Time.Unix()\<close> rounds down to the second; the zero \<open>time.Time\<close> is the first instant of the
  year 1; \<open>Time.Sub\<close> saturates at the range of \<open>int64\<close>.
\<close>

definition unix_sec :: "gotime \<Rightarrow> int" where
  "unix_sec t = t div second"

definition zero_time :: gotime where
  "zero_time = - 62135596800 * second"

definition time_sub :: "gotime \<Rightarrow> gotime \<Rightarrow> duration" where
  "time_sub t u = max min_int64 (min max_int64 (t - u))"

lemmas duration_defs = second_def millisecond_def minute_def hour_def

lemma time_sub_exact [simp]: "min_int64 \<le> t - u \<Longrightarrow> t - u \<le> max_int64 \<Longrightarrow> time_sub t u = t - u"
  by (simp add: time_sub_def)

lemma time_sub_self [simp]: "time_sub t t = 0"
  by (simp add: time_sub_def min_int64_def max_int64_def)

lemma time_sub_gt: "d < max_int64 \<Longrightarrow> min_int64 \<le> d \<Longrightarrow> d < time_sub t u \<longleftrightarrow> d < t - u"
  by (auto simp: time_sub_def)

lemma time_sub_lt: "d \<le> max_int64 \<Longrightarrow> min_int64 < d \<Longrightarrow> time_sub t u < d \<longleftrightarrow> t - u < d"
  by (auto simp: time_sub_def)

subsection \<open>The end of a list\<close>

text \<open>Buffers of bounded length keep the newest elements; a buffer that is cut after every write keeps those of all writes.\<close>

definition newest :: "nat \<Rightarrow> 'a list \<Rightarrow> 'a list" where
  "newest n xs = drop (length xs - n) xs"

lemma length_newest [simp]: "length (newest n xs) = min n (length xs)"
  by (auto simp: newest_def)

lemma newest_newest: "newest n (newest n xs @ ys) = newest n (xs @ ys)"
proof (cases "length xs \<le> n")
  case False
  have "drop (n + length ys - n) (drop (length xs - n) xs @ ys) = drop (length xs + length ys - n) (xs @ ys)"
    if "length ys \<le> n" using that False by (simp add: add.commute)
  moreover have "drop (n + length ys - n) (drop (length xs - n) xs @ ys) = drop (length xs + length ys - n) (xs @ ys)"
    if "\<not> length ys \<le> n" using that False by simp
  ultimately show ?thesis using False by (cases "length ys \<le> n") (simp_all add: newest_def)
qed (simp add: newest_def)

end
