(* ===== verification/Float64.thy ===== *)
theory Float64
  imports Complex_Main "HOL-Library.Log_Nat" Prelude
begin

section \<open>Go \<open>float64\<close> arithmetic\<close>

text \<open>
  A finite \<open>float64\<close> is a rational number. Every arithmetic operation of the source rounds its
  exact result to the nearest 53-bit significand, ties to even (\<open>fl\<close>); \<open>fadd\<close>, \<open>fsub\<close>,
  \<open>fmul\<close> and \<open>fdiv\<close> are the source's operators. The exponent range is unbounded: the
  quantities of the program (rates, scores, seconds) stay far from the overflow and subnormal
  limits of binary64. Where the code can divide by zero, the component models the infinities and
  NaN that result. Lemmas: rounding is monotone, keeps signs, leaves 53-bit integers alone and is
  idempotent.
\<close>

type_synonym f64 = rat

definition expo :: "rat \<Rightarrow> int" where
  "expo x = (let (p, q) = quotient_of x; e = bitlen p - bitlen q
             in if x < 2 powi e then e - 1 else e)"

definition rnd_even :: "rat \<Rightarrow> int" where
  "rnd_even y = (let f = \<lfloor>y\<rfloor>; d = y - of_int f
     in if d < 1 / 2 then f else if 1 / 2 < d then f + 1 else if even f then f else f + 1)"

definition fl :: "rat \<Rightarrow> f64" where
  "fl x = (if x = 0 then 0
           else of_int (rnd_even (x * 2 powi (52 - expo \<bar>x\<bar>))) * 2 powi (expo \<bar>x\<bar> - 52))"

definition fadd :: "f64 \<Rightarrow> f64 \<Rightarrow> f64" where "fadd x y = fl (x + y)"
definition fsub :: "f64 \<Rightarrow> f64 \<Rightarrow> f64" where "fsub x y = fl (x - y)"
definition fmul :: "f64 \<Rightarrow> f64 \<Rightarrow> f64" where "fmul x y = fl (x * y)"
definition fdiv :: "f64 \<Rightarrow> f64 \<Rightarrow> f64" where "fdiv x y = fl (x / y)"

text \<open>\<open>float64(n)\<close> and the truncating \<open>int(x)\<close>.\<close>

definition f_of_int :: "int \<Rightarrow> f64" where "f_of_int n = fl (of_int n)"

definition f_trunc :: "f64 \<Rightarrow> int" where
  "f_trunc x = (if x < 0 then \<lceil>x\<rceil> else \<lfloor>x\<rfloor>)"

text \<open>\<open>Duration.Seconds()\<close>: whole seconds plus the rounded fraction.\<close>

definition go_quot :: "int \<Rightarrow> int \<Rightarrow> int" where
  "go_quot a b = (if (0 \<le> a) = (0 \<le> b) then \<bar>a\<bar> div \<bar>b\<bar> else - (\<bar>a\<bar> div \<bar>b\<bar>))"

definition go_rem :: "int \<Rightarrow> int \<Rightarrow> int" where
  "go_rem a b = a - go_quot a b * b"

definition seconds :: "duration \<Rightarrow> f64" where
  "seconds d = fadd (f_of_int (go_quot d second)) (fdiv (f_of_int (go_rem d second)) (10 ^ 9))"

definition is_f64 :: "rat \<Rightarrow> bool" where
  "is_f64 x \<longleftrightarrow> fl x = x"

subsection \<open>The binary exponent\<close>

lemma bitlen_powi: "0 < n \<Longrightarrow> 2 powi (bitlen n - 1) \<le> (of_int n :: rat) \<and> (of_int n :: rat) < 2 powi bitlen n"
proof -
  assume n: "0 < n"
  then have len: "0 < bitlen n" using bitlen_eq_zero_iff [of n] bitlen_nonneg [of n] by linarith
  have b: "2 ^ nat (bitlen n - 1) \<le> n" "n < 2 ^ nat (bitlen n)"
    using bitlen_bounds [OF n] by auto
  have "(of_int (2 ^ nat (bitlen n - 1)) :: rat) \<le> of_int n"
    using b(1) by (simp only: of_int_le_iff)
  moreover have "(of_int n :: rat) < of_int (2 ^ nat (bitlen n))"
    using b(2) by (simp only: of_int_less_iff)
  ultimately show ?thesis using len by (simp add: power_int_def)
qed

lemma expo_bounds:
  assumes "0 < x"
  shows "2 powi expo x \<le> x" and "x < 2 powi (expo x + 1)"
proof -
  obtain p q where pq: "quotient_of x = (p, q)" by (cases "quotient_of x")
  have q: "0 < q" using quotient_of_denom_pos [OF pq] .
  have x: "x = of_int p / of_int q" using quotient_of_div [OF pq] .
  have p: "0 < p" using assms q unfolding x by (simp add: zero_less_divide_iff)
  let ?e = "bitlen p - bitlen q"
  note bp = bitlen_powi [OF p] and bq = bitlen_powi [OF q]
  have qpos: "(0 :: rat) < of_int q" using q by simp
  have "(2 powi (?e - 1) :: rat) * of_int q \<le> 2 powi (?e - 1) * 2 powi bitlen q"
    using bq by (intro mult_left_mono) auto
  also have "\<dots> = 2 powi (bitlen p - 1)" by (simp add: power_int_add [symmetric])
  also have "\<dots> \<le> of_int p" using bp by simp
  finally have lo: "2 powi (?e - 1) \<le> x"
    using qpos unfolding x by (simp add: pos_le_divide_eq)
  have "of_int p < (2 powi bitlen p :: rat)" using bp by simp
  also have "(2 powi bitlen p :: rat) = 2 powi (?e + 1) * 2 powi (bitlen q - 1)"
    by (simp add: power_int_add [symmetric])
  also have "\<dots> \<le> 2 powi (?e + 1) * of_int q"
    using bq by (intro mult_left_mono) auto
  finally have hi: "x < 2 powi (?e + 1)"
    using qpos unfolding x by (simp add: pos_divide_less_eq)
  show "2 powi expo x \<le> x" "x < 2 powi (expo x + 1)"
    using lo hi by (auto simp: expo_def pq Let_def)
qed

lemma powi_less_iff [simp]: "(2 :: rat) powi a < 2 powi b \<longleftrightarrow> a < b"
  by (meson linorder_not_less one_le_numeral one_less_numeral_iff power_int_increasing
      power_int_strict_increasing semiring_norm(76))

lemma powi_le_iff [simp]: "(2 :: rat) powi a \<le> 2 powi b \<longleftrightarrow> a \<le> b"
  using powi_less_iff [of b a] by linarith

lemma expo_unique:
  assumes "2 powi e \<le> x" and "x < 2 powi (e + 1)"
  shows "expo x = e"
proof -
  have "0 < x" using assms(1) by (rule less_le_trans [rotated]) simp
  note b = expo_bounds [OF this]
  have "2 powi e < (2 powi (expo x + 1) :: rat)" using assms(1) b(2) by (rule le_less_trans)
  moreover have "2 powi expo x < (2 powi (e + 1) :: rat)" using b(1) assms(2) by (rule le_less_trans)
  ultimately show ?thesis by (simp del: power_int_add_1 power_int_add_1')
qed

lemma expo_mono: "0 < x \<Longrightarrow> x \<le> y \<Longrightarrow> expo x \<le> expo y"
proof -
  assume x: "0 < x" and xy: "x \<le> y"
  have y: "0 < y" using x xy by simp
  have "2 powi expo x \<le> x" using expo_bounds(1) [OF x] .
  also have "x \<le> y" by (rule xy)
  also have "y < 2 powi (expo y + 1)" using expo_bounds(2) [OF y] .
  finally show ?thesis by (simp del: power_int_add_1 power_int_add_1')
qed

subsection \<open>Rounding to an integer\<close>

lemma rnd_even_of_int [simp]: "rnd_even (of_int n) = n"
  by (simp add: rnd_even_def)

lemma rnd_even_bounds: "\<lfloor>y\<rfloor> \<le> rnd_even y \<and> rnd_even y \<le> \<lfloor>y\<rfloor> + 1"
  by (simp add: rnd_even_def Let_def)

lemma rnd_even_mono:
  assumes "x \<le> y"
  shows "rnd_even x \<le> rnd_even y"
proof (cases "\<lfloor>x\<rfloor> = \<lfloor>y\<rfloor>")
  case True
  with assms show ?thesis by (auto simp: rnd_even_def Let_def)
next
  case False
  with assms have "\<lfloor>x\<rfloor> + 1 \<le> \<lfloor>y\<rfloor>" using floor_mono [OF assms] by linarith
  then show ?thesis using rnd_even_bounds [of x] rnd_even_bounds [of y] by linarith
qed

lemma rnd_even_minus: "rnd_even (- y) = - rnd_even y"
proof (cases "of_int \<lfloor>y\<rfloor> = y")
  case True
  then show ?thesis by (metis of_int_minus rnd_even_of_int)
next
  case False
  then have "\<lceil>y\<rceil> = \<lfloor>y\<rfloor> + 1" by (metis ceiling_altdef)
  then have f: "\<lfloor>- y\<rfloor> = - \<lfloor>y\<rfloor> - 1" by (simp add: floor_minus)
  show ?thesis unfolding rnd_even_def f Let_def by auto
qed

lemma rnd_even_ge: "of_int n \<le> y \<Longrightarrow> n \<le> rnd_even y"
  using rnd_even_mono [of "of_int n" y] by simp

lemma rnd_even_le: "y \<le> of_int n \<Longrightarrow> rnd_even y \<le> n"
  using rnd_even_mono [of y "of_int n"] by simp

subsection \<open>Rounding to 53 bits\<close>

lemma fl_0 [simp]: "fl 0 = 0"
  by (simp add: fl_def)

lemma fl_minus: "fl (- x) = - fl x"
  by (simp add: fl_def rnd_even_minus)

lemma powi_cancel: "(x :: rat) * 2 powi (52 - e) * 2 powi (e - 52) = x"
  by (simp add: mult.assoc power_int_add [symmetric])

lemma fl_exact:
  assumes "x * 2 powi (52 - expo \<bar>x\<bar>) = of_int n"
  shows "fl x = x"
proof (cases "x = 0")
  case True
  then show ?thesis by simp
next
  case False
  then have "fl x = of_int n * 2 powi (expo \<bar>x\<bar> - 52)"
    unfolding fl_def assms by simp
  also have "\<dots> = x" unfolding assms [symmetric] by (rule powi_cancel)
  finally show ?thesis .
qed

lemma fl_pos_bounds:
  assumes "0 < x"
  shows "2 powi expo x \<le> fl x" and "fl x \<le> 2 powi (expo x + 1)"
proof -
  note b = expo_bounds [OF assms]
  let ?y = "x * 2 powi (52 - expo x)"
  have fl: "fl x = of_int (rnd_even ?y) * 2 powi (expo x - 52)"
    using assms by (simp add: fl_def)
  have "(2 :: rat) powi 52 = 2 powi expo x * 2 powi (52 - expo x)"
    by (simp add: power_int_add [symmetric] del: power_int_numeral)
  also have "\<dots> \<le> ?y" using b(1) by (intro mult_right_mono) auto
  finally have lo: "of_int (2 ^ 52) \<le> ?y" by simp
  have "?y \<le> 2 powi (expo x + 1) * 2 powi (52 - expo x)"
    using b(2) by (intro mult_right_mono) (auto simp del: power_int_add_1 power_int_add_1')
  also have "\<dots> = (2 :: rat) powi 53"
    by (simp add: power_int_add [symmetric] del: power_int_numeral power_int_add_1 power_int_add_1')
  finally have hi: "?y \<le> of_int (2 ^ 53)" by simp
  have "(2 powi expo x :: rat) = of_int (2 ^ 52) * 2 powi (expo x - 52)"
    using power_int_add [of "2::rat" 52 "expo x - 52"] by simp
  also have "\<dots> \<le> fl x"
    unfolding fl using rnd_even_ge [OF lo] by (intro mult_right_mono) (simp_all only: of_int_le_iff, simp)
  finally show "2 powi expo x \<le> fl x" .
  have "fl x \<le> of_int (2 ^ 53) * 2 powi (expo x - 52)"
    unfolding fl using rnd_even_le [OF hi] by (intro mult_right_mono) (simp_all only: of_int_le_iff, simp)
  also have "\<dots> = (2 powi (expo x + 1) :: rat)"
    using power_int_add [of "2::rat" 53 "expo x - 52"] by (simp add: algebra_simps)
  finally show "fl x \<le> 2 powi (expo x + 1)" .
qed

lemma fl_pos [simp]: "0 < x \<Longrightarrow> 0 < fl x"
  using fl_pos_bounds(1) [of x] by (rule less_le_trans [rotated]) simp_all

lemma fl_nonneg [simp, intro]: "0 \<le> x \<Longrightarrow> 0 \<le> fl x"
  by (cases "x = 0") (auto simp: less_le [symmetric] intro!: less_imp_le)

lemma fl_neg [simp]: "x < 0 \<Longrightarrow> fl x < 0"
  using fl_pos [of "- x"] by (simp add: fl_minus)

lemma fl_mono_pos:
  assumes "0 < x" and "x \<le> y"
  shows "fl x \<le> fl y"
proof (cases "expo x = expo y")
  case True
  have "rnd_even (x * 2 powi (52 - expo y)) \<le> rnd_even (y * 2 powi (52 - expo y))"
    using assms by (intro rnd_even_mono mult_right_mono) auto
  with True assms show ?thesis
    by (auto simp: fl_def intro!: mult_right_mono)
next
  case False
  with expo_mono [OF assms] have "expo x + 1 \<le> expo y" by simp
  then have "(2 powi (expo x + 1) :: rat) \<le> 2 powi expo y"
    by (simp only: powi_le_iff)
  with fl_pos_bounds(2) [OF assms(1)] fl_pos_bounds(1) [of y] assms show ?thesis by linarith
qed

lemma fl_mono: "x \<le> y \<Longrightarrow> fl x \<le> fl y"
proof -
  assume le: "x \<le> y"
  consider "0 < x" | "x \<le> 0" "0 \<le> y" | "y < 0" by linarith
  then show ?thesis
  proof cases
    case 1
    then show ?thesis using le by (rule fl_mono_pos)
  next
    case 2
    have "fl x \<le> 0" using 2(1) fl_nonneg [of "- x"] by (simp add: fl_minus)
    with fl_nonneg [OF 2(2)] show ?thesis by simp
  next
    case 3
    have "fl (- y) \<le> fl (- x)" using 3 le by (intro fl_mono_pos) auto
    then show ?thesis by (simp add: fl_minus)
  qed
qed

lemma fl_idem_pos:
  assumes "0 < x"
  shows "fl (fl x) = fl x"
proof -
  let ?m = "rnd_even (x * 2 powi (52 - expo x))"
  have fl: "fl x = of_int ?m * 2 powi (expo x - 52)"
    using assms by (simp add: fl_def)
  note b = fl_pos_bounds [OF assms]
  have pos: "0 < fl x" using assms by simp
  show ?thesis
  proof (cases "fl x < 2 powi (expo x + 1)")
    case True
    then have "expo (fl x) = expo x" using b(1) by (intro expo_unique)
    then have "fl x * 2 powi (52 - expo \<bar>fl x\<bar>) = of_int ?m"
      using pos fl by (simp add: mult.assoc power_int_add [symmetric])
    then show ?thesis by (rule fl_exact)
  next
    case False
    with b have eq: "fl x = 2 powi (expo x + 1)" by simp
    have "expo (fl x) = expo x + 1" unfolding eq by (rule expo_unique) simp_all
    then have "fl x * 2 powi (52 - expo \<bar>fl x\<bar>) = 2 powi (52 :: int)"
      unfolding eq using pos
      by (simp add: power_int_add [symmetric] del: power_int_add_1 power_int_add_1' power_int_numeral)
    also have "\<dots> = of_int (2 ^ 52)" by simp
    finally show ?thesis by (rule fl_exact)
  qed
qed

lemma fl_idem [simp]: "fl (fl x) = fl x"
proof -
  consider "0 < x" | "x = 0" | "0 < - x" by linarith
  then show ?thesis
  proof cases
    case 3
    then show ?thesis using fl_idem_pos [of "- x"] by (simp add: fl_minus)
  qed (auto simp: fl_idem_pos)
qed

lemma is_f64_fl [simp, intro]: "is_f64 (fl x)"
  by (simp add: is_f64_def)

lemma is_f64_ops [simp, intro]:
  "is_f64 (fadd x y)" "is_f64 (fsub x y)" "is_f64 (fmul x y)" "is_f64 (fdiv x y)"
  "is_f64 (f_of_int n)" "is_f64 0"
  by (simp_all add: fadd_def fsub_def fmul_def fdiv_def f_of_int_def is_f64_def)

lemma fl_of_int_pos:
  assumes "0 < n" and "n \<le> 2 ^ 53"
  shows "fl (of_int n) = of_int n"
proof (cases "n = 2 ^ 53")
  case True
  have e: "expo (2 powi (53 :: int)) = 53" by (rule expo_unique) simp_all
  have "fl (2 powi (53 :: int)) = 2 powi (53 :: int)"
  proof (rule fl_exact)
    show "2 powi 53 * 2 powi (52 - expo \<bar>2 powi 53\<bar>) = rat_of_int (2 ^ 52)"
      using e by (simp add: power_int_minus)
  qed
  with True show ?thesis by simp
next
  case False
  let ?E = "expo (of_int n :: rat)"
  have pos: "0 < (of_int n :: rat)" using assms by simp
  note b = expo_bounds [OF pos]
  have "n < 2 ^ 53" using False assms by linarith
  then have "(of_int n :: rat) < of_int (2 ^ 53)" by (simp only: of_int_less_iff)
  then have "(2 powi ?E :: rat) < 2 powi (53 :: int)" using b(1) by simp
  then have "?E < 53" by (simp only: powi_less_iff)
  then obtain k where k: "52 - ?E = int k" using zero_le_imp_eq_int [of "52 - ?E"] by auto
  have "of_int n * 2 powi (52 - expo \<bar>of_int n :: rat\<bar>) = (of_int (n * 2 ^ k) :: rat)"
    using pos k by simp
  then show ?thesis by (rule fl_exact)
qed

lemma fl_of_int [simp]:
  assumes "\<bar>n\<bar> \<le> 2 ^ 53"
  shows "fl (of_int n) = of_int n"
proof -
  consider "0 < n" | "n = 0" | "n < 0" by linarith
  then show ?thesis
  proof cases
    case 3
    then have "fl (of_int (- n)) = of_int (- n)" using assms by (intro fl_of_int_pos) auto
    then show ?thesis by (simp add: fl_minus)
  qed (use assms fl_of_int_pos in auto)
qed

lemma fl_numeral [simp]: "numeral w \<le> (2 ^ 53 :: int) \<Longrightarrow> fl (numeral w) = numeral w"
  using fl_of_int [of "numeral w"] by simp

lemma fl_1 [simp]: "fl 1 = 1"
  using fl_of_int [of 1] by simp

lemma f_of_int_small: "\<bar>n\<bar> \<le> 2 ^ 53 \<Longrightarrow> f_of_int n = of_int n"
  by (simp add: f_of_int_def)

lemma f_of_int_mono: "m \<le> n \<Longrightarrow> f_of_int m \<le> f_of_int n"
  by (simp add: f_of_int_def fl_mono)

lemma f_of_int_nonneg [simp]: "0 \<le> n \<Longrightarrow> 0 \<le> f_of_int n"
  by (simp add: f_of_int_def)

subsection \<open>The operators\<close>

lemma fadd_nonneg: "0 \<le> x \<Longrightarrow> 0 \<le> y \<Longrightarrow> 0 \<le> fadd x y"
  by (simp add: fadd_def)

lemma fmul_nonneg: "0 \<le> x \<Longrightarrow> 0 \<le> y \<Longrightarrow> 0 \<le> fmul x y"
  by (simp add: fmul_def)

lemma fdiv_nonneg: "0 \<le> x \<Longrightarrow> 0 \<le> y \<Longrightarrow> 0 \<le> fdiv x y"
  by (simp add: fdiv_def)

lemma fsub_nonneg: "y \<le> x \<Longrightarrow> 0 \<le> fsub x y"
  by (simp add: fsub_def)

lemma fsub_le: "is_f64 x \<Longrightarrow> 0 \<le> y \<Longrightarrow> fsub x y \<le> x"
  using fl_mono [of "x - y" x] by (simp add: fsub_def is_f64_def)

lemma fadd_ge: "is_f64 x \<Longrightarrow> 0 \<le> y \<Longrightarrow> x \<le> fadd x y"
  using fl_mono [of x "x + y"] by (simp add: fadd_def is_f64_def)

lemma fadd_mono: "x \<le> x' \<Longrightarrow> y \<le> y' \<Longrightarrow> fadd x y \<le> fadd x' y'"
  by (simp add: fadd_def fl_mono)

lemma fmul_mono: "0 \<le> y \<Longrightarrow> x \<le> x' \<Longrightarrow> fmul x y \<le> fmul x' y"
  by (simp add: fmul_def fl_mono mult_right_mono)

lemma fl_le_of_int: "x \<le> of_int n \<Longrightarrow> \<bar>n\<bar> \<le> 2 ^ 53 \<Longrightarrow> fl x \<le> of_int n"
  using fl_mono [of x "of_int n"] by simp

lemma fl_ge_of_int: "of_int n \<le> x \<Longrightarrow> \<bar>n\<bar> \<le> 2 ^ 53 \<Longrightarrow> of_int n \<le> fl x"
  using fl_mono [of "of_int n" x] by simp

lemma go_quot_nonneg: "0 \<le> a \<Longrightarrow> 0 < b \<Longrightarrow> go_quot a b = a div b"
  by (simp add: go_quot_def)

lemma go_rem_nonneg: "0 \<le> a \<Longrightarrow> 0 < b \<Longrightarrow> go_rem a b = a mod b"
  by (simp add: go_rem_def go_quot_nonneg minus_div_mult_eq_mod)

lemma seconds_nonneg: "0 \<le> d \<Longrightarrow> 0 \<le> seconds d"
  by (simp add: seconds_def go_quot_nonneg go_rem_nonneg second_def fadd_nonneg fdiv_nonneg
      pos_imp_zdiv_nonneg_iff)

lemma seconds_whole:
  assumes "\<bar>n\<bar> \<le> 2 ^ 53" and "0 \<le> n"
  shows "seconds (n * second) = of_int n"
  using assms
  by (simp add: seconds_def go_quot_nonneg go_rem_nonneg second_def f_of_int_small fdiv_def fadd_def)

lemma seconds_0 [simp]: "seconds 0 = 0"
  using seconds_whole [of 0] by simp

subsection \<open>The rounding error\<close>

definition eps :: rat where
  "eps = 1 / 2 ^ 53"

lemma eps_pos [simp]: "0 < eps" "0 \<le> eps" "1 \<le> 1 + eps" "0 \<le> 1 + eps"
  by (simp_all add: eps_def)

lemma rnd_even_le_half: "of_int (rnd_even y) \<le> y + 1 / 2"
proof -
  have le: "of_int \<lfloor>y\<rfloor> \<le> y" by simp
  then have half: "of_int \<lfloor>y\<rfloor> \<le> y + 1 / 2" by linarith
  show ?thesis
  proof (cases "y - of_int \<lfloor>y\<rfloor> < 1 / 2")
    case True
    then show ?thesis using half by (simp add: rnd_even_def)
  next
    case False
    then have "of_int (\<lfloor>y\<rfloor> + 1) \<le> y + 1 / 2" by simp
    with False half show ?thesis by (simp add: rnd_even_def Let_def)
  qed
qed

lemma fl_upper:
  assumes "0 \<le> x"
  shows "fl x \<le> (1 + eps) * x"
proof (cases "x = 0")
  case True
  then show ?thesis by simp
next
  case False
  with assms have pos: "0 < x" by simp
  note b = expo_bounds [OF pos]
  let ?y = "x * 2 powi (52 - expo x)"
  have fl: "fl x = of_int (rnd_even ?y) * 2 powi (expo x - 52)"
    using pos by (simp add: fl_def)
  have "(2 :: rat) powi 52 = 2 powi expo x * 2 powi (52 - expo x)"
    by (simp add: power_int_add [symmetric] del: power_int_numeral)
  also have "\<dots> \<le> ?y" using b(1) by (intro mult_right_mono) auto
  finally have "2 ^ 52 \<le> ?y" by simp
  then have "1 / 2 \<le> eps * ?y" by (simp add: eps_def)
  then have "of_int (rnd_even ?y) \<le> (1 + eps) * ?y"
    using rnd_even_le_half [of ?y] by (simp add: algebra_simps)
  then have "fl x \<le> (1 + eps) * ?y * 2 powi (expo x - 52)"
    unfolding fl by (intro mult_right_mono) auto
  also have "\<dots> = (1 + eps) * x"
    using powi_cancel [of x "expo x"] by (simp add: mult.assoc)
  finally show ?thesis .
qed

lemma seconds_upper:
  assumes "0 \<le> d" and "d \<le> max_int64"
  shows "seconds d \<le> (1 + eps) ^ 2 * (of_int d / 10 ^ 9)"
proof -
  let ?q = "of_int (d div second) :: rat" and ?r = "of_int (d mod second) :: rat"
  have qr: "0 \<le> ?q" "0 \<le> ?r" using assms(1) by (simp_all add: second_def pos_imp_zdiv_nonneg_iff)
  have "d div second \<le> 2 ^ 53" "d mod second \<le> 2 ^ 53" "0 \<le> d div second" "0 \<le> d mod second"
  proof -
    have "d div second \<le> max_int64 div second"
      using assms(2) by (intro zdiv_mono1) (simp_all add: second_def)
    also have "\<dots> \<le> 2 ^ 53" by (simp add: max_int64_def second_def)
    finally show "d div second \<le> 2 ^ 53" .
    show "d mod second \<le> 2 ^ 53" using pos_mod_bound [of second d] by (simp add: second_def)
    show "0 \<le> d div second" "0 \<le> d mod second"
      using assms(1) by (simp_all add: second_def pos_imp_zdiv_nonneg_iff)
  qed
  then have "seconds d = fl (?q + fl (?r / 10 ^ 9))"
    using assms(1)
    by (simp add: seconds_def go_quot_nonneg go_rem_nonneg second_def f_of_int_small fdiv_def fadd_def)
  also have "\<dots> \<le> (1 + eps) * (?q + fl (?r / 10 ^ 9))"
    using qr by (intro fl_upper) auto
  also have "\<dots> \<le> (1 + eps) * (?q + (1 + eps) * (?r / 10 ^ 9))"
    using qr by (intro mult_left_mono add_left_mono fl_upper) auto
  also have "\<dots> \<le> (1 + eps) * ((1 + eps) * (?q + ?r / 10 ^ 9))"
    using qr by (intro mult_left_mono) (auto simp: algebra_simps)
  also have "?q + ?r / 10 ^ 9 = of_int d / 10 ^ 9"
  proof -
    have "(of_int d :: rat) = of_int (d div second * second + d mod second)" by simp
    also have "\<dots> = ?q * 10 ^ 9 + ?r" by (simp only: of_int_add of_int_mult) (simp add: second_def)
    finally have "of_int d = ?q * 10 ^ 9 + ?r" .
    then show ?thesis by (simp add: field_simps)
  qed
  finally show ?thesis by (simp add: power2_eq_square mult.assoc)
qed

end
