(* ===== verification/Config_Types.thy ===== *)
theory Config_Types
  imports Float64
begin

section \<open>The configuration (config/config.go)\<close>

text \<open>
  One record per Go struct of the configuration, fields in the order of the source, each field
  prefixed by a short name of its struct. A Go slice of strings is a list, a map an association
  list, a duration its nanoseconds, and \<open>zero_X\<close> is the zero value of a struct.
\<close>

record CloudflareConfig =
  cfl_Enabled :: bool
  cfl_APIToken :: string
  cfl_AccountID :: string
  cfl_Zones :: "(string, string) gomap"

record HTTP3Config =
  h3_Enabled :: bool
  h3_Port :: int
  h3_AltSvcHeader :: bool

record ServerConfig =
  srv_Listen :: string
  srv_HTTPListen :: string
  srv_ReadTimeout :: duration
  srv_WriteTimeout :: duration
  srv_IdleTimeout :: duration
  srv_MaxHeaderBytes :: int

record TLSConfig =
  tls_Enabled :: bool
  tls_CertFile :: string
  tls_KeyFile :: string
  tls_AutoCert :: bool
  tls_ACMEEmail :: string
  tls_MinVersion :: string

record UpstreamConfig =
  up_URL :: string
  up_Weight :: int

record DomainConfig =
  dom_Name :: string
  dom_Upstreams :: "UpstreamConfig list"
  dom_SSL :: bool
  dom_Owner :: string
  dom_RateLimitRPS :: int
  dom_RateLimitConn :: int
  dom_PoWDifficulty :: int
  dom_ProtectionMode :: string

record ProxyConfig =
  prx_ConnectTimeout :: duration
  prx_ResponseTimeout :: duration
  prx_MaxIdleConns :: int
  prx_MaxIdleConnsPerHost :: int
  prx_MaxConnsPerHost :: int
  prx_IdleConnTimeout :: duration
  prx_KeepAlive :: bool
  prx_WebSocket :: bool
  prx_DisableCompression :: bool
  prx_BufferSizeKB :: int

record RateLimitConfig =
  rl_Enabled :: bool
  rl_RequestsPerSecond :: int
  rl_Burst :: int
  rl_PerIP :: bool
  rl_Adaptive :: bool

record ConnLimitConfig =
  cl_MaxPerIP :: int
  cl_MaxTotal :: int

record ChallengeConfig =
  ch_PowDifficulty :: int
  ch_PowAdaptive :: bool
  ch_CookieTTL :: duration
  ch_CookieSecret :: string

record BanConfig =
  ban_Duration :: duration
  ban_MaxFails :: int
  ban_UseIptables :: bool

record EmergencyConfig =
  em_RPSThreshold :: int
  em_Duration :: duration
  em_AutoEnable :: bool

record ProtectionConfig =
  pr_Mode :: string
  pr_WhitelistIPs :: "string list"
  pr_TrustedProxies :: "string list"
  pr_RateLimit :: RateLimitConfig
  pr_ConnectionLimit :: ConnLimitConfig
  pr_Challenge :: ChallengeConfig
  pr_Ban :: BanConfig
  pr_Emergency :: EmergencyConfig

record JA3Config =
  ja3_Enabled :: bool
  ja3_BlockUnknown :: bool

record JA4Config =
  ja4_Enabled :: bool

record HTTP2FPConfig =
  h2fp_Enabled :: bool

record UAConfig =
  uac_Enabled :: bool
  uac_Strict :: bool

record FingerprintConfig =
  fpc_JA3 :: JA3Config
  fpc_JA4 :: JA4Config
  fpc_HTTP2 :: HTTP2FPConfig
  fpc_UAConsistency :: UAConfig

record GeoIPConfig =
  geo_Enabled :: bool
  geo_DBPath :: string
  geo_BlockedCountries :: "string list"
  geo_AllowedCountries :: "string list"

record IPReputationConfig =
  ipr_Enabled :: bool
  ipr_AbuseIPDBKey :: string
  ipr_CacheTTL :: duration

record ASNConfig =
  asn_Enabled :: bool
  asn_BlockDatacenter :: bool

record IntelConfig =
  itl_GeoIP :: GeoIPConfig
  itl_IPReputation :: IPReputationConfig
  itl_ASN :: ASNConfig

record BaselineConfig =
  bl_Enabled :: bool
  bl_LearningPeriod :: duration

record AnomalyConfig =
  an_Enabled :: bool
  an_Sensitivity :: f64

record BotClassConfig =
  bc_Enabled :: bool
  bc_ModelPath :: string

record SessionConfig =
  ses_Enabled :: bool
  ses_TTL :: duration

record DetectionConfig =
  det_Baseline :: BaselineConfig
  det_Anomaly :: AnomalyConfig
  det_BotClassifier :: BotClassConfig
  det_SessionTracking :: SessionConfig

record WAFConfig =
  waf_Enabled :: bool
  waf_OWASPRules :: bool
  waf_CustomRulesPath :: string
  waf_ParanoiaLevel :: int

record LoggingConfig =
  log_Level :: string
  log_Format :: string
  log_File :: string
  log_MaxSizeMB :: int
  log_MaxBackups :: int
  log_AttackLog :: string

record MetricsConfig =
  met_Enabled :: bool
  met_Listen :: string
  met_Path :: string

record DashboardConfig =
  dash_Enabled :: bool
  dash_Listen :: string
  dash_Username :: string
  dash_Password :: string
  dash_JWTSecret :: string

record TelegramConfig =
  tg_Enabled :: bool
  tg_Token :: string
  tg_ChatID :: string

record DiscordConfig =
  dc_Enabled :: bool
  dc_WebhookURL :: string

record WebhookConfig =
  wh_Enabled :: bool
  wh_URL :: string
  wh_Secret :: string

record AlertsConfig =
  al_Telegram :: TelegramConfig
  al_Discord :: DiscordConfig
  al_Webhook :: WebhookConfig

record CDNConfig =
  cdn_Enabled :: bool
  cdn_MemoryLimitMB :: int
  cdn_StaticExtensions :: "string list"
  cdn_BypassRules :: "string list"
  cdn_BypassCookies :: "string list"
  cdn_BypassHeaders :: "string list"

record ClusterConfig =
  clu_Enabled :: bool
  clu_NodeName :: string
  clu_BindPort :: int
  clu_AdvertiseIP :: string
  clu_CNAMETarget :: string
  clu_JoinPeers :: "string list"
  clu_SecretKey :: string

record XDPConfig =
  xdp_Enabled :: bool
  xdp_Interface :: string
  xdp_Mode :: string
  xdp_MapPinPath :: string
  xdp_AutoCompile :: bool
  xdp_AutoAttach :: bool

record Config =
  cfg_Server :: ServerConfig
  cfg_TLS :: TLSConfig
  cfg_Domains :: "DomainConfig list"
  cfg_Proxy :: ProxyConfig
  cfg_Protection :: ProtectionConfig
  cfg_Fingerprint :: FingerprintConfig
  cfg_Intelligence :: IntelConfig
  cfg_Detection :: DetectionConfig
  cfg_WAF :: WAFConfig
  cfg_Logging :: LoggingConfig
  cfg_Metrics :: MetricsConfig
  cfg_Dashboard :: DashboardConfig
  cfg_Alerts :: AlertsConfig
  cfg_CDN :: CDNConfig
  cfg_Cluster :: ClusterConfig
  cfg_XDP :: XDPConfig
  cfg_HTTP3 :: HTTP3Config
  cfg_Cloudflare :: CloudflareConfig

subsection \<open>Zero values\<close>

definition zero_CloudflareConfig :: CloudflareConfig where
  "zero_CloudflareConfig = \<lparr>cfl_Enabled = False,
     cfl_APIToken = [],
     cfl_AccountID = [],
     cfl_Zones = []\<rparr>"

definition zero_HTTP3Config :: HTTP3Config where
  "zero_HTTP3Config = \<lparr>h3_Enabled = False,
     h3_Port = 0,
     h3_AltSvcHeader = False\<rparr>"

definition zero_ServerConfig :: ServerConfig where
  "zero_ServerConfig = \<lparr>srv_Listen = [],
     srv_HTTPListen = [],
     srv_ReadTimeout = 0,
     srv_WriteTimeout = 0,
     srv_IdleTimeout = 0,
     srv_MaxHeaderBytes = 0\<rparr>"

definition zero_TLSConfig :: TLSConfig where
  "zero_TLSConfig = \<lparr>tls_Enabled = False,
     tls_CertFile = [],
     tls_KeyFile = [],
     tls_AutoCert = False,
     tls_ACMEEmail = [],
     tls_MinVersion = []\<rparr>"

definition zero_ProxyConfig :: ProxyConfig where
  "zero_ProxyConfig = \<lparr>prx_ConnectTimeout = 0,
     prx_ResponseTimeout = 0,
     prx_MaxIdleConns = 0,
     prx_MaxIdleConnsPerHost = 0,
     prx_MaxConnsPerHost = 0,
     prx_IdleConnTimeout = 0,
     prx_KeepAlive = False,
     prx_WebSocket = False,
     prx_DisableCompression = False,
     prx_BufferSizeKB = 0\<rparr>"

definition zero_RateLimitConfig :: RateLimitConfig where
  "zero_RateLimitConfig = \<lparr>rl_Enabled = False,
     rl_RequestsPerSecond = 0,
     rl_Burst = 0,
     rl_PerIP = False,
     rl_Adaptive = False\<rparr>"

definition zero_ConnLimitConfig :: ConnLimitConfig where
  "zero_ConnLimitConfig = \<lparr>cl_MaxPerIP = 0,
     cl_MaxTotal = 0\<rparr>"

definition zero_ChallengeConfig :: ChallengeConfig where
  "zero_ChallengeConfig = \<lparr>ch_PowDifficulty = 0,
     ch_PowAdaptive = False,
     ch_CookieTTL = 0,
     ch_CookieSecret = []\<rparr>"

definition zero_BanConfig :: BanConfig where
  "zero_BanConfig = \<lparr>ban_Duration = 0,
     ban_MaxFails = 0,
     ban_UseIptables = False\<rparr>"

definition zero_EmergencyConfig :: EmergencyConfig where
  "zero_EmergencyConfig = \<lparr>em_RPSThreshold = 0,
     em_Duration = 0,
     em_AutoEnable = False\<rparr>"

definition zero_ProtectionConfig :: ProtectionConfig where
  "zero_ProtectionConfig = \<lparr>pr_Mode = [],
     pr_WhitelistIPs = [],
     pr_TrustedProxies = [],
     pr_RateLimit = zero_RateLimitConfig,
     pr_ConnectionLimit = zero_ConnLimitConfig,
     pr_Challenge = zero_ChallengeConfig,
     pr_Ban = zero_BanConfig,
     pr_Emergency = zero_EmergencyConfig\<rparr>"

definition zero_JA3Config :: JA3Config where
  "zero_JA3Config = \<lparr>ja3_Enabled = False,
     ja3_BlockUnknown = False\<rparr>"

definition zero_JA4Config :: JA4Config where
  "zero_JA4Config = \<lparr>ja4_Enabled = False\<rparr>"

definition zero_HTTP2FPConfig :: HTTP2FPConfig where
  "zero_HTTP2FPConfig = \<lparr>h2fp_Enabled = False\<rparr>"

definition zero_UAConfig :: UAConfig where
  "zero_UAConfig = \<lparr>uac_Enabled = False,
     uac_Strict = False\<rparr>"

definition zero_FingerprintConfig :: FingerprintConfig where
  "zero_FingerprintConfig = \<lparr>fpc_JA3 = zero_JA3Config,
     fpc_JA4 = zero_JA4Config,
     fpc_HTTP2 = zero_HTTP2FPConfig,
     fpc_UAConsistency = zero_UAConfig\<rparr>"

definition zero_GeoIPConfig :: GeoIPConfig where
  "zero_GeoIPConfig = \<lparr>geo_Enabled = False,
     geo_DBPath = [],
     geo_BlockedCountries = [],
     geo_AllowedCountries = []\<rparr>"

definition zero_IPReputationConfig :: IPReputationConfig where
  "zero_IPReputationConfig = \<lparr>ipr_Enabled = False,
     ipr_AbuseIPDBKey = [],
     ipr_CacheTTL = 0\<rparr>"

definition zero_ASNConfig :: ASNConfig where
  "zero_ASNConfig = \<lparr>asn_Enabled = False,
     asn_BlockDatacenter = False\<rparr>"

definition zero_IntelConfig :: IntelConfig where
  "zero_IntelConfig = \<lparr>itl_GeoIP = zero_GeoIPConfig,
     itl_IPReputation = zero_IPReputationConfig,
     itl_ASN = zero_ASNConfig\<rparr>"

definition zero_BaselineConfig :: BaselineConfig where
  "zero_BaselineConfig = \<lparr>bl_Enabled = False,
     bl_LearningPeriod = 0\<rparr>"

definition zero_AnomalyConfig :: AnomalyConfig where
  "zero_AnomalyConfig = \<lparr>an_Enabled = False,
     an_Sensitivity = 0\<rparr>"

definition zero_BotClassConfig :: BotClassConfig where
  "zero_BotClassConfig = \<lparr>bc_Enabled = False,
     bc_ModelPath = []\<rparr>"

definition zero_SessionConfig :: SessionConfig where
  "zero_SessionConfig = \<lparr>ses_Enabled = False,
     ses_TTL = 0\<rparr>"

definition zero_DetectionConfig :: DetectionConfig where
  "zero_DetectionConfig = \<lparr>det_Baseline = zero_BaselineConfig,
     det_Anomaly = zero_AnomalyConfig,
     det_BotClassifier = zero_BotClassConfig,
     det_SessionTracking = zero_SessionConfig\<rparr>"

definition zero_WAFConfig :: WAFConfig where
  "zero_WAFConfig = \<lparr>waf_Enabled = False,
     waf_OWASPRules = False,
     waf_CustomRulesPath = [],
     waf_ParanoiaLevel = 0\<rparr>"

definition zero_LoggingConfig :: LoggingConfig where
  "zero_LoggingConfig = \<lparr>log_Level = [],
     log_Format = [],
     log_File = [],
     log_MaxSizeMB = 0,
     log_MaxBackups = 0,
     log_AttackLog = []\<rparr>"

definition zero_MetricsConfig :: MetricsConfig where
  "zero_MetricsConfig = \<lparr>met_Enabled = False,
     met_Listen = [],
     met_Path = []\<rparr>"

definition zero_DashboardConfig :: DashboardConfig where
  "zero_DashboardConfig = \<lparr>dash_Enabled = False,
     dash_Listen = [],
     dash_Username = [],
     dash_Password = [],
     dash_JWTSecret = []\<rparr>"

definition zero_TelegramConfig :: TelegramConfig where
  "zero_TelegramConfig = \<lparr>tg_Enabled = False,
     tg_Token = [],
     tg_ChatID = []\<rparr>"

definition zero_DiscordConfig :: DiscordConfig where
  "zero_DiscordConfig = \<lparr>dc_Enabled = False,
     dc_WebhookURL = []\<rparr>"

definition zero_WebhookConfig :: WebhookConfig where
  "zero_WebhookConfig = \<lparr>wh_Enabled = False,
     wh_URL = [],
     wh_Secret = []\<rparr>"

definition zero_AlertsConfig :: AlertsConfig where
  "zero_AlertsConfig = \<lparr>al_Telegram = zero_TelegramConfig,
     al_Discord = zero_DiscordConfig,
     al_Webhook = zero_WebhookConfig\<rparr>"

definition zero_CDNConfig :: CDNConfig where
  "zero_CDNConfig = \<lparr>cdn_Enabled = False,
     cdn_MemoryLimitMB = 0,
     cdn_StaticExtensions = [],
     cdn_BypassRules = [],
     cdn_BypassCookies = [],
     cdn_BypassHeaders = []\<rparr>"

definition zero_ClusterConfig :: ClusterConfig where
  "zero_ClusterConfig = \<lparr>clu_Enabled = False,
     clu_NodeName = [],
     clu_BindPort = 0,
     clu_AdvertiseIP = [],
     clu_CNAMETarget = [],
     clu_JoinPeers = [],
     clu_SecretKey = []\<rparr>"

definition zero_XDPConfig :: XDPConfig where
  "zero_XDPConfig = \<lparr>xdp_Enabled = False,
     xdp_Interface = [],
     xdp_Mode = [],
     xdp_MapPinPath = [],
     xdp_AutoCompile = False,
     xdp_AutoAttach = False\<rparr>"

definition zero_Config :: Config where
  "zero_Config = \<lparr>cfg_Server = zero_ServerConfig,
     cfg_TLS = zero_TLSConfig,
     cfg_Domains = [],
     cfg_Proxy = zero_ProxyConfig,
     cfg_Protection = zero_ProtectionConfig,
     cfg_Fingerprint = zero_FingerprintConfig,
     cfg_Intelligence = zero_IntelConfig,
     cfg_Detection = zero_DetectionConfig,
     cfg_WAF = zero_WAFConfig,
     cfg_Logging = zero_LoggingConfig,
     cfg_Metrics = zero_MetricsConfig,
     cfg_Dashboard = zero_DashboardConfig,
     cfg_Alerts = zero_AlertsConfig,
     cfg_CDN = zero_CDNConfig,
     cfg_Cluster = zero_ClusterConfig,
     cfg_XDP = zero_XDPConfig,
     cfg_HTTP3 = zero_HTTP3Config,
     cfg_Cloudflare = zero_CloudflareConfig\<rparr>"

end
