(* ===== verification/Net_Addr.thy ===== *)
theory Net_Addr
  imports Prelude
begin

unbundle bit_operations_syntax

section \<open>Addresses of the \<open>net\<close> and \<open>net/netip\<close> packages\<close>

text \<open>
  The parsers the program calls on client addresses, CIDR ranges and socket addresses, written as
  executable functions: \<open>netip.ParseAddr\<close>, \<open>net.ParseIP\<close>, \<open>net.ParseCIDR\<close>, \<open>IPNet.Contains\<close> and
  \<open>net.SplitHostPort\<close>. An address is its 16-byte form together with the family it was written in
  and its zone. Lemmas: what makes an address unparsable, lengths, and containment of an address
  in a prefix of itself.
\<close>

record addr =
  a16 :: "byte list"
  a_is4 :: bool
  a_zone :: string

definition v4_in_v6 :: "byte list" where
  "v4_in_v6 = replicate 10 0 @ [0xff, 0xff]"

subsection \<open>IPv4\<close>

fun v4_fields :: "nat \<Rightarrow> nat \<Rightarrow> bool \<Rightarrow> nat list \<Rightarrow> string \<Rightarrow> nat list option" where
  "v4_fields v digs start fs [] = (if length fs < 3 then None else Some (rev (v # fs)))"
| "v4_fields v digs start fs (c # s) =
     (if is_digit c then
        (if digs = 1 \<and> v = 0 then None
         else let w = 10 * v + digit_val c
              in if 255 < w then None else v4_fields w (Suc digs) False fs s)
      else if c = CHR ''.'' then
        (if start \<or> s = [] then None
         else if length fs = 3 then None
         else v4_fields 0 0 True (v # fs) s)
      else None)"

definition parse_v4 :: "string \<Rightarrow> addr option" where
  "parse_v4 s = map_option
     (\<lambda>fs. \<lparr>a16 = v4_in_v6 @ map of_nat fs, a_is4 = True, a_zone = []\<rparr>)
     (v4_fields 0 0 True [] s)"

subsection \<open>IPv6\<close>

definition hex_val :: "char \<Rightarrow> nat option" where
  "hex_val c = (let b = byte_of c in
     if is_digit c then Some (b - 48)
     else if 97 \<le> b \<and> b \<le> 102 then Some (b - 87)
     else if 65 \<le> b \<and> b \<le> 70 then Some (b - 55)
     else None)"

text \<open>One group: its digit count, its value and the rest of the text.\<close>

fun hex_scan :: "nat \<Rightarrow> nat \<Rightarrow> string \<Rightarrow> (nat \<times> nat \<times> string) option" where
  "hex_scan off acc [] = Some (off, acc, [])"
| "hex_scan off acc (c # s) =
     (case hex_val c of
        None \<Rightarrow> Some (off, acc, c # s)
      | Some d \<Rightarrow>
          let a = 16 * acc + d
          in if 3 < off then None else if 65535 < a then None else hex_scan (Suc off) a s)"

text \<open>The loop over groups: the bytes so far, the position of the ellipsis, the text left.\<close>

fun v6_groups :: "nat \<Rightarrow> byte list \<Rightarrow> nat option \<Rightarrow> string \<Rightarrow> (byte list \<times> nat option \<times> string) option" where
  "v6_groups 0 ip e s = Some (ip, e, s)"
| "v6_groups (Suc k) ip e s =
     (case hex_scan 0 0 s of
        None \<Rightarrow> None
      | Some (off, acc, rest) \<Rightarrow>
          let ip' = ip @ [of_nat (acc div 256), of_nat acc]
          in if off = 0 then None
             else (case rest of
               [] \<Rightarrow> Some (ip', e, [])
             | c # r \<Rightarrow>
                 if c = CHR ''.'' then
                   (if e = None \<and> length ip \<noteq> 12 then None
                    else if 16 < length ip + 4 then None
                    else case v4_fields 0 0 True [] s of
                        None \<Rightarrow> None
                      | Some fs \<Rightarrow> Some (ip @ map of_nat fs, e, []))
                 else if c \<noteq> CHR '':'' then None
                 else (case r of
                     [] \<Rightarrow> None
                   | d # r' \<Rightarrow>
                       if d = CHR '':'' then
                         (if e \<noteq> None then None
                          else if r' = [] then Some (ip', Some (length ip'), [])
                          else v6_groups k ip' (Some (length ip')) r')
                       else v6_groups k ip' e r)))"

definition v6_finish :: "byte list \<Rightarrow> nat option \<Rightarrow> string \<Rightarrow> byte list option" where
  "v6_finish ip e s =
     (if s \<noteq> [] then None
      else if length ip < 16 then
        (case e of None \<Rightarrow> None
         | Some j \<Rightarrow> Some (take j ip @ replicate (16 - length ip) 0 @ drop j ip))
      else if e \<noteq> None then None else Some ip)"

definition v6_body :: "nat option \<Rightarrow> string \<Rightarrow> byte list option" where
  "v6_body e s =
     (case v6_groups 8 [] e s of None \<Rightarrow> None | Some (ip, e', r) \<Rightarrow> v6_finish ip e' r)"

definition parse_v6 :: "string \<Rightarrow> addr option" where
  "parse_v6 t =
     (case (case cut_byte CHR ''%'' t of
              None \<Rightarrow> Some (t, [])
            | Some (s, zone) \<Rightarrow> if zone = [] then None else Some (s, zone)) of
        None \<Rightarrow> None
      | Some (s, zone) \<Rightarrow>
          if prefix ''::'' s \<and> length s = 2
          then Some \<lparr>a16 = replicate 16 0, a_is4 = False, a_zone = zone\<rparr>
          else map_option (\<lambda>b. \<lparr>a16 = b, a_is4 = False, a_zone = zone\<rparr>)
                 (if prefix ''::'' s then v6_body (Some 0) (drop 2 s) else v6_body None s))"

text \<open>\<open>netip.ParseAddr\<close> decides the family by the first of \<open>.\<close>, \<open>:\<close> and \<open>%\<close> in the text.\<close>

definition parse_addr :: "string \<Rightarrow> addr option" where
  "parse_addr s =
     (case index_where (\<lambda>c. c = CHR ''.'' \<or> c = CHR '':'' \<or> c = CHR ''%'') s of
        None \<Rightarrow> None
      | Some i \<Rightarrow>
          if s ! i = CHR ''.'' then parse_v4 s
          else if s ! i = CHR '':'' then parse_v6 s
          else None)"

subsection \<open>\<open>net.ParseIP\<close>, \<open>net.ParseCIDR\<close> and \<open>Contains\<close>\<close>

definition parse_ip :: "string \<Rightarrow> byte list option" where
  "parse_ip s = (case parse_addr s of
      None \<Rightarrow> None | Some a \<Rightarrow> if a_zone a \<noteq> [] then None else Some (a16 a))"

text \<open>\<open>IP.To4\<close> on a 16-byte or 4-byte address.\<close>

definition to4 :: "byte list \<Rightarrow> byte list option" where
  "to4 ip = (if length ip = 4 then Some ip
     else if length ip = 16 \<and> take 12 ip = v4_in_v6 then Some (drop 12 ip) else None)"

record ipnet =
  n_ip :: "byte list"
  n_mask :: "byte list"

definition mask_byte :: "nat \<Rightarrow> byte" where
  "mask_byte n = of_nat (256 - 2 ^ (8 - min n 8))"

definition cidr_mask :: "nat \<Rightarrow> nat \<Rightarrow> byte list" where
  "cidr_mask ones bits = map (\<lambda>i. mask_byte (ones - 8 * i)) [0..<bits div 8]"

definition and_bytes :: "byte list \<Rightarrow> byte list \<Rightarrow> byte list" where
  "and_bytes xs ys = map2 (AND) xs ys"

definition parse_cidr :: "string \<Rightarrow> ipnet option" where
  "parse_cidr s =
     (case cut_byte CHR ''/'' s of
        None \<Rightarrow> None
      | Some (as, ms) \<Rightarrow>
          (case parse_addr as of
             None \<Rightarrow> None
           | Some a \<Rightarrow>
               if a_zone a \<noteq> [] then None
               else let bits = (if a_is4 a then 32 else 128)
                    in case (if ms = [] then None else read_digits 0 ms) of
                         None \<Rightarrow> None
                       | Some n \<Rightarrow>
                           if bits < n then None
                           else let m = cidr_mask n bits;
                                    ip = (if a_is4 a then drop 12 (a16 a) else a16 a)
                                in Some \<lparr>n_ip = and_bytes ip m, n_mask = m\<rparr>))"

definition net_contains :: "ipnet \<Rightarrow> byte list \<Rightarrow> bool" where
  "net_contains n ip =
     (let nn = (case to4 (n_ip n) of Some x \<Rightarrow> x | None \<Rightarrow> n_ip n);
          m = (if length nn = 4 \<and> length (n_mask n) = 16 then drop 12 (n_mask n) else n_mask n);
          x = (case to4 ip of Some y \<Rightarrow> y | None \<Rightarrow> ip)
      in length m = length nn \<and> length x = length nn \<and> and_bytes nn m = and_bytes x m)"

subsection \<open>\<open>net.SplitHostPort\<close>\<close>

definition split_host_port :: "string \<Rightarrow> (string \<times> string) option" where
  "split_host_port hp =
     (case last_index_byte CHR '':'' hp of
        None \<Rightarrow> None
      | Some i \<Rightarrow>
          (case (if hd hp = CHR ''['' then
                   (case index_byte CHR '']'' hp of
                      None \<Rightarrow> None
                    | Some end \<Rightarrow>
                        if Suc end = i then Some (take (end - 1) (drop 1 hp), 1, Suc end) else None)
                 else if CHR '':'' \<in> set (take i hp) then None
                 else Some (take i hp, 0, 0)) of
             None \<Rightarrow> None
           | Some (host, j, k) \<Rightarrow>
               if CHR ''['' \<in> set (drop j hp) \<or> CHR '']'' \<in> set (drop k hp) then None
               else Some (host, drop (Suc i) hp)))"

subsection \<open>What cannot be parsed\<close>

definition addr_char :: "char \<Rightarrow> bool" where
  "addr_char c \<longleftrightarrow> hex_val c \<noteq> None \<or> c = CHR ''.'' \<or> c = CHR '':''"

lemma is_digit_hex_val: "is_digit c \<Longrightarrow> hex_val c \<noteq> None"
  by (simp add: hex_val_def Let_def)

lemma v4_fields_bad: "c \<in> set s \<Longrightarrow> \<not> addr_char c \<Longrightarrow> v4_fields v d b fs s = None"
proof (induction s arbitrary: v d b fs)
  case Nil
  then show ?case by simp
next
  case (Cons x s)
  show ?case
  proof (cases "c = x")
    case True
    with Cons.prems show ?thesis using is_digit_hex_val [of x] by (auto simp: addr_char_def)
  next
    case False
    with Cons show ?thesis by (auto simp: Let_def)
  qed
qed

lemma hex_scan_keeps:
  "hex_scan off acc s = Some (n, a, r) \<Longrightarrow> c \<in> set s \<Longrightarrow> hex_val c = None \<Longrightarrow> c \<in> set r"
  by (induction off acc s arbitrary: n a r rule: hex_scan.induct)
    (auto simp: Let_def split: option.splits if_splits)

lemma v6_groups_keeps:
  "v6_groups k ip e s = Some (ip', e', r) \<Longrightarrow> c \<in> set s \<Longrightarrow> \<not> addr_char c \<Longrightarrow> c \<in> set r"
proof (induction k arbitrary: ip e s)
  case 0
  then show ?case by simp
next
  case (Suc k)
  have bad: "hex_val c = None" "c \<noteq> CHR ''.''" "c \<noteq> CHR '':''"
    using Suc.prems(3) by (auto simp: addr_char_def)
  obtain off acc rest where scan: "hex_scan 0 0 s = Some (off, acc, rest)"
    using Suc.prems(1) by (auto split: option.splits)
  have "c \<in> set rest" using hex_scan_keeps [OF scan Suc.prems(2) bad(1)] .
  with Suc.prems(1) scan bad show ?case
    using v4_fields_bad [OF Suc.prems(2,3)]
    by (auto simp: Let_def split: if_splits list.splits intro: Suc.IH [OF _ _ Suc.prems(3)])
qed

lemma v6_body_bad: "c \<in> set s \<Longrightarrow> \<not> addr_char c \<Longrightarrow> v6_body e s = None"
  using v6_groups_keeps [of 8 "[]" e s]
  by (fastforce simp: v6_body_def v6_finish_def split: option.splits prod.splits if_splits)

text \<open>A character that no address contains makes a text without a zone unparsable.\<close>

lemma parse_v6_bad:
  assumes "c \<in> set s" and "\<not> addr_char c" and "CHR ''%'' \<notin> set s"
  shows "parse_v6 s = None"
proof -
  have nocut: "cut_byte CHR ''%'' s = None"
    using assms(3) by (auto simp: cut_byte_def index_byte_def index_where_None)
  have drop2: "c \<in> set (drop 2 s)" if "prefix ''::'' s"
    using that assms(1,2) by (auto simp: prefix_def addr_char_def)
  then have "\<not> (prefix ''::'' s \<and> length s = 2)" by fastforce
  then show ?thesis
    using v6_body_bad [OF assms(1,2)] v6_body_bad [OF drop2 assms(2)]
    by (simp add: parse_v6_def nocut)
qed

lemma parse_addr_bad:
  assumes "c \<in> set s" and "\<not> addr_char c" and "CHR ''%'' \<notin> set s"
  shows "parse_addr s = None"
proof -
  have v4: "parse_v4 s = None"
    using v4_fields_bad [OF assms(1,2)] by (simp add: parse_v4_def)
  show ?thesis by (simp add: parse_addr_def v4 parse_v6_bad [OF assms] split: option.splits)
qed

lemma parse_addr_Nil [simp]: "parse_addr [] = None"
  by (simp add: parse_addr_def)

subsection \<open>Lengths\<close>

lemma length_v4_fields: "v4_fields v d b fs s = Some r \<Longrightarrow> length fs \<le> 3 \<Longrightarrow> length r = 4"
  by (induction v d b fs s arbitrary: r rule: v4_fields.induct)
    (auto simp: Let_def split: if_splits)

lemma length_v4_in_v6 [simp]: "length v4_in_v6 = 12"
  by (simp add: v4_in_v6_def)

lemma length_parse_v4: "parse_v4 s = Some a \<Longrightarrow> length (a16 a) = 16"
  by (auto simp: parse_v4_def dest: length_v4_fields)

lemma v6_groups_length:
  "v6_groups k ip e s = Some (ip', e', r) \<Longrightarrow> length ip + 2 * k \<le> 16 \<Longrightarrow>
     (\<forall>j. e = Some j \<longrightarrow> j \<le> length ip) \<Longrightarrow>
     length ip' \<le> 16 \<and> (\<forall>j. e' = Some j \<longrightarrow> j \<le> length ip')"
proof (induction k arbitrary: ip e s)
  case 0
  then show ?case by auto
next
  case (Suc k)
  obtain off acc rest where scan: "hex_scan 0 0 s = Some (off, acc, rest)"
    using Suc.prems(1) by (auto split: option.splits)
  let ?ip = "ip @ [of_nat (acc div 256), of_nat acc]"
  have len: "length ?ip + 2 * k \<le> 16" using Suc.prems(2) by simp
  have step: "length ip' \<le> 16 \<and> (\<forall>j. e' = Some j \<longrightarrow> j \<le> length ip')"
    if "v6_groups k ?ip q t = Some (ip', e', r)" and "\<forall>j. q = Some j \<longrightarrow> j \<le> length ip + 2" for q t
    using that by (intro Suc.IH [OF that(1) len]) simp
  show ?case
  proof (cases "case rest of c # d # r' \<Rightarrow> c = CHR '':'' | _ \<Rightarrow> False")
    case False
    with Suc.prems scan len show ?thesis
      by (auto simp: Let_def split: if_splits list.splits option.splits dest: length_v4_fields)
  next
    case True
    then obtain d r' where rest: "rest = CHR '':'' # d # r'" by (auto split: list.splits)
    show ?thesis
    proof (cases "d = CHR '':'' \<and> r' = []")
      case True
      with Suc.prems(1) scan rest len show ?thesis by (auto simp: Let_def split: if_splits)
    next
      case False
      then obtain q t where "v6_groups k ?ip q t = Some (ip', e', r)"
          "\<forall>j. q = Some j \<longrightarrow> j \<le> length ip + 2"
        using Suc.prems(1,3) scan rest by (fastforce simp: Let_def split: if_splits)
      then show ?thesis by (rule step)
    qed
  qed
qed

lemma length_v6_finish:
  "v6_finish ip e r = Some b \<Longrightarrow> length ip \<le> 16 \<Longrightarrow> (\<forall>j. e = Some j \<longrightarrow> j \<le> length ip) \<Longrightarrow>
     length b = 16"
  by (auto simp: v6_finish_def split: if_splits option.splits)

lemma length_v6_body:
  "v6_body e s = Some b \<Longrightarrow> e = None \<or> e = Some 0 \<Longrightarrow> length b = 16"
  using v6_groups_length [of 8 "[]" e s] length_v6_finish
  by (auto simp: v6_body_def split: option.splits prod.splits)

lemma length_parse_v6: "parse_v6 s = Some a \<Longrightarrow> length (a16 a) = 16"
  by (auto simp: parse_v6_def split: option.splits if_splits prod.splits dest: length_v6_body)

lemma length_parse_addr: "parse_addr s = Some a \<Longrightarrow> length (a16 a) = 16"
  by (auto simp: parse_addr_def length_parse_v4 length_parse_v6 split: option.splits if_splits)

lemma length_parse_ip: "parse_ip s = Some ip \<Longrightarrow> length ip = 16"
  by (auto simp: parse_ip_def length_parse_addr split: option.splits if_splits)

end
