(* ===== verification/Hashes.thy ===== *)
theory Hashes
  imports Prelude
begin

unbundle bit_operations_syntax

section \<open>Hash functions of the standard library\<close>

text \<open>
  \<open>crypto/sha256\<close>, \<open>crypto/hmac\<close>, \<open>crypto/md5\<close> and \<open>encoding/hex\<close> as executable
  functions on byte lists, and the 32-bit FNV-1a loop that the program writes out by hand in three
  places. Lemmas: digest lengths, and that hexadecimal text has two known digits per byte.
\<close>

definition bytes_of :: "string \<Rightarrow> byte list" where
  "bytes_of s = map of_char s"

subsection \<open>Hexadecimal\<close>

definition hex_digit :: "nat \<Rightarrow> char" where
  "hex_digit d = (if d < 10 then char_of (48 + d) else char_of (87 + d))"

definition hex_byte :: "byte \<Rightarrow> string" where
  "hex_byte b = [hex_digit (unat b div 16), hex_digit (unat b mod 16)]"

text \<open>\<open>hex.EncodeToString\<close> and \<open>fmt.Sprintf("%x", _)\<close>.\<close>

definition hex_encode :: "byte list \<Rightarrow> string" where
  "hex_encode bs = concat (map hex_byte bs)"

lemma length_hex_encode [simp]: "length (hex_encode bs) = 2 * length bs"
  by (induction bs) (auto simp: hex_encode_def hex_byte_def)

definition hex_digits :: string where
  "hex_digits = ''0123456789abcdef''"

lemma hex_digit_in: "d < 16 \<Longrightarrow> hex_digit d \<in> set hex_digits"
proof -
  have "\<forall>d \<in> set [0..<16]. hex_digit d \<in> set hex_digits" by code_simp
  then show "d < 16 \<Longrightarrow> hex_digit d \<in> set hex_digits" by simp
qed

lemma hex_encode_chars: "set (hex_encode bs) \<subseteq> set hex_digits"
proof -
  have "unat b div 16 < 16" "unat b mod 16 < 16" for b :: byte
    using unat_byte [of b] by auto
  then show ?thesis by (fastforce simp: hex_encode_def hex_byte_def intro: hex_digit_in)
qed

subsection \<open>FNV-1a\<close>

definition fnv_step :: "u32 \<Rightarrow> byte \<Rightarrow> u32" where
  "fnv_step h b = (h XOR ucast b) * 16777619"

definition fnv1a :: "byte list \<Rightarrow> u32" where
  "fnv1a bs = foldl fnv_step 2166136261 bs"

subsection \<open>SHA-256\<close>

definition sha256_k :: "u32 list" where
  "sha256_k = [
    1116352408, 1899447441, 3049323471, 3921009573, 961987163, 1508970993, 2453635748,
    2870763221, 3624381080, 310598401, 607225278, 1426881987, 1925078388, 2162078206,
    2614888103, 3248222580, 3835390401, 4022224774, 264347078, 604807628, 770255983,
    1249150122, 1555081692, 1996064986, 2554220882, 2821834349, 2952996808, 3210313671,
    3336571891, 3584528711, 113926993, 338241895, 666307205, 773529912, 1294757372,
    1396182291, 1695183700, 1986661051, 2177026350, 2456956037, 2730485921, 2820302411,
    3259730800, 3345764771, 3516065817, 3600352804, 4094571909, 275423344, 430227734,
    506948616, 659060556, 883997877, 958139571, 1322822218, 1537002063, 1747873779,
    1955562222, 2024104815, 2227730452, 2361852424, 2428436474, 2756734187, 3204031479,
    3329325298]"

definition sha256_h0 :: "u32 list" where
  "sha256_h0 = [
    1779033703, 3144134277, 1013904242, 2773480762, 1359893119, 2600822924, 528734635,
    1541459225]"

definition be_bytes :: "nat \<Rightarrow> nat \<Rightarrow> byte list" where
  "be_bytes k n = map (\<lambda>i. of_nat (n div 256 ^ (k - 1 - i))) [0..<k]"

definition le_bytes :: "nat \<Rightarrow> nat \<Rightarrow> byte list" where
  "le_bytes k n = map (\<lambda>i. of_nat (n div 256 ^ i)) [0..<k]"

definition be_word :: "byte list \<Rightarrow> nat" where
  "be_word bs = foldl (\<lambda>a b. 256 * a + unat b) 0 bs"

definition le_word :: "byte list \<Rightarrow> nat" where
  "le_word bs = be_word (rev bs)"

fun chunks :: "nat \<Rightarrow> 'a list \<Rightarrow> 'a list list" where
  "chunks k xs = (if k = 0 \<or> xs = [] then [] else take k xs # chunks k (drop k xs))"

declare chunks.simps [simp del]

definition md_pad :: "byte list \<Rightarrow> byte list \<Rightarrow> byte list" where
  "md_pad len_field m =
     m @ [0x80] @ replicate ((119 - length m mod 64) mod 64) 0 @ len_field"

definition sha_sigma :: "nat \<Rightarrow> nat \<Rightarrow> nat \<Rightarrow> u32 \<Rightarrow> u32" where
  "sha_sigma a b c x = word_rotr a x XOR word_rotr b x XOR drop_bit c x"

definition sha_Sigma :: "nat \<Rightarrow> nat \<Rightarrow> nat \<Rightarrow> u32 \<Rightarrow> u32" where
  "sha_Sigma a b c x = word_rotr a x XOR word_rotr b x XOR word_rotr c x"

fun sha256_extend :: "nat \<Rightarrow> u32 list \<Rightarrow> u32 list" where
  "sha256_extend 0 w = w"
| "sha256_extend (Suc n) w =
     (let t = length w
      in sha256_extend n (w @ [sha_sigma 17 19 10 (w ! (t - 2)) + w ! (t - 7)
           + sha_sigma 7 18 3 (w ! (t - 15)) + w ! (t - 16)]))"

type_synonym sha_state = "u32 \<times> u32 \<times> u32 \<times> u32 \<times> u32 \<times> u32 \<times> u32 \<times> u32"

definition sha256_round :: "sha_state \<Rightarrow> u32 \<times> u32 \<Rightarrow> sha_state" where
  "sha256_round s kw = (case s of (a, b, c, d, e, f, g, h) \<Rightarrow>
     let t1 = h + sha_Sigma 6 11 25 e + ((e AND f) XOR (NOT e AND g)) + fst kw + snd kw;
         t2 = sha_Sigma 2 13 22 a + ((a AND b) XOR (a AND c) XOR (b AND c))
     in (t1 + t2, a, b, c, d + t1, e, f, g))"

definition sha256_block :: "u32 list \<Rightarrow> byte list \<Rightarrow> u32 list" where
  "sha256_block hs blk =
     (let w = sha256_extend 48 (map (\<lambda>b. of_nat (be_word b)) (chunks 4 blk));
          (a, b, c, d, e, f, g, h) =
            foldl sha256_round
              (hs ! 0, hs ! 1, hs ! 2, hs ! 3, hs ! 4, hs ! 5, hs ! 6, hs ! 7) (zip sha256_k w)
      in [hs ! 0 + a, hs ! 1 + b, hs ! 2 + c, hs ! 3 + d,
          hs ! 4 + e, hs ! 5 + f, hs ! 6 + g, hs ! 7 + h])"

definition sha256 :: "byte list \<Rightarrow> byte list" where
  "sha256 m =
     concat (map (\<lambda>x. be_bytes 4 (unat x))
       (foldl sha256_block sha256_h0 (chunks 64 (md_pad (be_bytes 8 (8 * length m)) m))))"

subsection \<open>HMAC-SHA-256\<close>

definition hmac_key :: "byte list \<Rightarrow> byte list" where
  "hmac_key k = (let k' = (if 64 < length k then sha256 k else k)
                 in k' @ replicate (64 - length k') 0)"

definition hmac_sha256 :: "byte list \<Rightarrow> byte list \<Rightarrow> byte list" where
  "hmac_sha256 k m =
     (let key = hmac_key k
      in sha256 (map (\<lambda>b. b XOR 0x5c) key @ sha256 (map (\<lambda>b. b XOR 0x36) key @ m)))"

subsection \<open>MD5\<close>

definition md5_k :: "u32 list" where
  "md5_k = [
    3614090360, 3905402710, 606105819, 3250441966, 4118548399, 1200080426, 2821735955,
    4249261313, 1770035416, 2336552879, 4294925233, 2304563134, 1804603682, 4254626195,
    2792965006, 1236535329, 4129170786, 3225465664, 643717713, 3921069994, 3593408605,
    38016083, 3634488961, 3889429448, 568446438, 3275163606, 4107603335, 1163531501,
    2850285829, 4243563512, 1735328473, 2368359562, 4294588738, 2272392833, 1839030562,
    4259657740, 2763975236, 1272893353, 4139469664, 3200236656, 681279174, 3936430074,
    3572445317, 76029189, 3654602809, 3873151461, 530742520, 3299628645, 4096336452,
    1126891415, 2878612391, 4237533241, 1700485571, 2399980690, 4293915773, 2240044497,
    1873313359, 4264355552, 2734768916, 1309151649, 4149444226, 3174756917, 718787259,
    3951481745]"

definition md5_s :: "nat list" where
  "md5_s = concat (replicate 4 [7, 12, 17, 22]) @ concat (replicate 4 [5, 9, 14, 20])
     @ concat (replicate 4 [4, 11, 16, 23]) @ concat (replicate 4 [6, 10, 15, 21])"

definition md5_round :: "u32 list \<Rightarrow> u32 \<times> u32 \<times> u32 \<times> u32 \<Rightarrow> nat \<Rightarrow> u32 \<times> u32 \<times> u32 \<times> u32" where
  "md5_round m s i = (case s of (a, b, c, d) \<Rightarrow>
     let (f, g) =
           (if i < 16 then ((b AND c) OR (NOT b AND d), i)
            else if i < 32 then ((d AND b) OR (NOT d AND c), (5 * i + 1) mod 16)
            else if i < 48 then (b XOR c XOR d, (3 * i + 5) mod 16)
            else (c XOR (b OR NOT d), (7 * i) mod 16))
     in (d, b + word_rotl (md5_s ! i) (f + a + md5_k ! i + m ! g), b, c))"

definition md5_block :: "u32 list \<Rightarrow> byte list \<Rightarrow> u32 list" where
  "md5_block hs blk =
     (let m = map (\<lambda>b. of_nat (le_word b)) (chunks 4 blk);
          (a, b, c, d) = foldl (md5_round m) (hs ! 0, hs ! 1, hs ! 2, hs ! 3) [0..<64]
      in [hs ! 0 + a, hs ! 1 + b, hs ! 2 + c, hs ! 3 + d])"

definition md5_h0 :: "u32 list" where
  "md5_h0 = [0x67452301, 0xefcdab89, 0x98badcfe, 0x10325476]"

definition md5 :: "byte list \<Rightarrow> byte list" where
  "md5 m =
     concat (map (\<lambda>x. le_bytes 4 (unat x))
       (foldl md5_block md5_h0 (chunks 64 (md_pad (le_bytes 8 (8 * length m)) m))))"

subsection \<open>Digest lengths\<close>

lemma length_be_bytes [simp]: "length (be_bytes k n) = k"
  by (simp add: be_bytes_def)

lemma length_le_bytes [simp]: "length (le_bytes k n) = k"
  by (simp add: le_bytes_def)

lemma length_concat_const: "(\<And>x. x \<in> set xs \<Longrightarrow> length (f x) = k) \<Longrightarrow> length (concat (map f xs)) = k * length xs"
  by (induction xs) auto

lemma length_foldl_block:
  assumes "\<And>hs b. length (f hs b) = n" and "length h0 = n"
  shows "length (foldl f h0 bs) = n"
  using assms(2) by (induction bs arbitrary: h0) (auto simp: assms(1))

lemma length_sha256 [simp]: "length (sha256 m) = 32"
proof -
  have "length (foldl sha256_block sha256_h0 bs) = 8" for bs
    by (rule length_foldl_block) (auto simp: sha256_block_def sha256_h0_def Let_def split: prod.split)
  then show ?thesis by (simp add: sha256_def length_concat_const [where k = 4])
qed

lemma length_md5 [simp]: "length (md5 m) = 16"
proof -
  have "length (foldl md5_block md5_h0 bs) = 4" for bs
    by (rule length_foldl_block) (auto simp: md5_block_def md5_h0_def Let_def split: prod.split)
  then show ?thesis by (simp add: md5_def length_concat_const [where k = 4])
qed

lemma length_hmac_sha256 [simp]: "length (hmac_sha256 k m) = 32"
  by (simp add: hmac_sha256_def Let_def)

end
