(* ===== verification/Config_Load.thy ===== *)
theory Config_Load
  imports Config_Types Net_Addr Hashes
begin

section \<open>Defaults and validation (config/config.go)\<close>

text \<open>
  \<open>setDefaults\<close> fills the zero fields section by section, \<open>validate\<close> accepts or names the first
  error, \<open>load_config\<close> is their composition as \<open>Load\<close> makes it. The decoding of the YAML file is the
  work of a library and is the argument of \<open>load_config\<close>; the random bytes of the two generated
  secrets are arguments too. Lemmas: the defaults are idempotent, and what every loaded
  configuration satisfies.
\<close>

definition or_zero :: "'a::zero \<Rightarrow> 'a \<Rightarrow> 'a" where
  "or_zero d x = (if x = 0 then d else x)"

definition or_empty :: "string \<Rightarrow> string \<Rightarrow> string" where
  "or_empty d s = (if s = [] then d else s)"

definition randomHex :: "byte list \<Rightarrow> string" where
  "randomHex b = hex_encode b"

definition server_defaults :: "ServerConfig \<Rightarrow> ServerConfig" where
  "server_defaults s = s\<lparr>
     srv_Listen := or_empty ''0.0.0.0:443'' (srv_Listen s),
     srv_HTTPListen := or_empty ''0.0.0.0:80'' (srv_HTTPListen s),
     srv_ReadTimeout := or_zero (10 * second) (srv_ReadTimeout s),
     srv_WriteTimeout := or_zero (30 * second) (srv_WriteTimeout s),
     srv_IdleTimeout := or_zero (30 * second) (srv_IdleTimeout s),
     srv_MaxHeaderBytes := or_zero 65536 (srv_MaxHeaderBytes s)\<rparr>"

definition proxy_defaults :: "ProxyConfig \<Rightarrow> ProxyConfig" where
  "proxy_defaults p = p\<lparr>
     prx_ConnectTimeout := or_zero (3 * second) (prx_ConnectTimeout p),
     prx_ResponseTimeout := or_zero (5 * second) (prx_ResponseTimeout p),
     prx_MaxIdleConns := or_zero 20000 (prx_MaxIdleConns p),
     prx_MaxIdleConnsPerHost := or_zero 5000 (prx_MaxIdleConnsPerHost p),
     prx_IdleConnTimeout := or_zero (90 * second) (prx_IdleConnTimeout p),
     prx_BufferSizeKB := or_zero 64 (prx_BufferSizeKB p)\<rparr>"

definition rate_limit_defaults :: "RateLimitConfig \<Rightarrow> RateLimitConfig" where
  "rate_limit_defaults r = r\<lparr>
     rl_RequestsPerSecond := or_zero 50 (rl_RequestsPerSecond r),
     rl_Burst := or_zero 100 (rl_Burst r)\<rparr>"

definition conn_limit_defaults :: "ConnLimitConfig \<Rightarrow> ConnLimitConfig" where
  "conn_limit_defaults c = c\<lparr>
     cl_MaxPerIP := or_zero 50 (cl_MaxPerIP c),
     cl_MaxTotal := or_zero 10000 (cl_MaxTotal c)\<rparr>"

definition challenge_defaults :: "byte list \<Rightarrow> ChallengeConfig \<Rightarrow> ChallengeConfig" where
  "challenge_defaults rnd c = c\<lparr>
     ch_PowDifficulty := or_zero 3 (ch_PowDifficulty c),
     ch_CookieTTL := or_zero (30 * minute) (ch_CookieTTL c),
     ch_CookieSecret := or_empty (randomHex rnd) (ch_CookieSecret c)\<rparr>"

definition ban_defaults :: "BanConfig \<Rightarrow> BanConfig" where
  "ban_defaults b = b\<lparr>
     ban_Duration := or_zero (2 * hour) (ban_Duration b),
     ban_MaxFails := or_zero 3 (ban_MaxFails b)\<rparr>"

definition emergency_defaults :: "EmergencyConfig \<Rightarrow> EmergencyConfig" where
  "emergency_defaults e = e\<lparr>
     em_RPSThreshold := or_zero 200 (em_RPSThreshold e),
     em_Duration := or_zero (30 * second) (em_Duration e)\<rparr>"

definition protection_defaults :: "byte list \<Rightarrow> ProtectionConfig \<Rightarrow> ProtectionConfig" where
  "protection_defaults rnd p = p\<lparr>
     pr_Mode := or_empty ''auto'' (pr_Mode p),
     pr_RateLimit := rate_limit_defaults (pr_RateLimit p),
     pr_ConnectionLimit := conn_limit_defaults (pr_ConnectionLimit p),
     pr_Challenge := challenge_defaults rnd (pr_Challenge p),
     pr_Ban := ban_defaults (pr_Ban p),
     pr_Emergency := emergency_defaults (pr_Emergency p)\<rparr>"

text \<open>\<open>0.7\<close> is the nearest \<open>float64\<close> of the decimal.\<close>

definition detection_defaults :: "DetectionConfig \<Rightarrow> DetectionConfig" where
  "detection_defaults d = d\<lparr>
     det_Anomaly := (det_Anomaly d)\<lparr>an_Sensitivity := or_zero (fl (7/10)) (an_Sensitivity (det_Anomaly d))\<rparr>,
     det_Baseline := (det_Baseline d)\<lparr>bl_LearningPeriod := or_zero (24 * hour) (bl_LearningPeriod (det_Baseline d))\<rparr>,
     det_SessionTracking :=
       (det_SessionTracking d)\<lparr>ses_TTL := or_zero (30 * minute) (ses_TTL (det_SessionTracking d))\<rparr>\<rparr>"

definition logging_defaults :: "LoggingConfig \<Rightarrow> LoggingConfig" where
  "logging_defaults l = l\<lparr>
     log_Level := or_empty ''info'' (log_Level l),
     log_Format := or_empty ''json'' (log_Format l),
     log_MaxSizeMB := or_zero 100 (log_MaxSizeMB l),
     log_MaxBackups := or_zero 5 (log_MaxBackups l)\<rparr>"

definition dashboard_defaults :: "byte list \<Rightarrow> DashboardConfig \<Rightarrow> DashboardConfig" where
  "dashboard_defaults rnd d = d\<lparr>
     dash_JWTSecret := or_empty (randomHex rnd) (dash_JWTSecret d),
     dash_Username := or_empty ''admin'' (dash_Username d),
     dash_Password := or_empty ''admin123_change_in_production'' (dash_Password d)\<rparr>"

definition xdp_defaults :: "XDPConfig \<Rightarrow> XDPConfig" where
  "xdp_defaults x = x\<lparr>
     xdp_Interface := or_empty ''eth0'' (xdp_Interface x),
     xdp_Mode := or_empty ''skb'' (xdp_Mode x),
     xdp_MapPinPath := or_empty ''/sys/fs/bpf/mango_blacklist'' (xdp_MapPinPath x)\<rparr>"

definition setDefaults :: "byte list \<Rightarrow> byte list \<Rightarrow> Config \<Rightarrow> Config" where
  "setDefaults rnd1 rnd2 c = c\<lparr>
     cfg_Server := server_defaults (cfg_Server c),
     cfg_Proxy := proxy_defaults (cfg_Proxy c),
     cfg_Protection := protection_defaults rnd1 (cfg_Protection c),
     cfg_Detection := detection_defaults (cfg_Detection c),
     cfg_Logging := logging_defaults (cfg_Logging c),
     cfg_Dashboard := dashboard_defaults rnd2 (cfg_Dashboard c),
     cfg_WAF := (cfg_WAF c)\<lparr>waf_ParanoiaLevel := or_zero 1 (waf_ParanoiaLevel (cfg_WAF c))\<rparr>,
     cfg_XDP := xdp_defaults (cfg_XDP c),
     cfg_HTTP3 := (cfg_HTTP3 c)\<lparr>h3_Port := or_zero 443 (h3_Port (cfg_HTTP3 c))\<rparr>\<rparr>"

subsection \<open>Validation\<close>

datatype config_error =
    NoDomain
  | DomainNameRequired nat
  | DomainNoUpstream string
  | ThresholdTooLow
  | InvalidMode string
  | InvalidProxyCIDR string
  | PowOutOfRange int

definition validModes :: "string list" where
  "validModes = [''auto'', ''challenge'', ''captcha'', ''block'', ''monitor'', ''emergency'', ''off'',
     ''silent'', ''under_attack'']"

fun check_domains :: "nat \<Rightarrow> DomainConfig list \<Rightarrow> config_error option" where
  "check_domains i [] = None"
| "check_domains i (d # ds) =
     (if dom_Name d = [] then Some (DomainNameRequired i)
      else if dom_Upstreams d = [] then Some (DomainNoUpstream (dom_Name d))
      else check_domains (Suc i) ds)"

fun check_proxies :: "string list \<Rightarrow> config_error option" where
  "check_proxies [] = None"
| "check_proxies (p # ps) =
     (let p' = (if str_contains p ''/'' then p else p @ ''/32'')
      in if parse_cidr p' = None then Some (InvalidProxyCIDR p') else check_proxies ps)"

definition validate :: "Config \<Rightarrow> config_error option" where
  "validate c =
     (if cfg_Domains c = [] then Some NoDomain
      else case check_domains 0 (cfg_Domains c) of
        Some e \<Rightarrow> Some e
      | None \<Rightarrow>
          let p = cfg_Protection c; pow = ch_PowDifficulty (pr_Challenge p)
          in if em_RPSThreshold (pr_Emergency p) < 10 then Some ThresholdTooLow
             else if to_lower (pr_Mode p) \<notin> set validModes then Some (InvalidMode (pr_Mode p))
             else case check_proxies (pr_TrustedProxies p) of
               Some e \<Rightarrow> Some e
             | None \<Rightarrow> if pow < 1 \<or> 10 < pow then Some (PowOutOfRange pow) else None)"

datatype load_error = ReadError | ValidateError config_error

definition load_config ::
  "(string \<Rightarrow> Config option) \<Rightarrow> byte list \<Rightarrow> byte list \<Rightarrow> string \<Rightarrow> load_error + Config" where
  "load_config decode rnd1 rnd2 path =
     (case decode path of
        None \<Rightarrow> Inl ReadError
      | Some c \<Rightarrow>
          let c' = setDefaults rnd1 rnd2 c
          in case validate c' of Some e \<Rightarrow> Inl (ValidateError e) | None \<Rightarrow> Inr c')"

subsection \<open>Lemmas\<close>

lemma or_zero_idem [simp]: "or_zero d (or_zero d x) = or_zero d x"
  by (simp add: or_zero_def)

lemma or_zero_other: "d \<noteq> 0 \<Longrightarrow> or_zero d' (or_zero d x) = or_zero d x"
  by (simp add: or_zero_def)

lemma or_zero_ne [simp]: "d \<noteq> 0 \<Longrightarrow> or_zero d x \<noteq> 0"
  by (simp add: or_zero_def)

lemma or_empty_ne [simp]: "d \<noteq> [] \<Longrightarrow> or_empty d s \<noteq> []"
  by (simp add: or_empty_def)

lemma or_empty_again [simp]: "d \<noteq> [] \<Longrightarrow> or_empty d' (or_empty d s) = or_empty d s"
  by (simp add: or_empty_def)

lemma or_zero_keep: "x \<noteq> 0 \<Longrightarrow> or_zero d x = x"
  by (simp add: or_zero_def)

lemma or_empty_keep: "s \<noteq> [] \<Longrightarrow> or_empty d s = s"
  by (simp add: or_empty_def)

lemmas default_defs = server_defaults_def proxy_defaults_def rate_limit_defaults_def
  conn_limit_defaults_def challenge_defaults_def ban_defaults_def emergency_defaults_def
  protection_defaults_def detection_defaults_def logging_defaults_def dashboard_defaults_def
  xdp_defaults_def

lemma section_defaults_idem [simp]:
  "server_defaults (server_defaults s) = server_defaults s"
  "proxy_defaults (proxy_defaults p) = proxy_defaults p"
  "rate_limit_defaults (rate_limit_defaults r) = rate_limit_defaults r"
  "conn_limit_defaults (conn_limit_defaults c) = conn_limit_defaults c"
  "ban_defaults (ban_defaults b) = ban_defaults b"
  "emergency_defaults (emergency_defaults e) = emergency_defaults e"
  "detection_defaults (detection_defaults d) = detection_defaults d"
  "logging_defaults (logging_defaults l) = logging_defaults l"
  "xdp_defaults (xdp_defaults x) = xdp_defaults x"
  by (simp_all add: default_defs)

lemma randomHex_ne [simp]: "rnd \<noteq> [] \<Longrightarrow> randomHex rnd \<noteq> []"
  using length_hex_encode [of rnd] by (auto simp: randomHex_def simp del: length_hex_encode)

lemma secret_defaults_again [simp]:
  assumes "rnd \<noteq> []"
  shows "challenge_defaults rnd' (challenge_defaults rnd c) = challenge_defaults rnd c"
    and "dashboard_defaults rnd' (dashboard_defaults rnd d) = dashboard_defaults rnd d"
    and "protection_defaults rnd' (protection_defaults rnd p) = protection_defaults rnd p"
  using assms by (simp_all add: challenge_defaults_def dashboard_defaults_def protection_defaults_def)

lemma check_domains_None:
  "check_domains i ds = None \<longleftrightarrow> (\<forall>d \<in> set ds. dom_Name d \<noteq> [] \<and> dom_Upstreams d \<noteq> [])"
  by (induction i ds rule: check_domains.induct) auto

lemma check_proxies_None:
  "check_proxies ps = None \<longleftrightarrow>
     (\<forall>p \<in> set ps. parse_cidr (if str_contains p ''/'' then p else p @ ''/32'') \<noteq> None)"
  by (induction ps rule: check_proxies.induct) (auto simp: Let_def)

lemma validate_None_iff:
  "validate c = None \<longleftrightarrow>
     cfg_Domains c \<noteq> [] \<and> (\<forall>d \<in> set (cfg_Domains c). dom_Name d \<noteq> [] \<and> dom_Upstreams d \<noteq> []) \<and>
     10 \<le> em_RPSThreshold (pr_Emergency (cfg_Protection c)) \<and>
     to_lower (pr_Mode (cfg_Protection c)) \<in> set validModes \<and>
     check_proxies (pr_TrustedProxies (cfg_Protection c)) = None \<and>
     1 \<le> ch_PowDifficulty (pr_Challenge (cfg_Protection c)) \<and>
     ch_PowDifficulty (pr_Challenge (cfg_Protection c)) \<le> 10"
  using check_domains_None [of 0 "cfg_Domains c"]
  by (auto simp: validate_def Let_def split: option.splits)

lemma load_config_Inr:
  "load_config decode rnd1 rnd2 path = Inr c \<longleftrightarrow>
     (\<exists>c0. decode path = Some c0 \<and> c = setDefaults rnd1 rnd2 c0 \<and> validate c = None)"
  by (auto simp: load_config_def Let_def split: option.splits)

lemma setDefaults_fields:
  "cfg_Domains (setDefaults r1 r2 c) = cfg_Domains c"
  "cfg_Protection (setDefaults r1 r2 c) = protection_defaults r1 (cfg_Protection c)"
  "cfg_Cluster (setDefaults r1 r2 c) = cfg_Cluster c"
  by (simp_all add: setDefaults_def)

subsection \<open>Properties\<close>

text \<open>
  C20: Every configuration that \<open>Load\<close> returns has at least one domain, each with a name and an
  upstream, an emergency threshold of at least 10, a PoW difficulty from 1 to 10, a non-empty cookie
  secret and JWT secret, a non-zero request rate and connection limit, parsable trusted proxies, and
  a protection mode that is one of the nine modes up to case; and its defaults are a fixed point, so
  loading what was loaded changes nothing, whatever the random bytes.
\<close>

theorem loaded_config_valid:
  assumes "load_config decode rnd1 rnd2 path = Inr c" and "rnd1 \<noteq> []" and "rnd2 \<noteq> []"
  shows "cfg_Domains c \<noteq> [] \<and> (\<forall>d \<in> set (cfg_Domains c). dom_Name d \<noteq> [] \<and> dom_Upstreams d \<noteq> []) \<and>
    10 \<le> em_RPSThreshold (pr_Emergency (cfg_Protection c)) \<and>
    1 \<le> ch_PowDifficulty (pr_Challenge (cfg_Protection c)) \<and>
    ch_PowDifficulty (pr_Challenge (cfg_Protection c)) \<le> 10 \<and>
    ch_CookieSecret (pr_Challenge (cfg_Protection c)) \<noteq> [] \<and> dash_JWTSecret (cfg_Dashboard c) \<noteq> [] \<and>
    rl_RequestsPerSecond (pr_RateLimit (cfg_Protection c)) \<noteq> 0 \<and>
    cl_MaxPerIP (pr_ConnectionLimit (cfg_Protection c)) \<noteq> 0 \<and>
    (\<forall>p \<in> set (pr_TrustedProxies (cfg_Protection c)).
       parse_cidr (if str_contains p ''/'' then p else p @ ''/32'') \<noteq> None) \<and>
    to_lower (pr_Mode (cfg_Protection c)) \<in> set validModes \<and>
    setDefaults rnd1' rnd2' c = c"
proof -
  obtain c0 where c: "c = setDefaults rnd1 rnd2 c0" and v: "validate c = None"
    using assms(1) by (auto simp: load_config_Inr)
  have "ch_CookieSecret (pr_Challenge (cfg_Protection c)) \<noteq> []" "dash_JWTSecret (cfg_Dashboard c) \<noteq> []"
    "rl_RequestsPerSecond (pr_RateLimit (cfg_Protection c)) \<noteq> 0"
    "cl_MaxPerIP (pr_ConnectionLimit (cfg_Protection c)) \<noteq> 0"
    using assms(2,3) by (simp_all add: c setDefaults_def default_defs)
  moreover have "setDefaults rnd1' rnd2' c = c"
    using assms(2,3) by (simp add: c setDefaults_def)
  ultimately show ?thesis
    using v by (simp add: validate_None_iff check_proxies_None)
qed

definition demo_config :: Config where
  "demo_config = zero_Config\<lparr>cfg_Domains := [\<lparr>dom_Name = ''a.io'',
     dom_Upstreams = [\<lparr>up_URL = ''http://10.0.0.1'', up_Weight = 1\<rparr>], dom_SSL = False, dom_Owner = [],
     dom_RateLimitRPS = 0, dom_RateLimitConn = 0, dom_PoWDifficulty = 0, dom_ProtectionMode = []\<rparr>]\<rparr>"

lemma demo_config_loads:
  "load_config (\<lambda>p. Some demo_config) [1] [2] ''c.yaml'' = Inr (setDefaults [1] [2] demo_config)"
proof -
  have "validate (setDefaults [1] [2] demo_config) = None"
    by code_simp
  then show ?thesis by (auto simp: load_config_Inr)
qed

theorem loaded_config_valid_witness:
  "setDefaults [7] [8] (setDefaults [1] [2] demo_config) = setDefaults [1] [2] demo_config \<and>
   ch_CookieSecret (pr_Challenge (cfg_Protection (setDefaults [1] [2] demo_config))) \<noteq> []"
  using loaded_config_valid [OF demo_config_loads, of "[7]" "[8]"] by simp

end
