(* ===== verification/Config_Center.thy ===== *)
theory Config_Center
  imports Config_Load
begin

section \<open>The configuration center (config/center.go)\<close>

text \<open>
  \<open>ConfigCenter\<close> is the single source of the running configuration: it validates a YAML text, keeps
  every accepted text as a numbered revision on disk, applies it through the reload hooks and rolls
  back when a hook fails. The state is the record of the struct (its hooks as functions on a world of
  their own), the disk a map from paths to contents, and \<open>writable\<close> says which paths the process may
  write. Decoding and encoding YAML is the work of a library: \<open>unm\<close> and \<open>mar\<close> are arguments. The two
  JSON index files are stored as the lists they encode. Lemmas: what a save changes on each of its
  outcomes, restoring revisions and backups, and the two texts a diff consists of.
\<close>

subsection \<open>Paths\<close>

fun split_at :: "char \<Rightarrow> string \<Rightarrow> string list" where
  "split_at c [] = [[]]"
| "split_at c (d # s) =
     (if d = c then [] # split_at c s
      else case split_at c s of [] \<Rightarrow> [[d]] | x # xs \<Rightarrow> (d # x) # xs)"

lemma split_at_ne [simp]: "split_at c s \<noteq> []"
  by (induction s) (auto split: list.splits)

lemma join_split_at [simp]: "join_with [c] (split_at c s) = s"
proof (induction s)
  case Nil
  then show ?case by simp
next
  case (Cons d s)
  obtain x xs where sp: "split_at c s = x # xs" by (cases "split_at c s") auto
  with Cons show ?case by (cases xs) auto
qed

text \<open>\<open>filepath.Join\<close> of a directory and a name: the elements with \<open>.\<close> and \<open>..\<close> resolved.\<close>

fun clean_parts :: "bool \<Rightarrow> string list \<Rightarrow> string list \<Rightarrow> string list" where
  "clean_parts rooted acc [] = rev acc"
| "clean_parts rooted acc (p # ps) =
     (if p = [] \<or> p = ''.'' then clean_parts rooted acc ps
      else if p = ''..'' then
        (case acc of
           [] \<Rightarrow> if rooted then clean_parts rooted [] ps else clean_parts rooted [p] ps
         | q # acc' \<Rightarrow> if q = ''..'' then clean_parts rooted (p # acc) ps else clean_parts rooted acc' ps)
      else clean_parts rooted (p # acc) ps)"

definition path_join :: "string \<Rightarrow> string \<Rightarrow> string" where
  "path_join dir name =
     (let s = (if dir = [] then name else if name = [] then dir else dir @ ''/'' @ name);
          rooted = has_prefix s ''/'';
          body = join_with ''/'' (clean_parts rooted [] (split_at CHR ''/'' s))
      in if s = [] then [] else if rooted then CHR ''/'' # body else if body = [] then ''.'' else body)"

subsection \<open>State\<close>

record ConfigRevision =
  rev_Version :: int
  rev_Timestamp :: gotime
  rev_Author :: string
  rev_Role :: string
  rev_Description :: string
  rev_FilePath :: string

record ConfigBackup =
  bak_ID :: string
  bak_Name :: string
  bak_Timestamp :: gotime
  bak_Author :: string
  bak_Description :: string
  bak_FilePath :: string

datatype content = Text string | RevIndex "ConfigRevision list" | BakIndex "ConfigBackup list"

type_synonym disk = "(string, content) gomap"

text \<open>A reload hook gets the new configuration (or nil) and reports whether it failed.\<close>

type_synonym 'w hook = "Config option \<Rightarrow> 'w \<Rightarrow> 'w \<times> bool"

record 'w ConfigCenter =
  cc_currentPath :: string
  cc_currentConfig :: "Config option"
  cc_rawYAML :: string
  cc_revisions :: "ConfigRevision list"
  cc_backups :: "ConfigBackup list"
  cc_reloadHooks :: "'w hook list"
  cc_historyDir :: string
  cc_backupDir :: string

type_synonym 'w center_state = "'w ConfigCenter \<times> disk \<times> 'w"

definition RegisterReloadHook :: "'w hook \<Rightarrow> 'w ConfigCenter \<Rightarrow> 'w ConfigCenter" where
  "RegisterReloadHook fn cc = cc\<lparr>cc_reloadHooks := cc_reloadHooks cc @ [fn]\<rparr>"

text \<open>\<open>os.WriteFile\<close> and \<open>os.ReadFile\<close>; the flag of a write is its error.\<close>

definition write_file :: "(string \<Rightarrow> bool) \<Rightarrow> string \<Rightarrow> content \<Rightarrow> disk \<Rightarrow> disk \<times> bool" where
  "write_file writable path data d =
     (if writable path then (AList.update path data d, False) else (d, True))"

definition read_text :: "disk \<Rightarrow> string \<Rightarrow> string option" where
  "read_text d path = (case map_of d path of Some (Text t) \<Rightarrow> Some t | _ \<Rightarrow> None)"

subsection \<open>Validation\<close>

datatype center_error =
    YamlSyntax
  | ListenEmpty
  | ParanoiaRange
  | DomNameEmpty nat
  | DomNoUpstream string
  | UpstreamUrlEmpty string nat
  | RevisionWriteFailed
  | HotReloadFailed
  | MarshalFailed
  | RevisionNotFound
  | BackupNotFound
  | BackupUnreadable
  | BackupWriteFailed

fun check_urls :: "string \<Rightarrow> nat \<Rightarrow> UpstreamConfig list \<Rightarrow> center_error option" where
  "check_urls name j [] = None"
| "check_urls name j (u # us) =
     (if trim_ws (up_URL u) = [] then Some (UpstreamUrlEmpty name j) else check_urls name (Suc j) us)"

fun check_doms :: "nat \<Rightarrow> DomainConfig list \<Rightarrow> center_error option" where
  "check_doms i [] = None"
| "check_doms i (d # ds) =
     (if trim_ws (dom_Name d) = [] then Some (DomNameEmpty i)
      else if dom_Upstreams d = [] then Some (DomNoUpstream (dom_Name d))
      else case check_urls (dom_Name d) 0 (dom_Upstreams d) of
        Some e \<Rightarrow> Some e | None \<Rightarrow> check_doms (Suc i) ds)"

definition ValidateConfig :: "Config \<Rightarrow> center_error option" where
  "ValidateConfig c =
     (if srv_Listen (cfg_Server c) = [] then Some ListenEmpty
      else if waf_ParanoiaLevel (cfg_WAF c) < 1 \<or> 4 < waf_ParanoiaLevel (cfg_WAF c) then Some ParanoiaRange
      else check_doms 0 (cfg_Domains c))"

definition ValidateYAML :: "(string \<Rightarrow> Config option) \<Rightarrow> string \<Rightarrow> center_error + Config" where
  "ValidateYAML unm raw =
     (case unm raw of
        None \<Rightarrow> Inl YamlSyntax
      | Some c \<Rightarrow> (case ValidateConfig c of Some e \<Rightarrow> Inl e | None \<Rightarrow> Inr c))"

subsection \<open>Saving\<close>

fun run_hooks :: "'w hook list \<Rightarrow> Config option \<Rightarrow> 'w \<Rightarrow> 'w \<times> bool" where
  "run_hooks [] c w = (w, False)"
| "run_hooks (h # hs) c w = (let (w', err) = h c w in if err then (w', True) else run_hooks hs c w')"

definition rollback_hooks :: "'w hook list \<Rightarrow> Config option \<Rightarrow> 'w \<Rightarrow> 'w" where
  "rollback_hooks hs c w = foldl (\<lambda>w h. fst (h c w)) w hs"

definition altPaths :: "string list" where
  "altPaths = [''config/production.yaml'', ''/root/mango-waf/config/production.yaml'']"

fun try_alts :: "(string \<Rightarrow> bool) \<Rightarrow> string \<Rightarrow> string list \<Rightarrow> string \<Rightarrow> disk \<Rightarrow> string \<times> disk" where
  "try_alts writable raw [] cur d = (cur, d)"
| "try_alts writable raw (alt # alts) cur d =
     (if alt \<noteq> cur then
        (let (d', err) = write_file writable alt (Text raw) d
         in if \<not> err then (alt, d') else try_alts writable raw alts cur d')
      else try_alts writable raw alts cur d)"

definition rev_path :: "'w ConfigCenter \<Rightarrow> int \<Rightarrow> string" where
  "rev_path cc ts = path_join (cc_historyDir cc) (''v_'' @ itoa ts @ ''.yaml'')"

definition rev_index :: "'w ConfigCenter \<Rightarrow> string" where
  "rev_index cc = path_join (cc_historyDir cc) ''revisions.json''"

text \<open>
  \<open>SaveYAML\<close> in its order: validate, write the revision file and the index, write the main file or
  an alternative, switch, run the hooks, roll back on the first error.
\<close>

definition SaveYAML ::
  "(string \<Rightarrow> Config option) \<Rightarrow> (string \<Rightarrow> bool) \<Rightarrow> gotime \<Rightarrow> string \<Rightarrow> string \<Rightarrow> string \<Rightarrow> string \<Rightarrow>
   'w center_state \<Rightarrow> center_error option \<times> 'w center_state" where
  "SaveYAML unm writable ts raw author role desc st =
     (case st of (cc, d, w) \<Rightarrow>
       case ValidateYAML unm raw of
         Inl e \<Rightarrow> (Some e, st)
       | Inr newCfg \<Rightarrow>
           let oldCfg = cc_currentConfig cc; oldYAML = cc_rawYAML cc; revPath = rev_path cc ts;
               (d1, werr) = write_file writable revPath (Text raw) d
           in if werr then (Some RevisionWriteFailed, st)
              else
                let rev = \<lparr>rev_Version = ts, rev_Timestamp = ts, rev_Author = author, rev_Role = role,
                           rev_Description = desc, rev_FilePath = revPath\<rparr>;
                    cc1 = cc\<lparr>cc_revisions := rev # cc_revisions cc\<rparr>;
                    d2 = fst (write_file writable (rev_index cc1) (RevIndex (cc_revisions cc1)) d1);
                    (d3, merr) = write_file writable (cc_currentPath cc1) (Text raw) d2;
                    (path, d4) = (if merr then try_alts writable raw altPaths (cc_currentPath cc1) d3
                                  else (cc_currentPath cc1, d3));
                    cc2 = cc1\<lparr>cc_currentPath := path, cc_currentConfig := Some newCfg, cc_rawYAML := raw\<rparr>;
                    (w1, herr) = run_hooks (cc_reloadHooks cc2) (Some newCfg) w
                in if herr then
                     (Some HotReloadFailed,
                      (cc2\<lparr>cc_currentConfig := oldCfg, cc_rawYAML := oldYAML\<rparr>,
                       fst (write_file writable path (Text oldYAML) d4),
                       rollback_hooks (cc_reloadHooks cc2) oldCfg w1))
                   else (None, (cc2, d4, w1)))"

definition keep_cluster :: "ClusterConfig \<Rightarrow> ClusterConfig \<Rightarrow> ClusterConfig" where
  "keep_cluster old new = new\<lparr>
     clu_NodeName := or_empty (clu_NodeName old) (clu_NodeName new),
     clu_AdvertiseIP := or_empty (clu_AdvertiseIP old) (clu_AdvertiseIP new),
     clu_JoinPeers := (if clu_JoinPeers new = [] then clu_JoinPeers old else clu_JoinPeers new),
     clu_SecretKey := or_empty (clu_SecretKey old) (clu_SecretKey new),
     clu_BindPort := or_zero (clu_BindPort old) (clu_BindPort new),
     clu_Enabled := (clu_Enabled new \<or> clu_Enabled old),
     clu_CNAMETarget := or_empty (clu_CNAMETarget old) (clu_CNAMETarget new)\<rparr>"

definition UpdateConfig ::
  "(string \<Rightarrow> Config option) \<Rightarrow> (Config \<Rightarrow> string option) \<Rightarrow> (string \<Rightarrow> bool) \<Rightarrow> gotime \<Rightarrow> Config \<Rightarrow>
   string \<Rightarrow> string \<Rightarrow> string \<Rightarrow> 'w center_state \<Rightarrow> center_error option \<times> 'w center_state" where
  "UpdateConfig unm mar writable ts newCfg author role desc st =
     (let newCfg' = (case cc_currentConfig (fst st) of
                       None \<Rightarrow> newCfg
                     | Some c \<Rightarrow> newCfg\<lparr>cfg_Cluster := keep_cluster (cfg_Cluster c) (cfg_Cluster newCfg)\<rparr>)
      in case mar newCfg' of
           None \<Rightarrow> (Some MarshalFailed, st)
         | Some raw \<Rightarrow> SaveYAML unm writable ts raw author role desc st)"

definition RestoreRevision ::
  "(string \<Rightarrow> Config option) \<Rightarrow> (string \<Rightarrow> bool) \<Rightarrow> gotime \<Rightarrow> int \<Rightarrow> string \<Rightarrow> string \<Rightarrow>
   'w center_state \<Rightarrow> center_error option \<times> 'w center_state" where
  "RestoreRevision unm writable now ts author role st =
     (case st of (cc, d, w) \<Rightarrow>
       case read_text d (rev_path cc ts) of
         None \<Rightarrow> (Some RevisionNotFound, st)
       | Some raw \<Rightarrow> SaveYAML unm writable now raw author role (''Restored from version '' @ itoa ts) st)"

definition bak_index :: "'w ConfigCenter \<Rightarrow> string" where
  "bak_index cc = path_join (cc_backupDir cc) ''backups.json''"

text \<open>\<open>stamp\<close> is the formatted time of an unnamed backup.\<close>

definition CreateBackup ::
  "(string \<Rightarrow> bool) \<Rightarrow> gotime \<Rightarrow> string \<Rightarrow> string \<Rightarrow> string \<Rightarrow> string \<Rightarrow> 'w center_state \<Rightarrow>
   (center_error + ConfigBackup) \<times> 'w center_state" where
  "CreateBackup writable now stamp name author desc st =
     (case st of (cc, d, w) \<Rightarrow>
       let name' = (if name = [] then ''backup_'' @ stamp else name);
           bPath = path_join (cc_backupDir cc) (name' @ ''.yaml'');
           (d1, werr) = write_file writable bPath (Text (cc_rawYAML cc)) d
       in if werr then (Inl BackupWriteFailed, st)
          else
            let b = \<lparr>bak_ID = ''b_'' @ itoa now, bak_Name = name', bak_Timestamp = now,
                     bak_Author = author, bak_Description = desc, bak_FilePath = bPath\<rparr>;
                cc1 = cc\<lparr>cc_backups := b # cc_backups cc\<rparr>
            in (Inr b, (cc1, fst (write_file writable (bak_index cc1) (BakIndex (cc_backups cc1)) d1), w)))"

definition RestoreBackup ::
  "(string \<Rightarrow> Config option) \<Rightarrow> (string \<Rightarrow> bool) \<Rightarrow> gotime \<Rightarrow> string \<Rightarrow> string \<Rightarrow> string \<Rightarrow>
   'w center_state \<Rightarrow> center_error option \<times> 'w center_state" where
  "RestoreBackup unm writable now backupID author role st =
     (case st of (cc, d, w) \<Rightarrow>
       case find (\<lambda>b. bak_ID b = backupID \<or> bak_Name b = backupID) (cc_backups cc) of
         None \<Rightarrow> (Some BackupNotFound, st)
       | Some b \<Rightarrow>
           (case read_text d (bak_FilePath b) of
              None \<Rightarrow> (Some BackupUnreadable, st)
            | Some raw \<Rightarrow> SaveYAML unm writable now raw author role (''Restored backup: '' @ bak_Name b) st))"

subsection \<open>The fallback configuration\<close>

definition default_domain :: "string \<Rightarrow> string \<Rightarrow> DomainConfig" where
  "default_domain name url = \<lparr>dom_Name = name, dom_Upstreams = [\<lparr>up_URL = url, up_Weight = 1\<rparr>],
     dom_SSL = True, dom_Owner = ''admin'', dom_RateLimitRPS = 0, dom_RateLimitConn = 0,
     dom_PoWDifficulty = 0, dom_ProtectionMode = []\<rparr>"

definition DefaultConfig :: Config where
  "DefaultConfig = zero_Config\<lparr>
     cfg_Server := \<lparr>srv_Listen = ''0.0.0.0:443'', srv_HTTPListen = ''0.0.0.0:80'',
       srv_ReadTimeout = 10 * second, srv_WriteTimeout = 30 * second, srv_IdleTimeout = 60 * second,
       srv_MaxHeaderBytes = 1048576\<rparr>,
     cfg_TLS := \<lparr>tls_Enabled = True, tls_CertFile = ''certs/server.crt'', tls_KeyFile = ''certs/server.key'',
       tls_AutoCert = True, tls_ACMEEmail = [], tls_MinVersion = ''1.2''\<rparr>,
     cfg_Domains := [default_domain ''waf.local'' ''http://127.0.0.1:1234'',
       default_domain ''app.local'' ''http://127.0.0.1:8080'',
       default_domain ''localhost'' ''http://127.0.0.1:8080''],
     cfg_Protection := zero_ProtectionConfig\<lparr>
       pr_Mode := ''auto'', pr_WhitelistIPs := [''127.0.0.1'', ''::1''],
       pr_RateLimit := \<lparr>rl_Enabled = True, rl_RequestsPerSecond = 100, rl_Burst = 200, rl_PerIP = True,
         rl_Adaptive = True\<rparr>,
       pr_Ban := \<lparr>ban_Duration = 15 * minute, ban_MaxFails = 10, ban_UseIptables = False\<rparr>\<rparr>,
     cfg_WAF := \<lparr>waf_Enabled = True, waf_OWASPRules = True, waf_CustomRulesPath = [], waf_ParanoiaLevel = 2\<rparr>,
     cfg_Dashboard := \<lparr>dash_Enabled = True, dash_Listen = ''0.0.0.0:9090'', dash_Username = ''admin'',
       dash_Password = ''admin123'', dash_JWTSecret = ''mango_super_secret_jwt_key_2026''\<rparr>,
     cfg_Cluster := zero_ClusterConfig\<lparr>clu_Enabled := True, clu_NodeName := ''mango-node-1'',
       clu_BindPort := 7946\<rparr>\<rparr>"

subsection \<open>Diffs\<close>

datatype diff_line = Keep string | Add string | Del string

fun diff_go :: "string set \<Rightarrow> string set \<Rightarrow> string list \<Rightarrow> string list \<Rightarrow> diff_line list" where
  "diff_go m1 m2 [] [] = []"
| "diff_go m1 m2 (x # xs) [] = Del x # diff_go m1 m2 xs []"
| "diff_go m1 m2 [] (y # ys) = Add y # diff_go m1 m2 [] ys"
| "diff_go m1 m2 (x # xs) (y # ys) =
     (if x = y then Keep x # diff_go m1 m2 xs ys
      else if y \<notin> m1 then Add y # diff_go m1 m2 (x # xs) ys
      else if x \<notin> m2 then Del x # diff_go m1 m2 xs (y # ys)
      else Del x # Add y # diff_go m1 m2 xs ys)"

fun render_line :: "diff_line \<Rightarrow> string" where
  "render_line (Keep l) = ''  '' @ l @ ''\<newline>''"
| "render_line (Add l) = ''+ '' @ l @ ''\<newline>''"
| "render_line (Del l) = ''- '' @ l @ ''\<newline>''"

definition diff_lines :: "string \<Rightarrow> string \<Rightarrow> diff_line list" where
  "diff_lines oldText newText =
     (let old = split_at CHR ''\<newline>'' oldText; new = split_at CHR ''\<newline>'' newText
      in diff_go (set old) (set new) old new)"

definition generateDiff :: "string \<Rightarrow> string \<Rightarrow> string" where
  "generateDiff oldText newText =
     ''--- Original Configuration\<newline>+++ Proposed Configuration\<newline>\<newline>'' @
     concat (map render_line (diff_lines oldText newText))"

fun old_side :: "diff_line \<Rightarrow> string option" where
  "old_side (Keep l) = Some l" | "old_side (Del l) = Some l" | "old_side (Add l) = None"

fun new_side :: "diff_line \<Rightarrow> string option" where
  "new_side (Keep l) = Some l" | "new_side (Add l) = Some l" | "new_side (Del l) = None"

lemma diff_go_sides:
  "List.map_filter old_side (diff_go m1 m2 xs ys) = xs"
  "List.map_filter new_side (diff_go m1 m2 xs ys) = ys"
  by (induction m1 m2 xs ys rule: diff_go.induct) (auto simp: List.map_filter_simps)

lemma diff_go_same: "diff_go m1 m2 xs xs = map Keep xs"
  by (induction xs) auto

subsection \<open>Files written by a save\<close>

lemma clean_parts_snoc:
  "p \<noteq> [] \<Longrightarrow> p \<noteq> ''.'' \<Longrightarrow> p \<noteq> ''..'' \<Longrightarrow>
     clean_parts r acc (ps @ [p]) = clean_parts r acc ps @ [p]"
  by (induction r acc ps rule: clean_parts.induct) (auto split: list.splits)

lemma split_at_no: "c \<notin> set s \<Longrightarrow> split_at c s = [s]"
  by (induction s) auto

lemma split_at_append: "c \<notin> set t \<Longrightarrow> split_at c (s @ c # t) = split_at c s @ [t]"
  by (induction s) (auto simp: split_at_no split: list.splits)

lemma join_with_snoc: "join_with sep (xs @ [x]) = (if xs = [] then x else join_with sep xs @ sep @ x)"
proof (induction xs)
  case Nil
  then show ?case by simp
next
  case (Cons y ys)
  then show ?case by (cases ys) auto
qed

definition plain_name :: "string \<Rightarrow> bool" where
  "plain_name n \<longleftrightarrow> CHR ''/'' \<notin> set n \<and> 2 < length n"

lemma path_join_plain:
  assumes "plain_name n" and "dir \<noteq> []"
  shows "path_join dir n =
    (let r = has_prefix dir ''/''; xs = clean_parts r [] (split_at CHR ''/'' dir)
     in (if r then ''/'' else []) @ (if xs = [] then n else join_with ''/'' xs @ ''/'' @ n))"
proof -
  have n: "CHR ''/'' \<notin> set n" "n \<noteq> []" "n \<noteq> ''.''" "n \<noteq> ''..''"
    using assms(1) by (auto simp: plain_name_def)
  have pre: "has_prefix (dir @ ''/'' @ n) ''/'' = has_prefix dir ''/''"
    using assms(2) by (cases dir) (auto simp: has_prefix_def)
  show ?thesis
    using assms(2) n pre
    by (auto simp: path_join_def Let_def split_at_append clean_parts_snoc join_with_snoc)
qed

lemma path_join_inj:
  "plain_name n \<Longrightarrow> plain_name n' \<Longrightarrow> dir \<noteq> [] \<Longrightarrow> path_join dir n = path_join dir n' \<Longrightarrow> n = n'"
  by (simp add: path_join_plain Let_def split: if_splits)

lemma show_nat_no_minus: "show_nat n \<noteq> CHR ''-'' # s"
proof
  assume "show_nat n = CHR ''-'' # s"
  then have "is_digit CHR ''-''" using show_nat_digits [of n] by simp
  then show False by (simp add: is_digit_def)
qed
lemma show_nat_inj: "show_nat m = show_nat n \<Longrightarrow> m = n"
  by (metis option.inject read_digits_show_nat)

lemma itoa_inj: "itoa i = itoa j \<Longrightarrow> i = j"
  using show_nat_inj [of "nat (- i)" "nat (- j)"] show_nat_inj [of "nat i" "nat j"]
    show_nat_no_minus [of "nat i" "show_nat (nat (- j))"] show_nat_no_minus [of "nat j" "show_nat (nat (- i))"]
  by (auto simp: itoa_def split: if_splits)
lemma itoa_chars: "c \<in> set (itoa i) \<Longrightarrow> is_digit c \<or> c = CHR ''-''"
  using show_nat_digits by (auto simp: itoa_def split: if_splits)

lemma plain_rev_name: "plain_name (''v_'' @ itoa ts @ ''.yaml'')"
  using itoa_chars [of "CHR ''/''" ts] by (auto simp: plain_name_def is_digit_def)

lemma rev_path_inj:
  "cc_historyDir cc \<noteq> [] \<Longrightarrow> rev_path cc ts = rev_path cc ts' \<Longrightarrow> ts = ts'"
  using path_join_inj [OF plain_rev_name plain_rev_name, of "cc_historyDir cc" ts ts'] itoa_inj
  by (simp add: rev_path_def)

lemma rev_path_not_index: "cc_historyDir cc \<noteq> [] \<Longrightarrow> rev_path cc ts \<noteq> rev_index cc"
  using path_join_inj [OF plain_rev_name, of "''revisions.json''" "cc_historyDir cc" ts]
  by (auto simp: rev_path_def rev_index_def plain_name_def)

text \<open>The paths a save may write besides its own revision file and the index.\<close>

definition main_paths :: "'w ConfigCenter \<Rightarrow> string set" where
  "main_paths cc = insert (cc_currentPath cc) (set altPaths)"

lemma write_file_other: "p \<noteq> q \<Longrightarrow> map_of (fst (write_file wr p x d)) q = map_of d q"
  by (simp add: write_file_def gomap_simps)

lemma try_alts_props:
  "try_alts wr raw alts cur d = (cur', d') \<Longrightarrow>
     (cur' = cur \<or> cur' \<in> set alts) \<and> (\<forall>q. q \<notin> set alts \<longrightarrow> map_of d' q = map_of d q)"
  by (induction wr raw alts cur d rule: try_alts.induct)
    (auto simp: write_file_def gomap_simps split: if_splits)

text \<open>What \<open>SaveYAML\<close> does, by outcome.\<close>

definition save_main :: "(string \<Rightarrow> bool) \<Rightarrow> string \<Rightarrow> string \<Rightarrow> disk \<Rightarrow> string \<times> disk" where
  "save_main wr raw cur d =
     (let (d3, merr) = write_file wr cur (Text raw) d
      in if merr then try_alts wr raw altPaths cur d3 else (cur, d3))"

lemma save_main_props:
  "save_main wr raw cur d = (cur', d') \<Longrightarrow>
     (cur' = cur \<or> cur' \<in> set altPaths) \<and>
     (\<forall>q. q \<noteq> cur \<and> q \<notin> set altPaths \<longrightarrow> map_of d' q = map_of d q)"
  using try_alts_props [of wr raw altPaths cur d cur' d']
  by (auto simp: save_main_def write_file_def gomap_simps split: if_splits)

lemma SaveYAML_eq:
  "SaveYAML unm wr ts raw a r de (cc, d, w) =
     (case ValidateYAML unm raw of
        Inl e \<Rightarrow> (Some e, cc, d, w)
      | Inr newCfg \<Rightarrow>
          if \<not> wr (rev_path cc ts) then (Some RevisionWriteFailed, cc, d, w)
          else let rev = \<lparr>rev_Version = ts, rev_Timestamp = ts, rev_Author = a, rev_Role = r,
                           rev_Description = de, rev_FilePath = rev_path cc ts\<rparr>;
                   d1 = AList.update (rev_path cc ts) (Text raw) d;
                   d2 = fst (write_file wr (rev_index cc) (RevIndex (rev # cc_revisions cc)) d1);
                   (path, d4) = save_main wr raw (cc_currentPath cc) d2;
                   cc2 = cc\<lparr>cc_revisions := rev # cc_revisions cc, cc_currentPath := path,
                            cc_currentConfig := Some newCfg, cc_rawYAML := raw\<rparr>;
                   (w1, herr) = run_hooks (cc_reloadHooks cc) (Some newCfg) w
               in if herr then
                    (Some HotReloadFailed,
                     cc2\<lparr>cc_currentConfig := cc_currentConfig cc, cc_rawYAML := cc_rawYAML cc\<rparr>,
                     fst (write_file wr path (Text (cc_rawYAML cc)) d4),
                     rollback_hooks (cc_reloadHooks cc) (cc_currentConfig cc) w1)
                  else (None, cc2, d4, w1))"
  by (auto simp: SaveYAML_def Let_def write_file_def save_main_def rev_index_def rev_path_def
      split: sum.splits prod.splits)

lemma ValidateYAML_Inr: "ValidateYAML unm raw = Inr c \<longleftrightarrow> unm raw = Some c \<and> ValidateConfig c = None"
  by (auto simp: ValidateYAML_def split: option.splits)

text \<open>After a save that passed validation and wrote its revision, the revision file holds the text.\<close>

lemma save_disk:
  assumes save: "SaveYAML unm wr ts raw a r de (cc, d, w) = (res, cc', d', w')"
    and out: "p \<notin> main_paths cc" "p \<noteq> rev_index cc"
  shows "map_of d' p =
      (if p = rev_path cc ts \<and> wr (rev_path cc ts) \<and> (\<exists>c. ValidateYAML unm raw = Inr c)
       then Some (Text raw) else map_of d p) \<and>
    cc_historyDir cc' = cc_historyDir cc \<and> main_paths cc' \<subseteq> main_paths cc"
proof (cases "ValidateYAML unm raw")
  case (Inl e)
  with save show ?thesis by (auto simp: SaveYAML_eq)
next
  case (Inr c)
  show ?thesis
  proof (cases "wr (rev_path cc ts)")
    case False
    with save Inr show ?thesis by (auto simp: SaveYAML_eq)
  next
    case True
    let ?rev = "\<lparr>rev_Version = ts, rev_Timestamp = ts, rev_Author = a, rev_Role = r,
                 rev_Description = de, rev_FilePath = rev_path cc ts\<rparr>"
    let ?d1 = "AList.update (rev_path cc ts) (Text raw) d"
    let ?d2 = "fst (write_file wr (rev_index cc) (RevIndex (?rev # cc_revisions cc)) ?d1)"
    obtain path d4 where main: "save_main wr raw (cc_currentPath cc) ?d2 = (path, d4)"
      by (cases "save_main wr raw (cc_currentPath cc) ?d2")
    note props = save_main_props [OF main]
    have p4: "map_of d4 p = map_of ?d1 p"
      using props out by (auto simp: main_paths_def write_file_other)
    have path: "path \<in> main_paths cc" using props by (auto simp: main_paths_def)
    then have "path \<noteq> p" using out by auto
    then have p5: "map_of (fst (write_file wr path t d4)) p = map_of ?d1 p" for t
      by (simp add: write_file_other p4)
    show ?thesis
      using save Inr True main p4 p5 path
      by (auto simp: SaveYAML_eq Let_def gomap_simps main_paths_def split: prod.splits if_splits)
  qed
qed

lemma save_success:
  assumes "SaveYAML unm wr ts raw a r de (cc, d, w) = (None, cc', d', w')"
  shows "\<exists>c. unm raw = Some c \<and> ValidateConfig c = None \<and> wr (rev_path cc ts) \<and>
    cc_currentConfig cc' = Some c \<and> cc_rawYAML cc' = raw \<and>
    run_hooks (cc_reloadHooks cc) (Some c) w = (w', False)"
  using assms
  by (auto simp: SaveYAML_eq Let_def ValidateYAML_Inr split: sum.splits prod.splits if_splits)

lemma save_failure:
  assumes "SaveYAML unm wr ts raw a r de (cc, d, w) = (Some e, cc', d', w')"
  shows "cc_currentConfig cc' = cc_currentConfig cc \<and> cc_rawYAML cc' = cc_rawYAML cc \<and>
    (e \<noteq> HotReloadFailed \<longrightarrow> cc' = cc \<and> d' = d \<and> w' = w) \<and>
    (e = HotReloadFailed \<and> wr (cc_currentPath cc') \<longrightarrow>
       map_of d' (cc_currentPath cc') = Some (Text (cc_rawYAML cc)))"
proof -
  have v: "ValidateYAML unm raw = Inl HotReloadFailed \<Longrightarrow> False"
  proof -
    have urls: "check_urls n j us \<noteq> Some HotReloadFailed" for n j us
      by (induction n j us rule: check_urls.induct) auto
    have "check_doms i ds \<noteq> Some HotReloadFailed" for i ds
      using urls by (induction i ds rule: check_doms.induct) (auto split: option.splits)
    then show "ValidateYAML unm raw = Inl HotReloadFailed \<Longrightarrow> False"
      by (auto simp: ValidateYAML_def ValidateConfig_def split: option.splits if_splits)
  qed
  show ?thesis
    using assms v
    by (auto simp: SaveYAML_eq Let_def write_file_def gomap_simps
        split: sum.splits prod.splits if_splits)
qed

subsection \<open>Properties\<close>

text \<open>
  C24: A save is atomic for the running configuration. When \<open>SaveYAML\<close> returns an error, the
  configuration and the YAML text are the ones before it (and nothing at all changed unless a reload
  hook failed, in which case the main file, if it can be written, holds the old text again); when it
  returns none, the running configuration is the decoded and validated text and every hook accepted it.
\<close>

theorem save_yaml_atomic:
  "case SaveYAML unm wr ts raw author role desc (cc, d, w) of
     (Some e, cc', d', w') \<Rightarrow>
       cc_currentConfig cc' = cc_currentConfig cc \<and> cc_rawYAML cc' = cc_rawYAML cc \<and>
       (e = HotReloadFailed \<or> (cc', d', w') = (cc, d, w)) \<and>
       \<not> (e = HotReloadFailed \<and> wr (cc_currentPath cc') \<and>
          map_of d' (cc_currentPath cc') \<noteq> Some (Text (cc_rawYAML cc)))
   | (None, cc', d', w') \<Rightarrow>
       (\<exists>c. unm raw = Some c \<and> ValidateConfig c = None \<and> cc_currentConfig cc' = Some c \<and>
            cc_rawYAML cc' = raw \<and> run_hooks (cc_reloadHooks cc) (Some c) w = (w', False))"
  using save_success [of unm wr ts raw author role desc cc d w]
    save_failure [of unm wr ts raw author role desc cc d w]
  by (auto split: option.splits prod.splits)

text \<open>
  C40: A revision can be restored. After a save at \<open>ts\<close> that passed validation and could write its
  revision file, and one further save of any text with any outcome at another time, restoring \<open>ts\<close>
  applies the text of the first save: when its hooks accept it, that text and its decoding are the
  running configuration again. The main file must lie outside the history directory.
\<close>

theorem restore_revision_round_trip:
  assumes "SaveYAML unm wr ts raw a r de (cc, d, w) = (res, cc1, d1, w1)"
    and "ValidateYAML unm raw = Inr c" and "wr (rev_path cc ts)"
    and "cc_historyDir cc \<noteq> []" and "rev_path cc ts \<notin> main_paths cc"
    and "SaveYAML unm wr ts2 raw2 a2 r2 de2 (cc1, d1, w1) = (res2, cc2, d2, w2)" and "ts \<noteq> ts2"
    and "RestoreRevision unm wr now ts a3 r3 (cc2, d2, w2) = (None, cc3, d3, w3)"
  shows "cc_rawYAML cc3 = raw \<and> cc_currentConfig cc3 = Some c"
proof -
  have "rev_path cc ts \<noteq> rev_index cc" by (rule rev_path_not_index [OF assms(4)])
  note one = save_disk [OF assms(1) assms(5) this]
  have h1: "cc_historyDir cc1 = cc_historyDir cc" using one by simp
  then have p1: "rev_path cc1 = rev_path cc" "rev_index cc1 = rev_index cc"
    by (auto simp: rev_path_def rev_index_def fun_eq_iff)
  have "rev_path cc ts \<notin> main_paths cc1" using one assms(5) by auto
  note two = save_disk [OF assms(6) this]
  have "rev_path cc ts \<noteq> rev_path cc1 ts2" using rev_path_inj [OF assms(4)] assms(7) p1 by metis
  then have "read_text d2 (rev_path cc2 ts) = Some raw"
    using one two p1 h1 assms(2,3) \<open>rev_path cc ts \<noteq> rev_index cc\<close>
    by (simp add: read_text_def rev_path_def)
  then show ?thesis
    using assms(2,8) save_success [of unm wr now raw a3 r3 _ cc2 d2 w2 cc3 d3 w3]
    by (auto simp: RestoreRevision_def ValidateYAML_Inr)
qed

definition demo_center :: "unit ConfigCenter" where
  "demo_center = \<lparr>cc_currentPath = ''/c/p.yaml'', cc_currentConfig = None, cc_rawYAML = [],
     cc_revisions = [], cc_backups = [], cc_reloadHooks = [\<lambda>c w. (w, False)],
     cc_historyDir = ''/data/h'', cc_backupDir = ''/data/b''\<rparr>"

definition demo_unm :: "string \<Rightarrow> Config option" where
  "demo_unm raw = (if raw = ''bad'' then None else Some (DefaultConfig\<lparr>cfg_Domains := []\<rparr>))"

definition demo_save :: "gotime \<Rightarrow> string \<Rightarrow> unit center_state \<Rightarrow> center_error option \<times> unit center_state" where
  "demo_save ts raw = SaveYAML demo_unm (\<lambda>p. True) ts raw ''a'' ''r'' ''x''"

lemma unit_result: "\<exists>res cc d. (x :: center_error option \<times> unit center_state) = (res, cc, d, ())"
  by (cases x) auto

lemma demo_restore_run:
  "fst (RestoreRevision demo_unm (\<lambda>p. True) 9 5 ''a'' ''r''
     (snd (demo_save 7 ''two'' (snd (demo_save 5 ''one'' (demo_center, [], ())))))) = None"
  "ValidateYAML demo_unm ''one'' = Inr (DefaultConfig\<lparr>cfg_Domains := []\<rparr>)"
  "rev_path demo_center 5 \<notin> main_paths demo_center"
proof -
  show v: "ValidateYAML demo_unm ''one'' = Inr (DefaultConfig\<lparr>cfg_Domains := []\<rparr>)"
    by (simp add: ValidateYAML_def demo_unm_def ValidateConfig_def DefaultConfig_def)
  show "rev_path demo_center 5 \<notin> main_paths demo_center"
    unfolding main_paths_def by code_simp
  show "fst (RestoreRevision demo_unm (\<lambda>p. True) 9 5 ''a'' ''r''
     (snd (demo_save 7 ''two'' (snd (demo_save 5 ''one'' (demo_center, [], ())))))) = None"
    by code_simp
qed

theorem restore_revision_round_trip_witness:
  "\<exists>cc3 d3. RestoreRevision demo_unm (\<lambda>p. True) 9 5 ''a'' ''r''
     (snd (demo_save 7 ''two'' (snd (demo_save 5 ''one'' (demo_center, [], ()))))) = (None, cc3, d3, ()) \<and>
     cc_rawYAML cc3 = ''one''"
proof -
  obtain res1 cc1 d1 where s1: "demo_save 5 ''one'' (demo_center, [], ()) = (res1, cc1, d1, ())"
    using unit_result by blast
  obtain res2 cc2 d2 where s2: "demo_save 7 ''two'' (cc1, d1, ()) = (res2, cc2, d2, ())"
    using unit_result by blast
  obtain res3 cc3 d3 where s3: "RestoreRevision demo_unm (\<lambda>p. True) 9 5 ''a'' ''r'' (cc2, d2, ()) =
      (res3, cc3, d3, ())"
    using unit_result by blast
  have "res3 = None" using demo_restore_run(1) s1 s2 s3 by simp
  moreover have "cc_historyDir demo_center \<noteq> []" by (simp add: demo_center_def)
  ultimately show ?thesis
    using restore_revision_round_trip [OF s1 [unfolded demo_save_def] demo_restore_run(2) _ _
        demo_restore_run(3) s2 [unfolded demo_save_def], of 9 "''a''" "''r''" cc3 d3 "()"] s1 s2 s3
    by simp
qed

text \<open>
  A dashboard update keeps the identity of the node in the cluster. If the YAML library decodes what it
  encoded, then after a successful \<open>UpdateConfig\<close> every cluster field that the update leaves empty has
  the value of the running configuration, and the others the value of the update; a node that is in
  the cluster stays in it.
\<close>

theorem update_config_keeps_cluster:
  assumes "\<And>c raw. mar c = Some raw \<Longrightarrow> unm raw = Some c"
    and "cc_currentConfig cc = Some old"
    and "UpdateConfig unm mar wr ts new author role desc (cc, d, w) = (None, cc', d', w')"
  shows "\<exists>c. cc_currentConfig cc' = Some c \<and>
    clu_SecretKey (cfg_Cluster c) = (if clu_SecretKey (cfg_Cluster new) = []
       then clu_SecretKey (cfg_Cluster old) else clu_SecretKey (cfg_Cluster new)) \<and>
    clu_NodeName (cfg_Cluster c) = (if clu_NodeName (cfg_Cluster new) = []
       then clu_NodeName (cfg_Cluster old) else clu_NodeName (cfg_Cluster new)) \<and>
    clu_JoinPeers (cfg_Cluster c) = (if clu_JoinPeers (cfg_Cluster new) = []
       then clu_JoinPeers (cfg_Cluster old) else clu_JoinPeers (cfg_Cluster new)) \<and>
    clu_Enabled (cfg_Cluster c) = (clu_Enabled (cfg_Cluster new) \<or> clu_Enabled (cfg_Cluster old)) \<and>
    cfg_Domains c = cfg_Domains new \<and> cfg_Protection c = cfg_Protection new"
proof -
  let ?new = "new\<lparr>cfg_Cluster := keep_cluster (cfg_Cluster old) (cfg_Cluster new)\<rparr>"
  obtain raw where raw: "mar ?new = Some raw"
    and save: "SaveYAML unm wr ts raw author role desc (cc, d, w) = (None, cc', d', w')"
    using assms(2,3) by (auto simp: UpdateConfig_def Let_def split: option.splits)
  have "cc_currentConfig cc' = Some ?new"
    using save_success [OF save] assms(1) [OF raw] by auto
  then show ?thesis by (simp add: keep_cluster_def or_empty_def)
qed

definition demo_mar :: "Config \<Rightarrow> string option" where
  "demo_mar c = (if c = DefaultConfig\<lparr>cfg_Domains := []\<rparr> then Some ''one'' else None)"

theorem update_config_keeps_cluster_witness:
  "\<exists>cc' d'. UpdateConfig demo_unm demo_mar (\<lambda>p. True) 3
     (DefaultConfig\<lparr>cfg_Domains := [], cfg_Cluster := zero_ClusterConfig\<rparr>) ''a'' ''r'' ''x''
     (demo_center\<lparr>cc_currentConfig := Some DefaultConfig\<rparr>, [], ()) = (None, cc', d', ()) \<and>
     (\<exists>c. cc_currentConfig cc' = Some c \<and> clu_Enabled (cfg_Cluster c))"
proof -
  let ?st = "(demo_center\<lparr>cc_currentConfig := Some DefaultConfig\<rparr>, [], ())"
  let ?new = "DefaultConfig\<lparr>cfg_Domains := [], cfg_Cluster := zero_ClusterConfig\<rparr>"
  obtain res cc' d' where u: "UpdateConfig demo_unm demo_mar (\<lambda>p. True) 3 ?new ''a'' ''r'' ''x'' ?st =
      (res, cc', d', ())"
    using unit_result by blast
  have "fst (UpdateConfig demo_unm demo_mar (\<lambda>p. True) 3 ?new ''a'' ''r'' ''x'' ?st) = None"
    by code_simp
  then have "res = None" using u by simp
  with u show ?thesis
    using update_config_keeps_cluster [of demo_mar demo_unm "demo_center\<lparr>cc_currentConfig := Some DefaultConfig\<rparr>"
        DefaultConfig "\<lambda>p. True" 3 ?new "''a''" "''r''" "''x''" "[]" "()" cc' d' "()"]
    by (force simp: demo_mar_def demo_unm_def DefaultConfig_def split: if_splits)
qed

text \<open>
  The hot-reload path validates less than loading does. \<open>SaveYAML\<close> runs \<open>ValidateConfig\<close> and
  neither \<open>setDefaults\<close> nor \<open>validate\<close>: it accepts and applies a configuration, such as the
  built-in fallback, that has an empty cookie secret, a PoW difficulty of zero and a connection limit
  of zero, and that \<open>Load\<close> without its defaults would refuse.
\<close>

theorem hot_reload_skips_defaults:
  "ValidateConfig DefaultConfig = None \<and> validate DefaultConfig = Some ThresholdTooLow \<and>
   ch_CookieSecret (pr_Challenge (cfg_Protection DefaultConfig)) = [] \<and>
   ch_PowDifficulty (pr_Challenge (cfg_Protection DefaultConfig)) = 0 \<and>
   cl_MaxPerIP (pr_ConnectionLimit (cfg_Protection DefaultConfig)) = 0"
proof (intro conjI)
  show "ValidateConfig DefaultConfig = None" by code_simp
  show "validate DefaultConfig = Some ThresholdTooLow" by code_simp
qed (simp_all add: DefaultConfig_def zero_ProtectionConfig_def zero_ChallengeConfig_def
    zero_ConnLimitConfig_def)

text \<open>
  A diff contains both texts. The lines of \<open>generateDiff\<close> marked as kept or deleted are, in order,
  the lines of the old text, and those marked as kept or added the lines of the new one, whatever the
  two texts; identical texts give no added and no deleted line.
\<close>

theorem diff_recovers_both:
  "join_with ''\<newline>'' (List.map_filter old_side (diff_lines oldText newText)) = oldText \<and>
   join_with ''\<newline>'' (List.map_filter new_side (diff_lines oldText newText)) = newText \<and>
   diff_lines oldText oldText = map Keep (split_at CHR ''\<newline>'' oldText)"
  by (simp add: diff_lines_def Let_def diff_go_sides diff_go_same)

end
