(* ===== verification/Kv_Store.thy ===== *)
theory Kv_Store
  imports Prelude
begin

section \<open>Keyed stores and their sharded representation\<close>

text \<open>
  The interface behind every per-key table of the program: \<open>kv_store\<close> states what a client may rely
  on (what a lookup returns after a put, a delete, a sweep and a clear), and its lemmas are the
  client's facts. \<open>shard_fn\<close> is the one thing a hash-sharded table needs, a shard function with
  values below the number of shards; the \<open>sublocale\<close> at the end shows that a list of maps indexed
  by such a function is a \<open>kv_store\<close>. Each table of the program interprets \<open>shard_fn\<close> in its own
  theory with its own hash.
\<close>

subsection \<open>The interface\<close>

locale kv_store =
  fixes vacant :: "'s"
    and good :: "'s \<Rightarrow> bool"
    and look :: "'s \<Rightarrow> 'k \<Rightarrow> 'v option"
    and put :: "'k \<Rightarrow> 'v \<Rightarrow> 's \<Rightarrow> 's"
    and del :: "'k \<Rightarrow> 's \<Rightarrow> 's"
    and sweep :: "('k \<times> 'v \<Rightarrow> bool) \<Rightarrow> 's \<Rightarrow> 's"
  assumes good_vacant: "good vacant"
    and good_put: "good s \<Longrightarrow> good (put k v s)"
    and good_del: "good s \<Longrightarrow> good (del k s)"
    and good_sweep: "good s \<Longrightarrow> good (sweep P s)"
    and look_vacant: "look vacant k = None"
    and look_put: "good s \<Longrightarrow> look (put k v s) k' = (if k' = k then Some v else look s k')"
    and look_del: "good s \<Longrightarrow> look (del k s) k' = (if k' = k then None else look s k')"
    and look_sweep: "good s \<Longrightarrow> look (sweep P s) k =
          (case look s k of None \<Rightarrow> None | Some v \<Rightarrow> if P (k, v) then Some v else None)"
begin

lemma look_put_same: "good s \<Longrightarrow> look (put k v s) k = Some v"
  by (simp add: look_put)

lemma look_put_other: "good s \<Longrightarrow> k' \<noteq> k \<Longrightarrow> look (put k v s) k' = look s k'"
  by (simp add: look_put)

lemma put_again: "good s \<Longrightarrow> look (put k v (put k w s)) k' = look (put k v s) k'"
  by (simp add: look_put good_put)

lemma del_put: "good s \<Longrightarrow> look (del k (put k v s)) k' = look (del k s) k'"
  by (simp add: look_put look_del good_put)

lemma good_fold_del: "good s \<Longrightarrow> good (fold del ks s)"
  by (induction ks arbitrary: s) (simp_all add: good_del)

lemma look_fold_del:
  "good s \<Longrightarrow> look (fold del ks s) k = (if k \<in> set ks then None else look s k)"
  by (induction ks arbitrary: s) (auto simp: good_del look_del)

lemma sweep_mono: "good s \<Longrightarrow> look (sweep P s) k = Some v \<Longrightarrow> look s k = Some v \<and> P (k, v)"
  by (auto simp: look_sweep split: option.splits if_splits)

lemma sweep_sweep:
  "good s \<Longrightarrow> look (sweep P (sweep Q s)) k = look (sweep (\<lambda>kv. P kv \<and> Q kv) s) k"
  by (auto simp: look_sweep good_sweep split: option.splits)

end

text \<open>A Go map, and a \<open>sync.Map\<close>, is a store.\<close>

interpretation gm: kv_store "[]" gomap_ok map_of AList.update AList.delete filter
  by unfold_locales (auto simp: gomap_simps)

subsection \<open>Lists of maps indexed by a shard function\<close>

type_synonym ('k, 'v) shards = "('k, 'v) gomap list"

definition shard_load :: "('k \<Rightarrow> nat) \<Rightarrow> ('k, 'v) shards \<Rightarrow> 'k \<Rightarrow> 'v option" where
  "shard_load h sm k = map_of (sm ! h k) k"

definition shard_put :: "('k \<Rightarrow> nat) \<Rightarrow> 'k \<Rightarrow> 'v \<Rightarrow> ('k, 'v) shards \<Rightarrow> ('k, 'v) shards" where
  "shard_put h k v sm = sm[h k := AList.update k v (sm ! h k)]"

definition shard_del :: "('k \<Rightarrow> nat) \<Rightarrow> 'k \<Rightarrow> ('k, 'v) shards \<Rightarrow> ('k, 'v) shards" where
  "shard_del h k sm = sm[h k := AList.delete k (sm ! h k)]"

definition shard_sweep :: "('k \<times> 'v \<Rightarrow> bool) \<Rightarrow> ('k, 'v) shards \<Rightarrow> ('k, 'v) shards" where
  "shard_sweep P sm = map (filter P) sm"

definition shards_ok :: "('k \<Rightarrow> nat) \<Rightarrow> nat \<Rightarrow> ('k, 'v) shards \<Rightarrow> bool" where
  "shards_ok h n sm \<longleftrightarrow> length sm = n \<and>
     (\<forall>i<n. gomap_ok (sm ! i) \<and> (\<forall>k. map_of (sm ! i) k \<noteq> None \<longrightarrow> h k = i))"

lemma shards_okD:
  assumes "shards_ok h n sm" and "i < n"
  shows "length sm = n" and "gomap_ok (sm ! i)" and "map_of (sm ! i) k \<noteq> None \<Longrightarrow> h k = i"
  using assms by (auto simp: shards_ok_def)

text \<open>The entries of all shards, in the order of a \<open>range\<close> over them.\<close>

lemma in_concat_shards:
  assumes "shards_ok h n sm" and "\<And>k. h k < n"
  shows "(k, v) \<in> set (concat sm) \<longleftrightarrow> shard_load h sm k = Some v"
proof
  assume "(k, v) \<in> set (concat sm)"
  then obtain m where m: "m \<in> set sm" "(k, v) \<in> set m" by auto
  then obtain i where i: "i < n" "(k, v) \<in> set (sm ! i)"
    using assms(1) by (metis in_set_conv_nth shards_ok_def)
  then have "map_of (sm ! i) k = Some v"
    using shards_okD(2) [OF assms(1) i(1)] by (simp add: gomap_ok_def)
  with shards_okD(3) [OF assms(1) i(1)] show "shard_load h sm k = Some v"
    by (auto simp: shard_load_def)
next
  assume "shard_load h sm k = Some v"
  then have "(k, v) \<in> set (sm ! h k)" by (simp add: shard_load_def map_of_SomeD)
  moreover have "sm ! h k \<in> set sm"
    using assms by (simp add: shards_ok_def)
  ultimately show "(k, v) \<in> set (concat sm)" by auto
qed

lemma map_of_concat_shards:
  assumes "shards_ok h n sm" and "\<And>k. h k < n"
  shows "map_of (concat sm) k = shard_load h sm k"
proof (cases "map_of (concat sm) k")
  case None
  then have "\<forall>v. (k, v) \<notin> set (concat sm)"
    by (force simp: map_of_eq_None_iff)
  with None show ?thesis
    using in_concat_shards [OF assms, of k] by (cases "shard_load h sm k") auto
next
  case (Some v)
  then have "(k, v) \<in> set (concat sm)" by (rule map_of_SomeD)
  with Some show ?thesis using in_concat_shards [OF assms] by metis
qed

lemma gomap_ok_append:
  "gomap_ok a \<Longrightarrow> gomap_ok b \<Longrightarrow> fst ` set a \<inter> fst ` set b = {} \<Longrightarrow> gomap_ok (a @ b)"
  by (simp add: gomap_ok_def)

lemma gomap_ok_concat:
  assumes "\<And>i. i < length ss \<Longrightarrow> gomap_ok (ss ! i)"
    and "\<And>i k. i < length ss \<Longrightarrow> k \<in> fst ` set (ss ! i) \<Longrightarrow> h k = c + i"
  shows "gomap_ok (concat ss)"
  using assms
proof (induction ss arbitrary: c)
  case Nil
  then show ?case by simp
next
  case (Cons a ss)
  have hd: "gomap_ok a" "\<And>k. k \<in> fst ` set a \<Longrightarrow> h k = c"
    using Cons.prems(1) [of 0] Cons.prems(2) [of 0] by auto
  have tl: "\<And>i k. i < length ss \<Longrightarrow> k \<in> fst ` set (ss ! i) \<Longrightarrow> h k = Suc c + i"
  proof -
    fix i k assume "i < length ss" "k \<in> fst ` set (ss ! i)"
    with Cons.prems(2) [of "Suc i" k] show "h k = Suc c + i" by simp
  qed
  have "gomap_ok (concat ss)"
    using Cons.IH [of "Suc c"] Cons.prems(1) [of "Suc i" for i] tl by auto
  moreover have "fst ` set a \<inter> fst ` set (concat ss) = {}"
  proof (rule ccontr)
    assume "fst ` set a \<inter> fst ` set (concat ss) \<noteq> {}"
    then obtain k m where "k \<in> fst ` set a" "m \<in> set ss" "k \<in> fst ` set m" by auto
    then show False using hd(2) tl by (fastforce simp: in_set_conv_nth)
  qed
  ultimately show ?case using hd(1) by (simp add: gomap_ok_append)
qed

locale shard_fn =
  fixes h :: "'k \<Rightarrow> nat" and n :: nat
  assumes below: "h k < n"
begin

lemma len: "shards_ok h n sm \<Longrightarrow> h k < length sm"
  using below by (simp add: shards_ok_def)

lemma ok_update_shard:
  assumes "shards_ok h n sm" and "gomap_ok m"
    and "\<And>k'. map_of m k' \<noteq> None \<Longrightarrow> h k' = h k"
  shows "shards_ok h n (sm[h k := m])"
  using assms unfolding shards_ok_def
  by (metis (no_types, lifting) length_list_update nth_list_update_eq nth_list_update_neq)

lemma load_update_shard:
  assumes "shards_ok h n sm" and "\<And>k'. h k' = h k \<Longrightarrow> k' \<noteq> k \<Longrightarrow> map_of m k' = map_of (sm ! h k) k'"
  shows "shard_load h (sm[h k := m]) k' = (if k' = k then map_of m k else shard_load h sm k')"
  using assms len [OF assms(1)] by (auto simp: shard_load_def nth_list_update)

lemma load_concat: "shards_ok h n sm \<Longrightarrow> map_of (concat sm) k = shard_load h sm k"
  by (rule map_of_concat_shards [OF _ below])

lemma concat_distinct: "shards_ok h n sm \<Longrightarrow> gomap_ok (concat sm)"
  using gomap_ok_concat [of sm h 0] by (force simp: shards_ok_def map_of_eq_None_iff)

end

sublocale shard_fn \<subseteq> kv_store "replicate n []" "shards_ok h n" "shard_load h" "shard_put h"
  "shard_del h" shard_sweep
proof (unfold_locales, goal_cases)
  case 1
  then show ?case by (simp add: shards_ok_def)
next
  case (2 s k v)
  have "gomap_ok (s ! h k)" by (rule shards_okD(2) [OF 2 below])
  moreover have "h k' = h k" if "map_of (AList.update k v (s ! h k)) k' \<noteq> None" for k'
  proof (cases "k' = k")
    case False
    with that have "map_of (s ! h k) k' \<noteq> None" by (simp add: gomap_simps)
    then show ?thesis by (rule shards_okD(3) [OF 2 below])
  qed simp
  ultimately show ?case
    unfolding shard_put_def by (intro ok_update_shard [OF 2] gomap_ok_update)
next
  case (3 s k)
  have "gomap_ok (s ! h k)" by (rule shards_okD(2) [OF 3 below])
  moreover have "h k' = h k" if "map_of (AList.delete k (s ! h k)) k' \<noteq> None" for k'
  proof (cases "k' = k")
    case False
    with that have "map_of (s ! h k) k' \<noteq> None" by (simp add: gomap_simps)
    then show ?thesis by (rule shards_okD(3) [OF 3 below])
  qed simp
  ultimately show ?case
    unfolding shard_del_def by (intro ok_update_shard [OF 3] gomap_ok_delete)
next
  case (4 s P)
  show ?case
    unfolding shards_ok_def shard_sweep_def
  proof (intro conjI allI impI)
    show "length (map (filter P) s) = n" using 4 by (simp add: shards_ok_def)
    fix i assume i: "i < n"
    note ok = shards_okD [OF 4 i]
    show "gomap_ok (map (filter P) s ! i)" using ok(1,2) i by simp
    fix k assume "map_of (map (filter P) s ! i) k \<noteq> None"
    then have "map_of (s ! i) k \<noteq> None"
      using ok(1,2) i by (auto simp: map_of_filter_gomap split: option.splits)
    then show "h k = i" by (rule ok(3))
  qed
next
  case (5 k)
  then show ?case using below by (simp add: shard_load_def)
next
  case (6 s k v k')
  show ?case
    unfolding shard_put_def by (subst load_update_shard [OF 6]) (simp_all add: gomap_simps)
next
  case (7 s k k')
  show ?case
    unfolding shard_del_def by (subst load_update_shard [OF 7]) (simp_all add: gomap_simps)
next
  case (8 s P k)
  have "h k < length s" by (rule len [OF 8])
  moreover have "gomap_ok (s ! h k)" by (rule shards_okD(2) [OF 8 below])
  ultimately show ?case
    by (simp add: shard_load_def shard_sweep_def map_of_filter_gomap)
qed

end
