(* ===== verification/Sharded_Map.thy ===== *)
theory Sharded_Map
  imports Kv_Store Hashes
begin

section \<open>The sharded map of expiry times (core/sharded_map.go)\<close>

text \<open>
  \<open>ShardedTimeMap\<close> keeps the bans and the dynamic whitelist: 256 Go maps from addresses to expiry
  times, picked by the FNV-1a hash of the key. The operations below are the methods of the type,
  each atomic under its shard's lock, except that \<open>LoadOrStore\<close> releases the read lock before it
  takes the write lock: \<open>los_step\<close> is the step relation of any number of goroutines inside that
  call. Lemmas: the map behaves as one flat map (an interpretation of \<open>shard_fn\<close>), the sweep
  removes exactly the expired entries and counts them, a snapshot is the whole map, and of the
  goroutines racing to insert one key exactly one sees it as new.
\<close>

type_synonym time_map = "(string, gotime) shards"

definition numShards :: nat where "numShards = 256"

definition NewShardedTimeMap :: time_map where
  "NewShardedTimeMap = replicate numShards []"

definition getShard :: "string \<Rightarrow> nat" where
  "getShard key = unat (foldl (\<lambda>hash c. (hash XOR of_nat (byte_of c)) * 16777619) (2166136261 :: u32) key)
     mod numShards"

definition tm_load :: "string \<Rightarrow> time_map \<Rightarrow> gotime option" where
  "tm_load key sm = map_of (sm ! getShard key) key"

definition tm_store :: "string \<Rightarrow> gotime \<Rightarrow> time_map \<Rightarrow> time_map" where
  "tm_store key value sm =
     (let i = getShard key in sm[i := AList.update key value (sm ! i)])"

definition tm_delete :: "string \<Rightarrow> time_map \<Rightarrow> time_map" where
  "tm_delete key sm = (let i = getShard key in sm[i := AList.delete key (sm ! i)])"

text \<open>The part of \<open>LoadOrStore\<close> under the write lock, and the whole call run without interference.\<close>

definition tm_commit :: "string \<Rightarrow> gotime \<Rightarrow> time_map \<Rightarrow> (gotime \<times> bool) \<times> time_map" where
  "tm_commit key value sm =
     (case tm_load key sm of
        Some val \<Rightarrow> ((val, True), sm)
      | None \<Rightarrow> ((value, False), tm_store key value sm))"

definition tm_load_or_store :: "string \<Rightarrow> gotime \<Rightarrow> time_map \<Rightarrow> (gotime \<times> bool) \<times> time_map" where
  "tm_load_or_store key value sm =
     (case tm_load key sm of
        Some val \<Rightarrow> ((val, True), sm)
      | None \<Rightarrow> tm_commit key value sm)"

text \<open>\<open>Cleanup\<close>: a sweep over the shards that deletes and counts the entries before \<open>now\<close>.\<close>

fun cleanup_shard :: "gotime \<Rightarrow> (string, gotime) gomap \<Rightarrow> (string, gotime) gomap \<times> nat" where
  "cleanup_shard now [] = ([], 0)"
| "cleanup_shard now ((k, v) # m) =
     (let (m', count) = cleanup_shard now m
      in if v < now then (m', Suc count) else ((k, v) # m', count))"

fun tm_cleanup :: "gotime \<Rightarrow> time_map \<Rightarrow> time_map \<times> nat" where
  "tm_cleanup now [] = ([], 0)"
| "tm_cleanup now (shard # sm) =
     (let (shard', c) = cleanup_shard now shard; (sm', count) = tm_cleanup now sm
      in (shard' # sm', c + count))"

definition tm_clear :: "time_map \<Rightarrow> time_map" where
  "tm_clear sm = replicate numShards []"

definition tm_snapshot :: "time_map \<Rightarrow> (string, gotime) gomap" where
  "tm_snapshot sm = foldl (foldl (\<lambda>snap (k, v). AList.update k v snap)) [] sm"

subsection \<open>The interpretation of the store interface\<close>

interpretation tm: shard_fn getShard 256
  by unfold_locales (simp add: getShard_def numShards_def)

abbreviation tm_ok :: "time_map \<Rightarrow> bool" where
  "tm_ok \<equiv> shards_ok getShard 256"

lemma tm_ops:
  "tm_load k sm = shard_load getShard sm k"
  "tm_store k v sm = shard_put getShard k v sm"
  "tm_delete k sm = shard_del getShard k sm"
  "NewShardedTimeMap = replicate 256 []"
  "tm_clear sm = replicate 256 []"
  by (simp_all add: tm_load_def shard_load_def tm_store_def shard_put_def tm_delete_def shard_del_def
      Let_def NewShardedTimeMap_def numShards_def tm_clear_def)

lemma cleanup_shard_filter:
  "cleanup_shard now m = (filter (\<lambda>(k, v). \<not> v < now) m, length (filter (\<lambda>(k, v). v < now) m))"
  by (induction now m rule: cleanup_shard.induct) (auto simp: Let_def)

lemma tm_cleanup_sweep:
  "tm_cleanup now sm =
     (shard_sweep (\<lambda>(k, v). \<not> v < now) sm, length (filter (\<lambda>(k, v). v < now) (concat sm)))"
  by (induction now sm rule: tm_cleanup.induct) (auto simp: cleanup_shard_filter shard_sweep_def)

lemma tm_ok_new [simp]: "tm_ok NewShardedTimeMap"
  by (simp add: tm_ops tm.good_vacant)

lemma tm_ok_ops [simp]:
  "tm_ok sm \<Longrightarrow> tm_ok (tm_store k v sm)"
  "tm_ok sm \<Longrightarrow> tm_ok (tm_delete k sm)"
  "tm_ok sm \<Longrightarrow> tm_ok (fst (tm_cleanup now sm))"
  "tm_ok (tm_clear sm)"
  by (simp_all add: tm_ops tm_cleanup_sweep tm.good_put tm.good_del tm.good_sweep tm.good_vacant)

lemma tm_load_new [simp]: "tm_load k NewShardedTimeMap = None"
  by (simp add: tm_ops tm.look_vacant)

lemma tm_load_store [simp]:
  "tm_ok sm \<Longrightarrow> tm_load k (tm_store k' v sm) = (if k = k' then Some v else tm_load k sm)"
  by (simp add: tm_ops tm.look_put)

lemma tm_load_delete [simp]:
  "tm_ok sm \<Longrightarrow> tm_load k (tm_delete k' sm) = (if k = k' then None else tm_load k sm)"
  by (simp add: tm_ops tm.look_del)

lemma tm_load_clear [simp]: "tm_load k (tm_clear sm) = None"
  by (simp add: tm_ops tm.look_vacant)

lemma tm_load_cleanup [simp]:
  "tm_ok sm \<Longrightarrow> tm_load k (fst (tm_cleanup now sm)) =
     (case tm_load k sm of None \<Rightarrow> None | Some t \<Rightarrow> if t < now then None else Some t)"
  by (simp add: tm_ops tm_cleanup_sweep tm.look_sweep split: option.splits)

lemma tm_fold_delete:
  "tm_ok sm \<Longrightarrow> tm_ok (fold tm_delete ks sm)"
  "tm_ok sm \<Longrightarrow> tm_load k (fold tm_delete ks sm) = (if k \<in> set ks then None else tm_load k sm)"
proof -
  have eq: "tm_delete = shard_del getShard" by (intro ext) (simp add: tm_ops)
  show "tm_ok sm \<Longrightarrow> tm_ok (fold tm_delete ks sm)"
    unfolding eq by (rule tm.good_fold_del)
  show "tm_ok sm \<Longrightarrow> tm_load k (fold tm_delete ks sm) = (if k \<in> set ks then None else tm_load k sm)"
    unfolding eq tm_ops(1) by (rule tm.look_fold_del)
qed

lemma tm_load_or_store_result:
  "fst (tm_load_or_store k v sm) =
     (case tm_load k sm of Some t \<Rightarrow> (t, True) | None \<Rightarrow> (v, False))"
  by (simp add: tm_load_or_store_def tm_commit_def split: option.splits)

lemma tm_load_or_store_map:
  assumes "tm_ok sm"
  shows "tm_ok (snd (tm_load_or_store k v sm))"
    and "tm_load k' (snd (tm_load_or_store k v sm)) =
      (if k' = k \<and> tm_load k sm = None then Some v else tm_load k' sm)"
  using assms by (auto simp: tm_load_or_store_def tm_commit_def split: option.splits)

subsection \<open>Snapshots\<close>

lemma map_of_foldl_update:
  "map_of (foldl (\<lambda>snap (k, v). AList.update k v snap) acc kvs) k =
     (case map_of (rev kvs) k of Some v \<Rightarrow> Some v | None \<Rightarrow> map_of acc k)"
proof (induction kvs arbitrary: acc)
  case Nil
  then show ?case by simp
next
  case (Cons kv kvs)
  then show ?case
    by (cases kv) (auto simp: gomap_simps map_add_def split: option.splits)
qed

lemma foldl_foldl_concat: "foldl (foldl f) acc xss = foldl f acc (concat xss)"
  by (induction xss arbitrary: acc) simp_all

lemma gomap_ok_foldl_update:
  "gomap_ok acc \<Longrightarrow> gomap_ok (foldl (\<lambda>snap (k, v). AList.update k v snap) acc kvs)"
  by (induction kvs arbitrary: acc) (auto simp: split: prod.splits)

lemma map_of_snapshot:
  assumes "tm_ok sm"
  shows "map_of (tm_snapshot sm) k = tm_load k sm"
proof -
  have d: "distinct (map fst (concat sm))"
    using tm.concat_distinct [OF assms] by (simp add: gomap_ok_def)
  have "map_of (tm_snapshot sm) k = map_of (rev (concat sm)) k"
    by (simp add: tm_snapshot_def foldl_foldl_concat map_of_foldl_update split: option.splits)
  also have "\<dots> = map_of (concat sm) k"
    using map_of_eqI [of "rev (concat sm)" "concat sm"] d
    by (metis distinct_map distinct_rev map_of_eq_Some_iff not_Some_eq rev_map set_rev)
  finally show ?thesis by (simp add: tm.load_concat [OF assms] tm_ops)
qed

lemma gomap_ok_snapshot: "gomap_ok (tm_snapshot sm)"
  by (simp add: tm_snapshot_def foldl_foldl_concat gomap_ok_foldl_update)

lemma snapshot_card: "tm_ok sm \<Longrightarrow> length (tm_snapshot sm) = card {k. tm_load k sm \<noteq> None}"
  by (simp add: length_gomap [OF gomap_ok_snapshot] dom_def map_of_snapshot)

subsection \<open>Goroutines racing in \<open>LoadOrStore\<close>\<close>

text \<open>
  A goroutine that bans an address first reads under the read lock, on a miss commits under the write
  lock, and when it found the key present stores its own expiry over the old one (the caller in
  \<open>banIP\<close>). \<open>LosDone v l\<close> is the result of the call: the value and whether it was loaded.
\<close>

datatype los_pc = LosRead | LosWrite | LosDone gotime bool

record los_call =
  lc_key :: string
  lc_value :: gotime
  lc_pc :: los_pc

inductive los_step :: "time_map \<times> los_call list \<Rightarrow> time_map \<times> los_call list \<Rightarrow> bool" where
  read_hit: "i < length ts \<Longrightarrow> lc_pc (ts ! i) = LosRead \<Longrightarrow> tm_load (lc_key (ts ! i)) m = Some v \<Longrightarrow>
     los_step (m, ts) (m, ts[i := (ts ! i)\<lparr>lc_pc := LosDone v True\<rparr>])"
| read_miss: "i < length ts \<Longrightarrow> lc_pc (ts ! i) = LosRead \<Longrightarrow> tm_load (lc_key (ts ! i)) m = None \<Longrightarrow>
     los_step (m, ts) (m, ts[i := (ts ! i)\<lparr>lc_pc := LosWrite\<rparr>])"
| commit: "i < length ts \<Longrightarrow> lc_pc (ts ! i) = LosWrite \<Longrightarrow>
     tm_commit (lc_key (ts ! i)) (lc_value (ts ! i)) m = ((v, l), m') \<Longrightarrow>
     los_step (m, ts) (m', ts[i := (ts ! i)\<lparr>lc_pc := LosDone v l\<rparr>])"
| refresh: "i < length ts \<Longrightarrow> lc_pc (ts ! i) = LosDone v True \<Longrightarrow>
     los_step (m, ts) (tm_store (lc_key (ts ! i)) (lc_value (ts ! i)) m, ts)"

inductive_cases los_stepE: "los_step s t"

definition new_for :: "string \<Rightarrow> los_call \<Rightarrow> bool" where
  "new_for k c \<longleftrightarrow> lc_key c = k \<and> (case lc_pc c of LosDone v l \<Rightarrow> \<not> l | _ \<Rightarrow> False)"

definition returned_for :: "string \<Rightarrow> los_call \<Rightarrow> bool" where
  "returned_for k c \<longleftrightarrow> lc_key c = k \<and> (case lc_pc c of LosDone v l \<Rightarrow> True | _ \<Rightarrow> False)"

definition inserters :: "string \<Rightarrow> los_call list \<Rightarrow> nat" where
  "inserters k ts = length (filter (new_for k) ts)"

definition los_start :: "los_call list \<Rightarrow> bool" where
  "los_start ts \<longleftrightarrow> (\<forall>c \<in> set ts. lc_pc c = LosRead)"

definition los_inv :: "string \<Rightarrow> time_map \<times> los_call list \<Rightarrow> bool" where
  "los_inv k s \<longleftrightarrow> (case s of (m, ts) \<Rightarrow> tm_ok m \<and>
     inserters k ts = (if tm_load k m = None then 0 else 1) \<and>
     (\<forall>c \<in> set ts. returned_for k c \<longrightarrow> tm_load k m \<noteq> None))"

lemma length_filter_update:
  "i < length ts \<Longrightarrow>
     length (filter P (ts[i := x])) + (if P (ts ! i) then 1 else 0) =
     length (filter P ts) + (if P x then 1 else 0)"
  by (subst (3) id_take_nth_drop [of i ts]) (auto simp: upd_conv_take_nth_drop)

lemma inserters_update:
  "i < length ts \<Longrightarrow> \<not> new_for k (ts ! i) \<Longrightarrow>
     inserters k (ts[i := c]) = inserters k ts + (if new_for k c then 1 else 0)"
  using length_filter_update [of i ts "new_for k" c] by (simp add: inserters_def)

lemma los_inv_update:
  assumes inv: "los_inv k (m, ts)" and i: "i < length ts" "\<not> new_for k (ts ! i)"
    and ok: "tm_ok m'" and keep: "tm_load k m \<noteq> None \<Longrightarrow> tm_load k m' \<noteq> None"
    and new: "new_for k c \<longleftrightarrow> tm_load k m = None \<and> tm_load k m' \<noteq> None"
    and ret: "returned_for k c \<Longrightarrow> tm_load k m' \<noteq> None"
  shows "los_inv k (m', ts[i := c])"
proof -
  have "\<forall>c' \<in> set (ts[i := c]). returned_for k c' \<longrightarrow> tm_load k m' \<noteq> None"
    using set_update_subset_insert [of ts i c] inv keep ret by (auto simp: los_inv_def)
  moreover have "inserters k (ts[i := c]) = (if tm_load k m' = None then 0 else 1)"
    using inserters_update [OF i, of c] inv keep new by (auto simp: los_inv_def)
  ultimately show ?thesis using ok by (simp add: los_inv_def)
qed

lemma los_inv_start: "tm_ok m \<Longrightarrow> tm_load k m = None \<Longrightarrow> los_start ts \<Longrightarrow> los_inv k (m, ts)"
  by (auto simp: los_inv_def los_start_def inserters_def new_for_def returned_for_def filter_empty_conv)

lemma los_inv_step:
  assumes "los_step s s'" and "los_inv k s"
  shows "los_inv k s'"
  using assms(1)
proof (cases rule: los_step.cases)
  case (read_hit i ts m v)
  have inv: "los_inv k (m, ts)" and "tm_ok m" using assms(2) read_hit(1) by (auto simp: los_inv_def)
  show ?thesis unfolding read_hit(2)
  proof (rule los_inv_update [OF inv read_hit(3)])
    show "\<not> new_for k (ts ! i)" using read_hit(4) by (simp add: new_for_def)
  qed (use \<open>tm_ok m\<close> read_hit(5) in \<open>auto simp: new_for_def returned_for_def\<close>)
next
  case (read_miss i ts m)
  have inv: "los_inv k (m, ts)" and "tm_ok m" using assms(2) read_miss(1) by (auto simp: los_inv_def)
  show ?thesis unfolding read_miss(2)
  proof (rule los_inv_update [OF inv read_miss(3)])
    show "\<not> new_for k (ts ! i)" using read_miss(4) by (simp add: new_for_def)
  qed (use \<open>tm_ok m\<close> read_miss(5) in \<open>auto simp: new_for_def returned_for_def\<close>)
next
  case (commit i ts m v l m')
  have inv: "los_inv k (m, ts)" and "tm_ok m" using assms(2) commit(1) by (auto simp: los_inv_def)
  show ?thesis unfolding commit(2)
  proof (rule los_inv_update [OF inv commit(3)])
    show "\<not> new_for k (ts ! i)" using commit(4) by (simp add: new_for_def)
  qed (use \<open>tm_ok m\<close> commit(5) in \<open>auto simp: tm_commit_def new_for_def returned_for_def
      split: option.splits if_splits\<close>)
next
  case (refresh i ts v m)
  then have "ts ! i \<in> set ts" by simp
  with refresh assms(2) show ?thesis
    by (auto simp: los_inv_def returned_for_def)
qed

lemma los_inv_reach: "los_step\<^sup>*\<^sup>* s s' \<Longrightarrow> los_inv k s \<Longrightarrow> los_inv k s'"
  by (induction rule: rtranclp_induct) (auto intro: los_inv_step)

subsection \<open>Properties\<close>

text \<open>
  C9: However many goroutines race in \<open>LoadOrStore\<close> on a key that no goroutine had stored, and in
  whatever order their lock sections interleave: as soon as one call on the key has returned, exactly
  one of the returned calls reported the key as new, so the counter \<open>banIP\<close> increments on that
  result counts each banned address once.
\<close>

theorem load_or_store_one_inserter:
  assumes "tm_ok m" and "tm_load k m = None" and "los_start ts"
    and "los_step\<^sup>*\<^sup>* (m, ts) (m', ts')" and "c \<in> set ts'" and "returned_for k c"
  shows "inserters k ts' = 1 \<and> tm_load k m' \<noteq> None"
  using los_inv_reach [OF assms(4) los_inv_start [OF assms(1-3)]] assms(5,6)
  by (auto simp: los_inv_def split: if_splits)

definition los_demo :: "los_call list" where
  "los_demo = [\<lparr>lc_key = ''a'', lc_value = 5, lc_pc = LosRead\<rparr>,
               \<lparr>lc_key = ''a'', lc_value = 9, lc_pc = LosRead\<rparr>]"

lemma los_demo_run:
  "los_step\<^sup>*\<^sup>* (NewShardedTimeMap, los_demo)
     (tm_store ''a'' 9 NewShardedTimeMap,
      [\<lparr>lc_key = ''a'', lc_value = 5, lc_pc = LosWrite\<rparr>,
       \<lparr>lc_key = ''a'', lc_value = 9, lc_pc = LosDone 9 False\<rparr>])"
proof -
  let ?m = NewShardedTimeMap
  let ?t = "\<lambda>v p. \<lparr>lc_key = ''a'', lc_value = v, lc_pc = p\<rparr>"
  have "los_step (?m, los_demo) (?m, [?t 5 LosWrite, ?t 9 LosRead])"
    using read_miss [of 0 los_demo ?m] by (simp add: los_demo_def)
  moreover have "los_step (?m, [?t 5 LosWrite, ?t 9 LosRead]) (?m, [?t 5 LosWrite, ?t 9 LosWrite])"
    using read_miss [of 1 "[?t 5 LosWrite, ?t 9 LosRead]" ?m] by simp
  moreover have "los_step (?m, [?t 5 LosWrite, ?t 9 LosWrite])
      (tm_store ''a'' 9 ?m, [?t 5 LosWrite, ?t 9 (LosDone 9 False)])"
    using commit [of 1 "[?t 5 LosWrite, ?t 9 LosWrite]" ?m 9 False "tm_store ''a'' 9 ?m"]
    by (simp add: tm_commit_def)
  ultimately show ?thesis by (meson converse_rtranclp_into_rtranclp rtranclp.rtrancl_refl)
qed

theorem load_or_store_one_inserter_witness:
  "inserters ''a'' [\<lparr>lc_key = ''a'', lc_value = 5, lc_pc = LosWrite\<rparr>,
       \<lparr>lc_key = ''a'', lc_value = 9, lc_pc = LosDone 9 False\<rparr>] = 1 \<and>
   tm_load ''a'' (tm_store ''a'' 9 NewShardedTimeMap) \<noteq> None"
  by (rule load_or_store_one_inserter [where c = "\<lparr>lc_key = ''a'', lc_value = 9, lc_pc = LosDone 9 False\<rparr>",
        OF _ _ _ los_demo_run])
    (simp_all add: los_start_def los_demo_def returned_for_def)

text \<open>
  C8: The sharded map is one flat map: after any of its operations, a lookup in the shards answers as
  the partial function from keys to expiry times would, a snapshot is that function, and \<open>Cleanup\<close>
  removes exactly the entries that expired before \<open>now\<close> and returns how many there were.
\<close>

theorem sharded_map_refines_map:
  assumes "tm_ok sm"
  shows "(\<lambda>x. tm_load x (tm_store k v sm)) = (\<lambda>x. tm_load x sm)(k \<mapsto> v) \<and>
    (\<lambda>x. tm_load x (tm_delete k sm)) = (\<lambda>x. tm_load x sm)(k := None) \<and>
    (\<lambda>x. tm_load x (snd (tm_load_or_store k v sm))) =
      (if tm_load k sm = None then (\<lambda>x. tm_load x sm)(k \<mapsto> v) else (\<lambda>x. tm_load x sm)) \<and>
    (\<lambda>x. tm_load x (fst (tm_cleanup now sm))) =
      (\<lambda>x. case tm_load x sm of Some t \<Rightarrow> if t < now then None else Some t | None \<Rightarrow> None) \<and>
    snd (tm_cleanup now sm) = card {x. \<exists>t. tm_load x sm = Some t \<and> t < now} \<and>
    map_of (tm_snapshot sm) = (\<lambda>x. tm_load x sm) \<and>
    (\<lambda>x. tm_load x (tm_clear sm)) = Map.empty"
proof (intro conjI)
  have "{x. \<exists>t. tm_load x sm = Some t \<and> t < now} =
      fst ` set (filter (\<lambda>(k, v). v < now) (concat sm))"
  proof -
    have "(x, t) \<in> set (concat sm) \<longleftrightarrow> tm_load x sm = Some t" for x t
      unfolding tm_ops(1) by (rule in_concat_shards [OF assms tm.below])
    then show ?thesis by (force simp del: set_concat)
  qed
  moreover have "distinct (map fst (filter (\<lambda>(k, v). v < now) (concat sm)))"
    using gomap_ok_filter [OF tm.concat_distinct [OF assms]] by (simp add: gomap_ok_def)
  ultimately show "snd (tm_cleanup now sm) = card {x. \<exists>t. tm_load x sm = Some t \<and> t < now}"
    using distinct_card [of "map fst (filter (\<lambda>(k, v). v < now) (concat sm))"]
    by (simp add: tm_cleanup_sweep)
qed (use assms in \<open>auto simp: tm_load_or_store_map map_of_snapshot fun_eq_iff split: option.splits\<close>)

theorem sharded_map_refines_map_witness:
  "snd (tm_cleanup 7 (tm_store ''k'' 5 NewShardedTimeMap)) =
     card {x. \<exists>t. tm_load x (tm_store ''k'' 5 NewShardedTimeMap) = Some t \<and> t < 7}"
  using sharded_map_refines_map [of "tm_store ''k'' 5 NewShardedTimeMap" "''k''" 1 7] by simp

end
