(* ===== verification/Http.thy ===== *)
theory Http
  imports Prelude
begin

section \<open>Requests of the \<open>net/http\<close> package\<close>

text \<open>
  The parts of an \<open>http.Request\<close> that the program reads. Headers have canonical names and, as in
  \<open>http.Header\<close>, a list of values per name; cookies and form values are in the order the request
  gives them. \<open>r_tls\<close> says whether the connection is encrypted.
\<close>

record request =
  r_method :: string
  r_host :: string
  r_path :: string
  r_rawquery :: string
  r_uri :: string
  r_url_string :: string
  r_header :: "(string \<times> string list) list"
  r_cookies :: "(string \<times> string) list"
  r_form :: "(string \<times> string) list"
  r_content_length :: int
  r_remote_addr :: string
  r_tls :: bool

text \<open>\<open>Header.Get\<close> and \<open>FormValue\<close> return the first value or the empty string.\<close>

definition hdr_get :: "request \<Rightarrow> string \<Rightarrow> string" where
  "hdr_get r k = (case map_of (r_header r) k of Some (v # vs) \<Rightarrow> v | _ \<Rightarrow> [])"

definition user_agent :: "request \<Rightarrow> string" where
  "user_agent r = hdr_get r ''User-Agent''"

definition form_value :: "request \<Rightarrow> string \<Rightarrow> string" where
  "form_value r k = (case map_of (r_form r) k of Some v \<Rightarrow> v | None \<Rightarrow> [])"

definition find_cookie :: "request \<Rightarrow> string \<Rightarrow> string option" where
  "find_cookie r k = map_of (r_cookies r) k"

definition blank_request :: request where
  "blank_request = \<lparr>r_method = ''GET'', r_host = [], r_path = ''/'', r_rawquery = [], r_uri = ''/'',
     r_url_string = ''/'', r_header = [], r_cookies = [], r_form = [], r_content_length = 0,
     r_remote_addr = [], r_tls = False\<rparr>"

text \<open>The host of a \<open>Host\<close> header in lower case and without its port.\<close>

definition strip_port :: "string \<Rightarrow> string" where
  "strip_port host = (case last_index_byte CHR '':'' host of
      Some idx \<Rightarrow> if 0 < idx then take idx host else host | None \<Rightarrow> host)"

text \<open>\<open>filepath.Ext\<close>: from the last dot of the last element of the path.\<close>

definition path_ext :: "string \<Rightarrow> string" where
  "path_ext p = (let base = rev (takeWhile (\<lambda>c. c \<noteq> CHR ''/'') (rev p)) in
     case last_index_byte CHR ''.'' base of None \<Rightarrow> [] | Some i \<Rightarrow> drop i base)"

end
