(* ===== verification/Challenge.thy ===== *)
theory Challenge
  imports Kv_Store Http Hashes Config_Types
begin

section \<open>Challenges and proof cookies (challenge/challenge.go)\<close>

text \<open>
  A client proves itself by a proof of work or by a held button, and is then known by its address
  for the lifetime of a cookie and by the cookie itself: a payload \<open>ip_timestamp\<close> with its
  HMAC-SHA-256. The state is the record of the manager; \<open>now\<close> is the instant of the call, callbacks
  and cookies set on the response are returned as lists, and the HTML of the pages is left out, so
  a served page is the token it carries. Lemmas: what a proof is, its round trip, the two kinds of
  solution and what separates their tokens.
\<close>

record Manager =
  mg_cfg :: ChallengeConfig
  mg_secret :: "byte list"
  mg_verifiedIPs :: "(string, gotime) gomap"

datatype verify_event = VerifySuccess string | VerifyFailed string string

record set_cookie =
  sc_name :: string
  sc_value :: string
  sc_max_age :: int

definition NewManager :: "ChallengeConfig \<Rightarrow> Manager" where
  "NewManager cfg =
     (let secretStr = ch_CookieSecret cfg;
          secretStr' = (if secretStr = [] \<or> has_prefix secretStr ''${''
                        then ''mango-shield-enterprise-cookie-hmac-secret-v2-cluster-sync''
                        else secretStr)
      in \<lparr>mg_cfg = cfg, mg_secret = bytes_of secretStr', mg_verifiedIPs = []\<rparr>)"

definition ClearCache :: "Manager \<Rightarrow> Manager" where
  "ClearCache m = m\<lparr>mg_verifiedIPs := []\<rparr>"

definition mg_UpdateConfig :: "ChallengeConfig option \<Rightarrow> Manager \<Rightarrow> Manager" where
  "mg_UpdateConfig c m = (case c of None \<Rightarrow> m | Some cfg \<Rightarrow> ClearCache (m\<lparr>mg_cfg := cfg\<rparr>))"

text \<open>One tick of the eviction worker.\<close>

definition evict_tick :: "gotime \<Rightarrow> Manager \<Rightarrow> Manager" where
  "evict_tick now m = m\<lparr>mg_verifiedIPs := filter (\<lambda>(ip, expTime). \<not> expTime < now) (mg_verifiedIPs m)\<rparr>"

definition cookie_ttl :: "Manager \<Rightarrow> duration" where
  "cookie_ttl m = (let ttl = ch_CookieTTL (mg_cfg m) in if ttl \<le> 0 then 1 * hour else ttl)"

definition hmac_hex :: "byte list \<Rightarrow> string \<Rightarrow> string" where
  "hmac_hex secret payload = hex_encode (hmac_sha256 secret (bytes_of payload))"

text \<open>\<open>VerifyProof\<close> after the cookie was chosen: signature, then age.\<close>

definition cookie_fresh :: "Manager \<Rightarrow> gotime \<Rightarrow> string \<Rightarrow> bool" where
  "cookie_fresh m now payload =
     (case last_index_byte CHR ''_'' payload of
        None \<Rightarrow> False
      | Some i \<Rightarrow>
          if i = 0 then False
          else case parse_int64 (drop (Suc i) payload) of
            Parsed ts \<Rightarrow> \<not> cookie_ttl m < time_sub now (ts * second)
          | _ \<Rightarrow> True)"

definition cookie_valid :: "Manager \<Rightarrow> gotime \<Rightarrow> string \<Rightarrow> bool" where
  "cookie_valid m now value =
     (case cut_byte CHR ''|'' value of
        None \<Rightarrow> False
      | Some (payload, sig) \<Rightarrow> sig = hmac_hex (mg_secret m) payload \<and> cookie_fresh m now payload)"

definition pick_cookie :: "request \<Rightarrow> (string \<times> bool) option" where
  "pick_cookie r =
     (let use = (\<lambda>name. case find_cookie r name of Some v \<Rightarrow> if v = [] then None else Some v | None \<Rightarrow> None)
      in case use ''mango_proof'' of
           Some v \<Rightarrow> Some (v, True)
         | None \<Rightarrow> map_option (\<lambda>v. (v, False)) (use ''mango_session''))"

definition VerifyProof :: "request \<Rightarrow> string \<Rightarrow> gotime \<Rightarrow> Manager \<Rightarrow> bool \<times> Manager" where
  "VerifyProof r ip now m =
     (let expVal = map_of (mg_verifiedIPs m) ip
      in if (case expVal of Some t \<Rightarrow> now < t | None \<Rightarrow> False) then (True, m)
         else let m1 = (if expVal = None then m
                        else m\<lparr>mg_verifiedIPs := AList.delete ip (mg_verifiedIPs m)\<rparr>)
              in case pick_cookie r of
                   None \<Rightarrow> (False, m1)
                 | Some (v, isProof) \<Rightarrow>
                     if \<not> cookie_valid m1 now v then (False, m1)
                     else (True, if isProof then m1\<lparr>mg_verifiedIPs :=
                             AList.update ip (now + cookie_ttl m1) (mg_verifiedIPs m1)\<rparr> else m1))"

subsection \<open>Issuing cookies\<close>

definition cookie_payload :: "string \<Rightarrow> gotime \<Rightarrow> string" where
  "cookie_payload ip now = ip @ ''_'' @ itoa (unix_sec now)"

definition setCookieWithName :: "Manager \<Rightarrow> gotime \<Rightarrow> string \<Rightarrow> string \<Rightarrow> set_cookie" where
  "setCookieWithName m now ip name =
     (let payload = cookie_payload ip now; sig = hmac_hex (mg_secret m) payload
      in \<lparr>sc_name = name, sc_value = payload @ ''|'' @ sig,
          sc_max_age = f_trunc (seconds (ch_CookieTTL (mg_cfg m)))\<rparr>)"

definition SetProofCookie :: "string \<Rightarrow> gotime \<Rightarrow> Manager \<Rightarrow> set_cookie \<times> Manager" where
  "SetProofCookie ip now m =
     (let m1 = m\<lparr>mg_verifiedIPs := AList.update ip (now + cookie_ttl m) (mg_verifiedIPs m)\<rparr>
      in (setCookieWithName m1 now ip ''mango_proof'', m1))"

definition SetSessionCookie :: "string \<Rightarrow> gotime \<Rightarrow> Manager \<Rightarrow> set_cookie \<times> Manager" where
  "SetSessionCookie ip now m = (setCookieWithName m now ip ''mango_session'', m)"

subsection \<open>Verifying solutions\<close>

text \<open>
  The result of a verification: the verdict, the cookies set, the callback made and the manager;
  \<open>None\<close> when the handler panics, which \<open>strings.Repeat\<close> does for a negative count.
\<close>

type_synonym verdict = "(bool \<times> set_cookie list \<times> verify_event list \<times> Manager) option"

definition reject :: "string \<Rightarrow> string \<Rightarrow> Manager \<Rightarrow> verdict" where
  "reject ip reason m = Some (False, [], [VerifyFailed ip reason], m)"

definition grant :: "string \<Rightarrow> gotime \<Rightarrow> Manager \<Rightarrow> verdict" where
  "grant ip now m = (let (c, m') = SetProofCookie ip now m in Some (True, [c], [VerifySuccess ip], m'))"

definition pow_difficulty :: "Manager \<Rightarrow> string \<Rightarrow> int" where
  "pow_difficulty m difficulty =
     (let diffInt = atoi_value difficulty
      in if diffInt = 0 then ch_PowDifficulty (mg_cfg m) else diffInt)"

definition pow_hash :: "string \<Rightarrow> string \<Rightarrow> string" where
  "pow_hash challenge nonce = hex_encode (sha256 (bytes_of (challenge @ nonce)))"

definition verifyPoW :: "request \<Rightarrow> string \<Rightarrow> gotime \<Rightarrow> Manager \<Rightarrow> verdict" where
  "verifyPoW r ip now m =
     (let nonce = form_value r ''nonce''; challenge = form_value r ''challenge'';
          difficulty = form_value r ''difficulty''
      in if nonce = [] \<or> challenge = [] then reject ip ''pow_missing_fields'' m
         else let hashHex = pow_hash challenge nonce; diffInt = pow_difficulty m difficulty
              in if diffInt < 0 then None
                 else if \<not> has_prefix hashHex (replicate (nat diffInt) CHR ''0'')
                 then reject ip ''pow_invalid_hash'' m
                 else grant ip now m)"

definition verifyTurnstile :: "request \<Rightarrow> string \<Rightarrow> gotime \<Rightarrow> Manager \<Rightarrow> verdict" where
  "verifyTurnstile r ip now m =
     (let tsStr = form_value r ''t_id''; hash = form_value r ''t_hash''; data = form_value r ''t_data''
      in if tsStr = [] \<or> hash = [] \<or> data = [] then reject ip ''captcha_missing_fields'' m
         else case parse_int64 tsStr of
           Parsed ts \<Rightarrow>
             (let diff = unix_sec now - ts
              in if diff < -10 \<or> 300 < diff then reject ip ''captcha_expired'' m
                 else if hash \<noteq> hmac_hex (mg_secret m) tsStr then reject ip ''captcha_invalid_hash'' m
                 else grant ip now m)
         | _ \<Rightarrow> reject ip ''captcha_expired'' m)"

definition HandleVerification :: "request \<Rightarrow> string \<Rightarrow> gotime \<Rightarrow> Manager \<Rightarrow> verdict" where
  "HandleVerification r ip now m =
     (if r_method r \<noteq> ''POST'' then Some (False, [], [], m)
      else let challengeType = form_value r ''challenge_type''
           in if challengeType = ''pow'' then verifyPoW r ip now m
              else if challengeType = ''turnstile'' then verifyTurnstile r ip now m
              else Some (False, [], [], m))"

subsection \<open>Serving challenges\<close>

datatype page = JSPage string int | CaptchaPage string string | SilentPage

definition ServeChallenge :: "Manager \<Rightarrow> gotime \<Rightarrow> byte list \<Rightarrow> int \<Rightarrow> int \<Rightarrow> page" where
  "ServeChallenge m now rnd stage difficulty =
     (let js = JSPage (hex_encode rnd) (if difficulty = 0 then ch_PowDifficulty (mg_cfg m) else difficulty);
          ts = itoa (unix_sec now)
      in if stage = 1 then js
         else if stage = 2 then CaptchaPage ts (hmac_hex (mg_secret m) ts)
         else if stage = 3 then SilentPage
         else js)"

subsection \<open>Lemmas\<close>

lemma cookie_ttl_pos: "0 < cookie_ttl m"
  by (simp add: cookie_ttl_def Let_def duration_defs)

lemma hmac_hex_chars: "set (hmac_hex k p) \<subseteq> set hex_digits"
  by (simp add: hmac_hex_def hex_encode_chars)

lemma length_hmac_hex [simp]: "length (hmac_hex k p) = 64"
  by (simp add: hmac_hex_def)

lemma itoa_no: "\<not> is_digit c \<Longrightarrow> c \<noteq> CHR ''-'' \<Longrightarrow> c \<notin> set (itoa i)"
  using show_nat_digits by (auto simp: itoa_def split: if_splits)

lemma payload_last: "last_index_byte CHR ''_'' (cookie_payload ip now) = Some (length ip)"
  unfolding cookie_payload_def
  using last_index_byte_append [of "CHR ''_''" "itoa (unix_sec now)" ip] itoa_no
  by (simp add: is_digit_def)

lemma payload_stamp: "drop (Suc (length ip)) (cookie_payload ip now) = itoa (unix_sec now)"
  by (simp add: cookie_payload_def)

lemma payload_cut:
  assumes "CHR ''|'' \<notin> set ip"
  shows "cut_byte CHR ''|'' (cookie_payload ip now @ ''|'' @ sig) = Some (cookie_payload ip now, sig)"
proof -
  have "CHR ''|'' \<notin> set (cookie_payload ip now)"
    using assms itoa_no [of "CHR ''|''"] by (simp add: cookie_payload_def is_digit_def)
  then show ?thesis using cut_byte_append by simp
qed

lemma cookie_ttl_ips [simp]: "cookie_ttl (m\<lparr>mg_verifiedIPs := x\<rparr>) = cookie_ttl m"
  by (simp add: cookie_ttl_def)

lemma cookie_fresh_ips: "cookie_fresh (m\<lparr>mg_verifiedIPs := x\<rparr>) now p = cookie_fresh m now p"
  unfolding cookie_fresh_def cookie_ttl_ips ..

lemma cookie_valid_ips [simp]: "cookie_valid (m\<lparr>mg_verifiedIPs := x\<rparr>) now v = cookie_valid m now v"
  unfolding cookie_valid_def cookie_fresh_ips by (cases "cut_byte CHR ''|'' v") auto

lemma cookie_fresh_iff:
  "cookie_fresh m now p \<longleftrightarrow>
     (\<exists>i. last_index_byte CHR ''_'' p = Some i \<and> 0 < i \<and>
        (case parse_int64 (drop (Suc i) p) of
           Parsed ts \<Rightarrow> time_sub now (ts * second) \<le> cookie_ttl m | _ \<Rightarrow> True))"
  by (cases "last_index_byte CHR ''_'' p")
    (auto simp: cookie_fresh_def not_less split: parsed_int.splits)

lemma cookie_valid_iff:
  "cookie_valid m now v \<longleftrightarrow>
     (\<exists>p. v = p @ ''|'' @ hmac_hex (mg_secret m) p \<and> CHR ''|'' \<notin> set p \<and> cookie_fresh m now p)"
  by (auto simp: cookie_valid_def cut_byte_iff split: option.splits)
    (metis cut_byte_append option.distinct(1) option.inject prod.inject)+

lemma VerifyProof_result:
  "fst (VerifyProof r ip now m) \<longleftrightarrow>
     (\<exists>t. map_of (mg_verifiedIPs m) ip = Some t \<and> now < t) \<or>
     (\<exists>v p. pick_cookie r = Some (v, p) \<and> cookie_valid m now v)"
  by (auto simp: VerifyProof_def Let_def split: option.splits prod.splits if_splits)

lemma VerifyProof_secret [simp]:
  "mg_secret (snd (VerifyProof r ip now m)) = mg_secret m"
  "mg_cfg (snd (VerifyProof r ip now m)) = mg_cfg m"
  by (auto simp: VerifyProof_def Let_def split: option.splits prod.splits if_splits)

lemma VerifyProof_others:
  "ip' \<noteq> ip \<Longrightarrow> map_of (mg_verifiedIPs (snd (VerifyProof r ip now m))) ip' = map_of (mg_verifiedIPs m) ip'"
  by (auto simp: VerifyProof_def Let_def gomap_simps split: option.splits prod.splits if_splits)

lemma payload_fresh:
  assumes "ip \<noteq> []" and "min_int64 \<le> unix_sec issued" and "unix_sec issued \<le> max_int64"
  shows "cookie_fresh m now (cookie_payload ip issued) \<longleftrightarrow>
    time_sub now (unix_sec issued * second) \<le> cookie_ttl m"
  using assms by (simp add: cookie_fresh_def payload_last payload_stamp parse_int64_itoa not_less)

lemma grant_Some [simp]:
  "grant ip now m = Some (b, cs, evs, m') \<longleftrightarrow>
     b \<and> cs = [fst (SetProofCookie ip now m)] \<and> evs = [VerifySuccess ip] \<and> m' = snd (SetProofCookie ip now m)"
  by (auto simp: grant_def Let_def split: prod.splits)

lemma pow_prefix_length:
  "has_prefix (pow_hash c n) (replicate k CHR ''0'') \<Longrightarrow> k \<le> 64"
  by (auto simp: has_prefix_def pow_hash_def dest: prefix_length_le)

lemma parsed_chars:
  assumes "parse_int64 s = Parsed i" and "c \<in> set s"
  shows "is_digit c \<or> c = CHR ''-'' \<or> c = CHR ''+''"
proof (rule ccontr)
  assume no: "\<not> ?thesis"
  then have bad: "c \<in> set t \<Longrightarrow> read_digits acc t = None" for acc t
    by (induction t arbitrary: acc) auto
  show False
    using assms no bad [of s 0] bad [of "tl s" 0]
    by (cases s) (auto simp: parse_int64_def Let_def split: if_splits option.splits)
qed

subsection \<open>Properties\<close>

text \<open>
  A proof cookie is accepted until it expires. A cookie that \<open>SetProofCookie\<close> issued to an
  address passes \<open>VerifyProof\<close> at any later instant at most its lifetime after the second in which it was issued,
  on every manager with the same secret and lifetime (another node of the cluster, or the same after
  its cache was cleared), and caches the address that presents it.
\<close>

theorem proof_cookie_round_trip:
  assumes "ip \<noteq> []" and "CHR ''|'' \<notin> set ip"
    and "min_int64 \<le> unix_sec issued" and "unix_sec issued \<le> max_int64"
    and "mg_secret m' = mg_secret m" and "mg_cfg m' = mg_cfg m"
    and "time_sub now (unix_sec issued * second) \<le> cookie_ttl m"
    and "find_cookie r ''mango_proof'' = Some (sc_value (fst (SetProofCookie ip issued m)))"
    and "map_of (mg_verifiedIPs m') ip = None"
  shows "VerifyProof r ip now m' =
    (True, m'\<lparr>mg_verifiedIPs := AList.update ip (now + cookie_ttl m) (mg_verifiedIPs m')\<rparr>)"
proof -
  have ttl: "cookie_ttl m' = cookie_ttl m" using assms(6) by (simp add: cookie_ttl_def)
  let ?v = "cookie_payload ip issued @ ''|'' @ hmac_hex (mg_secret m) (cookie_payload ip issued)"
  have v: "sc_value (fst (SetProofCookie ip issued m)) = ?v"
    by (simp add: SetProofCookie_def setCookieWithName_def Let_def)
  have "cookie_valid m' now ?v"
    unfolding cookie_valid_def payload_cut [OF assms(2)]
    using assms(5,7) by (simp add: payload_fresh [OF assms(1,3,4)] ttl)
  moreover have "pick_cookie r = Some (?v, True)"
    using assms(8) v by (simp add: pick_cookie_def Let_def)
  ultimately show ?thesis using assms(9) by (simp add: VerifyProof_def ttl)
qed

definition demo_mgr :: Manager where
  "demo_mgr = \<lparr>mg_cfg = \<lparr>ch_PowDifficulty = 3, ch_PowAdaptive = False, ch_CookieTTL = 30 * minute,
     ch_CookieSecret = ''s''\<rparr>, mg_secret = bytes_of ''s'', mg_verifiedIPs = []\<rparr>"

theorem proof_cookie_round_trip_witness:
  "fst (VerifyProof (blank_request\<lparr>r_cookies := [(''mango_proof'',
     sc_value (fst (SetProofCookie ''1.2.3.4'' (100 * second) demo_mgr)))]\<rparr>) ''1.2.3.4'' (200 * second) demo_mgr)"
  by (subst proof_cookie_round_trip [of _ "100 * second" _ demo_mgr])
    (simp_all add: demo_mgr_def find_cookie_def blank_request_def unix_sec_def duration_defs
      min_int64_def max_int64_def cookie_ttl_def)

text \<open>
  C7: Nothing else is a proof. \<open>VerifyProof\<close> accepts exactly when the address is cached and not
  expired, or the proof cookie (the session cookie when there is no proof cookie) consists of a
  payload and the hexadecimal HMAC-SHA-256 of that payload under the manager's secret, the payload
  has an underscore after its first character, and the text after its last underscore, where it is a number,
  is an instant at most one lifetime ago. And it never changes what is cached for another address.
\<close>

theorem verify_proof_sound:
  "fst (VerifyProof r ip now m) =
     ((\<exists>t. map_of (mg_verifiedIPs m) ip = Some t \<and> now < t) \<or>
      (\<exists>payload p i. pick_cookie r = Some (payload @ ''|'' @ hmac_hex (mg_secret m) payload, p) \<and>
         CHR ''|'' \<notin> set payload \<and> last_index_byte CHR ''_'' payload = Some i \<and> 0 < i \<and>
         (case parse_int64 (drop (Suc i) payload) of
            Parsed ts \<Rightarrow> time_sub now (ts * second) \<le> cookie_ttl m | _ \<Rightarrow> True))) \<and>
   (ip' = ip \<or> map_of (mg_verifiedIPs (snd (VerifyProof r ip now m))) ip' = map_of (mg_verifiedIPs m) ip')"
proof -
  have "fst (VerifyProof r ip now m) \<longleftrightarrow>
     (\<exists>t. map_of (mg_verifiedIPs m) ip = Some t \<and> now < t) \<or>
     (\<exists>v p. pick_cookie r = Some (v, p) \<and> cookie_valid m now v)"
    by (rule VerifyProof_result)
  then show ?thesis
    unfolding cookie_valid_iff cookie_fresh_iff using VerifyProof_others [of ip' ip] by blast
qed

text \<open>
  The tokens of the button challenge and of the cookies cannot stand in for each other, although
  both are signed with one secret: a text that \<open>verifyTurnstile\<close> accepts as an identifier is never
  the payload of an accepted cookie, at any time and on any manager.
\<close>

theorem token_domain_separation:
  assumes "verifyTurnstile r ip now m = Some (True, cs, evs, m1)"
  shows "\<not> cookie_valid m2 now2 (form_value r ''t_id'' @ ''|'' @ sig)"
proof -
  let ?p = "form_value r ''t_id''"
  obtain i where i: "parse_int64 ?p = Parsed i"
    using assms by (auto simp: verifyTurnstile_def reject_def Let_def split: if_splits parsed_int.splits)
  have no: "CHR ''_'' \<notin> set ?p" "CHR ''|'' \<notin> set ?p"
    using parsed_chars [OF i, of "CHR ''_''"] parsed_chars [OF i, of "CHR ''|''"]
    by (auto simp: is_digit_def)
  have "cut_byte CHR ''|'' (?p @ ''|'' @ sig) = Some (?p, sig)"
    using cut_byte_append [OF no(2)] by simp
  moreover have "last_index_byte CHR ''_'' ?p = None" using no(1) by (simp add: last_index_byte_None)
  ultimately show ?thesis by (simp add: cookie_valid_def cookie_fresh_def)
qed

definition demo_turnstile :: request where
  "demo_turnstile = blank_request\<lparr>r_form := [(''t_id'', ''100''),
     (''t_hash'', hmac_hex (bytes_of ''s'') ''100''), (''t_data'', ''x'')]\<rparr>"

lemma demo_turnstile_ok:
  "verifyTurnstile demo_turnstile ''1.2.3.4'' (200 * second) demo_mgr =
     Some (True, [fst (SetProofCookie ''1.2.3.4'' (200 * second) demo_mgr)], [VerifySuccess ''1.2.3.4''],
           snd (SetProofCookie ''1.2.3.4'' (200 * second) demo_mgr))"
proof -
  have "parse_int64 ''100'' = Parsed 100" by code_simp
  moreover have "hmac_hex k p \<noteq> []" for k p
    using length_hmac_hex [of k p] by (auto simp del: length_hmac_hex)
  ultimately show ?thesis
    by (simp add: verifyTurnstile_def demo_turnstile_def form_value_def demo_mgr_def unix_sec_def
        duration_defs)
qed

theorem token_domain_separation_witness:
  "\<not> cookie_valid demo_mgr 0 (form_value demo_turnstile ''t_id'' @ ''|'' @ ''sig'')"
  by (rule token_domain_separation [OF demo_turnstile_ok])

text \<open>
  A captcha page can be solved. The token and hash of the page that \<open>ServeChallenge\<close> serves at
  stage 2, sent back with any event data within 300 seconds, are accepted, and the address that sent
  them then holds a proof for the lifetime of the cookie.
\<close>

theorem captcha_round_trip:
  assumes "ServeChallenge m served rnd 2 d = CaptchaPage t h"
    and "form_value r ''t_id'' = t" and "form_value r ''t_hash'' = h" and "form_value r ''t_data'' \<noteq> []"
    and "min_int64 \<le> unix_sec served" and "unix_sec served \<le> max_int64"
    and "served \<le> now" and "unix_sec now - unix_sec served \<le> 300"
    and "mg_secret m' = mg_secret m" and "later < now + cookie_ttl m'"
  shows "\<exists>c m''. verifyTurnstile r ip now m' = Some (True, [c], [VerifySuccess ip], m'') \<and>
    fst (VerifyProof r' ip later m'')"
proof -
  have th: "t = itoa (unix_sec served)" "h = hmac_hex (mg_secret m) t"
    using assms(1) by (auto simp: ServeChallenge_def Let_def)
  have p: "parse_int64 t = Parsed (unix_sec served)"
    using th(1) assms(5,6) by (simp add: parse_int64_itoa)
  have ne: "t \<noteq> []" "h \<noteq> []"
    using th length_hmac_hex [of "mg_secret m" t] by (auto simp: itoa_def simp del: length_hmac_hex)
  have "unix_sec served \<le> unix_sec now"
    using assms(7) by (simp add: unix_sec_def duration_defs zdiv_mono1)
  then have "verifyTurnstile r ip now m' = grant ip now m'"
    using assms(2,3,4,8,9) ne p th by (simp add: verifyTurnstile_def Let_def)
  moreover have "fst (VerifyProof r' ip later (snd (SetProofCookie ip now m')))"
    using assms(10) by (simp add: VerifyProof_result SetProofCookie_def Let_def gomap_simps)
  ultimately show ?thesis by (auto simp: grant_def Let_def split: prod.splits)
qed

lemma itoa_100: "itoa 100 = ''100''"
  by code_simp

theorem captcha_round_trip_witness:
  "\<exists>c m''. verifyTurnstile demo_turnstile ''1.2.3.4'' (200 * second) demo_mgr =
      Some (True, [c], [VerifySuccess ''1.2.3.4''], m'') \<and> fst (VerifyProof blank_request ''1.2.3.4'' (300 * second) m'')"
  by (rule captcha_round_trip [of demo_mgr "100 * second" "[]" 0 "''100''" "hmac_hex (bytes_of ''s'') ''100''"])
    (simp_all add: ServeChallenge_def demo_turnstile_def demo_mgr_def form_value_def unix_sec_def
      duration_defs min_int64_def max_int64_def cookie_ttl_def itoa_100 Let_def)

text \<open>
  What \<open>verifyPoW\<close> decides, on every input: it panics exactly on a negative difficulty with the
  two other fields present, and otherwise accepts exactly when the first \<open>d\<close> hexadecimal digits of the SHA-256 of challenge
  and nonce are zeros, where \<open>d\<close> is the difficulty the client sent, and the configured one only
  when the client's is zero or not a number. So the decision depends on no challenge the server
  issued and not on the address, and a difficulty above 64 is never met.
\<close>

theorem pow_decision:
  "(verifyPoW r ip now m = None) =
     (form_value r ''nonce'' \<noteq> [] \<and> form_value r ''challenge'' \<noteq> [] \<and>
      pow_difficulty m (form_value r ''difficulty'') < 0) \<and>
   (\<exists>cs evs m'. verifyPoW r ip now m = Some (True, cs, evs, m')) =
     (form_value r ''nonce'' \<noteq> [] \<and> form_value r ''challenge'' \<noteq> [] \<and>
      (\<exists>d \<le> 64. pow_difficulty m (form_value r ''difficulty'') = int d \<and>
         take d (pow_hash (form_value r ''challenge'') (form_value r ''nonce'')) = replicate d CHR ''0''))"
proof -
  let ?h = "pow_hash (form_value r ''challenge'') (form_value r ''nonce'')"
  let ?d = "pow_difficulty m (form_value r ''difficulty'')"
  have pre: "has_prefix ?h (replicate k CHR ''0'') \<longleftrightarrow> k \<le> 64 \<and> take k ?h = replicate k CHR ''0''" for k
    using pow_prefix_length [of "form_value r ''challenge''" "form_value r ''nonce''" k]
    by (auto simp: has_prefix_take)
  have "(\<exists>d \<le> 64. ?d = int d \<and> take d ?h = replicate d CHR ''0'') \<longleftrightarrow>
      0 \<le> ?d \<and> has_prefix ?h (replicate (nat ?d) CHR ''0'')"
    by (auto simp: pre)
  then show ?thesis
    by (auto simp: verifyPoW_def reject_def Let_def grant_def split: prod.splits)
qed

text \<open>
  The client sets its own difficulty. Whatever difficulty the server is configured with, a
  request that says its difficulty is 1 is accepted as soon as the first hexadecimal digit of the
  hash is zero, for any address, at any time and for any challenge text; and the same request with
  \<open>-1\<close> makes the handler panic.
\<close>

definition pow_request :: "string \<Rightarrow> string \<Rightarrow> string \<Rightarrow> request" where
  "pow_request challenge nonce difficulty = blank_request\<lparr>r_method := ''POST'',
     r_form := [(''challenge_type'', ''pow''), (''challenge'', challenge), (''nonce'', nonce),
                (''difficulty'', difficulty)]\<rparr>"

theorem pow_client_chosen_difficulty:
  "(\<exists>cs evs m'. HandleVerification (pow_request (x # c) (y # n) ''1'') ip now m = Some (True, cs, evs, m')) =
     (hd (pow_hash (x # c) (y # n)) = CHR ''0'') \<and>
   HandleVerification (pow_request (x # c) (y # n) ''-1'') ip now m = None"
proof -
  let ?h = "pow_hash (x # c) (y # n)"
  have "length ?h = 64" by (simp add: pow_hash_def)
  then have h: "has_prefix ?h ''0'' \<longleftrightarrow> hd ?h = CHR ''0''"
    by (cases ?h) (auto simp: has_prefix_def)
  have d: "pow_difficulty m ''1'' = 1" "pow_difficulty m ''-1'' = -1"
  proof -
    have "atoi_value ''1'' = 1" "atoi_value ''-1'' = -1" by code_simp+
    then show "pow_difficulty m ''1'' = 1" "pow_difficulty m ''-1'' = -1"
      by (simp_all add: pow_difficulty_def)
  qed
  have f: "form_value (pow_request (x # c) (y # n) t) ''nonce'' = y # n"
    "form_value (pow_request (x # c) (y # n) t) ''challenge'' = x # c"
    "form_value (pow_request (x # c) (y # n) t) ''difficulty'' = t"
    "HandleVerification (pow_request (x # c) (y # n) t) ip now m =
       verifyPoW (pow_request (x # c) (y # n) t) ip now m" for t
    by (simp_all add: pow_request_def form_value_def HandleVerification_def)
  show ?thesis
    by (simp add: f d h [symmetric] verifyPoW_def Let_def grant_def reject_def split: prod.split)
qed

end
