(* ===== verification/Meter.thy ===== *)
theory Meter
  imports Float64
begin

section \<open>Meters: what bounds the number of admitted events\<close>

text \<open>
  The contract of a token bucket, free of its representation: a step that admits or refuses one
  event, a level that every admitted event costs one unit of, and a refill that depends on the input
  of the step. Rounding may inflate the level by a factor \<open>w\<close> per step. The client's fact is the bound
  on the number of events admitted by any sequence of inputs.
\<close>

fun admitted :: "('x \<Rightarrow> 's \<Rightarrow> bool \<times> 's) \<Rightarrow> 'x list \<Rightarrow> 's \<Rightarrow> nat \<times> 's" where
  "admitted step [] s = (0, s)"
| "admitted step (x # xs) s =
     (let (ok, s') = step x s; (n, s'') = admitted step xs s'
      in ((if ok then Suc n else n), s''))"

fun refilled :: "('x \<Rightarrow> 's \<Rightarrow> bool \<times> 's) \<Rightarrow> ('x \<Rightarrow> 's \<Rightarrow> rat) \<Rightarrow> 'x list \<Rightarrow> 's \<Rightarrow> rat" where
  "refilled step refill [] s = 0"
| "refilled step refill (x # xs) s =
     refill x s + refilled step refill xs (snd (step x s))"

fun all_good :: "('x \<Rightarrow> 's \<Rightarrow> bool \<times> 's) \<Rightarrow> ('x \<Rightarrow> 's \<Rightarrow> bool) \<Rightarrow> 'x list \<Rightarrow> 's \<Rightarrow> bool" where
  "all_good step good [] s = True"
| "all_good step good (x # xs) s = (good x s \<and> all_good step good xs (snd (step x s)))"

locale meter =
  fixes step :: "'x \<Rightarrow> 's \<Rightarrow> bool \<times> 's"
    and good :: "'x \<Rightarrow> 's \<Rightarrow> bool"
    and level :: "'s \<Rightarrow> rat"
    and refill :: "'x \<Rightarrow> 's \<Rightarrow> rat"
    and w :: rat
  assumes w_ge: "1 \<le> w"
    and level_step: "good x s \<Longrightarrow>
      level (snd (step x s)) + (if fst (step x s) then 1 else 0) \<le> w * (level s + refill x s)"
    and level_nonneg: "good x s \<Longrightarrow> 0 \<le> level s \<and> 0 \<le> refill x s \<and> 0 \<le> level (snd (step x s))"
begin

lemma refilled_nonneg: "all_good step good xs s \<Longrightarrow> 0 \<le> refilled step refill xs s"
  using level_nonneg by (induction xs arbitrary: s) fastforce+

lemma admitted_bound:
  assumes "all_good step good xs s" and "0 \<le> level s"
  shows "of_nat (fst (admitted step xs s)) \<le> w ^ length xs * (level s + refilled step refill xs s)"
  using assms
proof (induction xs arbitrary: s)
  case Nil
  then show ?case by simp
next
  case (Cons x xs)
  let ?s = "snd (step x s)"
  let ?a = "if fst (step x s) then 1 else 0 :: rat"
  let ?k = "length xs"
  have g: "good x s" "all_good step good xs ?s" using Cons.prems(1) by auto
  have rest: "0 \<le> refilled step refill xs ?s" by (rule refilled_nonneg [OF g(2)])
  have wk: "1 \<le> w ^ ?k" using w_ge by (rule one_le_power)
  have a: "0 \<le> ?a" by simp
  have "of_nat (fst (admitted step (x # xs) s)) = ?a + of_nat (fst (admitted step xs ?s))"
    by (simp add: Let_def split: prod.splits)
  also have "\<dots> \<le> ?a + w ^ ?k * (level ?s + refilled step refill xs ?s)"
    using Cons.IH [OF g(2)] level_nonneg [OF g(1)] by simp
  also have "\<dots> \<le> w ^ ?k * ?a + w ^ ?k * (level ?s + refilled step refill xs ?s)"
    using mult_right_mono [OF wk a] by simp
  also have "\<dots> = w ^ ?k * (level ?s + ?a) + w ^ ?k * refilled step refill xs ?s"
    by (simp add: algebra_simps)
  also have "\<dots> \<le> w ^ ?k * (w * (level s + refill x s)) + w ^ ?k * (w * refilled step refill xs ?s)"
    using level_step [OF g(1)] wk mult_right_mono [OF w_ge rest]
    by (intro add_mono mult_left_mono) auto
  also have "\<dots> = w ^ length (x # xs) * (level s + refilled step refill (x # xs) s)"
    by (simp add: algebra_simps)
  finally show ?case .
qed

end

text \<open>
  What a refill in \<open>float64\<close> can gain at most: the elapsed seconds, the product and the sum are each
  rounded.
\<close>

lemma one_le_eps_power: "1 \<le> (1 + eps) ^ k"
  by (rule one_le_power) simp

lemma refill_upper:
  assumes "0 \<le> t" and "0 \<le> r" and "0 \<le> d" and "d \<le> max_int64"
  shows "fadd t (fmul (seconds d) r) \<le> (1 + eps) ^ 4 * (t + r * of_int d / 10 ^ 9)"
proof -
  let ?D = "of_int d / 10 ^ 9 :: rat"
  have s: "0 \<le> seconds d" by (rule seconds_nonneg [OF assms(3)])
  have D: "0 \<le> ?D" using assms(3) by simp
  have "fadd t (fmul (seconds d) r) \<le> (1 + eps) * (t + fl (seconds d * r))"
    unfolding fadd_def fmul_def using assms s by (intro fl_upper) auto
  also have "\<dots> \<le> (1 + eps) * (t + (1 + eps) * (seconds d * r))"
    using assms s by (intro mult_left_mono add_left_mono fl_upper) auto
  also have "\<dots> \<le> (1 + eps) * (t + (1 + eps) * ((1 + eps) ^ 2 * ?D * r))"
    using assms seconds_upper [OF assms(3,4)] by (intro mult_left_mono add_left_mono mult_right_mono) auto
  also have "\<dots> = (1 + eps) * t + (1 + eps) ^ 4 * (?D * r)"
    by (simp add: algebra_simps power_numeral_reduce)
  also have "\<dots> \<le> (1 + eps) ^ 4 * t + (1 + eps) ^ 4 * (?D * r)"
    using assms power_increasing [of 1 4 "1 + eps"] by (intro add_right_mono mult_right_mono) auto
  also have "\<dots> = (1 + eps) ^ 4 * (t + r * of_int d / 10 ^ 9)" by (simp add: algebra_simps)
  finally show ?thesis .
qed

lemma take_one:
  assumes "0 \<le> x" and "x \<le> u"
  shows "(if 1 \<le> x then fsub x 1 + 1 else x) \<le> (1 + eps) * u"
proof -
  have "fsub x 1 + 1 \<le> (1 + eps) * (x - 1) + (1 + eps)" if "1 \<le> x"
    unfolding fsub_def using that by (intro add_mono fl_upper) auto
  then have "(if 1 \<le> x then fsub x 1 + 1 else x) \<le> (1 + eps) * x"
    using mult_right_mono [of 1 "1 + eps" x] assms(1) by (auto simp: algebra_simps)
  also have "\<dots> \<le> (1 + eps) * u" using assms(2) by (intro mult_left_mono) auto
  finally show ?thesis .
qed

section \<open>One machine per key\<close>

text \<open>
  Every limiter and tracker of the program runs one small machine per address. \<open>keyed\<close> is the
  interface of such a table: an operation on a key runs the step of the machine in the key's cell and
  leaves every other cell alone. The client's fact is that the events admitted for one key, among
  operations on any keys, are those its own machine admits alone.
\<close>

fun keyed_admitted :: "('k \<Rightarrow> 'x \<Rightarrow> 's \<Rightarrow> bool \<times> 's) \<Rightarrow> 'k \<Rightarrow> ('k \<times> 'x) list \<Rightarrow> 's \<Rightarrow> nat" where
  "keyed_admitted op k [] s = 0"
| "keyed_admitted op k ((j, x) # xs) s =
     (let (ok, s') = op j x s; n = keyed_admitted op k xs s' in if ok \<and> j = k then Suc n else n)"

definition events_of :: "'k \<Rightarrow> ('k \<times> 'x) list \<Rightarrow> 'x list" where
  "events_of k xs = map snd (filter (\<lambda>(j, x). j = k) xs)"

lemma events_of_simps [simp]:
  "events_of k [] = []"
  "events_of k ((j, x) # xs) = (if j = k then x # events_of k xs else events_of k xs)"
  by (simp_all add: events_of_def)

locale keyed =
  fixes op :: "'k \<Rightarrow> 'x \<Rightarrow> 's \<Rightarrow> bool \<times> 's"
    and ok :: "'s \<Rightarrow> bool"
    and cell :: "'s \<Rightarrow> 'x \<Rightarrow> 'k \<Rightarrow> 'v"
    and step :: "'x \<Rightarrow> 'v \<Rightarrow> bool \<times> 'v"
  assumes op_ok: "ok s \<Longrightarrow> ok (snd (op k x s))"
    and op_result: "ok s \<Longrightarrow> fst (op k x s) = fst (step x (cell s x k))"
    and op_cell: "ok s \<Longrightarrow> cell (snd (op k x s)) y j =
      (if j = k then snd (step x (cell s x k)) else cell s y j)"
begin

lemma keyed_admitted_eq:
  assumes "ok s" and "events_of k xs = [] \<or> x0 = hd (events_of k xs)"
  shows "keyed_admitted op k xs s = fst (admitted step (events_of k xs) (cell s x0 k))"
  using assms
proof (induction xs arbitrary: s x0)
  case Nil
  then show ?case by simp
next
  case (Cons r xs)
  obtain j x where r: "r = (j, x)" by (cases r)
  let ?s = "snd (op j x s)"
  have ok: "ok ?s" by (rule op_ok [OF Cons.prems(1)])
  have eq: "keyed_admitted op k (r # xs) s =
      (if fst (op j x s) \<and> j = k then 1 else 0) + keyed_admitted op k xs ?s"
    by (simp add: r Let_def split: prod.split)
  show ?case
  proof (cases "j = k")
    case True
    then have x0: "x0 = x" using Cons.prems(2) by (simp add: r)
    have "keyed_admitted op k xs ?s =
        fst (admitted step (events_of k xs) (cell ?s (hd (events_of k xs)) k))"
      by (rule Cons.IH [OF ok]) simp
    then show ?thesis
      using True x0 unfolding eq op_cell [OF Cons.prems(1)]
      by (simp add: r op_result [OF Cons.prems(1)] Let_def split: prod.split)
  next
    case False
    then have "keyed_admitted op k xs ?s = fst (admitted step (events_of k xs) (cell ?s x0 k))"
      using Cons.prems(2) by (intro Cons.IH [OF ok]) (simp add: r)
    then show ?thesis using False unfolding eq op_cell [OF Cons.prems(1)] by (simp add: r)
  qed
qed

end

end
