(* ===== verification/Rate_Limit.thy ===== *)
theory Rate_Limit
  imports Kv_Store Hashes Meter
begin

section \<open>Token buckets and the per-address limiter (perf/pool.go)\<close>

text \<open>
  \<open>TokenBucket\<close> refills with \<open>float64\<close> arithmetic on every call; \<open>IPRateLimiter\<close> keeps one bucket per
  address in 256 maps picked by FNV-1a, creates it full on the first request, and drops it after
  ten idle minutes. The memory monitor, the connection pool statistics and the context pool of the
  same file are not modelled. Lemmas: the bucket stays between 0 and its capacity, the bound on the
  admitted requests as an interpretation of \<open>meter\<close>, and independence of the addresses as an
  interpretation of \<open>shard_fn\<close>.
\<close>

record TokenBucket =
  tb_tokens :: f64
  tb_capacity :: f64
  tb_rate :: f64
  tb_lastTime :: gotime

definition NewTokenBucket :: "f64 \<Rightarrow> f64 \<Rightarrow> gotime \<Rightarrow> TokenBucket" where
  "NewTokenBucket rate capacity now =
     \<lparr>tb_tokens = capacity, tb_capacity = capacity, tb_rate = rate, tb_lastTime = now\<rparr>"

definition tb_refill :: "gotime \<Rightarrow> TokenBucket \<Rightarrow> f64" where
  "tb_refill now tb =
     (let elapsed = seconds (time_sub now (tb_lastTime tb));
          tokens = fadd (tb_tokens tb) (fmul elapsed (tb_rate tb))
      in if tb_capacity tb < tokens then tb_capacity tb else tokens)"

definition AllowN :: "f64 \<Rightarrow> gotime \<Rightarrow> TokenBucket \<Rightarrow> bool \<times> TokenBucket" where
  "AllowN n now tb =
     (let tokens = tb_refill now tb; tb' = tb\<lparr>tb_tokens := tokens, tb_lastTime := now\<rparr>
      in if n \<le> tokens then (True, tb'\<lparr>tb_tokens := fsub tokens n\<rparr>) else (False, tb'))"

definition tb_Allow :: "gotime \<Rightarrow> TokenBucket \<Rightarrow> bool \<times> TokenBucket" where
  "tb_Allow now tb = AllowN 1 now tb"

definition tb_SetRate :: "f64 \<Rightarrow> TokenBucket \<Rightarrow> TokenBucket" where
  "tb_SetRate newRate tb = tb\<lparr>tb_rate := newRate\<rparr>"

subsection \<open>The limiter\<close>

record IPRateLimiter =
  ipl_shards :: "(string, TokenBucket) shards"
  ipl_rate :: f64
  ipl_capacity :: f64

definition NewIPRateLimiter :: "f64 \<Rightarrow> f64 \<Rightarrow> IPRateLimiter" where
  "NewIPRateLimiter rps burst = \<lparr>ipl_shards = replicate 256 [], ipl_rate = rps, ipl_capacity = burst\<rparr>"

definition ipl_shard :: "string \<Rightarrow> nat" where
  "ipl_shard ip = unat (fnv1a (bytes_of ip)) mod 256"

definition ipl_Allow :: "string \<Rightarrow> gotime \<Rightarrow> IPRateLimiter \<Rightarrow> bool \<times> IPRateLimiter" where
  "ipl_Allow ip now rl =
     (let shardIdx = ipl_shard ip; shard = ipl_shards rl ! shardIdx;
          limiter = (case map_of shard ip of
                       Some tb \<Rightarrow> tb | None \<Rightarrow> NewTokenBucket (ipl_rate rl) (ipl_capacity rl) now);
          (ok, limiter') = tb_Allow now limiter
      in (ok, rl\<lparr>ipl_shards := (ipl_shards rl)[shardIdx := AList.update ip limiter' shard]\<rparr>))"

definition SetGlobalRate :: "f64 \<Rightarrow> IPRateLimiter \<Rightarrow> IPRateLimiter" where
  "SetGlobalRate rps rl = rl\<lparr>ipl_rate := rps,
     ipl_shards := map (map (\<lambda>(ip, tb). (ip, tb_SetRate rps tb))) (ipl_shards rl)\<rparr>"

definition ipl_SetRate :: "f64 \<Rightarrow> f64 \<Rightarrow> IPRateLimiter \<Rightarrow> IPRateLimiter" where
  "ipl_SetRate rps burst rl = rl\<lparr>
     ipl_rate := (if 0 < rps then rps else ipl_rate rl),
     ipl_capacity := (if 0 < burst then burst else ipl_capacity rl),
     ipl_shards := map (map (\<lambda>(ip, tb). (ip, if 0 < rps then tb_SetRate rps tb else tb))) (ipl_shards rl)\<rparr>"

text \<open>One tick of the cleanup loop.\<close>

definition ipl_cleanup :: "gotime \<Rightarrow> IPRateLimiter \<Rightarrow> IPRateLimiter" where
  "ipl_cleanup now rl = rl\<lparr>ipl_shards :=
     map (filter (\<lambda>(ip, tb). \<not> 10 * minute < time_sub now (tb_lastTime tb))) (ipl_shards rl)\<rparr>"

subsection \<open>Buckets\<close>

definition tb_ok :: "TokenBucket \<Rightarrow> bool" where
  "tb_ok tb \<longleftrightarrow> 0 \<le> tb_tokens tb \<and> tb_tokens tb \<le> tb_capacity tb \<and> is_f64 (tb_capacity tb) \<and> 0 \<le> tb_rate tb"

lemma tb_ok_new: "0 \<le> rate \<Longrightarrow> 0 \<le> capacity \<Longrightarrow> is_f64 capacity \<Longrightarrow> tb_ok (NewTokenBucket rate capacity now)"
  by (simp add: tb_ok_def NewTokenBucket_def)

lemma tb_refill_bounds:
  assumes "tb_ok tb" and "tb_lastTime tb \<le> now"
  shows "0 \<le> tb_refill now tb" and "tb_refill now tb \<le> tb_capacity tb"
proof -
  have "0 \<le> time_sub now (tb_lastTime tb)"
    using assms(2) by (simp add: time_sub_def max_int64_def min_int64_def)
  then have "0 \<le> fadd (tb_tokens tb) (fmul (seconds (time_sub now (tb_lastTime tb))) (tb_rate tb))"
    using assms(1) by (auto simp: tb_ok_def intro!: fadd_nonneg fmul_nonneg seconds_nonneg)
  then show "0 \<le> tb_refill now tb"
    using assms(1) by (simp add: tb_refill_def tb_ok_def Let_def)
  show "tb_refill now tb \<le> tb_capacity tb"
    by (simp add: tb_refill_def Let_def)
qed

lemma is_f64_refill: "tb_ok tb \<Longrightarrow> is_f64 (tb_refill now tb)"
  by (simp add: tb_refill_def Let_def tb_ok_def)

lemma AllowN_ok:
  assumes "tb_ok tb" and "tb_lastTime tb \<le> now" and "0 \<le> n"
  shows "tb_ok (snd (AllowN n now tb))"
  using assms tb_refill_bounds [OF assms(1,2)] fsub_le [OF is_f64_refill [OF assms(1)] assms(3), of now]
  by (auto simp: AllowN_def Let_def tb_ok_def fsub_nonneg)

lemma AllowN_fields [simp]:
  "tb_capacity (snd (AllowN n now tb)) = tb_capacity tb"
  "tb_rate (snd (AllowN n now tb)) = tb_rate tb"
  "tb_lastTime (snd (AllowN n now tb)) = now"
  by (simp_all add: AllowN_def Let_def)

lemma AllowN_fst: "fst (AllowN n now tb) \<longleftrightarrow> n \<le> tb_refill now tb"
  by (simp add: AllowN_def Let_def)

definition tb_gain :: "gotime \<Rightarrow> TokenBucket \<Rightarrow> rat" where
  "tb_gain now tb = tb_rate tb * of_int (now - tb_lastTime tb) / 10 ^ 9"

definition tb_factor :: rat where
  "tb_factor = (1 + eps) ^ 5"

definition tb_good :: "gotime \<Rightarrow> TokenBucket \<Rightarrow> bool" where
  "tb_good now tb \<longleftrightarrow> tb_ok tb \<and> tb_lastTime tb \<le> now"

lemma tb_refill_upper:
  assumes "tb_good now tb"
  shows "tb_refill now tb \<le> (1 + eps) ^ 4 * (tb_tokens tb + tb_gain now tb)"
proof -
  let ?d = "time_sub now (tb_lastTime tb)"
  have d: "0 \<le> ?d" "?d \<le> max_int64" "?d \<le> now - tb_lastTime tb"
    using assms by (auto simp: tb_good_def time_sub_def max_int64_def min_int64_def)
  have t: "0 \<le> tb_tokens tb" "0 \<le> tb_rate tb" using assms by (auto simp: tb_good_def tb_ok_def)
  have "tb_refill now tb \<le> fadd (tb_tokens tb) (fmul (seconds ?d) (tb_rate tb))"
    by (simp add: tb_refill_def Let_def)
  also have "\<dots> \<le> (1 + eps) ^ 4 * (tb_tokens tb + tb_rate tb * of_int ?d / 10 ^ 9)"
    by (rule refill_upper [OF t d(1,2)])
  also have "\<dots> \<le> (1 + eps) ^ 4 * (tb_tokens tb + tb_gain now tb)"
    using d(3) t unfolding tb_gain_def
    by (intro mult_left_mono add_left_mono divide_right_mono) auto
  finally show ?thesis .
qed

lemma AllowN_level:
  assumes "tb_good now tb"
  shows "tb_tokens (snd (AllowN 1 now tb)) + (if fst (AllowN 1 now tb) then 1 else 0)
    \<le> tb_factor * (tb_tokens tb + tb_gain now tb)"
proof -
  have x: "0 \<le> tb_refill now tb" using assms by (auto simp: tb_good_def tb_refill_bounds)
  have f: "tb_factor * u = (1 + eps) * ((1 + eps) ^ 4 * u)" for u
    by (simp add: tb_factor_def power_numeral_reduce algebra_simps)
  show ?thesis unfolding f
    using take_one [OF x tb_refill_upper [OF assms]] by (simp add: AllowN_def Let_def split: if_splits)
qed

interpretation bucket: meter tb_Allow tb_good tb_tokens tb_gain tb_factor
proof
  show "1 \<le> tb_factor" unfolding tb_factor_def by (rule one_le_power) simp
next
  fix x s assume g: "tb_good x s"
  show "tb_tokens (snd (tb_Allow x s)) + (if fst (tb_Allow x s) then 1 else 0)
      \<le> tb_factor * (tb_tokens s + tb_gain x s)"
    using AllowN_level [OF g] by (simp add: tb_Allow_def)
  have "tb_ok (snd (tb_Allow x s))"
    using g AllowN_ok [of s x 1] by (simp add: tb_Allow_def tb_good_def)
  then show "0 \<le> tb_tokens s \<and> 0 \<le> tb_gain x s \<and> 0 \<le> tb_tokens (snd (tb_Allow x s))"
    using g by (simp add: tb_good_def tb_ok_def tb_gain_def)
qed

lemma bucket_all_good:
  "tb_ok tb \<Longrightarrow> sorted (tb_lastTime tb # ts) \<Longrightarrow> all_good tb_Allow tb_good ts tb"
proof (induction ts arbitrary: tb)
  case Nil
  then show ?case by simp
next
  case (Cons t ts)
  then have "tb_ok (snd (tb_Allow t tb))"
    using AllowN_ok [of tb t 1] by (simp add: tb_Allow_def)
  moreover have "sorted (tb_lastTime (snd (tb_Allow t tb)) # ts)"
    using Cons.prems(2) by (simp add: tb_Allow_def)
  ultimately show ?case using Cons by (simp add: tb_good_def)
qed

lemma bucket_refilled:
  "refilled tb_Allow tb_gain ts tb = tb_rate tb * of_int (last (tb_lastTime tb # ts) - tb_lastTime tb) / 10 ^ 9"
proof (induction ts arbitrary: tb)
  case Nil
  then show ?case by simp
next
  case (Cons t ts)
  show ?case
    by (simp add: Cons.IH) (simp add: tb_Allow_def tb_gain_def algebra_simps add_divide_distrib diff_divide_distrib)
qed

subsection \<open>Addresses\<close>

interpretation ipl: shard_fn ipl_shard 256
  by unfold_locales (simp add: ipl_shard_def)

abbreviation ipl_ok :: "IPRateLimiter \<Rightarrow> bool" where
  "ipl_ok rl \<equiv> shards_ok ipl_shard 256 (ipl_shards rl)"

definition ipl_bucket :: "IPRateLimiter \<Rightarrow> gotime \<Rightarrow> string \<Rightarrow> TokenBucket" where
  "ipl_bucket rl now ip = (case shard_load ipl_shard (ipl_shards rl) ip of
     Some tb \<Rightarrow> tb | None \<Rightarrow> NewTokenBucket (ipl_rate rl) (ipl_capacity rl) now)"

lemma ipl_Allow_eq:
  "ipl_Allow ip now rl =
     (fst (tb_Allow now (ipl_bucket rl now ip)),
      rl\<lparr>ipl_shards := shard_put ipl_shard ip (snd (tb_Allow now (ipl_bucket rl now ip))) (ipl_shards rl)\<rparr>)"
  by (simp add: ipl_Allow_def ipl_bucket_def shard_load_def shard_put_def Let_def split: prod.split)

lemma ipl_Allow_ok: "ipl_ok rl \<Longrightarrow> ipl_ok (snd (ipl_Allow ip now rl))"
  by (simp add: ipl_Allow_eq ipl.good_put)

lemma ipl_Allow_bucket:
  assumes "ipl_ok rl"
  shows "ipl_bucket (snd (ipl_Allow ip now rl)) now' ip' =
    (if ip' = ip then snd (tb_Allow now (ipl_bucket rl now ip)) else ipl_bucket rl now' ip')"
  unfolding ipl_Allow_eq by (simp add: ipl_bucket_def ipl.look_put [OF assms] split: option.split)

lemma ipl_new_ok: "ipl_ok (NewIPRateLimiter rps burst)"
  using ipl.good_vacant by (simp add: NewIPRateLimiter_def)

lemma ipl_cleanup_load:
  "ipl_ok rl \<Longrightarrow> shard_load ipl_shard (ipl_shards (ipl_cleanup now rl)) ip =
     (case shard_load ipl_shard (ipl_shards rl) ip of
        Some tb \<Rightarrow> if 10 * minute < time_sub now (tb_lastTime tb) then None else Some tb | None \<Rightarrow> None)"
  using ipl.look_sweep [of "ipl_shards rl" "\<lambda>(ip, tb). \<not> 10 * minute < time_sub now (tb_lastTime tb)" ip]
  by (simp add: ipl_cleanup_def shard_sweep_def split: option.splits)

text \<open>The limiter is one token bucket per address.\<close>

interpretation ipl_keyed: keyed ipl_Allow ipl_ok ipl_bucket tb_Allow
  by unfold_locales (simp_all add: ipl_Allow_ok ipl_Allow_bucket, simp add: ipl_Allow_eq)

subsection \<open>Properties\<close>

text \<open>
  The bucket bounds the admitted requests. In any sequence of calls at non-decreasing times a
  bucket admits at most its tokens plus its rate times the elapsed seconds, up to the
  rounding of \<open>float64\<close>, a factor of \<open>1 + 2^-53\<close> for each of five roundings per call.
\<close>

theorem bucket_admission_bound:
  assumes "tb_ok tb" and "sorted (tb_lastTime tb # ts)"
  shows "of_nat (fst (admitted tb_Allow ts tb)) \<le> (1 + 1 / 2 ^ 53) ^ (5 * length ts) *
    (tb_tokens tb + tb_rate tb * of_int (last (tb_lastTime tb # ts) - tb_lastTime tb) / 10 ^ 9)"
  using bucket.admitted_bound [OF bucket_all_good [OF assms]] assms(1)
  by (simp only: bucket_refilled tb_factor_def power_mult [symmetric] eps_def) (simp add: tb_ok_def)

theorem bucket_admission_bound_witness:
  "of_nat (fst (admitted tb_Allow [1 * second, 2 * second] (NewTokenBucket 10 20 0))) \<le>
     (1 + 1 / 2 ^ 53) ^ (5 * length [1 * second, 2 * second]) *
     (tb_tokens (NewTokenBucket 10 20 0) + tb_rate (NewTokenBucket 10 20 0) *
       of_int (last (tb_lastTime (NewTokenBucket 10 20 0) # [1 * second, 2 * second]) -
         tb_lastTime (NewTokenBucket 10 20 0)) / 10 ^ 9)"
  by (rule bucket_admission_bound, rule tb_ok_new)
    (simp_all add: is_f64_def NewTokenBucket_def second_def)

text \<open>
  The limiter holds every address to its budget. Whatever the other addresses send in between, a limiter
  created with a rate and a burst admits of one address at most the burst plus the rate times the
  seconds between that address's first and last request, up to the same rounding factor.
\<close>

theorem limiter_admission_bound:
  assumes "0 \<le> rps" and "0 \<le> burst" and "is_f64 burst"
    and "sorted (events_of ip reqs)" and "events_of ip reqs = t0 # ts"
  shows "of_nat (keyed_admitted ipl_Allow ip reqs (NewIPRateLimiter rps burst)) \<le>
    (1 + 1 / 2 ^ 53) ^ (5 * length (events_of ip reqs)) *
    (burst + rps * of_int (last (events_of ip reqs) - t0) / 10 ^ 9)"
proof -
  let ?rl = "NewIPRateLimiter rps burst"
  have b: "ipl_bucket ?rl t0 ip = NewTokenBucket rps burst t0"
    by (simp add: ipl_bucket_def NewIPRateLimiter_def ipl.look_vacant)
  have eq: "keyed_admitted ipl_Allow ip reqs ?rl = fst (admitted tb_Allow (events_of ip reqs) (NewTokenBucket rps burst t0))"
    using ipl_keyed.keyed_admitted_eq [OF ipl_new_ok, of ip reqs t0 rps burst] assms(5) b by simp
  have good: "all_good tb_Allow tb_good (events_of ip reqs) (NewTokenBucket rps burst t0)"
    using assms by (intro bucket_all_good tb_ok_new) (simp_all add: NewTokenBucket_def)
  show ?thesis
    using bucket.admitted_bound [OF good] assms(2,5)
    unfolding eq bucket_refilled tb_factor_def power_mult [symmetric] eps_def
    by (simp add: NewTokenBucket_def)
qed

theorem limiter_admission_bound_witness:
  "(of_nat (keyed_admitted ipl_Allow ''a'' [(''a'', 0), (''b'', 1), (''a'', 3 * second)] (NewIPRateLimiter 10 20)) :: rat) \<le>
    (1 + 1 / 2 ^ 53) ^ (5 * length (events_of ''a'' [(''a'', 0), (''b'', 1), (''a'', 3 * second)])) *
    (20 + 10 * of_int (last (events_of ''a'' [(''a'', 0), (''b'', 1), (''a'', 3 * second)]) - 0) / 10 ^ 9)"
  by (rule limiter_admission_bound [of _ _ _ _ _ "[3 * second]"])
    (simp_all add: is_f64_def second_def)

text \<open>
  \<open>SetRate\<close> changes the rate of every bucket but the capacity of none: an address that already has a bucket
  keeps its old burst after a reload, and only new addresses get the new one.
\<close>

theorem set_rate_keeps_old_capacity:
  assumes "ipl_ok rl" and "shard_load ipl_shard (ipl_shards rl) ip = Some tb"
  shows "shard_load ipl_shard (ipl_shards (ipl_SetRate rps burst rl)) ip =
      Some (if 0 < rps then tb\<lparr>tb_rate := rps\<rparr> else tb) \<and>
    ipl_capacity (ipl_SetRate rps burst rl) = (if 0 < burst then burst else ipl_capacity rl)"
proof -
  have len: "ipl_shard ip < length (ipl_shards rl)" by (rule ipl.len [OF assms(1)])
  have "map_of (map (\<lambda>(ip, tb). (ip, f tb)) xs) k = map_option f (map_of xs k)"
    for f :: "TokenBucket \<Rightarrow> TokenBucket" and xs and k :: string
    by (induction xs) auto
  from this [of "\<lambda>tb. if 0 < rps then tb_SetRate rps tb else tb"]
  show ?thesis using assms(2) len by (simp add: ipl_SetRate_def shard_load_def tb_SetRate_def)
qed

theorem set_rate_keeps_old_capacity_witness:
  "ipl_capacity (ipl_SetRate 5 50 (snd (ipl_Allow ''a'' 0 (NewIPRateLimiter 10 20)))) = 50 \<and>
   (\<exists>tb. shard_load ipl_shard (ipl_shards (ipl_SetRate 5 50 (snd (ipl_Allow ''a'' 0 (NewIPRateLimiter 10 20))))) ''a'' = Some tb
     \<and> tb_capacity tb = 20)"
proof -
  let ?rl = "snd (ipl_Allow ''a'' 0 (NewIPRateLimiter 10 20))"
  let ?tb = "snd (tb_Allow 0 (ipl_bucket (NewIPRateLimiter 10 20) 0 ''a''))"
  have ok: "ipl_ok ?rl" by (rule ipl_Allow_ok [OF ipl_new_ok])
  have "shard_load ipl_shard (ipl_shards ?rl) ''a'' = Some ?tb"
    unfolding ipl_Allow_eq using ipl.look_put_same [OF ipl_new_ok] by simp
  moreover have "tb_capacity ?tb = 20"
    by (simp add: tb_Allow_def ipl_bucket_def NewIPRateLimiter_def NewTokenBucket_def ipl.look_vacant)
  ultimately show ?thesis using set_rate_keeps_old_capacity [OF ok, of "''a''" ?tb 5 50] by simp
qed

end
