(* ===== verification/Hardening.thy ===== *)
theory Hardening
  imports Http Float64
begin

section \<open>Request validation and graceful degradation (perf/hardening.go)\<close>

text \<open>
  \<open>RequestValidator\<close> rejects malformed or oversized requests with the first reason that applies;
  \<open>GracefulDegrader\<close> switches features off as the request rate grows. The middlewares that only
  set response headers are not modelled, apart from the list of headers. Lemmas: the exact decision of the
  validator, and that degradation is monotone in the rate.
\<close>

record RequestValidator =
  rv_MaxBodySize :: int
  rv_MaxURLLength :: int
  rv_MaxHeaderSize :: int
  rv_AllowedMethods :: "string list"

definition NewRequestValidator :: RequestValidator where
  "NewRequestValidator = \<lparr>rv_MaxBodySize = 10 * 1024 * 1024, rv_MaxURLLength = 8192,
     rv_MaxHeaderSize = 16384,
     rv_AllowedMethods = [''GET'', ''POST'', ''PUT'', ''DELETE'', ''PATCH'', ''HEAD'', ''OPTIONS'']\<rparr>"

definition header_size :: "(string \<times> string list) list \<Rightarrow> nat" where
  "header_size h = sum_list (map (\<lambda>(name, vs). length name + sum_list (map length vs)) h)"

definition nul_byte :: string where
  "nul_byte = [CHR 0x00]"

text \<open>\<open>None\<close> when the request is valid, otherwise the reason.\<close>

definition rv_Validate :: "RequestValidator \<Rightarrow> request \<Rightarrow> string option" where
  "rv_Validate v r =
     (if r_method r \<notin> set (rv_AllowedMethods v) then Some ''method_not_allowed''
      else let uri = (if r_uri r = [] then r_url_string r else r_uri r)
           in if rv_MaxURLLength v < int (length uri) then Some ''url_too_long''
              else if str_contains uri nul_byte then Some ''null_byte_url''
              else if rv_MaxBodySize v < r_content_length r then Some ''body_too_large''
              else if rv_MaxHeaderSize v < int (header_size (r_header r)) then Some ''headers_too_large''
              else if r_host r = [] then Some ''missing_host''
              else None)"

subsection \<open>Degradation\<close>

record DegradationLevel =
  dl_Name :: string
  dl_RPSThreshold :: int
  dl_DisableFeatures :: "string list"
  dl_RateLimitFactor :: f64

type_synonym GracefulDegrader = "DegradationLevel list"

definition NewGracefulDegrader :: GracefulDegrader where
  "NewGracefulDegrader = [
     \<lparr>dl_Name = ''normal'', dl_RPSThreshold = 0, dl_DisableFeatures = [], dl_RateLimitFactor = 1\<rparr>,
     \<lparr>dl_Name = ''elevated'', dl_RPSThreshold = 500,
       dl_DisableFeatures = [''detailed_logging'', ''slow_queries'', ''waf_deep_inspect''],
       dl_RateLimitFactor = fl (8/10)\<rparr>,
     \<lparr>dl_Name = ''high'', dl_RPSThreshold = 2000,
       dl_DisableFeatures = [''detailed_logging'', ''slow_queries'', ''reputation_lookup'', ''geo_lookup'',
         ''waf_deep_inspect''],
       dl_RateLimitFactor = fl (5/10)\<rparr>,
     \<lparr>dl_Name = ''critical'', dl_RPSThreshold = 5000,
       dl_DisableFeatures = [''detailed_logging'', ''slow_queries'', ''reputation_lookup'', ''geo_lookup'',
         ''waf_deep_inspect'', ''behavioral_analysis''],
       dl_RateLimitFactor = fl (2/10)\<rparr>,
     \<lparr>dl_Name = ''survival'', dl_RPSThreshold = 10000, dl_DisableFeatures = [''all_optional''],
       dl_RateLimitFactor = fl (1/10)\<rparr>]"

text \<open>The loop from the highest level down; the first level when none applies. No level panics.\<close>

definition gd_Evaluate :: "GracefulDegrader \<Rightarrow> int \<Rightarrow> DegradationLevel option" where
  "gd_Evaluate gd currentRPS =
     (case gd of
        [] \<Rightarrow> None
      | first # _ \<Rightarrow>
          Some (case find (\<lambda>l. dl_RPSThreshold l \<le> currentRPS) (rev gd) of Some l \<Rightarrow> l | None \<Rightarrow> first))"

definition IsFeatureDisabled :: "GracefulDegrader \<Rightarrow> string \<Rightarrow> int \<Rightarrow> bool option" where
  "IsFeatureDisabled gd feature currentRPS =
     (case gd_Evaluate gd currentRPS of
        None \<Rightarrow> None
      | Some level \<Rightarrow> Some (\<exists>f \<in> set (dl_DisableFeatures level). f = feature \<or> f = ''all_optional''))"

text \<open>The default degrader disables a feature from one threshold on.\<close>

definition feature_threshold :: "string \<Rightarrow> int" where
  "feature_threshold f =
     (if f \<in> {''detailed_logging'', ''slow_queries'', ''waf_deep_inspect''} then 500
      else if f \<in> {''reputation_lookup'', ''geo_lookup''} then 2000
      else if f = ''behavioral_analysis'' then 5000 else 10000)"

lemma default_disabled: "IsFeatureDisabled NewGracefulDegrader f rps = Some (feature_threshold f \<le> rps)"
proof -
  have e: "(\<exists>g \<in> set gs. g = f \<or> g = ''all_optional'') \<longleftrightarrow> f \<in> set gs \<or> ''all_optional'' \<in> set gs" for gs
    by auto
  show ?thesis
    unfolding IsFeatureDisabled_def gd_Evaluate_def NewGracefulDegrader_def e
    by (simp add: feature_threshold_def)
qed

subsection \<open>Properties\<close>

text \<open>
  The validator accepts exactly the requests with an allowed method, an address line within the limit
  and without a NUL byte, a declared body and headers within their limits, and a host; an absent
  length (-1) of a chunked body passes.
\<close>

theorem validator_decision:
  "(rv_Validate v r = None) =
     (r_method r \<in> set (rv_AllowedMethods v) \<and>
      int (length (if r_uri r = [] then r_url_string r else r_uri r)) \<le> rv_MaxURLLength v \<and>
      CHR 0x00 \<notin> set (if r_uri r = [] then r_url_string r else r_uri r) \<and>
      r_content_length r \<le> rv_MaxBodySize v \<and> int (header_size (r_header r)) \<le> rv_MaxHeaderSize v \<and>
      r_host r \<noteq> [])"
proof -
  have nul: "str_contains s nul_byte \<longleftrightarrow> CHR 0x00 \<in> set s" for s
    by (auto simp: str_contains_iff nul_byte_def in_set_conv_decomp)
  show ?thesis by (auto simp: rv_Validate_def Let_def nul)
qed

text \<open>
  Degradation is monotone and total. A feature that the default degrader disables at some rate is
  disabled at every higher rate, deep inspection is disabled from 500 requests a second on and not
  below, and every feature is disabled from 10000 on.
\<close>

theorem degradation_monotone:
  assumes "rps \<le> rps'" and "IsFeatureDisabled NewGracefulDegrader f rps = Some True"
  shows "IsFeatureDisabled NewGracefulDegrader f rps' = Some True \<and>
    IsFeatureDisabled NewGracefulDegrader ''waf_deep_inspect'' n = Some (500 \<le> n) \<and>
    IsFeatureDisabled NewGracefulDegrader g 10000 = Some True"
  using assms by (simp add: default_disabled) (simp add: feature_threshold_def)

theorem degradation_monotone_witness:
  "IsFeatureDisabled NewGracefulDegrader ''geo_lookup'' 7000 = Some True"
  by (rule degradation_monotone [of 2000, THEN conjunct1]) (simp_all add: default_disabled feature_threshold_def)

end
