(* ===== verification/Regex.thy ===== *)
theory Regex
  imports Prelude
begin

section \<open>Case-insensitive regular expressions of the \<open>regexp\<close> package\<close>

text \<open>
  What the rules use of \<open>regexp\<close>: \<open>Compile("(?i)" + pattern)\<close> and \<open>MatchString\<close>, which only
  asks whether a match exists, so greedy and lazy repetition are the same. The syntax: literals,
  escapes, the classes \<open>\d \w \s\<close> and their complements, bracket expressions, groups, alternation,
  repetition including counted repetition, \<open>^ $ \b \B\<close>; other syntax does not compile. A
  text is matched by bytes and case is folded on ASCII letters. Lemmas: the position sets that the
  matcher computes are the declarative semantics of the expression.
\<close>

datatype rx =
    REps
  | RSet bool "(nat \<times> nat) list"
  | RSeq rx rx
  | RAlt rx rx
  | RStar rx
  | RBol
  | REol
  | RWordB bool

definition in_ranges :: "nat \<Rightarrow> (nat \<times> nat) list \<Rightarrow> bool" where
  "in_ranges b rs \<longleftrightarrow> (\<exists>(lo, hi) \<in> set rs. lo \<le> b \<and> b \<le> hi)"

definition swap_case :: "nat \<Rightarrow> nat" where
  "swap_case b = (if 65 \<le> b \<and> b \<le> 90 then b + 32 else if 97 \<le> b \<and> b \<le> 122 then b - 32 else b)"

definition set_has :: "bool \<Rightarrow> (nat \<times> nat) list \<Rightarrow> char \<Rightarrow> bool" where
  "set_has neg rs c = (let b = byte_of c in (in_ranges b rs \<or> in_ranges (swap_case b) rs) \<noteq> neg)"

definition word_ranges :: "(nat \<times> nat) list" where
  "word_ranges = [(48, 57), (65, 90), (95, 95), (97, 122)]"

definition digit_ranges :: "(nat \<times> nat) list" where "digit_ranges = [(48, 57)]"

definition space_ranges :: "(nat \<times> nat) list" where "space_ranges = [(9, 10), (12, 13), (32, 32)]"

fun complement_from :: "nat \<Rightarrow> (nat \<times> nat) list \<Rightarrow> (nat \<times> nat) list" where
  "complement_from n [] = [(n, 255)]"
| "complement_from n ((lo, hi) # rs) = (n, lo - 1) # complement_from (Suc hi) rs"

definition is_word :: "char \<Rightarrow> bool" where
  "is_word c \<longleftrightarrow> in_ranges (byte_of c) word_ranges"

definition at_boundary :: "string \<Rightarrow> nat \<Rightarrow> bool" where
  "at_boundary s i \<longleftrightarrow>
     (0 < i \<and> i \<le> length s \<and> is_word (s ! (i - 1))) \<noteq> (i < length s \<and> is_word (s ! i))"

subsection \<open>Matching\<close>

text \<open>\<open>reach f n is\<close> are the positions reached from \<open>is\<close> by at most \<open>n\<close> applications of \<open>f\<close>.\<close>

fun reach :: "(nat \<Rightarrow> nat list) \<Rightarrow> nat \<Rightarrow> nat list \<Rightarrow> nat list" where
  "reach f 0 is = is"
| "reach f (Suc n) is = (let js = remdups (is @ concat (map f is)) in reach f n js)"

fun ends :: "rx \<Rightarrow> string \<Rightarrow> nat \<Rightarrow> nat list" where
  "ends REps s i = [i]"
| "ends (RSet neg rs) s i = (if i < length s \<and> set_has neg rs (s ! i) then [Suc i] else [])"
| "ends (RSeq a b) s i = remdups (concat (map (ends b s) (ends a s i)))"
| "ends (RAlt a b) s i = remdups (ends a s i @ ends b s i)"
| "ends (RStar a) s i = reach (ends a s) (length s - i) [i]"
| "ends RBol s i = (if i = 0 then [i] else [])"
| "ends REol s i = (if i = length s then [i] else [])"
| "ends (RWordB b) s i = (if at_boundary s i = b then [i] else [])"

definition MatchString :: "rx \<Rightarrow> string \<Rightarrow> bool" where
  "MatchString r s = list_ex (\<lambda>i. ends r s i \<noteq> []) [0..<Suc (length s)]"

subsection \<open>Parsing\<close>

definition rx_lit :: "char \<Rightarrow> rx" where
  "rx_lit c = RSet False [(byte_of c, byte_of c)]"

definition hex_nibble :: "char \<Rightarrow> nat option" where
  "hex_nibble c = (let b = byte_of c in
     if 48 \<le> b \<and> b \<le> 57 then Some (b - 48) else if 97 \<le> b \<and> b \<le> 102 then Some (b - 87)
     else if 65 \<le> b \<and> b \<le> 70 then Some (b - 55) else None)"

definition is_punct :: "char \<Rightarrow> bool" where
  "is_punct c \<longleftrightarrow> byte_of c < 128 \<and> \<not> is_digit c \<and> \<not> is_upper c \<and> \<not> is_lower c"

text \<open>
  A literal cannot hold a backslash or a quote: \<open>raw_pat\<close> reads a tilde as the one and an at-sign
  as the other.
\<close>

definition raw_pat :: "string \<Rightarrow> string" where
  "raw_pat s = map (\<lambda>c. if c = CHR ''~'' then CHR 0x5c else if c = CHR ''@'' then CHR 0x27 else c) s"

text \<open>The class that an escape stands for, as ranges, and the rest of the pattern.\<close>

definition p_escape :: "string \<Rightarrow> ((nat \<times> nat) list \<times> string) option" where
  "p_escape s = (case s of
      [] \<Rightarrow> None
    | c # r \<Rightarrow>
        if c = CHR ''d'' then Some (digit_ranges, r)
        else if c = CHR ''D'' then Some (complement_from 0 digit_ranges, r)
        else if c = CHR ''w'' then Some (word_ranges, r)
        else if c = CHR ''W'' then Some (complement_from 0 word_ranges, r)
        else if c = CHR ''s'' then Some (space_ranges, r)
        else if c = CHR ''S'' then Some (complement_from 0 space_ranges, r)
        else if c = CHR ''n'' then Some ([(10, 10)], r)
        else if c = CHR ''r'' then Some ([(13, 13)], r)
        else if c = CHR ''t'' then Some ([(9, 9)], r)
        else if c = CHR ''f'' then Some ([(12, 12)], r)
        else if c = CHR ''v'' then Some ([(11, 11)], r)
        else if c = CHR ''x'' then
          (case r of
             a # b # r' \<Rightarrow> (case (hex_nibble a, hex_nibble b) of
                 (Some x, Some y) \<Rightarrow> let n = 16 * x + y in Some ([(n, n)], r') | _ \<Rightarrow> None)
           | _ \<Rightarrow> None)
        else if is_punct c then Some ([(byte_of c, byte_of c)], r)
        else None)"

text \<open>The items of a bracket expression up to the closing bracket.\<close>

definition p_item :: "string \<Rightarrow> ((nat \<times> nat) list \<times> string) option" where
  "p_item s = (case s of
      [] \<Rightarrow> None
    | c # r \<Rightarrow> if c = CHR 0x5c then p_escape r else Some ([(byte_of c, byte_of c)], r))"

fun p_class :: "nat \<Rightarrow> (nat \<times> nat) list \<Rightarrow> bool \<Rightarrow> string \<Rightarrow> ((nat \<times> nat) list \<times> string) option" where
  "p_class 0 acc first s = None"
| "p_class (Suc n) acc first s =
     (case s of
        [] \<Rightarrow> None
      | c # r \<Rightarrow>
          if c = CHR '']'' \<and> \<not> first then Some (acc, r)
          else case p_item s of
            None \<Rightarrow> None
          | Some (rs, r1) \<Rightarrow>
              (case (rs, r1) of
                 ([(lo, lo')], d # e # r2) \<Rightarrow>
                   if d = CHR ''-'' \<and> e \<noteq> CHR '']'' \<and> lo = lo' then
                     (case p_item (e # r2) of
                        Some ([(hi, hi')], r3) \<Rightarrow>
                          if hi = hi' \<and> lo \<le> hi then p_class n (acc @ [(lo, hi)]) False r3 else None
                      | _ \<Rightarrow> None)
                   else p_class n (acc @ rs) False r1
               | _ \<Rightarrow> p_class n (acc @ rs) False r1))"

fun rx_times :: "nat \<Rightarrow> rx \<Rightarrow> rx" where
  "rx_times 0 r = REps"
| "rx_times (Suc n) r = RSeq r (rx_times n r)"

fun rx_upto :: "nat \<Rightarrow> rx \<Rightarrow> rx" where
  "rx_upto 0 r = REps"
| "rx_upto (Suc n) r = RAlt REps (RSeq r (rx_upto n r))"

fun span_digits :: "string \<Rightarrow> string \<times> string" where
  "span_digits [] = ([], [])"
| "span_digits (c # s) = (if is_digit c then (let (a, b) = span_digits s in (c # a, b)) else ([], c # s))"

text \<open>A counted repetition after its brace; \<open>None\<close> when the brace is an ordinary character.\<close>

definition p_count :: "string \<Rightarrow> (nat \<times> nat option \<times> string) option" where
  "p_count s =
     (let (a, r) = span_digits s
      in if a = [] then None
         else case r of
           c # r1 \<Rightarrow>
             (let lo = the (read_digits 0 a)
              in if c = CHR ''}'' then Some (lo, Some lo, r1)
                 else if c = CHR '','' then
                   (let (b, r2) = span_digits r1
                    in case r2 of
                         d # r3 \<Rightarrow> if d = CHR ''}'' then Some (lo, (if b = [] then None else read_digits 0 b), r3)
                                   else None
                       | [] \<Rightarrow> None)
                 else None)
         | [] \<Rightarrow> None)"

definition is_rep_op :: "string \<Rightarrow> bool" where
  "is_rep_op s = (case s of [] \<Rightarrow> False
     | c # r \<Rightarrow> c = CHR ''*'' \<or> c = CHR ''+'' \<or> c = CHR ''?'' \<or> (c = CHR ''{'' \<and> p_count r \<noteq> None))"

text \<open>The repetition operator after an atom, with its lazy mark; a second operator does not compile.\<close>

definition p_post :: "rx \<Rightarrow> string \<Rightarrow> (rx \<times> string) option" where
  "p_post a s =
     (if \<not> is_rep_op s then Some (a, s)
      else let c = hd s; r = tl s;
               res = (if c = CHR ''*'' then Some (RStar a, r)
                      else if c = CHR ''+'' then Some (RSeq a (RStar a), r)
                      else if c = CHR ''?'' then Some (RAlt a REps, r)
                      else case p_count r of
                        None \<Rightarrow> None
                      | Some (lo, hi, r') \<Rightarrow>
                          if 1000 < lo then None
                          else case hi of
                            None \<Rightarrow> Some (RSeq (rx_times lo a) (RStar a), r')
                          | Some h \<Rightarrow> if h < lo \<or> 1000 < h then None
                                       else Some (RSeq (rx_times lo a) (rx_upto (h - lo) a), r'))
           in case res of
                None \<Rightarrow> None
              | Some (a', r1) \<Rightarrow>
                  let r2 = (case r1 of d # r' \<Rightarrow> if d = CHR ''?'' then r' else r1 | [] \<Rightarrow> r1)
                  in if is_rep_op r2 then None else Some (a', r2))"

fun p_alt :: "nat \<Rightarrow> string \<Rightarrow> (rx \<times> string) option"
  and p_seq :: "nat \<Rightarrow> string \<Rightarrow> (rx \<times> string) option"
  and p_atom :: "nat \<Rightarrow> string \<Rightarrow> (rx \<times> string) option" where
  "p_alt 0 s = None"
| "p_alt (Suc n) s =
     (case p_seq n s of
        None \<Rightarrow> None
      | Some (a, r) \<Rightarrow>
          (case r of
             [] \<Rightarrow> Some (a, [])
           | c # r1 \<Rightarrow>
               if c = CHR ''|'' then
                 (case p_alt n r1 of None \<Rightarrow> None | Some (b, r2) \<Rightarrow> Some (RAlt a b, r2))
               else Some (a, r)))"
| "p_seq 0 s = None"
| "p_seq (Suc n) s =
     (case s of
        [] \<Rightarrow> Some (REps, [])
      | c # r \<Rightarrow>
          if c = CHR ''|'' \<or> c = CHR '')'' then Some (REps, s)
          else case p_atom n s of
            None \<Rightarrow> None
          | Some (a, r1) \<Rightarrow>
              (case p_post a r1 of
                 None \<Rightarrow> None
               | Some (a', r2) \<Rightarrow>
                   (case p_seq n r2 of None \<Rightarrow> None | Some (b, r3) \<Rightarrow> Some (RSeq a' b, r3))))"
| "p_atom 0 s = None"
| "p_atom (Suc n) s =
     (case s of
        [] \<Rightarrow> None
      | c # r \<Rightarrow>
          if c = CHR ''('' then
            (let body = (if prefix ''?:'' r then Some (drop 2 r) else if prefix ''?'' r then None else Some r)
             in case body of
                  None \<Rightarrow> None
                | Some r1 \<Rightarrow>
                    (case p_alt n r1 of
                       Some (a, d # r2) \<Rightarrow> if d = CHR '')'' then Some (a, r2) else None
                     | _ \<Rightarrow> None))
          else if c = CHR ''['' then
            (let neg = prefix ''^'' r
             in case p_class n [] True (if neg then tl r else r) of
                  None \<Rightarrow> None | Some (rs, r1) \<Rightarrow> Some (RSet neg rs, r1))
          else if c = CHR 0x5c then
            (if prefix ''b'' r then Some (RWordB True, tl r)
             else if prefix ''B'' r then Some (RWordB False, tl r)
             else if prefix ''A'' r then Some (RBol, tl r)
             else if prefix ''z'' r then Some (REol, tl r)
             else case p_escape r of None \<Rightarrow> None | Some (rs, r1) \<Rightarrow> Some (RSet False rs, r1))
          else if c = CHR ''.'' then Some (RSet True [(10, 10)], r)
          else if c = CHR ''^'' then Some (RBol, r)
          else if c = CHR ''$'' then Some (REol, r)
          else if is_rep_op s then None
          else Some (rx_lit c, r))"

text \<open>The fuel is three calls per character, and every character is read once.\<close>

definition rx_compile :: "string \<Rightarrow> rx option" where
  "rx_compile pat =
     (case p_alt (3 * length pat + 3) pat of Some (r, []) \<Rightarrow> Some r | _ \<Rightarrow> None)"

subsection \<open>Declarative semantics\<close>

inductive spans :: "string \<Rightarrow> rx \<Rightarrow> nat \<Rightarrow> nat \<Rightarrow> bool" for s :: string where
  eps: "spans s REps i i"
| "set": "i < length s \<Longrightarrow> set_has neg rs (s ! i) \<Longrightarrow> spans s (RSet neg rs) i (Suc i)"
| seq: "spans s a i j \<Longrightarrow> spans s b j k \<Longrightarrow> spans s (RSeq a b) i k"
| alt1: "spans s a i j \<Longrightarrow> spans s (RAlt a b) i j"
| alt2: "spans s b i j \<Longrightarrow> spans s (RAlt a b) i j"
| star0: "spans s (RStar a) i i"
| star1: "spans s a i j \<Longrightarrow> spans s (RStar a) j k \<Longrightarrow> spans s (RStar a) i k"
| bol: "spans s RBol 0 0"
| eol: "spans s REol (length s) (length s)"
| word: "at_boundary s i = b \<Longrightarrow> spans s (RWordB b) i i"

inductive_cases spans_setE: "spans s (RSet neg rs) i j"
inductive_cases spans_seqE: "spans s (RSeq a b) i j"
inductive_cases spans_altE: "spans s (RAlt a b) i j"
inductive_cases spans_starE: "spans s (RStar a) i j"

lemma spans_le: "spans s r i j \<Longrightarrow> i \<le> length s \<Longrightarrow> i \<le> j \<and> j \<le> length s"
  by (induction rule: spans.induct) auto

lemma set_reach:
  "set (reach f n is) = {j. \<exists>i \<in> set is. \<exists>m \<le> n. ((\<lambda>x y. y \<in> set (f x)) ^^ m) i j}"
proof (induction n arbitrary: "is")
  case 0
  then show ?case by auto
next
  case (Suc n)
  let ?R = "\<lambda>x y. y \<in> set (f x)"
  have "set (reach f (Suc n) is) =
      {j. \<exists>i \<in> set is \<union> (\<Union>x \<in> set is. set (f x)). \<exists>m \<le> n. (?R ^^ m) i j}"
    by (simp add: Suc Let_def)
  also have "\<dots> = {j. \<exists>i \<in> set is. \<exists>m \<le> Suc n. (?R ^^ m) i j}"
  proof (intro set_eqI iffI; clarsimp)
    fix i j m assume "i \<in> set is \<or> (\<exists>x \<in> set is. i \<in> set (f x))" "m \<le> n" "(?R ^^ m) i j"
    then show "\<exists>i \<in> set is. \<exists>m \<le> Suc n. (?R ^^ m) i j"
    proof (elim disjE bexE)
      assume "i \<in> set is" with \<open>m \<le> n\<close> \<open>(?R ^^ m) i j\<close> show ?thesis by (meson le_SucI)
    next
      fix x assume "x \<in> set is" "i \<in> set (f x)"
      then have "(?R ^^ Suc m) x j" using \<open>(?R ^^ m) i j\<close> by (intro relpowp_Suc_I2)
      with \<open>x \<in> set is\<close> \<open>m \<le> n\<close> show ?thesis by (meson Suc_le_mono)
    qed
  next
    fix i j m assume i: "i \<in> set is" "m \<le> Suc n" "(?R ^^ m) i j"
    show "\<exists>i \<in> set is \<union> (\<Union>x \<in> set is. set (f x)). \<exists>m \<le> n. (?R ^^ m) i j"
    proof (cases m)
      case 0
      with i show ?thesis by (intro bexI [of _ i] exI [of _ 0]) auto
    next
      case (Suc m')
      then obtain x where "?R i x" "(?R ^^ m') x j" using i(3) by (metis relpowp_Suc_D2)
      with i Suc show ?thesis by (intro bexI [of _ x] exI [of _ m']) auto
    qed
  qed
  finally show ?case .
qed

text \<open>A chain of positions that never goes back needs at most one step per position that it advances.\<close>

lemma relpowp_shorten:
  assumes "(R ^^ m) i j" and "\<And>x y. R x y \<Longrightarrow> x \<le> n \<Longrightarrow> x \<le> y \<and> y \<le> n" and "i \<le> n"
  shows "i \<le> j \<and> j \<le> n \<and> (\<exists>k \<le> n - i. (R ^^ k) i j)"
  using assms(1,3)
proof (induction m arbitrary: i)
  case 0
  then show ?case by (auto intro: exI [of _ 0])
next
  case (Suc m)
  then obtain x where x: "R i x" "(R ^^ m) x j" by (metis relpowp_Suc_D2)
  have ix: "i \<le> x" "x \<le> n" using assms(2) x(1) Suc.prems(2) by auto
  obtain k where k: "k \<le> n - x" "(R ^^ k) x j" "x \<le> j" "j \<le> n" using Suc.IH [OF x(2) ix(2)] by auto
  show ?case
  proof (cases "x = i")
    case True
    then show ?thesis using k by auto
  next
    case False
    have "(R ^^ Suc k) i j" using x(1) k(2) by (rule relpowp_Suc_I2)
    moreover have "Suc k \<le> n - i" using False k ix by linarith
    ultimately show ?thesis using k ix by (meson order_trans)
  qed
qed

lemma spans_star_relpowp:
  "spans s (RStar a) i j \<longleftrightarrow> (\<exists>m. ((\<lambda>x y. spans s a x y) ^^ m) i j)"
proof
  assume "spans s (RStar a) i j"
  then show "\<exists>m. ((\<lambda>x y. spans s a x y) ^^ m) i j"
  proof (induction "RStar a" i j rule: spans.induct)
    case (star0 i)
    then show ?case by (intro exI [of _ 0]) simp
  next
    case (star1 i j k)
    then show ?case by (meson relpowp_Suc_I2)
  qed
next
  assume "\<exists>m. ((\<lambda>x y. spans s a x y) ^^ m) i j"
  then obtain m where "((\<lambda>x y. spans s a x y) ^^ m) i j" ..
  then show "spans s (RStar a) i j"
  proof (induction m arbitrary: i)
    case 0
    then show ?case by (simp add: star0)
  next
    case (Suc m)
    then obtain x where "spans s a i x" "((\<lambda>x y. spans s a x y) ^^ m) x j"
      by (metis relpowp_Suc_D2)
    then show ?case using Suc.IH star1 by blast
  qed
qed

lemma ends_spans: "i \<le> length s \<Longrightarrow> j \<in> set (ends r s i) \<longleftrightarrow> spans s r i j"
proof (induction r arbitrary: i j)
  case (RSeq a b)
  have "j \<in> set (ends (RSeq a b) s i) \<longleftrightarrow> (\<exists>k. spans s a i k \<and> spans s b k j)"
    using RSeq spans_le by fastforce
  then show ?case by (auto intro: seq elim: spans_seqE)
next
  case (RStar a)
  let ?R = "\<lambda>x y. y \<in> set (ends a s x)" and ?S = "\<lambda>x y. spans s a x y"
  have up: "\<And>x y. ?R x y \<Longrightarrow> x \<le> length s \<Longrightarrow> x \<le> y \<and> y \<le> length s"
    using RStar.IH spans_le by blast
  have same: "x \<le> length s \<Longrightarrow> (?R ^^ m) x j \<longleftrightarrow> (?S ^^ m) x j" for m x
  proof (induction m arbitrary: x)
    case (Suc m)
    show ?case
    proof
      assume "(?R ^^ Suc m) x j"
      then obtain y where "?R x y" "(?R ^^ m) y j" by (metis relpowp_Suc_D2)
      then show "(?S ^^ Suc m) x j" using RStar.IH Suc up by (meson relpowp_Suc_I2)
    next
      assume "(?S ^^ Suc m) x j"
      then obtain y where "?S x y" "(?S ^^ m) y j" by (metis relpowp_Suc_D2)
      then show "(?R ^^ Suc m) x j" using RStar.IH Suc spans_le by (meson relpowp_Suc_I2)
    qed
  qed simp
  have "j \<in> set (ends (RStar a) s i) \<longleftrightarrow> (\<exists>m \<le> length s - i. (?R ^^ m) i j)"
    by (simp add: set_reach)
  also have "\<dots> \<longleftrightarrow> (\<exists>m. (?R ^^ m) i j)"
    using relpowp_shorten [where R = ?R, OF _ up RStar.prems] by blast
  also have "\<dots> \<longleftrightarrow> spans s (RStar a) i j"
    using same [OF RStar.prems] by (simp add: spans_star_relpowp)
  finally show ?case .
qed (auto intro: spans.intros elim: spans.cases)

lemma MatchString_iff: "MatchString r s \<longleftrightarrow> (\<exists>i j. i \<le> length s \<and> spans s r i j)"
proof -
  have "MatchString r s \<longleftrightarrow> (\<exists>i \<le> length s. ends r s i \<noteq> [])"
    by (auto simp: MatchString_def list_ex_iff less_Suc_eq_le simp del: upt_Suc intro: exI)
  also have "\<dots> \<longleftrightarrow> (\<exists>i \<le> length s. \<exists>j. j \<in> set (ends r s i))" by (metis list.set_sel(1) empty_iff list.set(1))
  finally show ?thesis using ends_spans by blast
qed

end
