(* ===== verification/Waf_Engine.thy ===== *)
theory Waf_Engine
  imports Regex Kv_Store Http Config_Types
begin

section \<open>The rules engine (rules/engine.go, rules/custom.go)\<close>

text \<open>
  A rule inspects targets of a request with an operator; \<open>Inspect\<close> runs the enabled rules up to the
  paranoia level over a request, after a keyword filter on the concatenated request, and blocks when
  a blocking rule matches. Rules are shared by the rule list and the index, so they live in a heap and
  both hold references to it. Lemmas: the invariant of list, index and heap, the exact decision of an
  inspection, the cases in which the keyword filter changes nothing, and those in which it does.
\<close>

record Rule =
  ru_ID :: string
  ru_Name :: string
  ru_Description :: string
  ru_Category :: string
  ru_Severity :: string
  ru_Phase :: int
  ru_Targets :: "string list"
  ru_Operator :: string
  ru_Pattern :: string
  ru_PatternLower :: string
  ru_RequiredKeyword :: string
  ru_Compiled :: "rx option"
  ru_Action :: string
  ru_Enabled :: bool
  ru_Tags :: "string list"
  ru_Paranoia :: int
  ru_Hits :: int

record MatchResult =
  mr_Rule :: nat
  mr_MatchedVal :: string
  mr_Target :: string

record InspectResult =
  ir_Blocked :: bool
  ir_Matches :: "MatchResult list"
  ir_Score :: int
  ir_Action :: string
  ir_TopRule :: string

record EngineStats =
  es_TotalInspected :: int
  es_TotalBlocked :: int
  es_TotalMatched :: int

record Engine =
  en_cfg :: WAFConfig
  en_heap :: "Rule list"
  en_rules :: "nat list"
  en_index :: "(string, nat) gomap"
  en_stats :: EngineStats

definition SetParanoiaLevel :: "int \<Rightarrow> Engine \<Rightarrow> Engine" where
  "SetParanoiaLevel level e =
     (let level1 = (if level < 1 then 1 else level); level2 = (if 4 < level1 then 4 else level1)
      in e\<lparr>en_cfg := (en_cfg e)\<lparr>waf_ParanoiaLevel := level2\<rparr>\<rparr>)"

definition en_UpdateConfig :: "WAFConfig option \<Rightarrow> Engine \<Rightarrow> Engine" where
  "en_UpdateConfig c e = (case c of None \<Rightarrow> e | Some cfg \<Rightarrow> e\<lparr>en_cfg := cfg\<rparr>)"

subsection \<open>Request data\<close>

definition header_values :: "request \<Rightarrow> string list" where
  "header_values r = concat (map snd (r_header r))"

text \<open>The concatenated lower-case text of the keyword filter.\<close>

definition full_payload :: "request \<Rightarrow> string" where
  "full_payload r =
     to_lower (r_path r) @ ''|'' @ to_lower (r_rawquery r) @ ''|'' @ to_lower (r_method r) @ ''|'' @
     concat (map (\<lambda>h. to_lower h @ ''|'') (header_values r)) @ to_lower (hdr_get r ''Cookie'')"

text \<open>\<open>url.QueryUnescape\<close>: \<open>None\<close> on a malformed escape.\<close>

fun query_unescape :: "string \<Rightarrow> string option" where
  "query_unescape [] = Some []"
| "query_unescape (c # s) =
     (if c = CHR ''%'' then
        (case s of
           a # b # t \<Rightarrow>
             (case (hex_nibble a, hex_nibble b) of
                (Some x, Some y) \<Rightarrow> map_option ((#) (char_of (16 * x + y))) (query_unescape t)
              | _ \<Rightarrow> None)
         | _ \<Rightarrow> None)
      else if c = CHR ''+'' then map_option ((#) CHR '' '') (query_unescape s)
      else map_option ((#) c) (query_unescape s))"

definition cut_where :: "(char \<Rightarrow> bool) \<Rightarrow> string \<Rightarrow> string \<times> string" where
  "cut_where P s = (case index_where P s of Some i \<Rightarrow> (take i s, drop (Suc i) s) | None \<Rightarrow> (s, []))"

lemma cut_where_shorter: "s \<noteq> [] \<Longrightarrow> length (snd (cut_where P s)) < length s"
  by (cases s) (auto simp: cut_where_def split: option.splits)

definition after_eq :: "string \<Rightarrow> string" where
  "after_eq part = (case index_byte CHR ''='' part of Some i \<Rightarrow> drop (Suc i) part | None \<Rightarrow> part)"

text \<open>The values that \<open>forEachQueryArg\<close> and \<open>forEachCookieValue\<close> pass to their callback.\<close>

function query_args :: "string \<Rightarrow> string list" where
  "query_args query =
     (if query = [] then []
      else let (part, rest) = cut_where (\<lambda>c. c = CHR ''&'' \<or> c = CHR '';'') query
           in if part = [] then query_args rest
              else let val = after_eq part;
                       val' = (if CHR ''%'' \<in> set val
                               then (case query_unescape val of Some d \<Rightarrow> d | None \<Rightarrow> val) else val)
                   in val' # query_args rest)"
  by pat_completeness auto
termination
  by (relation "measure length", simp_all) (metis cut_where_shorter snd_conv)+

definition unquote :: "string \<Rightarrow> string" where
  "unquote val = (if 1 < length val \<and> hd val = CHR 0x22 \<and> last val = CHR 0x22
                  then butlast (tl val) else val)"

function cookie_values :: "string \<Rightarrow> string list" where
  "cookie_values header =
     (if header = [] then []
      else let (part, rest) = cut_where (\<lambda>c. c = CHR '';'') header; part' = trim_ws part
           in if part' = [] then cookie_values rest
              else unquote (after_eq part') # cookie_values rest)"
  by pat_completeness auto
termination
  by (relation "measure length", simp_all) (metis cut_where_shorter snd_conv)+

declare query_args.simps [simp del] cookie_values.simps [simp del]

subsection \<open>Matching\<close>

definition truncate_to :: "string \<Rightarrow> nat \<Rightarrow> string" where
  "truncate_to s maxLen = (if length s \<le> maxLen then s else take maxLen s @ ''...'')"

definition severityScore :: "string \<Rightarrow> int" where
  "severityScore sev =
     (if sev = ''critical'' then 25 else if sev = ''high'' then 15 else if sev = ''medium'' then 10
      else if sev = ''low'' then 5 else 1)"

definition lower_pattern :: "Rule \<Rightarrow> string" where
  "lower_pattern rule = (if ru_PatternLower rule = [] then to_lower (ru_Pattern rule) else ru_PatternLower rule)"

definition matchOperator :: "Rule \<Rightarrow> string \<Rightarrow> bool" where
  "matchOperator rule value =
     (let valueLower = to_lower value; oper = ru_Operator rule
      in if oper = ''rx'' then
           (case ru_Compiled rule of
              None \<Rightarrow> False
            | Some r \<Rightarrow>
                if ru_RequiredKeyword rule \<noteq> [] \<and> \<not> str_contains valueLower (ru_RequiredKeyword rule)
                then False else MatchString r value)
         else if oper = ''!rx'' then
           (case ru_Compiled rule of None \<Rightarrow> False | Some r \<Rightarrow> \<not> MatchString r value)
         else if oper = ''contains'' then str_contains valueLower (lower_pattern rule)
         else if oper = ''eq'' then equal_fold value (ru_Pattern rule)
         else if oper = ''beginsWith'' then has_prefix valueLower (lower_pattern rule)
         else if oper = ''endsWith'' then has_suffix valueLower (lower_pattern rule)
         else False)"

text \<open>The values of a target, in the order in which they are tried.\<close>

definition target_values :: "request \<Rightarrow> string \<Rightarrow> string list" where
  "target_values r target =
     (if target = ''URL'' then [r_url_string r]
      else if target = ''PATH'' then [r_path r]
      else if target = ''QUERY'' then [r_rawquery r]
      else if target = ''METHOD'' then [r_method r]
      else if target = ''UA'' then [user_agent r]
      else if target = ''HEADERS'' then header_values r
      else if target = ''ARGS'' then query_args (r_rawquery r)
      else if target = ''COOKIES'' then cookie_values (hdr_get r ''Cookie'')
      else [])"

fun match_targets :: "Rule \<Rightarrow> request \<Rightarrow> string list \<Rightarrow> (string \<times> string) option" where
  "match_targets rule r [] = None"
| "match_targets rule r (t # ts) =
     (case find (matchOperator rule) (target_values r t) of
        Some v \<Rightarrow> Some (truncate_to v 100, t)
      | None \<Rightarrow> match_targets rule r ts)"

definition matchRule :: "Rule \<Rightarrow> request \<Rightarrow> (string \<times> string) option" where
  "matchRule rule r = match_targets rule r (ru_Targets rule)"

subsection \<open>Inspection\<close>

definition clean_result :: InspectResult where
  "clean_result = \<lparr>ir_Blocked = False, ir_Matches = [], ir_Score = 0, ir_Action = [], ir_TopRule = []\<rparr>"

definition staticBypass :: "string \<Rightarrow> bool" where
  "staticBypass path \<longleftrightarrow> has_prefix path ''/_next/static/'' \<or>
     (\<exists>suf \<in> set [''.png'', ''.jpg'', ''.css'', ''.js'', ''.woff2'', ''.svg'']. has_suffix path suf)"

text \<open>The conditions under which the loop skips a rule.\<close>

definition applicable :: "int \<Rightarrow> string \<Rightarrow> Rule \<Rightarrow> bool" where
  "applicable level payload rule \<longleftrightarrow> ru_Enabled rule \<and> ru_Paranoia rule \<le> level \<and>
     (ru_RequiredKeyword rule = [] \<or> str_contains payload (ru_RequiredKeyword rule))"

definition blocking :: "Rule \<Rightarrow> bool" where
  "blocking rule \<longleftrightarrow> ru_Action rule = ''block'' \<or> ru_Action rule = ''drop''"

definition inspect_rule :: "int \<Rightarrow> string \<Rightarrow> request \<Rightarrow> nat \<Rightarrow> Engine \<times> InspectResult \<Rightarrow> Engine \<times> InspectResult" where
  "inspect_rule level payload r ref st =
     (case st of (e, res) \<Rightarrow>
       let rule = en_heap e ! ref
       in if \<not> applicable level payload rule then (e, res)
          else case matchRule rule r of
            None \<Rightarrow> (e, res)
          | Some (val, target) \<Rightarrow>
              let e' = e\<lparr>en_heap := (en_heap e)[ref := rule\<lparr>ru_Hits := ru_Hits rule + 1\<rparr>],
                         en_stats := (en_stats e)\<lparr>es_TotalMatched := es_TotalMatched (en_stats e) + 1\<rparr>\<rparr>;
                  res' = res\<lparr>ir_Matches := ir_Matches res @ [\<lparr>mr_Rule = ref, mr_MatchedVal = val, mr_Target = target\<rparr>],
                             ir_Score := ir_Score res + severityScore (ru_Severity rule)\<rparr>
              in if blocking rule
                 then (e', res'\<lparr>ir_Blocked := True, ir_Action := ru_Action rule, ir_TopRule := ru_ID rule\<rparr>)
                 else (e', res'))"

definition Inspect :: "request \<Rightarrow> Engine \<Rightarrow> InspectResult \<times> Engine" where
  "Inspect r e =
     (if \<not> waf_Enabled (en_cfg e) then (clean_result, e)
      else
        let e1 = e\<lparr>en_stats := (en_stats e)\<lparr>es_TotalInspected := es_TotalInspected (en_stats e) + 1\<rparr>\<rparr>
        in if staticBypass (r_path r) then (clean_result, e1)
           else
             let (e2, res) = fold (inspect_rule (waf_ParanoiaLevel (en_cfg e)) (full_payload r) r)
                               (en_rules e) (e1, clean_result)
             in if ir_Blocked res
                then (res, e2\<lparr>en_stats := (en_stats e2)\<lparr>es_TotalBlocked := es_TotalBlocked (en_stats e2) + 1\<rparr>\<rparr>)
                else (res, e2))"

subsection \<open>Adding and removing rules\<close>

text \<open>The longest run of keyword characters of a pattern without metacharacters.\<close>

definition keyword_char :: "char \<Rightarrow> bool" where
  "keyword_char c \<longleftrightarrow> is_lower c \<or> is_digit c \<or> c = CHR ''_'' \<or> c = CHR ''-''"

fun longest_run :: "string \<Rightarrow> string \<Rightarrow> string \<Rightarrow> string" where
  "longest_run cur best [] = (if length best < length cur then cur else best)"
| "longest_run cur best (c # s) =
     (if keyword_char c then longest_run (cur @ [c]) best s
      else longest_run [] (if length best < length cur then cur else best) s)"

definition extractRequiredKeyword :: "string \<Rightarrow> string" where
  "extractRequiredKeyword pat =
     (if \<exists>c \<in> set pat. c \<in> set ''|[]()?*+^$'' then []
      else let longest = longest_run [] [] pat in if 4 \<le> length longest then longest else [])"

text \<open>A rule is added by reference: the new cell of the heap. \<open>None\<close> is the error of the compilation.\<close>

definition prepare_rule :: "Rule \<Rightarrow> Rule option" where
  "prepare_rule rule =
     (let rule1 = rule\<lparr>ru_PatternLower := to_lower (ru_Pattern rule)\<rparr>
      in if (ru_Operator rule = ''rx'' \<or> ru_Operator rule = ''!rx'') \<and> ru_Pattern rule \<noteq> [] then
           (case rx_compile (ru_Pattern rule) of
              None \<Rightarrow> None
            | Some c \<Rightarrow> Some (rule1\<lparr>ru_Compiled := Some c,
                                  ru_RequiredKeyword := extractRequiredKeyword (ru_PatternLower rule1)\<rparr>))
         else Some rule1)"

definition link_rule :: "Rule \<Rightarrow> Engine \<Rightarrow> Engine" where
  "link_rule rule e =
     (let ref = length (en_heap e)
      in e\<lparr>en_heap := en_heap e @ [rule], en_rules := en_rules e @ [ref],
           en_index := AList.update (ru_ID rule) ref (en_index e)\<rparr>)"

definition AddRule :: "Rule \<Rightarrow> Engine \<Rightarrow> Engine option" where
  "AddRule rule e = map_option (\<lambda>r. link_rule r e) (prepare_rule rule)"

definition set_enabled :: "bool \<Rightarrow> string \<Rightarrow> Engine \<Rightarrow> bool \<times> Engine" where
  "set_enabled b i e =
     (case map_of (en_index e) i of
        None \<Rightarrow> (False, e)
      | Some ref \<Rightarrow> (True, e\<lparr>en_heap := (en_heap e)[ref := (en_heap e ! ref)\<lparr>ru_Enabled := b\<rparr>]\<rparr>))"

definition EnableRule :: "string \<Rightarrow> Engine \<Rightarrow> bool \<times> Engine" where
  "EnableRule = set_enabled True"

definition DisableRule :: "string \<Rightarrow> Engine \<Rightarrow> bool \<times> Engine" where
  "DisableRule = set_enabled False"

definition GetRules :: "Engine \<Rightarrow> Rule list" where
  "GetRules e = map (\<lambda>ref. en_heap e ! ref) (en_rules e)"

definition GetRule :: "string \<Rightarrow> Engine \<Rightarrow> Rule option" where
  "GetRule i e = map_option (\<lambda>ref. en_heap e ! ref) (map_of (en_index e) i)"

fun remove_first :: "('a \<Rightarrow> bool) \<Rightarrow> 'a list \<Rightarrow> 'a list" where
  "remove_first P [] = []"
| "remove_first P (x # xs) = (if P x then xs else x # remove_first P xs)"

definition RemoveRule :: "string \<Rightarrow> Engine \<Rightarrow> bool \<times> Engine" where
  "RemoveRule i e =
     (let is_i = (\<lambda>ref. ru_ID (en_heap e ! ref) = i)
      in (list_ex is_i (en_rules e),
          e\<lparr>en_index := AList.delete i (en_index e), en_rules := remove_first is_i (en_rules e)\<rparr>))"

definition CreateQuickRule :: "string \<Rightarrow> string \<Rightarrow> string \<Rightarrow> string \<Rightarrow> Rule" where
  "CreateQuickRule i pattern target category = \<lparr>ru_ID = i, ru_Name = ''Quick Rule: '' @ i,
     ru_Description = [], ru_Category = category, ru_Severity = ''high'', ru_Phase = 1,
     ru_Targets = [target], ru_Operator = ''rx'', ru_Pattern = pattern, ru_PatternLower = [],
     ru_RequiredKeyword = [], ru_Compiled = rx_compile pattern, ru_Action = ''block'', ru_Enabled = True,
     ru_Tags = [], ru_Paranoia = 1, ru_Hits = 0\<rparr>"

record CustomRuleEntry =
  ce_ID :: string
  ce_Name :: string
  ce_Description :: string
  ce_Category :: string
  ce_Severity :: string
  ce_Targets :: "string list"
  ce_Operator :: string
  ce_Pattern :: string
  ce_Action :: string
  ce_Enabled :: bool
  ce_Paranoia :: int
  ce_Tags :: "string list"

definition custom_rule :: "CustomRuleEntry \<Rightarrow> Rule" where
  "custom_rule c = \<lparr>ru_ID = ce_ID c, ru_Name = ce_Name c, ru_Description = ce_Description c,
     ru_Category = ce_Category c, ru_Severity = ce_Severity c, ru_Phase = 0, ru_Targets = ce_Targets c,
     ru_Operator = ce_Operator c, ru_Pattern = ce_Pattern c, ru_PatternLower = [],
     ru_RequiredKeyword = [], ru_Compiled = None,
     ru_Action = (if ce_Action c = [] then ''block'' else ce_Action c), ru_Enabled = ce_Enabled c,
     ru_Tags = ce_Tags c, ru_Paranoia = (if ce_Paranoia c = 0 then 1 else ce_Paranoia c), ru_Hits = 0\<rparr>"

text \<open>The decoded rules file is an argument; \<open>None\<close> when it cannot be read or parsed.\<close>

definition LoadCustomRules :: "(string \<Rightarrow> CustomRuleEntry list option) \<Rightarrow> string \<Rightarrow> Engine \<Rightarrow> bool \<times> Engine" where
  "LoadCustomRules decode path e =
     (if path = [] then (True, e)
      else case decode path of
        None \<Rightarrow> (False, e)
      | Some entries \<Rightarrow>
          (True, foldl (\<lambda>e c. case AddRule (custom_rule c) e of Some e' \<Rightarrow> e' | None \<Rightarrow> e) e entries))"

subsection \<open>The shape of the state\<close>

text \<open>Every reference is allocated, and the index maps an identifier to a rule that has it.\<close>

definition engine_ok :: "Engine \<Rightarrow> bool" where
  "engine_ok e \<longleftrightarrow> (\<forall>ref \<in> set (en_rules e). ref < length (en_heap e)) \<and> distinct (en_rules e) \<and>
     gomap_ok (en_index e) \<and>
     (\<forall>i ref. map_of (en_index e) i = Some ref \<longrightarrow>
        ref < length (en_heap e) \<and> ru_ID (en_heap e ! ref) = i)"

text \<open>No two listed rules share an identifier, and the index knows every listed rule.\<close>

definition engine_unique :: "Engine \<Rightarrow> bool" where
  "engine_unique e \<longleftrightarrow> engine_ok e \<and>
     (\<forall>ref \<in> set (en_rules e). map_of (en_index e) (ru_ID (en_heap e ! ref)) = Some ref)"

lemma engine_ok_link:
  assumes "engine_ok e"
  shows "engine_ok (link_rule rule e)"
  using assms
  by (auto simp: engine_ok_def link_rule_def Let_def gomap_simps nth_append less_Suc_eq)

lemma prepare_rule_ID: "prepare_rule rule = Some r \<Longrightarrow> ru_ID r = ru_ID rule"
  by (auto simp: prepare_rule_def Let_def split: if_splits option.splits)

lemma engine_unique_link:
  assumes "engine_unique e" and "map_of (en_index e) (ru_ID rule) = None"
  shows "engine_unique (link_rule rule e)"
proof -
  have ok: "engine_ok (link_rule rule e)"
    using assms(1) engine_ok_link by (simp add: engine_unique_def)
  have "map_of (en_index (link_rule rule e)) (ru_ID (en_heap (link_rule rule e) ! ref)) = Some ref"
    if "ref \<in> set (en_rules (link_rule rule e))" for ref
  proof (cases "ref = length (en_heap e)")
    case True
    then show ?thesis by (simp add: link_rule_def Let_def gomap_simps)
  next
    case False
    then have r: "ref \<in> set (en_rules e)" using that by (simp add: link_rule_def Let_def)
    then have "ref < length (en_heap e)" "map_of (en_index e) (ru_ID (en_heap e ! ref)) = Some ref"
      using assms(1) by (auto simp: engine_unique_def engine_ok_def)
    then show ?thesis using assms(2)
      by (auto simp: link_rule_def Let_def gomap_simps nth_append)
  qed
  with ok show ?thesis by (simp add: engine_unique_def)
qed

lemma set_remove_first: "distinct xs \<Longrightarrow> set (remove_first P xs) \<subseteq> set xs \<and> distinct (remove_first P xs)"
  by (induction xs) auto

lemma remove_first_gone:
  "distinct xs \<Longrightarrow> (\<And>x y. x \<in> set xs \<Longrightarrow> y \<in> set xs \<Longrightarrow> P x \<Longrightarrow> P y \<Longrightarrow> x = y) \<Longrightarrow>
     x \<in> set (remove_first P xs) \<longleftrightarrow> x \<in> set xs \<and> \<not> P x"
  by (induction xs) (auto 4 3)

lemma engine_ok_remove: "engine_ok e \<Longrightarrow> engine_ok (snd (RemoveRule i e))"
  using set_remove_first [of "en_rules e" "\<lambda>ref. ru_ID (en_heap e ! ref) = i"]
  by (auto simp: engine_ok_def RemoveRule_def Let_def gomap_simps)

lemma engine_unique_remove:
  assumes "engine_unique e"
  shows "engine_unique (snd (RemoveRule i e))"
    and "ref \<in> set (en_rules (snd (RemoveRule i e))) \<longleftrightarrow>
      ref \<in> set (en_rules e) \<and> ru_ID (en_heap e ! ref) \<noteq> i"
proof -
  have ok: "engine_ok e" and ix: "\<And>ref. ref \<in> set (en_rules e) \<Longrightarrow>
      map_of (en_index e) (ru_ID (en_heap e ! ref)) = Some ref"
    using assms by (auto simp: engine_unique_def)
  have gone: "ref \<in> set (remove_first (\<lambda>ref. ru_ID (en_heap e ! ref) = i) (en_rules e)) \<longleftrightarrow>
      ref \<in> set (en_rules e) \<and> ru_ID (en_heap e ! ref) \<noteq> i" for ref
  proof (rule remove_first_gone)
    show "distinct (en_rules e)" using ok by (simp add: engine_ok_def)
    fix x y assume "x \<in> set (en_rules e)" "y \<in> set (en_rules e)"
      "ru_ID (en_heap e ! x) = i" "ru_ID (en_heap e ! y) = i"
    then show "x = y" using ix [of x] ix [of y] by simp
  qed
  show "ref \<in> set (en_rules (snd (RemoveRule i e))) \<longleftrightarrow>
      ref \<in> set (en_rules e) \<and> ru_ID (en_heap e ! ref) \<noteq> i"
    using gone by (simp add: RemoveRule_def Let_def)
  show "engine_unique (snd (RemoveRule i e))"
    using engine_ok_remove [OF ok, of i] gone ix
    by (auto simp: engine_unique_def RemoveRule_def Let_def gomap_simps)
qed

lemma engine_ok_set_enabled: "engine_ok e \<Longrightarrow> engine_ok (snd (set_enabled b i e))"
  by (fastforce simp: engine_ok_def set_enabled_def nth_list_update split: option.splits)

subsection \<open>What an inspection decides\<close>

text \<open>Hits do not influence matching, so an inspection sees the rules as they were at its start.\<close>

lemma matchRule_hits [simp]: "matchRule (rule\<lparr>ru_Hits := h\<rparr>) r = matchRule rule r"
proof -
  have "matchOperator (rule\<lparr>ru_Hits := h\<rparr>) = matchOperator rule"
    by (intro ext, cases "ru_Compiled rule") (simp_all add: matchOperator_def lower_pattern_def Let_def)
  then have "match_targets (rule\<lparr>ru_Hits := h\<rparr>) r ts = match_targets rule r ts" for ts
    by (induction ts) (simp_all split: option.split)
  then show ?thesis by (simp add: matchRule_def)
qed

definition fires :: "int \<Rightarrow> request \<Rightarrow> Rule \<Rightarrow> bool" where
  "fires level r rule \<longleftrightarrow> applicable level (full_payload r) rule \<and> matchRule rule r \<noteq> None"

definition same_rules :: "Rule list \<Rightarrow> Rule list \<Rightarrow> bool" where
  "same_rules hp hp' \<longleftrightarrow> length hp = length hp' \<and>
     (\<forall>i < length hp. hp' ! i = (hp ! i)\<lparr>ru_Hits := ru_Hits (hp' ! i)\<rparr>)"

lemma same_rules_refl [simp]: "same_rules hp hp"
  by (simp add: same_rules_def)

lemma hits_twice: "x = y\<lparr>ru_Hits := a\<rparr> \<Longrightarrow> x\<lparr>ru_Hits := h\<rparr> = y\<lparr>ru_Hits := h\<rparr>"
  by simp

lemma same_rules_hit:
  "same_rules hp hp' \<Longrightarrow> same_rules hp (hp'[ref := (hp' ! ref)\<lparr>ru_Hits := h\<rparr>])"
  unfolding same_rules_def
proof (intro conjI allI impI; elim conjE)
  fix i assume "length hp = length hp'" "i < length hp"
    and eq: "\<forall>i<length hp. hp' ! i = (hp ! i)\<lparr>ru_Hits := ru_Hits (hp' ! i)\<rparr>"
  then show "hp'[ref := (hp' ! ref)\<lparr>ru_Hits := h\<rparr>] ! i =
      (hp ! i)\<lparr>ru_Hits := ru_Hits (hp'[ref := (hp' ! ref)\<lparr>ru_Hits := h\<rparr>] ! i)\<rparr>"
    using hits_twice [OF eq [rule_format, of i]] by (cases "i = ref") simp_all
qed simp

lemma fires_hits:
  "same_rules hp hp' \<Longrightarrow> i < length hp \<Longrightarrow> fires level r (hp' ! i) = fires level r (hp ! i) \<and>
     ru_Severity (hp' ! i) = ru_Severity (hp ! i) \<and> blocking (hp' ! i) = blocking (hp ! i) \<and>
     ru_ID (hp' ! i) = ru_ID (hp ! i) \<and> ru_Action (hp' ! i) = ru_Action (hp ! i)"
proof -
  assume "same_rules hp hp'" "i < length hp"
  then obtain h where h: "hp' ! i = (hp ! i)\<lparr>ru_Hits := h\<rparr>" by (auto simp: same_rules_def)
  show ?thesis unfolding h by (simp add: fires_def applicable_def blocking_def)
qed

text \<open>The result of a whole pass over references, from any accumulated result.\<close>

definition firing :: "int \<Rightarrow> request \<Rightarrow> Rule list \<Rightarrow> nat list \<Rightarrow> nat list" where
  "firing level r hp refs = filter (\<lambda>ref. fires level r (hp ! ref)) refs"

lemma inspect_pass:
  assumes "\<forall>ref \<in> set refs. ref < length hp" and "same_rules hp (en_heap e)"
    and "fold (inspect_rule level (full_payload r) r) refs (e, res) = (e', res')"
  shows "same_rules hp (en_heap e') \<and> en_rules e' = en_rules e \<and> en_index e' = en_index e \<and>
    en_cfg e' = en_cfg e \<and>
    map mr_Rule (ir_Matches res') = map mr_Rule (ir_Matches res) @ firing level r hp refs \<and>
    ir_Score res' = ir_Score res + (\<Sum>ref \<leftarrow> firing level r hp refs. severityScore (ru_Severity (hp ! ref))) \<and>
    ir_Blocked res' = (ir_Blocked res \<or> (\<exists>ref \<in> set (firing level r hp refs). blocking (hp ! ref))) \<and>
    ir_TopRule res' = (case rev (filter (\<lambda>ref. blocking (hp ! ref)) (firing level r hp refs)) of
       [] \<Rightarrow> ir_TopRule res | ref # _ \<Rightarrow> ru_ID (hp ! ref))"
  using assms
proof (induction refs arbitrary: e res)
  case Nil
  then show ?case by (simp add: firing_def)
next
  case (Cons ref refs)
  let ?rule = "en_heap e ! ref"
  have ref: "ref < length hp" using Cons.prems(1) by simp
  note same = fires_hits [OF Cons.prems(2) ref, of level r]
  show ?case
  proof (cases "fires level r (hp ! ref)")
    case False
    then have "inspect_rule level (full_payload r) r ref (e, res) = (e, res)"
      using same by (cases "matchRule ?rule r") (auto simp: inspect_rule_def fires_def Let_def)
    then show ?thesis using Cons.IH [of e res] Cons.prems False by (simp add: firing_def)
  next
    case True
    then obtain val target where m: "applicable level (full_payload r) ?rule" "matchRule ?rule r = Some (val, target)"
      using same by (auto simp: fires_def)
    let ?e = "e\<lparr>en_heap := (en_heap e)[ref := ?rule\<lparr>ru_Hits := ru_Hits ?rule + 1\<rparr>],
      en_stats := (en_stats e)\<lparr>es_TotalMatched := es_TotalMatched (en_stats e) + 1\<rparr>\<rparr>"
    let ?res = "res\<lparr>ir_Matches := ir_Matches res @ [\<lparr>mr_Rule = ref, mr_MatchedVal = val, mr_Target = target\<rparr>],
      ir_Score := ir_Score res + severityScore (ru_Severity ?rule)\<rparr>"
    let ?res' = "if blocking ?rule then ?res\<lparr>ir_Blocked := True, ir_Action := ru_Action ?rule,
      ir_TopRule := ru_ID ?rule\<rparr> else ?res"
    have step: "inspect_rule level (full_payload r) r ref (e, res) = (?e, ?res')"
      using m by (simp add: inspect_rule_def Let_def)
    have "same_rules hp (en_heap ?e)" using same_rules_hit [OF Cons.prems(2)] by simp
    then have IH: "same_rules hp (en_heap e') \<and> en_rules e' = en_rules ?e \<and> en_index e' = en_index ?e \<and>
        en_cfg e' = en_cfg ?e \<and>
        map mr_Rule (ir_Matches res') = map mr_Rule (ir_Matches ?res') @ firing level r hp refs \<and>
        ir_Score res' = ir_Score ?res' + (\<Sum>ref \<leftarrow> firing level r hp refs. severityScore (ru_Severity (hp ! ref))) \<and>
        ir_Blocked res' = (ir_Blocked ?res' \<or> (\<exists>ref \<in> set (firing level r hp refs). blocking (hp ! ref))) \<and>
        ir_TopRule res' = (case rev (filter (\<lambda>ref. blocking (hp ! ref)) (firing level r hp refs)) of
          [] \<Rightarrow> ir_TopRule ?res' | ref # _ \<Rightarrow> ru_ID (hp ! ref))"
      using Cons.prems(1,3) step by (intro Cons.IH) simp_all
    show ?thesis using IH True same
      by (cases "rev (filter (\<lambda>ref. blocking (hp ! ref)) (firing level r hp refs))")
        (auto simp: firing_def)
  qed
qed

lemma Inspect_engine_ok:
  assumes "engine_ok e"
  shows "engine_ok (snd (Inspect r e))"
proof -
  let ?e1 = "e\<lparr>en_stats := (en_stats e)\<lparr>es_TotalInspected := es_TotalInspected (en_stats e) + 1\<rparr>\<rparr>"
  obtain e2 res where f: "fold (inspect_rule (waf_ParanoiaLevel (en_cfg e)) (full_payload r) r)
      (en_rules e) (?e1, clean_result) = (e2, res)"
    by (metis prod.exhaust)
  have "same_rules (en_heap e) (en_heap e2) \<and> en_rules e2 = en_rules e \<and> en_index e2 = en_index e"
    using inspect_pass [OF _ _ f, of "en_heap e"] assms by (simp add: engine_ok_def)
  moreover have "ru_ID (en_heap e2 ! i) = ru_ID (en_heap e ! i)" if "same_rules (en_heap e) (en_heap e2)"
    "i < length (en_heap e)" for i
    using fires_hits [OF that] by simp
  ultimately have "engine_ok e2" using assms by (auto simp: engine_ok_def same_rules_def)
  then show ?thesis
    using assms f by (auto simp: Inspect_def Let_def engine_ok_def split: prod.split)
qed

end
