(* ===== verification/Waf_Rules.thy ===== *)
theory Waf_Rules
  imports Waf_Engine
begin

section \<open>The built-in rule set (rules/owasp.go) and the properties of the engine\<close>

text \<open>
  The OWASP-inspired rules as data, their loading at a paranoia level and the construction of the
  engine, followed by the properties of the rules engine.
\<close>

definition em_dash :: string where
  "em_dash = [CHR 0xe2, CHR 0x80, CHR 0x94]"

definition owasp :: "string \<Rightarrow> string \<Rightarrow> string \<Rightarrow> string \<Rightarrow> int \<Rightarrow> string list \<Rightarrow> string \<Rightarrow>
   string \<Rightarrow> string \<Rightarrow> bool \<Rightarrow> string list \<Rightarrow> Rule" where
  "owasp i name cat sev par targets oper pat act enabled tags = \<lparr>ru_ID = i, ru_Name = name,
     ru_Description = [], ru_Category = cat, ru_Severity = sev, ru_Phase = 1, ru_Targets = targets,
     ru_Operator = oper, ru_Pattern = raw_pat pat, ru_PatternLower = [], ru_RequiredKeyword = [],
     ru_Compiled = None, ru_Action = act, ru_Enabled = enabled, ru_Tags = tags, ru_Paranoia = par,
     ru_Hits = 0\<rparr>"

definition owaspRules :: "Rule list" where
  "owaspRules = [
    owasp ''920100'' (''Invalid HTTP Request Line'') ''protocol'' ''high'' 1
      [''METHOD''] ''!rx''
      ''^(?:GET|POST|HEAD|PUT|DELETE|PATCH|OPTIONS|CONNECT|TRACE)$''
      ''block'' True [''OWASP_CRS'', ''protocol''],
    owasp ''920170'' (''GET/HEAD with Body'') ''protocol'' ''medium'' 1
      [''HEADERS''] ''rx''
      ''^[1-9]~d*$''
      ''block'' False [''OWASP_CRS'', ''protocol''],
    owasp ''920270'' (''Invalid Character in Request'') ''protocol'' ''high'' 2
      [''URL''] ''rx''
      ''[~x00-~x08~x0b~x0c~x0e-~x1f~x7f]''
      ''block'' True [''OWASP_CRS'', ''protocol''],
    owasp ''930100'' (''Path Traversal Attack'') ''lfi'' ''critical'' 1
      [''URL'', ''ARGS''] ''rx''
      ''(?:~.~./|~.~.~~|%2e%2e[/~~%]|%252e%252e)''
      ''block'' True [''OWASP_CRS'', ''LFI'', ''path-traversal''],
    owasp ''930110'' (''OS File Access Attempt'') ''lfi'' ''critical'' 1
      [''URL'', ''ARGS''] ''rx''
      ''(?:/etc/passwd|/etc/shadow|/proc/self|c:~~windows|boot~.ini|win~.ini)''
      ''block'' True [''OWASP_CRS'', ''LFI''],
    owasp ''930120'' (''Restricted File Access'') ''lfi'' ''high'' 1
      [''URL''] ''rx''
      ''(?:~.htaccess|~.htpasswd|~.env|~.git/|~.svn/|~.DS_Store|web~.config|~.bak|~.old|~.sql|~.log)''
      ''block'' True [''OWASP_CRS'', ''LFI'', ''info-disclosure''],
    owasp ''941100'' (''XSS Attack via Script Tag'') ''xss'' ''critical'' 1
      [''ARGS'', ''URL'', ''HEADERS'', ''COOKIES''] ''rx''
      ''(?:<script[^>]*>|<~/script>|javascript~s*:|on~w+~s*=)''
      ''block'' True [''OWASP_CRS'', ''XSS''],
    owasp ''941110'' (''XSS Attack via Event Handler'') ''xss'' ''high'' 1
      [''ARGS'', ''URL''] ''rx''
      ''(?:on(?:abort|blur|change|click|dblclick|error|focus|keydown|keypress|keyup|load|mousedown|mousemove|mouseout|mouseover|mouseup|resize|select|submit|unload)~s*=)''
      ''block'' True [''OWASP_CRS'', ''XSS''],
    owasp ''941120'' (''XSS Attack via img/iframe/object'') ''xss'' ''high'' 1
      [''ARGS'', ''URL''] ''rx''
      ''(?:<(?:img|iframe|object|embed|svg|math|video|audio|source|base|link|meta|form|input|button|textarea|select)~b)''
      ''block'' True [''OWASP_CRS'', ''XSS''],
    owasp ''941130'' (''XSS eval/alert Injection'') ''xss'' ''high'' 1
      [''ARGS'', ''URL''] ''rx''
      ''(?:eval~s*~(|alert~s*~(|prompt~s*~(|confirm~s*~(|String~.fromCharCode|document~.cookie|document~.write|window~.location)''
      ''block'' True [''OWASP_CRS'', ''XSS''],
    owasp ''942100'' (''SQL Injection Attack '' @ em_dash @ '' Tautology'') ''sqli'' ''critical'' 1
      [''ARGS'', ''URL'', ''COOKIES''] ''rx''
      ''(?:@~s*(?:or|and)~s*@?~d*~s*[=<>]|\"~s*(?:or|and)~s*\"~s*[=<>]|(?:or|and)~s+~d+~s*=~s*~d+|~bor~b~s+~d+~s*=~s*~d+|@~s*or~s+@[^@]*@~s*=~s*@|@~s*or~s*1=1|@~s*or~s*true)''
      ''block'' True [''OWASP_CRS'', ''SQLi''],
    owasp ''942110'' (''SQL Injection Attack '' @ em_dash @ '' UNION'') ''sqli'' ''critical'' 1
      [''ARGS'', ''URL''] ''rx''
      ''(?:union~s+(?:all~s+)?select~s|union~s+select~s)''
      ''block'' True [''OWASP_CRS'', ''SQLi''],
    owasp ''942120'' (''SQL Injection '' @ em_dash @ '' Stacked Queries'') ''sqli'' ''critical'' 1
      [''ARGS'', ''URL''] ''rx''
      ''(?:;~s*(?:drop|alter|create|truncate|rename|insert|update|delete|exec|execute)~s)''
      ''block'' True [''OWASP_CRS'', ''SQLi''],
    owasp ''942130'' (''SQL Injection '' @ em_dash @ '' Comment Bypass'') ''sqli'' ''high'' 1
      [''ARGS'', ''URL''] ''rx''
      ''(?:/~*[~s~S]*?~*/|--|#|;~s*--|%23|%2d%2d)''
      ''block'' True [''OWASP_CRS'', ''SQLi''],
    owasp ''942140'' (''SQL Injection '' @ em_dash @ '' Information Schema'') ''sqli'' ''critical'' 1
      [''ARGS'', ''URL''] ''rx''
      ''(?:information_schema|sysobjects|syscolumns|sysusers|pg_catalog|pg_tables)''
      ''block'' True [''OWASP_CRS'', ''SQLi''],
    owasp ''942150'' (''SQL Injection '' @ em_dash @ '' Functions'') ''sqli'' ''high'' 1
      [''ARGS'', ''URL''] ''rx''
      ''(?:(?:sleep|benchmark|waitfor|delay|load_file|into~s+(?:out|dump)file)~s*~()''
      ''block'' True [''OWASP_CRS'', ''SQLi''],
    owasp ''932100'' (''Unix Command Injection'') ''rce'' ''critical'' 1
      [''ARGS'', ''URL'', ''HEADERS''] ''rx''
      ''(?:;~s*(?:cat|ls|id|whoami|uname|pwd|wget|curl|nc|netcat|bash|sh|python|perl|php|ruby|gcc|chmod|chown)~b|`|~$~(|~|~||~&~&)''
      ''block'' True [''OWASP_CRS'', ''RCE''],
    owasp ''932110'' (''Windows Command Injection'') ''rce'' ''critical'' 1
      [''ARGS'', ''URL''] ''rx''
      ''(?:cmd~.exe|powershell|command~.com|cscript|wscript|mshta|regsvr32|rundll32|certutil)''
      ''block'' True [''OWASP_CRS'', ''RCE''],
    owasp ''931100'' (''Remote File Inclusion '' @ em_dash @ '' URL in Parameter'') ''rfi'' ''critical'' 1
      [''ARGS''] ''rx''
      ''(?:https?://|ftp://|data:|php://|zlib://|glob://|expect://|phar://)''
      ''block'' True [''OWASP_CRS'', ''RFI''],
    owasp ''934100'' (''Node.js Injection'') ''rce'' ''critical'' 2
      [''ARGS'', ''URL''] ''rx''
      ''(?:require~s*~(~s*[@\"]~s*(?:child_process|fs|net|http|crypto)|process~.(?:env|exit|argv|mainModule)|__proto__|constructor~s*~[)''
      ''block'' True [''OWASP_CRS'', ''NodeJS''],
    owasp ''944100'' (''Java Deserialization Attack'') ''rce'' ''critical'' 2
      [''ARGS'', ''URL'', ''HEADERS''] ''rx''
      ''(?:java~.lang~.Runtime|ProcessBuilder|javax~.script|org~.apache~.commons|com~.sun~.org~.apache|java~.io~.ObjectInputStream)''
      ''block'' True [''OWASP_CRS'', ''Java''],
    owasp ''944110'' (''Log4Shell JNDI Injection (CVE-2021-44228)'') ''rce'' ''critical'' 1
      [''ARGS'', ''URL'', ''HEADERS'', ''COOKIES''] ''rx''
      ''(?:~$~{jndi:(?:ldap|rmi|dns|nis|iiop|corba|nds|http):|~$~{::-~w~})''
      ''block'' True [''OWASP_CRS'', ''Log4Shell'', ''RCE''],
    owasp ''913100'' (''Known Security Scanner'') ''scanner'' ''high'' 1
      [''UA''] ''rx''
      ''(?:nikto|sqlmap|nmap|masscan|dirbuster|gobuster|wfuzz|ffuf|burpsuite|zaproxy|acunetix|nessus|openvas|qualys|nuclei|httpx|subfinder)''
      ''block'' True [''OWASP_CRS'', ''scanner''],
    owasp ''913110'' (''Known Scraping Tool'') ''scanner'' ''medium'' 2
      [''UA''] ''rx''
      ''(?:scrapy|beautifulsoup|mechanize|phantom|headless|puppeteer|playwright|selenium)''
      ''challenge'' True [''OWASP_CRS'', ''scraper''],
    owasp ''921100'' (''HTTP Splitting/Smuggling'') ''protocol'' ''critical'' 1
      [''HEADERS'', ''ARGS'', ''URL''] ''rx''
      ''(?:~r~n|~n)(?:Content-|Transfer-|Set-Cookie|Location)|/smuggle''
      ''block'' True [''OWASP_CRS'', ''HTTP-smuggling''],
    owasp ''933100'' (''PHP Injection Attack'') ''rce'' ''critical'' 1
      [''ARGS'', ''URL''] ''rx''
      ''(?:<~?(?:php)?|assert~s*~(|eval~s*~(|preg_replace~s*~(.*/e|system~s*~(|exec~s*~(|passthru~s*~(|shell_exec~s*~(|popen~s*~()''
      ''block'' True [''OWASP_CRS'', ''PHP''],
    owasp ''950100'' (''SSRF '' @ em_dash @ '' Internal Network Access'') ''ssrf'' ''critical'' 1
      [''ARGS''] ''rx''
      ''(?:127~.~d+~.~d+~.~d+|localhost|0~.0~.0~.0|10~.~d+~.~d+~.~d+|172~.(?:1[6-9]|2~d|3[01])~.~d+~.~d+|192~.168~.~d+~.~d+|169~.254~.~d+~.~d+|~[::1~]|metadata~.google|instance-data)''
      ''block'' True [''OWASP_CRS'', ''SSRF'']]"

definition load_one :: "Rule \<Rightarrow> Engine \<Rightarrow> Engine" where
  "load_one rule e =
     (let rule1 = rule\<lparr>ru_PatternLower := to_lower (ru_Pattern rule)\<rparr>
      in if (ru_Operator rule = ''rx'' \<or> ru_Operator rule = ''!rx'') \<and> ru_Pattern rule \<noteq> [] then
           (case rx_compile (ru_Pattern rule) of
              None \<Rightarrow> e | Some c \<Rightarrow> link_rule (rule1\<lparr>ru_Compiled := Some c\<rparr>) e)
         else link_rule rule1 e)"

definition loadOWASPRules :: "int \<Rightarrow> Engine \<Rightarrow> Engine" where
  "loadOWASPRules paranoiaLevel e =
     fold load_one (filter (\<lambda>rule. ru_Paranoia rule \<le> paranoiaLevel) owaspRules) e"

definition NewEngine :: "WAFConfig \<Rightarrow> Engine" where
  "NewEngine cfg =
     (let e = \<lparr>en_cfg = cfg, en_heap = [], en_rules = [], en_index = [],
               en_stats = \<lparr>es_TotalInspected = 0, es_TotalBlocked = 0, es_TotalMatched = 0\<rparr>\<rparr>
      in if waf_Enabled cfg then loadOWASPRules (waf_ParanoiaLevel cfg) e else e)"

subsection \<open>Loading\<close>

lemma load_one_props:
  "engine_ok e \<Longrightarrow> engine_ok (load_one rule e)"
  "en_cfg (load_one rule e) = en_cfg e"
  "\<forall>r \<in> set (en_heap e). ru_Paranoia r \<le> p \<Longrightarrow> ru_Paranoia rule \<le> p \<Longrightarrow>
     \<forall>r \<in> set (en_heap (load_one rule e)). ru_Paranoia r \<le> p"
  by (auto simp: load_one_def Let_def engine_ok_link split: option.splits)
    (auto simp: link_rule_def Let_def)

lemma fold_load_ok: "engine_ok e \<Longrightarrow> engine_ok (fold load_one rules e)"
  by (induction rules arbitrary: e) (simp_all add: load_one_props(1))

lemma fold_load_cfg: "en_cfg (fold load_one rules e) = en_cfg e"
  by (induction rules arbitrary: e) (simp_all add: load_one_props(2))

lemma fold_load_paranoia:
  "\<forall>r \<in> set (en_heap e). ru_Paranoia r \<le> p \<Longrightarrow> \<forall>r \<in> set rules. ru_Paranoia r \<le> p \<Longrightarrow>
     \<forall>r \<in> set (en_heap (fold load_one rules e)). ru_Paranoia r \<le> p"
proof (induction rules arbitrary: e)
  case Nil
  then show ?case by simp
next
  case (Cons rule rules)
  then have "\<forall>r \<in> set (en_heap (load_one rule e)). ru_Paranoia r \<le> p"
    by (intro load_one_props(3)) simp_all
  with Cons show ?case by simp
qed

lemma NewEngine_props:
  "engine_ok (NewEngine cfg)"
  "en_cfg (NewEngine cfg) = cfg"
  "\<forall>r \<in> set (en_heap (NewEngine cfg)). ru_Paranoia r \<le> waf_ParanoiaLevel cfg"
proof -
  let ?e = "\<lparr>en_cfg = cfg, en_heap = [], en_rules = [], en_index = [],
               en_stats = \<lparr>es_TotalInspected = 0, es_TotalBlocked = 0, es_TotalMatched = 0\<rparr>\<rparr>"
  have "engine_ok ?e" by (simp add: engine_ok_def)
  then show "engine_ok (NewEngine cfg)" "en_cfg (NewEngine cfg) = cfg"
    by (simp_all add: NewEngine_def loadOWASPRules_def Let_def fold_load_ok fold_load_cfg)
  have "\<forall>r \<in> set (en_heap (fold load_one (filter (\<lambda>rule. ru_Paranoia rule \<le> waf_ParanoiaLevel cfg) owaspRules) ?e)).
      ru_Paranoia r \<le> waf_ParanoiaLevel cfg"
    by (rule fold_load_paranoia) simp_all
  note loaded = this
  show "\<forall>r \<in> set (en_heap (NewEngine cfg)). ru_Paranoia r \<le> waf_ParanoiaLevel cfg"
  proof (cases "waf_Enabled cfg")
    case True
    then have eq: "NewEngine cfg =
        fold load_one (filter (\<lambda>rule. ru_Paranoia rule \<le> waf_ParanoiaLevel cfg) owaspRules) ?e"
      by (simp add: NewEngine_def loadOWASPRules_def Let_def)
    show ?thesis unfolding eq by (rule loaded)
  next
    case False
    then have "en_heap (NewEngine cfg) = []" by (simp add: NewEngine_def Let_def)
    then show ?thesis by simp
  qed
qed

subsection \<open>The keyword filter\<close>

lemma infix_trans_contains: "str_contains v kw \<Longrightarrow> s = a @ v @ b \<Longrightarrow> str_contains s kw"
  using str_contains_append by blast

lemma lower_infix: "s = a @ v @ b \<Longrightarrow> to_lower s = to_lower a @ to_lower v @ to_lower b"
  by simp

lemma payload_parts:
  "\<exists>a b. full_payload r = a @ to_lower (r_path r) @ b"
  "\<exists>a b. full_payload r = a @ to_lower (r_rawquery r) @ b"
  "\<exists>a b. full_payload r = a @ to_lower (r_method r) @ b"
  "\<exists>a b. full_payload r = a @ to_lower (hdr_get r ''Cookie'') @ b"
  "v \<in> set (header_values r) \<Longrightarrow> \<exists>a b. full_payload r = a @ to_lower v @ b"
proof -
  let ?p = "to_lower (r_path r)" and ?q = "to_lower (r_rawquery r)" and ?m = "to_lower (r_method r)"
  let ?h = "concat (map (\<lambda>h. to_lower h @ ''|'') (header_values r))"
  let ?c = "to_lower (hdr_get r ''Cookie'')"
  show "\<exists>a b. full_payload r = a @ ?p @ b"
    unfolding full_payload_def by (rule exI [of _ "[]"]) simp
  show "\<exists>a b. full_payload r = a @ ?q @ b"
    unfolding full_payload_def by (rule exI [of _ "?p @ ''|''"]) simp
  show "\<exists>a b. full_payload r = a @ ?m @ b"
    unfolding full_payload_def by (rule exI [of _ "?p @ ''|'' @ ?q @ ''|''"]) simp
  show "\<exists>a b. full_payload r = a @ ?c @ b"
    unfolding full_payload_def
    by (rule exI [of _ "?p @ ''|'' @ ?q @ ''|'' @ ?m @ ''|'' @ ?h"]) simp
  assume "v \<in> set (header_values r)"
  then obtain xs ys where hv: "header_values r = xs @ v # ys" by (auto simp: in_set_conv_decomp)
  show "\<exists>a b. full_payload r = a @ to_lower v @ b"
    unfolding full_payload_def hv
    by (rule exI [of _ "?p @ ''|'' @ ?q @ ''|'' @ ?m @ ''|'' @ concat (map (\<lambda>h. to_lower h @ ''|'') xs)"]) simp
qed

lemma cut_where_infix: "cut_where P s = (x, y) \<Longrightarrow> (\<exists>b. s = x @ b) \<and> (\<exists>a. s = a @ y)"
  by (auto simp: cut_where_def split: option.splits) (metis append_take_drop_id)+

lemma after_eq_infix: "\<exists>a. part = a @ after_eq part"
  by (auto simp: after_eq_def split: option.splits) (metis append_take_drop_id)

lemma trim_infix: "\<exists>a b. s = a @ trim_ws s @ b"
proof -
  let ?d = "dropWhile is_space s"
  have "s = takeWhile is_space s @ ?d" by simp
  moreover have "?d = rev (dropWhile is_space (rev ?d)) @ rev (takeWhile is_space (rev ?d))"
    by (metis rev_append rev_rev_ident takeWhile_dropWhile_id)
  ultimately show ?thesis unfolding trim_ws_def trim_where_def by metis
qed

lemma unquote_infix: "\<exists>a b. v = a @ unquote v @ b"
proof (cases "1 < length v \<and> hd v = CHR 0x22 \<and> last v = CHR 0x22")
  case True
  then obtain c t where v: "v = c # t" "t \<noteq> []" by (cases v) auto
  then have "unquote v = butlast t" using True by (simp add: unquote_def)
  moreover have "v = [c] @ butlast t @ [last t]" using v by simp
  ultimately show ?thesis by metis
next
  case False
  then show ?thesis by (simp add: unquote_def) (metis append_Nil append_Nil2)
qed

lemma cookie_values_infix: "v \<in> set (cookie_values h) \<Longrightarrow> \<exists>a b. h = a @ v @ b"
proof (induction h rule: cookie_values.induct)
  case (1 h)
  show ?case
  proof (cases "h = []")
    case True
    with "1.prems" show ?thesis by (simp add: cookie_values.simps [of "[]"])
  next
    case False
    obtain part rest where cut: "cut_where (\<lambda>c. c = CHR '';'') h = (part, rest)"
      by (cases "cut_where (\<lambda>c. c = CHR '';'') h")
    note inf = cut_where_infix [OF cut]
    have "v = unquote (after_eq (trim_ws part)) \<or> v \<in> set (cookie_values rest)"
      using "1.prems" False cut
      by (auto simp: cookie_values.simps [of h] Let_def split: if_splits)
    then show ?thesis
    proof
      assume v: "v = unquote (after_eq (trim_ws part))"
      obtain b where b: "h = part @ b" using inf by blast
      obtain a1 b1 where 1: "part = a1 @ trim_ws part @ b1" using trim_infix by blast
      obtain a2 where 2: "trim_ws part = a2 @ after_eq (trim_ws part)" using after_eq_infix by blast
      obtain a3 b3 where 3: "after_eq (trim_ws part) = a3 @ v @ b3" using unquote_infix v by blast
      have "h = (a1 @ a2 @ a3) @ v @ (b3 @ b1 @ b)" using b 1 2 3 by (metis append.assoc)
      then show ?thesis by blast
    next
      assume "v \<in> set (cookie_values rest)"
      moreover have "\<exists>a. h = a @ rest" using inf by blast
      ultimately show ?thesis using "1.IH" False cut by (metis append.assoc)
    qed
  qed
qed

definition filtered_targets :: "string list" where
  "filtered_targets = [''PATH'', ''QUERY'', ''METHOD'', ''UA'', ''HEADERS'', ''COOKIES'']"

text \<open>A value of these targets occurs in the text that the filter searches.\<close>

lemma target_in_payload:
  assumes "t \<in> set filtered_targets" and "v \<in> set (target_values r t)"
    and "str_contains (to_lower v) kw" and "kw \<noteq> []"
  shows "str_contains (full_payload r) kw"
proof -
  have "\<exists>a b. full_payload r = a @ to_lower v @ b"
  proof (cases "t = ''UA''")
    case True
    then have v: "v = user_agent r" using assms(2) by (simp add: target_values_def)
    show ?thesis
    proof (cases "map_of (r_header r) ''User-Agent''")
      case None
      then have "v = []" using v by (simp add: user_agent_def hdr_get_def)
      then show ?thesis using assms(3,4) by (simp add: to_lower_def)
    next
      case (Some vs)
      show ?thesis
      proof (cases vs)
        case Nil
        then have "v = []" using v Some by (simp add: user_agent_def hdr_get_def)
        then show ?thesis using assms(3,4) by (simp add: to_lower_def)
      next
        case (Cons w ws)
        have "v \<in> set (header_values r)"
          using map_of_SomeD [OF Some] Cons v Some
          by (force simp: header_values_def user_agent_def hdr_get_def)
        then show ?thesis by (rule payload_parts(5))
      qed
    qed
  next
    case False
    then consider "t = ''PATH''" | "t = ''QUERY''" | "t = ''METHOD''" | "t = ''HEADERS''" | "t = ''COOKIES''"
      using assms(1) unfolding filtered_targets_def list.set insert_iff empty_iff by blast
    then show ?thesis
    proof cases
      case 5
      then have "v \<in> set (cookie_values (hdr_get r ''Cookie''))" using assms(2) by (simp add: target_values_def)
      then obtain a b where "hdr_get r ''Cookie'' = a @ v @ b" using cookie_values_infix by blast
      moreover obtain c d where "full_payload r = c @ to_lower (hdr_get r ''Cookie'') @ d"
        using payload_parts(4) by blast
      ultimately have "full_payload r = (c @ to_lower a) @ to_lower v @ (to_lower b @ d)" by simp
      then show ?thesis by blast
    qed (use assms(2) payload_parts in \<open>simp_all add: target_values_def\<close>)
  qed
  then show ?thesis using assms(3) infix_trans_contains by blast
qed

lemma match_targets_Some:
  "match_targets rule r ts = Some (x, t) \<Longrightarrow>
     t \<in> set ts \<and> (\<exists>v \<in> set (target_values r t). matchOperator rule v)"
  by (induction ts) (auto split: option.splits simp: find_Some_iff)

subsection \<open>Raising the level\<close>

lemma inspect_rule_level:
  assumes "ref < length (en_heap e)" and "\<forall>r \<in> set (en_heap e). ru_Paranoia r \<le> p" and "p \<le> q"
  shows "inspect_rule q pl r ref (e, res) = inspect_rule p pl r ref (e, res)"
proof -
  have "ru_Paranoia (en_heap e ! ref) \<le> p" using assms(1,2) by simp
  then have "applicable q pl (en_heap e ! ref) = applicable p pl (en_heap e ! ref)"
    using assms(3) by (auto simp: applicable_def)
  then show ?thesis by (simp add: inspect_rule_def)
qed

lemma inspect_rule_keeps:
  assumes "\<forall>r \<in> set (en_heap e). ru_Paranoia r \<le> p" and "ref < length (en_heap e)"
    and "inspect_rule q pl r ref (e, res) = (e', res')"
  shows "(\<forall>r \<in> set (en_heap e'). ru_Paranoia r \<le> p) \<and> length (en_heap e') = length (en_heap e)"
proof -
  let ?rule = "en_heap e ! ref"
  have "e' = e \<or> (\<exists>s. e' = e\<lparr>en_heap := (en_heap e)[ref := ?rule\<lparr>ru_Hits := ru_Hits ?rule + 1\<rparr>], en_stats := s\<rparr>)"
    using assms(3) by (auto simp: inspect_rule_def Let_def split: if_splits option.splits)
  then show ?thesis
    using assms(1,2) set_update_subset_insert [of "en_heap e" ref "?rule\<lparr>ru_Hits := ru_Hits ?rule + 1\<rparr>"]
    by fastforce
qed

lemma inspect_fold_level:
  assumes "\<forall>ref \<in> set refs. ref < length (en_heap e)" and "\<forall>r \<in> set (en_heap e). ru_Paranoia r \<le> p"
    and "p \<le> q"
  shows "fold (inspect_rule q pl r) refs (e, res) = fold (inspect_rule p pl r) refs (e, res)"
  using assms(1,2)
proof (induction refs arbitrary: e res)
  case Nil
  then show ?case by simp
next
  case (Cons ref refs)
  obtain e' res' where s: "inspect_rule p pl r ref (e, res) = (e', res')" by (metis prod.exhaust)
  have same: "inspect_rule q pl r ref (e, res) = (e', res')"
    using inspect_rule_level [OF _ Cons.prems(2) assms(3)] Cons.prems(1) s by simp
  have "(\<forall>r \<in> set (en_heap e'). ru_Paranoia r \<le> p) \<and> length (en_heap e') = length (en_heap e)"
    using Cons.prems(1) by (intro inspect_rule_keeps [OF Cons.prems(2) _ s]) simp
  then show ?case using Cons.IH [of e' res'] Cons.prems(1) s same by simp
qed

lemma fold_inspect_cfg:
  "fold (inspect_rule q pl r) refs (e\<lparr>en_cfg := c\<rparr>, res) =
     (let (e', res') = fold (inspect_rule q pl r) refs (e, res) in (e'\<lparr>en_cfg := c\<rparr>, res'))"
proof (induction refs arbitrary: e res)
  case Nil
  then show ?case by simp
next
  case (Cons ref refs)
  obtain e' res' where s: "inspect_rule q pl r ref (e, res) = (e', res')" by (metis prod.exhaust)
  then have "inspect_rule q pl r ref (e\<lparr>en_cfg := c\<rparr>, res) = (e'\<lparr>en_cfg := c\<rparr>, res')"
    by (auto simp: inspect_rule_def Let_def split: if_splits option.splits)
  with s Cons show ?case by simp
qed

subsection \<open>Properties\<close>

text \<open>
  C5: What an inspection decides. Outside the static bypass, an enabled engine blocks a request exactly
  when some listed rule fires and blocks; it reports as matches the firing rules in list order,
  as score the sum of their severities, and as top rule the last firing rule that blocks. Firing
  means enabled, within the paranoia level, past the keyword filter and matching a target.
\<close>

theorem waf_inspection_decision:
  assumes "engine_ok e" and "waf_Enabled (en_cfg e)" and "\<not> staticBypass (r_path r)"
  defines "fired \<equiv> filter (\<lambda>ref. fires (waf_ParanoiaLevel (en_cfg e)) r (en_heap e ! ref)) (en_rules e)"
  shows "let res = fst (Inspect r e) in
     ir_Blocked res = (\<exists>ref \<in> set fired. blocking (en_heap e ! ref)) \<and>
     map mr_Rule (ir_Matches res) = fired \<and>
     ir_Score res = (\<Sum>ref \<leftarrow> fired. severityScore (ru_Severity (en_heap e ! ref))) \<and>
     ir_TopRule res = (case rev (filter (\<lambda>ref. blocking (en_heap e ! ref)) fired) of
        [] \<Rightarrow> [] | ref # _ \<Rightarrow> ru_ID (en_heap e ! ref))"
proof -
  let ?e1 = "e\<lparr>en_stats := (en_stats e)\<lparr>es_TotalInspected := es_TotalInspected (en_stats e) + 1\<rparr>\<rparr>"
  obtain e2 res where f: "fold (inspect_rule (waf_ParanoiaLevel (en_cfg e)) (full_payload r) r)
      (en_rules e) (?e1, clean_result) = (e2, res)"
    by (metis prod.exhaust)
  have "fst (Inspect r e) = res"
    using assms(2,3) f by (simp add: Inspect_def Let_def)
  moreover have top: "ir_TopRule clean_result = []" by (simp add: clean_result_def)
  ultimately show ?thesis
    using inspect_pass [OF _ _ f, of "en_heap e", unfolded top] assms(1)
    by (simp add: engine_ok_def firing_def fired_def clean_result_def Let_def)
qed

definition demo_cfg :: WAFConfig where
  "demo_cfg = \<lparr>waf_Enabled = True, waf_OWASPRules = True, waf_CustomRulesPath = [], waf_ParanoiaLevel = 1\<rparr>"

definition demo_rule :: "string \<Rightarrow> string \<Rightarrow> string \<Rightarrow> Rule" where
  "demo_rule oper target pat =
     the (prepare_rule ((CreateQuickRule ''r1'' pat target ''custom'')\<lparr>ru_Operator := oper\<rparr>))"

definition empty_engine :: Engine where
  "empty_engine = \<lparr>en_cfg = demo_cfg, en_heap = [], en_rules = [], en_index = [],
     en_stats = \<lparr>es_TotalInspected = 0, es_TotalBlocked = 0, es_TotalMatched = 0\<rparr>\<rparr>"

lemma empty_engine_unique: "engine_unique empty_engine"
  by (simp add: engine_unique_def engine_ok_def empty_engine_def)

lemma demo_fires: "fires 1 (blank_request\<lparr>r_path := ''/a/evil''\<rparr>) (demo_rule ''contains'' ''PATH'' ''evil'')"
  by code_simp

theorem waf_inspection_decision_witness:
  "ir_Blocked (fst (Inspect (blank_request\<lparr>r_path := ''/a/evil''\<rparr>)
     (link_rule (demo_rule ''contains'' ''PATH'' ''evil'') empty_engine)))"
proof -
  let ?e = "link_rule (demo_rule ''contains'' ''PATH'' ''evil'') empty_engine"
  have "engine_ok ?e"
    using engine_ok_link empty_engine_unique by (simp add: engine_unique_def)
  moreover have "waf_Enabled (en_cfg ?e)" "\<not> staticBypass ''/a/evil''"
    by (simp add: link_rule_def empty_engine_def demo_cfg_def, code_simp)
  moreover have "blocking (demo_rule ''contains'' ''PATH'' ''evil'')" by code_simp
  ultimately show ?thesis
    using waf_inspection_decision [of ?e "blank_request\<lparr>r_path := ''/a/evil''\<rparr>"] demo_fires
    by (simp add: Let_def link_rule_def empty_engine_def demo_cfg_def)
qed

text \<open>
  C21: The keyword filter is an optimisation on the targets whose text it searches: a
  regular-expression rule on path, query, method, user agent, headers and cookies fires exactly when it is
  enabled, within the level and matches, as it would without the filter on the whole request.
\<close>

theorem keyword_filter_redundant:
  assumes "ru_Operator rule = ''rx''" and "set (ru_Targets rule) \<subseteq> set filtered_targets"
  shows "fires level r rule = (ru_Enabled rule \<and> ru_Paranoia rule \<le> level \<and> matchRule rule r \<noteq> None)"
proof -
  have "str_contains (full_payload r) (ru_RequiredKeyword rule)"
    if m: "matchRule rule r \<noteq> None" and kw: "ru_RequiredKeyword rule \<noteq> []"
  proof -
    obtain x t where "match_targets rule r (ru_Targets rule) = Some (x, t)"
      using m by (auto simp: matchRule_def)
    then obtain v where v: "t \<in> set (ru_Targets rule)" "v \<in> set (target_values r t)" "matchOperator rule v"
      using match_targets_Some by blast
    then have "str_contains (to_lower v) (ru_RequiredKeyword rule)"
      using assms(1) kw by (auto simp: matchOperator_def Let_def split: option.splits if_splits)
    then show ?thesis using target_in_payload [OF _ v(2)] assms(2) v(1) kw by blast
  qed
  then show ?thesis by (auto simp: fires_def applicable_def)
qed

theorem keyword_filter_redundant_witness:
  "fires 1 (blank_request\<lparr>r_path := ''/evil_Token''\<rparr>) (demo_rule ''rx'' ''PATH'' ''evil_token'')"
proof -
  let ?r = "blank_request\<lparr>r_path := ''/evil_Token''\<rparr>" and ?rule = "demo_rule ''rx'' ''PATH'' ''evil_token''"
  have "ru_Operator ?rule = ''rx''" "ru_Targets ?rule = [''PATH'']" "matchRule ?rule ?r \<noteq> None"
    "ru_Enabled ?rule" "ru_Paranoia ?rule \<le> 1"
    by code_simp+
  then show ?thesis using keyword_filter_redundant [of ?rule 1 ?r] by (simp add: filtered_targets_def)
qed

text \<open>
  Where the filter is wrong. Added through \<open>AddRule\<close>, (i) an argument rule misses an
  argument that spells one byte of its keyword in percent encoding, although the rule matches the decoded argument;
  (ii) a negated rule never fires on a request that lacks its keyword, although those are the requests
  it is meant for; (iii) a pattern that starts with an escape such as a word boundary gets a keyword
  that no match contains.
\<close>

theorem keyword_filter_gaps:
  "matchRule (demo_rule ''rx'' ''ARGS'' ''evil_token'') (blank_request\<lparr>r_rawquery := ''q=evil%5ftoken''\<rparr>) \<noteq> None \<and>
   \<not> fires 4 (blank_request\<lparr>r_rawquery := ''q=evil%5ftoken''\<rparr>) (demo_rule ''rx'' ''ARGS'' ''evil_token'') \<and>
   matchRule (demo_rule ''!rx'' ''UA'' ''mozilla'') (blank_request\<lparr>r_header := [(''User-Agent'', [''curl''])]\<rparr>) \<noteq> None \<and>
   \<not> fires 4 (blank_request\<lparr>r_header := [(''User-Agent'', [''curl''])]\<rparr>) (demo_rule ''!rx'' ''UA'' ''mozilla'') \<and>
   map_option (\<lambda>x. MatchString x ''select 1'') (rx_compile (raw_pat ''~bselect'')) = Some True \<and>
   \<not> matchOperator (demo_rule ''rx'' ''QUERY'' (raw_pat ''~bselect'')) ''select 1''"
  by (intro conjI; code_simp)

text \<open>
  Removing a rule. While identifiers are unique, \<open>RemoveRule\<close> removes exactly the rule with the identifier,
  from the inspected list and from the index, and reports whether there was one; it
  keeps identifiers unique.
\<close>

theorem remove_rule_complete:
  assumes "engine_unique e"
  shows "engine_unique (snd (RemoveRule i e)) \<and>
    set (GetRules (snd (RemoveRule i e))) = {rule \<in> set (GetRules e). ru_ID rule \<noteq> i} \<and>
    GetRule i (snd (RemoveRule i e)) = None \<and>
    fst (RemoveRule i e) = (\<exists>rule \<in> set (GetRules e). ru_ID rule = i)"
proof (intro conjI)
  show "engine_unique (snd (RemoveRule i e))" by (rule engine_unique_remove(1) [OF assms])
  have "en_heap (snd (RemoveRule i e)) = en_heap e" by (simp add: RemoveRule_def Let_def)
  then show "set (GetRules (snd (RemoveRule i e))) = {rule \<in> set (GetRules e). ru_ID rule \<noteq> i}"
    using engine_unique_remove(2) [OF assms] by (auto simp: GetRules_def)
  show "GetRule i (snd (RemoveRule i e)) = None"
    by (simp add: GetRule_def RemoveRule_def Let_def gomap_simps)
  show "fst (RemoveRule i e) = (\<exists>rule \<in> set (GetRules e). ru_ID rule = i)"
    by (auto simp: RemoveRule_def GetRules_def list_ex_iff Let_def)
qed

theorem remove_rule_complete_witness:
  "GetRule ''r1'' (snd (RemoveRule ''r1'' (link_rule (CreateQuickRule ''r1'' ''x'' ''URL'' ''c'') empty_engine))) = None"
proof -
  have "engine_unique (link_rule (CreateQuickRule ''r1'' ''x'' ''URL'' ''c'') empty_engine)"
    by (rule engine_unique_link [OF empty_engine_unique]) (simp add: empty_engine_def)
  then show ?thesis using remove_rule_complete by blast
qed

text \<open>
  Adding a second rule under the identifier of an inspected one and then removing the
  identifier leaves the second rule inspected for ever: it is listed, no lookup finds it, and
  disabling the identifier reports failure and changes nothing.
\<close>

theorem duplicate_rule_cannot_be_disabled:
  assumes "engine_unique e" and "map_of (en_index e) (ru_ID r1) = None" and "ru_ID r2 = ru_ID r1"
  defines "e' \<equiv> snd (RemoveRule (ru_ID r1) (link_rule r2 (link_rule r1 e)))"
  shows "r2 \<in> set (GetRules e') \<and> GetRule (ru_ID r1) e' = None \<and> DisableRule (ru_ID r1) e' = (False, e')"
proof -
  let ?n = "length (en_heap e)"
  have lt: "\<forall>ref \<in> set (en_rules e). ref < ?n" using assms(1) by (simp add: engine_unique_def engine_ok_def)
  have none: "\<forall>ref \<in> set (en_rules e). ru_ID (en_heap e ! ref) \<noteq> ru_ID r1"
    using assms(1,2) by (fastforce simp: engine_unique_def)
  have rm: "remove_first P (xs @ [a, b]) = xs @ [b]" if "\<forall>x \<in> set xs. \<not> P x" "P a"
    for P :: "nat \<Rightarrow> bool" and xs a b
    using that by (induction xs) auto
  have "en_rules e' = en_rules e @ [Suc ?n]"
    unfolding e'_def RemoveRule_def link_rule_def Let_def
    using lt none by (simp, intro rm) (auto simp: nth_append)
  moreover have "en_heap e' = en_heap e @ [r1, r2]"
    by (simp add: e'_def RemoveRule_def link_rule_def Let_def)
  ultimately have "r2 \<in> set (GetRules e')" by (simp add: GetRules_def nth_append)
  moreover have "map_of (en_index e') (ru_ID r1) = None"
    by (simp add: e'_def RemoveRule_def link_rule_def Let_def gomap_simps)
  ultimately show ?thesis by (simp add: GetRule_def DisableRule_def set_enabled_def)
qed

theorem duplicate_rule_cannot_be_disabled_witness:
  "GetRule ''r1'' (snd (RemoveRule ''r1'' (link_rule (CreateQuickRule ''r1'' ''y'' ''URL'' ''c'')
     (link_rule (CreateQuickRule ''r1'' ''x'' ''URL'' ''c'') empty_engine)))) = None"
  using duplicate_rule_cannot_be_disabled [of empty_engine "CreateQuickRule ''r1'' ''x'' ''URL'' ''c''"
      "CreateQuickRule ''r1'' ''y'' ''URL'' ''c''"] empty_engine_unique
  by (simp add: CreateQuickRule_def empty_engine_def)

text \<open>
  Raising the paranoia level of a running engine has no effect. The engine only
  ever loaded the built-in rules of its first level, so every request gets the same result at
  every higher level.
\<close>

theorem paranoia_raise_ineffective:
  assumes "waf_ParanoiaLevel cfg \<le> level" and "waf_ParanoiaLevel cfg \<le> 4"
  shows "fst (Inspect r (SetParanoiaLevel level (NewEngine cfg))) = fst (Inspect r (NewEngine cfg))"
proof -
  let ?e = "NewEngine cfg" and ?p = "waf_ParanoiaLevel cfg"
  obtain q where q: "?p \<le> q" and set: "SetParanoiaLevel level ?e = ?e\<lparr>en_cfg := cfg\<lparr>waf_ParanoiaLevel := q\<rparr>\<rparr>"
  proof
    let ?q = "if 4 < (if level < 1 then 1 else level) then 4 else if level < 1 then 1 else level"
    show "?p \<le> ?q" using assms by auto
    show "SetParanoiaLevel level ?e = ?e\<lparr>en_cfg := cfg\<lparr>waf_ParanoiaLevel := ?q\<rparr>\<rparr>"
      by (simp add: SetParanoiaLevel_def Let_def NewEngine_props(2))
  qed
  let ?c = "cfg\<lparr>waf_ParanoiaLevel := q\<rparr>"
  let ?e1 = "?e\<lparr>en_stats := (en_stats ?e)\<lparr>es_TotalInspected := es_TotalInspected (en_stats ?e) + 1\<rparr>\<rparr>"
  have refs: "\<forall>ref \<in> set (en_rules ?e). ref < length (en_heap ?e1)"
    using NewEngine_props(1) [of cfg] by (simp add: engine_ok_def)
  have par: "\<forall>r \<in> set (en_heap ?e1). ru_Paranoia r \<le> ?p" using NewEngine_props(3) by simp
  obtain e' res where f: "fold (inspect_rule ?p (full_payload r) r) (en_rules ?e) (?e1, clean_result) = (e', res)"
    by (metis prod.exhaust)
  let ?S = "(en_stats ?e)\<lparr>es_TotalInspected := es_TotalInspected (en_stats ?e) + 1\<rparr>"
  have swap: "?e\<lparr>en_cfg := ?c, en_stats := ?S\<rparr> = ?e1\<lparr>en_cfg := ?c\<rparr>" by simp
  have g: "fold (inspect_rule q (full_payload r) r) (en_rules ?e) (?e\<lparr>en_cfg := ?c, en_stats := ?S\<rparr>, clean_result) =
      (e'\<lparr>en_cfg := ?c\<rparr>, res)"
    unfolding swap fold_inspect_cfg inspect_fold_level [OF refs par q] f by simp
  show ?thesis
    using f g by (simp add: set Inspect_def NewEngine_props(2) Let_def)
qed

theorem paranoia_raise_ineffective_witness:
  "fst (Inspect (blank_request\<lparr>r_path := ''/x''\<rparr>) (SetParanoiaLevel 4 (NewEngine demo_cfg))) =
   fst (Inspect (blank_request\<lparr>r_path := ''/x''\<rparr>) (NewEngine demo_cfg))"
  by (rule paranoia_raise_ineffective) (simp_all add: demo_cfg_def)

text \<open>
  No request whose path ends in \<open>.js\<close> (or another static suffix) is ever blocked or scored by the engine,
  whatever its query, headers and cookies hold.
\<close>

theorem static_suffix_bypasses_waf:
  assumes "suf \<in> {''.png'', ''.jpg'', ''.css'', ''.js'', ''.woff2'', ''.svg''}"
  shows "fst (Inspect (r\<lparr>r_path := p @ suf\<rparr>) e) = clean_result"
proof -
  have "has_suffix (p @ suf) suf" by (simp add: has_suffix_iff suffix_def)
  then have "staticBypass (p @ suf)"
    using assms unfolding staticBypass_def list.set by blast
  then show ?thesis by (simp add: Inspect_def Let_def)
qed

theorem static_suffix_bypasses_waf_witness:
  "fst (Inspect (blank_request\<lparr>r_rawquery := ''q=1 or 1=1'', r_path := ''/app.php/x'' @ ''.js''\<rparr>) empty_engine) = clean_result"
  by (rule static_suffix_bypasses_waf) simp

end
