(* ===== verification/Float_Math.thy ===== *)
theory Float_Math
  imports Float64
begin

section \<open>The rest of the \<open>float64\<close> operations the code uses\<close>

text \<open>
  \<open>math.Sqrt\<close> (correctly rounded), \<open>math.Log2\<close> (the algorithm of the Go library, on positive
  arguments), sums over slices, and quotients whose divisor may be zero: these give an infinity or a
  NaN, kept as values of their own type because the code compares them. Lemmas: square roots are
  non-negative, the comparison of quotients is monotone in the dividend.
\<close>

subsection \<open>Square roots\<close>

function isqrt :: "int \<Rightarrow> int" where
  "isqrt n = (if n \<le> 0 then 0
     else let r = 2 * isqrt (n div 4) in if (r + 1) ^ 2 \<le> n then r + 1 else r)"
  by pat_completeness auto
termination by (relation "measure nat") auto

declare isqrt.simps [simp del]

lemma isqrt_correct: "0 \<le> n \<Longrightarrow> 0 \<le> isqrt n \<and> (isqrt n) ^ 2 \<le> n \<and> n < (isqrt n + 1) ^ 2"
proof (induction n rule: isqrt.induct)
  case (1 n)
  show ?case
  proof (cases "n \<le> 0")
    case True
    with "1.prems" show ?thesis by (simp add: isqrt.simps [of 0])
  next
    case False
    let ?r = "isqrt (n div 4)"
    have IH: "0 \<le> ?r" "?r ^ 2 \<le> n div 4" "n div 4 < (?r + 1) ^ 2" using "1.IH" [OF False] False by auto
    have "4 * ?r ^ 2 \<le> n" using IH(2) by linarith
    then have lo: "(2 * ?r) ^ 2 \<le> n" by (simp add: power_mult_distrib)
    have "n < 4 * (?r + 1) ^ 2" using IH(3) by linarith
    then have hi: "n < (2 * ?r + 2) ^ 2" by (simp add: power2_eq_square algebra_simps)
    show ?thesis using lo hi False IH(1) by (simp add: isqrt.simps [of n] Let_def add.commute)
  qed
qed

text \<open>
  The root is scaled so that its integer part has 53 bits; the rounding of the rest is to the nearest
  integer, ties to even.
\<close>

definition fsqrt :: "rat \<Rightarrow> f64" where
  "fsqrt x = (if x \<le> 0 then 0
     else let k = 52 - expo x div 2; y = x * 2 powi (2 * k); r = isqrt \<lfloor>y\<rfloor>;
              h = (of_int r + 1 / 2) ^ 2;
              r' = (if y < h then r else if h < y then r + 1 else if even r then r else r + 1)
          in of_int r' * 2 powi (- k))"

lemma fsqrt_nonneg [simp]: "0 \<le> fsqrt x"
proof (cases "x \<le> 0")
  case True
  then show ?thesis by (simp add: fsqrt_def)
next
  case False
  then have "0 \<le> \<lfloor>x * 2 powi (2 * (52 - expo x div 2))\<rfloor>" by simp
  then show ?thesis using isqrt_correct False by (simp add: fsqrt_def Let_def)
qed

lemma fsqrt_0 [simp]: "fsqrt 0 = 0"
  by (simp add: fsqrt_def)

text \<open>Halving is exact.\<close>

lemma expo_half: "0 < x \<Longrightarrow> expo (x / 2) = expo x - 1"
  using expo_bounds [of x] by (intro expo_unique) (simp_all add: power_int_diff power_int_add field_simps)

lemma fl_half: "fl (x / 2) = fl x / 2"
proof (cases "x = 0")
  case True
  then show ?thesis by simp
next
  case False
  then have e: "expo \<bar>x / 2\<bar> = expo \<bar>x\<bar> - 1" using expo_half [of "\<bar>x\<bar>"] by (simp add: abs_divide)
  have up: "(2 :: rat) powi (52 - (expo \<bar>x\<bar> - 1)) = 2 * 2 powi (52 - expo \<bar>x\<bar>)"
    using power_int_add [of "2 :: rat" 1 "52 - expo \<bar>x\<bar>"] by (simp add: algebra_simps)
  have down: "(2 :: rat) powi (expo \<bar>x\<bar> - 1 - 52) = 2 powi (expo \<bar>x\<bar> - 52) / 2"
    using power_int_diff [of "2 :: rat" "expo \<bar>x\<bar> - 52" 1] by (simp add: algebra_simps)
  show ?thesis using False unfolding fl_def e up down by simp
qed

subsection \<open>Sums\<close>

definition fsum :: "f64 list \<Rightarrow> f64" where
  "fsum xs = foldl fadd 0 xs"

lemma foldl_fadd_nonneg: "0 \<le> a \<Longrightarrow> \<forall>x \<in> set xs. 0 \<le> x \<Longrightarrow> 0 \<le> foldl fadd a xs"
  by (induction xs arbitrary: a) (auto simp: fadd_nonneg)

lemma fsum_nonneg: "\<forall>x \<in> set xs. 0 \<le> x \<Longrightarrow> 0 \<le> fsum xs"
  unfolding fsum_def by (rule foldl_fadd_nonneg) simp_all

lemma foldl_fadd_replicate:
  assumes "(int m + int n) * v \<le> 2 ^ 53" and "0 \<le> v"
  shows "foldl fadd (of_int (int m * v)) (replicate n (of_int v)) = of_int ((int m + int n) * v)"
  using assms
proof (induction n arbitrary: m)
  case 0
  then show ?case by simp
next
  case (Suc n)
  have le: "int (Suc m) * v \<le> 2 ^ 53"
    using Suc.prems mult_right_mono [of "int (Suc m)" "int m + int (Suc n)" v] by simp
  have "fadd (of_int (int m * v)) (of_int v) = fl (of_int (int (Suc m) * v))"
    by (simp add: fadd_def algebra_simps)
  also have "\<dots> = of_int (int (Suc m) * v)"
    using le Suc.prems(2) by (intro fl_of_int) auto
  finally show ?case using Suc.IH [of "Suc m"] Suc.prems by (simp add: algebra_simps)
qed

lemma fsum_replicate:
  assumes "int n * v \<le> 2 ^ 53" and "0 \<le> v"
  shows "fsum (replicate n (of_int v)) = of_int (int n * v)"
  using foldl_fadd_replicate [of 0 n v] assms by (simp add: fsum_def)

subsection \<open>Quotients with infinities\<close>

datatype xf64 = Fin f64 | PInf | NInf | NaN

definition xdiv :: "f64 \<Rightarrow> f64 \<Rightarrow> xf64" where
  "xdiv x y = (if y \<noteq> 0 then Fin (fdiv x y) else if 0 < x then PInf else if x < 0 then NInf else NaN)"

text \<open>\<open>>\<close> and \<open><\<close> are false when one side is NaN.\<close>

fun xless :: "xf64 \<Rightarrow> xf64 \<Rightarrow> bool" where
  "xless (Fin x) (Fin y) = (x < y)"
| "xless (Fin x) PInf = True"
| "xless NInf (Fin x) = True"
| "xless NInf PInf = True"
| "xless _ _ = False"

lemma fdiv_mono: "0 < y \<Longrightarrow> x \<le> x' \<Longrightarrow> fdiv x y \<le> fdiv x' y"
  by (simp add: fdiv_def fl_mono divide_right_mono)

lemma fdiv_antimono: "0 \<le> x \<Longrightarrow> 0 < y \<Longrightarrow> y \<le> y' \<Longrightarrow> fdiv x y' \<le> fdiv x y"
  by (simp add: fdiv_def fl_mono divide_left_mono)

lemma xdiv_mono:
  assumes "0 \<le> y" and "x \<le> x'" and "xless t (xdiv x y)"
  shows "xless t (xdiv x' y)"
proof (cases "y = 0")
  case True
  then show ?thesis using assms by (cases t) (auto simp: xdiv_def split: if_splits)
next
  case False
  then show ?thesis using assms fdiv_mono [of y x x'] by (cases t) (auto simp: xdiv_def)
qed

subsection \<open>Logarithms\<close>

text \<open>
  \<open>math.Log\<close> on \<open>1/2 \<le> x < 1\<close> (all that \<open>math.Log2\<close> needs): the polynomial of the library, whose
  coefficients are the \<open>float64\<close> values with the given bits (sign and exponent dropped: a mantissa and
  the power of two it is scaled by).
\<close>

definition mant :: "int \<Rightarrow> int \<Rightarrow> f64" where
  "mant m e = of_int m * 2 powi e"

definition log_L :: "nat \<Rightarrow> f64" where
  "log_L i = [0, mant 0x15555555555593 (-53), mant 0x1999999997FA04 (-54), mant 0x12492494229359 (-54),
     mant 0x1C71C51D8E78AF (-55), mant 0x17466496CB03DE (-55), mant 0x139A09D078C69F (-55),
     mant 0x12F112DF3E5244 (-55)] ! i"

definition ln2_hi :: f64 where "ln2_hi = mant 0x162E42FEE00000 (-53)"
definition ln2_lo :: f64 where "ln2_lo = mant 0x1A39EF35793C76 (-85)"
definition inv_ln2 :: f64 where "inv_ln2 = mant 0x171547652B82FE (-52)"
definition half_sqrt2 :: f64 where "half_sqrt2 = mant 0x16A09E667F3BCD (-53)"

definition flog_frac :: "f64 \<Rightarrow> f64" where
  "flog_frac x =
     (let (f1, k) = (if x < half_sqrt2 then (fmul x 2, -1) else (x, 0));
          f = fsub f1 1; s = fdiv f (fadd 2 f); s2 = fmul s s; s4 = fmul s2 s2;
          t1 = fmul s2 (fadd (log_L 1) (fmul s4 (fadd (log_L 3) (fmul s4 (fadd (log_L 5) (fmul s4 (log_L 7)))))));
          t2 = fmul s4 (fadd (log_L 2) (fmul s4 (fadd (log_L 4) (fmul s4 (log_L 6)))));
          R = fadd t1 t2; hfsq = fmul (fmul (1 / 2) f) f
      in fsub (fmul k ln2_hi) (fsub (fsub hfsq (fadd (fmul s (fadd hfsq R)) (fmul k ln2_lo))) f))"

definition flog2 :: "f64 \<Rightarrow> f64" where
  "flog2 x =
     (let e = expo x + 1; frac = x * 2 powi (- e)
      in if frac = 1 / 2 then of_int (e - 1)
         else fadd (fmul (flog_frac frac) inv_ln2) (of_int e))"

lemma expo_powi [simp]: "expo (2 powi e) = e"
  by (rule expo_unique) (simp_all add: power_int_add)

lemma flog2_powi: "flog2 (2 powi e) = of_int e"
proof -
  have "(2 :: rat) powi e * 2 powi (- (e + 1)) = 1 / 2"
    by (simp add: power_int_add [symmetric] power_int_minus)
  then show ?thesis by (simp add: flog2_def Let_def)
qed

lemma flog2_1 [simp]: "flog2 1 = 0"
  using flog2_powi [of 0] by simp

end
