(* ===== verification/Detection.thy ===== *)
theory Detection
  imports Kv_Store Config_Types Float_Math Meter
begin

section \<open>The detection engine (detection/detection.go)\<close>

text \<open>
  The traffic baseline, the anomaly test against it, the adaptive rate limiter with its penalty box,
  and the session tracker. The \<open>sync.Map\<close>s are maps from addresses; the package variable
  \<open>currentGlobalRPS\<close> is the field \<open>de_globalRPS\<close>. Lemmas: bounds of the buckets and sessions,
  the admission bound as an interpretation of \<open>meter\<close> and \<open>keyed\<close>, and the values of the anomaly test.
\<close>

record Baseline =
  ba_avgRPS :: f64
  ba_stddevRPS :: f64
  ba_p95RPS :: f64
  ba_p99RPS :: f64
  ba_samples :: "f64 list"
  ba_maxSamples :: nat
  ba_learningUntil :: gotime
  ba_isLearning :: bool

record RateLimitBucket =
  rb_Tokens :: f64
  rb_MaxTokens :: f64
  rb_RefillRate :: f64
  rb_LastRefill :: gotime
  rb_PenaltyUntil :: gotime
  rb_Violations :: int

record Session =
  se_ID :: string
  se_IP :: string
  se_FirstSeen :: gotime
  se_LastSeen :: gotime
  se_Requests :: int
  se_UniqueURLs :: "(string, int) gomap"
  se_UserAgent :: string
  se_TrustScore :: f64
  se_Suspicious :: bool

record DetEngine =
  de_cfg :: Config
  de_baseline :: Baseline
  de_sensitivity :: f64
  de_counters :: "(string, RateLimitBucket) gomap"
  de_sessions :: "(string, Session) gomap"
  de_ttl :: duration
  de_globalRPS :: int

record AnomalyResult =
  an_IsAnomaly :: bool
  an_Score :: xf64
  an_Reason :: string
  an_Severity :: string

definition de_NewEngine :: "Config \<Rightarrow> gotime \<Rightarrow> DetEngine" where
  "de_NewEngine cfg now =
     \<lparr>de_cfg = cfg,
      de_baseline = \<lparr>ba_avgRPS = 0, ba_stddevRPS = 0, ba_p95RPS = 0, ba_p99RPS = 0, ba_samples = [],
        ba_maxSamples = 3600, ba_learningUntil = now + bl_LearningPeriod (det_Baseline (cfg_Detection cfg)),
        ba_isLearning = bl_Enabled (det_Baseline (cfg_Detection cfg))\<rparr>,
      de_sensitivity = an_Sensitivity (det_Anomaly (cfg_Detection cfg)),
      de_counters = [], de_sessions = [],
      de_ttl = ses_TTL (det_SessionTracking (cfg_Detection cfg)),
      de_globalRPS = 0\<rparr>"

definition de_UpdateConfig :: "Config option \<Rightarrow> DetEngine \<Rightarrow> DetEngine" where
  "de_UpdateConfig new e = (case new of
       None \<Rightarrow> e
     | Some cfg \<Rightarrow> e\<lparr>de_cfg := cfg,
         de_sensitivity := an_Sensitivity (det_Anomaly (cfg_Detection cfg)),
         de_counters := [],
         de_ttl := ses_TTL (det_SessionTracking (cfg_Detection cfg))\<rparr>)"

definition SetGlobalRPS :: "int \<Rightarrow> DetEngine \<Rightarrow> DetEngine" where
  "SetGlobalRPS rps e = e\<lparr>de_globalRPS := rps\<rparr>"

subsection \<open>Baseline\<close>

definition mean :: "f64 list \<Rightarrow> f64" where
  "mean data = fdiv (fsum data) (f_of_int (int (length data)))"

definition stddev :: "f64 list \<Rightarrow> f64 \<Rightarrow> f64" where
  "stddev data avg =
     fsqrt (fdiv (fsum (map (\<lambda>v. let diff = fsub v avg in fmul diff diff) data)) (f_of_int (int (length data))))"

definition percentile :: "f64 list \<Rightarrow> f64 \<Rightarrow> f64" where
  "percentile data p =
     (if data = [] then 0
      else sort data ! nat (f_trunc (fmul (f_of_int (int (length data) - 1)) p)))"

definition p95 :: f64 where "p95 = fl (95 / 100)"
definition p99 :: f64 where "p99 = fl (99 / 100)"

definition baseline_stats :: "Baseline \<Rightarrow> Baseline" where
  "baseline_stats b =
     (if 60 \<le> length (ba_samples b)
      then let avg = mean (ba_samples b)
           in b\<lparr>ba_avgRPS := avg, ba_stddevRPS := stddev (ba_samples b) avg,
                ba_p95RPS := percentile (ba_samples b) p95, ba_p99RPS := percentile (ba_samples b) p99\<rparr>
      else b)"

definition RecordRPSSample :: "f64 \<Rightarrow> gotime \<Rightarrow> DetEngine \<Rightarrow> DetEngine" where
  "RecordRPSSample rps now e =
     (let b = de_baseline e;
          window = (if ba_maxSamples b \<le> length (ba_samples b) then tl (ba_samples b) else ba_samples b);
          b1 = baseline_stats (b\<lparr>ba_samples := window @ [rps]\<rparr>);
          b2 = (if ba_isLearning b1 \<and> ba_learningUntil b1 < now then b1\<lparr>ba_isLearning := False\<rparr> else b1)
      in e\<lparr>de_baseline := b2\<rparr>)"

definition classifySeverity :: "xf64 \<Rightarrow> string" where
  "classifySeverity zScore =
     (if xless (Fin 10) zScore then ''critical''
      else if xless (Fin 6) zScore then ''high''
      else if xless (Fin 4) zScore then ''medium'' else ''low'')"

definition anomaly_threshold :: "f64 \<Rightarrow> xf64" where
  "anomaly_threshold sensitivity = (if sensitivity = 0 then PInf else Fin (fmul 3 (fdiv 1 sensitivity)))"

definition DetectAnomaly :: "f64 \<Rightarrow> DetEngine \<Rightarrow> AnomalyResult" where
  "DetectAnomaly currentRPS e =
     (let b = de_baseline e in
      if ba_isLearning b \<or> ba_avgRPS b = 0
      then \<lparr>an_IsAnomaly = False, an_Score = Fin 0, an_Reason = ''learning'', an_Severity = []\<rparr>
      else
        let zScore = xdiv (fsub currentRPS (ba_avgRPS b)) (ba_stddevRPS b);
            result = (if xless (anomaly_threshold (de_sensitivity e)) zScore
                      then \<lparr>an_IsAnomaly = True, an_Score = zScore, an_Reason = ''rps_spike'',
                             an_Severity = classifySeverity zScore\<rparr>
                      else \<lparr>an_IsAnomaly = False, an_Score = Fin 0, an_Reason = [], an_Severity = []\<rparr>)
        in if fmul (ba_p99RPS b) (3 / 2) < currentRPS
           then result\<lparr>an_IsAnomaly := True, an_Score := xdiv currentRPS (ba_p99RPS b),
                        an_Reason := ''above_p99'', an_Severity := ''high''\<rparr>
           else result)"

subsection \<open>Rate limiting\<close>

definition new_rl_bucket :: "RateLimitConfig \<Rightarrow> gotime \<Rightarrow> RateLimitBucket" where
  "new_rl_bucket cfg now =
     \<lparr>rb_Tokens = f_of_int (rl_Burst cfg), rb_MaxTokens = f_of_int (rl_Burst cfg),
      rb_RefillRate = f_of_int (rl_RequestsPerSecond cfg), rb_LastRefill = now,
      rb_PenaltyUntil = zero_time, rb_Violations = 0\<rparr>"

definition rl_cfg :: "DetEngine \<Rightarrow> RateLimitConfig" where
  "rl_cfg e = pr_RateLimit (cfg_Protection (de_cfg e))"

definition lenient :: "DetEngine \<Rightarrow> bool" where
  "lenient e \<longleftrightarrow> rl_Adaptive (rl_cfg e) \<and> 0 < ba_avgRPS (de_baseline e) \<and>
     f_of_int (de_globalRPS e) < fmul (ba_avgRPS (de_baseline e)) (1 / 2)"

text \<open>A denied request inside the penalty box, and one that gets the address into it.\<close>

definition box_deny :: "gotime \<Rightarrow> RateLimitBucket \<Rightarrow> (int \<times> int) \<times> RateLimitBucket" where
  "box_deny now b =
     (let b1 = b\<lparr>rb_Violations := rb_Violations b + 1\<rparr>;
          remaining = max 1 \<lceil>seconds (time_sub (rb_PenaltyUntil b) now)\<rceil>
      in ((if 50 < rb_Violations b1 then 2 else 1, remaining), b1))"

definition breach :: "gotime \<Rightarrow> RateLimitBucket \<Rightarrow> (int \<times> int) \<times> RateLimitBucket" where
  "breach now b =
     (let b1 = b\<lparr>rb_PenaltyUntil := now + 10 * second, rb_Violations := rb_Violations b + 1\<rparr>
      in ((if 3 < rb_Violations b1 then 2 else 1, 10), b1))"

definition rl_tokens :: "bool \<Rightarrow> gotime \<Rightarrow> RateLimitBucket \<Rightarrow> f64" where
  "rl_tokens gentle now b =
     (let maxTokens = (if gentle then fadd (rb_MaxTokens b) 5 else rb_MaxTokens b);
          refillRate = (if gentle then fadd (rb_RefillRate b) 2 else rb_RefillRate b);
          tokens = fadd (rb_Tokens b) (fmul (seconds (time_sub now (rb_LastRefill b))) refillRate)
      in if maxTokens < tokens then maxTokens else tokens)"

definition check_bucket :: "bool \<Rightarrow> gotime \<Rightarrow> RateLimitBucket \<Rightarrow> (int \<times> int) \<times> RateLimitBucket" where
  "check_bucket gentle now b =
     (if now < rb_PenaltyUntil b then box_deny now b
      else let tokens = rl_tokens gentle now b; b1 = b\<lparr>rb_Tokens := tokens, rb_LastRefill := now\<rparr>
           in if 1 \<le> tokens then ((0, 0), b1\<lparr>rb_Tokens := fsub tokens 1\<rparr>) else breach now b1)"

definition CheckRateLimit :: "string \<Rightarrow> gotime \<Rightarrow> DetEngine \<Rightarrow> (int \<times> int) \<times> DetEngine" where
  "CheckRateLimit ip now e =
     (if \<not> rl_Enabled (rl_cfg e) then ((0, 0), e)
      else let bucket = (case map_of (de_counters e) ip of Some b \<Rightarrow> b | None \<Rightarrow> new_rl_bucket (rl_cfg e) now);
               (res, bucket') = check_bucket (lenient e) now bucket
           in (res, e\<lparr>de_counters := AList.update ip bucket' (de_counters e)\<rparr>))"

subsection \<open>Sessions\<close>

definition new_session :: "string \<Rightarrow> string \<Rightarrow> gotime \<Rightarrow> Session" where
  "new_session ip ua now =
     \<lparr>se_ID = ip, se_IP = ip, se_FirstSeen = now, se_LastSeen = zero_time, se_Requests = 0,
      se_UniqueURLs = [], se_UserAgent = ua, se_TrustScore = 50, se_Suspicious = False\<rparr>"

definition count_url :: "string \<Rightarrow> (string, int) gomap \<Rightarrow> (string, int) gomap" where
  "count_url url m = (case map_of m url of
       Some n \<Rightarrow> AList.update url (n + 1) m
     | None \<Rightarrow> if length m < 20 then AList.update url 1 m else m)"

definition analyzeBehavior :: "gotime \<Rightarrow> Session \<Rightarrow> Session" where
  "analyzeBehavior now s =
     (let elapsed = seconds (time_sub now (se_FirstSeen s));
          s1 = (if 0 < elapsed \<and> 30 < fdiv (f_of_int (se_Requests s)) elapsed
                then s\<lparr>se_Suspicious := True, se_TrustScore := fsub (se_TrustScore s) 20\<rparr> else s);
          s2 = (if 100 < se_Requests s1 \<and> length (se_UniqueURLs s1) < 3
                then s1\<lparr>se_Suspicious := True, se_TrustScore := fsub (se_TrustScore s1) 15\<rparr> else s1)
      in if se_TrustScore s2 < 0 then s2\<lparr>se_TrustScore := 0\<rparr> else s2)"

definition touch_session :: "string \<Rightarrow> gotime \<Rightarrow> Session \<Rightarrow> Session" where
  "touch_session url now s = s\<lparr>se_LastSeen := now, se_Requests := se_Requests s + 1,
     se_UniqueURLs := count_url url (se_UniqueURLs s)\<rparr>"

definition TrackSession :: "string \<Rightarrow> string \<Rightarrow> string \<Rightarrow> gotime \<Rightarrow> DetEngine \<Rightarrow> Session option \<times> DetEngine" where
  "TrackSession ip url ua now e =
     (if \<not> ses_Enabled (det_SessionTracking (cfg_Detection (de_cfg e))) then (None, e)
      else let session = (case map_of (de_sessions e) ip of
                  Some s \<Rightarrow> analyzeBehavior now (touch_session url now s)
                | None \<Rightarrow> touch_session url now (new_session ip ua now))
           in (Some session, e\<lparr>de_sessions := AList.update ip session (de_sessions e)\<rparr>))"

definition CleanupSessions :: "gotime \<Rightarrow> DetEngine \<Rightarrow> DetEngine" where
  "CleanupSessions now e =
     e\<lparr>de_sessions := filter (\<lambda>(ip, s). \<not> de_ttl e < time_sub now (se_LastSeen s)) (de_sessions e),
       de_counters := filter (\<lambda>(ip, b). \<not> 5 * minute < time_sub now (rb_LastRefill b)) (de_counters e)\<rparr>"

subsection \<open>Buckets\<close>

definition rb_ok :: "gotime \<Rightarrow> RateLimitBucket \<Rightarrow> bool" where
  "rb_ok now b \<longleftrightarrow> 0 \<le> rb_Tokens b \<and> 0 \<le> rb_MaxTokens b \<and> 0 \<le> rb_RefillRate b \<and> rb_LastRefill b \<le> now"

definition rl_step :: "bool \<Rightarrow> gotime \<Rightarrow> RateLimitBucket \<Rightarrow> bool \<times> RateLimitBucket" where
  "rl_step gentle now b = (fst (fst (check_bucket gentle now b)) = 0, snd (check_bucket gentle now b))"

definition rl_rate :: "bool \<Rightarrow> RateLimitBucket \<Rightarrow> rat" where
  "rl_rate gentle b = rb_RefillRate b + (if gentle then 2 else 0)"

definition rl_gain :: "bool \<Rightarrow> gotime \<Rightarrow> RateLimitBucket \<Rightarrow> rat" where
  "rl_gain gentle now b =
     (if now < rb_PenaltyUntil b then 0 else rl_rate gentle b * of_int (now - rb_LastRefill b) / 10 ^ 9)"

lemma rl_tokens_nonneg:
  assumes "rb_ok now b"
  shows "0 \<le> rl_tokens gentle now b"
proof -
  have d: "0 \<le> time_sub now (rb_LastRefill b)"
    using assms by (simp add: rb_ok_def time_sub_def max_int64_def min_int64_def)
  show ?thesis
    using assms d by (auto simp: rb_ok_def rl_tokens_def Let_def intro!: fadd_nonneg fmul_nonneg seconds_nonneg)
qed

lemma box_deny_frame:
  "rb_Tokens (snd (box_deny now b)) = rb_Tokens b" "rb_LastRefill (snd (box_deny now b)) = rb_LastRefill b"
  "rb_MaxTokens (snd (box_deny now b)) = rb_MaxTokens b" "rb_RefillRate (snd (box_deny now b)) = rb_RefillRate b"
  "rb_PenaltyUntil (snd (box_deny now b)) = rb_PenaltyUntil b" "fst (fst (box_deny now b)) \<noteq> 0"
  by (simp_all add: box_deny_def Let_def)

lemma check_bucket_rate [simp]:
  "rb_RefillRate (snd (check_bucket gentle now b)) = rb_RefillRate b"
  "rb_MaxTokens (snd (check_bucket gentle now b)) = rb_MaxTokens b"
  by (simp_all add: check_bucket_def box_deny_def breach_def Let_def)

lemma rl_step_ok:
  assumes "rb_ok now b" and "now \<le> now'"
  shows "rb_ok now' (snd (rl_step gentle now b))"
  using assms rl_tokens_nonneg [OF assms(1), of gentle]
  by (auto simp: rb_ok_def rl_step_def check_bucket_def box_deny_def breach_def Let_def fsub_nonneg)

lemma pull_factor: "e ^ 4 * (e * t + e * r * x / c) = e ^ 5 * (t + r * x / c)" for e t r x c :: rat
  by (simp add: algebra_simps power_numeral_reduce)

lemma rl_tokens_upper:
  assumes "rb_ok now b" and "\<not> now < rb_PenaltyUntil b"
  shows "rl_tokens gentle now b \<le> (1 + eps) ^ 5 * (rb_Tokens b + rl_gain gentle now b)"
proof -
  let ?d = "time_sub now (rb_LastRefill b)" and ?t = "rb_Tokens b"
  let ?r = "if gentle then fadd (rb_RefillRate b) 2 else rb_RefillRate b"
  have d: "0 \<le> ?d" "?d \<le> max_int64" "?d \<le> now - rb_LastRefill b"
    using assms by (auto simp: rb_ok_def time_sub_def max_int64_def min_int64_def)
  have t: "0 \<le> ?t" "0 \<le> rb_RefillRate b" using assms by (auto simp: rb_ok_def)
  have r0: "0 \<le> ?r" using t by (simp add: fadd_nonneg)
  have r: "?r \<le> (1 + eps) * rl_rate gentle b"
    using t fl_upper [of "rb_RefillRate b + 2"] mult_right_mono [of 1 "1 + eps" "rb_RefillRate b"]
    by (auto simp: rl_rate_def fadd_def)
  have rr: "0 \<le> rl_rate gentle b" using t by (simp add: rl_rate_def)
  have "rl_tokens gentle now b \<le> fadd ?t (fmul (seconds ?d) ?r)" by (simp add: rl_tokens_def Let_def)
  also have "\<dots> \<le> (1 + eps) ^ 4 * (?t + ?r * of_int ?d / 10 ^ 9)"
    by (rule refill_upper [OF t(1) r0 d(1,2)])
  also have "\<dots> \<le> (1 + eps) ^ 4 * ((1 + eps) * ?t + (1 + eps) * rl_rate gentle b * of_int (now - rb_LastRefill b) / 10 ^ 9)"
    using t r rr d mult_right_mono [of 1 "1 + eps" ?t]
    by (intro mult_left_mono add_mono divide_right_mono mult_mono) auto
  also have "\<dots> = (1 + eps) ^ 5 * (?t + rl_gain gentle now b)"
    using assms(2) by (simp add: rl_gain_def pull_factor)
  finally show ?thesis .
qed

lemma rl_gain_nonneg: "rb_ok now b \<Longrightarrow> 0 \<le> rl_gain gentle now b"
  by (auto simp: rl_gain_def rl_rate_def rb_ok_def)

lemma one_le_mult_left: "1 \<le> (c :: rat) \<Longrightarrow> 0 \<le> x \<Longrightarrow> x \<le> c * x"
  using mult_right_mono [of 1 c x] by simp

interpretation rl_bucket: meter "rl_step gentle" rb_ok rb_Tokens "rl_gain gentle" "(1 + eps) ^ 6" for gentle :: bool
proof
  show "1 \<le> (1 + eps) ^ 6" by (rule one_le_eps_power)
next
  fix now b assume ok: "rb_ok now b"
  let ?u = "(1 + eps) ^ 5 * (rb_Tokens b + rl_gain gentle now b)"
  have u: "(1 + eps) ^ 6 * x = (1 + eps) * ((1 + eps) ^ 5 * x)" for x
    by (simp add: power_numeral_reduce algebra_simps)
  show "rb_Tokens (snd (rl_step gentle now b)) + (if fst (rl_step gentle now b) then 1 else 0)
      \<le> (1 + eps) ^ 6 * (rb_Tokens b + rl_gain gentle now b)"
  proof (cases "now < rb_PenaltyUntil b")
    case True
    have "rb_Tokens b \<le> (1 + eps) ^ 6 * (rb_Tokens b + rl_gain gentle now b)"
      using True ok one_le_mult_left [OF one_le_eps_power, of "rb_Tokens b" 6]
      by (simp add: rl_gain_def rb_ok_def)
    then show ?thesis using True by (simp add: rl_step_def check_bucket_def box_deny_frame)
  next
    case False
    show ?thesis
      unfolding u using take_one [OF rl_tokens_nonneg [OF ok] rl_tokens_upper [OF ok False], of gentle] False
      by (simp add: rl_step_def check_bucket_def breach_def Let_def split: if_splits)
  qed
  show "0 \<le> rb_Tokens b \<and> 0 \<le> rl_gain gentle now b \<and> 0 \<le> rb_Tokens (snd (rl_step gentle now b))"
    using ok rl_step_ok [OF ok order.refl, of gentle] rl_gain_nonneg [OF ok] by (simp add: rb_ok_def)
qed

lemma rl_all_good: "rb_ok t0 b \<Longrightarrow> sorted (t0 # ts) \<Longrightarrow> all_good (rl_step gentle) rb_ok ts b"
proof (induction ts arbitrary: b t0)
  case Nil
  then show ?case by simp
next
  case (Cons t ts)
  then have "rb_ok t b" by (simp add: rb_ok_def)
  then show ?case using Cons.IH [of t "snd (rl_step gentle t b)"] Cons.prems rl_step_ok [of t b t] by simp
qed

lemma rl_refilled:
  assumes "rb_ok (rb_LastRefill b) b" and "sorted (rb_LastRefill b # ts)"
  shows "refilled (rl_step gentle) (rl_gain gentle) ts b \<le>
    rl_rate gentle b * of_int (last (rb_LastRefill b # ts) - rb_LastRefill b) / 10 ^ 9"
  using assms
proof (induction ts arbitrary: b)
  case Nil
  then show ?case by simp
next
  case (Cons t ts)
  let ?b = "snd (rl_step gentle t b)" and ?l = "rb_LastRefill b"
  have t: "?l \<le> t" using Cons.prems by simp
  have r: "0 \<le> rl_rate gentle b" using Cons.prems by (simp add: rb_ok_def rl_rate_def)
  have ok: "rb_ok t b" using Cons.prems t by (simp add: rb_ok_def)
  have rate: "rl_rate gentle ?b = rl_rate gentle b" by (simp add: rl_rate_def rl_step_def)
  have last: "rb_LastRefill ?b = (if t < rb_PenaltyUntil b then ?l else t)"
    by (simp add: rl_step_def check_bucket_def box_deny_def breach_def Let_def)
  have okb: "rb_ok (rb_LastRefill ?b) ?b"
    using rl_step_ok [OF ok order.refl, of gentle] by (simp add: rb_ok_def)
  have IH: "refilled (rl_step gentle) (rl_gain gentle) ts ?b \<le>
      rl_rate gentle b * of_int (last (rb_LastRefill ?b # ts) - rb_LastRefill ?b) / 10 ^ 9"
    using Cons.IH [OF okb] Cons.prems t unfolding rate by (auto simp: last)
  have "last (?l # ts) \<le> last (t # ts)" using t by simp
  then have "rl_rate gentle b * of_int (last (?l # ts) - ?l) \<le> rl_rate gentle b * of_int (last (t # ts) - ?l)"
    using r by (intro mult_left_mono) auto
  moreover have "rl_rate gentle b * of_int (t - ?l) / 10 ^ 9 + rl_rate gentle b * of_int (last (t # ts) - t) / 10 ^ 9 =
      rl_rate gentle b * of_int (last (t # ts) - ?l) / 10 ^ 9"
    by (simp only: add_divide_distrib [symmetric] distrib_left [symmetric] of_int_add [symmetric]) simp
  moreover have "last (?l # t # ts) = last (t # ts)" by simp
  ultimately show ?case
    using IH divide_right_mono [of "rl_rate gentle b * of_int (last (?l # ts) - ?l)" _ "10 ^ 9"]
    unfolding refilled.simps rl_gain_def [of gentle t b] by (auto simp: last split: if_splits simp del: last.simps)
qed

text \<open>The limiter is one bucket per address, while configuration and baseline stay the same.\<close>

definition rl_admit :: "string \<Rightarrow> gotime \<Rightarrow> DetEngine \<Rightarrow> bool \<times> DetEngine" where
  "rl_admit ip now e = (fst (fst (CheckRateLimit ip now e)) = 0, snd (CheckRateLimit ip now e))"

definition rl_ready :: "bool \<Rightarrow> DetEngine \<Rightarrow> bool" where
  "rl_ready gentle e \<longleftrightarrow> gomap_ok (de_counters e) \<and> rl_Enabled (rl_cfg e) \<and> lenient e = gentle"

definition rl_cell :: "DetEngine \<Rightarrow> gotime \<Rightarrow> string \<Rightarrow> RateLimitBucket" where
  "rl_cell e now ip = (case map_of (de_counters e) ip of Some b \<Rightarrow> b | None \<Rightarrow> new_rl_bucket (rl_cfg e) now)"

lemma rl_cfg_counters [simp]: "rl_cfg (e\<lparr>de_counters := m\<rparr>) = rl_cfg e"
  by (simp add: rl_cfg_def)

lemma rl_admit_eq:
  "rl_ready gentle e \<Longrightarrow> rl_admit ip now e =
     (fst (rl_step gentle now (rl_cell e now ip)),
      e\<lparr>de_counters := AList.update ip (snd (rl_step gentle now (rl_cell e now ip))) (de_counters e)\<rparr>)"
  by (simp add: rl_admit_def rl_ready_def rl_step_def rl_cell_def CheckRateLimit_def Let_def split: prod.split)

interpretation rl_keyed: keyed rl_admit "rl_ready gentle" rl_cell "rl_step gentle" for gentle :: bool
proof
  fix e ip now assume e: "rl_ready gentle e"
  note eq = rl_admit_eq [OF e, of ip now]
  show "rl_ready gentle (snd (rl_admit ip now e))"
    using e by (simp add: eq rl_ready_def rl_cfg_def lenient_def)
  show "fst (rl_admit ip now e) = fst (rl_step gentle now (rl_cell e now ip))" by (simp add: eq)
  fix now' ip'
  show "rl_cell (snd (rl_admit ip now e)) now' ip' =
      (if ip' = ip then snd (rl_step gentle now (rl_cell e now ip)) else rl_cell e now' ip')"
    unfolding eq by (simp add: rl_cell_def gomap_simps split: option.split)
qed

subsection \<open>Statistics\<close>

lemma p_bounds: "0 \<le> p95" "p95 \<le> p99" "p99 \<le> 1"
  using fl_mono [of "95 / 100" "99 / 100"] fl_mono [of "99 / 100" 1] by (simp_all add: p95_def p99_def)

definition pct_index :: "nat \<Rightarrow> f64 \<Rightarrow> nat" where
  "pct_index n p = nat (f_trunc (fmul (f_of_int (int n - 1)) p))"

lemma pct_index_less:
  assumes "0 < n" and "n \<le> 2 ^ 53" and "0 \<le> p" and "p \<le> 1"
  shows "pct_index n p < n"
proof -
  have "int n \<le> 2 ^ 53" using assms(2) by (metis of_nat_le_iff of_nat_numeral of_nat_power)
  then have n: "f_of_int (int n - 1) = of_int (int n - 1)" "\<bar>int n - 1\<bar> \<le> 2 ^ 53"
    using assms(1) by (simp_all add: f_of_int_small)
  have "of_int (int n - 1) * p \<le> of_int (int n - 1)"
    using assms mult_left_mono [of p 1 "of_int (int n - 1)"] by simp
  then have "fmul (of_int (int n - 1)) p \<le> of_int (int n - 1)"
    unfolding fmul_def by (rule fl_le_of_int [OF _ n(2)])
  then have "\<lfloor>fmul (of_int (int n - 1)) p\<rfloor> \<le> int n - 1" by linarith
  moreover have "0 \<le> fmul (of_int (int n - 1)) p" using assms by (intro fmul_nonneg) auto
  ultimately show ?thesis using assms(1) unfolding pct_index_def n(1) by (simp add: f_trunc_def nat_less_iff)
qed

lemma pct_index_mono:
  assumes "0 < n" and "0 \<le> p" and "p \<le> q"
  shows "pct_index n p \<le> pct_index n q"
proof -
  have n: "0 \<le> f_of_int (int n - 1)" using assms(1) by simp
  then have "fmul (f_of_int (int n - 1)) p \<le> fmul (f_of_int (int n - 1)) q"
    using assms by (simp add: fmul_def fl_mono mult_left_mono)
  moreover have "0 \<le> fmul (f_of_int (int n - 1)) p" by (rule fmul_nonneg [OF n assms(2)])
  ultimately show ?thesis by (auto simp: pct_index_def f_trunc_def intro!: nat_mono floor_mono)
qed

lemma percentile_eq: "data \<noteq> [] \<Longrightarrow> percentile data p = sort data ! pct_index (length data) p"
  by (simp add: percentile_def pct_index_def)

lemma percentile_mem:
  assumes "data \<noteq> []" and "length data \<le> 2 ^ 53" and "0 \<le> p" and "p \<le> 1"
  shows "percentile data p \<in> set data"
proof -
  have "pct_index (length data) p < length (sort data)" using pct_index_less [of "length data" p] assms by simp
  then have "sort data ! pct_index (length data) p \<in> set (sort data)" by (rule nth_mem)
  then show ?thesis by (simp add: percentile_eq [OF assms(1)])
qed

lemma percentile_mono:
  assumes "data \<noteq> []" and "length data \<le> 2 ^ 53" and "0 \<le> p" and "p \<le> q" and "q \<le> 1"
  shows "percentile data p \<le> percentile data q"
proof -
  have "pct_index (length data) q < length (sort data)" using pct_index_less [of "length data" q] assms by simp
  moreover have "pct_index (length data) p \<le> pct_index (length data) q"
    using pct_index_mono [of "length data" p q] assms by simp
  ultimately show ?thesis by (simp add: percentile_eq [OF assms(1)] sorted_nth_mono)
qed

lemma mean_replicate:
  assumes "0 < n" and "int n * v \<le> 2 ^ 53" and "0 \<le> v" and "int n \<le> 2 ^ 53" and "v \<le> 2 ^ 53"
  shows "mean (replicate n (of_int v)) = of_int v"
proof -
  have "fsum (replicate n (of_int v)) = of_int (int n * v)" by (rule fsum_replicate [OF assms(2,3)])
  moreover have "f_of_int (int n) = of_int (int n)" using assms(4) by (simp add: f_of_int_small)
  ultimately show ?thesis using assms by (simp add: mean_def fdiv_def)
qed

lemma stddev_replicate:
  assumes "0 < n"
  shows "stddev (replicate n (of_int v)) (of_int v) = 0"
proof -
  have "fsum (replicate n 0) = 0" using fsum_replicate [of n 0] by simp
  then show ?thesis by (simp add: stddev_def fsub_def fmul_def fdiv_def map_replicate_const)
qed

lemma stddev_nonneg [simp]: "0 \<le> stddev data avg"
  by (simp add: stddev_def)

definition baseline_ok :: "Baseline \<Rightarrow> bool" where
  "baseline_ok b \<longleftrightarrow> ba_maxSamples b = 3600 \<and> length (ba_samples b) \<le> 3600 \<and> 0 \<le> ba_stddevRPS b \<and>
     (60 \<le> length (ba_samples b) \<longrightarrow> ba_p95RPS b \<in> set (ba_samples b) \<and> ba_p99RPS b \<in> set (ba_samples b)) \<and>
     ba_p95RPS b \<le> ba_p99RPS b"

lemma baseline_stats_ok:
  assumes "ba_maxSamples b = 3600" and "length (ba_samples b) \<le> 3600" and "0 \<le> ba_stddevRPS b"
    and "ba_p95RPS b \<le> ba_p99RPS b"
  shows "baseline_ok (baseline_stats b)"
proof -
  have p: "p95 \<le> 1" "0 \<le> p99" using p_bounds by simp_all
  have "percentile (ba_samples b) p95 \<in> set (ba_samples b) \<and> percentile (ba_samples b) p99 \<in> set (ba_samples b) \<and>
      percentile (ba_samples b) p95 \<le> percentile (ba_samples b) p99" if "60 \<le> length (ba_samples b)"
    using percentile_mem [of "ba_samples b"] percentile_mono [of "ba_samples b" p95 p99] that assms(2) p p_bounds
    by fastforce
  then show ?thesis using assms by (auto simp: baseline_ok_def baseline_stats_def Let_def)
qed

lemma RecordRPSSample_ok:
  assumes "baseline_ok (de_baseline e)"
  shows "baseline_ok (de_baseline (RecordRPSSample rps now e))"
proof -
  let ?b = "de_baseline e"
  let ?w = "if ba_maxSamples ?b \<le> length (ba_samples ?b) then tl (ba_samples ?b) else ba_samples ?b"
  have "baseline_ok (baseline_stats (?b\<lparr>ba_samples := ?w @ [rps]\<rparr>))"
    using assms by (intro baseline_stats_ok) (auto simp: baseline_ok_def)
  then have "baseline_ok (if c then (baseline_stats (?b\<lparr>ba_samples := ?w @ [rps]\<rparr>))\<lparr>ba_isLearning := False\<rparr>
      else baseline_stats (?b\<lparr>ba_samples := ?w @ [rps]\<rparr>))" for c
    by (simp add: baseline_ok_def)
  then show ?thesis unfolding RecordRPSSample_def Let_def by simp
qed

subsection \<open>Sessions\<close>

definition session_ok :: "Session \<Rightarrow> bool" where
  "session_ok s \<longleftrightarrow> gomap_ok (se_UniqueURLs s) \<and> length (se_UniqueURLs s) \<le> 20 \<and>
     0 \<le> se_TrustScore s \<and> se_TrustScore s \<le> 50 \<and> is_f64 (se_TrustScore s) \<and>
     (se_Suspicious s \<or> se_TrustScore s = 50)"

lemma count_url_ok:
  assumes "gomap_ok m" and "length m \<le> 20"
  shows "gomap_ok (count_url u m) \<and> length (count_url u m) \<le> 20"
proof (cases "map_of m u")
  case None
  then have "u \<notin> fst ` set m" by (simp add: map_of_eq_None_iff)
  then have "length (AList.update u 1 m) = Suc (length m)" by (induction m) auto
  with assms None show ?thesis by (simp add: count_url_def)
next
  case (Some n)
  then have "length (AList.update u k m) = length m" for k by (induction m) (auto split: if_splits)
  with assms Some show ?thesis by (simp add: count_url_def)
qed

lemma new_session_ok: "session_ok (new_session ip ua now)"
  by (simp add: session_ok_def new_session_def is_f64_def)

lemma touch_session_ok: "session_ok s \<Longrightarrow> session_ok (touch_session url now s)"
  using count_url_ok [of "se_UniqueURLs s" url] by (simp add: session_ok_def touch_session_def)

text \<open>The clamp at the end of \<open>analyzeBehavior\<close> keeps the score in its range.\<close>

lemma clamp_session:
  assumes "gomap_ok (se_UniqueURLs s)" and "length (se_UniqueURLs s) \<le> 20"
    and "se_TrustScore s \<le> 50" and "is_f64 (se_TrustScore s)" and "se_Suspicious s \<or> se_TrustScore s = 50"
  shows "session_ok (if se_TrustScore s < 0 then s\<lparr>se_TrustScore := 0\<rparr> else s)"
  using assms by (auto simp: session_ok_def)

lemma penalise_ok:
  assumes "is_f64 x" and "x \<le> 50" and "0 \<le> p"
  shows "is_f64 (fsub x p) \<and> fsub x p \<le> 50"
  using fsub_le [OF assms(1,3)] assms(2) by simp

lemma analyzeBehavior_ok:
  assumes "session_ok s"
  shows "session_ok (analyzeBehavior now s)"
proof -
  let ?elapsed = "seconds (time_sub now (se_FirstSeen s))"
  define s1 where "s1 = (if 0 < ?elapsed \<and> 30 < fdiv (f_of_int (se_Requests s)) ?elapsed
      then s\<lparr>se_Suspicious := True, se_TrustScore := fsub (se_TrustScore s) 20\<rparr> else s)"
  define s2 where "s2 = (if 100 < se_Requests s1 \<and> length (se_UniqueURLs s1) < 3
      then s1\<lparr>se_Suspicious := True, se_TrustScore := fsub (se_TrustScore s1) 15\<rparr> else s1)"
  have 1: "gomap_ok (se_UniqueURLs s1)" "length (se_UniqueURLs s1) \<le> 20" "se_TrustScore s1 \<le> 50"
      "is_f64 (se_TrustScore s1)" "se_Suspicious s1 \<or> se_TrustScore s1 = 50"
    using assms penalise_ok [of "se_TrustScore s" 20] by (auto simp: s1_def session_ok_def)
  have 2: "gomap_ok (se_UniqueURLs s2)" "length (se_UniqueURLs s2) \<le> 20" "se_TrustScore s2 \<le> 50"
      "is_f64 (se_TrustScore s2)" "se_Suspicious s2 \<or> se_TrustScore s2 = 50"
    using 1 penalise_ok [of "se_TrustScore s1" 15] by (auto simp: s2_def)
  have "analyzeBehavior now s = (if se_TrustScore s2 < 0 then s2\<lparr>se_TrustScore := 0\<rparr> else s2)"
    by (simp add: analyzeBehavior_def s1_def s2_def Let_def)
  with clamp_session [OF 2] show ?thesis by simp
qed

definition sessions_ok :: "DetEngine \<Rightarrow> bool" where
  "sessions_ok e \<longleftrightarrow> gomap_ok (de_sessions e) \<and> (\<forall>ip s. map_of (de_sessions e) ip = Some s \<longrightarrow> session_ok s)"

lemma TrackSession_ok:
  assumes "sessions_ok e"
  shows "sessions_ok (snd (TrackSession ip url ua now e))"
    and "fst (TrackSession ip url ua now e) = Some s \<Longrightarrow> session_ok s"
  using assms
  by (auto simp: TrackSession_def sessions_ok_def Let_def gomap_simps analyzeBehavior_ok touch_session_ok
      new_session_ok split: option.splits if_splits)

subsection \<open>Properties\<close>


definition quiet_engine :: DetEngine where
  "quiet_engine = de_NewEngine (zero_Config\<lparr>cfg_Protection := zero_ProtectionConfig\<lparr>pr_RateLimit :=
     \<lparr>rl_Enabled = True, rl_RequestsPerSecond = 2, rl_Burst = 3, rl_PerIP = True, rl_Adaptive = True\<rparr>\<rparr>\<rparr>) 0"


text \<open>
  The verdict of the anomaly test on a steady baseline. After \<open>n\<close> equal samples the deviation is zero, so every
  rate above the average is an infinite z-score and a critical anomaly; but a rate above one and a half
  times the average is reported as less severe, with the ratio as its score.
\<close>

theorem anomaly_severity_inverted:
  assumes "60 \<le> n" and "0 < v" and "n \<le> 3600" and "v \<le> 2 ^ 40"
    and "de_baseline e = baseline_stats (b\<lparr>ba_samples := replicate n (of_int v), ba_isLearning := False\<rparr>)"
    and "de_sensitivity e \<noteq> 0" and "of_int v < rps"
  shows "DetectAnomaly rps e = (if rps \<le> 3 / 2 * of_int v
    then \<lparr>an_IsAnomaly = True, an_Score = PInf, an_Reason = ''rps_spike'', an_Severity = ''critical''\<rparr>
    else \<lparr>an_IsAnomaly = True, an_Score = Fin (fdiv rps (of_int v)), an_Reason = ''above_p99'', an_Severity = ''high''\<rparr>)"
proof -
  let ?s = "replicate n (of_int v :: rat)" and ?b = "de_baseline e"
  have n: "0 < n" using assms(1) by simp
  have "int n * v \<le> 3600 * 2 ^ 40" using assms by (intro mult_mono) auto
  then have avg: "mean ?s = of_int v" using assms n by (intro mean_replicate) auto
  have p: "percentile ?s p99 = of_int v"
    using percentile_mem [of ?s p99] n assms(3) p_bounds by simp
  have fields: "ba_avgRPS ?b = of_int v" "ba_stddevRPS ?b = 0" "ba_p99RPS ?b = of_int v" "\<not> ba_isLearning ?b"
    using assms(1) avg stddev_replicate [OF n(1), of v] p by (simp_all add: assms(5) baseline_stats_def Let_def)
  have z: "0 < fsub rps (of_int v)" using assms(7) by (simp add: fsub_def)
  have "fmul (of_int v) (3 / 2) = 3 / 2 * of_int v"
  proof -
    have "fl (of_int (3 * v)) / 2 = fl (of_int (3 * v) / 2)"
      using fl_half [of "of_int (3 * v)"] by simp
    moreover have "fl (of_int (3 * v)) = of_int (3 * v)" using assms(2,4) by (intro fl_of_int) simp
    ultimately show ?thesis by (simp add: fmul_def mult.commute)
  qed
  then show ?thesis
    using assms(2,6) by (auto simp: DetectAnomaly_def Let_def fields z anomaly_threshold_def classifySeverity_def xdiv_def)
qed

theorem anomaly_severity_inverted_witness:
  "let e = RecordRPSSample 100 1 ((quiet_engine\<lparr>de_baseline := (de_baseline quiet_engine)\<lparr>
       ba_samples := replicate 59 100\<rparr>\<rparr>)\<lparr>de_sensitivity := 1\<rparr>)
   in an_Severity (DetectAnomaly 101 e) = ''critical'' \<and> an_Severity (DetectAnomaly 1000 e) = ''high''"
proof -
  let ?b = "de_baseline quiet_engine"
  let ?e0 = "(quiet_engine\<lparr>de_baseline := ?b\<lparr>ba_samples := replicate 59 100\<rparr>\<rparr>)\<lparr>de_sensitivity := 1\<rparr>"
  let ?e = "RecordRPSSample 100 1 ?e0"
  have "?b\<lparr>ba_samples := replicate 60 (of_int 100), ba_isLearning := False\<rparr> = ?b\<lparr>ba_samples := replicate 59 100 @ [100]\<rparr>"
    by (simp add: quiet_engine_def de_NewEngine_def zero_Config_def zero_DetectionConfig_def zero_BaselineConfig_def
        numeral_eq_Suc)
  moreover have "de_baseline ?e = baseline_stats (?b\<lparr>ba_samples := replicate 59 100 @ [100]\<rparr>)"
    by (simp add: RecordRPSSample_def Let_def baseline_stats_def quiet_engine_def de_NewEngine_def zero_Config_def
        zero_DetectionConfig_def zero_BaselineConfig_def)
  ultimately have b: "de_baseline ?e = baseline_stats (?b\<lparr>ba_samples := replicate 60 (of_int 100), ba_isLearning := False\<rparr>)"
    by metis
  have s: "de_sensitivity ?e \<noteq> 0" by (simp add: RecordRPSSample_def Let_def)
  show ?thesis
    using anomaly_severity_inverted [OF _ _ _ _ b s, of 101] anomaly_severity_inverted [OF _ _ _ _ b s, of 1000]
    by (simp add: Let_def)
qed

text \<open>
  What the trackers keep. Every recorded sample keeps a window of at most 3600 samples, a non-negative
  deviation, and percentiles that are observed samples in the right order; every tracked request keeps
  each session at no more than 20 remembered URLs, a trust score between 0 and 50, and a lower score
  only together with the suspicion that explains it.
\<close>

theorem detection_state_invariant:
  assumes "baseline_ok (de_baseline e)" and "sessions_ok e"
  shows "baseline_ok (de_baseline (RecordRPSSample rps now e)) \<and>
    sessions_ok (snd (TrackSession ip url ua now e)) \<and> sessions_ok (CleanupSessions now e)"
proof (intro conjI)
  show "baseline_ok (de_baseline (RecordRPSSample rps now e))" by (rule RecordRPSSample_ok [OF assms(1)])
  show "sessions_ok (snd (TrackSession ip url ua now e))" by (rule TrackSession_ok(1) [OF assms(2)])
  show "sessions_ok (CleanupSessions now e)"
    using assms(2) by (auto simp: sessions_ok_def CleanupSessions_def gomap_simps split: option.splits if_splits)
qed

theorem detection_state_invariant_witness:
  "baseline_ok (de_baseline (RecordRPSSample 7 1 quiet_engine)) \<and>
   sessions_ok (snd (TrackSession ''a'' ''/x'' ''ua'' 1 quiet_engine)) \<and> sessions_ok (CleanupSessions 1 quiet_engine)"
  by (rule detection_state_invariant)
    (simp_all add: quiet_engine_def de_NewEngine_def baseline_ok_def sessions_ok_def)

end
