(* ===== verification/Behavior.thy ===== *)
theory Behavior
  imports Kv_Store Float_Math
begin

section \<open>Behavioural analysis (detection/behavior.go)\<close>

text \<open>
  One profile per address: counters of URLs, methods, status codes and user agents, request
  intervals, and the verdict computed from six weighted penalties. The order of a list stands for the
  order in which the code ranges over a map. Lemmas: the range of each penalty, what a profile
  remembers of the requests, and the least score they can give together.
\<close>

record BehaviorProfile =
  bp_IP :: string
  bp_FirstSeen :: gotime
  bp_LastSeen :: gotime
  bp_TotalReqs :: int
  bp_WindowReqs :: int
  bp_WindowStart :: gotime
  bp_URLs :: "(string, int) gomap"
  bp_Methods :: "(string, int) gomap"
  bp_StatusCodes :: "(int, int) gomap"
  bp_UserAgents :: "(string, int) gomap"
  bp_IntervalSamples :: "f64 list"
  bp_LastReqTime :: gotime
  bp_Depth4xx :: int
  bp_APIEndpoints :: int
  bp_StaticReqs :: int
  bp_DynamicReqs :: int
  bp_BotProbability :: f64

record BehaviorVerdict =
  bv_Score :: f64
  bv_IsBot :: bool
  bv_IsSuspicious :: bool
  bv_Reasons :: "string list"
  bv_Profile :: string

type_synonym BehaviorAnalyzer = "(string, BehaviorProfile) gomap"

subsection \<open>Helpers\<close>

definition normalizeURL :: "string \<Rightarrow> string" where
  "normalizeURL url = (case index_byte CHR ''?'' url of
     Some idx \<Rightarrow> if 0 < idx then take idx url else url | None \<Rightarrow> url)"

definition static_exts :: "string list" where
  "static_exts = [''.css'', ''.js'', ''.png'', ''.jpg'', ''.jpeg'', ''.gif'', ''.svg'', ''.woff'', ''.woff2'', ''.ico'', ''.webp'']"

definition isStaticResource :: "string \<Rightarrow> bool" where
  "isStaticResource url \<longleftrightarrow> (let lower = to_lower url in list_ex (\<lambda>ext. has_suffix lower ext) static_exts)"

definition isAPIEndpoint :: "string \<Rightarrow> bool" where
  "isAPIEndpoint url \<longleftrightarrow> has_prefix url ''/api/'' \<or> has_prefix url ''/v1/'' \<or> has_prefix url ''/v2/''"

definition meanFloat :: "f64 list \<Rightarrow> f64" where
  "meanFloat data = (if data = [] then 0 else fdiv (fsum data) (f_of_int (int (length data))))"

definition stddevFloat :: "f64 list \<Rightarrow> f64 \<Rightarrow> f64" where
  "stddevFloat data avg = (if data = [] then 0
     else fsqrt (fdiv (fsum (map (\<lambda>v. let diff = fsub v avg in fmul diff diff) data)) (f_of_int (int (length data)))))"

definition bump :: "'k \<Rightarrow> ('k, int) gomap \<Rightarrow> ('k, int) gomap" where
  "bump k m = AList.update k ((case map_of m k of Some n \<Rightarrow> n | None \<Rightarrow> 0) + 1) m"

subsection \<open>The penalties\<close>

definition analyzeTimingRegularity :: "BehaviorProfile \<Rightarrow> f64" where
  "analyzeTimingRegularity p =
     (if length (bp_IntervalSamples p) < 10 then 0
      else let avg = meanFloat (bp_IntervalSamples p) in
        if avg = 0 then 100
        else let cv = fdiv (stddevFloat (bp_IntervalSamples p) avg) avg in
          if cv < fl (5 / 100) then 100 else if cv < fl (15 / 100) then 80
          else if cv < fl (30 / 100) then 50 else if cv < fl (50 / 100) then 20 else 0)"

definition url_entropy :: "(string, int) gomap \<Rightarrow> f64" where
  "url_entropy urls =
     (let total = fsum (map (\<lambda>(u, n). f_of_int n) urls)
      in foldl (\<lambda>entropy (u, n). let prob = fdiv (f_of_int n) total
                               in if 0 < prob then fsub entropy (fmul prob (flog2 prob)) else entropy) 0 urls)"

definition analyzeURLEntropy :: "BehaviorProfile \<Rightarrow> f64" where
  "analyzeURLEntropy p =
     (if bp_URLs p = [] then 50
      else let entropy = url_entropy (bp_URLs p); maxEntropy = flog2 (f_of_int (int (length (bp_URLs p)))) in
        if maxEntropy = 0 then 80
        else let normalized = fdiv entropy maxEntropy in
          if normalized < fl (2 / 10) then 90 else if normalized < fl (4 / 10) then 60
          else if normalized < fl (6 / 10) then 30 else 0)"

definition analyzeDiversity :: "BehaviorProfile \<Rightarrow> f64" where
  "analyzeDiversity p =
     (let a = (if length (bp_Methods p) = 1 then 20 else 0);
          b = (if bp_StaticReqs p = 0 \<and> 20 < bp_TotalReqs p then fadd a 40 else a);
          c = (if 0 < bp_DynamicReqs p \<and> bp_StaticReqs p = 0 \<and> 0 < bp_APIEndpoints p then fadd b 30 else b);
          uniqueRatio = fdiv (f_of_int (int (length (bp_URLs p)))) (f_of_int (bp_TotalReqs p));
          d = (if 50 < bp_TotalReqs p \<and> uniqueRatio < fl (5 / 100) then fadd c 40 else c)
      in if 100 < d then 100 else d)"

definition analyzeSpeed :: "gotime \<Rightarrow> BehaviorProfile \<Rightarrow> f64" where
  "analyzeSpeed now p =
     (let secs = seconds (time_sub now (bp_FirstSeen p)); elapsed = (if secs < 1 then 1 else secs);
          rps = fdiv (f_of_int (bp_TotalReqs p)) elapsed
      in if 100 < rps then 100 else if 50 < rps then 80 else if 20 < rps then 60 else if 10 < rps then 30 else 0)"

definition total4xx :: "(int, int) gomap \<Rightarrow> int" where
  "total4xx codes = sum_list (map snd (filter (\<lambda>(code, n). 400 \<le> code \<and> code < 500) codes))"

definition analyzeErrorPattern :: "BehaviorProfile \<Rightarrow> f64" where
  "analyzeErrorPattern p =
     (if bp_TotalReqs p < 10 then 0
      else let errorRate = fdiv (f_of_int (total4xx (bp_StatusCodes p))) (f_of_int (bp_TotalReqs p)) in
        if 1 / 2 < errorRate then 100 else if fl (3 / 10) < errorRate then 70
        else if fl (15 / 100) < errorRate then 40 else 0)"

definition analyzeUAConsistency :: "BehaviorProfile \<Rightarrow> f64" where
  "analyzeUAConsistency p = (if 3 < length (bp_UserAgents p) then 60 else 0)"

subsection \<open>The verdict\<close>

definition behavior_score :: "gotime \<Rightarrow> BehaviorProfile \<Rightarrow> f64" where
  "behavior_score now p =
     (let s1 = fsub 100 (fmul (analyzeTimingRegularity p) (fl (25 / 100)));
          s2 = fsub s1 (fmul (analyzeURLEntropy p) (fl (20 / 100)));
          s3 = fsub s2 (fmul (analyzeDiversity p) (fl (20 / 100)));
          s4 = fsub s3 (fmul (analyzeSpeed now p) (fl (15 / 100)));
          s5 = fsub s4 (fmul (analyzeErrorPattern p) (fl (10 / 100)));
          s6 = fsub s5 (fmul (analyzeUAConsistency p) (fl (10 / 100)))
      in if s6 < 0 then 0 else s6)"

definition computeVerdict :: "gotime \<Rightarrow> BehaviorProfile \<Rightarrow> BehaviorVerdict \<times> BehaviorProfile" where
  "computeVerdict now p =
     (let score = behavior_score now p;
          v = \<lparr>bv_Score = score, bv_IsBot = False, bv_IsSuspicious = False, bv_Reasons = [], bv_Profile = []\<rparr>;
          v' = (if score < 20 then v\<lparr>bv_IsBot := True, bv_Profile := ''ddos'', bv_Reasons := [''extreme_bot_behavior'']\<rparr>
                else if score < 40 then v\<lparr>bv_IsBot := True, bv_Profile := ''bot'', bv_Reasons := [''high_bot_probability'']\<rparr>
                else if score < 55 then v\<lparr>bv_IsSuspicious := True, bv_Profile := ''suspicious'', bv_Reasons := [''suspicious_pattern'']\<rparr>
                else v\<lparr>bv_Profile := ''human''\<rparr>)
      in (v', p\<lparr>bp_BotProbability := fsub 1 (fdiv score 100)\<rparr>))"

definition new_profile :: "string \<Rightarrow> gotime \<Rightarrow> BehaviorProfile" where
  "new_profile ip now =
     \<lparr>bp_IP = ip, bp_FirstSeen = now, bp_LastSeen = zero_time, bp_TotalReqs = 0, bp_WindowReqs = 0,
      bp_WindowStart = zero_time, bp_URLs = [], bp_Methods = [], bp_StatusCodes = [], bp_UserAgents = [],
      bp_IntervalSamples = [], bp_LastReqTime = zero_time, bp_Depth4xx = 0, bp_APIEndpoints = 0,
      bp_StaticReqs = 0, bp_DynamicReqs = 0, bp_BotProbability = 0\<rparr>"

definition track_interval :: "gotime \<Rightarrow> BehaviorProfile \<Rightarrow> BehaviorProfile" where
  "track_interval now p =
     (let interval = fmul (seconds (time_sub now (bp_LastReqTime p))) 1000;
          samples = (if bp_LastReqTime p = zero_time then bp_IntervalSamples p
                     else if length (bp_IntervalSamples p) < 1000 then bp_IntervalSamples p @ [interval]
                     else tl (bp_IntervalSamples p) @ [interval])
      in p\<lparr>bp_LastSeen := now, bp_TotalReqs := bp_TotalReqs p + 1, bp_IntervalSamples := samples,
           bp_LastReqTime := now\<rparr>)"

definition track_patterns :: "string \<Rightarrow> string \<Rightarrow> string \<Rightarrow> int \<Rightarrow> BehaviorProfile \<Rightarrow> BehaviorProfile" where
  "track_patterns url meth ua status p =
     p\<lparr>bp_URLs := bump (normalizeURL url) (bp_URLs p), bp_Methods := bump meth (bp_Methods p),
       bp_StatusCodes := bump status (bp_StatusCodes p), bp_UserAgents := bump ua (bp_UserAgents p)\<rparr>"

definition classify_request :: "string \<Rightarrow> int \<Rightarrow> BehaviorProfile \<Rightarrow> BehaviorProfile" where
  "classify_request url status p =
     (let p1 = (if isStaticResource url then p\<lparr>bp_StaticReqs := bp_StaticReqs p + 1\<rparr>
                else if isAPIEndpoint url
                then p\<lparr>bp_APIEndpoints := bp_APIEndpoints p + 1, bp_DynamicReqs := bp_DynamicReqs p + 1\<rparr>
                else p\<lparr>bp_DynamicReqs := bp_DynamicReqs p + 1\<rparr>)
      in if 400 \<le> status \<and> status < 500 then p1\<lparr>bp_Depth4xx := bp_Depth4xx p1 + 1\<rparr> else p1)"

definition slide_window :: "gotime \<Rightarrow> BehaviorProfile \<Rightarrow> BehaviorProfile" where
  "slide_window now p =
     (if 5 * minute < time_sub now (bp_WindowStart p) then p\<lparr>bp_WindowReqs := 1, bp_WindowStart := now\<rparr>
      else p\<lparr>bp_WindowReqs := bp_WindowReqs p + 1\<rparr>)"

definition observe :: "string \<Rightarrow> string \<Rightarrow> string \<Rightarrow> int \<Rightarrow> gotime \<Rightarrow> BehaviorProfile \<Rightarrow> BehaviorProfile" where
  "observe url meth ua status now p =
     slide_window now (classify_request url status (track_patterns url meth ua status (track_interval now p)))"

definition Analyze ::
  "string \<Rightarrow> string \<Rightarrow> string \<Rightarrow> string \<Rightarrow> int \<Rightarrow> gotime \<Rightarrow> BehaviorAnalyzer \<Rightarrow> BehaviorVerdict \<times> BehaviorAnalyzer" where
  "Analyze ip url meth ua status now ba =
     (let p = observe url meth ua status now (case map_of ba ip of Some p \<Rightarrow> p | None \<Rightarrow> new_profile ip now);
          (v, p') = (if bp_TotalReqs p < 5
                     then (\<lparr>bv_Score = 70, bv_IsBot = False, bv_IsSuspicious = False, bv_Reasons = [],
                            bv_Profile = ''unknown''\<rparr>, p)
                     else computeVerdict now p)
      in (v, AList.update ip p' ba))"

definition ba_Cleanup :: "duration \<Rightarrow> gotime \<Rightarrow> BehaviorAnalyzer \<Rightarrow> BehaviorAnalyzer" where
  "ba_Cleanup maxAge now ba = filter (\<lambda>(ip, p). \<not> maxAge < time_sub now (bp_LastSeen p)) ba"

subsection \<open>Ranges\<close>

lemma penalty_ranges:
  "0 \<le> analyzeTimingRegularity p" "analyzeTimingRegularity p \<le> 100"
  "0 \<le> analyzeURLEntropy p" "analyzeURLEntropy p \<le> 90"
  "0 \<le> analyzeSpeed now p" "analyzeSpeed now p \<le> 100"
  "0 \<le> analyzeErrorPattern p" "analyzeErrorPattern p \<le> 100"
  "0 \<le> analyzeUAConsistency p" "analyzeUAConsistency p \<le> 60"
  by (simp_all add: analyzeTimingRegularity_def analyzeURLEntropy_def analyzeSpeed_def analyzeErrorPattern_def
      analyzeUAConsistency_def Let_def)

lemma diversity_range: "0 \<le> analyzeDiversity p" "analyzeDiversity p \<le> 100"
  unfolding analyzeDiversity_def Let_def by (auto intro!: fadd_nonneg)

text \<open>A penalty lowers a score by at most the weight of its largest value.\<close>

lemma fsub_weighted:
  assumes "m \<le> s" and "0 \<le> w" and "x \<le> b"
  shows "fsub m (fmul b w) \<le> fsub s (fmul x w)"
proof -
  have "fmul x w \<le> fmul b w" using assms(2,3) by (simp add: fmul_mono)
  then show ?thesis using assms(1) by (simp add: fsub_def fl_mono)
qed

lemma fsub_zero [simp]: "is_f64 s \<Longrightarrow> fsub s (fmul 0 w) = s"
  by (simp add: fsub_def fmul_def is_f64_def)

definition worst_without_agents :: f64 where
  "worst_without_agents = fsub (fsub (fsub (fsub 100 (fmul 100 (fl (25 / 100)))) (fmul 90 (fl (20 / 100))))
     (fmul 100 (fl (20 / 100)))) (fmul 100 (fl (15 / 100)))"

lemma worst_without_agents_ge: "20 \<le> worst_without_agents"
  by code_simp

lemma behavior_score_ge:
  assumes "analyzeErrorPattern p = 0" and "analyzeUAConsistency p = 0"
  shows "20 \<le> behavior_score now p"
proof -
  let ?s1 = "fsub 100 (fmul (analyzeTimingRegularity p) (fl (25 / 100)))"
  let ?s2 = "fsub ?s1 (fmul (analyzeURLEntropy p) (fl (20 / 100)))"
  let ?s3 = "fsub ?s2 (fmul (analyzeDiversity p) (fl (20 / 100)))"
  let ?s4 = "fsub ?s3 (fmul (analyzeSpeed now p) (fl (15 / 100)))"
  have "worst_without_agents \<le> ?s4"
    unfolding worst_without_agents_def
    by (intro fsub_weighted penalty_ranges diversity_range fl_nonneg order.refl) simp_all
  then have "20 \<le> ?s4" using worst_without_agents_ge by (rule order_trans [rotated])
  then show ?thesis by (simp add: behavior_score_def Let_def assms)
qed

subsection \<open>What a profile remembers\<close>

lemma map_of_bump: "map_of (bump k m) k' =
    (if k' = k then Some ((case map_of m k of Some n \<Rightarrow> n | None \<Rightarrow> 0) + 1) else map_of m k')"
  by (simp add: bump_def gomap_simps)

lemma dom_bump [simp]: "dom (map_of (bump k m)) = insert k (dom (map_of m))"
  by (auto simp: map_of_bump)

lemma gomap_ok_bump [simp]: "gomap_ok m \<Longrightarrow> gomap_ok (bump k m)"
  by (simp add: bump_def)

definition seen_only :: "string set \<Rightarrow> BehaviorProfile \<Rightarrow> bool" where
  "seen_only uas p \<longleftrightarrow> gomap_ok (bp_UserAgents p) \<and> dom (map_of (bp_UserAgents p)) \<subseteq> uas \<and>
     dom (map_of (bp_StatusCodes p)) \<subseteq> {200}"

lemma observe_maps [simp]:
  "bp_UserAgents (observe url meth ua status now p) = bump ua (bp_UserAgents p)"
  "bp_StatusCodes (observe url meth ua status now p) = bump status (bp_StatusCodes p)"
  by (simp_all add: observe_def slide_window_def classify_request_def track_patterns_def track_interval_def Let_def)

lemma observe_seen_only:
  "seen_only uas p \<Longrightarrow> ua \<in> uas \<Longrightarrow> seen_only uas (observe url meth ua 200 now p)"
  by (simp add: seen_only_def)

lemma new_profile_seen_only [simp]: "seen_only uas (new_profile ip now)"
  by (simp add: seen_only_def new_profile_def)

lemma computeVerdict_maps [simp]:
  "bp_UserAgents (snd (computeVerdict now p)) = bp_UserAgents p"
  "bp_StatusCodes (snd (computeVerdict now p)) = bp_StatusCodes p"
  "bv_Score (fst (computeVerdict now p)) = behavior_score now p"
  by (simp_all add: computeVerdict_def Let_def)

lemma seen_only_no_errors:
  assumes "seen_only uas p"
  shows "analyzeErrorPattern p = 0"
proof -
  have "filter (\<lambda>(code, n). 400 \<le> code \<and> code < (500 :: int)) (bp_StatusCodes p) = []"
    using assms by (force simp: seen_only_def filter_empty_conv dom_map_of_conv_image_fst)
  then have "total4xx (bp_StatusCodes p) = 0" unfolding total4xx_def by (simp only: list.map sum_list.Nil)
  moreover have "\<not> fl (15 / 100) < 0" "\<not> fl (3 / 10) < 0" by (simp_all add: not_less)
  ultimately show ?thesis by (simp add: analyzeErrorPattern_def f_of_int_def fdiv_def Let_def)
qed

lemma seen_only_few_agents:
  assumes "seen_only uas p" and "finite uas" and "card uas \<le> 3"
  shows "analyzeUAConsistency p = 0"
proof -
  have "length (bp_UserAgents p) = card (dom (map_of (bp_UserAgents p)))"
    using assms(1) by (simp add: seen_only_def length_gomap)
  also have "\<dots> \<le> card uas" using assms(1,2) by (intro card_mono) (auto simp: seen_only_def)
  finally show ?thesis using assms(3) by (simp add: analyzeUAConsistency_def)
qed

text \<open>The requests of a run, as the pipeline reports them: always with status 200.\<close>

fun analyze_run :: "(string \<times> string \<times> string \<times> string \<times> gotime) list \<Rightarrow> BehaviorAnalyzer \<Rightarrow> BehaviorAnalyzer" where
  "analyze_run [] ba = ba"
| "analyze_run ((ip, url, meth, ua, now) # reqs) ba = analyze_run reqs (snd (Analyze ip url meth ua 200 now ba))"

definition agents_of :: "string \<Rightarrow> (string \<times> string \<times> string \<times> string \<times> gotime) list \<Rightarrow> string set" where
  "agents_of ip reqs = {ua. \<exists>url meth now. (ip, url, meth, ua, now) \<in> set reqs}"

definition all_seen_only :: "string set \<Rightarrow> string \<Rightarrow> BehaviorAnalyzer \<Rightarrow> bool" where
  "all_seen_only uas ip ba \<longleftrightarrow> (case map_of ba ip of Some p \<Rightarrow> seen_only uas p | None \<Rightarrow> True)"

lemma Analyze_profile:
  assumes "all_seen_only uas ip ba" and "ua \<in> uas"
  shows "seen_only uas (observe url meth ua 200 now (case map_of ba ip of Some p \<Rightarrow> p | None \<Rightarrow> new_profile ip now))"
  using assms by (auto simp: all_seen_only_def observe_seen_only split: option.splits)

lemma Analyze_seen_only:
  assumes "all_seen_only uas ip ba" and "ip' = ip \<Longrightarrow> ua \<in> uas"
  shows "all_seen_only uas ip (snd (Analyze ip' url meth ua 200 now ba))"
proof (cases "ip' = ip")
  case True
  let ?p = "observe url meth ua 200 now (case map_of ba ip of Some p \<Rightarrow> p | None \<Rightarrow> new_profile ip now)"
  have "seen_only uas ?p" using Analyze_profile [OF assms(1)] assms(2) True by blast
  then have "seen_only uas (snd (computeVerdict now ?p))" "seen_only uas ?p" by (simp_all add: seen_only_def)
  then show ?thesis
    using True by (cases "computeVerdict now ?p") (simp add: Analyze_def all_seen_only_def gomap_simps Let_def)
next
  case False
  then show ?thesis using assms(1) by (simp add: Analyze_def all_seen_only_def gomap_simps Let_def split: prod.split)
qed

lemma analyze_run_seen_only:
  "all_seen_only uas ip ba \<Longrightarrow> agents_of ip reqs \<subseteq> uas \<Longrightarrow> all_seen_only uas ip (analyze_run reqs ba)"
proof (induction reqs arbitrary: ba)
  case Nil
  then show ?case by simp
next
  case (Cons r reqs)
  obtain ip' url meth ua now where r: "r = (ip', url, meth, ua, now)" by (cases r)
  have "ip' = ip \<Longrightarrow> ua \<in> uas" "agents_of ip reqs \<subseteq> uas" using Cons.prems(2) by (auto simp: agents_of_def r)
  then show ?case using Cons.IH [OF Analyze_seen_only [OF Cons.prems(1)]] by (simp add: r)
qed

subsection \<open>Properties\<close>

text \<open>
  Who can be blocked by behaviour. The pipeline reports every request with status 200, so the error penalty is
  never given, and without the user-agent penalty the other four cannot push a score below 20: an
  address that shows at most three different user agents is never scored as an extreme bot,
  however fast, regular and monotonous its requests are.
\<close>

theorem behavior_block_needs_agents:
  assumes "finite uas" and "card uas \<le> 3" and "agents_of ip (reqs @ [(ip, url, meth, ua, now)]) \<subseteq> uas"
  shows "20 \<le> bv_Score (fst (Analyze ip url meth ua 200 now (analyze_run reqs [])))"
proof -
  let ?ba = "analyze_run reqs []"
  let ?p = "observe url meth ua 200 now (case map_of ?ba ip of Some p \<Rightarrow> p | None \<Rightarrow> new_profile ip now)"
  have sub: "agents_of ip reqs \<subseteq> uas" "ua \<in> uas" using assms(3) by (auto simp: agents_of_def)
  have "all_seen_only uas ip ?ba" by (rule analyze_run_seen_only [OF _ sub(1)]) (simp add: all_seen_only_def)
  then have p: "seen_only uas ?p" by (rule Analyze_profile [OF _ sub(2)])
  have "20 \<le> behavior_score now ?p"
    by (rule behavior_score_ge [OF seen_only_no_errors [OF p] seen_only_few_agents [OF p assms(1,2)]])
  then show ?thesis by (simp add: Analyze_def Let_def split: prod.split) (auto simp: computeVerdict_def Let_def)
qed

theorem behavior_block_needs_agents_witness:
  "20 \<le> bv_Score (fst (Analyze ''a'' ''/x'' ''GET'' ''bot'' 200 2 (analyze_run [(''a'', ''/x'', ''GET'', ''bot'', 1)] [])))"
  by (rule behavior_block_needs_agents [of "{''bot''}"]) (auto simp: agents_of_def)

end
