(* ===== verification/Tls_Parser.thy ===== *)
theory Tls_Parser
  imports Hashes
begin

section \<open>The ClientHello parser (fingerprint/tls\_parser.go)\<close>

text \<open>
  The parser works on slices. A Go slice expression \<open>s[i:j]\<close> may reach past the length of \<open>s\<close> up to
  its capacity and panics beyond it, so a slice is the list of the bytes up to its capacity, with its
  length apart. A panic is \<open>None\<close>, an error return \<open>Inl\<close>. Every loop of the parser is a function
  whose termination proof shows that its position moves. Lemmas: what is read from encoded
  parts, and when the parser can panic.
\<close>

record ClientHelloInfo =
  ch_TLSVersion :: u16
  ch_CipherSuites :: "u16 list"
  ch_Extensions :: "u16 list"
  ch_EllipticCurves :: "u16 list"
  ch_ECPointFormats :: "byte list"
  ch_SignatureAlgs :: "u16 list"
  ch_ALPN :: "string list"
  ch_ServerName :: string
  ch_SupportedVersions :: "u16 list"

datatype hello_error = RecordTooShort | NotHandshake | IncompleteRecord | HandshakeTooShort | NotClientHello
  | IncompleteHello | BodyTooShort | TruncatedSessionID | TruncatedCipherLength | TruncatedCiphers
  | TruncatedCompression

definition empty_hello :: ClientHelloInfo where
  "empty_hello = \<lparr>ch_TLSVersion = 0, ch_CipherSuites = [], ch_Extensions = [], ch_EllipticCurves = [],
     ch_ECPointFormats = [], ch_SignatureAlgs = [], ch_ALPN = [], ch_ServerName = [], ch_SupportedVersions = []\<rparr>"

text \<open>\<open>binary.BigEndian.Uint16(data[i:i+2])\<close>, as a number and as a word.\<close>

definition n16 :: "byte list \<Rightarrow> nat \<Rightarrow> nat" where
  "n16 data i = 256 * unat (data ! i) + unat (data ! (i + 1))"

definition u16_at :: "byte list \<Rightarrow> nat \<Rightarrow> u16" where
  "u16_at data i = of_nat (n16 data i)"

definition str_of :: "byte list \<Rightarrow> string" where
  "str_of bs = map (\<lambda>b. char_of (unat b)) bs"

definition isGREASE :: "u16 \<Rightarrow> bool" where
  "isGREASE val \<longleftrightarrow> val AND 0x0f0f = 0x0a0a"

subsection \<open>Extensions\<close>

definition parseServerName :: "byte list \<Rightarrow> string" where
  "parseServerName data =
     (if length data < 5 then []
      else let nameLen = n16 data 3 in
        if length data < 5 + nameLen then [] else str_of (take nameLen (drop 5 data)))"

function u16_loop :: "byte list \<Rightarrow> nat \<Rightarrow> nat \<Rightarrow> u16 list" where
  "u16_loop data end i =
     (if i + 1 < end \<and> i + 1 < length data then u16_at data i # u16_loop data end (i + 2) else [])"
  by pat_completeness auto
termination by (relation "measure (\<lambda>(data, end, i). end - i)") auto

declare u16_loop.simps [simp del]

definition parseSupportedGroups :: "byte list \<Rightarrow> u16 list" where
  "parseSupportedGroups data = (if length data < 2 then [] else u16_loop data (2 + n16 data 0) 2)"

definition parseECPointFormats :: "byte list \<Rightarrow> byte list" where
  "parseECPointFormats data = (if length data < 1 then [] else take (unat (hd data)) (tl data))"

definition parseSignatureAlgorithms :: "byte list \<Rightarrow> u16 list" where
  "parseSignatureAlgorithms data = (if length data < 2 then [] else u16_loop data (2 + n16 data 0) 2)"

function alpn_loop :: "byte list \<Rightarrow> nat \<Rightarrow> nat \<Rightarrow> string list" where
  "alpn_loop data end pos =
     (if pos < end \<and> pos < length data
      then let pLen = unat (data ! pos) in
        if length data < pos + 1 + pLen then []
        else str_of (take pLen (drop (pos + 1) data)) # alpn_loop data end (pos + 1 + pLen)
      else [])"
  by pat_completeness auto
termination by (relation "measure (\<lambda>(data, end, pos). end - pos)") auto

declare alpn_loop.simps [simp del]

definition parseALPN :: "byte list \<Rightarrow> string list" where
  "parseALPN data = (if length data < 2 then [] else alpn_loop data (2 + n16 data 0) 2)"

definition parseSupportedVersions :: "byte list \<Rightarrow> u16 list" where
  "parseSupportedVersions data = (if length data < 1 then [] else u16_loop data (1 + unat (hd data)) 1)"

definition apply_ext :: "u16 \<Rightarrow> byte list \<Rightarrow> ClientHelloInfo \<Rightarrow> ClientHelloInfo" where
  "apply_ext extType extData info =
     (let info = info\<lparr>ch_Extensions := ch_Extensions info @ [extType]\<rparr> in
      if extType = 0x0000 then info\<lparr>ch_ServerName := parseServerName extData\<rparr>
      else if extType = 0x000a then info\<lparr>ch_EllipticCurves := parseSupportedGroups extData\<rparr>
      else if extType = 0x000b then info\<lparr>ch_ECPointFormats := parseECPointFormats extData\<rparr>
      else if extType = 0x000d then info\<lparr>ch_SignatureAlgs := parseSignatureAlgorithms extData\<rparr>
      else if extType = 0x0010 then info\<lparr>ch_ALPN := parseALPN extData\<rparr>
      else if extType = 0x002b then info\<lparr>ch_SupportedVersions := parseSupportedVersions extData\<rparr>
      else info)"

function ext_loop :: "byte list \<Rightarrow> nat \<Rightarrow> nat \<Rightarrow> ClientHelloInfo \<Rightarrow> ClientHelloInfo" where
  "ext_loop data extEnd pos info =
     (if pos + 4 \<le> extEnd
      then let extType = u16_at data pos; extLen = n16 data (pos + 2)
           in ext_loop data extEnd (pos + 4 + extLen) (apply_ext extType (take extLen (drop (pos + 4) data)) info)
      else info)"
  by pat_completeness auto
termination by (relation "measure (\<lambda>(data, extEnd, pos, info). extEnd - pos)") auto

declare ext_loop.simps [simp del]

definition max_version :: "u16 list \<Rightarrow> u16" where
  "max_version vs = foldl (\<lambda>m v. if m < v \<and> \<not> isGREASE v then v else m) 0 vs"

definition real_version :: "ClientHelloInfo \<Rightarrow> ClientHelloInfo" where
  "real_version info =
     (if 0 < max_version (ch_SupportedVersions info)
      then info\<lparr>ch_TLSVersion := max_version (ch_SupportedVersions info)\<rparr> else info)"

subsection \<open>The handshake\<close>

text \<open>The cipher loop slices the body two bytes at a time, up to its capacity.\<close>

fun cipher_loop :: "byte list \<Rightarrow> nat \<Rightarrow> nat \<Rightarrow> u16 list option" where
  "cipher_loop buf pos csLen =
     (if csLen = 0 then Some []
      else if length buf < pos + 2 then None
      else map_option ((#) (u16_at buf pos)) (cipher_loop buf (pos + 2) (csLen - 2)))"

declare cipher_loop.simps [simp del]

definition parse_rest :: "byte list \<Rightarrow> nat \<Rightarrow> nat \<Rightarrow> ClientHelloInfo \<Rightarrow> hello_error + ClientHelloInfo" where
  "parse_rest buf n pos info =
     (if n \<le> pos then Inl TruncatedCompression
      else let pos = pos + 1 + unat (buf ! pos) in
        if n < pos + 2 then Inr info
        else let extTotalLen = n16 buf pos; pos = pos + 2; extEnd = min (pos + extTotalLen) n
             in Inr (real_version (ext_loop (take n buf) extEnd pos info)))"

definition parseClientHelloBody :: "byte list \<Rightarrow> nat \<Rightarrow> (hello_error + ClientHelloInfo) option" where
  "parseClientHelloBody buf n =
     (if n < 34 then Some (Inl BodyTooShort)
      else if n \<le> 34 then Some (Inl TruncatedSessionID)
      else let pos = 34 + 1 + unat (buf ! 34) in
        if n < pos + 2 then Some (Inl TruncatedCipherLength)
        else let csLen = n16 buf pos; pos = pos + 2 in
          if n < pos + csLen then Some (Inl TruncatedCiphers)
          else case cipher_loop buf pos csLen of
            None \<Rightarrow> None
          | Some cs \<Rightarrow> Some (parse_rest buf n (pos + csLen)
              (empty_hello\<lparr>ch_TLSVersion := u16_at buf 0, ch_CipherSuites := cs\<rparr>)))"

definition ParseClientHello :: "byte list \<Rightarrow> nat \<Rightarrow> (hello_error + ClientHelloInfo) option" where
  "ParseClientHello buf n =
     (if n < 5 then Some (Inl RecordTooShort)
      else if buf ! 0 \<noteq> 0x16 then Some (Inl NotHandshake)
      else let recordLen = n16 buf 3 in
        if n < 5 + recordLen then Some (Inl IncompleteRecord)
        else let hs = drop 5 buf in
          if recordLen < 4 then Some (Inl HandshakeTooShort)
          else if hs ! 0 \<noteq> 0x01 then Some (Inl NotClientHello)
          else let hsLen = 65536 * unat (hs ! 1) + 256 * unat (hs ! 2) + unat (hs ! 3) in
            if recordLen < 4 + hsLen then Some (Inl IncompleteHello)
            else parseClientHelloBody (drop 4 hs) hsLen)"

subsection \<open>When the parser panics\<close>

lemma cipher_loop_None:
  "pos + csLen \<le> length buf \<Longrightarrow> cipher_loop buf pos csLen = None \<longleftrightarrow> odd csLen \<and> length buf = pos + csLen"
proof (induction buf pos csLen rule: cipher_loop.induct)
  case (1 buf pos csLen)
  consider "csLen = 0" | "csLen = 1" | m where "csLen = m + 2" by (metis add_2_eq_Suc' not0_implies_Suc One_nat_def)
  then show ?case
  proof cases
    case 1
    then show ?thesis unfolding cipher_loop.simps [of buf pos csLen] by simp
  next
    case 2
    then show ?thesis
      unfolding cipher_loop.simps [of buf pos csLen] using "1.prems" cipher_loop.simps [of buf "pos + 2" 0] by auto
  next
    case 3
    then show ?thesis using 1 unfolding cipher_loop.simps [of buf pos csLen] by simp
  qed
qed

lemma body_panic:
  assumes "n \<le> length buf" and "parseClientHelloBody buf n = None"
  shows "n = length buf"
  using assms by (auto simp: parseClientHelloBody_def Let_def cipher_loop_None split: if_splits option.splits)

lemma n16_less: "n16 data i < 65536"
  using unat_byte [of "data ! i"] unat_byte [of "data ! (i + 1)"] by (simp add: n16_def)

subsection \<open>Encoded parts\<close>

text \<open>A big-endian 16-bit field, and lists of them.\<close>

definition b16 :: "nat \<Rightarrow> byte list" where
  "b16 n = [of_nat (n div 256), of_nat n]"

lemma length_b16 [simp]: "length (b16 n) = 2"
  by (simp add: b16_def)

lemma unat_of_nat_byte: "unat (of_nat n :: byte) = n mod 256"
  by (simp add: unat_of_nat)

lemma n16_b16:
  assumes "n < 65536" and "length xs = i"
  shows "n16 (xs @ b16 n @ ys) i = n"
proof -
  have "n div 256 < 256" using assms(1) by simp
  then show ?thesis using assms(2) by (simp add: n16_def b16_def nth_append unat_of_nat_byte)
qed

lemma n16_b16_0 [simp]: "n < 65536 \<Longrightarrow> n16 (b16 n @ ys) 0 = n"
  using n16_b16 [of n "[]" 0 ys] by simp

lemma unat_u16: "unat (w :: u16) < 65536"
  by (rule less_le_trans [OF unsigned_less]) simp

lemma u16_at_b16:
  assumes "length xs = i"
  shows "u16_at (xs @ b16 (unat w) @ ys) i = w"
  using n16_b16 [OF unat_u16 assms, of w ys] by (simp add: u16_at_def)

definition enc16s :: "u16 list \<Rightarrow> byte list" where
  "enc16s ws = concat (map (\<lambda>w. b16 (unat w)) ws)"

lemma enc16s_simps [simp]: "enc16s [] = []" "enc16s (w # ws) = b16 (unat w) @ enc16s ws"
  by (simp_all add: enc16s_def)

lemma length_enc16s [simp]: "length (enc16s ws) = 2 * length ws"
  by (induction ws) auto

lemma u16_loop_enc:
  "length xs = i \<Longrightarrow> u16_loop (xs @ enc16s ws) (i + 2 * length ws) i = ws"
proof (induction ws arbitrary: xs i)
  case Nil
  then show ?case by (simp add: u16_loop.simps [of _ i])
next
  case (Cons w ws)
  have "u16_loop ((xs @ b16 (unat w)) @ enc16s ws) (i + 2 + 2 * length ws) (i + 2) = ws"
    by (rule Cons.IH) (simp add: Cons.prems)
  then show ?case
    using Cons.prems u16_at_b16 [of xs i w "enc16s ws"] by (subst u16_loop.simps) (simp add: algebra_simps)
qed

lemma cipher_loop_enc:
  "length xs = i \<Longrightarrow> cipher_loop (xs @ enc16s ws @ ys) i (2 * length ws) = Some ws"
proof (induction ws arbitrary: xs i)
  case Nil
  then show ?case by (simp add: cipher_loop.simps [of _ i])
next
  case (Cons w ws)
  have "cipher_loop ((xs @ b16 (unat w)) @ enc16s ws @ ys) (i + 2) (2 * length ws) = Some ws"
    by (rule Cons.IH) (simp add: Cons.prems)
  then show ?case
    using Cons.prems u16_at_b16 [of xs i w "enc16s ws @ ys"] by (subst cipher_loop.simps) simp
qed

lemma parseSupportedGroups_enc:
  "length ws < 32768 \<Longrightarrow> parseSupportedGroups (b16 (2 * length ws) @ enc16s ws) = ws"
  using u16_loop_enc [of "b16 (2 * length ws)" 2 ws] by (simp add: parseSupportedGroups_def)

lemma parseSignatureAlgorithms_enc:
  "length ws < 32768 \<Longrightarrow> parseSignatureAlgorithms (b16 (2 * length ws) @ enc16s ws) = ws"
  using u16_loop_enc [of "b16 (2 * length ws)" 2 ws] by (simp add: parseSignatureAlgorithms_def)

lemma parseSupportedVersions_enc:
  "length ws < 128 \<Longrightarrow> parseSupportedVersions (of_nat (2 * length ws) # enc16s ws) = ws"
  using u16_loop_enc [of "[of_nat (2 * length ws)]" 1 ws] by (simp add: parseSupportedVersions_def unat_of_nat_byte del: of_nat_mult)

lemma parseECPointFormats_enc: "length fs < 256 \<Longrightarrow> parseECPointFormats (of_nat (length fs) # fs) = fs"
  by (simp add: parseECPointFormats_def unat_of_nat_byte)

lemma str_of_bytes_of [simp]: "str_of (bytes_of s) = s"
proof -
  have "unat (of_char c :: byte) = of_char c" for c
    using unat_of_nat_byte [of "of_char c"] by (simp add: of_nat_of_char)
  then show ?thesis by (simp add: str_of_def bytes_of_def o_def)
qed

lemma length_bytes_of [simp]: "length (bytes_of s) = length s"
  by (simp add: bytes_of_def)

definition enc_sni :: "string \<Rightarrow> byte list" where
  "enc_sni name = b16 (length name + 3) @ 0 # b16 (length name) @ bytes_of name"

lemma parseServerName_enc:
  assumes "length name < 65536"
  shows "parseServerName (enc_sni name) = name"
proof -
  have "n16 (enc_sni name) 3 = length name"
    using n16_b16 [OF assms, of "b16 (length name + 3) @ [0]" 3 "bytes_of name"] by (simp add: enc_sni_def)
  moreover have "drop 5 (enc_sni name) = bytes_of name" "length (enc_sni name) = 5 + length name"
    by (simp_all add: enc_sni_def b16_def)
  ultimately show ?thesis by (simp add: parseServerName_def)
qed

definition enc_protos :: "string list \<Rightarrow> byte list" where
  "enc_protos ps = concat (map (\<lambda>p. of_nat (length p) # bytes_of p) ps)"

lemma alpn_loop_enc:
  "length xs = i \<Longrightarrow> \<forall>p \<in> set ps. length p < 256 \<Longrightarrow>
     alpn_loop (xs @ enc_protos ps) (i + length (enc_protos ps)) i = ps"
proof (induction ps arbitrary: xs i)
  case Nil
  then show ?case by (simp add: enc_protos_def alpn_loop.simps [of _ i])
next
  case (Cons p ps)
  let ?d = "xs @ enc_protos (p # ps)"
  have enc: "enc_protos (p # ps) = of_nat (length p) # bytes_of p @ enc_protos ps" by (simp add: enc_protos_def)
  have len: "unat (?d ! i) = length p" using Cons.prems by (simp add: enc nth_append unat_of_nat_byte)
  have tk: "str_of (take (length p) (drop (i + 1) ?d)) = p"
    using Cons.prems(1) by (simp add: enc)
  have "alpn_loop ((xs @ of_nat (length p) # bytes_of p) @ enc_protos ps)
      (i + 1 + length p + length (enc_protos ps)) (i + 1 + length p) = ps"
    by (rule Cons.IH) (use Cons.prems in auto)
  then have "alpn_loop ?d (i + length (enc_protos (p # ps))) (i + 1 + length p) = ps"
    by (simp add: enc algebra_simps)
  then show ?case
    using Cons.prems(1) tk len by (subst alpn_loop.simps) (simp add: enc Let_def)
qed

lemma parseALPN_enc:
  assumes "\<forall>p \<in> set ps. length p < 256" and "length (enc_protos ps) < 65536"
  shows "parseALPN (b16 (length (enc_protos ps)) @ enc_protos ps) = ps"
  using alpn_loop_enc [of "b16 (length (enc_protos ps))" 2 ps] assms by (simp add: parseALPN_def)

subsection \<open>Encoded messages\<close>

text \<open>What a client sends: the extensions the parser knows, with their content, and others as bytes.\<close>

datatype extension = Server_name string | Groups "u16 list" | Formats "byte list" | Sig_algs "u16 list"
  | Protos "string list" | Versions "u16 list" | Other_ext u16 "byte list"

fun ext_type :: "extension \<Rightarrow> u16" where
  "ext_type (Server_name s) = 0x0000"
| "ext_type (Groups gs) = 0x000a"
| "ext_type (Formats fs) = 0x000b"
| "ext_type (Sig_algs ss) = 0x000d"
| "ext_type (Protos ps) = 0x0010"
| "ext_type (Versions vs) = 0x002b"
| "ext_type (Other_ext t d) = t"

fun ext_data :: "extension \<Rightarrow> byte list" where
  "ext_data (Server_name s) = enc_sni s"
| "ext_data (Groups gs) = b16 (2 * length gs) @ enc16s gs"
| "ext_data (Formats fs) = of_nat (length fs) # fs"
| "ext_data (Sig_algs ss) = b16 (2 * length ss) @ enc16s ss"
| "ext_data (Protos ps) = b16 (length (enc_protos ps)) @ enc_protos ps"
| "ext_data (Versions vs) = of_nat (2 * length vs) # enc16s vs"
| "ext_data (Other_ext t d) = d"

fun ext_fits :: "extension \<Rightarrow> bool" where
  "ext_fits (Server_name s) = (length s < 65531)"
| "ext_fits (Groups gs) = (length gs < 32767)"
| "ext_fits (Formats fs) = (length fs < 256)"
| "ext_fits (Sig_algs ss) = (length ss < 32767)"
| "ext_fits (Protos ps) = (length (enc_protos ps) < 65534 \<and> (\<forall>p \<in> set ps. length p < 256))"
| "ext_fits (Versions vs) = (length vs < 128)"
| "ext_fits (Other_ext t d) = (length d < 65536 \<and> t \<notin> {0x0000, 0x000a, 0x000b, 0x000d, 0x0010, 0x002b})"

fun see_ext :: "extension \<Rightarrow> ClientHelloInfo \<Rightarrow> ClientHelloInfo" where
  "see_ext e info =
     (let info = info\<lparr>ch_Extensions := ch_Extensions info @ [ext_type e]\<rparr> in
      case e of
        Server_name s \<Rightarrow> info\<lparr>ch_ServerName := s\<rparr>
      | Groups gs \<Rightarrow> info\<lparr>ch_EllipticCurves := gs\<rparr>
      | Formats fs \<Rightarrow> info\<lparr>ch_ECPointFormats := fs\<rparr>
      | Sig_algs ss \<Rightarrow> info\<lparr>ch_SignatureAlgs := ss\<rparr>
      | Protos ps \<Rightarrow> info\<lparr>ch_ALPN := ps\<rparr>
      | Versions vs \<Rightarrow> info\<lparr>ch_SupportedVersions := vs\<rparr>
      | Other_ext t d \<Rightarrow> info)"

definition enc_ext :: "extension \<Rightarrow> byte list" where
  "enc_ext e = b16 (unat (ext_type e)) @ b16 (length (ext_data e)) @ ext_data e"

definition enc_exts :: "extension list \<Rightarrow> byte list" where
  "enc_exts es = concat (map enc_ext es)"

lemma enc_exts_simps [simp]: "enc_exts [] = []" "enc_exts (e # es) = enc_ext e @ enc_exts es"
  by (simp_all add: enc_exts_def)

lemma ext_data_fits: "ext_fits e \<Longrightarrow> length (ext_data e) < 65536"
  by (cases e) (auto simp: enc_sni_def)

lemma apply_ext_enc: "ext_fits e \<Longrightarrow> apply_ext (ext_type e) (ext_data e) info = see_ext e info"
  by (cases e) (auto simp: apply_ext_def Let_def parseServerName_enc parseSupportedGroups_enc
      parseECPointFormats_enc parseSignatureAlgorithms_enc parseALPN_enc parseSupportedVersions_enc simp del: of_nat_mult)

lemma ext_loop_enc:
  "length xs = pos \<Longrightarrow> \<forall>e \<in> set es. ext_fits e \<Longrightarrow>
     ext_loop (xs @ enc_exts es) (pos + length (enc_exts es)) pos info = fold see_ext es info"
proof (induction es arbitrary: xs pos info)
  case Nil
  then show ?case by (simp add: ext_loop.simps [of _ pos])
next
  case (Cons e es)
  let ?d = "xs @ enc_exts (e # es)" and ?n = "length (ext_data e)"
  have fits: "ext_fits e" "?n < 65536" using Cons.prems(2) ext_data_fits by auto
  have d: "?d = xs @ b16 (unat (ext_type e)) @ b16 ?n @ ext_data e @ enc_exts es" by (simp add: enc_ext_def)
  have len: "length (enc_exts (e # es)) = 4 + ?n + length (enc_exts es)" by (simp add: enc_ext_def)
  have ty: "u16_at ?d pos = ext_type e" unfolding d by (rule u16_at_b16 [OF Cons.prems(1)])
  have n: "n16 ?d (pos + 2) = ?n"
    using n16_b16 [OF fits(2), of "xs @ b16 (unat (ext_type e))" "pos + 2" "ext_data e @ enc_exts es"] Cons.prems(1)
    unfolding d by simp
  have "drop (pos + 4) ?d = ext_data e @ enc_exts es"
    using Cons.prems(1) unfolding d by (simp add: b16_def)
  then have dat: "take ?n (drop (pos + 4) ?d) = ext_data e" by simp
  have "ext_loop ((xs @ enc_ext e) @ enc_exts es) (pos + 4 + ?n + length (enc_exts es)) (pos + 4 + ?n) (see_ext e info)
      = fold see_ext es (see_ext e info)"
    by (rule Cons.IH) (use Cons.prems in \<open>auto simp: enc_ext_def\<close>)
  then have rec: "ext_loop ?d (pos + length (enc_exts (e # es))) (pos + 4 + ?n) (see_ext e info) = fold see_ext es (see_ext e info)"
    unfolding len by (simp only: enc_exts_simps append.assoc add.assoc)
  show ?case
    by (subst ext_loop.simps) (simp only: ty n dat len Let_def apply_ext_enc [OF fits(1)] rec [unfolded len] fold.simps o_def, simp)
qed

record hello =
  h_version :: u16
  h_random :: "byte list"
  h_session :: "byte list"
  h_ciphers :: "u16 list"
  h_compression :: "byte list"
  h_extensions :: "extension list"

definition enc_body :: "hello \<Rightarrow> byte list" where
  "enc_body h = b16 (unat (h_version h)) @ h_random h @ of_nat (length (h_session h)) # h_session h @
     b16 (2 * length (h_ciphers h)) @ enc16s (h_ciphers h) @
     of_nat (length (h_compression h)) # h_compression h @
     b16 (length (enc_exts (h_extensions h))) @ enc_exts (h_extensions h)"

definition enc_hello :: "hello \<Rightarrow> byte list" where
  "enc_hello h = [0x16, 0x03, 0x01] @ b16 (4 + length (enc_body h)) @ 0x01 # 0 # b16 (length (enc_body h)) @ enc_body h"

definition hello_fits :: "hello \<Rightarrow> bool" where
  "hello_fits h \<longleftrightarrow> length (h_random h) = 32 \<and> length (h_session h) < 256 \<and> length (h_compression h) < 256 \<and>
     4 + length (enc_body h) < 65536 \<and> (\<forall>e \<in> set (h_extensions h). ext_fits e)"

definition hello_info :: "hello \<Rightarrow> ClientHelloInfo" where
  "hello_info h = real_version (fold see_ext (h_extensions h)
     (empty_hello\<lparr>ch_TLSVersion := h_version h, ch_CipherSuites := h_ciphers h\<rparr>))"

lemma nth_at: "length xs = i \<Longrightarrow> (xs @ y # ys) ! i = y"
  by (simp add: nth_append)

lemma parse_rest_enc:
  assumes "length xs = pos" and "length cmp < 256" and "length (enc_exts es) < 65536" and "\<forall>e \<in> set es. ext_fits e"
  shows "parse_rest (xs @ of_nat (length cmp) # cmp @ b16 (length (enc_exts es)) @ enc_exts es @ beyond)
    (pos + 1 + length cmp + 2 + length (enc_exts es)) pos info = Inr (real_version (fold see_ext es info))"
proof -
  let ?E = "enc_exts es" and ?c = "of_nat (length cmp) :: byte"
  let ?buf = "xs @ ?c # cmp @ b16 (length ?E) @ ?E @ beyond" and ?n = "pos + 1 + length cmp + 2 + length (enc_exts es)"
  let ?hd = "xs @ ?c # cmp @ b16 (length ?E)"
  have c: "?buf ! pos = ?c" by (rule nth_at [OF assms(1)])
  have uc: "unat ?c = length cmp" using assms(2) by (simp add: unat_of_nat_byte)
  have e: "n16 ?buf (pos + 1 + length cmp) = length ?E"
    using n16_b16 [OF assms(3), of "xs @ ?c # cmp" "pos + 1 + length cmp" "?E @ beyond"] assms(1) by simp
  have "?buf = (?hd @ ?E) @ beyond" "?n = length (?hd @ ?E)" using assms(1) by simp_all
  then have tk: "take ?n ?buf = ?hd @ ?E" using append_eq_conv_conj by metis
  have "ext_loop (?hd @ ?E) (pos + 1 + length cmp + 2 + length ?E) (pos + 1 + length cmp + 2) info = fold see_ext es info"
    by (rule ext_loop_enc) (use assms in auto)
  then show ?thesis unfolding parse_rest_def Let_def c uc e tk by simp
qed

lemma parse_body_enc:
  assumes "hello_fits h"
  shows "parseClientHelloBody (enc_body h @ beyond) (length (enc_body h)) = Some (Inr (hello_info h))"
proof -
  let ?sid = "h_session h" and ?cs = "h_ciphers h" and ?E = "enc_exts (h_extensions h)" and ?comp = "h_compression h"
  let ?buf = "enc_body h @ beyond" and ?s = "of_nat (length (h_session h)) :: byte"
  let ?pre = "b16 (unat (h_version h)) @ h_random h"
  let ?pre2 = "?pre @ ?s # ?sid"
  let ?rest = "of_nat (length ?comp) # ?comp @ b16 (length ?E) @ ?E @ beyond"
  have buf: "?buf = ?pre2 @ b16 (2 * length ?cs) @ enc16s ?cs @ ?rest" by (simp add: enc_body_def)
  have len: "length (enc_body h) = 35 + length ?sid + 2 + 2 * length ?cs + 1 + length ?comp + 2 + length ?E"
    using assms by (simp add: enc_body_def hello_fits_def)
  have pre: "length ?pre = 34" "length ?pre2 = 35 + length ?sid" using assms by (simp_all add: hello_fits_def)
  have bounds: "length ?sid < 256" "length ?comp < 256" "2 * length ?cs < 65536" "length ?E < 65536"
    using assms len by (auto simp: hello_fits_def)
  have s: "?buf ! 34 = ?s" "unat ?s = length ?sid"
    using nth_at [OF pre(1)] bounds(1) by (simp_all add: buf unat_of_nat_byte)
  have cl: "n16 ?buf (35 + length ?sid) = 2 * length ?cs"
    unfolding buf by (rule n16_b16 [OF bounds(3) pre(2)])
  have v: "u16_at ?buf 0 = h_version h"
    using u16_at_b16 [of "[]" 0] by (simp add: buf)
  have loop: "cipher_loop ?buf (35 + length ?sid + 2) (2 * length ?cs) = Some ?cs"
    using cipher_loop_enc [of "?pre2 @ b16 (2 * length ?cs)" "35 + length ?sid + 2" ?cs ?rest] pre(2) by (simp add: buf)
  have rest: "parse_rest ?buf (length (enc_body h)) (35 + length ?sid + 2 + 2 * length ?cs) info =
      Inr (real_version (fold see_ext (h_extensions h) info))" for info
    using parse_rest_enc [of "?pre2 @ b16 (2 * length ?cs) @ enc16s ?cs" "35 + length ?sid + 2 + 2 * length ?cs" ?comp
        "h_extensions h" beyond info] pre(2) bounds assms
    by (simp add: buf len hello_fits_def)
  have pos: "34 + 1 + length ?sid = 35 + length ?sid" by simp
  show ?thesis
    unfolding parseClientHelloBody_def s pos cl Let_def loop rest v hello_info_def option.case
    by (simp add: len)
qed

subsection \<open>Properties\<close>

text \<open>
  C15: The parser reads what clients write. Every well-formed ClientHello, whatever follows it in the buffer, is
  parsed without an error or a panic into its cipher suites, its extension types in order, the
  contents of the extensions (the last one of a kind), and its version, which is the highest
  supported version that is not GREASE where that extension is present.
\<close>

theorem client_hello_round_trip:
  assumes "hello_fits h"
  shows "ParseClientHello (enc_hello h @ beyond) (length (enc_hello h)) = Some (Inr (hello_info h))"
proof -
  let ?n = "length (enc_body h)" and ?buf = "enc_hello h @ beyond"
  have n: "4 + ?n < 65536" using assms by (simp add: hello_fits_def)
  have r: "n16 ?buf 3 = 4 + ?n"
    using n16_b16 [OF n, of "[0x16, 0x03, 0x01]" 3 "0x01 # 0 # b16 ?n @ enc_body h @ beyond"]
    by (simp add: enc_hello_def)
  have hs: "drop 5 ?buf = 0x01 # 0 # of_nat (?n div 256) # of_nat ?n # enc_body h @ beyond"
    by (simp add: enc_hello_def b16_def)
  have len: "length (enc_hello h) = 9 + ?n" by (simp add: enc_hello_def)
  have "?n div 256 < 256" using n by simp
  then have "256 * unat (of_nat (?n div 256) :: byte) + unat (of_nat ?n :: byte) = ?n"
    by (simp add: unat_of_nat_byte)
  then show ?thesis
    using parse_body_enc [OF assms, of beyond]
    unfolding ParseClientHello_def Let_def r hs len by (simp add: enc_hello_def)
qed

definition demo_hello :: hello where
  "demo_hello = \<lparr>h_version = 0x0303, h_random = replicate 32 7, h_session = [1, 2], h_ciphers = [0x0a0a, 0x1301],
     h_compression = [0], h_extensions = [Server_name ''a.org'', Groups [29, 23], Protos [''h2'', ''http/1.1''],
       Versions [0x0304, 0x0303], Other_ext 0x0017 []]\<rparr>"

theorem client_hello_round_trip_witness:
  "ParseClientHello (enc_hello demo_hello @ [9]) (length (enc_hello demo_hello)) = Some (Inr (hello_info demo_hello)) \<and>
   ch_ServerName (hello_info demo_hello) = ''a.org'' \<and> ch_TLSVersion (hello_info demo_hello) = 0x0304"
proof (intro conjI)
  have "hello_fits demo_hello"
    by (simp add: hello_fits_def demo_hello_def enc_body_def enc_ext_def enc_sni_def enc_protos_def)
  then show "ParseClientHello (enc_hello demo_hello @ [9]) (length (enc_hello demo_hello)) = Some (Inr (hello_info demo_hello))"
    by (rule client_hello_round_trip)
  show "ch_ServerName (hello_info demo_hello) = ''a.org''" "ch_TLSVersion (hello_info demo_hello) = 0x0304"
    by code_simp+
qed

text \<open>
  When the parser panics. A message in a buffer with at least one more byte of capacity never panics; a
  cipher list of odd length at the very end of a full buffer does, in place of an error.
\<close>

theorem client_hello_panic:
  "(n < length buf \<longrightarrow> ParseClientHello buf n \<noteq> None) \<and>
   ParseClientHello ([0x16, 3, 1, 0, 42, 1, 0, 0, 38, 3, 3] @ replicate 32 0 @ [0, 0, 1, 5]) 47 = None \<and>
   ParseClientHello ([0x16, 3, 1, 0, 42, 1, 0, 0, 38, 3, 3] @ replicate 32 0 @ [0, 0, 1, 5, 0]) 47 =
     Some (Inl TruncatedCompression)"
proof (intro conjI impI)
  assume "n < length buf"
  show "ParseClientHello buf n \<noteq> None"
  proof
    let ?hs = "drop 5 buf"
    let ?m = "65536 * unat (?hs ! 1) + 256 * unat (?hs ! 2) + unat (?hs ! 3)"
    assume "ParseClientHello buf n = None"
    then have "parseClientHelloBody (drop 4 ?hs) ?m = None" and m: "4 + ?m \<le> n16 buf 3" "5 + n16 buf 3 \<le> n"
      by (auto simp: ParseClientHello_def Let_def split: if_splits)
    then have "?m = length (drop 4 ?hs)" using \<open>n < length buf\<close> by (intro body_panic) auto
    with m \<open>n < length buf\<close> show False by (simp only: length_drop)
  qed
qed (simp_all add: ParseClientHello_def parseClientHelloBody_def parse_rest_def Let_def n16_def nth_append
    cipher_loop.simps [of _ 37] cipher_loop.simps [of _ _ 0])

end
