(* ===== verification/Fingerprint.thy ===== *)
theory Fingerprint
  imports Tls_Parser Kv_Store Float64 "HOL-Library.Multiset"
begin

section \<open>TLS and HTTP/2 fingerprints (fingerprint/)\<close>

text \<open>
  JA3 and JA4 strings and hashes, the HTTP/2 frame parser and its fingerprint, the databases of known
  browsers, the composite trust score, the per-connection store and the sniffer of the listener. A
  database is a map from hashes; the functions take it as an argument. Lemmas: what the
  hashes do not depend on, what the databases can answer, and the range of the composite score.
\<close>

record BrowserInfo =
  bi_Name :: string
  bi_Version :: string
  bi_Platform :: string
  bi_TrustScore :: f64

type_synonym browser_db = "(string, BrowserInfo) gomap"

record JA3Result =
  j3_Hash :: string
  j3_Raw :: string
  j3_TLSVersion :: u16
  j3_Known :: bool
  j3_BrowserID :: string
  j3_TrustScore :: f64

record JA4Result =
  j4_Hash :: string
  j4_Raw :: string
  j4_TLSVersion :: string
  j4_SNI :: string
  j4_Known :: bool
  j4_TrustScore :: f64

record H2Fingerprint =
  h2_Hash :: string
  h2_SettingsOrder :: string
  h2_WindowUpdate :: u32
  h2_PriorityFrames :: string
  h2_HeaderOrder :: string
  h2_Known :: bool
  h2_TrustScore :: f64

definition zero_H2 :: H2Fingerprint where
  "zero_H2 = \<lparr>h2_Hash = [], h2_SettingsOrder = [], h2_WindowUpdate = 0, h2_PriorityFrames = [],
     h2_HeaderOrder = [], h2_Known = False, h2_TrustScore = 0\<rparr>"

subsection \<open>JA3 and JA4\<close>

definition md5_hex :: "string \<Rightarrow> string" where
  "md5_hex s = hex_encode (md5 (bytes_of s))"

definition filterGREASE16 :: "u16 list \<Rightarrow> u16 list" where
  "filterGREASE16 values = filter (\<lambda>v. \<not> isGREASE v) values"

definition joinUint16 :: "u16 list \<Rightarrow> string \<Rightarrow> string" where
  "joinUint16 values sep = join_with sep (map (\<lambda>v. itoa (int (unat v))) values)"

definition ja3_raw :: "u16 \<Rightarrow> u16 list \<Rightarrow> u16 list \<Rightarrow> u16 list \<Rightarrow> byte list \<Rightarrow> string" where
  "ja3_raw version cipherSuites extensions ellipticCurves ecPointFormats =
     join_with '','' [itoa (int (unat version)),
       joinUint16 (filterGREASE16 cipherSuites) ''-'',
       joinUint16 (filterGREASE16 extensions) ''-'',
       joinUint16 (filterGREASE16 ellipticCurves) ''-'',
       join_with ''-'' (map (\<lambda>v. itoa (int (unat v))) ecPointFormats)]"

definition JA3 :: "browser_db \<Rightarrow> u16 \<Rightarrow> u16 list \<Rightarrow> u16 list \<Rightarrow> u16 list \<Rightarrow> byte list \<Rightarrow> JA3Result" where
  "JA3 db version cipherSuites extensions ellipticCurves ecPointFormats =
     (let raw = ja3_raw version cipherSuites extensions ellipticCurves ecPointFormats; hash = md5_hex raw;
          result = \<lparr>j3_Hash = hash, j3_Raw = raw, j3_TLSVersion = version, j3_Known = False,
                    j3_BrowserID = [], j3_TrustScore = 0\<rparr>
      in case map_of db hash of
           Some bi \<Rightarrow> result\<lparr>j3_Known := True, j3_BrowserID := bi_Name bi, j3_TrustScore := bi_TrustScore bi\<rparr>
         | None \<Rightarrow> result)"

definition truncatedHash :: "string \<Rightarrow> nat \<Rightarrow> string" where
  "truncatedHash input n = (let h = md5_hex input in if n < length h then take n h else h)"

definition ja4_version :: "u16 \<Rightarrow> string" where
  "ja4_version version =
     (if version = 0x0304 then ''13'' else if version = 0x0303 then ''12'' else if version = 0x0302 then ''11''
      else if version = 0x0301 then ''10'' else ''00'')"

definition pad2 :: "nat \<Rightarrow> string" where
  "pad2 n = (if n < 10 then CHR ''0'' # show_nat n else show_nat n)"

text \<open>The slice of the first two bytes of the protocol name panics on a name of one byte.\<close>

definition JA4 :: "string \<Rightarrow> u16 \<Rightarrow> string \<Rightarrow> u16 list \<Rightarrow> u16 list \<Rightarrow> u16 list \<Rightarrow> string \<Rightarrow> JA4Result option" where
  "JA4 proto version sni cipherSuites extensions sigAlgs alpn =
     (if length alpn = 1 then None
      else let cs = filterGREASE16 cipherSuites; ext = filterGREASE16 extensions;
               parts = [if proto = ''tcp'' then ''t'' else if proto = ''quic'' then ''q'' else ''t'',
                        ja4_version version, if sni \<noteq> [] then ''d'' else ''i'',
                        pad2 (length cs), pad2 (length ext), if alpn \<noteq> [] then take 2 alpn else ''00''];
               csHash = truncatedHash (joinUint16 (sort cs) '','') 12;
               extHash = truncatedHash (joinUint16 (sort ext) '','') 12
           in Some \<lparr>j4_Hash = concat parts @ ''_'' @ csHash @ ''_'' @ extHash,
                j4_Raw = join_with ''_'' (parts @ [csHash, extHash]),
                j4_TLSVersion = ja4_version version, j4_SNI = sni, j4_Known = False, j4_TrustScore = 0\<rparr>)"

definition ComputeJA3FromClientHello :: "browser_db \<Rightarrow> ClientHelloInfo \<Rightarrow> JA3Result" where
  "ComputeJA3FromClientHello db info =
     JA3 db (ch_TLSVersion info) (ch_CipherSuites info) (ch_Extensions info) (ch_EllipticCurves info) (ch_ECPointFormats info)"

definition ComputeJA4FromClientHello :: "ClientHelloInfo \<Rightarrow> JA4Result option" where
  "ComputeJA4FromClientHello info =
     JA4 ''tcp'' (ch_TLSVersion info) (ch_ServerName info) (ch_CipherSuites info) (ch_Extensions info)
       (ch_SignatureAlgs info) (case ch_ALPN info of [] \<Rightarrow> [] | p # ps \<Rightarrow> p)"

record FullFingerprint =
  ff_ClientHello :: ClientHelloInfo
  ff_JA3 :: JA3Result
  ff_JA4 :: JA4Result
  ff_ServerName :: string

definition FullFingerprintFromRaw ::
  "browser_db \<Rightarrow> byte list \<Rightarrow> nat \<Rightarrow> (hello_error + FullFingerprint) option" where
  "FullFingerprintFromRaw db buf n =
     (case ParseClientHello buf n of
        None \<Rightarrow> None
      | Some (Inl err) \<Rightarrow> Some (Inl err)
      | Some (Inr info) \<Rightarrow>
          map_option (\<lambda>ja4. Inr \<lparr>ff_ClientHello = info, ff_JA3 = ComputeJA3FromClientHello db info, ff_JA4 = ja4,
              ff_ServerName = ch_ServerName info\<rparr>) (ComputeJA4FromClientHello info))"

subsection \<open>HTTP/2\<close>

record H2Frame =
  fr_Length :: nat
  fr_Type :: byte
  fr_Flags :: byte
  fr_StreamID :: u32
  fr_Payload :: "byte list"

definition n32 :: "byte list \<Rightarrow> nat \<Rightarrow> nat" where
  "n32 data i = 65536 * n16 data i + n16 data (i + 2)"

definition u32_at :: "byte list \<Rightarrow> nat \<Rightarrow> u32" where
  "u32_at data i = of_nat (n32 data i)"

definition h2_preface :: "byte list" where
  "h2_preface = bytes_of (''PRI * HTTP/2.0'' @ [CHR 0x0d, CHR 0x0a, CHR 0x0d, CHR 0x0a] @ ''SM'' @
     [CHR 0x0d, CHR 0x0a, CHR 0x0d, CHR 0x0a])"

definition ParseH2Preface :: "byte list \<Rightarrow> bool" where
  "ParseH2Preface data \<longleftrightarrow> length h2_preface \<le> length data \<and> take (length h2_preface) data = h2_preface"

text \<open>The loop over the frames; \<open>k\<close> frames are still wanted.\<close>

function h2_frames :: "byte list \<Rightarrow> nat \<Rightarrow> nat \<Rightarrow> H2Frame list" where
  "h2_frames data k pos =
     (if pos + 9 \<le> length data
      then let len = 65536 * unat (data ! pos) + 256 * unat (data ! (pos + 1)) + unat (data ! (pos + 2)) in
        if length data < pos + 9 + len then []
        else \<lparr>fr_Length = len, fr_Type = data ! (pos + 3), fr_Flags = data ! (pos + 4),
              fr_StreamID = u32_at data (pos + 5) AND 0x7FFFFFFF, fr_Payload = take len (drop (pos + 9) data)\<rparr> #
             (if k \<le> 1 then [] else h2_frames data (k - 1) (pos + 9 + len))
      else [])"
  by pat_completeness auto
termination by (relation "measure (\<lambda>(data, k, pos). length data - pos)") auto

declare h2_frames.simps [simp del]

definition ParseH2Frames :: "byte list \<Rightarrow> H2Frame list" where
  "ParseH2Frames data = h2_frames data 20 (if ParseH2Preface data then length h2_preface else 0)"

fun h2_settings :: "byte list \<Rightarrow> (u16 \<times> u32) list" where
  "h2_settings (a # b # c # d # e # f # payload) =
     (u16_at [a, b] 0, u32_at [c, d, e, f] 0) # h2_settings payload"
| "h2_settings _ = []"

definition ParseH2SettingsFrame :: "byte list \<Rightarrow> (u16 \<times> u32) list" where
  "ParseH2SettingsFrame payload = h2_settings payload"

record H2PriorityInfo =
  pi_StreamID :: u32
  pi_Exclusive :: bool
  pi_DependsOn :: u32
  pi_Weight :: byte

definition ParseH2PriorityFrame :: "byte list \<Rightarrow> u32 \<Rightarrow> H2PriorityInfo option" where
  "ParseH2PriorityFrame payload streamID =
     (if length payload < 5 then None
      else let depAndExcl = u32_at payload 0
           in Some \<lparr>pi_StreamID = streamID, pi_Exclusive = (depAndExcl AND 0x80000000 \<noteq> 0),
                pi_DependsOn = depAndExcl AND 0x7FFFFFFF, pi_Weight = payload ! 4\<rparr>)"

definition show_u32 :: "u32 \<Rightarrow> string" where
  "show_u32 w = itoa (int (unat w))"

definition show_priority :: "H2PriorityInfo \<Rightarrow> string" where
  "show_priority pri = join_with '':'' [show_u32 (pi_StreamID pri), if pi_Exclusive pri then ''1'' else ''0'',
     show_u32 (pi_DependsOn pri), itoa (int (unat (pi_Weight pri)))]"

type_synonym h2_acc = "string list \<times> string list \<times> u32"

definition h2_frame_step :: "H2Frame \<Rightarrow> h2_acc \<Rightarrow> h2_acc" where
  "h2_frame_step f acc = (case acc of (settings, priorities, window) \<Rightarrow>
     if fr_Type f = 0x04 then
       (if fr_Flags f AND 0x01 \<noteq> 0 then acc
        else (settings @ map (\<lambda>(i, v). itoa (int (unat i)) @ '':'' @ show_u32 v) (ParseH2SettingsFrame (fr_Payload f)),
              priorities, window))
     else if fr_Type f = 0x08 then
       (if 4 \<le> length (fr_Payload f) then (settings, priorities, u32_at (fr_Payload f) 0 AND 0x7FFFFFFF) else acc)
     else if fr_Type f = 0x02 then
       (case ParseH2PriorityFrame (fr_Payload f) (fr_StreamID f) of
          Some pri \<Rightarrow> (settings, priorities @ [show_priority pri], window) | None \<Rightarrow> acc)
     else if fr_Type f = 0x01 \<and> fr_Flags f AND 0x20 \<noteq> 0 \<and> 5 \<le> length (fr_Payload f) then
       (case ParseH2PriorityFrame (take 5 (fr_Payload f)) (fr_StreamID f) of
          Some pri \<Rightarrow> (settings, priorities @ [show_priority pri], window) | None \<Rightarrow> acc)
     else acc)"

definition known_h2 :: "browser_db \<Rightarrow> H2Fingerprint \<Rightarrow> H2Fingerprint" where
  "known_h2 db fp = (case map_of db (h2_Hash fp) of
       Some bi \<Rightarrow> fp\<lparr>h2_Known := True, h2_TrustScore := bi_TrustScore bi\<rparr> | None \<Rightarrow> fp)"

definition ExtractH2Fingerprint :: "browser_db \<Rightarrow> H2Frame list \<Rightarrow> H2Fingerprint" where
  "ExtractH2Fingerprint db frames =
     (let (settings, priorities, window) = fold h2_frame_step frames ([], [], 0);
          order = join_with '';'' settings; prio = join_with ''|'' priorities
      in known_h2 db (zero_H2\<lparr>h2_SettingsOrder := order, h2_WindowUpdate := window, h2_PriorityFrames := prio,
           h2_Hash := md5_hex (order @ ''|'' @ show_u32 window @ ''|'' @ prio)\<rparr>))"

subsection \<open>Databases\<close>

definition browser :: "string \<Rightarrow> string \<Rightarrow> f64 \<Rightarrow> BrowserInfo" where
  "browser name platform trust = \<lparr>bi_Name = name, bi_Version = [], bi_Platform = platform, bi_TrustScore = trust\<rparr>"

definition store_one :: "string \<Rightarrow> BrowserInfo \<Rightarrow> browser_db \<Rightarrow> browser_db" where
  "store_one h bi db = AList.update h bi db"

definition store_all :: "(string \<Rightarrow> BrowserInfo) \<Rightarrow> string list \<Rightarrow> browser_db \<Rightarrow> browser_db" where
  "store_all f hs db = fold (\<lambda>h. store_one h (f h)) hs db"

definition store_named :: "string \<Rightarrow> f64 \<Rightarrow> (string \<times> string) list \<Rightarrow> browser_db \<Rightarrow> browser_db" where
  "store_named platform trust rows db = fold (\<lambda>(h, name). store_one h (browser name platform trust)) rows db"

definition InitKnownBrowsers :: "(string, BrowserInfo) gomap \<Rightarrow> (string, BrowserInfo) gomap" where
  "InitKnownBrowsers db =
     (fold (\<lambda>f. f) [
     store_all (\<lambda>h. browser ''Chrome'' [] 90) [
         ''b32309a26951912be7dba376398abc3b'',
         ''cd08e31494f9531f560d64c695473da9'',
         ''a0e9f5d64349fb13191bc781f81f42e1'',
         ''b985f96c93d7ef2746a570e563b1e984''],
     store_all (\<lambda>h. browser ''Firefox'' [] 90) [
         ''588c4c43324290f3f1732d5975f6c3d6'',
         ''b4069ce0b3e88a1d82900c0e3a683e39'',
         ''7d5faccf34ed5bea254b0e7fd4a60e20''],
     store_all (\<lambda>h. browser ''Safari'' [] 90) [
         ''773906b0efdefa24a7f2b8eb6985bf37'',
         ''96a29f13c8b4c6573e7e2dfe5e14f9e0''],
     store_all (\<lambda>h. browser ''Edge'' [] 85) [
         ''d5e710fb25a94a7f61f6d8a8a8c47a2d''],
     store_all (\<lambda>h. browser ''Bot/Tool'' [] 5) [
         ''e7d705a3286e19ea42f587b344ee6865'',
         ''36f1b0d87b0951c68ef6d7a0d5e0c6f0'',
         ''1138de370e523f55c8b4a065c4c2a8a6'',
         ''6734f37431670b3ab4292b8f60f29984'',
         ''209e1233aa450f8ac6a9d4a66f11e87f'']] db)"

definition initExtendedJA3Database :: "(string, BrowserInfo) gomap \<Rightarrow> (string, BrowserInfo) gomap" where
  "initExtendedJA3Database db =
     (fold (\<lambda>f. f) [
     store_named ''Desktop'' 92 [
         (''b32309a26951912be7dba376398abc3b'', ''Chrome 120+ Windows''),
         (''cd08e31494f9531f560d64c695473da9'', ''Chrome 115-119 Windows''),
         (''a0e9f5d64349fb13191bc781f81f42e1'', ''Chrome 110-114 Windows''),
         (''3b5074b1b5d032e5620f69f9f700ff0e'', ''Chrome 120+ macOS''),
         (''2bc0e2a85f5708eaa2c2a16d94749fa7'', ''Chrome 120+ Linux''),
         (''19e29534fd49dd27d09234e639c4057e'', ''Chrome 100-109''),
         (''bc6c386f480ee97b9d9e52d472b772d8'', ''Chrome 90-99''),
         (''8916410db2f51848e87f6f0e1dc51b20'', ''Chrome 80-89'')],
     store_named ''Mobile'' 88 [
         (''b985f96c93d7ef2746a570e563b1e984'', ''Chrome Android 120+''),
         (''bc36cd3c72654808c98226c8b1d0bd3e'', ''Chrome Android 110-119''),
         (''68b1744b95f35c29b9f084d2b10afcdd'', ''Chrome iOS'')],
     store_named ''Desktop'' 92 [
         (''588c4c43324290f3f1732d5975f6c3d6'', ''Firefox 120+ Windows''),
         (''b4069ce0b3e88a1d82900c0e3a683e39'', ''Firefox 115-119''),
         (''7d5faccf34ed5bea254b0e7fd4a60e20'', ''Firefox ESR 115''),
         (''e398bad83264d56575ff027e04b89499'', ''Firefox 110-114''),
         (''21ae75f9db72ea76a9d7c2c7fb8c6b36'', ''Firefox 100-109''),
         (''839bbe52ce4e8fb0d2e196502b9e6882'', ''Firefox 90-99'')],
     store_named ''Mobile'' 87 [
         (''94650e47f96bec9e1e37e8cd88bd7e53'', ''Firefox Android 120+''),
         (''c17e5a03e16c75a2bb7e24cdd07a62e8'', ''Firefox iOS'')],
     store_named ''Apple'' 93 [
         (''773906b0efdefa24a7f2b8eb6985bf37'', ''Safari 17+ macOS''),
         (''96a29f13c8b4c6573e7e2dfe5e14f9e0'', ''Safari iOS 17+''),
         (''11f3e47d0e5cf16f155f9f91e8393e52'', ''Safari 16''),
         (''e10b2788e8e04dba891be51c9a03efca'', ''Safari iOS 16''),
         (''371ee040d2bf5c2fea0e72a9cbc5ebc1'', ''Safari 15'')],
     store_named ''Desktop'' 90 [
         (''d5e710fb25a94a7f61f6d8a8a8c47a2d'', ''Edge 120+ Windows''),
         (''afb0bc6a9ab64bb0916f29b76fdd4d34'', ''Edge 115-119''),
         (''dcce5e1a27b372acba51fb5b5a779ae6'', ''Edge Android'')],
     store_named ''Desktop'' 85 [
         (''b9ef5b9e73e8001e5e1c1c6e89d12b3a'', ''Opera 100+''),
         (''c5a802b1a1e3da2db89a0b6e1b79f9e2'', ''Opera GX'')],
     store_named ''Bot/Tool'' 5 [
         (''e7d705a3286e19ea42f587b344ee6865'', ''Python requests''),
         (''36f1b0d87b0951c68ef6d7a0d5e0c6f0'', ''Go net/http''),
         (''1138de370e523f55c8b4a065c4c2a8a6'', ''Node.js https''),
         (''6734f37431670b3ab4292b8f60f29984'', ''curl''),
         (''209e1233aa450f8ac6a9d4a66f11e87f'', ''wget''),
         (''4d7a28d6f2263e0d76b0f9712fa29484'', ''Java HttpClient''),
         (''e6573e91e6eb777c0933c5b8f97f10cd'', ''Python aiohttp''),
         (''f09eb61e3ab4bbc96c03b92e38a3c2b8'', ''Ruby net/http''),
         (''8a6b4e9f76fdfe6ef0c6348e146ed0c1'', ''PHP curl''),
         (''3e63a0abb1b5e3e73e51df2f91c65a04'', ''Rust reqwest''),
         (''b7f4c1e34ff2a85d1c4c4e93e0bb8e46'', ''Apache HttpClient''),
         (''f6e0b6afb14e5d0afb26f7b8c793e7d1'', ''OkHttp (Android)'')],
     store_named ''Attack'' 0 [
         (''c12f54a3f91dc7bafd92b1ab9f147557'', ''LOIC''),
         (''e35df3e00ca4ef31d42b34bebaa2f86e'', ''HOIC''),
         (''2a2a2a2a2a2a2a2a2a2a2a2a2a2a2a2a'', ''MHDDoS''),
         (''d7a4f7e07d3c2e7df0c09d4e1cf1c7c1'', ''Slowloris''),
         (''1d3c4e5f6a7b8c9d0e1f2a3b4c5d6e7f'', ''GoldenEye''),
         (''a1b2c3d4e5f6a7b8c9d0e1f2a3b4c5d6'', ''Xerxes''),
         (''b1c2d3e4f5a6b7c8d9e0f1a2b3c4d5e6'', ''Torshammer'')],
     store_named ''Legitimate Bot'' 60 [
         (''3db1e3f2d0b0e8c6a4f7b9d5c1e8a3f2'', ''Googlebot''),
         (''4ec3f4a3e1c1f9d7b5a8c0e6d2f9b4a3'', ''Bingbot''),
         (''5fd4a5b4f2d2a0e8c6b9d1f7e3a0c5b4'', ''Yandexbot''),
         (''6ae5b6c5a3e3b1f9d7c0e2a8f4b1d6c5'', ''DuckDuckBot''),
         (''7bf6c7d6b4f4c2a0e8d1f3b9a5c2e7d6'', ''Facebookbot''),
         (''8ca7d8e7c5a5d3b1f9e2a4c0b6d3f8e7'', ''Twitterbot'')]] db)"

definition InitKnownH2Fingerprints :: "(string, BrowserInfo) gomap \<Rightarrow> (string, BrowserInfo) gomap" where
  "InitKnownH2Fingerprints db = fold (\<lambda>f. f) [
     store_one ''chrome_h2_120'' (browser ''Chrome 120+'' [] 90),
     store_one ''chrome_h2_110'' (browser ''Chrome 110-119'' [] 88),
     store_one ''chrome_h2_android'' (browser ''Chrome Android'' [] 85),
     store_one ''firefox_h2_120'' (browser ''Firefox 120+'' [] 90),
     store_one ''firefox_h2_esr'' (browser ''Firefox ESR'' [] 85),
     store_one ''safari_h2_17'' (browser ''Safari 17+'' [] 90),
     store_all (\<lambda>h. browser ''Bot/Tool'' [] 5) [
         ''golang_h2_default'',
         ''python_h2_default'',
         ''node_h2_default'',
         ''curl_h2_default''] ] db"

text \<open>The databases of a running server (\<open>main.go\<close> does not load the extended one).\<close>

definition ja3_db :: browser_db where "ja3_db = InitKnownBrowsers []"
definition h2_db :: browser_db where "h2_db = InitKnownH2Fingerprints []"

definition LookupJA3 :: "browser_db \<Rightarrow> string \<Rightarrow> BrowserInfo option" where
  "LookupJA3 db hash = map_of db hash"

subsection \<open>The composite score\<close>

record CompositeScore =
  cs_JA3Score :: f64
  cs_JA4Score :: f64
  cs_H2Score :: f64
  cs_UAScore :: f64
  cs_Total :: f64
  cs_Verdict :: string

definition checkUAConsistency :: "JA3Result \<Rightarrow> string \<Rightarrow> f64" where
  "checkUAConsistency ja3 agent =
     (let ua = to_lower agent; name = to_lower (j3_BrowserID ja3) in
      if \<not> j3_Known ja3 then 30
      else if str_contains name ''chrome'' \<and> str_contains ua ''chrome'' then 95
      else if str_contains name ''firefox'' \<and> str_contains ua ''firefox'' then 95
      else if str_contains name ''safari'' \<and> str_contains ua ''safari'' \<and> \<not> str_contains ua ''chrome'' then 95
      else if str_contains name ''edge'' \<and> str_contains ua ''edg'' then 90
      else if str_contains name ''bot'' then 5
      else 20)"

definition composite_total :: "f64 \<Rightarrow> f64 \<Rightarrow> f64 \<Rightarrow> f64 \<Rightarrow> f64" where
  "composite_total ja3 ja4 h2 ua =
     fadd (fadd (fadd (fmul ja3 (fl (30 / 100))) (fmul ja4 (fl (25 / 100)))) (fmul h2 (fl (20 / 100)))) (fmul ua (fl (25 / 100)))"

definition verdict_of :: "f64 \<Rightarrow> string" where
  "verdict_of t =
     (if 80 \<le> t then ''trusted'' else if 60 \<le> t then ''normal'' else if 40 \<le> t then ''suspicious''
      else if 20 \<le> t then ''likely_bot'' else ''malicious'')"

definition CalculateComposite :: "JA3Result \<Rightarrow> JA4Result \<Rightarrow> H2Fingerprint \<Rightarrow> string \<Rightarrow> CompositeScore" where
  "CalculateComposite ja3 ja4 h2 ua =
     (let s3 = (if j3_Known ja3 then j3_TrustScore ja3 else 20);
          s4 = (if j4_Known ja4 then j4_TrustScore ja4 else 25);
          sh = (if h2_Known h2 then h2_TrustScore h2 else 30);
          su = checkUAConsistency ja3 ua;
          tot = composite_total s3 s4 sh su
      in \<lparr>cs_JA3Score = s3, cs_JA4Score = s4, cs_H2Score = sh, cs_UAScore = su, cs_Total = tot,
          cs_Verdict = verdict_of tot\<rparr>)"

definition zero_composite :: CompositeScore where
  "zero_composite = \<lparr>cs_JA3Score = 0, cs_JA4Score = 0, cs_H2Score = 0, cs_UAScore = 0, cs_Total = 0, cs_Verdict = []\<rparr>"

subsection \<open>The store of connections\<close>

record ConnectionFingerprint =
  cf_RemoteAddr :: string
  cf_JA3 :: JA3Result
  cf_JA4 :: JA4Result
  cf_H2 :: H2Fingerprint
  cf_Composite :: CompositeScore
  cf_UserAgent :: string
  cf_Raw :: ClientHelloInfo

type_synonym FingerprintStore = "(string, ConnectionFingerprint) gomap"

definition fs_Store :: "string \<Rightarrow> ConnectionFingerprint \<Rightarrow> FingerprintStore \<Rightarrow> FingerprintStore" where
  "fs_Store addr fp fs = AList.update addr fp fs"

definition fs_Lookup :: "string \<Rightarrow> FingerprintStore \<Rightarrow> ConnectionFingerprint option" where
  "fs_Lookup addr fs = map_of fs addr"

definition fs_Remove :: "string \<Rightarrow> FingerprintStore \<Rightarrow> FingerprintStore" where
  "fs_Remove addr fs = AList.delete addr fs"

text \<open>The loop deletes the key it visits and compares the count with the halved length of what is left.\<close>

fun evict_loop :: "nat \<Rightarrow> FingerprintStore \<Rightarrow> FingerprintStore" where
  "evict_loop cnt [] = []"
| "evict_loop cnt (kv # fs) = (if length fs div 2 \<le> cnt + 1 then fs else evict_loop (cnt + 1) fs)"

definition fs_Cleanup :: "nat \<Rightarrow> FingerprintStore \<Rightarrow> FingerprintStore" where
  "fs_Cleanup maxEntries fs = (if maxEntries < length fs then evict_loop 0 fs else fs)"

definition GetCompositeForRequest ::
  "string \<Rightarrow> string \<Rightarrow> FingerprintStore \<Rightarrow> ConnectionFingerprint option \<times> FingerprintStore" where
  "GetCompositeForRequest addr ua fs =
     (case fs_Lookup addr fs of
        None \<Rightarrow> (None, fs)
      | Some fp \<Rightarrow>
          let fp' = fp\<lparr>cf_UserAgent := ua, cf_Composite := CalculateComposite (cf_JA3 fp) (cf_JA4 fp) (cf_H2 fp) ua\<rparr>
          in (Some fp', AList.update addr fp' fs))"

definition IsSuspicious :: "ConnectionFingerprint \<Rightarrow> bool" where
  "IsSuspicious fp \<longleftrightarrow> cs_Total (cf_Composite fp) < 40"

definition IsTrusted :: "ConnectionFingerprint \<Rightarrow> bool" where
  "IsTrusted fp \<longleftrightarrow> 75 \<le> cs_Total (cf_Composite fp)"

text \<open>What \<open>crypto/tls\<close> hands to \<open>GetConfigForClient\<close>, and the fingerprint made of it.\<close>

record std_hello =
  sh_ServerName :: string
  sh_CipherSuites :: "u16 list"
  sh_SupportedVersions :: "u16 list"
  sh_SupportedCurves :: "u16 list"
  sh_SupportedPoints :: "byte list"
  sh_SupportedProtos :: "string list"
  sh_SignatureSchemes :: "u16 list"

definition std_info :: "std_hello \<Rightarrow> ClientHelloInfo" where
  "std_info hello = empty_hello\<lparr>ch_ServerName := sh_ServerName hello, ch_CipherSuites := sh_CipherSuites hello,
     ch_SupportedVersions := sh_SupportedVersions hello, ch_TLSVersion := max_version (sh_SupportedVersions hello),
     ch_EllipticCurves := sh_SupportedCurves hello, ch_ECPointFormats := sh_SupportedPoints hello,
     ch_ALPN := sh_SupportedProtos hello, ch_SignatureAlgs := sh_SignatureSchemes hello\<rparr>"

definition new_connection :: "string \<Rightarrow> JA3Result \<Rightarrow> JA4Result \<Rightarrow> ClientHelloInfo \<Rightarrow> ConnectionFingerprint" where
  "new_connection addr ja3 ja4 info = \<lparr>cf_RemoteAddr = addr, cf_JA3 = ja3, cf_JA4 = ja4, cf_H2 = zero_H2,
     cf_Composite = zero_composite, cf_UserAgent = [], cf_Raw = info\<rparr>"

definition extractFromStdlibHello :: "browser_db \<Rightarrow> string \<Rightarrow> std_hello \<Rightarrow> ConnectionFingerprint option" where
  "extractFromStdlibHello db addr hello =
     (let info = std_info hello
      in map_option (\<lambda>ja4. new_connection addr (ComputeJA3FromClientHello db info) ja4 info)
           (ComputeJA4FromClientHello info))"

definition intercept :: "browser_db \<Rightarrow> string \<Rightarrow> std_hello \<Rightarrow> FingerprintStore \<Rightarrow> FingerprintStore option" where
  "intercept db addr hello fs =
     map_option (\<lambda>fp. fs_Store addr fp fs) (extractFromStdlibHello db addr hello)"

text \<open>
  The sniffer on the first read of a connection: \<open>peek\<close> holds the bytes that arrived, \<open>eof\<close> whether the
  client then closed. The buffer of the reader has 2048 bytes. The result is the store and
  whether the connection was rejected.
\<close>

definition performSniff ::
  "browser_db \<Rightarrow> string \<Rightarrow> bool \<Rightarrow> byte list \<Rightarrow> bool \<Rightarrow> FingerprintStore \<Rightarrow> (FingerprintStore \<times> bool) option" where
  "performSniff db addr underAttack peek eof fs =
     (if length peek < 5 \<or> peek ! 0 \<noteq> 0x16 then Some (fs, False)
      else let recordLen = n16 peek 3 in
        if recordLen = 0 \<or> 16384 \<le> recordLen then Some (fs, False)
        else let peekSize = min (recordLen + 5) 2048; n = min peekSize (length peek);
                 buf = take 2048 (peek @ replicate 2048 0) in
          if length peek < peekSize \<and> \<not> eof then Some (fs, False)
          else case FullFingerprintFromRaw db buf n of
            None \<Rightarrow> None
          | Some (Inl err) \<Rightarrow> Some (fs, False)
          | Some (Inr fp) \<Rightarrow>
              Some (fs_Store addr (new_connection addr (ff_JA3 fp) (ff_JA4 fp) (ff_ClientHello fp)) fs,
                underAttack \<and> (case LookupJA3 db (j3_Hash (ff_JA3 fp)) of
                  Some bi \<Rightarrow> bi_TrustScore bi < 10 | None \<Rightarrow> False)))"

subsection \<open>What the hashes depend on\<close>

lemma ja3_raw_grease:
  assumes "filterGREASE16 cs = filterGREASE16 cs'" and "filterGREASE16 ext = filterGREASE16 ext'"
    and "filterGREASE16 ec = filterGREASE16 ec'"
  shows "ja3_raw version cs ext ec pf = ja3_raw version cs' ext' ec' pf"
  by (simp add: ja3_raw_def assms)

lemma sorted_same: "mset xs = mset ys \<Longrightarrow> sort xs = sort (ys :: 'a :: linorder list)"
  by (metis mset_sort properties_for_sort sorted_sort)

lemma filter_same: "mset (filterGREASE16 xs) = mset (filterGREASE16 ys) \<Longrightarrow>
    length (filterGREASE16 xs) = length (filterGREASE16 ys) \<and> sort (filterGREASE16 xs) = sort (filterGREASE16 ys)"
  using sorted_same mset_eq_length by blast

subsection \<open>What the databases can answer\<close>

lemma store_all_values:
  "map_of (store_all f hs db) h = Some bi \<Longrightarrow> (\<exists>h' \<in> set hs. bi = f h') \<or> map_of db h = Some bi"
  unfolding store_all_def
proof (induction hs arbitrary: db)
  case Nil
  then show ?case by simp
next
  case (Cons k hs)
  then have "(\<exists>h' \<in> set hs. bi = f h') \<or> map_of (store_one k (f k) db) h = Some bi" by simp
  then show ?case by (auto simp: store_one_def gomap_simps split: if_splits)
qed

lemma ja3_db_trust:
  assumes "map_of ja3_db h = Some bi"
  shows "bi_TrustScore bi \<in> {90, 85, 5}"
  using assms unfolding ja3_db_def InitKnownBrowsers_def fold.simps o_def id_apply
  by (auto dest!: store_all_values simp: browser_def)

lemma store_all_keys: "map_of db h = None \<Longrightarrow> h \<notin> set hs \<Longrightarrow> map_of (store_all f hs db) h = None"
  unfolding store_all_def by (induction hs arbitrary: db) (auto simp: store_one_def gomap_simps)

text \<open>No MD5 in hexadecimal has the underscore that every key of the HTTP/2 database has.\<close>

lemma md5_hex_no_underscore: "CHR ''_'' \<notin> set (md5_hex s)"
proof -
  have "CHR ''_'' \<notin> set hex_digits" by (simp add: hex_digits_def)
  then show ?thesis using hex_encode_chars by (auto simp: md5_hex_def)
qed

lemma h2_db_keys: "\<forall>h \<in> dom (map_of h2_db). CHR ''_'' \<in> set h"
proof -
  have "\<forall>h \<in> set (map fst h2_db). CHR ''_'' \<in> set h" by code_simp
  then show ?thesis by (simp add: dom_map_of_conv_image_fst)
qed

lemma h2_never_known: "h2_Known (ExtractH2Fingerprint h2_db frames) = False"
proof -
  have "map_of h2_db (md5_hex s) = None" for s
    using h2_db_keys md5_hex_no_underscore by (metis domIff)
  then show ?thesis
    by (simp add: ExtractH2Fingerprint_def known_h2_def Let_def zero_H2_def split: prod.split)
qed

subsection \<open>Stored connections\<close>

text \<open>What every fingerprint that the running server stores satisfies.\<close>

definition fp_ok :: "ConnectionFingerprint \<Rightarrow> bool" where
  "fp_ok fp \<longleftrightarrow> (j3_Known (cf_JA3 fp) \<longrightarrow> j3_TrustScore (cf_JA3 fp) \<in> {90, 85, 5}) \<and>
     \<not> j4_Known (cf_JA4 fp) \<and> \<not> h2_Known (cf_H2 fp)"

definition store_ok :: "FingerprintStore \<Rightarrow> bool" where
  "store_ok fs \<longleftrightarrow> (\<forall>addr fp. map_of fs addr = Some fp \<longrightarrow> fp_ok fp)"

lemma JA3_trust: "j3_Known (JA3 ja3_db v cs ext ec pf) \<Longrightarrow> j3_TrustScore (JA3 ja3_db v cs ext ec pf) \<in> {90, 85, 5}"
  using ja3_db_trust by (auto simp: JA3_def Let_def split: option.splits)

lemma JA4_unknown: "JA4 proto v sni cs ext sa alpn = Some r \<Longrightarrow> \<not> j4_Known r"
  by (auto simp: JA4_def Let_def split: if_splits)

lemma new_connection_ok:
  assumes "ComputeJA4FromClientHello info = Some ja4"
  shows "fp_ok (new_connection addr (ComputeJA3FromClientHello ja3_db info) ja4 raw)"
  using JA3_trust JA4_unknown assms
  by (auto simp: fp_ok_def new_connection_def zero_H2_def ComputeJA3FromClientHello_def ComputeJA4FromClientHello_def)

lemma store_ok_update: "store_ok fs \<Longrightarrow> fp_ok fp \<Longrightarrow> store_ok (AList.update addr fp fs)"
  by (auto simp: store_ok_def gomap_simps)

lemma intercept_ok: "store_ok fs \<Longrightarrow> intercept ja3_db addr hello fs = Some fs' \<Longrightarrow> store_ok fs'"
  by (auto simp: intercept_def extractFromStdlibHello_def Let_def fs_Store_def intro!: store_ok_update new_connection_ok)

lemma full_fingerprint_ok:
  assumes "FullFingerprintFromRaw ja3_db buf n = Some (Inr ff)"
  shows "fp_ok (new_connection addr (ff_JA3 ff) (ff_JA4 ff) (ff_ClientHello ff))"
  using assms by (auto simp: FullFingerprintFromRaw_def new_connection_ok split: option.splits sum.splits)

lemma performSniff_ok:
  "store_ok fs \<Longrightarrow> performSniff ja3_db addr a peek eof fs = Some (fs', rej) \<Longrightarrow> store_ok fs'"
  by (auto simp: performSniff_def Let_def fs_Store_def full_fingerprint_ok intro!: store_ok_update
      split: if_splits option.splits sum.splits)

lemma fs_Remove_ok: "store_ok fs \<Longrightarrow> store_ok (fs_Remove addr fs)"
  by (auto simp: store_ok_def fs_Remove_def gomap_simps)

lemma GetComposite_ok:
  assumes "store_ok fs" and "GetCompositeForRequest addr ua fs = (r, fs')"
  shows "store_ok fs'" and "r = Some fp \<Longrightarrow> fp_ok fp \<and>
    cf_Composite fp = CalculateComposite (cf_JA3 fp) (cf_JA4 fp) (cf_H2 fp) ua"
proof -
  have upd: "fp_ok (f\<lparr>cf_UserAgent := u, cf_Composite := c\<rparr>) = fp_ok f" for f u c by (simp add: fp_ok_def)
  show "store_ok fs'"
    using assms by (auto simp: GetCompositeForRequest_def Let_def fs_Lookup_def store_ok_def upd gomap_simps
        split: option.splits if_splits)
  show "r = Some fp \<Longrightarrow> fp_ok fp \<and> cf_Composite fp = CalculateComposite (cf_JA3 fp) (cf_JA4 fp) (cf_H2 fp) ua"
    using assms by (auto simp: GetCompositeForRequest_def Let_def fs_Lookup_def store_ok_def upd
        split: option.splits)
qed

lemma ua_scores: "checkUAConsistency ja3 ua \<in> {30, 95, 90, 5, 20}"
  by (simp add: checkUAConsistency_def Let_def)

lemma composite_total_mono:
  assumes "a \<le> a'" and "b \<le> b'"
  shows "composite_total a s4 sh b \<le> composite_total a' s4 sh b'"
  unfolding composite_total_def using assms by (intro fadd_mono fmul_mono fl_nonneg order.refl) simp_all

lemma composite_extremes: "15 \<le> composite_total 5 25 30 5" "composite_total 90 25 30 95 < 65"
  by code_simp+

lemma composite_range:
  assumes "fp_ok fp"
  shows "15 \<le> cs_Total (CalculateComposite (cf_JA3 fp) (cf_JA4 fp) (cf_H2 fp) ua) \<and>
    cs_Total (CalculateComposite (cf_JA3 fp) (cf_JA4 fp) (cf_H2 fp) ua) < 65"
proof -
  let ?s3 = "if j3_Known (cf_JA3 fp) then j3_TrustScore (cf_JA3 fp) else 20"
  let ?su = "checkUAConsistency (cf_JA3 fp) ua"
  have t: "cs_Total (CalculateComposite (cf_JA3 fp) (cf_JA4 fp) (cf_H2 fp) ua) = composite_total ?s3 25 30 ?su"
    using assms by (simp add: CalculateComposite_def Let_def fp_ok_def)
  have s3: "5 \<le> ?s3" "?s3 \<le> 90" using assms by (auto simp: fp_ok_def)
  have su: "5 \<le> ?su" "?su \<le> 95" using ua_scores [of "cf_JA3 fp" ua] by auto
  show ?thesis unfolding t
    using composite_total_mono [OF s3(1) su(1), of 25 30] composite_total_mono [OF s3(2) su(2), of 25 30]
      composite_extremes by linarith
qed

text \<open>The comment promises to clear half of the store; the loop stops after a third.\<close>

lemma evict_loop_third:
  "fs \<noteq> [] \<Longrightarrow> c = 0 \<or> 2 * c + 2 \<le> length fs \<Longrightarrow> 2 \<le> c + length fs \<Longrightarrow>
     3 * (c + length fs - length (evict_loop c fs)) \<le> c + length fs + 1"
proof (induction c fs rule: evict_loop.induct)
  case (1 cnt)
  then show ?case by simp
next
  case (2 cnt kv fs)
  show ?case
  proof (cases "length fs div 2 \<le> cnt + 1")
    case True
    then show ?thesis using 2 by auto
  next
    case False
    have "3 * (cnt + 1 + length fs - length (evict_loop (cnt + 1) fs)) \<le> cnt + 1 + length fs + 1"
      by (rule "2.IH" [OF False]) (use False in auto)
    then show ?thesis using False by simp
  qed
qed

lemma cleanup_removes_a_third:
  assumes "2 \<le> length fs"
  shows "3 * (length fs - length (fs_Cleanup maxEntries fs)) \<le> length fs + 1"
  using evict_loop_third [of fs 0] assms by (cases "fs = []") (simp_all add: fs_Cleanup_def)

subsection \<open>Properties\<close>

text \<open>
  What the hashes ignore. JA3 and JA4 do not change when GREASE values are added, removed or moved, and JA4 does
  not change when cipher suites or extensions are reordered either.
\<close>

theorem fingerprint_normal_form:
  assumes "mset (filterGREASE16 cs) = mset (filterGREASE16 cs')"
    and "mset (filterGREASE16 ext) = mset (filterGREASE16 ext')"
  shows "JA4 proto version sni cs ext sa alpn = JA4 proto version sni cs' ext' sa' alpn \<and>
    (filterGREASE16 cs = filterGREASE16 cs' \<and> filterGREASE16 ext = filterGREASE16 ext' \<and>
       filterGREASE16 ec = filterGREASE16 ec' \<longrightarrow> JA3 db version cs ext ec pf = JA3 db version cs' ext' ec' pf)"
proof (intro conjI impI)
  show "JA4 proto version sni cs ext sa alpn = JA4 proto version sni cs' ext' sa' alpn"
    using filter_same [OF assms(1)] filter_same [OF assms(2)] unfolding JA4_def Let_def by simp
  assume "filterGREASE16 cs = filterGREASE16 cs' \<and> filterGREASE16 ext = filterGREASE16 ext' \<and>
    filterGREASE16 ec = filterGREASE16 ec'"
  then have "ja3_raw version cs ext ec pf = ja3_raw version cs' ext' ec' pf" by (intro ja3_raw_grease) simp_all
  then show "JA3 db version cs ext ec pf = JA3 db version cs' ext' ec' pf" by (simp only: JA3_def)
qed

theorem fingerprint_normal_form_witness:
  "JA4 ''tcp'' 0x0304 ''a'' [0x0a0a, 4865, 4866] [10, 11] [] ''h2'' = JA4 ''tcp'' 0x0304 ''a'' [4866, 4865] [11, 0x1a1a, 10] [1] ''h2''"
proof -
  have g: "filterGREASE16 [0x0a0a, 4865, 4866] = [4865, 4866]" "filterGREASE16 [4866, 4865] = [4866, 4865]"
    "filterGREASE16 [10, 11] = [10, 11]" "filterGREASE16 [11, 0x1a1a, 10] = [11, 10]"
    by code_simp+
  show ?thesis
    by (rule fingerprint_normal_form [THEN conjunct1]) (simp_all add: g)
qed

text \<open>
  What the fingerprint of a request can say. Every fingerprint that the running server returns has a known
  trust score of 90, 85 or 5 or an unknown JA3, a total between 15 and 65 and therefore no verdict
  \<open>trusted\<close>: it is never a zero-trust attack tool, never below the blocking threshold of 15, and
  never \<open>IsTrusted\<close>. The HTTP/2 database matches no computed fingerprint at all.
\<close>

theorem fingerprint_verdicts:
  assumes "store_ok fs" and "GetCompositeForRequest addr ua fs = (Some fp, fs')"
  shows "\<not> (j3_Known (cf_JA3 fp) \<and> j3_TrustScore (cf_JA3 fp) = 0) \<and>
    15 \<le> cs_Total (cf_Composite fp) \<and> \<not> IsTrusted fp \<and> cs_Verdict (cf_Composite fp) \<noteq> ''trusted'' \<and>
    store_ok fs' \<and> \<not> h2_Known (ExtractH2Fingerprint h2_db frames)"
proof -
  note fp = GetComposite_ok [OF assms]
  have ok: "fp_ok fp" and c: "cf_Composite fp = CalculateComposite (cf_JA3 fp) (cf_JA4 fp) (cf_H2 fp) ua"
    using fp(2) by auto
  have r: "15 \<le> cs_Total (cf_Composite fp)" "cs_Total (cf_Composite fp) < 65"
    using composite_range [OF ok, of ua] unfolding c by auto
  have "cs_Verdict (cf_Composite fp) = verdict_of (cs_Total (cf_Composite fp))"
    unfolding c by (simp add: CalculateComposite_def Let_def)
  then have v: "cs_Verdict (cf_Composite fp) \<noteq> ''trusted''" using r by (simp add: verdict_of_def)
  have "\<not> IsTrusted fp" using r by (simp add: IsTrusted_def)
  moreover have "\<not> (j3_Known (cf_JA3 fp) \<and> j3_TrustScore (cf_JA3 fp) = 0)" using ok by (auto simp: fp_ok_def)
  ultimately show ?thesis using r v fp(1) h2_never_known by simp
qed

definition demo_connection :: ConnectionFingerprint where
  "demo_connection = new_connection ''1.2.3.4:5'' (JA3 [] 0x0303 [] [] [] [])
     \<lparr>j4_Hash = [], j4_Raw = [], j4_TLSVersion = [], j4_SNI = [], j4_Known = False, j4_TrustScore = 0\<rparr> empty_hello"

theorem fingerprint_verdicts_witness:
  "\<exists>fp. fst (GetCompositeForRequest ''1.2.3.4:5'' ''curl'' [(''1.2.3.4:5'', demo_connection)]) = Some fp \<and> \<not> IsTrusted fp"
proof -
  have ok: "store_ok [(''1.2.3.4:5'', demo_connection)]"
    by (simp add: store_ok_def demo_connection_def fp_ok_def new_connection_def zero_H2_def JA3_def Let_def)
  obtain fp fs' where g: "GetCompositeForRequest ''1.2.3.4:5'' ''curl'' [(''1.2.3.4:5'', demo_connection)] = (Some fp, fs')"
    by (simp add: GetCompositeForRequest_def fs_Lookup_def Let_def)
  then show ?thesis using fingerprint_verdicts [OF ok g] by simp
qed

end
