(* ===== verification/Intel.thy ===== *)
theory Intel
  imports Kv_Store Net_Addr Config_Types
begin

section \<open>Intelligence on client addresses (intelligence/)\<close>

text \<open>
  Static lists with expiry and ranges, threat feeds, the geographic table, reputation and network
  classification with their caches, and \<open>Evaluate\<close>, which turns them into one trust score. The answer of
  the AbuseIPDB service and the downloaded lines of a feed are arguments. Lemmas: the range of the
  score, which lists decide first, and what a feed entry can match.
\<close>

subsection \<open>Static lists\<close>

record ListEntry =
  le_Value :: string
  le_Reason :: string
  le_AddedAt :: gotime
  le_ExpiresAt :: gotime
  le_Source :: string

record ListManager =
  lm_blacklist :: "(string, ListEntry) gomap"
  lm_whitelist :: "(string, ListEntry) gomap"
  lm_cidrBlack :: "ipnet list"
  lm_cidrWhite :: "ipnet list"

definition NewListManager :: ListManager where
  "NewListManager = \<lparr>lm_blacklist = [], lm_whitelist = [], lm_cidrBlack = [], lm_cidrWhite = []\<rparr>"

definition reserved_ranges :: "string list" where
  "reserved_ranges = [''127.0.0.0/8'', ''10.0.0.0/8'', ''172.16.0.0/12'', ''192.168.0.0/16'', ''::1/128'',
     ''fe80::/10'', ''fc00::/7'']"

definition LoadReservedIPs :: "ListManager \<Rightarrow> ListManager" where
  "LoadReservedIPs lm = lm\<lparr>lm_cidrWhite := lm_cidrWhite lm @ List.map_filter parse_cidr reserved_ranges\<rparr>"

definition entry_expired :: "gotime \<Rightarrow> ListEntry \<Rightarrow> bool" where
  "entry_expired now e \<longleftrightarrow> le_ExpiresAt e \<noteq> zero_time \<and> le_ExpiresAt e < now"

definition on_list :: "gotime \<Rightarrow> (string, ListEntry) gomap \<Rightarrow> ipnet list \<Rightarrow> string \<Rightarrow> bool" where
  "on_list now entries ranges ip =
     (case map_of entries ip of
        Some e \<Rightarrow> \<not> entry_expired now e
      | None \<Rightarrow> (case parse_ip ip of None \<Rightarrow> False | Some a \<Rightarrow> list_ex (\<lambda>n. net_contains n a) ranges))"

definition IsBlacklisted :: "string \<Rightarrow> gotime \<Rightarrow> ListManager \<Rightarrow> bool" where
  "IsBlacklisted ip now lm = on_list now (lm_blacklist lm) (lm_cidrBlack lm) ip"

definition IsWhitelisted :: "string \<Rightarrow> gotime \<Rightarrow> ListManager \<Rightarrow> bool" where
  "IsWhitelisted ip now lm = on_list now (lm_whitelist lm) (lm_cidrWhite lm) ip"

definition new_entry :: "string \<Rightarrow> string \<Rightarrow> string \<Rightarrow> duration \<Rightarrow> gotime \<Rightarrow> ListEntry" where
  "new_entry value reason source ttl now = \<lparr>le_Value = value, le_Reason = reason, le_AddedAt = now,
     le_ExpiresAt = (if 0 < ttl then now + ttl else zero_time), le_Source = source\<rparr>"

definition add_range :: "string \<Rightarrow> ipnet list \<Rightarrow> ipnet list" where
  "add_range value ranges = (case parse_cidr value of Some n \<Rightarrow> ranges @ [n] | None \<Rightarrow> ranges)"

definition AddBlacklist :: "string \<Rightarrow> string \<Rightarrow> string \<Rightarrow> duration \<Rightarrow> gotime \<Rightarrow> ListManager \<Rightarrow> ListManager" where
  "AddBlacklist value reason source ttl now lm =
     (if CHR ''/'' \<in> set value then lm\<lparr>lm_cidrBlack := add_range value (lm_cidrBlack lm)\<rparr>
      else lm\<lparr>lm_blacklist := AList.update value (new_entry value reason source ttl now) (lm_blacklist lm)\<rparr>)"

definition AddWhitelist :: "string \<Rightarrow> string \<Rightarrow> string \<Rightarrow> duration \<Rightarrow> gotime \<Rightarrow> ListManager \<Rightarrow> ListManager" where
  "AddWhitelist value reason source ttl now lm =
     (if CHR ''/'' \<in> set value then lm\<lparr>lm_cidrWhite := add_range value (lm_cidrWhite lm)\<rparr>
      else lm\<lparr>lm_whitelist := AList.update value (new_entry value reason source ttl now) (lm_whitelist lm)\<rparr>)"

definition RemoveBlacklist :: "string \<Rightarrow> ListManager \<Rightarrow> ListManager" where
  "RemoveBlacklist ip lm = lm\<lparr>lm_blacklist := AList.delete ip (lm_blacklist lm)\<rparr>"

definition RemoveWhitelist :: "string \<Rightarrow> ListManager \<Rightarrow> ListManager" where
  "RemoveWhitelist ip lm = lm\<lparr>lm_whitelist := AList.delete ip (lm_whitelist lm)\<rparr>"

definition CleanupExpired :: "gotime \<Rightarrow> ListManager \<Rightarrow> ListManager" where
  "CleanupExpired now lm =
     lm\<lparr>lm_blacklist := filter (\<lambda>(k, v). \<not> entry_expired now v) (lm_blacklist lm),
        lm_whitelist := filter (\<lambda>(k, v). \<not> entry_expired now v) (lm_whitelist lm)\<rparr>"

definition list_Stats :: "ListManager \<Rightarrow> nat \<times> nat" where
  "list_Stats lm = (length (lm_blacklist lm) + length (lm_cidrBlack lm), length (lm_whitelist lm) + length (lm_cidrWhite lm))"

subsection \<open>Threat feeds\<close>

record ThreatEntry =
  te_IP :: string
  te_Source :: string
  te_Category :: string
  te_AddedAt :: gotime

record Feed =
  fd_Name :: string
  fd_URL :: string
  fd_Category :: string
  fd_Enabled :: bool

record FeedStats =
  ft_LastUpdate :: gotime
  ft_TotalEntries :: nat
  ft_FeedErrors :: nat
  ft_FeedSources :: nat

record ThreatFeedManager =
  tf_knownBad :: "(string, ThreatEntry) gomap"
  tf_stats :: FeedStats

definition feed :: "string \<Rightarrow> string \<Rightarrow> string \<Rightarrow> Feed" where
  "feed name url category = \<lparr>fd_Name = name, fd_URL = url, fd_Category = category, fd_Enabled = True\<rparr>"

definition DefaultFeeds :: "Feed list" where
  "DefaultFeeds = [
     feed ''FireHOL Level 1'' ''https://raw.githubusercontent.com/firehol/blocklist-ipsets/master/firehol_level1.netset'' ''malware'',
     feed ''Spamhaus DROP'' ''https://www.spamhaus.org/drop/drop.txt'' ''spam'',
     feed ''Spamhaus EDROP'' ''https://www.spamhaus.org/drop/edrop.txt'' ''spam'',
     feed ''Blocklist.de All'' ''https://lists.blocklist.de/lists/all.txt'' ''bruteforce'',
     feed ''CI Army Badguys'' ''https://cinsscore.com/list/ci-badguys.txt'' ''scanner'',
     feed ''Emerging Threats Compromised IPs'' ''https://rules.emergingthreats.net/blockrules/compromised-ips.txt'' ''botnet'',
     feed ''TOR Exit Nodes'' ''https://check.torproject.org/torbulkexitlist'' ''anonymizer'',
     feed ''DShield Top Attackers'' ''https://feeds.dshield.org/block.txt'' ''scanner'']"

definition IsKnownThreat :: "string \<Rightarrow> ThreatFeedManager \<Rightarrow> bool" where
  "IsKnownThreat ip tf \<longleftrightarrow> map_of (tf_knownBad tf) ip \<noteq> None"

definition GetThreatInfo :: "string \<Rightarrow> ThreatFeedManager \<Rightarrow> ThreatEntry option" where
  "GetThreatInfo ip tf = map_of (tf_knownBad tf) ip"

definition cut_comment :: "char \<Rightarrow> string \<Rightarrow> string" where
  "cut_comment c line = (case index_byte c line of
     Some idx \<Rightarrow> if 0 < idx then trim_ws (take idx line) else line | None \<Rightarrow> line)"

definition first_field :: "string \<Rightarrow> string" where
  "first_field line = takeWhile (\<lambda>c. \<not> is_space c) (dropWhile is_space line)"

definition extractIPFromLine :: "string \<Rightarrow> string" where
  "extractIPFromLine line =
     (let candidate = first_field (cut_comment CHR '';'' (cut_comment CHR ''#'' line)) in
      if candidate = [] then []
      else if parse_ip candidate \<noteq> None then candidate
      else if parse_cidr candidate \<noteq> None then candidate else [])"

definition store_threat :: "string \<Rightarrow> string \<Rightarrow> string \<Rightarrow> gotime \<Rightarrow> ThreatFeedManager \<Rightarrow> ThreatFeedManager" where
  "store_threat ip source category now tf = tf\<lparr>tf_knownBad := AList.update ip
     \<lparr>te_IP = ip, te_Source = source, te_Category = category, te_AddedAt = now\<rparr> (tf_knownBad tf)\<rparr>"

definition feed_line :: "Feed \<Rightarrow> gotime \<Rightarrow> string \<Rightarrow> ThreatFeedManager \<Rightarrow> ThreatFeedManager" where
  "feed_line f now text tf =
     (let line = trim_ws text in
      if line = [] \<or> has_prefix line ''#'' \<or> has_prefix line '';'' then tf
      else let ip = extractIPFromLine line in
        if ip = [] then tf else store_threat ip (fd_Name f) (fd_Category f) now tf)"

text \<open>
  \<open>download\<close> answers a request: \<open>None\<close> for an error or a status other than 200, otherwise the lines the scanner
  delivers and whether it ends without an error.
\<close>

definition fetchFeed :: "(string \<Rightarrow> (string list \<times> bool) option) \<Rightarrow> gotime \<Rightarrow> Feed \<Rightarrow> ThreatFeedManager \<Rightarrow> bool \<times> ThreatFeedManager" where
  "fetchFeed download now f tf = (case download (fd_URL f) of
     None \<Rightarrow> (False, tf) | Some (lines, ok) \<Rightarrow> (ok, fold (feed_line f now) lines tf))"

definition update_feed ::
  "(string \<Rightarrow> (string list \<times> bool) option) \<Rightarrow> gotime \<Rightarrow> Feed \<Rightarrow> nat \<times> ThreatFeedManager \<Rightarrow> nat \<times> ThreatFeedManager" where
  "update_feed download now f acc = (case acc of (errors, tf) \<Rightarrow>
     if \<not> fd_Enabled f then acc
     else let (ok, tf') = fetchFeed download now f tf in (if ok then errors else errors + 1, tf'))"

definition UpdateAll :: "(string \<Rightarrow> (string list \<times> bool) option) \<Rightarrow> gotime \<Rightarrow> ThreatFeedManager \<Rightarrow> ThreatFeedManager" where
  "UpdateAll download now tf =
     (let (errors, tf') = fold (update_feed download now) DefaultFeeds (0, tf)
      in tf'\<lparr>tf_stats := \<lparr>ft_LastUpdate = now, ft_TotalEntries = length (tf_knownBad tf'), ft_FeedErrors = errors,
           ft_FeedSources = length DefaultFeeds\<rparr>\<rparr>)"

definition ManualAdd :: "string \<Rightarrow> string \<Rightarrow> string \<Rightarrow> gotime \<Rightarrow> ThreatFeedManager \<Rightarrow> ThreatFeedManager" where
  "ManualAdd ip category source now tf = store_threat ip source category now tf"

definition tf_Remove :: "string \<Rightarrow> ThreatFeedManager \<Rightarrow> ThreatFeedManager" where
  "tf_Remove ip tf = tf\<lparr>tf_knownBad := AList.delete ip (tf_knownBad tf)\<rparr>"

subsection \<open>Geography\<close>

text \<open>The fields \<open>Region\<close> and \<open>IsEU\<close>, which nothing sets, are left out.\<close>

record GeoResult =
  ge_Country :: string
  ge_CountryCode :: string
  ge_City :: string
  ge_Latitude :: f64
  ge_Longitude :: f64
  ge_ASN :: nat
  ge_ASNOrg :: string

record GeoProvider =
  gp_dbPath :: string
  gp_fallback :: bool

text \<open>\<open>exists\<close> is the answer of the file system.\<close>

definition NewGeoProvider :: "(string \<Rightarrow> bool) \<Rightarrow> string \<Rightarrow> GeoProvider" where
  "NewGeoProvider exists dbPath =
     (if dbPath = [] \<or> \<not> exists dbPath then \<lparr>gp_dbPath = [], gp_fallback = True\<rparr>
      else \<lparr>gp_dbPath = dbPath, gp_fallback = False\<rparr>)"

definition geo :: "string \<Rightarrow> string \<Rightarrow> string \<Rightarrow> f64 \<Rightarrow> f64 \<Rightarrow> nat \<Rightarrow> string \<Rightarrow> GeoResult" where
  "geo country code city lat lon asn org = \<lparr>ge_Country = country, ge_CountryCode = code, ge_City = city,
     ge_Latitude = lat, ge_Longitude = lon, ge_ASN = asn, ge_ASNOrg = org\<rparr>"

definition geo_table :: "(nat list \<times> GeoResult) list" where
  "geo_table = [
      ([103, 113, 14, 171, 116], geo ''Vietnam'' ''VN'' ''Hanoi'' (16) (106) 45899 ''VNPT''),
      ([8, 1, 104, 172, 198, 23, 34, 52, 54], geo ''United States'' ''US'' ''New York'' (37) (- fl (957 / 10)) 15169 ''Google LLC''),
      ([185, 195, 95, 91, 178, 77], geo ''Russia'' ''RU'' ''Moscow'' (fl (615 / 10)) (fl (1053 / 10)) 12389 ''Rostelecom''),
      ([114, 220, 119, 183, 123, 112], geo ''China'' ''CN'' ''Beijing'' (fl (358 / 10)) (fl (1041 / 10)) 4134 ''CHINANET''),
      ([128, 130, 80, 88, 141], geo ''Germany'' ''DE'' ''Frankfurt'' (fl (511 / 10)) (fl (104 / 10)) 24940 ''Hetzner Online''),
      ([51, 82, 86, 31], geo ''United Kingdom'' ''GB'' ''London'' (fl (553 / 10)) (- fl (34 / 10)) 5607 ''British Telecom''),
      ([177, 200, 191, 186], geo ''Brazil'' ''BR'' ''Sao Paulo'' (- fl (142 / 10)) (- fl (519 / 10)) 28573 ''Claro Brasil''),
      ([110, 180, 36], geo ''Indonesia'' ''ID'' ''Jakarta'' (- fl (7 / 10)) (fl (1139 / 10)) 7713 ''Telkom Indonesia''),
      ([133, 210, 211], geo ''Japan'' ''JP'' ''Tokyo'' (fl (362 / 10)) (fl (1382 / 10)) 2514 ''NTT Communications''),
      ([90, 92, 109], geo ''France'' ''FR'' ''Paris'' (fl (462 / 10)) (fl (22 / 10)) 12322 ''Free SAS''),
      ([118, 203, 122], geo ''Singapore'' ''SG'' ''Singapore'' (fl (135 / 100)) (fl (1038 / 10)) 4657 ''Singtel'')]"

definition countryFallbackList :: "(string \<times> string \<times> f64 \<times> f64) list" where
  "countryFallbackList = [
      (''US'', ''United States'', (37), (- fl (957 / 10))),
      (''CN'', ''China'', (fl (358 / 10)), (fl (1041 / 10))),
      (''RU'', ''Russia'', (fl (615 / 10)), (fl (1053 / 10))),
      (''BR'', ''Brazil'', (- fl (142 / 10)), (- fl (519 / 10))),
      (''DE'', ''Germany'', (fl (511 / 10)), (fl (104 / 10))),
      (''JP'', ''Japan'', (fl (362 / 10)), (fl (1382 / 10))),
      (''GB'', ''United Kingdom'', (fl (553 / 10)), (- fl (34 / 10))),
      (''IN'', ''India'', (fl (205 / 10)), (fl (789 / 10))),
      (''AU'', ''Australia'', (- fl (252 / 10)), (fl (1337 / 10))),
      (''ZA'', ''South Africa'', (- fl (305 / 10)), (fl (229 / 10))),
      (''FR'', ''France'', (fl (462 / 10)), (fl (22 / 10))),
      (''SG'', ''Singapore'', (fl (135 / 100)), (fl (1038 / 10))),
      (''KR'', ''South Korea'', (fl (359 / 10)), (fl (1277 / 10))),
      (''CA'', ''Canada'', (fl (561 / 10)), (- fl (1063 / 10)))]"

definition geo_v4 :: "nat \<Rightarrow> nat \<Rightarrow> GeoResult" where
  "geo_v4 b0 b1 =
     (case find (\<lambda>(bs, g). b0 \<in> set bs) geo_table of
        Some (bs, g) \<Rightarrow> g
      | None \<Rightarrow> (case countryFallbackList ! (b0 mod length countryFallbackList) of (code, name, lat, lon) \<Rightarrow>
          geo name code (''City-'' @ show_nat b1) lat lon (1000 + b0) ''Global Transit Provider''))"

definition geo_Lookup :: "string \<Rightarrow> GeoResult" where
  "geo_Lookup ipStr = (case parse_ip ipStr of
       None \<Rightarrow> geo ''Unknown'' ''XX'' ''Unknown'' 0 0 0 []
     | Some ip \<Rightarrow> (case to4 ip of
           None \<Rightarrow> geo ''United States'' ''US'' ''Ashburn'' 37 (- fl (957 / 10)) 16509 ''Amazon.com''
         | Some ip4 \<Rightarrow> geo_v4 (unat (ip4 ! 0)) (unat (ip4 ! 1))))"

subsection \<open>Networks\<close>

record ASNInfo =
  ai_ASN :: nat
  ai_Organization :: string
  ai_IsHosting :: bool
  ai_IsResidential :: bool
  ai_IsCDN :: bool
  ai_IsEducation :: bool
  ai_IsGovernment :: bool
  ai_RiskLevel :: string
  ai_TrustScore :: f64

definition hostingProviders :: "string list" where
  "hostingProviders = [
     ''digitalocean'', ''amazon'', ''aws'', ''google cloud'', ''gcp'', ''microsoft azure'', ''azure'',
     ''ovh'', ''hetzner'', ''linode'', ''vultr'', ''choopa'', ''contabo'', ''hostinger'', ''godaddy'',
     ''leaseweb'', ''phoenixnap'', ''rackspace'', ''scaleway'', ''upcloud'', ''kamatera'', ''ionos'',
     ''aruba'', ''hostway'', ''quadranet'', ''psychz'', ''colocrossing'', ''buyvm'', ''ramnode'',
     ''greencloudvps'', ''turnkey internet'', ''alibaba cloud'', ''tencent cloud'', ''huawei cloud'',
     ''oracle cloud'', ''ibm cloud'', ''softlayer'']"

definition cdnProviders :: "string list" where
  "cdnProviders = [
     ''cloudflare'', ''fastly'', ''akamai'', ''incapsula'', ''imperva'', ''sucuri'', ''stackpath'',
     ''keycdn'', ''bunny'', ''cdn77'', ''limelight'', ''edgecast'']"

definition highRiskProviders :: "string list" where
  "highRiskProviders = [
     ''combahton'', ''blazing'', ''sharktech'', ''fdc servers'', ''dacentec'', ''quasi networks'',
     ''serverius'', ''ecatel'', ''lucky'', ''10vps'', ''vpsville'', ''colo4'', ''webhosting24'', ''kuroit'']"

definition eduKeywords :: "string list" where
  "eduKeywords = [
     ''university'', ''college'', ''edu'', ''school'', ''academic'', ''research'']"

definition govKeywords :: "string list" where
  "govKeywords = [
     ''government'', ''ministry'', ''federal'', ''military'', ''defense'', ''state of'']"

definition ispKeywords :: "string list" where
  "ispKeywords = [
     ''telecom'', ''telecomunicazioni'', ''communications'', ''internet service'', ''broadband'',
     ''fiber'', ''mobile'', ''wireless'', ''cellular'', ''cable'', ''netcol'', ''comcast'', ''verizon'',
     ''at&t'', ''deutsche telekom'', ''vodafone'', ''telefonica'', ''orange'', ''t-mobile'', ''viettel'',
     ''vnpt'', ''fpt telecom'', ''mobifone'']"

definition names_one :: "string \<Rightarrow> string list \<Rightarrow> bool" where
  "names_one org kws = list_ex (\<lambda>kw. str_contains org kw) kws"

definition classifyOrganization :: "string \<Rightarrow> ASNInfo \<Rightarrow> ASNInfo" where
  "classifyOrganization org info =
     (if names_one org hostingProviders then info\<lparr>ai_IsHosting := True, ai_RiskLevel := ''medium'', ai_TrustScore := 35\<rparr>
      else if names_one org cdnProviders then info\<lparr>ai_IsCDN := True, ai_RiskLevel := ''low'', ai_TrustScore := 75\<rparr>
      else if names_one org highRiskProviders then info\<lparr>ai_IsHosting := True, ai_RiskLevel := ''high'', ai_TrustScore := 10\<rparr>
      else if names_one org eduKeywords then info\<lparr>ai_IsEducation := True, ai_RiskLevel := ''low'', ai_TrustScore := 90\<rparr>
      else if names_one org govKeywords then info\<lparr>ai_IsGovernment := True, ai_RiskLevel := ''low'', ai_TrustScore := 95\<rparr>
      else if names_one org ispKeywords then info\<lparr>ai_IsResidential := True, ai_RiskLevel := ''low'', ai_TrustScore := 80\<rparr>
      else info\<lparr>ai_IsResidential := True, ai_TrustScore := 65\<rparr>)"

definition asn_info :: "GeoResult option \<Rightarrow> ASNInfo" where
  "asn_info g =
     (let info = \<lparr>ai_ASN = 0, ai_Organization = [], ai_IsHosting = False, ai_IsResidential = False, ai_IsCDN = False,
            ai_IsEducation = False, ai_IsGovernment = False, ai_RiskLevel = ''low'', ai_TrustScore = 70\<rparr>;
          info = (case g of None \<Rightarrow> info
                    | Some r \<Rightarrow> if 0 < ge_ASN r then info\<lparr>ai_ASN := ge_ASN r, ai_Organization := ge_ASNOrg r\<rparr> else info)
      in if ai_Organization info \<noteq> [] then classifyOrganization (to_lower (ai_Organization info)) info else info)"

type_synonym ASNAnalyzer = "(string, ASNInfo) gomap"

definition asn_Analyze :: "string \<Rightarrow> GeoResult option \<Rightarrow> ASNAnalyzer \<Rightarrow> ASNInfo \<times> ASNAnalyzer" where
  "asn_Analyze ip g cache = (case map_of cache ip of
     Some info \<Rightarrow> (info, cache) | None \<Rightarrow> (asn_info g, AList.update ip (asn_info g) cache))"

definition asn_CleanupCache :: "ASNAnalyzer \<Rightarrow> ASNAnalyzer" where
  "asn_CleanupCache cache = []"

subsection \<open>Reputation\<close>

record ReputationResult =
  rp_IP :: string
  rp_AbuseScore :: int
  rp_TrustLevel :: f64
  rp_IsKnownBad :: bool
  rp_IsProxy :: bool
  rp_IsTor :: bool
  rp_IsVPN :: bool
  rp_IsDatacenter :: bool
  rp_TotalReports :: int
  rp_LastReported :: gotime
  rp_Source :: string
  rp_CachedAt :: gotime

text \<open>The fields of an answer of the service that the code reads, its time already parsed.\<close>

record abuse_data =
  ab_score :: int
  ab_usage :: string
  ab_reports :: int
  ab_tor :: bool
  ab_last :: "gotime option"

definition from_abuse :: "string \<Rightarrow> abuse_data \<Rightarrow> ReputationResult" where
  "from_abuse ip d =
     \<lparr>rp_IP = ip, rp_AbuseScore = ab_score d, rp_TrustLevel = fdiv (f_of_int (100 - ab_score d)) 100,
      rp_IsKnownBad = (50 < ab_score d), rp_IsProxy = False, rp_IsTor = ab_tor d, rp_IsVPN = False,
      rp_IsDatacenter = (ab_usage d = ''Data Center/Web Hosting/Transit'' \<or> ab_usage d = ''Content Delivery Network''),
      rp_TotalReports = ab_reports d,
      rp_LastReported = (case ab_last d of Some t \<Rightarrow> t | None \<Rightarrow> zero_time),
      rp_Source = ''abuseipdb'', rp_CachedAt = zero_time\<rparr>"

definition default_reputation :: "string \<Rightarrow> ReputationResult" where
  "default_reputation ip =
     \<lparr>rp_IP = ip, rp_AbuseScore = 0, rp_TrustLevel = fl (7 / 10), rp_IsKnownBad = False, rp_IsProxy = False,
      rp_IsTor = False, rp_IsVPN = False, rp_IsDatacenter = False, rp_TotalReports = 0, rp_LastReported = zero_time,
      rp_Source = ''default'', rp_CachedAt = zero_time\<rparr>"

record ReputationEngine =
  re_cfg :: Config
  re_cache :: "(string, ReputationResult) gomap"

definition NewReputationEngine :: "Config \<Rightarrow> ReputationEngine" where
  "NewReputationEngine cfg = \<lparr>re_cfg = cfg, re_cache = []\<rparr>"

definition query_reputation :: "(string \<Rightarrow> abuse_data option) \<Rightarrow> Config \<Rightarrow> string \<Rightarrow> ReputationResult" where
  "query_reputation abuse cfg ip =
     (if ipr_AbuseIPDBKey (itl_IPReputation (cfg_Intelligence cfg)) = [] then default_reputation ip
      else case abuse ip of None \<Rightarrow> default_reputation ip | Some d \<Rightarrow> from_abuse ip d)"

definition rep_Check ::
  "(string \<Rightarrow> abuse_data option) \<Rightarrow> string \<Rightarrow> gotime \<Rightarrow> ReputationEngine \<Rightarrow> ReputationResult \<times> ReputationEngine" where
  "rep_Check abuse ip now re =
     (let fresh = (query_reputation abuse (re_cfg re) ip)\<lparr>rp_CachedAt := now\<rparr>;
          renewed = (fresh, re\<lparr>re_cache := AList.update ip fresh (re_cache re)\<rparr>) in
      case map_of (re_cache re) ip of
        Some rep \<Rightarrow> if time_sub now (rp_CachedAt rep) < ipr_CacheTTL (itl_IPReputation (cfg_Intelligence (re_cfg re)))
                    then (rep, re) else renewed
      | None \<Rightarrow> renewed)"

definition rep_CleanupCache :: "gotime \<Rightarrow> ReputationEngine \<Rightarrow> ReputationEngine" where
  "rep_CleanupCache now re = re\<lparr>re_cache := filter (\<lambda>(ip, rep).
     \<not> ipr_CacheTTL (itl_IPReputation (cfg_Intelligence (re_cfg re))) < time_sub now (rp_CachedAt rep)) (re_cache re)\<rparr>"

subsection \<open>Evaluation\<close>

record Intel =
  in_cfg :: Config
  in_geo :: "GeoProvider option"
  in_reputation :: "ReputationEngine option"
  in_asn :: "ASNAnalyzer option"
  in_feeds :: ThreatFeedManager
  in_lists :: ListManager

record EvalResult =
  ev_IP :: string
  ev_TrustScore :: f64
  ev_Geo :: "GeoResult option"
  ev_Reputation :: "ReputationResult option"
  ev_ASN :: "ASNInfo option"
  ev_Actions :: "string list"

definition NewThreatFeedManager :: ThreatFeedManager where
  "NewThreatFeedManager = \<lparr>tf_knownBad = [], tf_stats = \<lparr>ft_LastUpdate = zero_time, ft_TotalEntries = 0,
     ft_FeedErrors = 0, ft_FeedSources = 0\<rparr>\<rparr>"

definition NewIntel :: "(string \<Rightarrow> bool) \<Rightarrow> Config \<Rightarrow> Intel" where
  "NewIntel exists cfg =
     \<lparr>in_cfg = cfg,
      in_geo = (if geo_Enabled (itl_GeoIP (cfg_Intelligence cfg))
                then Some (NewGeoProvider exists (geo_DBPath (itl_GeoIP (cfg_Intelligence cfg)))) else None),
      in_reputation = (if ipr_Enabled (itl_IPReputation (cfg_Intelligence cfg)) then Some (NewReputationEngine cfg) else None),
      in_asn = (if asn_Enabled (itl_ASN (cfg_Intelligence cfg)) then Some [] else None),
      in_feeds = NewThreatFeedManager,
      in_lists = LoadReservedIPs NewListManager\<rparr>"

definition in_UpdateConfig :: "Config option \<Rightarrow> Intel \<Rightarrow> Intel" where
  "in_UpdateConfig new i = (case new of None \<Rightarrow> i | Some cfg \<Rightarrow> i\<lparr>in_cfg := cfg\<rparr>)"

definition deduct :: "f64 \<Rightarrow> string \<Rightarrow> EvalResult \<Rightarrow> EvalResult" where
  "deduct d act r = r\<lparr>ev_TrustScore := fsub (ev_TrustScore r) d, ev_Actions := ev_Actions r @ [act]\<rparr>"

definition deduct_if :: "bool \<Rightarrow> f64 \<Rightarrow> string \<Rightarrow> EvalResult \<Rightarrow> EvalResult" where
  "deduct_if b d act r = (if b then deduct d act r else r)"

text \<open>The geographic layer: \<open>Inl\<close> for the early return of a blocked country.\<close>

definition eval_geo :: "GeoIPConfig \<Rightarrow> GeoResult \<Rightarrow> EvalResult \<Rightarrow> EvalResult + EvalResult" where
  "eval_geo cfg g r =
     (let r = r\<lparr>ev_Geo := Some g\<rparr> in
      case find (\<lambda>c. equal_fold (ge_CountryCode g) c) (geo_BlockedCountries cfg) of
        Some blocked \<Rightarrow> Inl (r\<lparr>ev_TrustScore := 0, ev_Actions := ev_Actions r @ [''geo_blocked:'' @ blocked]\<rparr>)
      | None \<Rightarrow> Inr (deduct_if (geo_AllowedCountries cfg \<noteq> [] \<and>
            \<not> list_ex (\<lambda>c. equal_fold (ge_CountryCode g) c) (geo_AllowedCountries cfg))
          30 (''geo_not_allowed:'' @ ge_CountryCode g) r))"

definition eval_reputation :: "ReputationResult \<Rightarrow> EvalResult \<Rightarrow> EvalResult" where
  "eval_reputation rep r =
     (let r1 = deduct_if (rp_IsKnownBad rep) 50 ''known_bad_ip'' (r\<lparr>ev_Reputation := Some rep\<rparr>);
          r2 = deduct_if (rp_IsProxy rep \<or> rp_IsTor rep \<or> rp_IsVPN rep) 20 ''anonymizer'' r1;
          r3 = deduct_if (rp_IsDatacenter rep) 15 ''datacenter_ip'' r2
      in if 0 < rp_AbuseScore rep
         then r3\<lparr>ev_TrustScore := fsub (ev_TrustScore r3) (fmul (f_of_int (rp_AbuseScore rep)) (1 / 2))\<rparr> else r3)"

definition eval_asn :: "ASNConfig \<Rightarrow> ASNInfo \<Rightarrow> EvalResult \<Rightarrow> EvalResult" where
  "eval_asn cfg a r =
     deduct_if (ai_RiskLevel a = ''high'') 20 ''high_risk_asn''
       (deduct_if (ai_IsHosting a \<and> asn_BlockDatacenter cfg) 25 (''hosting_asn:'' @ ai_Organization a)
         (r\<lparr>ev_ASN := Some a\<rparr>))"

definition clamp_score :: "EvalResult \<Rightarrow> EvalResult" where
  "clamp_score r =
     (let r = (if ev_TrustScore r < 0 then r\<lparr>ev_TrustScore := 0\<rparr> else r)
      in if 100 < ev_TrustScore r then r\<lparr>ev_TrustScore := 100\<rparr> else r)"

definition geo_active :: "Intel \<Rightarrow> bool" where
  "geo_active i \<longleftrightarrow> (case in_geo i of None \<Rightarrow> False | Some g \<Rightarrow> \<not> gp_fallback g)"

text \<open>The layers after the geographic one, which update the caches.\<close>

definition eval_network ::
  "(string \<Rightarrow> abuse_data option) \<Rightarrow> string \<Rightarrow> gotime \<Rightarrow> EvalResult \<Rightarrow> Intel \<Rightarrow> EvalResult \<times> Intel" where
  "eval_network abuse ip now r i =
     (let (r1, i1) = (case in_reputation i of
              None \<Rightarrow> (r, i)
            | Some re \<Rightarrow> let (rep, re') = rep_Check abuse ip now re
                           in (eval_reputation rep r, i\<lparr>in_reputation := Some re'\<rparr>));
          (r2, i2) = (case in_asn i1 of
              None \<Rightarrow> (r1, i1)
            | Some cache \<Rightarrow> let (a, cache') = asn_Analyze ip (ev_Geo r1) cache
                           in (eval_asn (itl_ASN (cfg_Intelligence (in_cfg i1))) a r1, i1\<lparr>in_asn := Some cache'\<rparr>))
      in (clamp_score r2, i2))"

definition Evaluate ::
  "(string \<Rightarrow> abuse_data option) \<Rightarrow> string \<Rightarrow> gotime \<Rightarrow> Intel \<Rightarrow> EvalResult \<times> Intel" where
  "Evaluate abuse ip now i =
     (let r = \<lparr>ev_IP = ip, ev_TrustScore = 70, ev_Geo = None, ev_Reputation = None, ev_ASN = None, ev_Actions = []\<rparr> in
      if IsBlacklisted ip now (in_lists i) then (r\<lparr>ev_TrustScore := 0, ev_Actions := [''blacklisted'']\<rparr>, i)
      else if IsWhitelisted ip now (in_lists i) then (r\<lparr>ev_TrustScore := 100, ev_Actions := [''whitelisted'']\<rparr>, i)
      else let r = deduct_if (IsKnownThreat ip (in_feeds i)) 40 ''threat_feed_match'' r in
        if geo_active i
        then (case eval_geo (itl_GeoIP (cfg_Intelligence (in_cfg i))) (geo_Lookup ip) r of
                Inl blocked \<Rightarrow> (blocked, i) | Inr r' \<Rightarrow> eval_network abuse ip now r' i)
        else eval_network abuse ip now r i)"

subsection \<open>Ranges and caches\<close>

lemma clamp_range: "0 \<le> ev_TrustScore (clamp_score r) \<and> ev_TrustScore (clamp_score r) \<le> 100"
  by (simp add: clamp_score_def Let_def)

lemma clamp_pos: "0 < ev_TrustScore (clamp_score r) \<longleftrightarrow> 0 < ev_TrustScore r"
  by (auto simp: clamp_score_def Let_def)

lemma deduct_if_simps [simp]:
  "ev_TrustScore (deduct_if b d act r) = (if b then fsub (ev_TrustScore r) d else ev_TrustScore r)"
  "ev_Geo (deduct_if b d act r) = ev_Geo r"
  by (simp_all add: deduct_if_def deduct_def)

text \<open>Organisations the geographic table can name are never of high risk.\<close>

definition geo_orgs :: "string list" where
  "geo_orgs = [[], ''Amazon.com'', ''Global Transit Provider'', ''VNPT'', ''Google LLC'', ''Rostelecom'', ''CHINANET'',
     ''Hetzner Online'', ''British Telecom'', ''Claro Brasil'', ''Telkom Indonesia'', ''NTT Communications'',
     ''Free SAS'', ''Singtel'']"

lemma geo_table_orgs: "\<forall>(bs, g) \<in> set geo_table. ge_ASNOrg g \<in> set geo_orgs"
  by (simp add: geo_table_def geo_def geo_orgs_def)

lemma geo_v4_org: "ge_ASNOrg (geo_v4 b0 b1) \<in> set geo_orgs"
proof (cases "find (\<lambda>(bs, g). b0 \<in> set bs) geo_table")
  case None
  then show ?thesis by (simp add: geo_v4_def geo_def geo_orgs_def split: prod.split)
next
  case (Some bg)
  obtain bs g where bg: "bg = (bs, g)" by (cases bg)
  have "(bs, g) \<in> set geo_table" using Some unfolding bg find_Some_iff by (metis nth_mem)
  then show ?thesis using Some geo_table_orgs by (auto simp: geo_v4_def bg)
qed

lemma geo_Lookup_org: "ge_ASNOrg (geo_Lookup ip) \<in> set geo_orgs"
  using geo_v4_org by (auto simp: geo_Lookup_def split: option.split) (auto simp: geo_def geo_orgs_def)

lemma geo_orgs_risk: "list_all (\<lambda>org. \<not> names_one (to_lower org) highRiskProviders) geo_orgs"
  by code_simp

lemma classify_risk:
  "\<not> names_one org highRiskProviders \<Longrightarrow> ai_RiskLevel info \<noteq> ''high'' \<Longrightarrow>
     ai_RiskLevel (classifyOrganization org info) \<noteq> ''high''"
  by (simp add: classifyOrganization_def)

lemma asn_info_risk:
  assumes "g = None \<or> g = Some (geo_Lookup ip)"
  shows "ai_RiskLevel (asn_info g) \<noteq> ''high''"
proof -
  have "\<not> names_one (to_lower (ge_ASNOrg (geo_Lookup ip))) highRiskProviders"
    using geo_orgs_risk geo_Lookup_org [of ip] by (simp add: list_all_iff)
  from classify_risk [OF this] show ?thesis
    using assms by (cases "0 < ge_ASN (geo_Lookup ip)") (auto simp: asn_info_def Let_def)
qed

definition cached_risks_ok :: "Intel \<Rightarrow> bool" where
  "cached_risks_ok i \<longleftrightarrow>
     (\<forall>cache ip a. in_asn i = Some cache \<longrightarrow> map_of cache ip = Some a \<longrightarrow> ai_RiskLevel a \<noteq> ''high'') \<and>
     (\<forall>re ip rep. in_reputation i = Some re \<longrightarrow> map_of (re_cache re) ip = Some rep \<longrightarrow>
        (\<exists>t. rep = (default_reputation ip)\<lparr>rp_CachedAt := t\<rparr>))"

lemma eval_default: "ev_TrustScore (eval_reputation ((default_reputation ip)\<lparr>rp_CachedAt := t\<rparr>) r) = ev_TrustScore r"
  "ev_Geo (eval_reputation rep r) = ev_Geo r"
  by (simp_all add: eval_reputation_def default_reputation_def Let_def)

definition no_abuse_key :: "Intel \<Rightarrow> bool" where
  "no_abuse_key i \<longleftrightarrow> (case in_reputation i of None \<Rightarrow> True
     | Some re \<Rightarrow> ipr_AbuseIPDBKey (itl_IPReputation (cfg_Intelligence (re_cfg re))) = [])"

lemma rep_Check_default:
  assumes "ipr_AbuseIPDBKey (itl_IPReputation (cfg_Intelligence (re_cfg re))) = []"
    and "\<forall>ip rep. map_of (re_cache re) ip = Some rep \<longrightarrow> (\<exists>t. rep = (default_reputation ip)\<lparr>rp_CachedAt := t\<rparr>)"
    and "rep_Check abuse ip now re = (rep, re')"
  shows "(\<exists>t. rep = (default_reputation ip)\<lparr>rp_CachedAt := t\<rparr>) \<and> re_cfg re' = re_cfg re \<and>
    (\<forall>ip rep. map_of (re_cache re') ip = Some rep \<longrightarrow> (\<exists>t. rep = (default_reputation ip)\<lparr>rp_CachedAt := t\<rparr>))"
  using assms by (auto simp: rep_Check_def query_reputation_def Let_def gomap_simps split: option.splits if_splits)

lemma asn_Analyze_risk:
  assumes "\<forall>ip a. map_of cache ip = Some a \<longrightarrow> ai_RiskLevel a \<noteq> ''high''"
    and "g = None \<or> g = Some (geo_Lookup ip)" and "asn_Analyze ip g cache = (a, cache')"
  shows "ai_RiskLevel a \<noteq> ''high'' \<and> (\<forall>ip a. map_of cache' ip = Some a \<longrightarrow> ai_RiskLevel a \<noteq> ''high'')"
  using assms asn_info_risk [OF assms(2)]
  by (auto simp: asn_Analyze_def gomap_simps split: option.splits if_splits)

text \<open>Without the reputation service the network layers take at most 25 points.\<close>

lemma eval_network_score:
  assumes "cached_risks_ok i" and "no_abuse_key i" and "ev_Geo r = None \<or> ev_Geo r = Some (geo_Lookup ip)"
    and "eval_network abuse ip now r i = (r', i')"
  shows "cached_risks_ok i' \<and> no_abuse_key i' \<and> (0 < ev_TrustScore r' \<longleftrightarrow> 0 < ev_TrustScore r \<and> 0 < ev_TrustScore r') \<and>
    (25 < ev_TrustScore r \<longrightarrow> 0 < ev_TrustScore r') \<and> in_cfg i' = in_cfg i"
proof -
  obtain r1 i1 where 1: "(case in_reputation i of None \<Rightarrow> (r, i)
      | Some re \<Rightarrow> let (rep, re') = rep_Check abuse ip now re
                     in (eval_reputation rep r, i\<lparr>in_reputation := Some re'\<rparr>)) = (r1, i1)"
    by (metis prod.exhaust)
  have one: "ev_TrustScore r1 = ev_TrustScore r \<and> ev_Geo r1 = ev_Geo r \<and> cached_risks_ok i1 \<and>
      no_abuse_key i1 \<and> in_cfg i1 = in_cfg i"
  proof (cases "in_reputation i")
    case None
    then show ?thesis using 1 assms(1,2) by simp
  next
    case (Some re)
    obtain rep re' where rep: "rep_Check abuse ip now re = (rep, re')" by (metis prod.exhaust)
    have key: "ipr_AbuseIPDBKey (itl_IPReputation (cfg_Intelligence (re_cfg re))) = []"
      using assms(2) Some by (simp add: no_abuse_key_def)
    have old: "\<forall>ip rep. map_of (re_cache re) ip = Some rep \<longrightarrow> (\<exists>t. rep = (default_reputation ip)\<lparr>rp_CachedAt := t\<rparr>)"
      using assms(1) Some by (simp add: cached_risks_ok_def)
    note new = rep_Check_default [OF key old rep]
    then obtain t where t: "rep = (default_reputation ip)\<lparr>rp_CachedAt := t\<rparr>" by blast
    have "r1 = eval_reputation rep r" "i1 = i\<lparr>in_reputation := Some re'\<rparr>" using 1 Some rep by simp_all
    then show ?thesis using assms(1) new key by (simp add: t eval_default cached_risks_ok_def no_abuse_key_def)
  qed
  obtain r2 i2 where 2: "(case in_asn i1 of None \<Rightarrow> (r1, i1)
      | Some cache \<Rightarrow> let (a, cache') = asn_Analyze ip (ev_Geo r1) cache
                     in (eval_asn (itl_ASN (cfg_Intelligence (in_cfg i1))) a r1, i1\<lparr>in_asn := Some cache'\<rparr>)) = (r2, i2)"
    by (metis prod.exhaust)
  have geo: "ev_Geo r1 = None \<or> ev_Geo r1 = Some (geo_Lookup ip)" using assms(3) one by simp
  have two: "(ev_TrustScore r2 = ev_TrustScore r1 \<or> ev_TrustScore r2 = fsub (ev_TrustScore r1) 25) \<and>
      cached_risks_ok i2 \<and> no_abuse_key i2 \<and> in_cfg i2 = in_cfg i1"
  proof (cases "in_asn i1")
    case None
    then show ?thesis using 2 one by simp
  next
    case (Some cache)
    obtain a cache' where a: "asn_Analyze ip (ev_Geo r1) cache = (a, cache')" by (metis prod.exhaust)
    have "\<forall>ip a. map_of cache ip = Some a \<longrightarrow> ai_RiskLevel a \<noteq> ''high''"
      using one Some by (simp add: cached_risks_ok_def)
    from asn_Analyze_risk [OF this geo a] show ?thesis
      using 2 Some a one by (auto simp: eval_asn_def cached_risks_ok_def no_abuse_key_def)
  qed
  have fin: "r' = clamp_score r2" "i' = i2" using assms(4) 1 2 by (auto simp: eval_network_def Let_def)
  have "ev_TrustScore r2 \<le> 0" if "ev_TrustScore r \<le> 0"
    using two that one fl_mono [of "ev_TrustScore r - 25" 0] by (auto simp: fsub_def)
  moreover have "0 < ev_TrustScore r2" if "25 < ev_TrustScore r"
    using two that one by (auto simp: fsub_def)
  ultimately show ?thesis using two one unfolding fin by (auto simp: clamp_pos not_less [symmetric])
qed

lemma eval_network_keeps:
  "eval_network abuse ip now r i = (r', i') \<Longrightarrow>
     in_lists i' = in_lists i \<and> in_feeds i' = in_feeds i \<and> 0 \<le> ev_TrustScore r' \<and> ev_TrustScore r' \<le> 100"
  using clamp_range
  by (auto simp: eval_network_def Let_def split: option.splits prod.splits)

lemma eval_geo_no_allowed:
  assumes "geo_AllowedCountries cfg = []"
  shows "eval_geo cfg g r =
    (case find (\<lambda>c. equal_fold (ge_CountryCode g) c) (geo_BlockedCountries cfg) of
       Some blocked \<Rightarrow> Inl (r\<lparr>ev_Geo := Some g, ev_TrustScore := 0, ev_Actions := ev_Actions r @ [''geo_blocked:'' @ blocked]\<rparr>)
     | None \<Rightarrow> Inr (r\<lparr>ev_Geo := Some g\<rparr>))"
  by (simp add: eval_geo_def Let_def assms deduct_if_def split: option.split)

lemma known_threat_score:
  "ev_TrustScore r = 70 \<Longrightarrow> 25 < ev_TrustScore (deduct_if b 40 act r)"
proof -
  have "fsub 70 40 = 30" by code_simp
  then show "ev_TrustScore r = 70 \<Longrightarrow> 25 < ev_TrustScore (deduct_if b 40 act r)" by simp
qed

subsection \<open>What a feed can match\<close>

lemma parse_ip_no_percent: "parse_ip s \<noteq> None \<Longrightarrow> CHR ''%'' \<notin> set s"
proof
  assume p: "parse_ip s \<noteq> None" and m: "CHR ''%'' \<in> set s"
  have "\<not> addr_char CHR ''%''" by code_simp
  then have v4: "parse_v4 s = None" using v4_fields_bad [OF m] by (simp add: parse_v4_def)
  have "cut_byte CHR ''%'' s \<noteq> None"
    using m by (auto simp: cut_byte_def index_byte_def index_where_None)
  then obtain t zone where cut: "cut_byte CHR ''%'' s = Some (t, zone)" by auto
  have "a_zone a = zone" "zone \<noteq> []" if "parse_v6 s = Some a" for a
    using that by (auto simp: parse_v6_def cut split: if_splits)
  with v4 p show False
    by (auto simp: parse_ip_def parse_addr_def split: option.splits if_splits)
qed

lemma parse_ip_no_slash: "parse_ip ip \<noteq> None \<Longrightarrow> CHR ''/'' \<notin> set ip"
proof
  assume p: "parse_ip ip \<noteq> None" and s: "CHR ''/'' \<in> set ip"
  have bad: "\<not> addr_char CHR ''/''" by code_simp
  have "parse_addr ip = None" by (rule parse_addr_bad [OF s bad parse_ip_no_percent [OF p]])
  then show False using p by (simp add: parse_ip_def)
qed

lemma parse_cidr_slash: "parse_cidr v \<noteq> None \<Longrightarrow> CHR ''/'' \<in> set v"
  by (auto simp: parse_cidr_def cut_byte_iff split: option.splits)

lemma store_threat_known:
  "IsKnownThreat ip (store_threat x source category now tf) = (ip = x \<or> IsKnownThreat ip tf)"
  by (simp add: IsKnownThreat_def store_threat_def gomap_simps)

definition line_names :: "string \<Rightarrow> string \<Rightarrow> bool" where
  "line_names ip text \<longleftrightarrow> (let line = trim_ws text in
     \<not> has_prefix line ''#'' \<and> \<not> has_prefix line '';'' \<and> extractIPFromLine line = ip)"

lemma feed_line_known:
  assumes "parse_ip ip \<noteq> None"
  shows "IsKnownThreat ip (feed_line f now text tf) \<longleftrightarrow> IsKnownThreat ip tf \<or> line_names ip text"
proof -
  have "ip \<noteq> []" using assms by (auto simp: parse_ip_def)
  moreover have "extractIPFromLine [] = []"
    by (simp add: extractIPFromLine_def cut_comment_def index_byte_def first_field_def)
  ultimately show ?thesis by (auto simp: feed_line_def line_names_def Let_def store_threat_known)
qed

lemma feed_lines_known:
  "parse_ip ip \<noteq> None \<Longrightarrow> IsKnownThreat ip (fold (feed_line f now) lines tf) \<longleftrightarrow>
     IsKnownThreat ip tf \<or> list_ex (line_names ip) lines"
  by (induction lines arbitrary: tf) (auto simp: feed_line_known)

definition feed_names :: "(string \<Rightarrow> (string list \<times> bool) option) \<Rightarrow> string \<Rightarrow> Feed \<Rightarrow> bool" where
  "feed_names download ip f \<longleftrightarrow> fd_Enabled f \<and>
     (case download (fd_URL f) of None \<Rightarrow> False | Some (lines, ok) \<Rightarrow> list_ex (line_names ip) lines)"

lemma feeds_known:
  assumes "parse_ip ip \<noteq> None"
  shows "IsKnownThreat ip (snd (fold (update_feed download now) fs acc)) \<longleftrightarrow>
     IsKnownThreat ip (snd acc) \<or> list_ex (feed_names download ip) fs"
proof (induction fs arbitrary: acc)
  case (Cons f fs)
  have "IsKnownThreat ip (snd (update_feed download now f acc)) \<longleftrightarrow> IsKnownThreat ip (snd acc) \<or> feed_names download ip f"
    by (cases acc) (auto simp: update_feed_def fetchFeed_def feed_names_def feed_lines_known [OF assms] split: option.split)
  then show ?case using Cons by auto
qed simp

lemma update_all_known:
  "parse_ip ip \<noteq> None \<Longrightarrow> IsKnownThreat ip (UpdateAll download now tf) \<longleftrightarrow>
     IsKnownThreat ip tf \<or> list_ex (feed_names download ip) DefaultFeeds"
  using feeds_known [of ip download now DefaultFeeds "(0, tf)"]
  by (auto simp: UpdateAll_def Let_def IsKnownThreat_def split: prod.splits)

lemma range_names_nothing:
  "parse_ip ip \<noteq> None \<Longrightarrow> parse_cidr (extractIPFromLine (trim_ws text)) \<noteq> None \<Longrightarrow> \<not> line_names ip text"
  using parse_ip_no_slash parse_cidr_slash by (auto simp: line_names_def Let_def)

subsection \<open>Properties\<close>

lemma Evaluate_unlisted:
  assumes "\<not> IsBlacklisted ip now (in_lists i)" and "\<not> IsWhitelisted ip now (in_lists i)"
  obtains r where "25 < ev_TrustScore r" and "ev_Geo r = None"
    and "Evaluate abuse ip now i = (if geo_active i
      then (case eval_geo (itl_GeoIP (cfg_Intelligence (in_cfg i))) (geo_Lookup ip) r of
              Inl blocked \<Rightarrow> (blocked, i) | Inr r' \<Rightarrow> eval_network abuse ip now r' i)
      else eval_network abuse ip now r i)"
proof -
  define r where "r = deduct_if (IsKnownThreat ip (in_feeds i)) 40 ''threat_feed_match''
    \<lparr>ev_IP = ip, ev_TrustScore = 70, ev_Geo = None, ev_Reputation = None, ev_ASN = None, ev_Actions = []\<rparr>"
  have "25 < ev_TrustScore r" unfolding r_def by (rule known_threat_score) simp
  then show ?thesis using that [of r] assms by (simp add: Evaluate_def Let_def r_def)
qed

text \<open>
  C23: With a configuration without allowed countries and without a key for the reputation service, the score
  \<open>Evaluate\<close> returns lies between 0 and 100, and it is 0, the value on which the pipeline blocks,
  exactly for an address on the blacklist, or, off both lists, one whose country is blocked while the
  geographic layer is active: a match in a threat feed, a hosting network or a data center never blocks by itself.
  Whitelisted addresses get 100, and the caches keep only entries that the layers computed.
\<close>

theorem intel_block_decision:
  assumes "cached_risks_ok i" and "no_abuse_key i"
    and "geo_AllowedCountries (itl_GeoIP (cfg_Intelligence (in_cfg i))) = []"
  shows "let (r, i') = Evaluate abuse ip now i;
             blocked = (\<exists>c \<in> set (geo_BlockedCountries (itl_GeoIP (cfg_Intelligence (in_cfg i)))).
               equal_fold (ge_CountryCode (geo_Lookup ip)) c) in
     0 \<le> ev_TrustScore r \<and> ev_TrustScore r \<le> 100 \<and>
     (ev_TrustScore r = 0 \<longleftrightarrow> IsBlacklisted ip now (in_lists i) \<or>
        \<not> IsWhitelisted ip now (in_lists i) \<and> geo_active i \<and> blocked) \<and>
     (\<not> IsBlacklisted ip now (in_lists i) \<and> IsWhitelisted ip now (in_lists i) \<longrightarrow> ev_TrustScore r = 100) \<and>
     cached_risks_ok i' \<and> no_abuse_key i' \<and> in_lists i' = in_lists i \<and> in_feeds i' = in_feeds i"
proof -
  consider "IsBlacklisted ip now (in_lists i)"
    | "\<not> IsBlacklisted ip now (in_lists i)" "IsWhitelisted ip now (in_lists i)"
    | "\<not> IsBlacklisted ip now (in_lists i)" "\<not> IsWhitelisted ip now (in_lists i)" by blast
  then show ?thesis
  proof cases
    case 3
    define cfg where "cfg = itl_GeoIP (cfg_Intelligence (in_cfg i))"
    obtain r where r: "25 < ev_TrustScore r" "ev_Geo r = None" and ev: "Evaluate abuse ip now i = (if geo_active i
        then (case eval_geo cfg (geo_Lookup ip) r of
                Inl blocked \<Rightarrow> (blocked, i) | Inr r' \<Rightarrow> eval_network abuse ip now r' i)
        else eval_network abuse ip now r i)"
      using Evaluate_unlisted [OF 3] unfolding cfg_def by blast
    show ?thesis
    proof (cases "geo_active i \<and> (\<exists>c \<in> set (geo_BlockedCountries cfg). equal_fold (ge_CountryCode (geo_Lookup ip)) c)")
      case True
      then obtain c where "find (\<lambda>c. equal_fold (ge_CountryCode (geo_Lookup ip)) c) (geo_BlockedCountries cfg) = Some c"
        using find_None_iff by (metis (no_types, lifting) option.exhaust)
      then have "\<exists>r'. Evaluate abuse ip now i = (r', i) \<and> ev_TrustScore r' = 0"
        using True assms(3) by (simp add: ev eval_geo_no_allowed cfg_def)
      then obtain r' where e: "Evaluate abuse ip now i = (r', i)" and z: "ev_TrustScore r' = 0" by blast
      show ?thesis unfolding e Let_def prod.case using True 3 assms z by (simp add: cfg_def)
    next
      case False
      define r0 where "r0 = (if geo_active i then r\<lparr>ev_Geo := Some (geo_Lookup ip)\<rparr> else r)"
      obtain r' i' where e: "eval_network abuse ip now r0 i = (r', i')" by fastforce
      have "find (\<lambda>c. equal_fold (ge_CountryCode (geo_Lookup ip)) c) (geo_BlockedCountries cfg) = None" if "geo_active i"
        using False that by (simp add: find_None_iff)
      then have E: "Evaluate abuse ip now i = (r', i')"
        using assms(3) by (simp add: ev e [symmetric] r0_def eval_geo_no_allowed cfg_def)
      have "0 < ev_TrustScore r' \<and> cached_risks_ok i' \<and> no_abuse_key i'"
        using eval_network_score [OF assms(1,2) _ e] r by (simp add: r0_def)
      with eval_network_keeps [OF e] show ?thesis unfolding E Let_def prod.case using False 3 by (simp add: cfg_def)
    qed
  qed (use assms in \<open>auto simp: Evaluate_def Let_def\<close>)
qed


text \<open>An address entered by hand on the blacklist of a fresh instance.\<close>

definition listed_example :: Intel where
  "listed_example = (NewIntel (\<lambda>_. False) zero_Config)
     \<lparr>in_lists := AddBlacklist ''192.0.2.7'' ''abuse'' ''manual'' 0 0 NewListManager\<rparr>"

lemma listed_example_simps:
  "cached_risks_ok listed_example" "no_abuse_key listed_example"
  "geo_AllowedCountries (itl_GeoIP (cfg_Intelligence (in_cfg listed_example))) = []"
  "IsBlacklisted ''192.0.2.7'' 5 (in_lists listed_example)"
  by (simp_all add: listed_example_def NewIntel_def zero_Config_def zero_IntelConfig_def zero_GeoIPConfig_def zero_IPReputationConfig_def
      zero_ASNConfig_def cached_risks_ok_def no_abuse_key_def
      IsBlacklisted_def on_list_def AddBlacklist_def new_entry_def entry_expired_def NewListManager_def)

lemma intel_block_decision_witness:
  "ev_TrustScore (fst (Evaluate (\<lambda>_. None) ''192.0.2.7'' 5 listed_example)) = 0"
  using intel_block_decision [OF listed_example_simps(1-3), of "\<lambda>_. None" "''192.0.2.7''" 5] listed_example_simps(4)
  by (simp add: Let_def split: prod.splits)

text \<open>
  After an update of the threat feeds an address is known as a threat exactly if it was before or if a line of a
  downloaded feed spells the very same text; a line that gives a range, as all of FireHOL and Spamhaus do, is stored
  under its text and makes no address a known threat.
\<close>

theorem feeds_match_text_only:
  assumes "parse_ip ip \<noteq> None"
  shows "(IsKnownThreat ip (UpdateAll download now tf) \<longleftrightarrow>
      IsKnownThreat ip tf \<or> list_ex (feed_names download ip) DefaultFeeds) \<and>
    (parse_cidr (extractIPFromLine (trim_ws entry)) \<noteq> None \<longrightarrow>
      IsKnownThreat ip (feed_line f now entry tf) = IsKnownThreat ip tf)"
  using update_all_known [OF assms] feed_line_known [OF assms] range_names_nothing [OF assms] by blast

lemma feeds_match_text_only_witness:
  "\<not> IsKnownThreat ''198.51.100.9'' (feed_line (feed ''drop'' [] ''spam'') 0 ''198.51.100.0/24 ; SBL1'' NewThreatFeedManager)"
proof -
  have 1: "parse_ip ''198.51.100.9'' \<noteq> None" by code_simp
  have 2: "parse_cidr (extractIPFromLine (trim_ws ''198.51.100.0/24 ; SBL1'')) \<noteq> None" by code_simp
  show ?thesis
    using feeds_match_text_only [where ip = "''198.51.100.9''" and entry = "''198.51.100.0/24 ; SBL1''"
      and f = "feed ''drop'' [] ''spam''" and now = 0 and tf = NewThreatFeedManager] 1 2
    by (simp add: IsKnownThreat_def NewThreatFeedManager_def)
qed

end
