(* ===== verification/Ip_State.thy ===== *)
theory Ip_State
  imports Kv_Store Net_Addr Hashes Float64
begin

section \<open>Per-address state (core/pipeline.go)\<close>

text \<open>
  \<open>IPState\<close> and the map of 256 shards keyed by the 16 bytes of an address. A handler that got a state
  by pointer and changes it writes it back with \<open>put_state\<close>. Lemmas: the map is the plain map from
  addresses to states, and every text that is not an address shares one key.
\<close>

record IPState =
  is_RequestCount :: int
  is_RPS :: int
  is_LastReset :: gotime
  is_LastSeen :: int
  is_Stage :: int
  is_Fails :: int
  is_TrustScore :: f64
  is_JA3Hash :: string
  is_Countries :: string
  is_FirstSeen :: gotime
  is_TotalRequests :: int
  is_ChallengesServed :: int
  is_ChallengesPassed :: int
  is_RateLimitHits :: int
  is_ChallengeHits :: int
  is_CPS :: int
  is_ConnLastReset :: gotime
  is_IsTrustedProxy :: bool
  is_ActiveConns :: "32 word"

type_synonym IPStateMap = "(byte list, IPState) shards"

definition ipShardCount :: nat where "ipShardCount = 256"

definition newIPStateMap :: IPStateMap where
  "newIPStateMap = replicate ipShardCount []"

text \<open>Any text that is not an address becomes the key of zeros.\<close>

definition parseIPFast :: "string \<Rightarrow> byte list" where
  "parseIPFast ipStr = (case parse_addr ipStr of Some a \<Rightarrow> a16 a | None \<Rightarrow> replicate 16 0)"

definition fnv32IP :: "byte list \<Rightarrow> u32" where
  "fnv32IP key = foldl fnv_step 2166136261 key"

definition ip_shard :: "byte list \<Rightarrow> nat" where
  "ip_shard key = unat (fnv32IP key) mod ipShardCount"

definition new_state :: "bool \<Rightarrow> gotime \<Rightarrow> IPState" where
  "new_state isTrusted now =
     \<lparr>is_RequestCount = 0, is_RPS = 0, is_LastReset = now, is_LastSeen = now, is_Stage = 0, is_Fails = 0,
      is_TrustScore = (if isTrusted then 100 else 50), is_JA3Hash = [], is_Countries = [], is_FirstSeen = now,
      is_TotalRequests = 0, is_ChallengesServed = 0, is_ChallengesPassed = 0, is_RateLimitHits = 0,
      is_ChallengeHits = 0, is_CPS = 0, is_ConnLastReset = zero_time, is_IsTrustedProxy = isTrusted,
      is_ActiveConns = 0\<rparr>"

definition load_state :: "byte list \<Rightarrow> IPStateMap \<Rightarrow> IPState option" where
  "load_state key m = map_of (m ! ip_shard key) key"

definition put_state :: "byte list \<Rightarrow> IPState \<Rightarrow> IPStateMap \<Rightarrow> IPStateMap" where
  "put_state key st m = m[ip_shard key := AList.update key st (m ! ip_shard key)]"

definition GetOrCreate :: "string \<Rightarrow> bool \<Rightarrow> gotime \<Rightarrow> IPStateMap \<Rightarrow> IPState \<times> IPStateMap" where
  "GetOrCreate ipStr isTrusted now m =
     (let ipKey = parseIPFast ipStr;
          state = (case load_state ipKey m of Some st \<Rightarrow> st\<lparr>is_LastSeen := now\<rparr> | None \<Rightarrow> new_state isTrusted now)
      in (state, put_state ipKey state m))"

definition ipm_Cleanup :: "duration \<Rightarrow> gotime \<Rightarrow> IPStateMap \<Rightarrow> IPStateMap" where
  "ipm_Cleanup idleTimeout now m = map (filter (\<lambda>(k, st). \<not> idleTimeout < now - is_LastSeen st)) m"

subsection \<open>The map as a store\<close>

interpretation ipm: shard_fn ip_shard 256
  by unfold_locales (simp add: ip_shard_def ipShardCount_def)

abbreviation ipm_ok :: "IPStateMap \<Rightarrow> bool" where
  "ipm_ok \<equiv> shards_ok ip_shard 256"

lemma ipm_ops:
  "load_state k m = shard_load ip_shard m k"
  "put_state k st m = shard_put ip_shard k st m"
  "newIPStateMap = replicate 256 []"
  "ipm_Cleanup d now m = shard_sweep (\<lambda>(k, st). \<not> d < now - is_LastSeen st) m"
  by (simp_all add: load_state_def shard_load_def put_state_def shard_put_def newIPStateMap_def ipShardCount_def
      ipm_Cleanup_def shard_sweep_def)

lemma ipm_ok_ops [simp]:
  "ipm_ok newIPStateMap"
  "ipm_ok m \<Longrightarrow> ipm_ok (put_state k st m)"
  "ipm_ok m \<Longrightarrow> ipm_ok (ipm_Cleanup d now m)"
  by (simp_all add: ipm_ops ipm.good_vacant ipm.good_put ipm.good_sweep)

lemma load_put_state [simp]:
  "ipm_ok m \<Longrightarrow> load_state k' (put_state k st m) = (if k' = k then Some st else load_state k' m)"
  by (simp add: ipm_ops ipm.look_put)

lemma load_new_map [simp]: "load_state k newIPStateMap = None"
  by (simp add: ipm_ops ipm.look_vacant)

lemma load_cleanup:
  "ipm_ok m \<Longrightarrow> load_state k (ipm_Cleanup d now m) =
     (case load_state k m of None \<Rightarrow> None | Some st \<Rightarrow> if d < now - is_LastSeen st then None else Some st)"
  by (simp add: ipm_ops ipm.look_sweep split: option.split)

lemma GetOrCreate_ok [simp]: "ipm_ok m \<Longrightarrow> ipm_ok (snd (GetOrCreate ip t now m))"
  by (simp add: GetOrCreate_def Let_def)

lemma load_GetOrCreate:
  "ipm_ok m \<Longrightarrow> load_state k (snd (GetOrCreate ip t now m)) =
     (if k = parseIPFast ip then Some (fst (GetOrCreate ip t now m)) else load_state k m)"
  by (simp add: GetOrCreate_def Let_def)

lemma fst_GetOrCreate:
  "fst (GetOrCreate ip t now m) = (case load_state (parseIPFast ip) m of
     Some st \<Rightarrow> st\<lparr>is_LastSeen := now\<rparr> | None \<Rightarrow> new_state t now)"
  by (simp add: GetOrCreate_def Let_def)

lemma length_parseIPFast [simp]: "length (parseIPFast ip) = 16"
  by (simp add: parseIPFast_def length_parse_addr split: option.split)

lemma parseIPFast_none: "parse_addr ip = None \<Longrightarrow> parseIPFast ip = replicate 16 0"
  by (simp add: parseIPFast_def)

text \<open>
  The sharded table of address states is a plain map from 16-byte addresses to states: looking an address up
  creates its state with the trust it is given, or refreshes only the time of the last visit, and leaves every other
  address alone; the sweep drops exactly the states idle for longer than the limit. Every text that is not an address
  leads to one and the same state.
\<close>

theorem ip_states_plain_map:
  assumes "ipm_ok m"
  shows "ipm_ok (snd (GetOrCreate ip trusted now m)) \<and>
    (\<lambda>k. load_state k (snd (GetOrCreate ip trusted now m))) =
      (\<lambda>k. load_state k m)(parseIPFast ip \<mapsto> fst (GetOrCreate ip trusted now m)) \<and>
    fst (GetOrCreate ip trusted now m) = (case load_state (parseIPFast ip) m of
      Some st \<Rightarrow> st\<lparr>is_LastSeen := now\<rparr> | None \<Rightarrow> new_state trusted now) \<and>
    ipm_ok (ipm_Cleanup idle now m) \<and>
    (\<lambda>k. load_state k (ipm_Cleanup idle now m)) =
      (\<lambda>k. load_state k m) |` {k. \<forall>st. load_state k m = Some st \<longrightarrow> now - is_LastSeen st \<le> idle} \<and>
    (parse_addr ip = None \<and> parse_addr ip' = None \<longrightarrow>
      fst (GetOrCreate ip' trusted' now' (snd (GetOrCreate ip trusted now m))) =
        (fst (GetOrCreate ip trusted now m))\<lparr>is_LastSeen := now'\<rparr>)"
proof (intro conjI)
  show "(\<lambda>k. load_state k (snd (GetOrCreate ip trusted now m))) =
      (\<lambda>k. load_state k m)(parseIPFast ip \<mapsto> fst (GetOrCreate ip trusted now m))"
    using load_GetOrCreate [OF assms] by auto
  show "(\<lambda>k. load_state k (ipm_Cleanup idle now m)) =
      (\<lambda>k. load_state k m) |` {k. \<forall>st. load_state k m = Some st \<longrightarrow> now - is_LastSeen st \<le> idle}"
    by (auto simp: fun_eq_iff load_cleanup [OF assms] restrict_map_def split: option.split)
  show "parse_addr ip = None \<and> parse_addr ip' = None \<longrightarrow>
      fst (GetOrCreate ip' trusted' now' (snd (GetOrCreate ip trusted now m))) =
        (fst (GetOrCreate ip trusted now m))\<lparr>is_LastSeen := now'\<rparr>"
    by (simp add: fst_GetOrCreate load_GetOrCreate [OF assms] parseIPFast_none)
qed (use assms in \<open>simp_all add: fst_GetOrCreate\<close>)

lemma ip_states_plain_map_witness:
  "fst (GetOrCreate ''second_ch'' True 9 (snd (GetOrCreate ''first_ch'' False 3 newIPStateMap))) =
     (new_state False 3)\<lparr>is_LastSeen := 9\<rparr>"
proof -
  have p: "parse_addr ''first_ch'' = None" "parse_addr ''second_ch'' = None" by code_simp+
  have "fst (GetOrCreate ''first_ch'' False 3 newIPStateMap) = new_state False 3"
    by (simp add: fst_GetOrCreate)
  then show ?thesis
    using ip_states_plain_map [OF ipm_ok_ops(1), of "''first_ch''" False 3 0 "''second_ch''" True 9] p by simp
qed

end
