(* ===== verification/Xdp.thy ===== *)
theory Xdp
  imports Kv_Store Net_Addr
begin

section \<open>The kernel drop list (core/xdp.go)\<close>

text \<open>
  The manager of the eBPF hash map of IPv4 addresses whose packets the network driver drops, with the
  drop counter of each. The map is the kernel's: it holds at most \<open>xm_max\<close> entries and refuses another.
  Finding, creating and attaching it is not modelled. Lemmas: which addresses a ban or an unban touches.
\<close>

record XDPManager =
  xm_Enabled :: bool
  xm_bpfMap :: "(u32, u64) gomap option"
  xm_max :: nat
  xm_lifetimeDrops :: int
  xm_lastObserved :: "(u32, u64) gomap"

definition disabled_xdp :: XDPManager where
  "disabled_xdp = \<lparr>xm_Enabled = False, xm_bpfMap = None, xm_max = 0, xm_lifetimeDrops = 0, xm_lastObserved = []\<rparr>"

text \<open>The four bytes of an IPv4 address read as a little-endian word.\<close>

definition le_u32 :: "byte list \<Rightarrow> u32" where
  "le_u32 bs = ucast (bs ! 0) + 256 * ucast (bs ! 1) + 65536 * ucast (bs ! 2) + 16777216 * ucast (bs ! 3)"

definition xdp_key :: "string \<Rightarrow> u32 option" where
  "xdp_key ipAddr = (case parse_ip ipAddr of None \<Rightarrow> None
     | Some ip \<Rightarrow> (case to4 ip of None \<Rightarrow> None | Some ipv4 \<Rightarrow> Some (le_u32 ipv4)))"

text \<open>The result is \<open>True\<close> for a nil error.\<close>

definition xdp_BanIP :: "string \<Rightarrow> XDPManager \<Rightarrow> bool \<times> XDPManager" where
  "xdp_BanIP ipAddr x =
     (if \<not> xm_Enabled x then (True, x)
      else case xm_bpfMap x of
        None \<Rightarrow> (True, x)
      | Some m \<Rightarrow> (case xdp_key ipAddr of
          None \<Rightarrow> (False, x)
        | Some key \<Rightarrow>
            if map_of m key \<noteq> None then (True, x)
            else if xm_max x \<le> length m then (False, x)
            else (True, x\<lparr>xm_bpfMap := Some (AList.update key 0 m)\<rparr>)))"

definition xdp_UnbanIP :: "string \<Rightarrow> XDPManager \<Rightarrow> XDPManager" where
  "xdp_UnbanIP ipAddr x =
     (if \<not> xm_Enabled x then x
      else case xm_bpfMap x of
        None \<Rightarrow> x
      | Some m \<Rightarrow> (case xdp_key ipAddr of None \<Rightarrow> x | Some key \<Rightarrow> x\<lparr>xm_bpfMap := Some (AList.delete key m)\<rparr>))"

text \<open>One entry of the map during \<open>GetStats\<close>; the counters are read as \<open>int64\<close>.\<close>

definition observe_drops :: "u32 \<times> u64 \<Rightarrow> int \<times> (u32, u64) gomap \<Rightarrow> int \<times> (u32, u64) gomap" where
  "observe_drops kv acc = (case kv of (key, val) \<Rightarrow> case acc of (lifetime, seen) \<Rightarrow>
     let old = (case map_of seen key of Some v \<Rightarrow> v | None \<Rightarrow> 0) in
     if old < val then (lifetime + sint (val - old), AList.update key val seen) else acc)"

definition xdp_GetStats :: "XDPManager \<Rightarrow> (int \<times> int) \<times> XDPManager" where
  "xdp_GetStats x =
     (case (if xm_Enabled x then xm_bpfMap x else None) of
        None \<Rightarrow> ((0, xm_lifetimeDrops x), x)
      | Some m \<Rightarrow>
          let (lifetime, seen) = fold observe_drops m (xm_lifetimeDrops x, xm_lastObserved x);
              active = sum_list (map (\<lambda>(k, v). sint v) m)
          in ((int (length m), if active < lifetime then lifetime else active),
              x\<lparr>xm_lifetimeDrops := lifetime, xm_lastObserved := seen\<rparr>))"

subsection \<open>What is dropped\<close>

definition kernel_drops :: "XDPManager \<Rightarrow> u32 \<Rightarrow> bool" where
  "kernel_drops x key \<longleftrightarrow> xm_Enabled x \<and> (\<exists>m. xm_bpfMap x = Some m \<and> map_of m key \<noteq> None)"

lemma kernel_drops_ban:
  "kernel_drops (snd (xdp_BanIP ip x)) key \<longleftrightarrow>
     kernel_drops x key \<or> xm_Enabled x \<and> (\<exists>m. xm_bpfMap x = Some m \<and> xdp_key ip = Some key \<and> length m < xm_max x)"
  by (auto simp: kernel_drops_def xdp_BanIP_def gomap_simps split: option.splits)

lemma kernel_drops_unban:
  "kernel_drops (xdp_UnbanIP ip x) key \<longleftrightarrow> kernel_drops x key \<and> xdp_key ip \<noteq> Some key"
  by (auto simp: kernel_drops_def xdp_UnbanIP_def gomap_simps split: option.splits)

lemma xdp_Enabled_ops [simp]:
  "xm_Enabled (snd (xdp_BanIP ip x)) = xm_Enabled x" "xm_Enabled (xdp_UnbanIP ip x) = xm_Enabled x"
  by (auto simp: xdp_BanIP_def xdp_UnbanIP_def split: option.split)

end
