(* ===== verification/Mesh.thy ===== *)
theory Mesh
  imports Kv_Store Config_Types
begin

section \<open>The cluster mesh (cluster/gossip.go)\<close>

text \<open>
  The messages of the mesh, the queue of broadcasts of a node and what a node makes of a message it
  receives. The gossip library delivers queued messages to the other members. A message is decoded in
  turn as one of three JSON structures; \<open>wire\<close> has the fields of all three, a field that a message does
  not have being empty. Calls of the registered handlers are returned to the caller.
\<close>

record wire =
  w_action :: string
  w_ip :: string
  w_duration :: duration
  w_source :: string
  w_sent_at :: int
  w_alert_type :: string
  w_domain :: string
  w_node_name :: string
  w_rps :: int
  w_conns :: int
  w_is_end :: bool

definition empty_wire :: wire where
  "empty_wire = \<lparr>w_action = [], w_ip = [], w_duration = 0, w_source = [], w_sent_at = 0, w_alert_type = [], w_domain = [],
     w_node_name = [], w_rps = 0, w_conns = 0, w_is_end = False\<rparr>"

record PeerDomainStat =
  pd_RPS :: int
  pd_Conns :: int
  pd_LastAt :: gotime

record MeshNode =
  mn_cfg :: ClusterConfig
  mn_broadcasts :: "wire list"
  mn_peerDomainStats :: "(string, PeerDomainStat) gomap"

subsection \<open>Sending\<close>

definition queue_broadcast :: "wire \<Rightarrow> MeshNode \<Rightarrow> MeshNode" where
  "queue_broadcast w n = n\<lparr>mn_broadcasts := mn_broadcasts n @ [w]\<rparr>"

definition BroadcastBan :: "string \<Rightarrow> duration \<Rightarrow> gotime \<Rightarrow> MeshNode \<Rightarrow> MeshNode" where
  "BroadcastBan ip d now n = queue_broadcast (empty_wire\<lparr>w_action := ''ban'', w_ip := ip, w_duration := d,
     w_source := clu_NodeName (mn_cfg n), w_sent_at := unix_sec now\<rparr>) n"

definition BroadcastUnban :: "string \<Rightarrow> gotime \<Rightarrow> MeshNode \<Rightarrow> MeshNode" where
  "BroadcastUnban ip now n = queue_broadcast (empty_wire\<lparr>w_action := (if ip = ''all'' then ''unban_all'' else ''unban''),
     w_ip := ip, w_source := clu_NodeName (mn_cfg n), w_sent_at := unix_sec now\<rparr>) n"

definition BroadcastAlert :: "string \<Rightarrow> gotime \<Rightarrow> MeshNode \<Rightarrow> MeshNode" where
  "BroadcastAlert alertType now n = queue_broadcast (empty_wire\<lparr>w_alert_type := alertType,
     w_source := clu_NodeName (mn_cfg n), w_sent_at := unix_sec now\<rparr>) n"

definition BroadcastDomainMetric :: "string \<Rightarrow> int \<Rightarrow> int \<Rightarrow> bool \<Rightarrow> gotime \<Rightarrow> MeshNode \<Rightarrow> MeshNode" where
  "BroadcastDomainMetric domain rps conns isEnd now n = queue_broadcast (empty_wire\<lparr>w_domain := domain,
     w_node_name := clu_NodeName (mn_cfg n), w_rps := rps, w_conns := conns, w_is_end := isEnd, w_sent_at := unix_sec now\<rparr>) n"

subsection \<open>Receiving\<close>

datatype mesh_call = CallBan string duration | CallUnban string | CallAlert string

definition peer_key :: "wire \<Rightarrow> string" where
  "peer_key w = w_domain w @ ''_'' @ w_node_name w"

definition NotifyMsg :: "wire \<Rightarrow> gotime \<Rightarrow> MeshNode \<Rightarrow> mesh_call option \<times> MeshNode" where
  "NotifyMsg w now n =
     (let self = clu_NodeName (mn_cfg n) in
      if w_domain w \<noteq> [] \<and> w_node_name w \<noteq> [] then
        if w_node_name w = self then (None, n)
        else if w_is_end w then (None, n\<lparr>mn_peerDomainStats := AList.delete (peer_key w) (mn_peerDomainStats n)\<rparr>)
        else (None, n\<lparr>mn_peerDomainStats := AList.update (peer_key w)
               \<lparr>pd_RPS = w_rps w, pd_Conns = w_conns w, pd_LastAt = now\<rparr> (mn_peerDomainStats n)\<rparr>)
      else if w_ip w \<noteq> [] \<or> w_action w \<noteq> [] then
        if w_source w = self \<or> 60 < unix_sec now - w_sent_at w then (None, n)
        else if w_action w = ''unban'' then (Some (CallUnban (w_ip w)), n)
        else if w_action w = ''unban_all'' then (Some (CallUnban ''all''), n)
        else (Some (CallBan (w_ip w) (w_duration w)), n)
      else if w_alert_type w \<noteq> [] then
        if w_source w = self \<or> 10 < unix_sec now - w_sent_at w then (None, n)
        else (Some (CallAlert (w_alert_type w)), n)
      else (None, n))"

subsection \<open>What the peers report\<close>

definition counts_for :: "string \<Rightarrow> gotime \<Rightarrow> string \<times> PeerDomainStat \<Rightarrow> bool" where
  "counts_for domain now kv = (case kv of (k, st) \<Rightarrow>
     length domain < length k \<and> take (length domain) k = domain \<and> time_sub now (pd_LastAt st) < 15 * second)"

definition GetPeerDomainMetrics :: "string \<Rightarrow> gotime \<Rightarrow> MeshNode \<Rightarrow> int \<times> int" where
  "GetPeerDomainMetrics domain now n =
     (let stats = filter (counts_for domain now) (mn_peerDomainStats n)
      in (sum_list (map (\<lambda>(k, st). pd_RPS st) stats), sum_list (map (\<lambda>(k, st). pd_Conns st) stats)))"

subsection \<open>Names and leadership\<close>

text \<open>The name a node joins with; the public address, the host name and the advertised address are arguments.\<close>

definition mesh_name :: "ClusterConfig \<Rightarrow> string \<Rightarrow> string \<Rightarrow> string \<Rightarrow> string" where
  "mesh_name cfg pubIP host advIP =
     (if clu_NodeName cfg = [] then
        if pubIP \<noteq> [] then ''mango-node-'' @ pubIP
        else if host \<noteq> [] \<and> host \<noteq> ''localhost'' then host
        else if advIP \<noteq> [] then ''mango-node-'' @ advIP
        else ''mango-node-primary''
      else if pubIP \<noteq> [] \<and> \<not> str_contains (clu_NodeName cfg) pubIP then clu_NodeName cfg @ ''-'' @ pubIP
      else clu_NodeName cfg)"

definition mesh_key :: "string \<Rightarrow> string" where
  "mesh_key key = (if length key \<noteq> 16 \<and> length key \<noteq> 24 \<and> length key \<noteq> 32
     then take 32 key @ replicate (32 - length key) (CHR 0x00) else key)"

fun str_less :: "string \<Rightarrow> string \<Rightarrow> bool" where
  "str_less [] [] = False"
| "str_less [] (d # ds) = True"
| "str_less (c # cs) [] = False"
| "str_less (c # cs) (d # ds) = (byte_of c < byte_of d \<or> c = d \<and> str_less cs ds)"

text \<open>Members are given by name and address.\<close>

definition member_key :: "string \<times> string \<Rightarrow> string" where
  "member_key m = fst m @ ''_'' @ snd m"

definition IsLeader :: "string \<times> string \<Rightarrow> (string \<times> string) list \<Rightarrow> bool" where
  "IsLeader local members =
     (if length members \<le> 1 then True
      else member_key local = fold (\<lambda>m low. if str_less (member_key m) low then member_key m else low) members (member_key local))"

subsection \<open>What is filtered\<close>

lemma own_messages_ignored:
  "fst (NotifyMsg w now n) = Some c \<Longrightarrow> w_source w \<noteq> clu_NodeName (mn_cfg n)"
  by (auto simp: NotifyMsg_def Let_def split: if_splits)

lemma NotifyMsg_broadcasts [simp]: "mn_broadcasts (snd (NotifyMsg w now n)) = mn_broadcasts n"
  by (simp add: NotifyMsg_def Let_def)

lemma NotifyMsg_cfg [simp]: "mn_cfg (snd (NotifyMsg w now n)) = mn_cfg n"
  by (simp add: NotifyMsg_def Let_def)

end
