(* ===== verification/Bot_Classifier.thy ===== *)
theory Bot_Classifier
  imports Fingerprint Behavior
begin

section \<open>Classification of bots (detection/classifier.go)\<close>

text \<open>
  The built-in signatures, the signs that the fingerprint and the behaviour add, and the verdict with
  its cache of 30 seconds per address. Lemmas: which signs a request shows, and what the verdict of a
  request that is not answered from the cache is.
\<close>

record ClassifyRequest =
  cr_IP :: string
  cr_UserAgent :: string
  cr_Headers :: "(string, string) gomap"
  cr_URL :: string
  cr_Method :: string
  cr_Fingerprint :: "ConnectionFingerprint option"
  cr_Behavior :: "BehaviorVerdict option"

record BotSignature =
  bs_Name :: string
  bs_Category :: string
  bs_Threat :: string
  bs_MatchFn :: "ClassifyRequest \<Rightarrow> bool"

record BotClassResult =
  bc_IsBot :: bool
  bc_BotType :: string
  bc_BotName :: string
  bc_Confidence :: f64
  bc_Threat :: string
  bc_Reasons :: "string list"
  bc_CachedAt :: gotime

record BotClassifier =
  bt_signatures :: "BotSignature list"
  bt_cache :: "(string, BotClassResult) gomap"

subsection \<open>Signatures\<close>

text \<open>A missing key of the header map reads as the empty string.\<close>

definition cr_header :: "ClassifyRequest \<Rightarrow> string \<Rightarrow> string" where
  "cr_header req k = (case map_of (cr_Headers req) k of Some v \<Rightarrow> v | None \<Rightarrow> [])"

definition cr_has :: "ClassifyRequest \<Rightarrow> string \<Rightarrow> bool" where
  "cr_has req k \<longleftrightarrow> map_of (cr_Headers req) k \<noteq> None"

definition ddosTools :: "string list" where
  "ddosTools = [''mhddos'', ''loic'', ''hoic'', ''slowloris'', ''goldeneye'', ''hulk'', ''xerxes'', ''torshammer'',
     ''slowhttptest'', ''pyloris'', ''rudy'', ''thc-ssl'', ''apache-bench'']"

definition tautology_probe :: string where
  "tautology_probe = [CHR 0x27] @ '' or '' @ [CHR 0x27] @ ''1'' @ [CHR 0x27] @ ''='' @ [CHR 0x27] @ ''1''"

definition contains_any :: "string \<Rightarrow> string list \<Rightarrow> bool" where
  "contains_any s pats = list_ex (\<lambda>p. str_contains s p) pats"

definition signature :: "string \<Rightarrow> string \<Rightarrow> string \<Rightarrow> (ClassifyRequest \<Rightarrow> bool) \<Rightarrow> BotSignature" where
  "signature name category threat fn =
     \<lparr>bs_Name = name, bs_Category = category, bs_Threat = threat, bs_MatchFn = fn\<rparr>"

definition default_signatures :: "BotSignature list" where
  "default_signatures = [
     signature ''no_accept_header'' ''automation'' ''medium''
       (\<lambda>req. \<not> cr_has req ''Accept'' \<or> cr_header req ''Accept'' = []),
     signature ''no_accept_language'' ''automation'' ''low'' (\<lambda>req. \<not> cr_has req ''Accept-Language''),
     signature ''no_accept_encoding'' ''automation'' ''low'' (\<lambda>req. \<not> cr_has req ''Accept-Encoding''),
     signature ''connection_close'' ''ddos_tool'' ''medium'' (\<lambda>req. to_lower (cr_header req ''Connection'') = ''close''),
     signature ''missing_referer_on_subresource'' ''scraper'' ''low''
       (\<lambda>req. isStaticResource (cr_URL req) \<and> cr_header req ''Referer'' = []),
     signature ''ddos_ua_mhddos'' ''ddos_tool'' ''critical'' (\<lambda>req. contains_any (to_lower (cr_UserAgent req)) ddosTools),
     signature ''ua_browser_no_sec_headers'' ''automation'' ''medium''
       (\<lambda>req. contains_any (to_lower (cr_UserAgent req)) [''mozilla'', ''chrome'', ''firefox''] \<and>
          \<not> cr_has req ''Sec-Fetch-Mode'' \<and> \<not> cr_has req ''Sec-Fetch-Dest''),
     signature ''post_no_content_type'' ''scanner'' ''medium''
       (\<lambda>req. cr_Method req = ''POST'' \<and> cr_header req ''Content-Type'' = []),
     signature ''path_traversal_attempt'' ''scanner'' ''high''
       (\<lambda>req. contains_any (cr_URL req) [''..'', ''.env'', ''wp-login'', ''phpmyadmin'', ''.git/'']),
     signature ''sql_injection_probe'' ''scanner'' ''high''
       (\<lambda>req. contains_any (to_lower (cr_URL req)) [''union+select'', tautology_probe, ''1=1'', ''sleep('', ''benchmark('']),
     signature ''googlebot'' ''legitimate_bot'' ''none''
       (\<lambda>req. contains_any (to_lower (cr_UserAgent req)) [''googlebot'', ''google-inspectiontool'']),
     signature ''bingbot'' ''legitimate_bot'' ''none'' (\<lambda>req. str_contains (to_lower (cr_UserAgent req)) ''bingbot'')]"

definition NewBotClassifier :: BotClassifier where
  "NewBotClassifier = \<lparr>bt_signatures = default_signatures, bt_cache = []\<rparr>"

subsection \<open>The verdict\<close>

definition threat_level :: "string \<Rightarrow> nat" where
  "threat_level t = (if t = ''low'' then 1 else if t = ''medium'' then 2 else if t = ''high'' then 3
     else if t = ''critical'' then 4 else 0)"

definition threatHigher :: "string \<Rightarrow> string \<Rightarrow> bool" where
  "threatHigher a b \<longleftrightarrow> threat_level b < threat_level a"

definition first_named :: "string \<Rightarrow> string \<Rightarrow> string" where
  "first_named new old = (if new \<noteq> [] \<and> old = [] then new else old)"

definition sig_step :: "ClassifyRequest \<Rightarrow> BotSignature \<Rightarrow> nat \<times> string \<times> BotClassResult \<Rightarrow> nat \<times> string \<times> BotClassResult" where
  "sig_step req sig acc = (case acc of (n, worst, r) \<Rightarrow>
     if bs_MatchFn sig req
     then (n + 1, if threatHigher (bs_Threat sig) worst then bs_Threat sig else worst,
           r\<lparr>bc_Reasons := bc_Reasons r @ [bs_Name sig], bc_BotType := first_named (bs_Category sig) (bc_BotType r),
             bc_BotName := first_named (bs_Name sig) (bc_BotName r)\<rparr>)
     else acc)"

definition fingerprint_signs :: "ConnectionFingerprint \<Rightarrow> nat \<times> BotClassResult \<Rightarrow> nat \<times> BotClassResult" where
  "fingerprint_signs fp acc =
     (let (n, r) = (if cs_Total (cf_Composite fp) < 30
                    then (fst acc + 2, (snd acc)\<lparr>bc_Reasons := bc_Reasons (snd acc) @ [''low_fp_trust'']\<rparr>) else acc)
      in if j3_Known (cf_JA3 fp) \<and> j3_TrustScore (cf_JA3 fp) < 10
         then (n + 3, r\<lparr>bc_Reasons := bc_Reasons r @ [''known_tool_ja3''], bc_BotType := ''ddos_tool''\<rparr>) else (n, r))"

definition behavior_signs :: "BehaviorVerdict \<Rightarrow> nat \<times> BotClassResult \<Rightarrow> nat \<times> BotClassResult" where
  "behavior_signs bv acc =
     (let (n, r) = (if bv_IsBot bv
                    then (fst acc + 2, (snd acc)\<lparr>bc_Reasons := bc_Reasons (snd acc) @ [''behavior_bot:'' @ bv_Profile bv]\<rparr>)
                    else acc)
      in if bv_Score bv < 30 then (n + 2, r) else (n, r))"

definition fresh_verdict :: "BotSignature list \<Rightarrow> ClassifyRequest \<Rightarrow> gotime \<Rightarrow> BotClassResult" where
  "fresh_verdict sigs req now =
     (let r0 = \<lparr>bc_IsBot = False, bc_BotType = [], bc_BotName = [], bc_Confidence = 0, bc_Threat = ''none'',
            bc_Reasons = [], bc_CachedAt = zero_time\<rparr>;
          (n1, worst, r1) = fold (sig_step req) sigs (0, ''none'', r0);
          (n2, r2) = (case cr_Fingerprint req of None \<Rightarrow> (n1, r1) | Some fp \<Rightarrow> fingerprint_signs fp (n1, r1));
          (n3, r3) = (case cr_Behavior req of None \<Rightarrow> (n2, r2) | Some bv \<Rightarrow> behavior_signs bv (n2, r2));
          conf = fdiv (f_of_int (int n3)) 10
      in r3\<lparr>bc_Confidence := (if 1 < conf then 1 else conf),
            bc_IsBot := (2 \<le> n3),
            bc_Threat := (if 3 \<le> n3 then worst else if 2 \<le> n3 then ''low'' else ''none''),
            bc_CachedAt := now\<rparr>)"

definition Classify :: "ClassifyRequest \<Rightarrow> gotime \<Rightarrow> BotClassifier \<Rightarrow> BotClassResult \<times> BotClassifier" where
  "Classify req now bt =
     (let fresh = fresh_verdict (bt_signatures bt) req now;
          renewed = (fresh, bt\<lparr>bt_cache := AList.update (cr_IP req) fresh (bt_cache bt)\<rparr>) in
      case map_of (bt_cache bt) (cr_IP req) of
        Some r \<Rightarrow> if time_sub now (bc_CachedAt r) < 30 * second then (r, bt) else renewed
      | None \<Rightarrow> renewed)"

definition bt_CleanupCache :: "gotime \<Rightarrow> BotClassifier \<Rightarrow> BotClassifier" where
  "bt_CleanupCache now bt =
     bt\<lparr>bt_cache := filter (\<lambda>(ip, r). \<not> 5 * minute < time_sub now (bc_CachedAt r)) (bt_cache bt)\<rparr>"

subsection \<open>Signs of a request\<close>

definition sig_hits :: "BotSignature list \<Rightarrow> ClassifyRequest \<Rightarrow> BotSignature list" where
  "sig_hits sigs req = filter (\<lambda>sig. bs_MatchFn sig req) sigs"

definition fp_weight :: "ConnectionFingerprint option \<Rightarrow> nat" where
  "fp_weight f = (case f of None \<Rightarrow> 0 | Some fp \<Rightarrow> (if cs_Total (cf_Composite fp) < 30 then 2 else 0) +
     (if j3_Known (cf_JA3 fp) \<and> j3_TrustScore (cf_JA3 fp) < 10 then 3 else 0))"

definition behavior_weight :: "BehaviorVerdict option \<Rightarrow> nat" where
  "behavior_weight b = (case b of None \<Rightarrow> 0
     | Some bv \<Rightarrow> (if bv_IsBot bv then 2 else 0) + (if bv_Score bv < 30 then 2 else 0))"

definition signs :: "BotSignature list \<Rightarrow> ClassifyRequest \<Rightarrow> nat" where
  "signs sigs req = length (sig_hits sigs req) + fp_weight (cr_Fingerprint req) + behavior_weight (cr_Behavior req)"

definition top_threat :: "BotSignature list \<Rightarrow> string" where
  "top_threat hits = fold (\<lambda>sig worst. if threatHigher (bs_Threat sig) worst then bs_Threat sig else worst) hits ''none''"

lemma sig_fold:
  "fst (fold (sig_step req) sigs (n, worst, r)) = n + length (sig_hits sigs req)"
  "fst (snd (fold (sig_step req) sigs (n, worst, r))) =
     fold (\<lambda>sig worst. if threatHigher (bs_Threat sig) worst then bs_Threat sig else worst) (sig_hits sigs req) worst"
  by (induction sigs arbitrary: n worst r) (simp_all add: sig_step_def sig_hits_def)

lemma fingerprint_signs_count: "fst (fingerprint_signs fp (n, r)) = n + fp_weight (Some fp)"
  by (simp add: fingerprint_signs_def fp_weight_def)

lemma behavior_signs_count: "fst (behavior_signs bv (n, r)) = n + behavior_weight (Some bv)"
  by (simp add: behavior_signs_def behavior_weight_def)

lemma confidence_range: "0 \<le> (if 1 < fdiv (f_of_int (int n)) 10 then 1 else fdiv (f_of_int (int n)) 10) \<and>
    (if 1 < fdiv (f_of_int (int n)) 10 then 1 else fdiv (f_of_int (int n)) 10) \<le> 1"
  by (auto simp: fdiv_def f_of_int_def)

lemma fresh_verdict_shape:
  "bc_IsBot (fresh_verdict sigs req now) \<longleftrightarrow> 2 \<le> signs sigs req"
  "bc_Threat (fresh_verdict sigs req now) =
     (if 3 \<le> signs sigs req then top_threat (sig_hits sigs req) else if 2 \<le> signs sigs req then ''low'' else ''none'')"
  "0 \<le> bc_Confidence (fresh_verdict sigs req now)" "bc_Confidence (fresh_verdict sigs req now) \<le> 1"
  "bc_CachedAt (fresh_verdict sigs req now) = now"
proof -
  define r0 where "r0 = \<lparr>bc_IsBot = False, bc_BotType = [], bc_BotName = [], bc_Confidence = 0, bc_Threat = ''none'',
     bc_Reasons = [], bc_CachedAt = zero_time\<rparr>"
  obtain r1 where 1: "fold (sig_step req) sigs (0, ''none'', r0) = (length (sig_hits sigs req), top_threat (sig_hits sigs req), r1)"
    using sig_fold [of req sigs 0 "''none''" r0] that
    by (cases "fold (sig_step req) sigs (0, ''none'', r0)") (auto simp: top_threat_def)
  obtain r2 where 2: "(case cr_Fingerprint req of None \<Rightarrow> (length (sig_hits sigs req), r1)
      | Some fp \<Rightarrow> fingerprint_signs fp (length (sig_hits sigs req), r1)) =
      (length (sig_hits sigs req) + fp_weight (cr_Fingerprint req), r2)"
  proof (cases "cr_Fingerprint req")
    case (Some fp)
    then show ?thesis
      using that fingerprint_signs_count [of fp "length (sig_hits sigs req)" r1]
      by (cases "fingerprint_signs fp (length (sig_hits sigs req), r1)") simp
  qed (use that in \<open>simp add: fp_weight_def\<close>)
  obtain r3 where 3: "(case cr_Behavior req of None \<Rightarrow> (length (sig_hits sigs req) + fp_weight (cr_Fingerprint req), r2)
      | Some bv \<Rightarrow> behavior_signs bv (length (sig_hits sigs req) + fp_weight (cr_Fingerprint req), r2)) = (signs sigs req, r3)"
  proof (cases "cr_Behavior req")
    case (Some bv)
    then show ?thesis
      using that behavior_signs_count [of bv "length (sig_hits sigs req) + fp_weight (cr_Fingerprint req)" r2]
      by (cases "behavior_signs bv (length (sig_hits sigs req) + fp_weight (cr_Fingerprint req), r2)") (simp add: signs_def)
  qed (use that in \<open>simp add: behavior_weight_def signs_def\<close>)
  have eq: "fresh_verdict sigs req now = r3\<lparr>bc_Confidence := (if 1 < fdiv (f_of_int (int (signs sigs req))) 10 then 1
          else fdiv (f_of_int (int (signs sigs req))) 10), bc_IsBot := (2 \<le> signs sigs req),
        bc_Threat := (if 3 \<le> signs sigs req then top_threat (sig_hits sigs req) else if 2 \<le> signs sigs req then ''low'' else ''none''),
        bc_CachedAt := now\<rparr>"
    by (simp only: fresh_verdict_def r0_def [symmetric] 1 2 3 Let_def prod.case)
  show "bc_IsBot (fresh_verdict sigs req now) \<longleftrightarrow> 2 \<le> signs sigs req"
    "bc_Threat (fresh_verdict sigs req now) =
       (if 3 \<le> signs sigs req then top_threat (sig_hits sigs req) else if 2 \<le> signs sigs req then ''low'' else ''none'')"
    "0 \<le> bc_Confidence (fresh_verdict sigs req now)" "bc_Confidence (fresh_verdict sigs req now) \<le> 1"
    "bc_CachedAt (fresh_verdict sigs req now) = now"
    using confidence_range [of "signs sigs req"] unfolding eq by simp_all
qed

lemma top_threat_snoc: "top_threat (hits @ [sig]) =
    (if threatHigher (bs_Threat sig) (top_threat hits) then bs_Threat sig else top_threat hits)"
  by (simp add: top_threat_def)

lemma top_threat_in: "top_threat hits \<in> insert ''none'' (bs_Threat ` set hits)"
  by (induction hits rule: rev_induct) (auto simp: top_threat_snoc top_threat_def [of "[]"])

lemma top_threat_max: "sig \<in> set hits \<Longrightarrow> threat_level (bs_Threat sig) \<le> threat_level (top_threat hits)"
  by (induction hits rule: rev_induct) (auto simp: top_threat_snoc threatHigher_def)

lemma top_threat_critical: "top_threat hits = ''critical'' \<longleftrightarrow> (\<exists>sig \<in> set hits. bs_Threat sig = ''critical'')"
proof
  show "\<exists>sig \<in> set hits. bs_Threat sig = ''critical''" if "top_threat hits = ''critical''"
    using top_threat_in [of hits] that by auto
  assume "\<exists>sig \<in> set hits. bs_Threat sig = ''critical''"
  then have "4 \<le> threat_level (top_threat hits)"
    using top_threat_max [of _ hits] by (fastforce simp: threat_level_def [of "''critical''"])
  then show "top_threat hits = ''critical''" by (simp add: threat_level_def split: if_splits)
qed

lemma critical_signatures:
  "filter (\<lambda>sig. bs_Threat sig = ''critical'') default_signatures =
     [signature ''ddos_ua_mhddos'' ''ddos_tool'' ''critical'' (\<lambda>req. contains_any (to_lower (cr_UserAgent req)) ddosTools)]"
proof -
  have "bs_Threat (signature n c t f) = t" for n c t f by (simp add: signature_def)
  then show ?thesis
    unfolding default_signatures_def filter.simps by simp
qed

lemma critical_hits:
  "(\<exists>sig \<in> set (sig_hits default_signatures req). bs_Threat sig = ''critical'') \<longleftrightarrow>
     contains_any (to_lower (cr_UserAgent req)) ddosTools"
proof -
  have "(\<exists>sig \<in> set (sig_hits default_signatures req). bs_Threat sig = ''critical'') \<longleftrightarrow>
      (\<exists>sig \<in> set (filter (\<lambda>sig. bs_Threat sig = ''critical'') default_signatures). bs_MatchFn sig req)"
    by (auto simp: sig_hits_def)
  also have "\<dots> \<longleftrightarrow> contains_any (to_lower (cr_UserAgent req)) ddosTools"
    unfolding critical_signatures by (simp add: signature_def)
  finally show ?thesis .
qed

definition uncached :: "string \<Rightarrow> gotime \<Rightarrow> BotClassifier \<Rightarrow> bool" where
  "uncached ip now bt \<longleftrightarrow> (case map_of (bt_cache bt) ip of None \<Rightarrow> True
     | Some r \<Rightarrow> 30 * second \<le> time_sub now (bc_CachedAt r))"

lemma Classify_uncached:
  "uncached (cr_IP req) now bt \<Longrightarrow> Classify req now bt = (fresh_verdict (bt_signatures bt) req now,
     bt\<lparr>bt_cache := AList.update (cr_IP req) (fresh_verdict (bt_signatures bt) req now) (bt_cache bt)\<rparr>)"
  by (auto simp: uncached_def Classify_def Let_def split: option.splits)

lemma Classify_signatures: "bt_signatures (snd (Classify req now bt)) = bt_signatures bt"
  by (simp add: Classify_def Let_def split: option.split)

text \<open>
  With the built-in signatures, a request that is not answered from the cache is classified as a bot exactly if it
  shows at least two signs (matching signatures, a weak or listed fingerprint, a bot-like behaviour), and as a critical
  threat, for which the pipeline bans six times as long, exactly if it shows three and names a DDoS tool in its user
  agent. The confidence lies between 0 and 1. For the next 30 seconds every request of the address gets that same
  verdict, whatever the request is.
\<close>

theorem bot_verdict:
  assumes "bt_signatures bt = default_signatures" and "uncached (cr_IP req) now bt"
  shows "let (r, bt') = Classify req now bt in
     (bc_IsBot r \<longleftrightarrow> 2 \<le> signs default_signatures req) \<and>
     (bc_Threat r = ''critical'' \<longleftrightarrow>
        3 \<le> signs default_signatures req \<and> contains_any (to_lower (cr_UserAgent req)) ddosTools) \<and>
     0 \<le> bc_Confidence r \<and> bc_Confidence r \<le> 1 \<and>
     (time_sub later now < 30 * second \<and> cr_IP other = cr_IP req \<longrightarrow> Classify other later bt' = (r, bt'))"
proof -
  define r where "r = fresh_verdict default_signatures req now"
  have eq: "Classify req now bt = (r, bt\<lparr>bt_cache := AList.update (cr_IP req) r (bt_cache bt)\<rparr>)"
    using Classify_uncached [OF assms(2)] assms(1) by (simp add: r_def)
  have "bc_Threat r = ''critical'' \<longleftrightarrow>
      3 \<le> signs default_signatures req \<and> contains_any (to_lower (cr_UserAgent req)) ddosTools"
    unfolding r_def fresh_verdict_shape by (simp add: top_threat_critical critical_hits del: bex_simps)
  moreover have "Classify other later (bt\<lparr>bt_cache := AList.update (cr_IP req) r (bt_cache bt)\<rparr>) =
      (r, bt\<lparr>bt_cache := AList.update (cr_IP req) r (bt_cache bt)\<rparr>)"
    if "time_sub later now < 30 * second" "cr_IP other = cr_IP req"
    using that by (simp add: Classify_def gomap_simps r_def fresh_verdict_shape)
  ultimately show ?thesis unfolding eq Let_def prod.case r_def by (simp add: fresh_verdict_shape)
qed

text \<open>A tool without browser headers, then a browser behind the same address.\<close>

definition tool_request :: ClassifyRequest where
  "tool_request = \<lparr>cr_IP = ''192.0.2.7'', cr_UserAgent = ''GoldenEye'', cr_Headers = [], cr_URL = ''/'', cr_Method = ''GET'',
     cr_Fingerprint = None, cr_Behavior = None\<rparr>"

definition browser_request :: ClassifyRequest where
  "browser_request = tool_request\<lparr>cr_UserAgent := ''Mozilla/5.0'', cr_Headers := [(''Accept'', ''*/*''),
     (''Accept-Language'', ''en''), (''Accept-Encoding'', ''gzip''), (''Sec-Fetch-Mode'', ''navigate'')]\<rparr>"

lemma tool_request_signs: "3 \<le> signs default_signatures tool_request \<and>
    contains_any (to_lower (cr_UserAgent tool_request)) ddosTools"
  by code_simp

lemma bot_verdict_witness:
  "bc_Threat (fst (Classify browser_request (20 * second) (snd (Classify tool_request 0 NewBotClassifier)))) = ''critical''"
proof -
  have u: "uncached (cr_IP tool_request) 0 NewBotClassifier" by (simp add: uncached_def NewBotClassifier_def)
  have t: "time_sub (20 * second) 0 < 30 * second" by code_simp
  have ip: "cr_IP browser_request = cr_IP tool_request" by (simp add: browser_request_def)
  show ?thesis
    using bot_verdict [OF _ u, of "20 * second" browser_request] tool_request_signs t ip
    by (cases "Classify tool_request 0 NewBotClassifier") (simp add: NewBotClassifier_def Let_def)
qed

end
