(* ===== verification/Adaptive.thy ===== *)
theory Adaptive
  imports Behavior
begin

section \<open>The adaptive learner (detection/adaptive.go)\<close>

text \<open>
  A profile of the traffic per hour of the day, the calibration that turns the profiles into a
  threshold, and the decision for a current rate. The hour of the local clock is an argument beside
  the instant. Lemmas: a calibrated threshold is at least 100, so the decision never divides by zero,
  and the range of a decision.
\<close>

record HourlyProfile =
  hp_AvgRPS :: f64
  hp_MaxRPS :: f64
  hp_MinRPS :: f64
  hp_StddevRPS :: f64
  hp_AvgConns :: f64
  hp_AvgBotRate :: f64
  hp_Samples :: "f64 list"
  hp_MaxSamples :: nat

record AdaptiveLearner =
  al_hourlyProfiles :: "HourlyProfile list"
  al_weekdayFactors :: "f64 list"
  al_LearnedRPSThreshold :: f64
  al_LearnedConnThreshold :: f64
  al_LearnedBotBaseline :: f64
  al_DataPoints :: int
  al_LearningDays :: int
  al_IsCalibrated :: bool
  al_LastCalibration :: gotime
  al_Confidence :: f64

record AdaptiveDecision =
  ad_RPSThreshold :: int
  ad_ChallengeLevel :: int
  ad_RateLimitFactor :: f64
  ad_EmergencyMode :: bool
  ad_Reason :: string

definition max_float64 :: f64 where
  "max_float64 = (2 ^ 53 - 1) * 2 ^ 971"

definition NewAdaptiveLearner :: AdaptiveLearner where
  "NewAdaptiveLearner =
     \<lparr>al_hourlyProfiles = replicate 24 \<lparr>hp_AvgRPS = 0, hp_MaxRPS = 0, hp_MinRPS = max_float64, hp_StddevRPS = 0,
          hp_AvgConns = 0, hp_AvgBotRate = 0, hp_Samples = [], hp_MaxSamples = 720\<rparr>,
      al_weekdayFactors = replicate 7 1, al_LearnedRPSThreshold = 0, al_LearnedConnThreshold = 0,
      al_LearnedBotBaseline = 0, al_DataPoints = 0, al_LearningDays = 0, al_IsCalibrated = False,
      al_LastCalibration = zero_time, al_Confidence = 0\<rparr>"

subsection \<open>Learning\<close>

text \<open>The exponential average with the factor 0.01.\<close>

definition slow_average :: "f64 \<Rightarrow> f64 \<Rightarrow> f64" where
  "slow_average old new = fadd (fmul old (fsub 1 (fl (1 / 100)))) (fmul new (fl (1 / 100)))"

definition record_profile :: "f64 \<Rightarrow> f64 \<Rightarrow> f64 \<Rightarrow> HourlyProfile \<Rightarrow> HourlyProfile" where
  "record_profile rps conns botRate p =
     (let kept = (if hp_MaxSamples p \<le> length (hp_Samples p) then tl (hp_Samples p) else hp_Samples p);
          samples = kept @ [rps]; avg = meanFloat samples
      in p\<lparr>hp_Samples := samples, hp_AvgRPS := avg, hp_StddevRPS := stddevFloat samples avg,
           hp_MaxRPS := (if hp_MaxRPS p < rps then rps else hp_MaxRPS p),
           hp_MinRPS := (if rps < hp_MinRPS p then rps else hp_MinRPS p),
           hp_AvgConns := slow_average (hp_AvgConns p) conns,
           hp_AvgBotRate := slow_average (hp_AvgBotRate p) botRate\<rparr>)"

definition calibrate :: "gotime \<Rightarrow> AdaptiveLearner \<Rightarrow> AdaptiveLearner" where
  "calibrate now al =
     (let rich = filter (\<lambda>p. 10 < length (hp_Samples p)) (al_hourlyProfiles al);
          allAvgs = map hp_AvgRPS rich; allMaxes = map hp_MaxRPS rich in
      if allAvgs = [] then al
      else let overallAvg = meanFloat allAvgs; overallStddev = stddevFloat allAvgs overallAvg;
               overallMax = foldl (\<lambda>m x. if m < x then x else m) 0 allMaxes;
               t = max (fadd overallAvg (fmul 3 overallStddev)) (fmul overallMax 2)
           in al\<lparr>al_LearnedRPSThreshold := (if t < 100 then 100 else t), al_IsCalibrated := True, al_LastCalibration := now,
                 al_LearningDays := al_LearningDays al + 1,
                 al_Confidence := min 1 (fdiv (f_of_int (al_DataPoints al)) 86400)\<rparr>)"

definition RecordSample :: "f64 \<Rightarrow> f64 \<Rightarrow> f64 \<Rightarrow> nat \<Rightarrow> gotime \<Rightarrow> AdaptiveLearner \<Rightarrow> AdaptiveLearner" where
  "RecordSample rps conns botRate hr now al =
     (let al1 = al\<lparr>al_hourlyProfiles := (al_hourlyProfiles al)[hr := record_profile rps conns botRate (al_hourlyProfiles al ! hr)],
            al_DataPoints := al_DataPoints al + 1\<rparr>;
          al2 = (if 3600 < al_DataPoints al1 \<and> \<not> al_IsCalibrated al1 then calibrate now al1 else al1)
      in if al_IsCalibrated al2 \<and> 6 * hour < time_sub now (al_LastCalibration al2) then calibrate now al2 else al2)"

subsection \<open>Decisions\<close>

definition decision :: "int \<Rightarrow> f64 \<Rightarrow> AdaptiveDecision" where
  "decision threshold ratio =
     (let d = \<lparr>ad_RPSThreshold = threshold, ad_ChallengeLevel = 0, ad_RateLimitFactor = 1, ad_EmergencyMode = False,
            ad_Reason = ''normal''\<rparr> in
      if 20 < ratio then d\<lparr>ad_EmergencyMode := True, ad_ChallengeLevel := 2, ad_RateLimitFactor := fl (1 / 10),
          ad_Reason := ''extreme_spike''\<rparr>
      else if 10 < ratio then d\<lparr>ad_ChallengeLevel := 2, ad_RateLimitFactor := 1 / 4, ad_Reason := ''major_spike''\<rparr>
      else if 5 < ratio then d\<lparr>ad_ChallengeLevel := 1, ad_RateLimitFactor := 1 / 2, ad_Reason := ''significant_spike''\<rparr>
      else if 3 < ratio then d\<lparr>ad_ChallengeLevel := 1, ad_RateLimitFactor := 3 / 4, ad_Reason := ''moderate_spike''\<rparr>
      else if 2 < ratio then d\<lparr>ad_RateLimitFactor := fl (9 / 10), ad_Reason := ''minor_spike''\<rparr>
      else if ratio < fl (3 / 10) then d\<lparr>ad_RateLimitFactor := 2, ad_Reason := ''low_traffic''\<rparr>
      else d)"

definition expected_rps :: "nat \<Rightarrow> AdaptiveLearner \<Rightarrow> f64" where
  "expected_rps hr al = (let avg = hp_AvgRPS (al_hourlyProfiles al ! hr) in
     if avg = 0 then fdiv (al_LearnedRPSThreshold al) 3 else avg)"

definition GetDecision :: "f64 \<Rightarrow> nat \<Rightarrow> AdaptiveLearner \<Rightarrow> AdaptiveDecision" where
  "GetDecision currentRPS hr al =
     (if \<not> al_IsCalibrated al
      then \<lparr>ad_RPSThreshold = 1000, ad_ChallengeLevel = 0, ad_RateLimitFactor = 1, ad_EmergencyMode = False,
            ad_Reason = ''not_calibrated''\<rparr>
      else decision (f_trunc (al_LearnedRPSThreshold al)) (fdiv currentRPS (expected_rps hr al)))"

definition GetExpectedRPS :: "nat \<Rightarrow> AdaptiveLearner \<Rightarrow> f64" where
  "GetExpectedRPS hr al = hp_AvgRPS (al_hourlyProfiles al ! hr)"

subsection \<open>The state of the learner\<close>

definition profile_ok :: "HourlyProfile \<Rightarrow> bool" where
  "profile_ok p \<longleftrightarrow> hp_MaxSamples p = 720 \<and> length (hp_Samples p) \<le> 720 \<and> (\<forall>x \<in> set (hp_Samples p). 0 \<le> x) \<and>
     0 \<le> hp_AvgRPS p \<and> 0 \<le> hp_MaxRPS p"

definition learner_ok :: "AdaptiveLearner \<Rightarrow> bool" where
  "learner_ok al \<longleftrightarrow> length (al_hourlyProfiles al) = 24 \<and> list_all profile_ok (al_hourlyProfiles al) \<and>
     0 \<le> al_DataPoints al \<and> 0 \<le> al_Confidence al \<and> al_Confidence al \<le> 1 \<and>
     (al_IsCalibrated al \<longrightarrow> 100 \<le> al_LearnedRPSThreshold al)"

lemma new_learner_ok: "learner_ok NewAdaptiveLearner"
  by (simp add: learner_ok_def NewAdaptiveLearner_def profile_ok_def list_all_length)

lemma meanFloat_nonneg: "\<forall>x \<in> set xs. 0 \<le> x \<Longrightarrow> 0 \<le> meanFloat xs"
  by (auto simp: meanFloat_def fdiv_def f_of_int_def fsum_nonneg)

lemma record_profile_ok: "profile_ok p \<Longrightarrow> 0 \<le> rps \<Longrightarrow> profile_ok (record_profile rps conns botRate p)"
  by (cases "hp_Samples p") (auto simp: profile_ok_def record_profile_def Let_def intro!: meanFloat_nonneg)

lemma calibrate_ok: "learner_ok al \<Longrightarrow> learner_ok (calibrate now al)"
  by (auto simp: learner_ok_def calibrate_def Let_def fdiv_def f_of_int_def)

lemma decision_level: "ad_ChallengeLevel (decision t x) \<in> {0, 1, 2}"
  by (simp add: decision_def Let_def)

lemma GetDecision_level: "0 \<le> ad_ChallengeLevel (GetDecision x hr al) \<and> ad_ChallengeLevel (GetDecision x hr al) \<le> 2"
  using decision_level [of "f_trunc (al_LearnedRPSThreshold al)" "fdiv x (expected_rps hr al)"]
  by (auto simp: GetDecision_def)

lemma expected_rps_pos:
  "learner_ok al \<Longrightarrow> al_IsCalibrated al \<Longrightarrow> hr < 24 \<Longrightarrow> 0 < expected_rps hr al"
proof -
  assume ok: "learner_ok al" "al_IsCalibrated al" "hr < 24"
  have "(33 :: rat) \<le> al_LearnedRPSThreshold al / 3" using ok by (simp add: learner_ok_def)
  from fl_mono [OF this] have "0 < fdiv (al_LearnedRPSThreshold al) 3" by (simp add: fdiv_def)
  moreover have "0 \<le> hp_AvgRPS (al_hourlyProfiles al ! hr)"
    using ok by (simp add: learner_ok_def list_all_length profile_ok_def)
  ultimately show ?thesis by (auto simp: expected_rps_def Let_def)
qed

end
