(* ===== verification/Upstream.thy ===== *)
theory Upstream
  imports Kv_Store Http Config_Types
begin

section \<open>Load balancing (core/upstream.go)\<close>

text \<open>
  A pool of backends per domain, the choice of the pool and of the backend for a host, and the health
  checks. The order of the list of pools stands for the order in which the code ranges over its map;
  the answer of a probe is an argument. Lemmas: round robin over the backends that are alive, and what
  a run of checks does to a backend.
\<close>

record UpstreamBackend =
  ub_URL :: string
  ub_Weight :: int
  ub_IsAlive :: bool
  ub_Failures :: int

record UpstreamPool =
  ul_Backends :: "UpstreamBackend list"
  ul_Current :: nat

type_synonym UpstreamManager = "(string, UpstreamPool) gomap"

definition new_backend :: "UpstreamConfig \<Rightarrow> UpstreamBackend" where
  "new_backend u = \<lparr>ub_URL = up_URL u, ub_Weight = (if up_Weight u \<le> 0 then 1 else up_Weight u), ub_IsAlive = True,
     ub_Failures = 0\<rparr>"

definition new_pool :: "DomainConfig \<Rightarrow> UpstreamPool" where
  "new_pool d = \<lparr>ul_Backends = map new_backend (dom_Upstreams d), ul_Current = 0\<rparr>"

definition UpdateDomains :: "DomainConfig list \<Rightarrow> UpstreamManager \<Rightarrow> UpstreamManager" where
  "UpdateDomains domains um = fold (\<lambda>d pools.
     if dom_Name d = [] then pools else AList.update (to_lower (dom_Name d)) (new_pool d) pools) domains []"

definition NewUpstreamManager :: "Config option \<Rightarrow> UpstreamManager" where
  "NewUpstreamManager c = (case c of None \<Rightarrow> [] | Some cfg \<Rightarrow> UpdateDomains (cfg_Domains cfg) [])"

subsection \<open>The next backend\<close>

definition loose_match :: "string \<Rightarrow> string \<Rightarrow> bool" where
  "loose_match host dName \<longleftrightarrow> has_suffix host (''.'' @ dName) \<or> str_contains host dName \<or> str_contains dName host"

text \<open>The name of the pool that serves a host.\<close>

definition pool_of :: "string \<Rightarrow> UpstreamManager \<Rightarrow> string option" where
  "pool_of host um =
     (let names = map fst um in
      if host \<in> set names then Some host
      else case find (\<lambda>dName. loose_match host dName) names of
        Some dName \<Rightarrow> Some dName
      | None \<Rightarrow> (case names of [dName] \<Rightarrow> Some dName | _ \<Rightarrow> None))"

definition find_alive :: "UpstreamBackend list \<Rightarrow> nat \<Rightarrow> nat option" where
  "find_alive bs start =
     map_option (\<lambda>i. (start + i) mod length bs) (find (\<lambda>i. ub_IsAlive (bs ! ((start + i) mod length bs))) [0..<length bs])"

definition pool_next :: "UpstreamPool \<Rightarrow> string \<times> UpstreamPool" where
  "pool_next p =
     (let n = length (ul_Backends p);
          idx = (case find_alive (ul_Backends p) (ul_Current p) of Some idx \<Rightarrow> idx | None \<Rightarrow> ul_Current p mod n)
      in (ub_URL (ul_Backends p ! idx), p\<lparr>ul_Current := (idx + 1) mod n\<rparr>))"

definition GetNext :: "string \<Rightarrow> UpstreamManager \<Rightarrow> string option \<times> UpstreamManager" where
  "GetNext hostport um =
     (let host = strip_port (to_lower hostport) in
      case pool_of host um of
        None \<Rightarrow> (None, um)
      | Some name \<Rightarrow> (case map_of um name of
          None \<Rightarrow> (None, um)
        | Some p \<Rightarrow> if ul_Backends p = [] then (None, um)
                    else let (url, p') = pool_next p in (Some url, AList.update name p' um)))"

subsection \<open>Health checks\<close>

text \<open>
  \<open>probe\<close> is \<open>None\<close> for a URL that cannot be parsed, \<open>Some None\<close> for a request that fails and otherwise the
  status of the answer.
\<close>

definition alive_answer :: "int option \<Rightarrow> bool" where
  "alive_answer a = (case a of None \<Rightarrow> False | Some code \<Rightarrow> \<not> (code = 500 \<or> code = 502 \<or> code = 504))"

definition check_backend :: "(string \<Rightarrow> int option option) \<Rightarrow> UpstreamBackend \<Rightarrow> UpstreamBackend" where
  "check_backend probe b = (case probe (ub_URL b) of
       None \<Rightarrow> b
     | Some a \<Rightarrow> if alive_answer a then b\<lparr>ub_IsAlive := True, ub_Failures := 0\<rparr>
         else let b1 = b\<lparr>ub_Failures := ub_Failures b + 1\<rparr>
              in if ub_IsAlive b1 \<and> 3 \<le> ub_Failures b1 then b1\<lparr>ub_IsAlive := False\<rparr> else b1)"

definition runHealthChecks :: "(string \<Rightarrow> int option option) \<Rightarrow> UpstreamManager \<Rightarrow> UpstreamManager" where
  "runHealthChecks probe um =
     map (\<lambda>(name, p). (name, p\<lparr>ul_Backends := map (check_backend probe) (ul_Backends p)\<rparr>)) um"

subsection \<open>Round robin\<close>

definition pool_ok :: "UpstreamPool \<Rightarrow> bool" where
  "pool_ok p \<longleftrightarrow> ul_Backends p \<noteq> [] \<and> ul_Current p < length (ul_Backends p)"

text \<open>The index the next call picks.\<close>

definition pick :: "UpstreamPool \<Rightarrow> nat" where
  "pick p = (case find_alive (ul_Backends p) (ul_Current p) of Some idx \<Rightarrow> idx
     | None \<Rightarrow> ul_Current p mod length (ul_Backends p))"

lemma pool_next_pick:
  "pool_next p = (ub_URL (ul_Backends p ! pick p), p\<lparr>ul_Current := (pick p + 1) mod length (ul_Backends p)\<rparr>)"
  by (simp add: pool_next_def pick_def Let_def)

lemma pick_bound: "ul_Backends p \<noteq> [] \<Longrightarrow> pick p < length (ul_Backends p)"
  by (auto simp: pick_def find_alive_def split: option.split)

lemma pool_next_ok: "pool_ok p \<Longrightarrow> pool_ok (snd (pool_next p))"
  by (simp add: pool_ok_def pool_next_pick)

text \<open>The distance from the pointer to a backend, going round.\<close>

definition ahead :: "nat \<Rightarrow> nat \<Rightarrow> nat \<Rightarrow> nat" where
  "ahead n c j = (if c \<le> j then j - c else j + n - c)"

lemma ahead_reach: "c < n \<Longrightarrow> j < n \<Longrightarrow> (c + ahead n c j) mod n = j \<and> ahead n c j < n"
  by (auto simp: ahead_def)

lemma ahead_unique: "c < n \<Longrightarrow> i < n \<Longrightarrow> ahead n c ((c + i) mod n) = i"
  by (cases "c + i < n") (auto simp: ahead_def mod_if)

lemma ahead_step:
  "c < n \<Longrightarrow> j < n \<Longrightarrow> k < n \<Longrightarrow> ahead n c k < ahead n c j \<Longrightarrow> ahead n ((k + 1) mod n) j = ahead n c j - ahead n c k - 1"
  by (cases "Suc k = n") (auto simp: ahead_def split: if_splits)

lemma pick_first:
  assumes "pool_ok p" and "j < length (ul_Backends p)" and "ub_IsAlive (ul_Backends p ! j)"
  defines "n \<equiv> length (ul_Backends p)"
  shows "ub_IsAlive (ul_Backends p ! pick p)" and "ahead n (ul_Current p) (pick p) \<le> ahead n (ul_Current p) j"
proof -
  let ?P = "\<lambda>i. ub_IsAlive (ul_Backends p ! ((ul_Current p + i) mod n))"
  have c: "ul_Current p < n" using assms(1) by (simp add: pool_ok_def n_def)
  note j = ahead_reach [OF c assms(2) [folded n_def]]
  have Pj: "?P (ahead n (ul_Current p) j)" using j assms(3) by simp
  then have "find ?P [0..<n] \<noteq> None" using j by (auto simp: find_None_iff)
  then obtain i where i: "find ?P [0..<n] = Some i" by auto
  then have i': "i < n" "?P i" "\<forall>k < i. \<not> ?P k"
    by (auto simp: find_Some_iff)
  have pick: "pick p = (ul_Current p + i) mod n"
    using i by (simp add: pick_def find_alive_def n_def)
  show "ub_IsAlive (ul_Backends p ! pick p)" using i'(2) pick by simp
  have "i \<le> ahead n (ul_Current p) j" using i'(3) Pj by (meson not_le)
  then show "ahead n (ul_Current p) (pick p) \<le> ahead n (ul_Current p) j"
    using ahead_unique [OF c i'(1)] pick by simp
qed

text \<open>The URLs that a number of consecutive calls return.\<close>

fun serve :: "nat \<Rightarrow> UpstreamPool \<Rightarrow> string list" where
  "serve 0 p = []"
| "serve (Suc k) p = (let (url, p') = pool_next p in url # serve k p')"

lemma length_serve [simp]: "length (serve k p) = k"
  by (induction k arbitrary: p) (simp_all add: pool_next_pick)

lemma serve_reaches:
  assumes "pool_ok p" and "j < length (ul_Backends p)" and "ub_IsAlive (ul_Backends p ! j)"
    and "ahead (length (ul_Backends p)) (ul_Current p) j < k"
  shows "ub_URL (ul_Backends p ! j) \<in> set (serve k p)"
  using assms
proof (induction k arbitrary: p)
  case (Suc k)
  let ?n = "length (ul_Backends p)"
  let ?p = "snd (pool_next p)"
  have same: "ul_Backends ?p = ul_Backends p" "ul_Current ?p = (pick p + 1) mod ?n"
    by (simp_all add: pool_next_pick)
  show ?case
  proof (cases "pick p = j")
    case True
    then show ?thesis by (simp add: pool_next_pick)
  next
    case False
    have c: "ul_Current p < ?n" using Suc.prems(1) by (simp add: pool_ok_def)
    have k: "pick p < ?n" using Suc.prems(1) by (simp add: pool_ok_def pick_bound)
    have "ahead ?n (ul_Current p) (pick p) \<noteq> ahead ?n (ul_Current p) j"
      using False ahead_reach [OF c k] ahead_reach [OF c Suc.prems(2)] by metis
    then have lt: "ahead ?n (ul_Current p) (pick p) < ahead ?n (ul_Current p) j"
      using pick_first(2) [OF Suc.prems(1-3)] by simp
    from ahead_step [OF c Suc.prems(2) k lt]
    have "ahead ?n (ul_Current ?p) j < k" using Suc.prems(4) lt by (simp add: same)
    with Suc.IH [OF pool_next_ok [OF Suc.prems(1)]] Suc.prems(2,3) same
    have "ub_URL (ul_Backends p ! j) \<in> set (serve k ?p)" by simp
    then show ?thesis by (cases "pool_next p") simp
  qed
qed simp

lemma serve_alive_only:
  assumes "pool_ok p" and "\<exists>j < length (ul_Backends p). ub_IsAlive (ul_Backends p ! j)"
  shows "set (serve k p) \<subseteq> {ub_URL b |b. b \<in> set (ul_Backends p) \<and> ub_IsAlive b}"
  using assms
proof (induction k arbitrary: p)
  case (Suc k)
  obtain j where j: "j < length (ul_Backends p)" "ub_IsAlive (ul_Backends p ! j)" using Suc.prems(2) by blast
  have "pick p < length (ul_Backends p)" using Suc.prems(1) by (simp add: pool_ok_def pick_bound)
  moreover have "ub_IsAlive (ul_Backends p ! pick p)" by (rule pick_first(1) [OF Suc.prems(1) j])
  moreover have "ul_Backends (snd (pool_next p)) = ul_Backends p" by (simp add: pool_next_pick)
  ultimately show ?case
    using Suc.IH [OF pool_next_ok [OF Suc.prems(1)]] Suc.prems(2) by (auto simp: pool_next_pick)
qed simp

text \<open>What the manager answers to a number of calls in a row.\<close>

fun answers :: "nat \<Rightarrow> string \<Rightarrow> UpstreamManager \<Rightarrow> string option list" where
  "answers 0 host um = []"
| "answers (Suc k) host um = (let (a, um') = GetNext host um in a # answers k host um')"

lemma pool_of_update: "map_of um name \<noteq> None \<Longrightarrow> pool_of host (AList.update name p um) = pool_of host um"
  by (simp add: pool_of_def update_keys map_of_eq_None_iff Let_def)

lemma GetNext_pool:
  assumes "pool_of (strip_port (to_lower host)) um = Some name" and "map_of um name = Some p" and "pool_ok p"
  shows "GetNext host um = (Some (fst (pool_next p)), AList.update name (snd (pool_next p)) um)"
  using assms by (simp add: GetNext_def pool_ok_def Let_def split: prod.split)

lemma answers_serve:
  assumes "pool_of (strip_port (to_lower host)) um = Some name" and "map_of um name = Some p" and "pool_ok p"
  shows "answers k host um = map Some (serve k p)"
  using assms
proof (induction k arbitrary: um p)
  case (Suc k)
  have "answers k host (AList.update name (snd (pool_next p)) um) = map Some (serve k (snd (pool_next p)))"
    by (rule Suc.IH) (use Suc.prems in \<open>simp_all add: pool_of_update pool_next_ok gomap_simps\<close>)
  then show ?case by (simp add: GetNext_pool [OF Suc.prems] Let_def split: prod.split)
qed simp

text \<open>
  C36: Load balancing is fair and sends nothing to a backend that is down while another is alive: if a pool serves the
  host and some backend of it is alive, then among as many consecutive calls as the pool has backends each backend that
  is alive is chosen, and only those are chosen, whatever the weights in the configuration are.
\<close>

theorem round_robin_fair:
  assumes "pool_of (strip_port (to_lower host)) um = Some name" and "map_of um name = Some p" and "pool_ok p"
    and "\<exists>b \<in> set (ul_Backends p). ub_IsAlive b"
  shows "set (answers (length (ul_Backends p)) host um) = {Some (ub_URL b) |b. b \<in> set (ul_Backends p) \<and> ub_IsAlive b}"
proof -
  let ?n = "length (ul_Backends p)"
  have "\<exists>j < ?n. ub_IsAlive (ul_Backends p ! j)" using assms(4) by (metis in_set_conv_nth)
  from serve_alive_only [OF assms(3) this]
  have only: "set (serve ?n p) \<subseteq> {ub_URL b |b. b \<in> set (ul_Backends p) \<and> ub_IsAlive b}" .
  have "ub_URL b \<in> set (serve ?n p)" if b: "b \<in> set (ul_Backends p)" "ub_IsAlive b" for b
  proof -
    obtain j where j: "j < ?n" "ul_Backends p ! j = b" using b(1) by (metis in_set_conv_nth)
    have c: "ul_Current p < ?n" using assms(3) by (simp add: pool_ok_def)
    have "ub_URL (ul_Backends p ! j) \<in> set (serve ?n p)"
      by (rule serve_reaches [OF assms(3) j(1)]) (use b j ahead_reach [OF c j(1)] in simp_all)
    with j show ?thesis by simp
  qed
  with only show ?thesis unfolding answers_serve [OF assms(1-3)] by auto
qed

text \<open>Two backends of which the second is down, in a pool found by the name of a subdomain.\<close>

definition demo_pool :: UpstreamPool where
  "demo_pool = \<lparr>ul_Backends = [\<lparr>ub_URL = ''http://a'', ub_Weight = 1, ub_IsAlive = True, ub_Failures = 0\<rparr>,
     \<lparr>ub_URL = ''http://b'', ub_Weight = 9, ub_IsAlive = False, ub_Failures = 3\<rparr>], ul_Current = 1\<rparr>"

lemma round_robin_fair_witness:
  "set (answers 2 ''www.shop.vn:443'' [(''shop.vn'', demo_pool)]) = {Some ''http://a''}"
proof -
  have p: "pool_of (strip_port (to_lower ''www.shop.vn:443'')) [(''shop.vn'', demo_pool)] = Some ''shop.vn''"
    by code_simp
  have ok: "pool_ok demo_pool" "\<exists>b \<in> set (ul_Backends demo_pool). ub_IsAlive b"
    by (simp_all add: pool_ok_def demo_pool_def)
  have n: "length (ul_Backends demo_pool) = 2"
    "{Some (ub_URL b) |b. b \<in> set (ul_Backends demo_pool) \<and> ub_IsAlive b} = {Some ''http://a''}"
    by (force simp: demo_pool_def)+
  show ?thesis using round_robin_fair [OF p _ ok] unfolding n by simp
qed

end
