(* ===== verification/Cdn.thy ===== *)
theory Cdn
  imports Http Config_Types Float64
begin

section \<open>The response cache (core/cache.go)\<close>

text \<open>
  Responses of a backend are kept in a \<open>ristretto\<close> cache. That package is a parameter, seen through the
  entries it would return: a record of its operations, with what its documentation promises as the
  predicate \<open>ristretto_ok\<close>; it may refuse or drop an entry whenever it likes. Lemmas: what is kept is public,
  complete and fresh, and two weaknesses of the key and of the cookie rule.
\<close>

record response =
  rs_StatusCode :: int
  rs_Header :: "(string \<times> string list) list"
  rs_Body :: string

definition header_get :: "(string \<times> string list) list \<Rightarrow> string \<Rightarrow> string" where
  "header_get h k = (case map_of h k of Some (v # vs) \<Rightarrow> v | _ \<Rightarrow> [])"

record CachedResponse =
  ca_StatusCode :: int
  ca_Headers :: "(string \<times> string list) list"
  ca_Body :: string
  ca_Expiry :: gotime

type_synonym cache_view = "(string, CachedResponse) gomap"

record ristretto =
  ri_SetWithTTL :: "string \<Rightarrow> CachedResponse \<Rightarrow> int \<Rightarrow> duration \<Rightarrow> cache_view \<Rightarrow> cache_view"
  ri_Del :: "string \<Rightarrow> cache_view \<Rightarrow> cache_view"
  ri_Clear :: "cache_view \<Rightarrow> cache_view"

definition ristretto_ok :: "ristretto \<Rightarrow> bool" where
  "ristretto_ok ri \<longleftrightarrow>
     (\<forall>k v cost ttl m k' v'. map_of (ri_SetWithTTL ri k v cost ttl m) k' = Some v' \<longrightarrow> k' = k \<and> v' = v \<or> map_of m k' = Some v') \<and>
     (\<forall>k m k' v'. map_of (ri_Del ri k m) k' = Some v' \<longrightarrow> k' \<noteq> k \<and> map_of m k' = Some v') \<and>
     (\<forall>m k. map_of (ri_Clear ri m) k = None)"

record CDNStats =
  cs_Hits :: int
  cs_Misses :: int
  cs_Bypasses :: int

record CDNManager =
  cm_cache :: cache_view
  cm_cfg :: CDNConfig
  cm_stats :: CDNStats

text \<open>The constructor of the package gets the number of counters and the cost limit, and may fail.\<close>

definition num_counters :: "CDNConfig \<Rightarrow> int" where
  "num_counters cfg = (let n = go_quot (cdn_MemoryLimitMB cfg * 1024 * 1024) 50000 * 10 in if n < 100000 then 100000 else n)"

definition InitCDN :: "(int \<Rightarrow> int \<Rightarrow> bool) \<Rightarrow> CDNConfig \<Rightarrow> CDNManager option \<Rightarrow> string option \<times> CDNManager option" where
  "InitCDN creates cfg cdn =
     (if \<not> cdn_Enabled cfg then (None, cdn)
      else if \<not> creates (num_counters cfg) (cdn_MemoryLimitMB cfg * 1024 * 1024) then (Some ''failed to init ristretto cache'', cdn)
      else (None, Some \<lparr>cm_cache = [], cm_cfg = cfg, cm_stats = \<lparr>cs_Hits = 0, cs_Misses = 0, cs_Bypasses = 0\<rparr>\<rparr>))"

definition cdn_GetStats :: "CDNManager option \<Rightarrow> int \<times> int \<times> int" where
  "cdn_GetStats cdn = (case cdn of None \<Rightarrow> (0, 0, 0)
     | Some cm \<Rightarrow> (cs_Hits (cm_stats cm), cs_Misses (cm_stats cm), cs_Bypasses (cm_stats cm)))"

subsection \<open>Which requests use the cache\<close>

definition GenerateCacheKey :: "request \<Rightarrow> string" where
  "GenerateCacheKey r = r_method r @ ''_'' @ r_host r @ ''_'' @ r_path r @ ''_'' @ r_rawquery r"

definition matchBypassRule :: "string \<Rightarrow> string \<Rightarrow> bool" where
  "matchBypassRule path rule = (if has_suffix rule ''*'' then has_prefix path (butlast rule) else path = rule)"

definition sensitive_cookies :: "CDNConfig \<Rightarrow> string list" where
  "sensitive_cookies cfg =
     [''session'', ''logged_in'', ''phpsessid'', ''jsessionid'', ''laravel_session'', ''csrf''] @ cdn_BypassCookies cfg"

definition ShouldBypass :: "CDNConfig \<Rightarrow> request \<Rightarrow> bool" where
  "ShouldBypass cfg r \<longleftrightarrow>
     (r_method r \<noteq> ''GET'' \<and> r_method r \<noteq> ''HEAD'') \<or>
     list_ex (matchBypassRule (r_path r)) (cdn_BypassRules cfg) \<or>
     hdr_get r ''Authorization'' \<noteq> [] \<or>
     list_ex (\<lambda>h. hdr_get r h \<noteq> []) (cdn_BypassHeaders cfg) \<or>
     (hdr_get r ''Cookie'' \<noteq> [] \<and>
        list_ex (\<lambda>sc. str_contains (to_lower (hdr_get r ''Cookie'')) (to_lower sc)) (sensitive_cookies cfg))"

definition IsStaticExtension :: "CDNConfig \<Rightarrow> string \<Rightarrow> bool" where
  "IsStaticExtension cfg path \<longleftrightarrow> (let ext = to_lower (path_ext path) in ext \<noteq> [] \<and> ext \<in> set (cdn_StaticExtensions cfg))"

subsection \<open>Reading and writing\<close>

definition add_miss :: "CDNManager \<Rightarrow> CDNManager" where
  "add_miss cm = cm\<lparr>cm_stats := (cm_stats cm)\<lparr>cs_Misses := cs_Misses (cm_stats cm) + 1\<rparr>\<rparr>"

definition add_hit :: "CDNManager \<Rightarrow> CDNManager" where
  "add_hit cm = cm\<lparr>cm_stats := (cm_stats cm)\<lparr>cs_Hits := cs_Hits (cm_stats cm) + 1\<rparr>\<rparr>"

definition RecordBypass :: "CDNManager \<Rightarrow> CDNManager" where
  "RecordBypass cm = cm\<lparr>cm_stats := (cm_stats cm)\<lparr>cs_Bypasses := cs_Bypasses (cm_stats cm) + 1\<rparr>\<rparr>"

definition cdn_Get :: "ristretto \<Rightarrow> string \<Rightarrow> gotime \<Rightarrow> CDNManager \<Rightarrow> CachedResponse option \<times> CDNManager" where
  "cdn_Get ri key now cm =
     (case map_of (cm_cache cm) key of
        None \<Rightarrow> (None, add_miss cm)
      | Some resp \<Rightarrow>
          if ca_Expiry resp < now then (None, add_miss (cm\<lparr>cm_cache := ri_Del ri key (cm_cache cm)\<rparr>))
          else (Some resp, add_hit cm))"

definition uncacheable :: "response \<Rightarrow> bool" where
  "uncacheable resp \<longleftrightarrow>
     (let cacheControl = to_lower (header_get (rs_Header resp) ''Cache-Control'') in
      rs_StatusCode resp \<noteq> 200 \<or> str_contains cacheControl ''private'' \<or> str_contains cacheControl ''no-store'' \<or>
      str_contains cacheControl ''no-cache'' \<or> header_get (rs_Header resp) ''Set-Cookie'' \<noteq> [])"

definition cache_ttl :: "CDNConfig \<Rightarrow> string \<Rightarrow> response \<Rightarrow> duration option" where
  "cache_ttl cfg path resp =
     (if IsStaticExtension cfg path then Some (24 * hour)
      else if str_contains (to_lower (header_get (rs_Header resp) ''Cache-Control'')) ''public'' then Some (1 * hour)
      else None)"

definition body_limit :: nat where "body_limit = 5 * 1024 * 1024"

text \<open>\<open>readable\<close> says whether the body could be read; the result is the error and the cache.\<close>

definition cdn_Store :: "ristretto \<Rightarrow> string \<Rightarrow> request \<Rightarrow> response \<Rightarrow> bool \<Rightarrow> gotime \<Rightarrow> CDNManager \<Rightarrow> bool \<times> CDNManager" where
  "cdn_Store ri key r resp readable now cm =
     (if uncacheable resp then (False, cm)
      else case cache_ttl (cm_cfg cm) (r_path r) resp of
        None \<Rightarrow> (False, cm)
      | Some ttl \<Rightarrow>
          if \<not> readable then (True, cm)
          else if rs_Body resp = [] \<or> body_limit < length (rs_Body resp) then (False, cm)
          else let cached = \<lparr>ca_StatusCode = rs_StatusCode resp, ca_Headers = rs_Header resp, ca_Body = rs_Body resp,
                     ca_Expiry = now + ttl\<rparr>
               in (False, cm\<lparr>cm_cache := ri_SetWithTTL ri key cached (int (length (rs_Body resp))) ttl (cm_cache cm)\<rparr>))"

definition Purge :: "ristretto \<Rightarrow> string \<Rightarrow> CDNManager option \<Rightarrow> CDNManager option" where
  "Purge ri key cdn = (case cdn of None \<Rightarrow> None
     | Some cm \<Rightarrow> Some (cm\<lparr>cm_cache := (if key = [] then ri_Clear ri (cm_cache cm) else ri_Del ri key (cm_cache cm))\<rparr>))"

definition ServeFromCache :: "ristretto \<Rightarrow> request \<Rightarrow> gotime \<Rightarrow> CDNManager \<Rightarrow> CachedResponse option \<times> CDNManager" where
  "ServeFromCache ri r now cm =
     (if ShouldBypass (cm_cfg cm) r then (None, RecordBypass cm) else cdn_Get ri (GenerateCacheKey r) now cm)"

subsection \<open>What the cache holds\<close>

text \<open>A cache that lives: stores, reads, purges and evictions in any order.\<close>

inductive cdn_lives :: "ristretto \<Rightarrow> CDNConfig \<Rightarrow> CDNManager \<Rightarrow> bool" for ri cfg where
  cdn_new: "InitCDN creates cfg None = (None, Some cm) \<Longrightarrow> cdn_lives ri cfg cm"
| cdn_stored: "cdn_lives ri cfg cm \<Longrightarrow> cdn_lives ri cfg (snd (cdn_Store ri key r resp readable now cm))"
| cdn_read: "cdn_lives ri cfg cm \<Longrightarrow> cdn_lives ri cfg (snd (ServeFromCache ri r now cm))"
| cdn_purged: "cdn_lives ri cfg cm \<Longrightarrow> Purge ri key (Some cm) = Some cm' \<Longrightarrow> cdn_lives ri cfg cm'"
| cdn_evicted: "cdn_lives ri cfg cm \<Longrightarrow> map_of m \<subseteq>\<^sub>m map_of (cm_cache cm) \<Longrightarrow> cdn_lives ri cfg (cm\<lparr>cm_cache := m\<rparr>)"

definition public_reply :: "CachedResponse \<Rightarrow> bool" where
  "public_reply ca \<longleftrightarrow>
     (let cc = to_lower (header_get (ca_Headers ca) ''Cache-Control'') in
      ca_StatusCode ca = 200 \<and> \<not> str_contains cc ''private'' \<and> \<not> str_contains cc ''no-store'' \<and> \<not> str_contains cc ''no-cache'' \<and>
      header_get (ca_Headers ca) ''Set-Cookie'' = [] \<and> ca_Body ca \<noteq> [] \<and> length (ca_Body ca) \<le> body_limit)"

definition holds_public :: "CDNManager \<Rightarrow> bool" where
  "holds_public cm \<longleftrightarrow> (\<forall>k ca. map_of (cm_cache cm) k = Some ca \<longrightarrow> public_reply ca)"

lemma stats_only [simp]:
  "cm_cache (add_miss cm) = cm_cache cm" "cm_cache (add_hit cm) = cm_cache cm" "cm_cache (RecordBypass cm) = cm_cache cm"
  "cm_cfg (add_miss cm) = cm_cfg cm" "cm_cfg (add_hit cm) = cm_cfg cm" "cm_cfg (RecordBypass cm) = cm_cfg cm"
  by (simp_all add: add_miss_def add_hit_def RecordBypass_def)

lemma ristretto_laws:
  assumes "ristretto_ok ri"
  shows ri_set: "map_of (ri_SetWithTTL ri k v cost ttl m) k' = Some v' \<Longrightarrow> k' = k \<and> v' = v \<or> map_of m k' = Some v'"
    and ri_del: "map_of (ri_Del ri k m) k' = Some v' \<Longrightarrow> k' \<noteq> k \<and> map_of m k' = Some v'"
    and ri_clear: "map_of (ri_Clear ri m) k = None"
  using assms unfolding ristretto_ok_def by blast+

lemma Store_public: "ristretto_ok ri \<Longrightarrow> holds_public cm \<Longrightarrow> holds_public (snd (cdn_Store ri key r resp readable now cm))"
  by (auto simp: cdn_Store_def holds_public_def uncacheable_def public_reply_def Let_def dest!: ri_set split: option.split)

lemma Serve_public: "ristretto_ok ri \<Longrightarrow> holds_public cm \<Longrightarrow> holds_public (snd (ServeFromCache ri r now cm))"
  by (auto simp: ServeFromCache_def cdn_Get_def holds_public_def dest: ri_del split: option.split)

lemma cfg_kept [simp]:
  "cm_cfg (snd (cdn_Store ri key r resp readable now cm)) = cm_cfg cm" "cm_cfg (snd (ServeFromCache ri r now cm)) = cm_cfg cm"
  by (simp_all add: cdn_Store_def ServeFromCache_def cdn_Get_def Let_def split: option.split)

lemma lives_public:
  assumes "cdn_lives ri cfg cm" and "ristretto_ok ri"
  shows "holds_public cm \<and> cm_cfg cm = cfg"
  using assms
proof (induction rule: cdn_lives.induct)
  case (cdn_new creates cm)
  then show ?case by (auto simp: InitCDN_def holds_public_def split: if_splits)
next
  case (cdn_stored cm key r resp readable now)
  then show ?case by (simp add: Store_public)
next
  case (cdn_read cm r now)
  then show ?case by (simp add: Serve_public)
next
  case (cdn_purged cm key cm')
  then show ?case by (auto simp: Purge_def holds_public_def ri_clear dest: ri_del split: if_splits)
next
  case (cdn_evicted cm m)
  then show ?case by (auto simp: holds_public_def map_le_def dom_def)
qed

lemma Serve_hit:
  "ServeFromCache ri r now cm = (Some ca, cm') \<longleftrightarrow>
     \<not> ShouldBypass (cm_cfg cm) r \<and> map_of (cm_cache cm) (GenerateCacheKey r) = Some ca \<and> now \<le> ca_Expiry ca \<and> cm' = add_hit cm"
  by (auto simp: ServeFromCache_def cdn_Get_def split: option.splits if_splits)

subsection \<open>Properties\<close>


definition demo_cache :: ristretto where
  "demo_cache = \<lparr>ri_SetWithTTL = (\<lambda>k v cost ttl m. AList.update k v m), ri_Del = AList.delete, ri_Clear = (\<lambda>m. [])\<rparr>"

definition demo_cdn_config :: CDNConfig where
  "demo_cdn_config = zero_CDNConfig\<lparr>cdn_Enabled := True, cdn_MemoryLimitMB := 64, cdn_StaticExtensions := [''.css'']\<rparr>"

definition demo_page :: request where "demo_page = blank_request\<lparr>r_host := ''a.com'', r_path := ''/a.css''\<rparr>"

definition demo_response :: response where
  "demo_response = \<lparr>rs_StatusCode = 200, rs_Header = [], rs_Body = ''p''\<rparr>"

lemma demo_cache_ok: "ristretto_ok demo_cache"
  by (simp add: ristretto_ok_def demo_cache_def gomap_simps)

lemma demo_cdn: "InitCDN (\<lambda>n c. True) demo_cdn_config None =
    (None, Some \<lparr>cm_cache = [], cm_cfg = demo_cdn_config, cm_stats = \<lparr>cs_Hits = 0, cs_Misses = 0, cs_Bypasses = 0\<rparr>\<rparr>)"
  by (simp add: InitCDN_def demo_cdn_config_def)


text \<open>Two addresses of one site can share a key, so the reply to one is served for the other.\<close>

lemma cache_key_collision:
  "GenerateCacheKey (r\<lparr>r_path := p @ ''_'' @ q, r_rawquery := s\<rparr>) = GenerateCacheKey (r\<lparr>r_path := p, r_rawquery := q @ ''_'' @ s\<rparr>)"
  by (simp add: GenerateCacheKey_def)

text \<open>The session cookie that the server gives every visitor counts as a session of the site.\<close>

lemma own_session_bypasses:
  assumes "hdr_get r ''Cookie'' = a @ ''mango_session='' @ b"
  shows "ShouldBypass cfg r"
proof -
  have "str_contains (to_lower ''mango_session='') (to_lower ''session'')" by code_simp
  then have "str_contains (to_lower a @ to_lower ''mango_session='' @ to_lower b) (to_lower ''session'')"
    by (rule str_contains_append)
  then have "str_contains (to_lower (hdr_get r ''Cookie'')) (to_lower ''session'')" unfolding assms by (simp add: to_lower_def)
  then show ?thesis using assms by (simp add: ShouldBypass_def sensitive_cookies_def)
qed

end
