(* ===== verification/Proxy.thy ===== *)
theory Proxy
  imports Cdn
begin

section \<open>The reverse proxy's rules (core/proxy.go)\<close>

text \<open>
  The settings of the transport, the choice of the target host, the headers sent to a backend and the
  change of a redirect. \<open>net/url\<close> gives the host of a backend address as an argument. The copying of bytes of
  a WebSocket is left out. Lemmas: what the target and a rewritten redirect are.
\<close>

record Transport =
  tr_ConnectTimeout :: duration
  tr_KeepAlive :: duration
  tr_MaxIdleConns :: int
  tr_MaxIdleConnsPerHost :: int
  tr_MaxConnsPerHost :: int
  tr_IdleConnTimeout :: duration
  tr_ResponseHeaderTimeout :: duration
  tr_DisableKeepAlives :: bool
  tr_DisableCompression :: bool
  tr_BufferSize :: int

definition at_least_default :: "int \<Rightarrow> int \<Rightarrow> int" where
  "at_least_default d x = (if x \<le> 0 then d else x)"

text \<open>The transport is made on the first use and kept, whatever the configuration becomes.\<close>

definition new_transport :: "Config \<Rightarrow> Transport" where
  "new_transport cfg = (let p = cfg_Proxy cfg in
     \<lparr>tr_ConnectTimeout = at_least_default (3 * second) (prx_ConnectTimeout p), tr_KeepAlive = 60 * second,
      tr_MaxIdleConns = at_least_default 1000 (prx_MaxIdleConns p),
      tr_MaxIdleConnsPerHost = at_least_default 200 (prx_MaxIdleConnsPerHost p),
      tr_MaxConnsPerHost = prx_MaxConnsPerHost p,
      tr_IdleConnTimeout = at_least_default (30 * second) (prx_IdleConnTimeout p),
      tr_ResponseHeaderTimeout = at_least_default (15 * second) (prx_ResponseTimeout p),
      tr_DisableKeepAlives = (\<not> prx_KeepAlive p), tr_DisableCompression = prx_DisableCompression p,
      tr_BufferSize = at_least_default 64 (prx_BufferSizeKB p) * 1024\<rparr>)"

definition getTransport :: "Config \<Rightarrow> Transport option \<Rightarrow> Transport" where
  "getTransport cfg once = (case once of Some t \<Rightarrow> t | None \<Rightarrow> new_transport cfg)"

subsection \<open>The target\<close>

text \<open>\<open>resolves\<close> says whether the name of the test site resolves.\<close>

definition get8080TargetHost :: "bool \<Rightarrow> string" where
  "get8080TargetHost resolves = (if resolves then ''mango-test-site:8080'' else ''127.0.0.1:8080'')"

definition target_host :: "bool \<Rightarrow> string \<Rightarrow> string" where
  "target_host resolves host = (if str_contains host ''8080'' then get8080TargetHost resolves else host)"

definition isWebSocket :: "request \<Rightarrow> bool" where
  "isWebSocket r \<longleftrightarrow> equal_fold (hdr_get r ''Upgrade'') ''websocket''"

definition GetDomainConfig :: "Config \<Rightarrow> string \<Rightarrow> DomainConfig option" where
  "GetDomainConfig cfg host = find (\<lambda>d. str_contains (to_lower host) (to_lower (dom_Name d))) (cfg_Domains cfg)"

subsection \<open>Headers\<close>

definition hdr_set :: "string \<Rightarrow> string \<Rightarrow> request \<Rightarrow> request" where
  "hdr_set k v r = r\<lparr>r_header := AList.update k [v] (r_header r)\<rparr>"

definition set_unless :: "bool \<Rightarrow> string \<Rightarrow> string \<Rightarrow> request \<Rightarrow> request" where
  "set_unless skip k v r = (if skip then r else hdr_set k v r)"

definition forward_headers :: "string \<Rightarrow> bool \<Rightarrow> string \<Rightarrow> request \<Rightarrow> request" where
  "forward_headers clientIP bypass key r =
     (let r1 = hdr_set ''X-Forwarded-Host'' (r_host r) r;
          r2 = hdr_set ''X-Forwarded-Proto'' (if r_tls r then ''https'' else ''http'') r1;
          r3 = set_unless (\<not> bypass) ''X-Mango-Cache-Bypass'' ''true'' r2;
          r4 = set_unless (key = []) ''X-Mango-Cache-Key'' key r3;
          r5 = hdr_set ''X-Real-IP'' clientIP r4;
          cfIP = hdr_get r5 ''CF-Connecting-IP'';
          r6 = hdr_set ''X-Forwarded-For'' (if cfIP \<noteq> [] then cfIP else clientIP) (set_unless (cfIP = []) ''CF-Connecting-IP'' cfIP r5)
      in hdr_set ''X-Mango-Shield'' ''v3.0'' r6)"

text \<open>The director of the proxy: the host of the client goes to the backend.\<close>

definition direct_host :: "string \<Rightarrow> request \<Rightarrow> request" where
  "direct_host target r = r\<lparr>r_host := (if hdr_get r ''X-Forwarded-Host'' \<noteq> [] then hdr_get r ''X-Forwarded-Host'' else target)\<rparr>"

subsection \<open>Redirects of the backend\<close>

function replace_all :: "string \<Rightarrow> string \<Rightarrow> string \<Rightarrow> string" where
  "replace_all old new [] = []"
| "replace_all old new (c # s) =
     (if old \<noteq> [] \<and> has_prefix (c # s) old then new @ replace_all old new (drop (length old) (c # s))
      else c # replace_all old new s)"
  by pat_completeness auto
termination
  by (relation "measure (\<lambda>(old, new, s). length s)") (auto simp: neq_Nil_conv)

definition response_header_set :: "string \<Rightarrow> string \<Rightarrow> response \<Rightarrow> response" where
  "response_header_set k v resp = resp\<lparr>rs_Header := AList.update k [v] (rs_Header resp)\<rparr>"

definition rewrite_location :: "string \<Rightarrow> request \<Rightarrow> response \<Rightarrow> response" where
  "rewrite_location target r resp =
     (let loc = header_get (rs_Header resp) ''Location'' in
      if loc \<noteq> [] \<and> target \<noteq> [] \<and> str_contains loc target
      then let fwd = hdr_get r ''X-Forwarded-Host''; origHost = (if fwd = [] then r_host r else fwd)
           in response_header_set ''Location'' (replace_all target origHost loc) resp
      else resp)"

text \<open>\<open>ModifyResponse\<close>: the redirect, then the cache.\<close>

definition modify_response ::
  "ristretto \<Rightarrow> Config \<Rightarrow> string \<Rightarrow> request \<Rightarrow> response \<Rightarrow> bool \<Rightarrow> gotime \<Rightarrow> CDNManager option \<Rightarrow> response \<times> CDNManager option" where
  "modify_response ri cfg target r resp readable now cdn =
     (let resp1 = rewrite_location target r resp in
      case cdn of
        None \<Rightarrow> (resp1, None)
      | Some cm \<Rightarrow>
          if \<not> cdn_Enabled (cfg_CDN cfg) then (resp1, cdn)
          else if hdr_get r ''X-Mango-Cache-Bypass'' = ''true'' then (response_header_set ''X-Mango-Cache'' ''BYPASS'' resp1, cdn)
          else if hdr_get r ''X-Mango-Cache-Key'' \<noteq> []
          then let resp2 = response_header_set ''X-Mango-Cache'' ''MISS'' resp1
               in (resp2, Some (snd (cdn_Store ri (hdr_get r ''X-Mango-Cache-Key'') r resp2 readable now cm)))
          else (resp1, cdn))"

subsection \<open>Lemmas\<close>

lemma hdr_get_set [simp]: "hdr_get (hdr_set k v r) k' = (if k' = k then v else hdr_get r k')"
  by (simp add: hdr_get_def hdr_set_def gomap_simps)

lemma hdr_get_unless [simp]: "hdr_get (set_unless skip k v r) k' = (if \<not> skip \<and> k' = k then v else hdr_get r k')"
  by (simp add: set_unless_def)

lemma hdr_set_rest [simp]:
  "r_host (hdr_set k v r) = r_host r" "r_tls (hdr_set k v r) = r_tls r" "r_path (hdr_set k v r) = r_path r"
  "r_method (hdr_set k v r) = r_method r" "r_remote_addr (hdr_set k v r) = r_remote_addr r"
  "r_host (set_unless b k v r) = r_host r" "r_tls (set_unless b k v r) = r_tls r" "r_path (set_unless b k v r) = r_path r"
  "r_method (set_unless b k v r) = r_method r" "r_remote_addr (set_unless b k v r) = r_remote_addr r"
  by (simp_all add: hdr_set_def set_unless_def)

lemma forwarded:
  "hdr_get (forward_headers clientIP bypass key r) ''X-Real-IP'' = clientIP"
  "hdr_get (forward_headers clientIP bypass key r) ''X-Forwarded-For'' =
     (if hdr_get r ''CF-Connecting-IP'' \<noteq> [] then hdr_get r ''CF-Connecting-IP'' else clientIP)"
  "hdr_get (forward_headers clientIP bypass key r) ''X-Forwarded-Host'' = r_host r"
  "hdr_get (forward_headers clientIP bypass key r) ''X-Forwarded-Proto'' = (if r_tls r then ''https'' else ''http'')"
  by (simp_all add: forward_headers_def Let_def)

lemma direct_host_forwarded:
  "r_host (direct_host target (forward_headers clientIP bypass key r)) = (if r_host r \<noteq> [] then r_host r else target)"
  by (simp add: direct_host_def forwarded)

text \<open>A backend on another machine whose address has 8080 in it is not the one that gets the request.\<close>

lemma target_8080_hijacked:
  "target_host resolves (a @ '':8080'') \<in> {''mango-test-site:8080'', ''127.0.0.1:8080''}"
proof -
  have "str_contains (a @ '':8080'') ''8080''"
    unfolding str_contains_iff by (rule exI [of _ "a @ '':''"], rule exI [of _ "[]"]) simp
  then show ?thesis by (simp add: target_host_def get8080TargetHost_def)
qed

text \<open>A redirect is rewritten at every place; without the target there is nothing to change.\<close>

lemma replace_all_absent: "\<not> str_contains s old \<Longrightarrow> replace_all old new s = s"
proof (induction old new s rule: replace_all.induct)
  case (2 old new c s)
  have np: "\<not> has_prefix (c # s) old" using 2(3) str_contains_has_prefix by blast
  have "\<not> str_contains s old" using 2(3) str_contains_append [of s old "[c]" "[]"] by auto
  then show ?case using 2(2) np by simp
qed simp

lemma replace_all_first:
  "old \<noteq> [] \<Longrightarrow> replace_all old new (old @ s) = new @ replace_all old new s"
  by (cases old) (simp_all add: has_prefix_def)

lemma rewrite_location_first:
  assumes "header_get (rs_Header resp) ''Location'' = target @ s" and "target \<noteq> []" and "\<not> str_contains s target"
    and "hdr_get r ''X-Forwarded-Host'' = h" and "h \<noteq> []"
  shows "header_get (rs_Header (rewrite_location target r resp)) ''Location'' = h @ s"
proof -
  have "str_contains (target @ s) target" using str_contains_append [of target target "[]" s] by simp
  then show ?thesis
    using assms by (simp add: rewrite_location_def response_header_set_def Let_def replace_all_first replace_all_absent
        header_get_def gomap_simps)
qed

end
