(* ===== verification/Shield.thy ===== *)
theory Shield
  imports Ip_State Sharded_Map Xdp Mesh Intel Detection Bot_Classifier Adaptive Waf_Engine Rate_Limit Hardening
    Challenge Upstream Proxy
begin

section \<open>The state of the server (core/pipeline.go, core/server.go)\<close>

text \<open>
  \<open>Pipeline\<close> holds the fields of the Go structure of that name and the two globals it uses, the mesh and
  the queues of the Cloudflare worker; \<open>Shield\<close> extends it, as the structures point at each other. An
  engine that was not set is \<open>None\<close>; \<open>sh_cdn\<close> is the global of core/cache.go. Requests to the alert manager are recorded. Lemmas: the constructors,
  and what a new or reloaded configuration means for the maps of domains.
\<close>

record BanRequest =
  br_IP :: string
  br_Duration :: duration

record CFManager =
  cf_BanQueue :: "string list"
  cf_UnbanQueue :: "string list"

datatype alert_call = DomainAttackStart string int int | DomainAttackEnd string duration int

record Pipeline =
  pl_cfg :: Config
  pl_domainModeMap :: "(string, string) gomap"
  pl_validHostMap :: "(string, bool) gomap"
  pl_ipStates :: IPStateMap
  pl_banned :: time_map
  pl_whitelist :: time_map
  pl_banQueue :: "BanRequest list"
  pl_alerts :: "alert_call list"
  pl_intel :: "Intel option"
  pl_detEngine :: "DetEngine option"
  pl_behavior :: "BehaviorAnalyzer option"
  pl_botClass :: "BotClassifier option"
  pl_adaptive :: "AdaptiveLearner option"
  pl_wafEngine :: "Engine option"
  pl_rateLimiter :: "IPRateLimiter option"
  pl_degrader :: "GracefulDegrader option"
  pl_validator :: "RequestValidator option"
  pl_xdpMgr :: XDPManager
  pl_mesh :: "MeshNode option"
  pl_cf :: "CFManager option"
  pl_fastUnixSec :: int

record Stats =
  st_TotalRequests :: int
  st_BlockedRequests :: int
  st_PassedRequests :: int
  st_ActiveConns :: int
  st_CurrentRPS :: int
  st_PeakRPS :: int
  st_BannedIPs :: int
  st_AttacksDetected :: int
  st_TCPEarlyRejects :: int
  st_Uptime :: gotime
  st_IsUnderAttack :: bool

record DomainCounter =
  dc_Reqs :: int
  dc_ActiveConns :: int

record Shield = Pipeline +
  sh_stats :: Stats
  sh_fpStore :: FingerprintStore
  sh_challMgr :: Manager
  sh_validator :: RequestValidator
  sh_upstreams :: "UpstreamManager option"
  sh_domainReqs :: "(string, DomainCounter) gomap"
  sh_domainLastReqs :: "(string, int) gomap"
  sh_domainRPS :: "(string, int) gomap"
  sh_domainUnderAttack :: "(string, bool) gomap"
  sh_domainAttackStart :: "(string, gotime) gomap"
  sh_domainNormalCount :: "(string, int) gomap"
  sh_challengeFails :: "(string, int) gomap"
  sh_transport :: "Transport option"
  sh_cdn :: "CDNManager option"

subsection \<open>Construction\<close>

definition host_step :: "DomainConfig \<Rightarrow> (string, string) gomap \<times> (string, bool) gomap \<Rightarrow> (string, string) gomap \<times> (string, bool) gomap" where
  "host_step d maps = (case maps of (modeMap, hostMap) \<Rightarrow>
     (if dom_ProtectionMode d \<noteq> [] then AList.update (to_lower (dom_Name d)) (dom_ProtectionMode d) modeMap else modeMap,
      AList.update (to_lower (dom_Name d)) True hostMap))"

definition buildDomainMaps :: "Config \<Rightarrow> (string, string) gomap \<times> (string, bool) gomap" where
  "buildDomainMaps cfg = fold host_step (cfg_Domains cfg) ([], [])"

definition zero_stats :: "gotime \<Rightarrow> Stats" where
  "zero_stats now = \<lparr>st_TotalRequests = 0, st_BlockedRequests = 0, st_PassedRequests = 0, st_ActiveConns = 0,
     st_CurrentRPS = 0, st_PeakRPS = 0, st_BannedIPs = 0, st_AttacksDetected = 0, st_TCPEarlyRejects = 0,
     st_Uptime = now, st_IsUnderAttack = False\<rparr>"

definition NewPipeline :: "Config \<Rightarrow> XDPManager \<Rightarrow> CFManager option \<Rightarrow> gotime \<Rightarrow> Pipeline" where
  "NewPipeline cfg xdp cf now =
     \<lparr>pl_cfg = cfg, pl_domainModeMap = fst (buildDomainMaps cfg), pl_validHostMap = snd (buildDomainMaps cfg),
      pl_ipStates = newIPStateMap, pl_banned = NewShardedTimeMap, pl_whitelist = NewShardedTimeMap, pl_banQueue = [],
      pl_alerts = [], pl_intel = None, pl_detEngine = None, pl_behavior = None, pl_botClass = None, pl_adaptive = None,
      pl_wafEngine = None, pl_rateLimiter = None, pl_degrader = None, pl_validator = None, pl_xdpMgr = xdp,
      pl_mesh = None, pl_cf = cf, pl_fastUnixSec = unix_sec now\<rparr>"

text \<open>\<open>New\<close> makes a validator but keeps it in the server; the field of the pipeline is never set.\<close>

definition New :: "Config \<Rightarrow> XDPManager \<Rightarrow> CFManager option \<Rightarrow> gotime \<Rightarrow> Shield" where
  "New cfg xdp cf now = Pipeline.extend (NewPipeline cfg xdp cf now)
     (Shield.fields (zero_stats now) [] (NewManager (pr_Challenge (cfg_Protection cfg))) NewRequestValidator None
        [] [] [] [] [] [] [] None None)"

subsection \<open>Setters and reload\<close>

definition SetIntel :: "Intel \<Rightarrow> Shield \<Rightarrow> Shield" where "SetIntel i s = s\<lparr>pl_intel := Some i\<rparr>"
definition SetDetectionEngine :: "DetEngine \<Rightarrow> Shield \<Rightarrow> Shield" where "SetDetectionEngine e s = s\<lparr>pl_detEngine := Some e\<rparr>"
definition SetBehaviorAnalyzer :: "BehaviorAnalyzer \<Rightarrow> Shield \<Rightarrow> Shield" where
  "SetBehaviorAnalyzer ba s = s\<lparr>pl_behavior := Some ba\<rparr>"
definition SetBotClassifier :: "BotClassifier \<Rightarrow> Shield \<Rightarrow> Shield" where "SetBotClassifier bc s = s\<lparr>pl_botClass := Some bc\<rparr>"
definition SetAdaptiveLearner :: "AdaptiveLearner \<Rightarrow> Shield \<Rightarrow> Shield" where
  "SetAdaptiveLearner al s = s\<lparr>pl_adaptive := Some al\<rparr>"
definition SetWAFEngine :: "Engine \<Rightarrow> Shield \<Rightarrow> Shield" where "SetWAFEngine we s = s\<lparr>pl_wafEngine := Some we\<rparr>"
definition SetRateLimiter :: "IPRateLimiter \<Rightarrow> Shield \<Rightarrow> Shield" where "SetRateLimiter rl s = s\<lparr>pl_rateLimiter := Some rl\<rparr>"
definition SetGracefulDegrader :: "GracefulDegrader \<Rightarrow> Shield \<Rightarrow> Shield" where
  "SetGracefulDegrader gd s = s\<lparr>pl_degrader := Some gd\<rparr>"
definition SetUpstreamManager :: "UpstreamManager \<Rightarrow> Shield \<Rightarrow> Shield" where
  "SetUpstreamManager um s = s\<lparr>sh_upstreams := Some um\<rparr>"

definition ReloadConfig :: "Config option \<Rightarrow> Shield \<Rightarrow> Shield" where
  "ReloadConfig new s = (case new of None \<Rightarrow> s | Some cfg \<Rightarrow>
     s\<lparr>pl_cfg := cfg, pl_domainModeMap := fst (buildDomainMaps cfg), pl_validHostMap := snd (buildDomainMaps cfg),
       sh_upstreams := map_option (UpdateDomains (cfg_Domains cfg)) (sh_upstreams s),
       pl_wafEngine := map_option (SetParanoiaLevel (waf_ParanoiaLevel (cfg_WAF cfg))) (pl_wafEngine s),
       pl_rateLimiter := map_option (ipl_SetRate (f_of_int (rl_RequestsPerSecond (pr_RateLimit (cfg_Protection cfg))))
          (f_of_int (rl_Burst (pr_RateLimit (cfg_Protection cfg))))) (pl_rateLimiter s),
       sh_challMgr := mg_UpdateConfig (Some (pr_Challenge (cfg_Protection cfg))) (sh_challMgr s),
       pl_intel := map_option (in_UpdateConfig (Some cfg)) (pl_intel s),
       pl_detEngine := map_option (de_UpdateConfig (Some cfg)) (pl_detEngine s)\<rparr>)"

text \<open>The ticker of 100 milliseconds behind \<open>GetFastCurrentUnixSec\<close>.\<close>

definition clock_tick :: "gotime \<Rightarrow> Shield \<Rightarrow> Shield" where
  "clock_tick now s = s\<lparr>pl_fastUnixSec := unix_sec now\<rparr>"

subsection \<open>The maps of domains\<close>

lemma host_step_pair [simp]:
  "fst (host_step d maps) = (if dom_ProtectionMode d \<noteq> []
     then AList.update (to_lower (dom_Name d)) (dom_ProtectionMode d) (fst maps) else fst maps)"
  "snd (host_step d maps) = AList.update (to_lower (dom_Name d)) True (snd maps)"
  by (simp_all add: host_step_def split: prod.split)

lemma host_step_modes:
  "map_of (fst (fold host_step ds maps)) h =
     (case find (\<lambda>d. to_lower (dom_Name d) = h \<and> dom_ProtectionMode d \<noteq> []) (rev ds) of
        Some d \<Rightarrow> Some (dom_ProtectionMode d) | None \<Rightarrow> map_of (fst maps) h)"
  by (induction ds rule: rev_induct) (auto simp: gomap_simps)

lemma host_step_hosts:
  "map_of (snd (fold host_step ds maps)) h =
     (if \<exists>d \<in> set ds. to_lower (dom_Name d) = h then Some True else map_of (snd maps) h)"
  by (induction ds rule: rev_induct) (auto simp: gomap_simps)

end
