(* ===== verification/Bans.thy ===== *)
theory Bans
  imports Shield
begin

section \<open>Bans and connection limits (core/pipeline.go)\<close>

text \<open>
  Who is trusted, who is banned, and what a ban does: the table of expiry times, the kernel list, the
  queues of the workers and the mesh. A lookup of the cached trust of an address creates its state.
  Lemmas: what each operation changes, the life of a ban, and the addresses that are never banned.
\<close>

subsection \<open>Trust\<close>

definition defaultCloudflareCIDRs :: "string list" where
  "defaultCloudflareCIDRs = [
     ''173.245.48.0/20'', ''103.21.244.0/22'', ''103.22.200.0/22'', ''103.31.4.0/22'',
     ''141.101.64.0/18'', ''108.162.192.0/18'', ''190.93.240.0/20'', ''188.114.96.0/20'',
     ''197.234.240.0/22'', ''198.41.128.0/17'', ''162.158.0.0/15'', ''104.16.0.0/13'',
     ''104.24.0.0/14'', ''172.64.0.0/13'', ''131.0.72.0/22'',
     ''2400:cb00::/32'', ''2606:4700::/32'', ''2803:f800::/32'', ''2405:b500::/32'',
     ''2405:8100::/32'', ''2a06:98c0::/29'', ''2c0f:f248::/32'']"

definition defaultCloudflareNets :: "ipnet list" where
  "defaultCloudflareNets = List.map_filter parse_cidr defaultCloudflareCIDRs"

definition trusted_entry :: "string \<Rightarrow> byte list \<Rightarrow> string \<Rightarrow> bool" where
  "trusted_entry ipStr ip t \<longleftrightarrow> t = ipStr \<or> (case parse_cidr t of Some n \<Rightarrow> net_contains n ip | None \<Rightarrow> False)"

definition checkIsTrustedProxy :: "string \<Rightarrow> Config \<Rightarrow> bool" where
  "checkIsTrustedProxy ipStr cfg \<longleftrightarrow> ipStr \<noteq> [] \<and> (case parse_ip ipStr of
     None \<Rightarrow> False
   | Some ip \<Rightarrow> (cfl_Enabled (cfg_Cloudflare cfg) \<and> list_ex (\<lambda>n. net_contains n ip) defaultCloudflareNets) \<or>
       list_ex (trusted_entry ipStr ip) (pr_TrustedProxies (cfg_Protection cfg)))"

definition isWhitelisted :: "string \<Rightarrow> Config \<Rightarrow> bool" where
  "isWhitelisted ip cfg \<longleftrightarrow> list_ex (\<lambda>w. ip = w) (pr_WhitelistIPs (cfg_Protection cfg))"

definition getState :: "string \<Rightarrow> gotime \<Rightarrow> Shield \<Rightarrow> IPState \<times> Shield" where
  "getState ip now s =
     (let (st, m) = GetOrCreate ip (checkIsTrustedProxy ip (pl_cfg s)) now (pl_ipStates s)
      in (st, s\<lparr>pl_ipStates := m\<rparr>))"

text \<open>Writing back through the pointer that \<open>getState\<close> returned.\<close>

definition set_state :: "string \<Rightarrow> IPState \<Rightarrow> Shield \<Rightarrow> Shield" where
  "set_state ip st s = s\<lparr>pl_ipStates := put_state (parseIPFast ip) st (pl_ipStates s)\<rparr>"

definition isTrustedProxy :: "string \<Rightarrow> gotime \<Rightarrow> Shield \<Rightarrow> bool \<times> Shield" where
  "isTrustedProxy ipStr now s =
     (if ipStr = [] then (False, s) else let (st, s') = getState ipStr now s in (is_IsTrustedProxy st, s'))"

subsection \<open>Reading the tables\<close>

definition isBanned :: "string \<Rightarrow> gotime \<Rightarrow> Shield \<Rightarrow> bool \<times> Shield" where
  "isBanned ip now s =
     (let (trusted, s1) = isTrustedProxy ip now s in
      if trusted \<or> isWhitelisted ip (pl_cfg s1) then (False, s1)
      else case tm_load ip (pl_banned s1) of
        None \<Rightarrow> (False, s1)
      | Some expiry \<Rightarrow> if expiry < now then (False, s1\<lparr>pl_banned := tm_delete ip (pl_banned s1)\<rparr>) else (True, s1))"

definition hasDynamicWhitelist :: "string \<Rightarrow> gotime \<Rightarrow> Shield \<Rightarrow> bool \<times> Shield" where
  "hasDynamicWhitelist ip now s =
     (case tm_load ip (pl_whitelist s) of
        None \<Rightarrow> (False, s)
      | Some expiry \<Rightarrow> if expiry < now then (False, s\<lparr>pl_whitelist := tm_delete ip (pl_whitelist s)\<rparr>) else (True, s))"

definition WhitelistIP :: "string \<Rightarrow> duration \<Rightarrow> gotime \<Rightarrow> Shield \<Rightarrow> Shield" where
  "WhitelistIP ip d now s = s\<lparr>pl_whitelist := tm_store ip (now + d) (pl_whitelist s)\<rparr>"

subsection \<open>Connections\<close>

definition getConnCount :: "string \<Rightarrow> gotime \<Rightarrow> Shield \<Rightarrow> int \<times> Shield" where
  "getConnCount ip now s = (let (st, s1) = getState ip now s in (sint (is_ActiveConns st), s1))"

definition IncrementConnCount :: "string \<Rightarrow> gotime \<Rightarrow> Shield \<Rightarrow> int \<times> Shield" where
  "IncrementConnCount ip now s =
     (let (st, s1) = getState ip now s; v = is_ActiveConns st + 1
      in (sint v, set_state ip (st\<lparr>is_ActiveConns := v\<rparr>) s1))"

definition DecrementConnCount :: "string \<Rightarrow> gotime \<Rightarrow> Shield \<Rightarrow> int \<times> Shield" where
  "DecrementConnCount ip now s =
     (let (st, s1) = getState ip now s; v = is_ActiveConns st - 1
      in if sint v < 0 then (0, set_state ip (st\<lparr>is_ActiveConns := 0\<rparr>) s1)
         else (sint v, set_state ip (st\<lparr>is_ActiveConns := v\<rparr>) s1))"

definition CheckConnRate :: "string \<Rightarrow> gotime \<Rightarrow> Shield \<Rightarrow> bool \<times> Shield" where
  "CheckConnRate ip now s =
     (let (trusted, s1) = isTrustedProxy ip now s in
      if trusted \<or> isWhitelisted ip (pl_cfg s1) then (True, s1)
      else let (st, s2) = getState ip now s1;
               st' = (if second \<le> time_sub now (is_ConnLastReset st) then st\<lparr>is_CPS := 1, is_ConnLastReset := now\<rparr>
                      else st\<lparr>is_CPS := is_CPS st + 1\<rparr>);
               cpsLimit = (if st_IsUnderAttack (sh_stats s2) then 25 else 50)
           in (\<not> cpsLimit < is_CPS st', set_state ip st' s2))"

subsection \<open>Banning\<close>

definition add_banned_stat :: "int \<Rightarrow> Shield \<Rightarrow> Shield" where
  "add_banned_stat d s = s\<lparr>sh_stats := (sh_stats s)\<lparr>st_BannedIPs := st_BannedIPs (sh_stats s) + d\<rparr>\<rparr>"

definition store_ban :: "string \<Rightarrow> gotime \<Rightarrow> Shield \<Rightarrow> Shield" where
  "store_ban ip expiry s =
     (let ((v, already), banned) = tm_load_or_store ip expiry (pl_banned s) in
      if already then s\<lparr>pl_banned := tm_store ip expiry banned\<rparr>
      else add_banned_stat 1 (s\<lparr>pl_banned := banned\<rparr>))"

definition banQueueCap :: nat where "banQueueCap = 100000"
definition cfQueueCap :: nat where "cfQueueCap = 1000"

definition push_kernel :: "string \<Rightarrow> duration \<Rightarrow> gotime \<Rightarrow> Shield \<Rightarrow> Shield" where
  "push_kernel ip d now s =
     (let (direct, s1) = (if xm_Enabled (pl_xdpMgr s) then let (t, s1) = isTrustedProxy ip now s in (\<not> t, s1) else (False, s)) in
      if direct then s1\<lparr>pl_xdpMgr := snd (xdp_BanIP ip (pl_xdpMgr s1))\<rparr>
      else if length (pl_banQueue s1) < banQueueCap
      then s1\<lparr>pl_banQueue := pl_banQueue s1 @ [\<lparr>br_IP = ip, br_Duration = d\<rparr>]\<rparr> else s1)"

definition push_cf_ban :: "string \<Rightarrow> Shield \<Rightarrow> Shield" where
  "push_cf_ban ip s = s\<lparr>pl_cf := map_option (\<lambda>c. if length (cf_BanQueue c) < cfQueueCap
     then c\<lparr>cf_BanQueue := cf_BanQueue c @ [ip]\<rparr> else c) (pl_cf s)\<rparr>"

definition banIP :: "string \<Rightarrow> duration \<Rightarrow> gotime \<Rightarrow> Shield \<Rightarrow> Shield" where
  "banIP ip d now s =
     (let (trusted, s1) = isTrustedProxy ip now s in
      if trusted \<or> isWhitelisted ip (pl_cfg s1) then s1
      else push_cf_ban ip (push_kernel ip d now (store_ban ip (now + d) s1)))"

definition BanIPLocal :: "string \<Rightarrow> duration \<Rightarrow> gotime \<Rightarrow> Shield \<Rightarrow> Shield" where
  "BanIPLocal ip d now s =
     (if ip = [] then s
      else let (trusted, s1) = isTrustedProxy ip now s in
        if trusted \<or> checkIsTrustedProxy ip (pl_cfg s1) \<or> isWhitelisted ip (pl_cfg s1) then s1
        else let s2 = banIP ip d now s1 in s2\<lparr>pl_mesh := map_option (BroadcastBan ip d now) (pl_mesh s2)\<rparr>)"

definition BanIPRemote :: "string \<Rightarrow> duration \<Rightarrow> gotime \<Rightarrow> Shield \<Rightarrow> Shield" where
  "BanIPRemote ip d now s =
     (let (trusted, s1) = isTrustedProxy ip now s in
      if trusted \<or> isWhitelisted ip (pl_cfg s1) then s1 else banIP ip d now s1)"

subsection \<open>Unbanning and cleaning\<close>

definition push_cf_unban :: "string \<Rightarrow> Shield \<Rightarrow> Shield" where
  "push_cf_unban ip s = s\<lparr>pl_cf := map_option (\<lambda>c. if length (cf_UnbanQueue c) < cfQueueCap
     then c\<lparr>cf_UnbanQueue := cf_UnbanQueue c @ [ip]\<rparr> else c) (pl_cf s)\<rparr>"

definition UnbanIP :: "string \<Rightarrow> gotime \<Rightarrow> Shield \<Rightarrow> Shield" where
  "UnbanIP ip now s =
     push_cf_unban ip (s\<lparr>pl_banned := tm_delete ip (pl_banned s), pl_xdpMgr := xdp_UnbanIP ip (pl_xdpMgr s),
       pl_mesh := map_option (BroadcastUnban ip now) (pl_mesh s)\<rparr>)"

definition GetBannedIPsList :: "gotime \<Rightarrow> Shield \<Rightarrow> (string \<times> gotime \<times> int) list \<times> Shield" where
  "GetBannedIPsList now s =
     (let snapshot = tm_snapshot (pl_banned s)
      in (map (\<lambda>(k, e). (k, e, f_trunc (seconds (time_sub e now)))) (filter (\<lambda>(k, e). now < e) snapshot),
          s\<lparr>pl_banned := fold (\<lambda>(k, e) sm. if now < e then sm else tm_delete k sm) snapshot (pl_banned s)\<rparr>))"

definition UnbanAllIPs :: "gotime \<Rightarrow> Shield \<Rightarrow> Shield" where
  "UnbanAllIPs now s =
     (let snapshot = tm_snapshot (pl_banned s)
      in s\<lparr>pl_banned := tm_clear (pl_banned s), pl_xdpMgr := fold (\<lambda>(k, e). xdp_UnbanIP k) snapshot (pl_xdpMgr s),
           pl_mesh := map_option (BroadcastUnban ''all'' now) (pl_mesh s),
           sh_stats := (sh_stats s)\<lparr>st_BannedIPs := 0\<rparr>\<rparr>)"

definition cleanup_ban :: "gotime \<Rightarrow> string \<times> gotime \<Rightarrow> Shield \<Rightarrow> Shield" where
  "cleanup_ban now kv s = (case kv of (key, expiry) \<Rightarrow>
     if expiry < now
     then (add_banned_stat (- 1) s)\<lparr>pl_banned := tm_delete key (pl_banned s), pl_xdpMgr := xdp_UnbanIP key (pl_xdpMgr s)\<rparr>
     else s)"

definition pl_Cleanup :: "gotime \<Rightarrow> Shield \<Rightarrow> Shield" where
  "pl_Cleanup now s =
     (let s1 = fold (cleanup_ban now) (tm_snapshot (pl_banned s)) s
      in s1\<lparr>pl_whitelist := fst (tm_cleanup now (pl_whitelist s1)),
            pl_ipStates := ipm_Cleanup (10 * minute) now (pl_ipStates s1)\<rparr>)"

subsection \<open>The ban worker\<close>

text \<open>The first result lists the lines handed to \<open>ipset restore\<close>, as address and timeout.\<close>

definition flush_one :: "gotime \<Rightarrow> BanRequest \<Rightarrow> Shield \<Rightarrow> Shield" where
  "flush_one now req s =
     (if xm_Enabled (pl_xdpMgr s)
      then let (t, s1) = isTrustedProxy (br_IP req) now s
           in if t then s1 else s1\<lparr>pl_xdpMgr := snd (xdp_BanIP (br_IP req) (pl_xdpMgr s1))\<rparr>
      else s)"

definition restore_line :: "gotime \<Rightarrow> BanRequest \<Rightarrow> (string \<times> int) list \<times> Shield \<Rightarrow> (string \<times> int) list \<times> Shield" where
  "restore_line now req acc = (case acc of (lines, s) \<Rightarrow>
     let (t, s1) = isTrustedProxy (br_IP req) now s
     in (if t then lines else lines @ [(br_IP req, f_trunc (seconds (br_Duration req)))], s1))"

definition flushBans :: "BanRequest list \<Rightarrow> gotime \<Rightarrow> Shield \<Rightarrow> (string \<times> int) list \<times> Shield" where
  "flushBans batch now s =
     (let s1 = fold (flush_one now) batch s
      in if ban_UseIptables (pr_Ban (cfg_Protection (pl_cfg s1))) then fold (restore_line now) batch ([], s1) else ([], s1))"

datatype worker_event = Receive | Tick

definition ban_worker :: "worker_event \<Rightarrow> gotime \<Rightarrow> BanRequest list \<times> Shield \<Rightarrow> (string \<times> int) list \<times> BanRequest list \<times> Shield" where
  "ban_worker ev now ws = (case ws of (batch, s) \<Rightarrow> case ev of
     Receive \<Rightarrow> (case pl_banQueue s of
         [] \<Rightarrow> ([], batch, s)
       | req # rest \<Rightarrow> let batch' = batch @ [req]; s' = s\<lparr>pl_banQueue := rest\<rparr> in
           if 1000 \<le> length batch' then let (lines, s'') = flushBans batch' now s' in (lines, [], s'') else ([], batch', s'))
   | Tick \<Rightarrow> if batch \<noteq> [] then let (lines, s') = flushBans batch now s in (lines, [], s') else ([], batch, s))"

subsection \<open>What the lookups change\<close>

definition trusted_now :: "string \<Rightarrow> Shield \<Rightarrow> bool" where
  "trusted_now ip s \<longleftrightarrow> ip \<noteq> [] \<and> (case load_state (parseIPFast ip) (pl_ipStates s) of
     Some st \<Rightarrow> is_IsTrustedProxy st | None \<Rightarrow> checkIsTrustedProxy ip (pl_cfg s))"

definition touched :: "string \<Rightarrow> gotime \<Rightarrow> Shield \<Rightarrow> IPStateMap" where
  "touched ip now s = (if ip = [] then pl_ipStates s
     else snd (GetOrCreate ip (checkIsTrustedProxy ip (pl_cfg s)) now (pl_ipStates s)))"

lemma isTrustedProxy_touch: "isTrustedProxy ip now s = (trusted_now ip s, s\<lparr>pl_ipStates := touched ip now s\<rparr>)"
  by (simp add: isTrustedProxy_def trusted_now_def touched_def getState_def GetOrCreate_def new_state_def Let_def
      split: option.split)

lemma touched_ok: "ipm_ok (pl_ipStates s) \<Longrightarrow> ipm_ok (touched ip now s)"
  by (simp add: touched_def)

lemma trusted_now_touched [simp]:
  "ipm_ok (pl_ipStates s) \<Longrightarrow> trusted_now ip (s\<lparr>pl_ipStates := touched ip now s\<rparr>) = trusted_now ip s"
  by (auto simp: trusted_now_def touched_def load_GetOrCreate fst_GetOrCreate new_state_def split: option.split)

lemma trusted_now_cong:
  "pl_ipStates s' = pl_ipStates s \<Longrightarrow> pl_cfg s' = pl_cfg s \<Longrightarrow> trusted_now ip s' = trusted_now ip s"
  by (simp add: trusted_now_def split: option.split)

definition shield_ok :: "Shield \<Rightarrow> bool" where
  "shield_ok s \<longleftrightarrow> tm_ok (pl_banned s) \<and> tm_ok (pl_whitelist s) \<and> ipm_ok (pl_ipStates s)"

subsection \<open>What a ban changes\<close>

lemma store_ban_eq:
  "tm_ok (pl_banned s) \<Longrightarrow> \<exists>b n. store_ban ip e s = (add_banned_stat n s)\<lparr>pl_banned := b\<rparr> \<and> tm_ok b \<and>
     (\<forall>k. tm_load k b = (if k = ip then Some e else tm_load k (pl_banned s)))"
proof (cases "tm_load ip (pl_banned s)")
  case None
  assume ok: "tm_ok (pl_banned s)"
  show ?thesis
    using ok None by (intro exI [of _ "tm_store ip e (pl_banned s)"] exI [of _ 1])
      (simp add: store_ban_def tm_load_or_store_def tm_commit_def add_banned_stat_def)
next
  case (Some v)
  assume ok: "tm_ok (pl_banned s)"
  show ?thesis
    using ok Some by (intro exI [of _ "tm_store ip e (pl_banned s)"] exI [of _ 0])
      (simp add: store_ban_def tm_load_or_store_def add_banned_stat_def)
qed

lemma push_kernel_eq:
  assumes "ipm_ok (pl_ipStates s)"
  shows "\<exists>m \<in> {pl_ipStates s, touched ip now s}. push_kernel ip d now s = s\<lparr>pl_ipStates := m,
     pl_xdpMgr := (if xm_Enabled (pl_xdpMgr s) \<and> \<not> trusted_now ip s then snd (xdp_BanIP ip (pl_xdpMgr s)) else pl_xdpMgr s),
     pl_banQueue := (if (xm_Enabled (pl_xdpMgr s) \<and> \<not> trusted_now ip s) \<or> banQueueCap \<le> length (pl_banQueue s)
        then pl_banQueue s else pl_banQueue s @ [\<lparr>br_IP = ip, br_Duration = d\<rparr>])\<rparr>"
  using assms by (cases "xm_Enabled (pl_xdpMgr s)") (auto simp: push_kernel_def isTrustedProxy_touch Let_def)

text \<open>The effect of \<open>banIP\<close> on an address that is neither trusted nor whitelisted.\<close>

lemma banIP_effect:
  assumes "shield_ok s" and "\<not> trusted_now ip s" and "\<not> isWhitelisted ip (pl_cfg s)"
  shows "shield_ok (banIP ip d now s)"
    and "tm_load k (pl_banned (banIP ip d now s)) = (if k = ip then Some (now + d) else tm_load k (pl_banned s))"
    and "pl_xdpMgr (banIP ip d now s) = (if xm_Enabled (pl_xdpMgr s) then snd (xdp_BanIP ip (pl_xdpMgr s)) else pl_xdpMgr s)"
    and "pl_cfg (banIP ip d now s) = pl_cfg s" "pl_mesh (banIP ip d now s) = pl_mesh s"
    and "pl_whitelist (banIP ip d now s) = pl_whitelist s" and "\<not> trusted_now ip (banIP ip d now s)"
    and "length (pl_banQueue (banIP ip d now s)) \<le> max (length (pl_banQueue s)) banQueueCap"
proof -
  define s1 where "s1 = s\<lparr>pl_ipStates := touched ip now s\<rparr>"
  have ok1: "tm_ok (pl_banned s1)" "ipm_ok (pl_ipStates s1)" "tm_ok (pl_whitelist s1)"
    using assms(1) touched_ok by (simp_all add: s1_def shield_ok_def)
  obtain b n where b: "store_ban ip (now + d) s1 = (add_banned_stat n s1)\<lparr>pl_banned := b\<rparr>" "tm_ok b"
      "\<forall>k. tm_load k b = (if k = ip then Some (now + d) else tm_load k (pl_banned s1))"
    using store_ban_eq [OF ok1(1)] by blast
  define s2 where "s2 = store_ban ip (now + d) s1"
  have s2: "pl_ipStates s2 = pl_ipStates s1" "pl_cfg s2 = pl_cfg s" "pl_xdpMgr s2 = pl_xdpMgr s" "pl_banned s2 = b"
      "pl_mesh s2 = pl_mesh s" "pl_whitelist s2 = pl_whitelist s" "pl_banQueue s2 = pl_banQueue s"
    unfolding s2_def b(1) by (simp_all add: add_banned_stat_def s1_def)
  have t2: "\<not> trusted_now ip s2"
    using assms(1,2) s2 by (subst trusted_now_cong [of _ s1]) (simp_all add: s1_def shield_ok_def)
  obtain m where m: "m \<in> {pl_ipStates s2, touched ip now s2}" "push_kernel ip d now s2 = s2\<lparr>pl_ipStates := m,
       pl_xdpMgr := (if xm_Enabled (pl_xdpMgr s2) \<and> \<not> trusted_now ip s2 then snd (xdp_BanIP ip (pl_xdpMgr s2)) else pl_xdpMgr s2),
       pl_banQueue := (if (xm_Enabled (pl_xdpMgr s2) \<and> \<not> trusted_now ip s2) \<or> banQueueCap \<le> length (pl_banQueue s2)
          then pl_banQueue s2 else pl_banQueue s2 @ [\<lparr>br_IP = ip, br_Duration = d\<rparr>])\<rparr>"
    using push_kernel_eq [of s2 ip now d] ok1(2) s2(1) by auto
  have m_ok: "ipm_ok m" using m(1) touched_ok [of s2 ip now] ok1(2) s2(1) by auto
  have t3: "\<not> trusted_now ip (s2\<lparr>pl_ipStates := m\<rparr>)"
  proof (cases "m = pl_ipStates s2")
    case True
    then show ?thesis using t2 by (subst trusted_now_cong [of _ s2]) simp_all
  next
    case False
    then show ?thesis using m(1) t2 ok1(2) s2(1) by simp
  qed
  have eq: "banIP ip d now s = push_cf_ban ip (push_kernel ip d now s2)"
    using assms(2,3) by (simp add: banIP_def isTrustedProxy_touch s1_def s2_def Let_def)
  show "shield_ok (banIP ip d now s)"
    "tm_load k (pl_banned (banIP ip d now s)) = (if k = ip then Some (now + d) else tm_load k (pl_banned s))"
    "pl_xdpMgr (banIP ip d now s) = (if xm_Enabled (pl_xdpMgr s) then snd (xdp_BanIP ip (pl_xdpMgr s)) else pl_xdpMgr s)"
    "pl_cfg (banIP ip d now s) = pl_cfg s" "pl_mesh (banIP ip d now s) = pl_mesh s"
    "pl_whitelist (banIP ip d now s) = pl_whitelist s" "\<not> trusted_now ip (banIP ip d now s)"
    "length (pl_banQueue (banIP ip d now s)) \<le> max (length (pl_banQueue s)) banQueueCap"
    unfolding eq m(2) using assms(1) b(2,3) m_ok t2 t3 by (auto simp: push_cf_ban_def shield_ok_def trusted_now_def s2 s1_def split: option.splits)
qed

lemma banIP_refused:
  "trusted_now ip s \<or> isWhitelisted ip (pl_cfg s) \<Longrightarrow> banIP ip d now s = s\<lparr>pl_ipStates := touched ip now s\<rparr>"
  by (auto simp: banIP_def isTrustedProxy_touch Let_def)

subsection \<open>Checking and sweeping\<close>

lemma isBanned_eq:
  "isBanned ip now s =
     (\<not> trusted_now ip s \<and> \<not> isWhitelisted ip (pl_cfg s) \<and> (\<exists>e. tm_load ip (pl_banned s) = Some e \<and> now \<le> e),
      if \<not> trusted_now ip s \<and> \<not> isWhitelisted ip (pl_cfg s) \<and> (\<exists>e. tm_load ip (pl_banned s) = Some e \<and> e < now)
      then s\<lparr>pl_ipStates := touched ip now s, pl_banned := tm_delete ip (pl_banned s)\<rparr>
      else s\<lparr>pl_ipStates := touched ip now s\<rparr>)"
  by (auto simp: isBanned_def isTrustedProxy_touch Let_def split: option.split)

lemma isBanned_ok [simp]: "shield_ok s \<Longrightarrow> shield_ok (snd (isBanned ip now s))"
  by (simp add: isBanned_eq shield_ok_def touched_ok)

lemma sweep_bans:
  assumes "shield_ok s"
  shows "shield_ok (fold (cleanup_ban now) kvs s)"
    and "tm_load k (pl_banned (fold (cleanup_ban now) kvs s)) =
      (if \<exists>e. (k, e) \<in> set kvs \<and> e < now then None else tm_load k (pl_banned s))"
    and "kernel_drops (pl_xdpMgr (fold (cleanup_ban now) kvs s)) key \<longleftrightarrow>
      kernel_drops (pl_xdpMgr s) key \<and> (\<forall>ip e. (ip, e) \<in> set kvs \<and> e < now \<longrightarrow> xdp_key ip \<noteq> Some key)"
    and "pl_cfg (fold (cleanup_ban now) kvs s) = pl_cfg s" "pl_mesh (fold (cleanup_ban now) kvs s) = pl_mesh s"
    and "pl_banQueue (fold (cleanup_ban now) kvs s) = pl_banQueue s"
  using assms
proof (induction kvs arbitrary: s)
  case (Cons kv kvs)
  obtain ip e where kv: "kv = (ip, e)" by (cases kv)
  {
    case 1
    then show ?case using Cons.IH(1) by (simp add: kv cleanup_ban_def shield_ok_def add_banned_stat_def)
  next
    case 2
    then show ?case using Cons.IH(2) by (auto simp: kv cleanup_ban_def shield_ok_def add_banned_stat_def)
  next
    case 3
    then show ?case using Cons.IH(3) by (auto simp: kv cleanup_ban_def shield_ok_def add_banned_stat_def kernel_drops_unban)
  next
    case 4
    then show ?case using Cons.IH(4) by (simp add: kv cleanup_ban_def shield_ok_def add_banned_stat_def)
  next
    case 5
    then show ?case using Cons.IH(5) by (simp add: kv cleanup_ban_def shield_ok_def add_banned_stat_def)
  next
    case 6
    then show ?case using Cons.IH(6) by (simp add: kv cleanup_ban_def shield_ok_def add_banned_stat_def)
  }
qed simp_all

lemma in_snapshot: "tm_ok sm \<Longrightarrow> (k, e) \<in> set (tm_snapshot sm) \<longleftrightarrow> tm_load k sm = Some e"
  using map_of_snapshot [of sm k] map_of_eq_Some_iff [of "tm_snapshot sm" k e] gomap_ok_snapshot [of sm]
  by (simp add: gomap_ok_def)

lemma pl_Cleanup_effect:
  assumes "shield_ok s"
  shows "shield_ok (pl_Cleanup now s)"
    and "tm_load k (pl_banned (pl_Cleanup now s)) =
      (case tm_load k (pl_banned s) of None \<Rightarrow> None | Some e \<Rightarrow> if e < now then None else Some e)"
    and "kernel_drops (pl_xdpMgr (pl_Cleanup now s)) key \<longleftrightarrow>
      kernel_drops (pl_xdpMgr s) key \<and>
      (\<forall>ip e. tm_load ip (pl_banned s) = Some e \<and> e < now \<longrightarrow> xdp_key ip \<noteq> Some key)"
    and "pl_cfg (pl_Cleanup now s) = pl_cfg s" "pl_mesh (pl_Cleanup now s) = pl_mesh s"
    and "pl_banQueue (pl_Cleanup now s) = pl_banQueue s"
  using sweep_bans [OF assms, where now = now and kvs = "tm_snapshot (pl_banned s)"] assms
  by (auto simp: pl_Cleanup_def Let_def shield_ok_def in_snapshot split: option.split)

subsection \<open>Bans from here and from other nodes\<close>

definition exempt :: "string \<Rightarrow> Shield \<Rightarrow> bool" where
  "exempt ip s \<longleftrightarrow> ip = [] \<or> trusted_now ip s \<or> checkIsTrustedProxy ip (pl_cfg s) \<or> isWhitelisted ip (pl_cfg s)"

lemma BanIPLocal_exempt:
  "exempt ip s \<Longrightarrow> \<exists>m. BanIPLocal ip d now s = s\<lparr>pl_ipStates := m\<rparr> \<and> (ipm_ok (pl_ipStates s) \<longrightarrow> ipm_ok m)"
  by (cases "ip = []") (auto simp: BanIPLocal_def exempt_def isTrustedProxy_touch Let_def touched_ok
      intro: exI [of _ "pl_ipStates s"] exI [of _ "touched ip now s"])

lemma touched_bannable:
  assumes "shield_ok s" and "\<not> exempt ip s"
  shows "shield_ok (s\<lparr>pl_ipStates := touched ip now s\<rparr>)" "\<not> trusted_now ip (s\<lparr>pl_ipStates := touched ip now s\<rparr>)"
    "\<not> isWhitelisted ip (pl_cfg (s\<lparr>pl_ipStates := touched ip now s\<rparr>))"
  using assms by (auto simp: shield_ok_def exempt_def touched_ok)

lemma BanIPLocal_bans:
  assumes "shield_ok s" and "\<not> exempt ip s"
  shows "BanIPLocal ip d now s =
    (banIP ip d now (s\<lparr>pl_ipStates := touched ip now s\<rparr>))\<lparr>pl_mesh := map_option (BroadcastBan ip d now) (pl_mesh s)\<rparr>"
  using assms(2) banIP_effect(5) [OF touched_bannable [OF assms]]
  by (simp add: BanIPLocal_def exempt_def isTrustedProxy_touch Let_def)

text \<open>
  C6: \<open>BanIPLocal\<close> never touches the tables, the kernel or the mesh for an address that is trusted (now or when its
  state was made), whitelisted or empty. Any other address is then reported as banned exactly until the duration has
  passed, no other ban changes, the other nodes are told, and with room in an active kernel map an IPv4 address is
  dropped by the driver.
\<close>

theorem ban_lifetime:
  assumes "shield_ok s"
  shows "let s' = BanIPLocal ip d now s in
     shield_ok s' \<and>
     (if exempt ip s
      then pl_banned s' = pl_banned s \<and> pl_xdpMgr s' = pl_xdpMgr s \<and> pl_mesh s' = pl_mesh s \<and> pl_banQueue s' = pl_banQueue s
      else (\<forall>t. fst (isBanned ip t s') \<longleftrightarrow> t \<le> now + d) \<and>
        (\<forall>k. k \<noteq> ip \<longrightarrow> tm_load k (pl_banned s') = tm_load k (pl_banned s)) \<and>
        pl_mesh s' = map_option (BroadcastBan ip d now) (pl_mesh s) \<and>
        (\<forall>key m. xm_Enabled (pl_xdpMgr s) \<and> xm_bpfMap (pl_xdpMgr s) = Some m \<and> xdp_key ip = Some key \<and>
           length m < xm_max (pl_xdpMgr s) \<longrightarrow> kernel_drops (pl_xdpMgr s') key))"
proof (cases "exempt ip s")
  case True
  from BanIPLocal_exempt [OF this, of d now] show ?thesis
    using True assms by (auto simp: Let_def shield_ok_def)
next
  case False
  note b = touched_bannable [OF assms False, of now]
  define s1 where "s1 = s\<lparr>pl_ipStates := touched ip now s\<rparr>"
  note e = banIP_effect [OF b, where d = d and now = now, folded s1_def]
  note eq = BanIPLocal_bans [OF assms False, of d now, folded s1_def]
  have same: "pl_cfg s1 = pl_cfg s" "pl_banned s1 = pl_banned s" "pl_xdpMgr s1 = pl_xdpMgr s" by (simp_all add: s1_def)
  have "\<not> trusted_now ip (BanIPLocal ip d now s)"
    unfolding eq by (subst trusted_now_cong [of _ "banIP ip d now s1"]) (use e(7) in simp_all)
  then have "fst (isBanned ip t (BanIPLocal ip d now s)) \<longleftrightarrow> t \<le> now + d" for t
    using b(3) e(2) [of ip] by (simp add: isBanned_eq eq e(4) same s1_def [symmetric])
  moreover have "kernel_drops (pl_xdpMgr (BanIPLocal ip d now s)) key"
    if "xm_Enabled (pl_xdpMgr s)" "xm_bpfMap (pl_xdpMgr s) = Some m" "xdp_key ip = Some key" "length m < xm_max (pl_xdpMgr s)"
    for key m
    unfolding eq using that by (auto simp: e(3) same kernel_drops_ban)
  moreover have "shield_ok (BanIPLocal ip d now s)" unfolding eq using e(1) by (simp add: shield_ok_def)
  ultimately show ?thesis using False e(2) by (auto simp: eq Let_def same)
qed

text \<open>A fresh server with a kernel map of two entries.\<close>

definition xdp_shield :: Shield where
  "xdp_shield = New zero_Config \<lparr>xm_Enabled = True, xm_bpfMap = Some [], xm_max = 2, xm_lifetimeDrops = 0, xm_lastObserved = []\<rparr>
     None 0"

lemma new_shield_ok [simp]: "shield_ok (New cfg xdp cf now)"
  by (simp add: shield_ok_def New_def NewPipeline_def Pipeline.defs Shield.defs)

lemma xdp_shield_simps [simp]:
  "pl_cfg xdp_shield = zero_Config" "pl_ipStates xdp_shield = newIPStateMap" "pl_banned xdp_shield = NewShardedTimeMap"
  "pl_xdpMgr xdp_shield = \<lparr>xm_Enabled = True, xm_bpfMap = Some [], xm_max = 2, xm_lifetimeDrops = 0, xm_lastObserved = []\<rparr>"
  by (simp_all add: xdp_shield_def New_def NewPipeline_def Pipeline.defs Shield.defs)

lemma nobody_trusted:
  "\<not> checkIsTrustedProxy ip zero_Config" "\<not> isWhitelisted ip zero_Config"
  by (simp_all add: checkIsTrustedProxy_def isWhitelisted_def zero_Config_def zero_ProtectionConfig_def
      zero_CloudflareConfig_def split: option.split)

lemma xdp_shield_exempt: "ip \<noteq> [] \<Longrightarrow> \<not> exempt ip xdp_shield"
  by (simp add: exempt_def trusted_now_def nobody_trusted)

lemma demo_key: "xdp_key ''203.0.113.9'' = Some 0x097100CB" by code_simp

lemma ban_lifetime_witness:
  "let s' = BanIPLocal ''203.0.113.9'' 60 100 xdp_shield in
     fst (isBanned ''203.0.113.9'' 160 s') \<and> \<not> fst (isBanned ''203.0.113.9'' 161 s') \<and> kernel_drops (pl_xdpMgr s') 0x097100CB"
proof -
  have ok: "shield_ok xdp_shield" by (simp add: xdp_shield_def)
  show ?thesis
    using ban_lifetime [OF ok, of "''203.0.113.9''" 60 100] xdp_shield_exempt [of "''203.0.113.9''"] demo_key
    by (simp add: Let_def)
qed

subsection \<open>The kernel list outlives the table\<close>

lemma cleanups_keep_kernel:
  "shield_ok s \<Longrightarrow> kernel_drops (pl_xdpMgr s) key \<Longrightarrow> (\<And>ip. xdp_key ip = Some key \<Longrightarrow> tm_load ip (pl_banned s) = None) \<Longrightarrow>
     kernel_drops (pl_xdpMgr (fold pl_Cleanup ts s)) key"
proof (induction ts arbitrary: s)
  case (Cons t ts)
  note c = pl_Cleanup_effect [OF Cons.prems(1), where now = t]
  have "kernel_drops (pl_xdpMgr (fold pl_Cleanup ts (pl_Cleanup t s))) key"
    by (rule Cons.IH) (use c(1-3) Cons.prems in auto)
  then show ?case by simp
qed simp

text \<open>
  A ban that has expired is taken out of the kernel list by the periodic sweep only if the sweep is the first to see
  it: once a request of the address, looked up by \<open>isBanned\<close>, has removed the expired entry from the table, no number of
  sweeps ever removes the address from the kernel list, and the driver drops its packets for good.
\<close>

theorem expired_ban_stays_in_kernel:
  assumes "shield_ok s" and "tm_load ip (pl_banned s) = Some e" and "e < now"
    and "\<not> trusted_now ip s" and "\<not> isWhitelisted ip (pl_cfg s)"
    and "xdp_key ip = Some key" and "kernel_drops (pl_xdpMgr s) key"
    and "\<forall>ip'. ip' \<noteq> ip \<and> xdp_key ip' = Some key \<longrightarrow> tm_load ip' (pl_banned s) = None"
  shows "\<not> kernel_drops (pl_xdpMgr (pl_Cleanup now s)) key \<and>
    (let (banned, s') = isBanned ip now s in
      \<not> banned \<and> tm_load ip (pl_banned s') = None \<and> kernel_drops (pl_xdpMgr (fold pl_Cleanup sweeps s')) key)"
proof -
  have b: "isBanned ip now s = (False, s\<lparr>pl_ipStates := touched ip now s, pl_banned := tm_delete ip (pl_banned s)\<rparr>)"
    using assms(2-5) by (simp add: isBanned_eq)
  define s' where "s' = s\<lparr>pl_ipStates := touched ip now s, pl_banned := tm_delete ip (pl_banned s)\<rparr>"
  have load: "tm_load k (pl_banned s') = (if k = ip then None else tm_load k (pl_banned s))" for k
    using assms(1) by (simp add: s'_def shield_ok_def)
  have "kernel_drops (pl_xdpMgr (fold pl_Cleanup sweeps s')) key"
  proof (rule cleanups_keep_kernel)
    show "shield_ok s'" using assms(1) touched_ok by (simp add: s'_def shield_ok_def)
    show "kernel_drops (pl_xdpMgr s') key" using assms(7) by (simp add: s'_def)
    show "tm_load ip' (pl_banned s') = None" if "xdp_key ip' = Some key" for ip'
      using that assms(8) by (simp add: load)
  qed
  moreover have "\<not> kernel_drops (pl_xdpMgr (pl_Cleanup now s)) key"
    using assms(2,3,6) pl_Cleanup_effect(3) [OF assms(1)] by blast
  ultimately show ?thesis unfolding b s'_def [symmetric] using load [of ip] by simp
qed

lemma expired_ban_stays_in_kernel_witness:
  "kernel_drops (pl_xdpMgr (fold pl_Cleanup [200, 300, 400]
     (snd (isBanned ''203.0.113.9'' 161 (BanIPLocal ''203.0.113.9'' 60 100 xdp_shield))))) 0x097100CB"
proof -
  define s where "s = BanIPLocal ''203.0.113.9'' 60 100 xdp_shield"
  have ok: "shield_ok xdp_shield" by (simp add: xdp_shield_def)
  have ne: "\<not> exempt ''203.0.113.9'' xdp_shield" by (rule xdp_shield_exempt) simp
  note b = touched_bannable [OF ok ne, of 100]
  define s1 where "s1 = xdp_shield\<lparr>pl_ipStates := touched ''203.0.113.9'' 100 xdp_shield\<rparr>"
  note e = banIP_effect [OF b, where d = 60 and now = 100, folded s1_def]
  note eq = BanIPLocal_bans [OF ok ne, of 60 100, folded s1_def s_def]
  have 1: "shield_ok s" using e(1) by (simp add: eq shield_ok_def)
  have 2: "tm_load k (pl_banned s) = (if k = ''203.0.113.9'' then Some 160 else None)" for k
    using e(2) [of k] by (simp add: eq s1_def)
  have 3: "\<not> trusted_now ''203.0.113.9'' s"
    unfolding eq by (subst trusted_now_cong [of _ "banIP ''203.0.113.9'' 60 100 s1"]) (use e(7) in simp_all)
  have 4: "\<not> isWhitelisted ''203.0.113.9'' (pl_cfg s)" using e(4) by (simp add: eq s1_def nobody_trusted)
  have 5: "kernel_drops (pl_xdpMgr s) 0x097100CB" using e(3) demo_key by (simp add: eq s1_def kernel_drops_ban)
  show ?thesis
    using expired_ban_stays_in_kernel [OF 1, of "''203.0.113.9''" 160 161 "0x097100CB" "[200, 300, 400]"] 2 3 4 5 demo_key
    unfolding s_def [symmetric] by (simp split: prod.splits)
qed

subsection \<open>A guard for every operation\<close>

text \<open>The tables are well formed, the queues within their capacity, and no whitelisted address is banned.\<close>

definition guarded :: "Config \<Rightarrow> Shield \<Rightarrow> bool" where
  "guarded cfg s \<longleftrightarrow> shield_ok s \<and> pl_cfg s = cfg \<and> length (pl_banQueue s) \<le> banQueueCap \<and>
     (\<forall>ip. isWhitelisted ip cfg \<longrightarrow> tm_load ip (pl_banned s) = None)"

lemma guarded_new: "guarded cfg (New cfg xdp cf now)"
  by (simp add: guarded_def) (simp add: New_def NewPipeline_def Pipeline.defs Shield.defs)

lemma guarded_cong:
  "guarded cfg s \<Longrightarrow> pl_cfg s' = pl_cfg s \<Longrightarrow> pl_banned s' = pl_banned s \<Longrightarrow> pl_whitelist s' = pl_whitelist s \<Longrightarrow>
     pl_banQueue s' = pl_banQueue s \<Longrightarrow> ipm_ok (pl_ipStates s') \<Longrightarrow> guarded cfg s'"
  by (simp add: guarded_def shield_ok_def)

lemma guarded_states: "guarded cfg s \<Longrightarrow> ipm_ok (pl_ipStates s)"
  by (simp add: guarded_def shield_ok_def)

lemma guarded_getState [simp]: "guarded cfg s \<Longrightarrow> guarded cfg (snd (getState ip now s))"
  by (rule guarded_cong) (simp_all add: getState_def Let_def guarded_states case_prod_unfold)

lemma guarded_set_state [simp]: "guarded cfg s \<Longrightarrow> guarded cfg (set_state ip st s)"
  by (rule guarded_cong) (simp_all add: set_state_def guarded_states)

lemma guarded_isTrustedProxy [simp]: "guarded cfg s \<Longrightarrow> guarded cfg (snd (isTrustedProxy ip now s))"
  by (rule guarded_cong) (simp_all add: isTrustedProxy_touch guarded_states touched_ok)

lemma guarded_isBanned [simp]: "guarded cfg s \<Longrightarrow> guarded cfg (snd (isBanned ip now s))"
  by (simp add: guarded_def shield_ok_def isBanned_eq touched_ok)

lemma guarded_hasDynamicWhitelist [simp]: "guarded cfg s \<Longrightarrow> guarded cfg (snd (hasDynamicWhitelist ip now s))"
  by (simp add: guarded_def shield_ok_def hasDynamicWhitelist_def split: option.split)

lemma guarded_conns [simp]:
  "guarded cfg s \<Longrightarrow> guarded cfg (snd (getConnCount ip now s))"
  "guarded cfg s \<Longrightarrow> guarded cfg (snd (IncrementConnCount ip now s))"
  "guarded cfg s \<Longrightarrow> guarded cfg (snd (DecrementConnCount ip now s))"
  by (simp_all add: getConnCount_def IncrementConnCount_def DecrementConnCount_def Let_def case_prod_unfold)

lemma guarded_CheckConnRate [simp]: "guarded cfg s \<Longrightarrow> guarded cfg (snd (CheckConnRate ip now s))"
  by (simp add: CheckConnRate_def Let_def case_prod_unfold)

lemma guarded_banIP [simp]: "guarded cfg s \<Longrightarrow> guarded cfg (banIP ip d now s)"
proof (cases "trusted_now ip s \<or> isWhitelisted ip (pl_cfg s)")
  case True
  assume g: "guarded cfg s"
  show ?thesis
    unfolding banIP_refused [OF True] by (rule guarded_cong [OF g]) (simp_all add: guarded_states [OF g] touched_ok)
next
  case False
  assume g: "guarded cfg s"
  have ok: "shield_ok s" using g by (simp add: guarded_def)
  note e = banIP_effect [OF ok, where ip = ip and d = d and now = now]
  show ?thesis
    using g e(1,2,4,8) False by (auto simp: guarded_def)
qed

lemma guarded_BanIPLocal [simp]: "guarded cfg s \<Longrightarrow> guarded cfg (BanIPLocal ip d now s)"
proof (cases "exempt ip s")
  case True
  assume g: "guarded cfg s"
  obtain m where m: "BanIPLocal ip d now s = s\<lparr>pl_ipStates := m\<rparr>" "ipm_ok m"
    using BanIPLocal_exempt [OF True] guarded_states [OF g] by blast
  show ?thesis unfolding m(1) by (rule guarded_cong [OF g]) (simp_all add: m(2))
next
  case False
  assume g: "guarded cfg s"
  have ok: "shield_ok s" using g by (simp add: guarded_def)
  have "guarded cfg (s\<lparr>pl_ipStates := touched ip now s\<rparr>)"
    by (rule guarded_cong [OF g]) (simp_all add: guarded_states [OF g] touched_ok)
  then have "guarded cfg (banIP ip d now (s\<lparr>pl_ipStates := touched ip now s\<rparr>))" by simp
  then show ?thesis
    unfolding BanIPLocal_bans [OF ok False] by (simp add: guarded_def shield_ok_def)
qed

lemma guarded_BanIPRemote [simp]: "guarded cfg s \<Longrightarrow> guarded cfg (BanIPRemote ip d now s)"
  by (simp add: BanIPRemote_def Let_def case_prod_unfold)

lemma guarded_UnbanIP [simp]: "guarded cfg s \<Longrightarrow> guarded cfg (UnbanIP ip now s)"
  by (simp add: guarded_def shield_ok_def UnbanIP_def push_cf_unban_def)

lemma guarded_UnbanAllIPs [simp]: "guarded cfg s \<Longrightarrow> guarded cfg (UnbanAllIPs now s)"
  by (simp add: guarded_def shield_ok_def UnbanAllIPs_def Let_def)

lemma guarded_WhitelistIP [simp]: "guarded cfg s \<Longrightarrow> guarded cfg (WhitelistIP ip d now s)"
  by (simp add: guarded_def shield_ok_def WhitelistIP_def)

lemma guarded_pl_Cleanup [simp]: "guarded cfg s \<Longrightarrow> guarded cfg (pl_Cleanup now s)"
  using pl_Cleanup_effect [of s, where now = now] by (auto simp: guarded_def)

lemma drop_expired_bans:
  "tm_ok sm \<Longrightarrow> tm_ok (fold (\<lambda>(k, e) sm. if now < e then sm else tm_delete k sm) kvs sm) \<and>
     (tm_load ip sm = None \<longrightarrow> tm_load ip (fold (\<lambda>(k, e) sm. if now < e then sm else tm_delete k sm) kvs sm) = None)"
  by (induction kvs arbitrary: sm) (auto simp: split: prod.splits)

lemma guarded_GetBannedIPsList [simp]: "guarded cfg s \<Longrightarrow> guarded cfg (snd (GetBannedIPsList now s))"
  using drop_expired_bans [of "pl_banned s" now "tm_snapshot (pl_banned s)"]
  by (simp add: guarded_def shield_ok_def GetBannedIPsList_def Let_def)

end
