(* ===== verification/Cluster.thy ===== *)
theory Cluster
  imports Bans
begin

section \<open>Nodes of a mesh (main.go, cluster/gossip.go)\<close>

text \<open>
  What a node does with a message, with the handlers that \<open>main\<close> registers after the server is made, and
  a cluster whose nodes deliver their queued broadcasts to all others. Lemmas: a ban that arrives is not
  sent on, so the bans of a cluster come to rest; an unban is sent on, so it never does.
  What an alert of another node does to the manager of alerts is in \<open>Alerts\<close>.
\<close>

subsection \<open>Delivery\<close>

definition handle_call :: "mesh_call \<Rightarrow> gotime \<Rightarrow> Shield \<Rightarrow> Shield" where
  "handle_call c now s = (case c of
     CallBan ip d \<Rightarrow> BanIPRemote ip d now s
   | CallUnban ip \<Rightarrow> if ip = ''all'' then UnbanAllIPs now s else UnbanIP ip now s
   | CallAlert t \<Rightarrow> s)"

definition receive :: "wire \<Rightarrow> gotime \<Rightarrow> Shield \<Rightarrow> Shield" where
  "receive w now s = (case pl_mesh s of
     None \<Rightarrow> s
   | Some n \<Rightarrow> let (call, n') = NotifyMsg w now n; s' = s\<lparr>pl_mesh := Some n'\<rparr> in
       case call of None \<Rightarrow> s' | Some c \<Rightarrow> handle_call c now s')"

text \<open>The node \<open>i\<close> sends its oldest broadcast to all others; \<open>None\<close> if it has none.\<close>

definition gossip_step :: "nat \<Rightarrow> gotime \<Rightarrow> Shield list \<Rightarrow> Shield list option" where
  "gossip_step i now c =
     (if length c \<le> i then None
      else case pl_mesh (c ! i) of
        None \<Rightarrow> None
      | Some n \<Rightarrow> (case mn_broadcasts n of
          [] \<Rightarrow> None
        | w # ws \<Rightarrow> Some (map (\<lambda>j. if j = i then (c ! i)\<lparr>pl_mesh := Some (n\<lparr>mn_broadcasts := ws\<rparr>)\<rparr>
                              else receive w now (c ! j)) [0..<length c])))"

fun gossip_run :: "(nat \<times> gotime) list \<Rightarrow> Shield list \<Rightarrow> Shield list option" where
  "gossip_run [] c = Some c"
| "gossip_run ((i, now) # evs) c = (case gossip_step i now c of None \<Rightarrow> None | Some c' \<Rightarrow> gossip_run evs c')"

subsection \<open>What a node has queued\<close>

definition outbox :: "Shield \<Rightarrow> wire list" where
  "outbox s = (case pl_mesh s of None \<Rightarrow> [] | Some n \<Rightarrow> mn_broadcasts n)"

definition node_name :: "Shield \<Rightarrow> string" where
  "node_name s = (case pl_mesh s of None \<Rightarrow> [] | Some n \<Rightarrow> clu_NodeName (mn_cfg n))"

definition queued :: "Shield list \<Rightarrow> nat" where
  "queued c = sum_list (map (\<lambda>s. length (outbox s)) c)"

definition peaceful :: "wire \<Rightarrow> bool" where
  "peaceful w \<longleftrightarrow> w_action w \<noteq> ''unban'' \<and> w_action w \<noteq> ''unban_all''"

definition all_peaceful :: "Shield list \<Rightarrow> bool" where
  "all_peaceful c \<longleftrightarrow> (\<forall>s \<in> set c. \<forall>w \<in> set (outbox s). peaceful w)"

lemma banIP_mesh [simp]: "pl_mesh (banIP ip d now s) = pl_mesh s"
  by (simp add: banIP_def isTrustedProxy_touch Let_def push_cf_ban_def push_kernel_def store_ban_def add_banned_stat_def
      split: prod.split)

lemma BanIPRemote_mesh [simp]: "pl_mesh (BanIPRemote ip d now s) = pl_mesh s"
  by (simp add: BanIPRemote_def isTrustedProxy_touch Let_def)

lemma receive_peaceful: "peaceful w \<Longrightarrow> outbox (receive w now s) = outbox s"
  by (auto simp: receive_def outbox_def handle_call_def peaceful_def NotifyMsg_def Let_def split: option.splits if_splits)

lemma sum_list_map_nth_upt: "sum_list (map (\<lambda>j. f (c ! j)) [0..<length c]) = sum_list (map f c)"
proof -
  have "map (\<lambda>j. f (c ! j)) [0..<length c] = map f c" by (rule nth_equalityI) simp_all
  then show ?thesis by simp
qed

lemma gossip_step_peaceful:
  assumes "all_peaceful c" and "gossip_step i now c = Some c'"
  shows "all_peaceful c' \<and> queued c = Suc (queued c')"
proof -
  from assms(2) obtain n w ws where i: "i < length c" and n: "pl_mesh (c ! i) = Some n" and w: "mn_broadcasts n = w # ws"
    and c': "c' = map (\<lambda>j. if j = i then (c ! i)\<lparr>pl_mesh := Some (n\<lparr>mn_broadcasts := ws\<rparr>)\<rparr> else receive w now (c ! j)) [0..<length c]"
    by (auto simp: gossip_step_def split: if_splits option.splits list.splits)
  have "w \<in> set (outbox (c ! i))" using n w by (simp add: outbox_def)
  then have pw: "peaceful w" using assms(1) nth_mem [OF i] by (auto simp: all_peaceful_def)
  have out: "outbox (c' ! j) = (if j = i then ws else outbox (c ! j))" if "j < length c" for j
    using that pw by (simp add: c' receive_peaceful) (simp add: outbox_def)
  have len: "length c' = length c" by (simp add: c')
  have "all_peaceful c'"
    unfolding all_peaceful_def
  proof (intro ballI)
    fix s v assume s: "s \<in> set c'" and v: "v \<in> set (outbox s)"
    obtain j where j: "j < length c" "s = c' ! j" using s len by (metis in_set_conv_nth)
    have "outbox (c ! i) = w # ws" using n w by (simp add: outbox_def)
    then have "v \<in> set (outbox (c ! j))" using v out [OF j(1)] j(2) by (auto split: if_splits)
    then show "peaceful v" using assms(1) j(1) by (auto simp: all_peaceful_def)
  qed
  moreover have "queued c = Suc (queued c')"
  proof -
    have "queued c' = sum_list (map (\<lambda>j. length (outbox (c' ! j))) [0..<length c])"
      using sum_list_map_nth_upt [of "\<lambda>s. length (outbox s)" c'] by (simp add: queued_def len)
    also have "\<dots> = (\<Sum>j < length c. if j = i then length ws else length (outbox (c ! j)))"
      unfolding interv_sum_list_conv_sum_set_nat set_upt atLeast0LessThan by (rule sum.cong) (simp_all add: out)
    also have "\<dots> = length ws + (\<Sum>j \<in> {..<length c} - {i}. length (outbox (c ! j)))"
      using i by (simp add: sum.remove [of _ i])
    finally have q': "queued c' = length ws + (\<Sum>j \<in> {..<length c} - {i}. length (outbox (c ! j)))" .
    have "queued c = (\<Sum>j < length c. length (outbox (c ! j)))"
      using sum_list_map_nth_upt [of "\<lambda>s. length (outbox s)" c]
      by (simp add: queued_def interv_sum_list_conv_sum_set_nat atLeast0LessThan)
    also have "\<dots> = Suc (length ws) + (\<Sum>j \<in> {..<length c} - {i}. length (outbox (c ! j)))"
      using i n w by (simp add: sum.remove [of _ i] outbox_def)
    finally show ?thesis using q' by simp
  qed
  ultimately show ?thesis by blast
qed

lemma gossip_step_possible: "0 < queued c \<Longrightarrow> \<exists>i c'. gossip_step i now c = Some c'"
proof -
  assume "0 < queued c"
  moreover have "queued c = 0" if "\<forall>s \<in> set c. outbox s = []"
    using that by (simp add: queued_def sum_list_eq_0_iff)
  ultimately obtain s where "s \<in> set c" "outbox s \<noteq> []" by auto
  then obtain i where i: "i < length c" "outbox (c ! i) \<noteq> []" by (metis in_set_conv_nth)
  then show ?thesis
    by (auto simp: gossip_step_def outbox_def intro!: exI [of _ i] split: option.splits list.splits)
qed


text \<open>Two nodes, of which the first tells the second of a ban.\<close>

definition mesh_shield :: "string \<Rightarrow> Shield" where
  "mesh_shield name = (New zero_Config disabled_xdp None 0)
     \<lparr>pl_mesh := Some \<lparr>mn_cfg = zero_ClusterConfig\<lparr>clu_NodeName := name\<rparr>, mn_broadcasts = [], mn_peerDomainStats = []\<rparr>\<rparr>"

definition ban_cluster :: "Shield list" where
  "ban_cluster = [(mesh_shield ''a'')\<lparr>pl_mesh := map_option (BroadcastBan ''203.0.113.9'' 60 0) (pl_mesh (mesh_shield ''a''))\<rparr>,
     mesh_shield ''b'']"


subsection \<open>The unban that comes back\<close>

definition unban_pending :: "string \<Rightarrow> int \<Rightarrow> nat \<Rightarrow> Shield list \<Rightarrow> bool" where
  "unban_pending ip sent i c \<longleftrightarrow> length c = 2 \<and> i < 2 \<and> (\<forall>s \<in> set c. shield_ok s) \<and>
     (\<exists>n m w. pl_mesh (c ! i) = Some n \<and> pl_mesh (c ! (1 - i)) = Some m \<and> mn_broadcasts n = [w] \<and> mn_broadcasts m = [] \<and>
        clu_NodeName (mn_cfg n) \<noteq> clu_NodeName (mn_cfg m) \<and> w_action w = ''unban'' \<and> w_ip w = ip \<and> w_domain w = [] \<and>
        w_source w = clu_NodeName (mn_cfg n) \<and> w_sent_at w = sent)"

lemma shield_ok_UnbanIP: "shield_ok s \<Longrightarrow> shield_ok (UnbanIP ip now s)"
  by (simp add: shield_ok_def UnbanIP_def push_cf_unban_def)

lemma receive_unban:
  assumes "pl_mesh s = Some m" and "w_action w = ''unban''" and "w_domain w = []" and "w_source w \<noteq> clu_NodeName (mn_cfg m)"
    and "unix_sec now - w_sent_at w \<le> 60" and "w_ip w \<noteq> ''all''"
  shows "receive w now s = UnbanIP (w_ip w) now s"
proof -
  have "receive w now s = UnbanIP (w_ip w) now (s\<lparr>pl_mesh := Some m\<rparr>)"
    using assms by (simp add: receive_def NotifyMsg_def handle_call_def Let_def)
  also have "s\<lparr>pl_mesh := Some m\<rparr> = s" using assms(1) by simp
  finally show ?thesis .
qed

lemma unban_bounces:
  assumes "unban_pending ip sent i c" and "ip \<noteq> ''all''" and "unix_sec now - sent \<le> 60"
  shows "\<exists>c'. gossip_step i now c = Some c' \<and> unban_pending ip (unix_sec now) (1 - i) c' \<and>
    tm_load ip (pl_banned (c' ! (1 - i))) = None"
proof -
  from assms(1) obtain n m w where c: "length c = 2" "i < 2" "\<forall>s \<in> set c. shield_ok s"
    and n: "pl_mesh (c ! i) = Some n" "mn_broadcasts n = [w]" and m: "pl_mesh (c ! (1 - i)) = Some m" "mn_broadcasts m = []"
    and names: "clu_NodeName (mn_cfg n) \<noteq> clu_NodeName (mn_cfg m)"
    and w: "w_action w = ''unban''" "w_ip w = ip" "w_domain w = []" "w_source w = clu_NodeName (mn_cfg n)" "w_sent_at w = sent"
    unfolding unban_pending_def by blast
  have rec: "receive w now (c ! (1 - i)) = UnbanIP ip now (c ! (1 - i))"
    using receive_unban [OF m(1) w(1,3)] names w assms(2,3) by simp
  define a where "a = (c ! i)\<lparr>pl_mesh := Some (n\<lparr>mn_broadcasts := []\<rparr>)\<rparr>"
  define b where "b = UnbanIP ip now (c ! (1 - i))"
  have ok: "shield_ok a" "shield_ok b"
    using c by (auto simp: a_def b_def shield_ok_def intro!: shield_ok_UnbanIP [unfolded shield_ok_def])
  have bm: "pl_mesh b = Some (BroadcastUnban ip now m)" using m(1) by (simp add: b_def UnbanIP_def push_cf_unban_def)
  have gone: "tm_load ip (pl_banned b) = None"
    using c by (auto simp: b_def UnbanIP_def push_cf_unban_def shield_ok_def)
  define c' where "c' = map (\<lambda>j. if j = i then a else receive w now (c ! j)) [0..<length c]"
  have step: "gossip_step i now c = Some c'"
    using c(1,2) n by (simp add: gossip_step_def a_def c'_def)
  have c': "length c' = 2" "c' ! i = a" "c' ! (1 - i) = b"
    using c(1,2) rec by (auto simp: c'_def b_def less_2_cases_iff)
  have ok': "\<forall>s \<in> set c'. shield_ok s"
    using c' ok c(2) by (auto simp: in_set_conv_nth less_2_cases_iff)
  have i': "1 - (1 - i) = i" "1 - i < 2" using c(2) by auto
  have "unban_pending ip (unix_sec now) (1 - i) c'"
    unfolding unban_pending_def i'(1) c'(2,3)
    by (intro conjI exI [of _ "BroadcastUnban ip now m"] exI [of _ "n\<lparr>mn_broadcasts := []\<rparr>"]
        exI [of _ "empty_wire\<lparr>w_action := ''unban'', w_ip := ip, w_source := clu_NodeName (mn_cfg m), w_sent_at := unix_sec now\<rparr>"])
      (use c' ok' i' bm names m assms(2) in \<open>simp_all add: a_def BroadcastUnban_def queue_broadcast_def empty_wire_def\<close>)
  then show ?thesis using step gone c' by auto
qed

fun echo_events :: "nat \<Rightarrow> gotime list \<Rightarrow> (nat \<times> gotime) list" where
  "echo_events i [] = []"
| "echo_events i (t # ts) = (i, t) # echo_events (1 - i) ts"

text \<open>No delivery takes longer than a minute.\<close>

fun prompt :: "int \<Rightarrow> gotime list \<Rightarrow> bool" where
  "prompt sent [] = True"
| "prompt sent (t # ts) = (unix_sec t - sent \<le> 60 \<and> prompt (unix_sec t) ts)"

definition holder :: "nat \<Rightarrow> gotime list \<Rightarrow> nat" where
  "holder i ts = (if even (length ts) then i else 1 - i)"

lemma unban_run:
  assumes "unban_pending ip sent i c" and "ip \<noteq> ''all''" and "prompt sent ts"
  shows "\<exists>c' sent'. gossip_run (echo_events i ts) c = Some c' \<and> unban_pending ip sent' (holder i ts) c' \<and>
    (ts \<noteq> [] \<longrightarrow> tm_load ip (pl_banned (c' ! holder i ts)) = None)"
  using assms
proof (induction ts arbitrary: i sent c)
  case Nil
  then show ?case by (auto simp: holder_def)
next
  case (Cons t ts)
  obtain c1 where c1: "gossip_step i t c = Some c1" "unban_pending ip (unix_sec t) (1 - i) c1"
      "tm_load ip (pl_banned (c1 ! (1 - i))) = None"
    using unban_bounces [OF Cons.prems(1,2)] Cons.prems(3) by auto
  have i: "1 - (1 - i) = i" using Cons.prems(1) by (auto simp: unban_pending_def)
  have h: "holder i (t # ts) = holder (1 - i) ts" using i by (simp add: holder_def)
  show ?case
    using Cons.IH [OF c1(2) Cons.prems(2)] Cons.prems(3) c1 unfolding h
    by (cases "ts = []") (auto simp: holder_def)
qed

text \<open>
  An unban never comes to rest: between two nodes with different names an unban of an address is sent back and forth
  for as long as every delivery takes at most a minute. After any number of deliveries exactly one broadcast is still
  queued, and whichever node got it last has dropped its ban of the address, also one it made in the meantime.
\<close>

theorem unban_echo:
  assumes "unban_pending ip sent i c" and "ip \<noteq> ''all''" and "prompt sent ts"
  shows "\<exists>c'. gossip_run (echo_events i ts) c = Some c' \<and> queued c' = 1 \<and>
    (ts \<noteq> [] \<longrightarrow> tm_load ip (pl_banned (c' ! holder i ts)) = None)"
proof -
  have "queued c' = 1" if p: "unban_pending ip sent' j c'" for c' sent' j
  proof -
    obtain x y where c': "c' = [x, y]" using p by (auto simp: unban_pending_def length_Suc_conv numeral_2_eq_2)
    show ?thesis using p by (auto simp: c' unban_pending_def queued_def outbox_def less_2_cases_iff)
  qed
  then show ?thesis using unban_run [OF assms] by metis
qed

lemma unban_echo_witness:
  "\<exists>c'. gossip_run (echo_events 0 [second, 2 * second, 3 * second])
     [UnbanIP ''203.0.113.9'' 0 (mesh_shield ''a''), mesh_shield ''b''] = Some c' \<and> queued c' = 1"
proof -
  have p: "unban_pending ''203.0.113.9'' 0 0 [UnbanIP ''203.0.113.9'' 0 (mesh_shield ''a''), mesh_shield ''b'']"
    by (simp add: unban_pending_def mesh_shield_def UnbanIP_def push_cf_unban_def BroadcastUnban_def queue_broadcast_def
        empty_wire_def unix_sec_def shield_ok_def New_def NewPipeline_def Pipeline.defs Shield.defs)
  have t: "prompt 0 [second, 2 * second, 3 * second]" by (simp add: unix_sec_def second_def)
  show ?thesis using unban_echo [OF p _ t] by auto
qed

end
