(* ===== verification/Pipeline.thy ===== *)
theory Pipeline
  imports Bans
begin

section \<open>The request pipeline (core/pipeline.go)\<close>

text \<open>
  \<open>ProcessWithFingerprint\<close> as a list of layers. A layer returns an action, lets the request go on, or
  panics (\<open>None\<close>). The hour of the local clock and the answer of the reputation service are arguments.
  Lemmas: a logic of layers, stated as a contract between the layers and an invariant of the state, the
  form of every action, and when a request is let through.
\<close>

datatype ActionType = ActionAllow | ActionChallenge | ActionBlock | ActionRateLimit | ActionDrop

record Action =
  ac_Type :: ActionType
  ac_Reason :: string
  ac_Stage :: int
  ac_Difficulty :: int

definition act :: "ActionType \<Rightarrow> string \<Rightarrow> Action" where
  "act t reason = \<lparr>ac_Type = t, ac_Reason = reason, ac_Stage = 0, ac_Difficulty = 0\<rparr>"

type_synonym layer = "Shield \<Rightarrow> (Action option \<times> Shield) option"

definition stop :: "Action \<Rightarrow> Shield \<Rightarrow> (Action option \<times> Shield) option" where
  "stop a s = Some (Some a, s)"

definition go_on :: "Shield \<Rightarrow> (Action option \<times> Shield) option" where
  "go_on s = Some (None, s)"

fun run_layers :: "layer list \<Rightarrow> layer" where
  "run_layers [] s = go_on s"
| "run_layers (l # ls) s = (case l s of
     None \<Rightarrow> None | Some (Some a, s') \<Rightarrow> Some (Some a, s') | Some (None, s') \<Rightarrow> run_layers ls s')"

subsection \<open>Hosts, modes and proofs\<close>

definition normalizeHost :: "string \<Rightarrow> string" where
  "normalizeHost host = strip_port (to_lower host)"

definition attack_modes :: "string list" where
  "attack_modes = [''under_attack'', ''emergency'', ''challenge'', ''captcha'']"

definition IsDomainUnderAttack :: "string \<Rightarrow> Shield \<Rightarrow> bool" where
  "IsDomainUnderAttack hostport s \<longleftrightarrow>
     (let host = normalizeHost hostport; mode = pr_Mode (cfg_Protection (pl_cfg s)) in
      mode = ''under_attack'' \<or> mode = ''emergency'' \<or>
      map_of (sh_domainUnderAttack s) host = Some True \<or>
      (case map_of (pl_domainModeMap s) host of Some m \<Rightarrow> m \<in> set attack_modes | None \<Rightarrow> False))"

definition GetDomainRPS :: "string \<Rightarrow> Shield \<Rightarrow> int" where
  "GetDomainRPS host s = (case map_of (sh_domainRPS s) (normalizeHost host) of Some v \<Rightarrow> v | None \<Rightarrow> 0)"

definition resolveDomainMode :: "request \<Rightarrow> Shield \<Rightarrow> string" where
  "resolveDomainMode r s = (case map_of (pl_domainModeMap s) (strip_port (to_lower (r_host r))) of
     Some mode \<Rightarrow> mode | None \<Rightarrow> pr_Mode (cfg_Protection (pl_cfg s)))"

definition hasValidProof :: "request \<Rightarrow> string \<Rightarrow> gotime \<Rightarrow> Shield \<Rightarrow> bool \<times> Shield" where
  "hasValidProof r ip now s =
     (let (listed, s1) = hasDynamicWhitelist ip now s in
      if listed then (True, s1)
      else let (ok, m) = VerifyProof r ip now (sh_challMgr s1) in (ok, s1\<lparr>sh_challMgr := m\<rparr>))"

definition asset_exts :: "string list" where
  "asset_exts = [''.css'', ''.js'', ''.png'', ''.jpg'', ''.jpeg'', ''.gif'', ''.svg'', ''.ico'', ''.woff'', ''.woff2'', ''.ttf'', ''.eot'']"

definition isStaticAsset :: "string \<Rightarrow> bool" where
  "isStaticAsset path \<longleftrightarrow> has_prefix path ''/api/'' \<or> path = ''/api'' \<or> to_lower (path_ext path) \<in> set asset_exts \<or>
     path = ''/favicon.ico''"

definition badUASet :: "string list" where
  "badUASet = [''curl'', ''wget'', ''python'', ''java'', ''go-http-client'', ''node-fetch'', ''axios'', ''httpie'', ''scrapy'',
     ''crawler'', ''spider'', ''scan'', ''masscan'', ''nikto'', ''sqlmap'', ''nmap'', ''dirbuster'', ''gobuster'']"

definition isBadUA :: "request \<Rightarrow> bool" where
  "isBadUA r \<longleftrightarrow> user_agent r = [] \<or> list_ex (\<lambda>kw. str_contains (to_lower (user_agent r)) kw) badUASet"

definition validHost :: "request \<Rightarrow> Shield \<Rightarrow> bool" where
  "validHost r s \<longleftrightarrow> (let host = strip_port (to_lower (r_host r)) in
     map_of (pl_validHostMap s) host = Some True \<or> list_ex (\<lambda>(domain, b). str_contains host domain) (pl_validHostMap s))"

definition extractHeaders :: "request \<Rightarrow> (string, string) gomap" where
  "extractHeaders r = List.map_filter (\<lambda>(k, v). case v of [] \<Rightarrow> None | x # xs \<Rightarrow> Some (k, x)) (r_header r)"

definition ban_duration :: "Shield \<Rightarrow> duration" where
  "ban_duration s = ban_Duration (pr_Ban (cfg_Protection (pl_cfg s)))"

definition ban_unless_trusted :: "string \<Rightarrow> gotime \<Rightarrow> Shield \<Rightarrow> Shield" where
  "ban_unless_trusted ip now s =
     (let (trusted, s1) = isTrustedProxy ip now s in if trusted then s1 else BanIPLocal ip (ban_duration s1) now s1)"

text \<open>The answer of the degrader on the current rate; \<open>None\<close> when it has no levels and the code panics.\<close>

definition feature_disabled :: "string \<Rightarrow> Shield \<Rightarrow> bool option" where
  "feature_disabled f s = (case pl_degrader s of
     None \<Rightarrow> Some False | Some gd \<Rightarrow> IsFeatureDisabled gd f (st_CurrentRPS (sh_stats s)))"

subsection \<open>Layers 0 to 2\<close>

definition banned_layer :: "string \<Rightarrow> gotime \<Rightarrow> layer" where
  "banned_layer ip now s = (let (b, s1) = isBanned ip now s in if b then stop (act ActionDrop ''banned'') s1 else go_on s1)"

definition waf_layer :: "request \<Rightarrow> string \<Rightarrow> gotime \<Rightarrow> layer" where
  "waf_layer r ip now s = (case pl_wafEngine s of
     None \<Rightarrow> go_on s
   | Some we \<Rightarrow>
       if \<not> waf_Enabled (cfg_WAF (pl_cfg s)) then go_on s
       else case feature_disabled ''waf_deep_inspect'' s of
         None \<Rightarrow> None
       | Some off \<Rightarrow> if off then go_on s
           else let (res, we') = Inspect r we; s1 = s\<lparr>pl_wafEngine := Some we'\<rparr> in
             if ir_Blocked res then stop (act ActionBlock (''waf:'' @ ir_TopRule res)) (ban_unless_trusted ip now s1)
             else go_on s1)"

definition static_layer :: "request \<Rightarrow> layer" where
  "static_layer r s = (if isStaticAsset (r_path r) then stop (act ActionAllow ''static_asset'') s else go_on s)"

definition emergency_layer :: "bool \<Rightarrow> request \<Rightarrow> string \<Rightarrow> layer" where
  "emergency_layer attack r ip s =
     (if attack \<and> em_AutoEnable (pr_Emergency (cfg_Protection (pl_cfg s))) \<and> \<not> isWhitelisted ip (pl_cfg s) \<and>
         (resolveDomainMode r s = ''emergency'' \<or> pr_Mode (cfg_Protection (pl_cfg s)) = ''emergency'')
      then stop (act ActionBlock ''emergency_mode'') s else go_on s)"

definition conn_layer :: "string \<Rightarrow> gotime \<Rightarrow> layer" where
  "conn_layer ip now s =
     (let (count, s1) = getConnCount ip now s in
      if cl_MaxPerIP (pr_ConnectionLimit (cfg_Protection (pl_cfg s1))) < count
      then stop (act ActionBlock ''conn_limit'') (banIP ip (ban_duration s1) now s1) else go_on s1)"

definition validator_layer :: "request \<Rightarrow> string \<Rightarrow> gotime \<Rightarrow> layer" where
  "validator_layer r ip now s = (case pl_validator s of
     None \<Rightarrow> go_on s
   | Some v \<Rightarrow> (case rv_Validate v r of
       None \<Rightarrow> go_on s
     | Some reason \<Rightarrow> stop (act ActionBlock (''validation:'' @ reason)) (BanIPLocal ip hour now s)))"

definition basic_layer :: "request \<Rightarrow> layer" where
  "basic_layer r s =
     (if \<not> validHost r s then stop (act ActionBlock ''invalid_host'') s
      else if isBadUA r then stop (act ActionBlock ''bad_ua'') s else go_on s)"

subsection \<open>Layers 2.5 to 5\<close>

definition fp_layer :: "request \<Rightarrow> string \<Rightarrow> ConnectionFingerprint option \<Rightarrow> gotime \<Rightarrow> layer" where
  "fp_layer r ip f now s = (case f of
     None \<Rightarrow> go_on s
   | Some fp \<Rightarrow>
       if \<not> ja3_Enabled (fpc_JA3 (cfg_Fingerprint (pl_cfg s))) then go_on s
       else if j3_Known (cf_JA3 fp) \<and> j3_TrustScore (cf_JA3 fp) = 0
       then stop (act ActionDrop (''attack_tool_ja3:'' @ j3_BrowserID (cf_JA3 fp))) (BanIPLocal ip (ban_duration s * 6) now s)
       else if cs_Total (cf_Composite fp) < 15
       then stop (act ActionBlock ''fp_malicious'') (BanIPLocal ip (ban_duration s * 3) now s)
       else if IsTrusted fp \<and> \<not> IsDomainUnderAttack (r_host r) s \<and> resolveDomainMode r s \<in> {''off'', ''auto'', ''monitor'', []}
       then stop (act ActionAllow (''fp_trusted:'' @ cs_Verdict (cf_Composite fp))) s
       else let (st, s1) = getState ip now s
            in go_on (set_state ip (st\<lparr>is_TrustScore := cs_Total (cf_Composite fp), is_JA3Hash := j3_Hash (cf_JA3 fp)\<rparr>) s1))"

definition intel_layer :: "(string \<Rightarrow> abuse_data option) \<Rightarrow> string \<Rightarrow> gotime \<Rightarrow> layer" where
  "intel_layer abuse ip now s = (case pl_intel s of
     None \<Rightarrow> go_on s
   | Some i \<Rightarrow> (case feature_disabled ''reputation_lookup'' s of
       None \<Rightarrow> None
     | Some off \<Rightarrow> if off then go_on s
         else let (ev, i') = Evaluate abuse ip now i; s1 = s\<lparr>pl_intel := Some i'\<rparr> in
           if ev_TrustScore ev \<le> 0
           then stop (act ActionBlock (case ev_Actions ev of a # as \<Rightarrow> ''intel:'' @ a | [] \<Rightarrow> ''intel_blocked''))
                  (BanIPLocal ip (ban_duration s1) now s1)
           else if ev_TrustScore ev < 30
           then let (st, s2) = getState ip now s1 in go_on (set_state ip (st\<lparr>is_TrustScore := ev_TrustScore ev\<rparr>) s2)
           else go_on s1))"

definition isVerificationPost :: "request \<Rightarrow> bool" where
  "isVerificationPost r \<longleftrightarrow> r_method r = ''POST'' \<and> hdr_get r ''Content-Type'' \<noteq> [] \<and> form_value r ''challenge_type'' \<noteq> []"

definition count_hit :: "int \<Rightarrow> IPState \<Rightarrow> IPState" where
  "count_hit nowSec st = (if nowSec \<noteq> unix_sec (is_ConnLastReset st)
     then st\<lparr>is_RateLimitHits := 1, is_ConnLastReset := nowSec * second\<rparr>
     else st\<lparr>is_RateLimitHits := is_RateLimitHits st + 1\<rparr>)"

definition flood_layer :: "bool \<Rightarrow> request \<Rightarrow> string \<Rightarrow> gotime \<Rightarrow> layer" where
  "flood_layer attack r ip now s =
     (if rl_Enabled (pr_RateLimit (cfg_Protection (pl_cfg s))) \<and> (attack \<or> 200 < GetDomainRPS (r_host r) s) \<and>
         \<not> isWhitelisted ip (pl_cfg s) \<and> \<not> isVerificationPost r
      then let (st, s1) = getState ip now s; st' = count_hit (pl_fastUnixSec s1) st; s2 = set_state ip st' s1;
               cfgLimit = rl_RequestsPerSecond (pr_RateLimit (cfg_Protection (pl_cfg s2)));
               limit = (if cfgLimit \<le> 0 then 50 else cfgLimit)
           in if limit < is_RateLimitHits st' then stop (act ActionDrop ''ddos_flood_xdp'') (ban_unless_trusted ip now s2)
              else go_on s2
      else go_on s)"

definition limiter_layer :: "string \<Rightarrow> gotime \<Rightarrow> layer" where
  "limiter_layer ip now s = (case pl_rateLimiter s of
     None \<Rightarrow> go_on s
   | Some rl \<Rightarrow>
       if \<not> rl_Enabled (pr_RateLimit (cfg_Protection (pl_cfg s))) then go_on s
       else let (ok, rl') = ipl_Allow ip now rl; s1 = s\<lparr>pl_rateLimiter := Some rl'\<rparr> in
         if ok then go_on s1 else stop (act ActionDrop ''rate_limited'') (ban_unless_trusted ip now s1))"

definition whitelist_layer :: "string \<Rightarrow> layer" where
  "whitelist_layer ip s = (if isWhitelisted ip (pl_cfg s) then stop (act ActionAllow ''whitelisted'') s else go_on s)"

subsection \<open>Layers 6 to 9\<close>

definition classify_request_of ::
  "request \<Rightarrow> string \<Rightarrow> ConnectionFingerprint option \<Rightarrow> BehaviorVerdict option \<Rightarrow> ClassifyRequest" where
  "classify_request_of r ip fp v = \<lparr>cr_IP = ip, cr_UserAgent = user_agent r, cr_Headers = extractHeaders r, cr_URL = r_path r,
     cr_Method = r_method r, cr_Fingerprint = fp, cr_Behavior = v\<rparr>"

definition bot_layer :: "BehaviorVerdict option \<Rightarrow> request \<Rightarrow> string \<Rightarrow> ConnectionFingerprint option \<Rightarrow> gotime \<Rightarrow> layer" where
  "bot_layer v r ip fp now s = (case pl_botClass s of
     None \<Rightarrow> go_on s
   | Some bt \<Rightarrow>
       if \<not> bc_Enabled (det_BotClassifier (cfg_Detection (pl_cfg s))) then go_on s
       else let (c, bt') = Classify (classify_request_of r ip fp v) now bt; s1 = s\<lparr>pl_botClass := Some bt'\<rparr> in
         if bc_IsBot c \<and> bc_Threat c = ''critical''
         then stop (act ActionDrop (''bot:'' @ bc_BotType c)) (BanIPLocal ip (ban_duration s1 * 6) now s1)
         else if bc_IsBot c \<and> bc_Threat c = ''high''
         then let (ok, s2) = hasValidProof r ip now s1;
                  diff = ch_PowDifficulty (pr_Challenge (cfg_Protection (pl_cfg s2))) + 1
              in if ok then go_on s2
                 else stop \<lparr>ac_Type = ActionChallenge, ac_Reason = ''bot_suspicious'', ac_Stage = 2,
                        ac_Difficulty = (if 4 < diff then 4 else diff)\<rparr> s2
         else go_on s1)"

definition behavior_layer :: "request \<Rightarrow> string \<Rightarrow> ConnectionFingerprint option \<Rightarrow> gotime \<Rightarrow> layer" where
  "behavior_layer r ip fp now s = (case pl_behavior s of
     None \<Rightarrow> bot_layer None r ip fp now s
   | Some ba \<Rightarrow>
       let (v, ba') = Analyze ip (r_path r) (r_method r) (user_agent r) 200 now ba; s1 = s\<lparr>pl_behavior := Some ba'\<rparr> in
       if bv_IsBot v \<and> bv_Score v < 20 then stop (act ActionBlock ''behavior_ddos'') (BanIPLocal ip (ban_duration s1) now s1)
       else bot_layer (Some v) r ip fp now s1)"

definition session_layer :: "request \<Rightarrow> string \<Rightarrow> gotime \<Rightarrow> layer" where
  "session_layer r ip now s = (case pl_detEngine s of
     None \<Rightarrow> go_on s
   | Some e \<Rightarrow>
       if \<not> ses_Enabled (det_SessionTracking (cfg_Detection (pl_cfg s))) then go_on s
       else go_on (s\<lparr>pl_detEngine := Some (snd (TrackSession ip (r_path r) (user_agent r) now e))\<rparr>))"

definition det_layer :: "request \<Rightarrow> string \<Rightarrow> gotime \<Rightarrow> layer" where
  "det_layer r ip now s = (case pl_detEngine s of
     None \<Rightarrow> go_on s
   | Some e \<Rightarrow>
       if \<not> rl_Enabled (pr_RateLimit (cfg_Protection (pl_cfg s))) then go_on s
       else let ((status, remaining), e') = CheckRateLimit ip now e; s1 = s\<lparr>pl_detEngine := Some e'\<rparr> in
         if 0 < status
         then let (ok, s2) = hasValidProof r ip now s1 in
           if ok then go_on s2 else stop (act ActionDrop ''det_rate_limited'') (ban_unless_trusted ip now s2)
         else go_on s1)"

subsection \<open>Layer 10\<close>

definition updateRPS :: "int \<Rightarrow> IPState \<Rightarrow> IPState" where
  "updateRPS nowSec st =
     (let st1 = st\<lparr>is_TotalRequests := is_TotalRequests st + 1\<rparr> in
      if nowSec \<noteq> unix_sec (is_LastReset st1) then st1\<lparr>is_RPS := 1, is_LastReset := nowSec * second\<rparr>
      else st1\<lparr>is_RPS := is_RPS st1 + 1\<rparr>)"

definition count_challenge :: "int \<Rightarrow> IPState \<Rightarrow> IPState" where
  "count_challenge nowSec st = (if nowSec \<noteq> unix_sec (is_ConnLastReset st)
     then st\<lparr>is_ChallengeHits := 1, is_ConnLastReset := nowSec * second\<rparr>
     else st\<lparr>is_ChallengeHits := is_ChallengeHits st + 1\<rparr>)"

text \<open>The part of mode \<open>auto\<close> that looks at the rate of the address and at its fingerprint.\<close>

definition per_ip_stage :: "int \<Rightarrow> int \<Rightarrow> ConnectionFingerprint option \<Rightarrow> int" where
  "per_ip_stage rps limit f = (case f of
     Some fp \<Rightarrow>
       if 60 \<le> cs_Total (cf_Composite fp) then (if limit * 4 < rps then 2 else if limit * 2 < rps then 1 else 0)
       else if 30 \<le> cs_Total (cf_Composite fp)
       then (if limit * 3 < rps then 2 else if go_quot (limit * 3) 2 < rps then 1 else 0)
       else (if limit < rps then 4 else if go_quot limit 2 < rps then 2 else 1)
   | None \<Rightarrow> if limit < rps then 2 else if go_quot limit 2 < rps then 1 else 0)"

definition auto_stage :: "IPState \<Rightarrow> string \<Rightarrow> ConnectionFingerprint option \<Rightarrow> bool \<Rightarrow> Shield \<Rightarrow> int \<times> Shield" where
  "auto_stage st ip fp attack s =
     (let limit = rl_RequestsPerSecond (pr_RateLimit (cfg_Protection (pl_cfg s)));
          systemRPS = st_CurrentRPS (sh_stats s);
          t = em_RPSThreshold (pr_Emergency (cfg_Protection (pl_cfg s)));
          threshold = (if t \<le> 0 then 1000 else t) in
      if threshold * 2 < systemRPS then (if limit * 2 < is_RPS st then 4 else 2, s)
      else if attack \<or> threshold < systemRPS
      then let st' = count_challenge (pl_fastUnixSec s) st; s1 = set_state ip st' s in
           (if 3 < is_ChallengeHits st' then 4 else if limit * 2 < is_RPS st' then 2 else 1, s1)
      else (per_ip_stage (is_RPS st) limit fp, s))"

definition determineStageWithFP ::
  "IPState \<Rightarrow> string \<Rightarrow> request \<Rightarrow> ConnectionFingerprint option \<Rightarrow> string \<Rightarrow> bool \<Rightarrow> gotime \<Rightarrow> Shield \<Rightarrow> int \<times> Shield" where
  "determineStageWithFP st ip r fp mode attack now s =
     (let unless_proved = (\<lambda>k. let (ok, s1) = hasValidProof r ip now s in if ok then (0, s1) else k s1) in
      if mode = ''off'' \<or> mode = ''monitor'' then (0, s)
      else if mode = ''silent'' then unless_proved (\<lambda>s1. (3, s1))
      else if mode = ''challenge'' then unless_proved (\<lambda>s1. (1, s1))
      else if mode = ''captcha'' then unless_proved (\<lambda>s1. (2, s1))
      else if mode = ''emergency'' then unless_proved (\<lambda>s1. (4, s1))
      else if mode = ''under_attack'' then unless_proved (\<lambda>s1. (2, s1))
      else if mode = ''auto'' then unless_proved (auto_stage st ip fp attack)
      else (0, s))"

definition challenge_difficulty :: "ChallengeConfig \<Rightarrow> int \<Rightarrow> ConnectionFingerprint option \<Rightarrow> int" where
  "challenge_difficulty cfg rps f =
     (let d = ch_PowDifficulty cfg;
          d1 = (if ch_PowAdaptive cfg
                then d + (if 50 < rps then 1 else 0) + (if 100 < rps then 2 else 0) +
                  (case f of Some fp \<Rightarrow> if cs_Total (cf_Composite fp) < 40 then 1 else 0 | None \<Rightarrow> 0) else d);
          d2 = (if 4 < d1 then 4 else d1)
      in if 6 < d2 then 6 else d2)"

text \<open>The action for a stage, the adaptive learner may raise it.\<close>

definition answer_stage ::
  "int \<Rightarrow> IPState \<Rightarrow> string \<Rightarrow> ConnectionFingerprint option \<Rightarrow> nat \<Rightarrow> gotime \<Rightarrow> layer" where
  "answer_stage stage st ip fp hr now s =
     (if stage = 4 then stop (act ActionDrop ''auto_l7_drop'') (ban_unless_trusted ip now s)
      else if 0 < stage
      then let difficulty = challenge_difficulty (pr_Challenge (cfg_Protection (pl_cfg s))) (is_RPS st) fp;
               level = (case pl_adaptive s of None \<Rightarrow> 0 | Some al \<Rightarrow> ad_ChallengeLevel (GetDecision (f_of_int (is_RPS st)) hr al));
               stage' = (if stage < level then level else stage)
           in stop \<lparr>ac_Type = ActionChallenge, ac_Reason = ''stage_'' @ itoa (if 0 \<le> stage' \<and> stage' < 7 then stage' else 0),
                ac_Stage = stage', ac_Difficulty = difficulty\<rparr> s
      else stop (act ActionAllow ''clean'') s)"

definition stage_layer ::
  "bool \<Rightarrow> request \<Rightarrow> string \<Rightarrow> ConnectionFingerprint option \<Rightarrow> nat \<Rightarrow> gotime \<Rightarrow> layer" where
  "stage_layer attack r ip fp hr now s =
     (let (st0, s1) = getState ip now s; st = updateRPS (pl_fastUnixSec s1) st0; s2 = set_state ip st s1;
          (stage, s3) = determineStageWithFP st ip r fp (resolveDomainMode r s2) attack now s2
      in answer_stage stage st ip fp hr now s3)"

subsection \<open>The whole pipeline\<close>

definition inner_layers ::
  "bool \<Rightarrow> request \<Rightarrow> string \<Rightarrow> ConnectionFingerprint option \<Rightarrow> (string \<Rightarrow> abuse_data option) \<Rightarrow> nat \<Rightarrow> gotime \<Rightarrow> layer list" where
  "inner_layers attack r ip fp abuse hr now =
     [waf_layer r ip now, static_layer r, emergency_layer attack r ip, conn_layer ip now, validator_layer r ip now,
      basic_layer r, fp_layer r ip fp now, intel_layer abuse ip now, flood_layer attack r ip now, limiter_layer ip now,
      whitelist_layer ip, behavior_layer r ip fp now, session_layer r ip now, det_layer r ip now,
      stage_layer attack r ip fp hr now]"

definition pipeline_layers ::
  "request \<Rightarrow> string \<Rightarrow> ConnectionFingerprint option \<Rightarrow> (string \<Rightarrow> abuse_data option) \<Rightarrow> nat \<Rightarrow> gotime \<Rightarrow> layer" where
  "pipeline_layers r ip fp abuse hr now =
     run_layers [banned_layer ip now,
       \<lambda>s. run_layers (inner_layers (IsDomainUnderAttack (r_host r) s) r ip fp abuse hr now) s]"

definition ProcessWithFingerprint ::
  "request \<Rightarrow> string \<Rightarrow> ConnectionFingerprint option \<Rightarrow> (string \<Rightarrow> abuse_data option) \<Rightarrow> nat \<Rightarrow> gotime \<Rightarrow> Shield \<Rightarrow> (Action \<times> Shield) option" where
  "ProcessWithFingerprint r ip fp abuse hr now s = (case pipeline_layers r ip fp abuse hr now s of
     None \<Rightarrow> None
   | Some (Some a, s') \<Rightarrow> Some (a, s')
   | Some (None, s') \<Rightarrow> Some (act ActionAllow ''clean'', s'))"

subsection \<open>A logic of layers\<close>

definition layer_ok :: "(Shield \<Rightarrow> bool) \<Rightarrow> (Action \<Rightarrow> bool) \<Rightarrow> layer \<Rightarrow> bool" where
  "layer_ok P Q l \<longleftrightarrow> (\<forall>s x s'. P s \<longrightarrow> l s = Some (x, s') \<longrightarrow> P s' \<and> (\<forall>a. x = Some a \<longrightarrow> Q a))"

lemma layer_okI:
  "(\<And>s x s'. P s \<Longrightarrow> l s = Some (x, s') \<Longrightarrow> P s' \<and> (\<forall>a. x = Some a \<longrightarrow> Q a)) \<Longrightarrow> layer_ok P Q l"
  by (simp add: layer_ok_def)

lemma layer_okD: "layer_ok P Q l \<Longrightarrow> P s \<Longrightarrow> l s = Some (x, s') \<Longrightarrow> P s' \<and> (\<forall>a. x = Some a \<longrightarrow> Q a)"
  by (simp add: layer_ok_def)

lemma layer_ok_mono: "layer_ok P Q l \<Longrightarrow> (\<And>a. Q a \<Longrightarrow> Q' a) \<Longrightarrow> layer_ok P Q' l"
  by (simp add: layer_ok_def)

lemma layer_ok_run: "\<forall>l \<in> set ls. layer_ok P Q l \<Longrightarrow> layer_ok P Q (run_layers ls)"
proof (induction ls)
  case Nil
  then show ?case by (simp add: layer_ok_def go_on_def)
next
  case (Cons l ls)
  then have l: "layer_ok P Q l" and ls: "layer_ok P Q (run_layers ls)" by simp_all
  show ?case
  proof (rule layer_okI)
    fix s x s' assume P: "P s" and run: "run_layers (l # ls) s = Some (x, s')"
    then obtain y s1 where y: "l s = Some (y, s1)" by (auto split: option.splits)
    note l1 = layer_okD [OF l P y]
    show "P s' \<and> (\<forall>a. x = Some a \<longrightarrow> Q a)"
      using run y l1 layer_okD [OF ls conjunct1 [OF l1]] by (cases y) auto
  qed
qed

lemma layer_ok_const: "(\<And>s. P s \<Longrightarrow> layer_ok P Q (f s)) \<Longrightarrow> layer_ok P Q (\<lambda>s. f s s)"
  unfolding layer_ok_def by blast

text \<open>The forms of an action.\<close>

definition well_formed :: "Action \<Rightarrow> bool" where
  "well_formed a \<longleftrightarrow> (if ac_Type a = ActionChallenge then ac_Stage a \<in> {1, 2, 3} \<and> ac_Difficulty a \<le> 4
     else ac_Type a \<noteq> ActionRateLimit \<and> ac_Stage a = 0 \<and> ac_Difficulty a = 0)"

definition holding :: "Action \<Rightarrow> bool" where
  "holding a \<longleftrightarrow> well_formed a \<and> ac_Type a \<noteq> ActionAllow"

lemma holding_well_formed: "holding a \<Longrightarrow> well_formed a"
  by (simp add: holding_def)

lemma act_forms [simp]:
  "well_formed (act ActionAllow reason)" "holding (act ActionBlock reason)" "holding (act ActionDrop reason)"
  "\<not> holding (act ActionAllow reason)"
  by (simp_all add: well_formed_def holding_def act_def)

text \<open>What an invariant has to survive for every layer to keep it.\<close>

locale pipeline_contract =
  fixes P :: "Shield \<Rightarrow> bool" and r :: request and ip :: string and now :: gotime
  assumes keep_getState: "P s \<Longrightarrow> P (snd (getState ip now s))"
    and keep_set_state: "P s \<Longrightarrow> P (set_state ip st s)"
    and keep_isBanned: "P s \<Longrightarrow> P (snd (isBanned ip now s))"
    and keep_listed: "P s \<Longrightarrow> P (snd (hasDynamicWhitelist ip now s))"
    and keep_verify: "P s \<Longrightarrow> P (s\<lparr>sh_challMgr := snd (VerifyProof r ip now (sh_challMgr s))\<rparr>)"
    and keep_banIP: "P s \<Longrightarrow> P (banIP ip d now s)"
    and keep_BanIPLocal: "P s \<Longrightarrow> P (BanIPLocal ip d now s)"
    and keep_waf: "P s \<Longrightarrow> P (s\<lparr>pl_wafEngine := we\<rparr>)"
    and keep_intel: "P s \<Longrightarrow> P (s\<lparr>pl_intel := i\<rparr>)"
    and keep_limiter: "P s \<Longrightarrow> P (s\<lparr>pl_rateLimiter := rl\<rparr>)"
    and keep_botClass: "P s \<Longrightarrow> P (s\<lparr>pl_botClass := bt\<rparr>)"
    and keep_behavior: "P s \<Longrightarrow> P (s\<lparr>pl_behavior := ba\<rparr>)"
    and keep_detEngine: "P s \<Longrightarrow> P (s\<lparr>pl_detEngine := e\<rparr>)"
begin

lemma keep_trusted: "P s \<Longrightarrow> P (snd (isTrustedProxy ip now s))"
  using keep_getState by (simp add: isTrustedProxy_def Let_def case_prod_unfold)

lemma keep_unless: "P s \<Longrightarrow> P (ban_unless_trusted ip now s)"
  by (simp add: ban_unless_trusted_def Let_def case_prod_unfold keep_trusted keep_BanIPLocal)

lemma keep_proof: "P s \<Longrightarrow> P (snd (hasValidProof r ip now s))"
  by (simp add: hasValidProof_def Let_def case_prod_unfold keep_listed keep_verify)

lemmas keeps = keep_getState keep_set_state keep_isBanned keep_banIP keep_BanIPLocal keep_waf keep_intel keep_limiter
  keep_botClass keep_behavior keep_detEngine keep_trusted keep_unless keep_proof

lemma banned_holds: "layer_ok P holding (banned_layer ip now)"
  by (rule layer_okI) (auto simp: banned_layer_def stop_def go_on_def Let_def case_prod_unfold keeps split: if_splits)

lemma waf_holds: "layer_ok P holding (waf_layer r ip now)"
  by (rule layer_okI) (auto simp: waf_layer_def stop_def go_on_def Let_def case_prod_unfold keeps split: if_splits option.splits)

lemma static_fine: "layer_ok P well_formed (static_layer r)"
  by (rule layer_okI) (auto simp: static_layer_def stop_def go_on_def split: if_splits)

lemma emergency_holds: "layer_ok P holding (emergency_layer attack r ip)"
  by (rule layer_okI) (auto simp: emergency_layer_def stop_def go_on_def split: if_splits)

lemma conn_holds: "layer_ok P holding (conn_layer ip now)"
  by (rule layer_okI) (auto simp: conn_layer_def getConnCount_def stop_def go_on_def Let_def case_prod_unfold keeps split: if_splits)

lemma validator_holds: "layer_ok P holding (validator_layer r ip now)"
  by (rule layer_okI) (auto simp: validator_layer_def stop_def go_on_def keeps split: option.splits)

lemma basic_holds: "layer_ok P holding (basic_layer r)"
  by (rule layer_okI) (auto simp: basic_layer_def stop_def go_on_def split: if_splits)

lemma fp_fine: "layer_ok P well_formed (fp_layer r ip fp now)"
  by (rule layer_okI) (auto simp: fp_layer_def stop_def go_on_def Let_def case_prod_unfold keeps holding_well_formed
      split: if_splits option.splits)

lemma intel_holds: "layer_ok P holding (intel_layer abuse ip now)"
  by (rule layer_okI) (auto simp: intel_layer_def stop_def go_on_def Let_def case_prod_unfold keeps split: if_splits option.splits)

lemma flood_holds: "layer_ok P holding (flood_layer attack r ip now)"
  by (rule layer_okI) (auto simp: flood_layer_def stop_def go_on_def Let_def case_prod_unfold keeps split: if_splits)

lemma limiter_holds: "layer_ok P holding (limiter_layer ip now)"
  by (rule layer_okI) (auto simp: limiter_layer_def stop_def go_on_def Let_def case_prod_unfold keeps split: if_splits option.splits)

lemma whitelist_fine: "layer_ok P well_formed (whitelist_layer ip)"
  by (rule layer_okI) (auto simp: whitelist_layer_def stop_def go_on_def split: if_splits)

lemma bot_holds: "layer_ok P holding (bot_layer v r ip fp now)"
  by (rule layer_okI) (auto simp: bot_layer_def stop_def go_on_def Let_def case_prod_unfold keeps holding_def well_formed_def act_def
      split: if_splits option.splits)

lemma behavior_holds: "layer_ok P holding (behavior_layer r ip fp now)"
proof (rule layer_okI)
  fix s x s' assume P: "P s" and l: "behavior_layer r ip fp now s = Some (x, s')"
  show "P s' \<and> (\<forall>a. x = Some a \<longrightarrow> holding a)"
  proof (cases "pl_behavior s")
    case None
    then show ?thesis using l layer_okD [OF bot_holds P] by (simp add: behavior_layer_def)
  next
    case (Some ba)
    obtain v ba' where v: "Analyze ip (r_path r) (r_method r) (user_agent r) 200 now ba = (v, ba')" by fastforce
    have P1: "P (s\<lparr>pl_behavior := Some ba'\<rparr>)" using P by (rule keep_behavior)
    show ?thesis
      using l Some v P1 layer_okD [OF bot_holds P1]
      by (auto simp: behavior_layer_def Let_def stop_def keeps split: if_splits)
  qed
qed

lemma session_holds: "layer_ok P holding (session_layer r ip now)"
  by (rule layer_okI) (auto simp: session_layer_def go_on_def keeps split: if_splits option.splits)

lemma det_holds: "layer_ok P holding (det_layer r ip now)"
  by (rule layer_okI) (auto simp: det_layer_def stop_def go_on_def Let_def case_prod_unfold keeps split: if_splits option.splits)

lemma auto_keeps: "P s \<Longrightarrow> P (snd (auto_stage st ip fp attack s))"
  by (simp add: auto_stage_def Let_def keeps)

lemma determine_keeps: "P s \<Longrightarrow> P (snd (determineStageWithFP st ip r fp mode attack now s))"
  by (simp add: determineStageWithFP_def Let_def case_prod_unfold keeps auto_keeps)

lemma determine_range: "fst (determineStageWithFP st ip r fp mode attack now s) \<in> {0, 1, 2, 3, 4}"
proof -
  have "fst (auto_stage st ip fp attack s1) \<in> {0, 1, 2, 3, 4}" for s1
    by (simp add: auto_stage_def per_ip_stage_def Let_def split: option.split)
  then show ?thesis by (simp add: determineStageWithFP_def Let_def case_prod_unfold)
qed

lemma answer_fine:
  assumes "P s" and "stage \<in> {0, 1, 2, 3, 4}" and "answer_stage stage st ip fp hr now s = Some (x, s')"
  shows "P s' \<and> (\<forall>a. x = Some a \<longrightarrow> well_formed a)"
proof -
  define level where "level = (case pl_adaptive s of None \<Rightarrow> 0
    | Some al \<Rightarrow> ad_ChallengeLevel (GetDecision (f_of_int (is_RPS st)) hr al))"
  have level: "level \<le> 2" using GetDecision_level by (simp add: level_def split: option.split)
  have diff: "challenge_difficulty cfg rps f \<le> 4" for cfg rps f by (simp add: challenge_difficulty_def Let_def)
  show ?thesis
    using assms diff level unfolding answer_stage_def level_def [symmetric] Let_def
    by (auto simp: stop_def keeps well_formed_def act_def split: if_splits)
qed

lemma stage_fine: "layer_ok P well_formed (stage_layer attack r ip fp hr now)"
proof (rule layer_okI)
  fix s x s' assume P: "P s" and l: "stage_layer attack r ip fp hr now s = Some (x, s')"
  obtain st0 s1 where g: "getState ip now s = (st0, s1)" by fastforce
  define st where "st = updateRPS (pl_fastUnixSec s1) st0"
  define s2 where "s2 = set_state ip st s1"
  obtain stage s3 where d: "determineStageWithFP st ip r fp (resolveDomainMode r s2) attack now s2 = (stage, s3)" by fastforce
  have P1: "P s1" using keep_getState [OF P] g by simp
  have P2: "P s2" using P1 by (simp add: s2_def keeps)
  have P3: "P s3" using determine_keeps [OF P2, of st fp "resolveDomainMode r s2" attack] d by simp
  have stage: "stage \<in> {0, 1, 2, 3, 4}"
    using determine_range [of st fp "resolveDomainMode r s2" attack s2] d by simp
  have "answer_stage stage st ip fp hr now s3 = Some (x, s')"
    using l d unfolding stage_layer_def g Let_def prod.case st_def [symmetric] s2_def [symmetric] by simp
  from answer_fine [OF P3 stage this] show "P s' \<and> (\<forall>a. x = Some a \<longrightarrow> well_formed a)" .
qed

lemma inner_each: "\<forall>l \<in> set (inner_layers attack r ip fp abuse hr now). layer_ok P well_formed l"
  by (simp add: inner_layers_def static_fine fp_fine whitelist_fine stage_fine
      layer_ok_mono [OF waf_holds holding_well_formed] layer_ok_mono [OF emergency_holds holding_well_formed]
      layer_ok_mono [OF conn_holds holding_well_formed] layer_ok_mono [OF validator_holds holding_well_formed]
      layer_ok_mono [OF basic_holds holding_well_formed] layer_ok_mono [OF intel_holds holding_well_formed]
      layer_ok_mono [OF flood_holds holding_well_formed] layer_ok_mono [OF limiter_holds holding_well_formed]
      layer_ok_mono [OF behavior_holds holding_well_formed] layer_ok_mono [OF session_holds holding_well_formed]
      layer_ok_mono [OF det_holds holding_well_formed])

lemma inner_fine: "layer_ok P well_formed (run_layers (inner_layers attack r ip fp abuse hr now))"
  using inner_each by (rule layer_ok_run)

lemma pipeline_fine: "layer_ok P well_formed (pipeline_layers r ip fp abuse hr now)"
  unfolding pipeline_layers_def
  by (rule layer_ok_run)
    (simp add: layer_ok_mono [OF banned_holds holding_well_formed] layer_ok_const [OF inner_fine])

lemma process_keeps:
  assumes "P s" and "ProcessWithFingerprint r ip fp abuse hr now s = Some (a, s')"
  shows "P s'" and "well_formed a"
  using assms layer_okD [OF pipeline_fine assms(1)]
  by (auto simp: ProcessWithFingerprint_def split: option.splits)

end

subsection \<open>What the operations leave alone\<close>

lemma state_frame [simp]:
  "pl_cfg (snd (getState ip now s)) = pl_cfg s" "pl_whitelist (snd (getState ip now s)) = pl_whitelist s"
  "sh_challMgr (snd (getState ip now s)) = sh_challMgr s" "pl_domainModeMap (snd (getState ip now s)) = pl_domainModeMap s"
  "pl_degrader (snd (getState ip now s)) = pl_degrader s"
  "pl_cfg (set_state ip st s) = pl_cfg s" "pl_whitelist (set_state ip st s) = pl_whitelist s"
  "sh_challMgr (set_state ip st s) = sh_challMgr s" "pl_domainModeMap (set_state ip st s) = pl_domainModeMap s"
  "pl_degrader (set_state ip st s) = pl_degrader s"
  by (simp_all add: getState_def set_state_def Let_def case_prod_unfold)

lemma banned_frame [simp]:
  "pl_cfg (snd (isBanned ip now s)) = pl_cfg s" "pl_whitelist (snd (isBanned ip now s)) = pl_whitelist s"
  "sh_challMgr (snd (isBanned ip now s)) = sh_challMgr s" "pl_domainModeMap (snd (isBanned ip now s)) = pl_domainModeMap s"
  "pl_degrader (snd (isBanned ip now s)) = pl_degrader s"
  by (simp_all add: isBanned_eq)

lemma ban_frame [simp]:
  "pl_cfg (banIP ip d now s) = pl_cfg s" "pl_whitelist (banIP ip d now s) = pl_whitelist s"
  "sh_challMgr (banIP ip d now s) = sh_challMgr s" "pl_domainModeMap (banIP ip d now s) = pl_domainModeMap s"
  "pl_degrader (banIP ip d now s) = pl_degrader s"
  by (simp_all add: banIP_def isTrustedProxy_touch Let_def push_cf_ban_def push_kernel_def store_ban_def add_banned_stat_def
      case_prod_unfold)

lemma ban_local_frame [simp]:
  "pl_cfg (BanIPLocal ip d now s) = pl_cfg s" "pl_whitelist (BanIPLocal ip d now s) = pl_whitelist s"
  "sh_challMgr (BanIPLocal ip d now s) = sh_challMgr s" "pl_domainModeMap (BanIPLocal ip d now s) = pl_domainModeMap s"
  "pl_degrader (BanIPLocal ip d now s) = pl_degrader s"
  by (simp_all add: BanIPLocal_def isTrustedProxy_touch Let_def)

lemma listed_frame [simp]:
  "pl_cfg (snd (hasDynamicWhitelist ip now s)) = pl_cfg s"
  "sh_challMgr (snd (hasDynamicWhitelist ip now s)) = sh_challMgr s"
  "pl_domainModeMap (snd (hasDynamicWhitelist ip now s)) = pl_domainModeMap s"
  "pl_degrader (snd (hasDynamicWhitelist ip now s)) = pl_degrader s"
  by (simp_all add: hasDynamicWhitelist_def split: option.split)

lemma guarded_parts [simp]:
  "guarded cfg (s\<lparr>sh_challMgr := m\<rparr>) = guarded cfg s" "guarded cfg (s\<lparr>pl_wafEngine := we\<rparr>) = guarded cfg s"
  "guarded cfg (s\<lparr>pl_intel := i\<rparr>) = guarded cfg s" "guarded cfg (s\<lparr>pl_rateLimiter := rl\<rparr>) = guarded cfg s"
  "guarded cfg (s\<lparr>pl_botClass := bt\<rparr>) = guarded cfg s" "guarded cfg (s\<lparr>pl_behavior := ba\<rparr>) = guarded cfg s"
  "guarded cfg (s\<lparr>pl_detEngine := e\<rparr>) = guarded cfg s"
  by (simp_all add: guarded_def shield_ok_def)

interpretation guarded: pipeline_contract "guarded cfg" r ip now for cfg :: Config and r :: request and ip :: string and now :: gotime
  by unfold_locales simp_all

interpretation degrading: pipeline_contract "\<lambda>s. pl_degrader s \<noteq> Some []" r ip now for r :: request and ip :: string and now :: gotime
  by unfold_locales simp_all

end
