(* ===== verification/Server.thy ===== *)
theory Server
  imports Pipeline
begin

section \<open>The request handler (core/server.go, core/proxy.go)\<close>

text \<open>
  \<open>handleRequest\<close> and what it calls. The response is the list of what is done to the \<open>ResponseWriter\<close>, in
  order; a page is named, not printed. What a request meets outside the program is in the record \<open>env\<close>. The
  result is \<open>None\<close> only where the pipeline panics on a degrader without levels. Lemmas: the guard of
  \<open>Bans\<close> through the handler, and properties of the addresses, the answers and the counters.
\<close>

datatype backend_answer = Answered response bool | ClientGone | BackendFailed

datatype reply =
    Plain int string | Redirect string int | Image string | VectorLogo
  | RateLimitPage string int | BlockPage string string string | ChallengePage page
  | FromCache CachedResponse | Forwarded request response | Tunnel string

datatype effect = SetHeader string string | SendCookie set_cookie | Send reply | AbortConn

record env =
  ev_hour :: nat
  ev_abuse :: "string \<Rightarrow> abuse_data option"
  ev_random :: "byte list"
  ev_formParses :: bool
  ev_smallLogo :: bool
  ev_logo :: bool
  ev_urlHost :: "string \<Rightarrow> string option"
  ev_testSite :: bool
  ev_backend :: backend_answer
  ev_ristretto :: ristretto

definition rate_limit_page :: "string \<Rightarrow> int \<Rightarrow> effect" where
  "rate_limit_page ip retryAfter = Send (RateLimitPage ip (if retryAfter \<le> 0 then 10 else retryAfter))"

subsection \<open>The address of the client\<close>

definition splitFirst :: "string \<Rightarrow> string \<Rightarrow> string" where
  "splitFirst s sep = takeWhile (\<lambda>c. c \<noteq> hd sep) s"

definition trimSpace :: "string \<Rightarrow> string" where
  "trimSpace s = trim_where (\<lambda>c. c = CHR '' '') s"

definition peer_host :: "request \<Rightarrow> string" where
  "peer_host r = (case split_host_port (r_remote_addr r) of None \<Rightarrow> r_remote_addr r | Some (host, port) \<Rightarrow> host)"

definition header_ip :: "request \<Rightarrow> string \<Rightarrow> string" where
  "header_ip r peer =
     (let cfip = hdr_get r ''CF-Connecting-IP''; xff = hdr_get r ''X-Forwarded-For''; xri = hdr_get r ''X-Real-IP'' in
      if cfip \<noteq> [] then trimSpace cfip
      else if xff \<noteq> [] \<and> trimSpace (splitFirst xff '','') \<noteq> [] then trimSpace (splitFirst xff '','')
      else if xri \<noteq> [] \<and> trimSpace xri \<noteq> [] then trimSpace xri
      else peer)"

definition extractIP :: "request \<Rightarrow> gotime \<Rightarrow> Shield \<Rightarrow> string \<times> Shield" where
  "extractIP r now s =
     (let peerHost = peer_host r; (trusted, s1) = isTrustedProxy peerHost now s in
      if trusted \<or> checkIsTrustedProxy peerHost (pl_cfg s1) then (header_ip r peerHost, s1) else (peerHost, s1))"

subsection \<open>Counters and callbacks\<close>

definition map_stats :: "(Stats \<Rightarrow> Stats) \<Rightarrow> Shield \<Rightarrow> Shield" where
  "map_stats f s = s\<lparr>sh_stats := f (sh_stats s)\<rparr>"

definition add_blocked :: "Shield \<Rightarrow> Shield" where
  "add_blocked = map_stats (\<lambda>st. st\<lparr>st_BlockedRequests := st_BlockedRequests st + 1\<rparr>)"

definition add_passed :: "Shield \<Rightarrow> Shield" where
  "add_passed = map_stats (\<lambda>st. st\<lparr>st_PassedRequests := st_PassedRequests st + 1\<rparr>)"

definition update_domain :: "(DomainCounter \<Rightarrow> DomainCounter) \<Rightarrow> string \<Rightarrow> Shield \<Rightarrow> Shield" where
  "update_domain f host s =
     (let dc = (case map_of (sh_domainReqs s) host of Some dc \<Rightarrow> dc | None \<Rightarrow> \<lparr>dc_Reqs = 0, dc_ActiveConns = 0\<rparr>)
      in s\<lparr>sh_domainReqs := AList.update host (f dc) (sh_domainReqs s)\<rparr>)"

definition counted :: "request \<Rightarrow> bool" where
  "counted r \<longleftrightarrow> \<not> has_prefix (r_path r) ''/api/''"

definition begin_request :: "request \<Rightarrow> Shield \<Rightarrow> Shield" where
  "begin_request r s = (if counted r
     then update_domain (\<lambda>dc. dc\<lparr>dc_Reqs := dc_Reqs dc + 1, dc_ActiveConns := dc_ActiveConns dc + 1\<rparr>) (normalizeHost (r_host r))
            (map_stats (\<lambda>st. st\<lparr>st_TotalRequests := st_TotalRequests st + 1\<rparr>) s)
     else s)"

definition end_request :: "request \<Rightarrow> Shield \<Rightarrow> Shield" where
  "end_request r s = (if counted r
     then update_domain (\<lambda>dc. dc\<lparr>dc_ActiveConns := dc_ActiveConns dc - 1\<rparr>) (normalizeHost (r_host r)) s else s)"

definition OnVerifySuccess :: "string \<Rightarrow> gotime \<Rightarrow> Shield \<Rightarrow> Shield" where
  "OnVerifySuccess ip now s = UnbanIP ip now (s\<lparr>sh_challengeFails := AList.delete ip (sh_challengeFails s)\<rparr>)"

definition OnVerifyFailed :: "string \<Rightarrow> gotime \<Rightarrow> Shield \<Rightarrow> Shield" where
  "OnVerifyFailed ip now s =
     (let fails = (case map_of (sh_challengeFails s) ip of Some v \<Rightarrow> v + 1 | None \<Rightarrow> 1);
          s1 = s\<lparr>sh_challengeFails := AList.update ip fails (sh_challengeFails s)\<rparr>
      in if 3 \<le> fails
         then let s2 = BanIPLocal ip (ban_duration s1) now s1 in s2\<lparr>sh_challengeFails := AList.delete ip (sh_challengeFails s2)\<rparr>
         else s1)"

fun run_callback :: "gotime \<Rightarrow> verify_event \<Rightarrow> Shield \<Rightarrow> Shield" where
  "run_callback now (VerifySuccess ip) s = OnVerifySuccess ip now s"
| "run_callback now (VerifyFailed ip reason) s = OnVerifyFailed ip now s"

subsection \<open>Logos and the proxy\<close>

definition logo_paths :: "string list" where
  "logo_paths = [''/logo-mango.png'', ''/logo-mango-small.png'', ''/assets/logo-mango.png'', ''/favicon.ico'', ''/apple-touch-icon.png'']"

definition serve_logo :: "env \<Rightarrow> request \<Rightarrow> effect list" where
  "serve_logo env r = SetHeader ''Cache-Control'' ''public, max-age=31536000, immutable'' #
     (if r_path r = ''/logo-mango-small.png'' \<and> ev_smallLogo env
      then [SetHeader ''Content-Type'' ''image/png'', Send (Image ''assets/logo-mango-small.png'')]
      else if ev_logo env then [SetHeader ''Content-Type'' ''image/png'', Send (Image ''assets/logo-mango.png'')]
      else [SetHeader ''Content-Type'' ''image/svg+xml'', Send VectorLogo])"

text \<open>The cache of the proxy: the key to forward, whether it is bypassed, or the entry that answers.\<close>

definition proxy_cache ::
  "env \<Rightarrow> request \<Rightarrow> gotime \<Rightarrow> Shield \<Rightarrow> (bool \<times> string \<times> CachedResponse option) \<times> Shield" where
  "proxy_cache env r now s = (case sh_cdn s of
     None \<Rightarrow> ((False, [], None), s)
   | Some cm \<Rightarrow>
       if \<not> cdn_Enabled (cfg_CDN (pl_cfg s)) then ((False, [], None), s)
       else if ShouldBypass (cm_cfg cm) r then ((True, [], None), s\<lparr>sh_cdn := Some (RecordBypass cm)\<rparr>)
       else let key = GenerateCacheKey r; (found, cm') = cdn_Get (ev_ristretto env) key now cm; s' = s\<lparr>sh_cdn := Some cm'\<rparr>
            in (case found of
                  Some ca \<Rightarrow> if ca_Body ca \<noteq> [] then ((False, key, Some ca), s') else ((False, key, None), s')
                | None \<Rightarrow> ((False, key, None), s')))"

definition proxy_error_page :: "effect list" where
  "proxy_error_page = [SetHeader ''Content-Type'' ''text/html; charset=utf-8'', SetHeader ''Connection'' ''close'',
     SetHeader ''X-Mango-Shield'' ''bad-gateway'', Send (Plain 502 ''502 Bad Gateway'')]"

definition proxyRequest :: "env \<Rightarrow> request \<Rightarrow> gotime \<Rightarrow> UpstreamManager \<Rightarrow> Shield \<Rightarrow> effect list \<times> Shield" where
  "proxyRequest env r now um s =
     (let (backend, um') = GetNext (r_host r) um; s1 = s\<lparr>sh_upstreams := Some um'\<rparr> in
      case backend of
        None \<Rightarrow> ([Send (Plain 503 ''Service Unavailable'')], s1)
      | Some backend \<Rightarrow>
          if backend = [] then ([Send (Plain 503 ''Service Unavailable'')], s1)
          else if prx_WebSocket (cfg_Proxy (pl_cfg s1)) \<and> isWebSocket r then ([Send (Tunnel backend)], s1)
          else case ev_urlHost env backend of
            None \<Rightarrow> ([Send (Plain 502 ''Bad Gateway'')], s1)
          | Some host \<Rightarrow>
              let target = target_host (ev_testSite env) host;
                  s2 = s1\<lparr>sh_transport := Some (getTransport (pl_cfg s1) (sh_transport s1))\<rparr>;
                  ((bypass, key, hit), s3) = proxy_cache env r now s2
              in case hit of
                Some ca \<Rightarrow> ([SetHeader ''X-Mango-Cache'' ''HIT'', Send (FromCache ca)], s3)
              | None \<Rightarrow>
                  let (clientIP, s4) = extractIP r now s3;
                      r' = direct_host target (forward_headers clientIP bypass key r)
                  in (case ev_backend env of
                        ClientGone \<Rightarrow> ([], s4)
                      | BackendFailed \<Rightarrow> (proxy_error_page, s4)
                      | Answered resp readable \<Rightarrow>
                          let (resp', cdn) = modify_response (ev_ristretto env) (pl_cfg s4) target r' resp readable now (sh_cdn s4)
                          in ([Send (Forwarded r' resp')], s4\<lparr>sh_cdn := cdn\<rparr>)))"

definition serve_site :: "env \<Rightarrow> string \<Rightarrow> request \<Rightarrow> gotime \<Rightarrow> Shield \<Rightarrow> effect list \<times> Shield" where
  "serve_site env idle r now s =
     (let forward = (\<lambda>s. case sh_upstreams s of Some um \<Rightarrow> proxyRequest env r now um s | None \<Rightarrow> ([Send (Plain 200 idle)], s)) in
      case sh_cdn s of
        None \<Rightarrow> forward s
      | Some cm \<Rightarrow>
          let (found, cm') = ServeFromCache (ev_ristretto env) r now cm; s' = s\<lparr>sh_cdn := Some cm'\<rparr> in
          (case found of Some ca \<Rightarrow> ([SetHeader ''X-Mango-Cache'' ''HIT'', Send (FromCache ca)], s') | None \<Rightarrow> forward s'))"

subsection \<open>The handler\<close>

definition form_post :: "request \<Rightarrow> bool" where
  "form_post r \<longleftrightarrow> r_method r = ''POST'' \<and> str_contains (hdr_get r ''Content-Type'') ''application/x-www-form-urlencoded''"

text \<open>A solved challenge: the redirect to the path. \<open>None\<close> when the verification panics.\<close>

definition verify_post :: "env \<Rightarrow> request \<Rightarrow> string \<Rightarrow> gotime \<Rightarrow> Shield \<Rightarrow> (effect list option \<times> effect list \<times> Shield) option" where
  "verify_post env r ip now s =
     (if form_post r \<and> ev_formParses env \<and> form_value r ''challenge_type'' \<noteq> []
      then case HandleVerification r ip now (sh_challMgr s) of
             None \<Rightarrow> None
           | Some (solved, cookies, calls, m) \<Rightarrow>
               let s1 = fold (run_callback now) calls (s\<lparr>sh_challMgr := m\<rparr>)
               in Some (if solved
                  then Some [SetHeader ''Connection'' ''close'', Send (Redirect (if r_path r = [] then ''/'' else r_path r) 302)]
                  else None, map SendCookie cookies, s1)
      else Some (None, [], s))"

text \<open>The fast path of a verified visitor.\<close>

definition verified_visit :: "env \<Rightarrow> request \<Rightarrow> string \<Rightarrow> gotime \<Rightarrow> Shield \<Rightarrow> effect list \<times> Shield" where
  "verified_visit env r ip now s =
     (let inspect = (\<lambda>s. case pl_wafEngine s of
            None \<Rightarrow> (None, s)
          | Some we \<Rightarrow> if \<not> waf_Enabled (cfg_WAF (pl_cfg s)) then (None, s)
              else let (res, we') = Inspect r we; s' = s\<lparr>pl_wafEngine := Some we'\<rparr>
                   in if ir_Blocked res then (Some (ir_TopRule res), s') else (None, s'));
          pass = (\<lambda>s. let (found, s1) = inspect s in
            (case found of
               Some rule \<Rightarrow> ([SetHeader ''Connection'' ''close'', Send (BlockPage ip ''WAF Exploit Protection'' rule)], add_blocked s1)
             | None \<Rightarrow> let (effs, s2) = serve_site env ''Mango Shield v3.0 Active'' r now (add_passed s1)
                       in (SetHeader ''X-Mango-Shield'' ''verified-pass'' # effs, s2)))
      in case pl_detEngine s of
           None \<Rightarrow> pass s
         | Some e \<Rightarrow>
             let ((status, remaining), e') = CheckRateLimit ip now e; s1 = s\<lparr>pl_detEngine := Some e'\<rparr> in
             if 0 < status
             then ([SetHeader ''Connection'' ''close'', rate_limit_page ip remaining],
                   let s2 = add_blocked s1 in if status = 2 then BanIPLocal ip (1 * hour) now s2 else s2)
             else pass s1)"

definition allow_request :: "env \<Rightarrow> request \<Rightarrow> string \<Rightarrow> gotime \<Rightarrow> Shield \<Rightarrow> effect list \<times> Shield" where
  "allow_request env r ip now s =
     (let (proved, s1) = hasValidProof r ip now (add_passed s);
          (cookies, s2) = (if proved then ([], s1)
             else let (c, m) = SetSessionCookie ip now (sh_challMgr s1) in ([SendCookie c], s1\<lparr>sh_challMgr := m\<rparr>));
          (effs, s3) = serve_site env ''Mango Shield v3.0 Active (No Upstream Configured)'' r now s2
      in (cookies @ effs, s3))"

definition challenge_key :: "string \<Rightarrow> string" where
  "challenge_key ip = ip @ ''_ch''"

definition challenge_request :: "env \<Rightarrow> Action \<Rightarrow> string \<Rightarrow> gotime \<Rightarrow> Shield \<Rightarrow> effect list \<times> Shield" where
  "challenge_request env a ip now s =
     (let (trusted, s1) = isTrustedProxy ip now (add_blocked s);
          s2 = (if trusted \<or> isWhitelisted ip (pl_cfg s1) then s1
                else let (hits, s') = IncrementConnCount (challenge_key ip) now s1
                     in if 2 < hits \<or> st_IsUnderAttack (sh_stats s') then BanIPLocal ip (ban_duration s') now s' else s')
      in ([SetHeader ''Connection'' ''close'',
           Send (ChallengePage (ServeChallenge (sh_challMgr s2) now (ev_random env) (ac_Stage a) (ac_Difficulty a)))], s2))"

definition from_cloudflare :: "request \<Rightarrow> bool" where
  "from_cloudflare r \<longleftrightarrow> hdr_get r ''CF-Connecting-IP'' \<noteq> [] \<or> hdr_get r ''CF-Ray'' \<noteq> []"

definition fast_path_threshold :: "Config \<Rightarrow> int" where
  "fast_path_threshold cfg = (let t = em_RPSThreshold (pr_Emergency (cfg_Protection cfg)) * 2 in if t \<le> 0 then 100 else t)"

text \<open>The page of the first answer, then the answer under load or a second page.\<close>

definition block_request :: "Action \<Rightarrow> request \<Rightarrow> string \<Rightarrow> gotime \<Rightarrow> Shield \<Rightarrow> effect list \<times> Shield" where
  "block_request a r ip now s =
     (let s1 = ban_unless_trusted ip now (add_blocked s);
          first = [SetHeader ''Connection'' ''close'',
            if ac_Type a = ActionRateLimit then rate_limit_page ip 10 else Send (BlockPage ip ''Security Policy'' (ac_Reason a))];
          hot = (st_IsUnderAttack (sh_stats s1) \<or> fast_path_threshold (pl_cfg s1) < st_CurrentRPS (sh_stats s1))
      in (first @
          (if hot \<and> ac_Type a = ActionDrop \<and> from_cloudflare r
           then [SetHeader ''Content-Type'' ''text/plain; charset=utf-8'', SetHeader ''Connection'' ''close'',
                 SetHeader ''X-Mango-Shield'' ''dropped'', Send (Plain 403 ''403 Forbidden'')]
           else if hot \<and> ac_Type a = ActionDrop then [AbortConn]
           else if hot
           then [SetHeader ''Content-Type'' ''text/plain; charset=utf-8'', SetHeader ''X-Mango-Shield'' ''blocked'',
                 Send (Plain 403 ''403 Forbidden - Mango Shield Protection'')]
           else [Send (BlockPage ip ''WAF Protection'' (ac_Reason a))]), s1))"

definition execute_action :: "env \<Rightarrow> Action \<Rightarrow> request \<Rightarrow> string \<Rightarrow> gotime \<Rightarrow> Shield \<Rightarrow> effect list \<times> Shield" where
  "execute_action env a r ip now s = (case ac_Type a of
     ActionAllow \<Rightarrow> allow_request env r ip now s
   | ActionChallenge \<Rightarrow> challenge_request env a ip now s
   | _ \<Rightarrow> block_request a r ip now s)"

definition protected_visit :: "env \<Rightarrow> request \<Rightarrow> string \<Rightarrow> gotime \<Rightarrow> Shield \<Rightarrow> (effect list \<times> Shield) option" where
  "protected_visit env r ip now s =
     (let (fp, fs) = GetCompositeForRequest (r_remote_addr r) (user_agent r) (sh_fpStore s); s1 = s\<lparr>sh_fpStore := fs\<rparr> in
      case ProcessWithFingerprint r ip fp (ev_abuse env) (ev_hour env) now s1 of
        None \<Rightarrow> None
      | Some (a, s2) \<Rightarrow> Some (execute_action env a r ip now s2))"

definition alt_svc :: "Config \<Rightarrow> effect list" where
  "alt_svc cfg = (let h = cfg_HTTP3 cfg in
     if h3_Enabled h \<or> h3_AltSvcHeader h
     then [SetHeader ''Alt-Svc'' (''h3=\":'' @ itoa (if h3_Port h \<le> 0 then 443 else h3_Port h) @ ''\"; ma=86400'')] else [])"

definition handle_counted :: "env \<Rightarrow> request \<Rightarrow> string \<Rightarrow> gotime \<Rightarrow> Shield \<Rightarrow> (effect list \<times> Shield) option" where
  "handle_counted env r ip now s =
     (if r_path r \<in> set logo_paths then Some (serve_logo env r, s)
      else case verify_post env r ip now s of
        None \<Rightarrow> Some ([Send (Plain 500 ''Internal Server Error'')], s)
      | Some (Some redirect, cookies, s1) \<Rightarrow> Some (cookies @ redirect, s1)
      | Some (None, cookies, s1) \<Rightarrow>
          let (proved, s2) = hasValidProof r ip now s1 in
          if proved then let (effs, s3) = verified_visit env r ip now s2 in Some (cookies @ effs, s3)
          else map_option (\<lambda>(effs, s3). (cookies @ effs, s3)) (protected_visit env r ip now s2))"

definition handleRequest :: "env \<Rightarrow> request \<Rightarrow> gotime \<Rightarrow> Shield \<Rightarrow> (effect list \<times> Shield) option" where
  "handleRequest env r now s =
     (let (ip, s1) = extractIP r now s in
      map_option (\<lambda>(effs, s2). (alt_svc (pl_cfg s) @ effs, end_request r s2)) (handle_counted env r ip now (begin_request r s1)))"

text \<open>The handler of the plain port when TLS is on.\<close>

definition handleRedirect :: "env \<Rightarrow> request \<Rightarrow> gotime \<Rightarrow> Shield \<Rightarrow> (effect list \<times> Shield) option" where
  "handleRedirect env r now s =
     (if hdr_get r ''CF-Connecting-IP'' \<noteq> [] \<or> hdr_get r ''X-Forwarded-Proto'' = ''https'' \<or>
         str_contains (hdr_get r ''CF-Visitor'') ''https''
      then handleRequest env r now s
      else Some ([Send (Redirect (''https://'' @ r_host r @ r_uri r) 301)], s))"

end
