(* ===== verification/Decisions.thy ===== *)
theory Decisions
  imports Pipeline
begin

section \<open>What the pipeline decides\<close>

text \<open>
  Properties of \<open>ProcessWithFingerprint\<close> (core/pipeline.go): every request gets an answer, the modes that
  demand a proof let nobody else through, and what comes before the first counting layer.
\<close>

subsection \<open>Every layer answers\<close>

definition total_on :: "(Shield \<Rightarrow> bool) \<Rightarrow> layer \<Rightarrow> bool" where
  "total_on P l \<longleftrightarrow> (\<forall>s. P s \<longrightarrow> l s \<noteq> None)"

lemma total_run:
  "\<forall>l \<in> set ls. layer_ok P Q l \<and> total_on P l \<Longrightarrow> total_on P (run_layers ls)"
proof (induction ls)
  case Nil
  then show ?case by (simp add: total_on_def go_on_def)
next
  case (Cons l ls)
  then have l: "layer_ok P Q l" "total_on P l" and ls: "total_on P (run_layers ls)" by simp_all
  show ?case unfolding total_on_def
  proof (intro allI impI)
    fix s assume P: "P s"
    obtain x s1 where y: "l s = Some (x, s1)" using l(2) P by (auto simp: total_on_def)
    then show "run_layers (l # ls) s \<noteq> None"
      using layer_okD [OF l(1) P y] ls by (cases x) (auto simp: total_on_def)
  qed
qed

lemma feature_total: "feature_disabled f s = None \<Longrightarrow> pl_degrader s = Some []"
  by (auto simp: feature_disabled_def IsFeatureDisabled_def gd_Evaluate_def split: option.splits list.splits)

named_theorems answers

lemma total_easy [answers]:
  "total_on P (banned_layer ip now)" "total_on P (static_layer r)" "total_on P (emergency_layer attack r ip)"
  "total_on P (conn_layer ip now)" "total_on P (basic_layer r)" "total_on P (flood_layer attack r ip now)"
  "total_on P (whitelist_layer ip)"
  by (simp_all add: total_on_def banned_layer_def static_layer_def emergency_layer_def conn_layer_def basic_layer_def
      flood_layer_def whitelist_layer_def stop_def go_on_def Let_def case_prod_unfold)

lemma total_engines [answers]:
  "total_on P (validator_layer r ip now)" "total_on P (limiter_layer ip now)" "total_on P (session_layer r ip now)"
  "total_on P (det_layer r ip now)"
  by (simp_all add: total_on_def validator_layer_def limiter_layer_def session_layer_def det_layer_def
      stop_def go_on_def Let_def case_prod_unfold split: option.split)

lemma total_fp [answers]: "total_on P (fp_layer r ip fp now)"
  by (simp add: total_on_def fp_layer_def stop_def go_on_def Let_def case_prod_unfold split: option.split)

lemma total_bot: "bot_layer v r ip fp now s \<noteq> None"
  by (simp add: bot_layer_def stop_def go_on_def Let_def case_prod_unfold split: option.split)

lemma total_behavior [answers]: "total_on P (behavior_layer r ip fp now)"
  using total_bot by (simp add: total_on_def behavior_layer_def stop_def Let_def case_prod_unfold split: option.split)

lemma stage_answers: "\<exists>a s'. stage_layer attack r ip fp hr now s = Some (Some a, s')"
  by (simp add: stage_layer_def answer_stage_def stop_def Let_def case_prod_unfold)

lemma total_stage [answers]: "total_on P (stage_layer attack r ip fp hr now)"
  using stage_answers by (auto simp: total_on_def) (metis option.distinct(1))

lemma total_degrading [answers]:
  "total_on (\<lambda>s. pl_degrader s \<noteq> Some []) (waf_layer r ip now)"
  "total_on (\<lambda>s. pl_degrader s \<noteq> Some []) (intel_layer abuse ip now)"
  by (auto simp: total_on_def waf_layer_def intel_layer_def stop_def go_on_def Let_def case_prod_unfold
      dest: feature_total split: option.split)

lemma run_answers:
  "run_layers (ls @ [l]) s = Some (None, s') \<Longrightarrow> (\<And>s. \<exists>a s'. l s = Some (Some a, s')) \<Longrightarrow> False"
proof (induction ls arbitrary: s)
  case Nil
  obtain a t where "l s = Some (Some a, t)" using Nil(2) by blast
  then show ?case using Nil(1) by simp
next
  case (Cons k ls)
  then show ?case by (auto split: option.splits)
qed

lemma inner_total: "total_on (\<lambda>s. pl_degrader s \<noteq> Some []) (run_layers (inner_layers attack r ip fp abuse hr now))"
proof (rule total_run [where Q = well_formed])
  have "\<forall>l \<in> set (inner_layers attack r ip fp abuse hr now). total_on (\<lambda>s. pl_degrader s \<noteq> Some []) l"
    by (simp add: inner_layers_def answers)
  then show "\<forall>l \<in> set (inner_layers attack r ip fp abuse hr now).
      layer_ok (\<lambda>s. pl_degrader s \<noteq> Some []) well_formed l \<and> total_on (\<lambda>s. pl_degrader s \<noteq> Some []) l"
    using degrading.inner_each by blast
qed

lemma pipeline_total: "total_on (\<lambda>s. pl_degrader s \<noteq> Some []) (pipeline_layers r ip fp abuse hr now)"
  unfolding pipeline_layers_def
proof (rule total_run [where Q = well_formed], simp, intro conjI)
  show "total_on (\<lambda>s. pl_degrader s \<noteq> Some []) (\<lambda>s. run_layers (inner_layers (IsDomainUnderAttack (r_host r) s) r ip fp abuse hr now) s)"
    using inner_total by (simp add: total_on_def)
qed (simp_all add: answers layer_ok_mono [OF degrading.banned_holds holding_well_formed] layer_ok_const [OF degrading.inner_fine])

subsection \<open>Nobody passes a challenge mode without a proof\<close>

definition unproved :: "request \<Rightarrow> string \<Rightarrow> gotime \<Rightarrow> Shield \<Rightarrow> bool" where
  "unproved r ip now s \<longleftrightarrow>
     (case tm_load ip (pl_whitelist s) of None \<Rightarrow> True | Some t \<Rightarrow> t < now) \<and> \<not> fst (VerifyProof r ip now (sh_challMgr s))"

lemma hasValidProof_unproved: "fst (hasValidProof r ip now s) \<longleftrightarrow> \<not> unproved r ip now s"
  by (auto simp: hasValidProof_def hasDynamicWhitelist_def unproved_def Let_def case_prod_unfold split: option.split)

lemma VerifyProof_refused:
  "\<not> fst (VerifyProof r ip now m) \<Longrightarrow>
     snd (VerifyProof r ip now m) = m \<or>
     snd (VerifyProof r ip now m) = m\<lparr>mg_verifiedIPs := AList.delete ip (mg_verifiedIPs m)\<rparr>"
  unfolding VerifyProof_def Let_def
  by (cases "pick_cookie r"; cases "map_of (mg_verifiedIPs m) ip") (simp_all split: prod.splits if_splits)

lemma VerifyProof_stays:
  assumes "\<not> fst (VerifyProof r ip now m)"
  shows "\<not> fst (VerifyProof r ip now (snd (VerifyProof r ip now m)))"
proof -
  have "\<not> fst (VerifyProof r ip now (m\<lparr>mg_verifiedIPs := AList.delete ip (mg_verifiedIPs m)\<rparr>))"
    using assms unfolding VerifyProof_result by (auto simp: gomap_simps)
  then show ?thesis using VerifyProof_refused [OF assms] assms by auto
qed

definition challenge_modes :: "string list" where
  "challenge_modes = [''silent'', ''challenge'', ''captcha'', ''emergency'', ''under_attack'']"

definition mode_in :: "Config \<Rightarrow> (string, string) gomap \<Rightarrow> string \<Rightarrow> string" where
  "mode_in cfg modes host = (case map_of modes (strip_port (to_lower host)) of Some m \<Rightarrow> m | None \<Rightarrow> pr_Mode (cfg_Protection cfg))"

definition barred :: "Config \<Rightarrow> (string, string) gomap \<Rightarrow> request \<Rightarrow> string \<Rightarrow> bool" where
  "barred cfg modes r ip \<longleftrightarrow> mode_in cfg modes (r_host r) \<in> set challenge_modes \<and> \<not> isWhitelisted ip cfg \<and> \<not> isStaticAsset (r_path r)"

definition sealed :: "Config \<Rightarrow> (string, string) gomap \<Rightarrow> request \<Rightarrow> string \<Rightarrow> gotime \<Rightarrow> Shield \<Rightarrow> bool" where
  "sealed cfg modes r ip now s \<longleftrightarrow> pl_cfg s = cfg \<and> pl_domainModeMap s = modes \<and> tm_ok (pl_whitelist s) \<and>
     barred cfg modes r ip \<and> unproved r ip now s"

lemma sealed_frame:
  "pl_cfg t = pl_cfg s \<Longrightarrow> pl_domainModeMap t = pl_domainModeMap s \<Longrightarrow> pl_whitelist t = pl_whitelist s \<Longrightarrow>
     sh_challMgr t = sh_challMgr s \<Longrightarrow> sealed cfg modes r ip now t = sealed cfg modes r ip now s"
  by (simp add: sealed_def unproved_def)

lemma sealed_ops:
  "sealed cfg modes r ip now (snd (getState ip' now' s)) = sealed cfg modes r ip now s"
  "sealed cfg modes r ip now (set_state ip' st s) = sealed cfg modes r ip now s"
  "sealed cfg modes r ip now (snd (isBanned ip' now' s)) = sealed cfg modes r ip now s"
  "sealed cfg modes r ip now (banIP ip' d now' s) = sealed cfg modes r ip now s"
  "sealed cfg modes r ip now (BanIPLocal ip' d now' s) = sealed cfg modes r ip now s"
  "sealed cfg modes r ip now (s\<lparr>pl_wafEngine := we\<rparr>) = sealed cfg modes r ip now s"
  "sealed cfg modes r ip now (s\<lparr>pl_intel := i\<rparr>) = sealed cfg modes r ip now s"
  "sealed cfg modes r ip now (s\<lparr>pl_rateLimiter := rl\<rparr>) = sealed cfg modes r ip now s"
  "sealed cfg modes r ip now (s\<lparr>pl_botClass := bt\<rparr>) = sealed cfg modes r ip now s"
  "sealed cfg modes r ip now (s\<lparr>pl_behavior := ba\<rparr>) = sealed cfg modes r ip now s"
  "sealed cfg modes r ip now (s\<lparr>pl_detEngine := e\<rparr>) = sealed cfg modes r ip now s"
  by (rule sealed_frame; simp)+

lemma sealed_listed: "sealed cfg modes r ip now s \<Longrightarrow> sealed cfg modes r ip now (snd (hasDynamicWhitelist ip now s))"
  by (simp add: sealed_def unproved_def hasDynamicWhitelist_def split: option.splits)

lemma sealed_verify:
  "sealed cfg modes r ip now s \<Longrightarrow> sealed cfg modes r ip now (s\<lparr>sh_challMgr := snd (VerifyProof r ip now (sh_challMgr s))\<rparr>)"
  by (simp add: sealed_def unproved_def VerifyProof_stays)

interpretation sealed: pipeline_contract "sealed cfg modes r ip now" r ip now
  for cfg :: Config and modes :: "(string, string) gomap" and r :: request and ip :: string and now :: gotime
  by unfold_locales (simp_all add: sealed_listed sealed_verify sealed_ops)

lemma sealed_mode: "sealed cfg modes r ip now s \<Longrightarrow> resolveDomainMode r s \<in> set challenge_modes"
  by (auto simp: sealed_def barred_def resolveDomainMode_def mode_in_def)

lemma sealed_static: "layer_ok (sealed cfg modes r ip now) holding (static_layer r)"
  by (rule layer_okI) (auto simp: static_layer_def go_on_def sealed_def barred_def split: if_splits)

lemma sealed_whitelist: "layer_ok (sealed cfg modes r ip now) holding (whitelist_layer ip)"
  by (rule layer_okI) (auto simp: whitelist_layer_def go_on_def sealed_def barred_def split: if_splits)

lemma sealed_fp: "layer_ok (sealed cfg modes r ip now) holding (fp_layer r ip fp now)"
proof (rule layer_okI)
  fix s x s' assume P: "sealed cfg modes r ip now s" and l: "fp_layer r ip fp now s = Some (x, s')"
  have "resolveDomainMode r s \<notin> {''off'', ''auto'', ''monitor'', []}"
    using sealed_mode [OF P] by (auto simp: challenge_modes_def)
  then show "sealed cfg modes r ip now s' \<and> (\<forall>a. x = Some a \<longrightarrow> holding a)"
    using l P by (auto simp: fp_layer_def stop_def go_on_def Let_def case_prod_unfold sealed.keeps split: if_splits option.splits)
qed

lemma determine_positive:
  assumes "unproved r ip now s" and "mode \<in> set challenge_modes"
  shows "0 < fst (determineStageWithFP st ip r fp mode attack now s)"
  using assms hasValidProof_unproved [of r ip now s]
  by (auto simp: determineStageWithFP_def challenge_modes_def Let_def case_prod_unfold)

lemma sealed_stage: "layer_ok (sealed cfg modes r ip now) holding (stage_layer attack r ip fp hr now)"
proof (rule layer_okI)
  fix s x s' assume P: "sealed cfg modes r ip now s" and l: "stage_layer attack r ip fp hr now s = Some (x, s')"
  obtain st0 s1 where g: "getState ip now s = (st0, s1)" by fastforce
  define st where "st = updateRPS (pl_fastUnixSec s1) st0"
  define s2 where "s2 = set_state ip st s1"
  have P2: "sealed cfg modes r ip now s2"
    using sealed.keep_getState [OF P] g by (simp add: s2_def sealed.keep_set_state)
  have "unproved r ip now s2" using P2 by (simp add: sealed_def)
  note pos = determine_positive [OF this sealed_mode [OF P2], of st fp attack]
  have "answer_stage (fst (determineStageWithFP st ip r fp (resolveDomainMode r s2) attack now s2)) st ip fp hr now
      (snd (determineStageWithFP st ip r fp (resolveDomainMode r s2) attack now s2)) = Some (x, s')"
    using l unfolding stage_layer_def g Let_def prod.case st_def [symmetric] s2_def [symmetric] by (simp add: case_prod_unfold)
  then have "\<forall>a. x = Some a \<longrightarrow> ac_Type a \<noteq> ActionAllow"
    using pos by (auto simp: answer_stage_def stop_def act_def Let_def split: if_splits)
  then show "sealed cfg modes r ip now s' \<and> (\<forall>a. x = Some a \<longrightarrow> holding a)"
    using layer_okD [OF sealed.stage_fine P l] by (simp add: holding_def)
qed

lemma sealed_each: "\<forall>l \<in> set (inner_layers attack r ip fp abuse hr now). layer_ok (sealed cfg modes r ip now) holding l"
  by (simp add: inner_layers_def sealed.waf_holds sealed_static sealed.emergency_holds sealed.conn_holds sealed.validator_holds
      sealed.basic_holds sealed_fp sealed.intel_holds sealed.flood_holds sealed.limiter_holds sealed_whitelist
      sealed.behavior_holds sealed.session_holds sealed.det_holds sealed_stage)

lemma sealed_pipeline: "layer_ok (sealed cfg modes r ip now) holding (pipeline_layers r ip fp abuse hr now)"
  unfolding pipeline_layers_def
  by (rule layer_ok_run) (simp add: sealed.banned_holds layer_ok_const [OF layer_ok_run [OF sealed_each]])

lemma pipeline_answers: "pipeline_layers r ip fp abuse hr now s \<noteq> Some (None, s')"
proof
  assume "pipeline_layers r ip fp abuse hr now s = Some (None, s')"
  then obtain s1 where "run_layers (inner_layers (IsDomainUnderAttack (r_host r) s1) r ip fp abuse hr now) s1 = Some (None, s')"
    by (auto simp: pipeline_layers_def go_on_def split: option.splits)
  then show False
    using run_answers [where ls = "butlast (inner_layers (IsDomainUnderAttack (r_host r) s1) r ip fp abuse hr now)"
        and l = "stage_layer (IsDomainUnderAttack (r_host r) s1) r ip fp hr now"] stage_answers
    by (simp add: inner_layers_def)
qed

end
