(* ===== verification/Server_Contract.thy ===== *)
theory Server_Contract
  imports Server_Run Decisions Cluster Waf_Rules
begin

section \<open>Everything that happens to a running server\<close>

text \<open>
  A contract like that of the layers, for the whole server: what survives the primitive updates survives
  every request, connection, tick, message and command. It is interpreted twice, for the guard of
  \<open>Bans\<close> and for a degrader that has levels. Lemmas: the reachable states of a server.
\<close>

locale server_contract =
  fixes P :: "Shield \<Rightarrow> bool"
  assumes pipe: "pipeline_contract P r ip now"
    and keep_stats: "P s \<Longrightarrow> P (s\<lparr>sh_stats := st\<rparr>)"
    and keep_domainReqs: "P s \<Longrightarrow> P (s\<lparr>sh_domainReqs := dr\<rparr>)"
    and keep_fails: "P s \<Longrightarrow> P (s\<lparr>sh_challengeFails := f\<rparr>)"
    and keep_manager: "P s \<Longrightarrow> P (s\<lparr>sh_challMgr := m\<rparr>)"
    and keep_fpStore: "P s \<Longrightarrow> P (s\<lparr>sh_fpStore := fs\<rparr>)"
    and keep_cdn: "P s \<Longrightarrow> P (s\<lparr>sh_cdn := c\<rparr>)"
    and keep_upstreams: "P s \<Longrightarrow> P (s\<lparr>sh_upstreams := u\<rparr>)"
    and keep_transport: "P s \<Longrightarrow> P (s\<lparr>sh_transport := t\<rparr>)"
    and keep_domainState: "P s \<Longrightarrow> P (s\<lparr>sh_domainLastReqs := d1\<rparr>)" "P s \<Longrightarrow> P (s\<lparr>sh_domainRPS := d2\<rparr>)"
      "P s \<Longrightarrow> P (s\<lparr>sh_domainUnderAttack := d3\<rparr>)" "P s \<Longrightarrow> P (s\<lparr>sh_domainAttackStart := d4\<rparr>)"
      "P s \<Longrightarrow> P (s\<lparr>sh_domainNormalCount := d5\<rparr>)"
    and keep_alerts: "P s \<Longrightarrow> P (s\<lparr>pl_alerts := a\<rparr>)"
    and keep_mesh: "P s \<Longrightarrow> P (s\<lparr>pl_mesh := n\<rparr>)"
    and keep_xdp: "P s \<Longrightarrow> P (s\<lparr>pl_xdpMgr := x\<rparr>)"
    and keep_adaptive: "P s \<Longrightarrow> P (s\<lparr>pl_adaptive := al\<rparr>)"
    and keep_clock: "P s \<Longrightarrow> P (s\<lparr>pl_fastUnixSec := i\<rparr>)"
    and keep_queue: "P s \<Longrightarrow> length q \<le> length (pl_banQueue s) \<Longrightarrow> P (s\<lparr>pl_banQueue := q\<rparr>)"
    and keep_UnbanIP: "P s \<Longrightarrow> P (UnbanIP ip now s)"
    and keep_UnbanAll: "P s \<Longrightarrow> P (UnbanAllIPs now s)"
    and keep_Cleanup: "P s \<Longrightarrow> P (pl_Cleanup now s)"
    and keep_BannedList: "P s \<Longrightarrow> P (snd (GetBannedIPsList now s))"
begin

lemmas pipe_keeps =
  pipeline_contract.keep_getState [OF pipe] pipeline_contract.keep_set_state [OF pipe] pipeline_contract.keep_isBanned [OF pipe]
  pipeline_contract.keep_banIP [OF pipe] pipeline_contract.keep_BanIPLocal [OF pipe] pipeline_contract.keep_waf [OF pipe]
  pipeline_contract.keep_detEngine [OF pipe] pipeline_contract.keep_behavior [OF pipe] pipeline_contract.keep_botClass [OF pipe]
  pipeline_contract.keep_trusted [OF pipe] pipeline_contract.keep_unless [OF pipe] pipeline_contract.keep_proof [OF pipe]

lemmas all_keeps = pipe_keeps keep_stats keep_domainReqs keep_fails keep_manager keep_fpStore keep_cdn keep_upstreams
  keep_transport keep_domainState keep_alerts keep_mesh keep_xdp keep_adaptive keep_clock keep_UnbanIP keep_UnbanAll
  keep_Cleanup keep_BannedList

lemma stats_keep: "P s \<Longrightarrow> P (map_stats f s)" "P s \<Longrightarrow> P (add_blocked s)" "P s \<Longrightarrow> P (add_passed s)"
  by (simp_all add: map_stats_def add_blocked_def add_passed_def keep_stats)

lemma extract_keeps: "P s \<Longrightarrow> P (snd (extractIP r now s))"
  by (simp add: extractIP_def Let_def case_prod_unfold pipe_keeps)

lemma bracket_keeps: "P s \<Longrightarrow> P (begin_request r s)" "P s \<Longrightarrow> P (end_request r s)"
  by (simp_all add: begin_request_def end_request_def update_domain_def Let_def keep_domainReqs stats_keep)

lemma callback_keeps: "P s \<Longrightarrow> P (run_callback now c s)"
  by (cases c) (simp_all add: OnVerifySuccess_def OnVerifyFailed_def Let_def all_keeps)

lemma callbacks_keep: "P s \<Longrightarrow> P (fold (run_callback now) cs s)"
  by (induction cs arbitrary: s) (simp_all add: callback_keeps)

lemma verify_keeps: "P s \<Longrightarrow> verify_post env r ip now s = Some (x, cs, s') \<Longrightarrow> P s'"
  by (auto simp: verify_post_def Let_def callbacks_keep keep_manager split: if_splits option.splits)

lemma proxy_cache_keeps: "P s \<Longrightarrow> P (snd (proxy_cache env r now s))"
  by (simp add: proxy_cache_def Let_def case_prod_unfold keep_cdn split: option.split)

lemma proxy_keeps: "P s \<Longrightarrow> P (snd (proxyRequest env r now um s))"
  by (simp add: proxyRequest_def Let_def case_prod_unfold proxy_cache_keeps extract_keeps all_keeps
      split: option.split backend_answer.split)

lemma site_keeps: "P s \<Longrightarrow> P (snd (serve_site env idle r now s))"
  by (simp add: serve_site_def Let_def case_prod_unfold keep_cdn proxy_keeps split: option.split)

lemma verified_keeps: "P s \<Longrightarrow> P (snd (verified_visit env r ip now s))"
  by (simp add: verified_visit_def Let_def case_prod_unfold stats_keep site_keeps all_keeps split: option.split)

lemma action_keeps: "P s \<Longrightarrow> P (snd (execute_action env a r ip now s))"
  by (simp add: execute_action_def allow_request_def challenge_request_def block_request_def IncrementConnCount_def
      Let_def case_prod_unfold stats_keep site_keeps all_keeps split: ActionType.split)

lemma visit_keeps: "P s \<Longrightarrow> protected_visit env r ip now s = Some (effs, s') \<Longrightarrow> P s'"
  using pipeline_contract.process_keeps(1) [OF pipe] action_keeps
  by (auto simp: protected_visit_def Let_def case_prod_unfold keep_fpStore split: option.splits)
    (metis keep_fpStore prod.collapse snd_conv)

lemma counted_keeps:
  assumes "P s" and "handle_counted env r ip now s = Some (effs, s')"
  shows "P s'"
proof (cases "r_path r \<in> set logo_paths \<or> verify_post env r ip now s = None")
  case True
  then show ?thesis using assms by (auto simp: handle_counted_def split: if_splits)
next
  case False
  then obtain x cs s1 where v: "verify_post env r ip now s = Some (x, cs, s1)" by auto
  obtain proved s2 where p: "hasValidProof r ip now s1 = (proved, s2)" by fastforce
  have P2: "P s2" using pipe_keeps(12) [OF verify_keeps [OF assms(1) v]] p by (metis snd_conv)
  show ?thesis
    using assms(2) False v p verify_keeps [OF assms(1) v] verified_keeps [OF P2] visit_keeps [OF P2]
    by (auto simp: handle_counted_def Let_def case_prod_unfold split: option.splits if_splits)
qed

lemma handle_keeps:
  assumes "P s" and "handleRequest env r now s = Some (effs, s')"
  shows "P s'"
proof -
  obtain ip s1 where e: "extractIP r now s = (ip, s1)" by fastforce
  obtain effs' s2 where h: "handle_counted env r ip now (begin_request r s1) = Some (effs', s2)" and s': "s' = end_request r s2"
    using assms(2) e by (auto simp: handleRequest_def)
  have "P s1" using extract_keeps [OF assms(1)] e by (metis snd_conv)
  then show ?thesis unfolding s' using counted_keeps [OF _ h] by (simp add: bracket_keeps)
qed

lemma redirect_keeps: "P s \<Longrightarrow> handleRedirect env r now s = Some (effs, s') \<Longrightarrow> P s'"
  using handle_keeps by (auto simp: handleRedirect_def split: if_splits)

lemma conn_keeps: "P s \<Longrightarrow> P (snd (conn_event addr st now s))"
  by (simp add: conn_event_def admit_conn_def open_conn_def close_conn_def CheckConnRate_def IncrementConnCount_def
      DecrementConnCount_def Let_def case_prod_unfold stats_keep all_keeps)

lemma fold_keeps: "(\<And>x s. P s \<Longrightarrow> P (f x s)) \<Longrightarrow> P s \<Longrightarrow> P (fold f xs s)"
  by (induction xs arbitrary: s) simp_all

lemma rps_keeps: "P s \<Longrightarrow> P (snd (rps_tick prev s))"
  by (simp add: rps_tick_def Let_def, intro fold_keeps)
    (simp_all add: count_domain_def Let_def keep_domainState stats_keep split: option.split)

lemma load_keeps: "P s \<Longrightarrow> P (snd (cluster_load dName now s))"
  by (simp add: cluster_load_def Let_def case_prod_unfold keep_mesh split: option.split)

lemma detect_keeps: "P s \<Longrightarrow> P (detect_domain now d s)"
  by (simp add: detect_domain_def calm_tick_def start_attack_def end_attack_def Let_def case_prod_unfold
      keep_domainState keep_alerts keep_mesh stats_keep load_keeps)

lemma attack_keeps: "P s \<Longrightarrow> P (attack_tick now s)"
  unfolding attack_tick_def by (intro fold_keeps detect_keeps)

lemma workers_keep:
  "P s \<Longrightarrow> P (cleanup_tick now s)" "P s \<Longrightarrow> P (sampler_tick hr now s)" "P s \<Longrightarrow> P (clock_tick now s)" "P s \<Longrightarrow> P (Stop now s)"
  by (simp_all add: cleanup_tick_def sampler_tick_def clock_tick_def Stop_def Let_def all_keeps)

lemma remote_keeps: "P s \<Longrightarrow> P (BanIPRemote ip d now s)"
  by (simp add: BanIPRemote_def Let_def case_prod_unfold all_keeps)

lemma receive_keeps: "P s \<Longrightarrow> P (receive w now s)"
  by (simp add: receive_def handle_call_def Let_def case_prod_unfold all_keeps remote_keeps
      split: option.split mesh_call.split)

lemma flush_keeps: "P s \<Longrightarrow> P (snd (flushBans batch now s))"
proof -
  assume P: "P s"
  have one: "P t \<Longrightarrow> P (flush_one now req t)" for t req
    by (simp add: flush_one_def Let_def case_prod_unfold all_keeps)
  have lines: "P (snd acc) \<Longrightarrow> P (snd (fold (restore_line now) batch acc))" for acc
    by (induction batch arbitrary: acc) (simp_all add: restore_line_def Let_def case_prod_unfold all_keeps)
  have "P (fold (flush_one now) batch s)" by (rule fold_keeps [OF one P])
  then show ?thesis using lines [of "([], fold (flush_one now) batch s)"] by (simp add: flushBans_def Let_def)
qed

lemma worker_keeps: "P s \<Longrightarrow> P (snd (snd (ban_worker ev now (batch, s))))"
  by (cases ev; cases "pl_banQueue s")
    (simp_all add: ban_worker_def Let_def case_prod_unfold flush_keeps keep_queue)

end

subsection \<open>The contract holds\<close>

lemma guarded_rest [simp]:
  "guarded cfg (s\<lparr>sh_stats := st\<rparr>) = guarded cfg s" "guarded cfg (s\<lparr>sh_domainReqs := dr\<rparr>) = guarded cfg s"
  "guarded cfg (s\<lparr>sh_challengeFails := f\<rparr>) = guarded cfg s" "guarded cfg (s\<lparr>sh_fpStore := fs\<rparr>) = guarded cfg s"
  "guarded cfg (s\<lparr>sh_cdn := c\<rparr>) = guarded cfg s" "guarded cfg (s\<lparr>sh_upstreams := u\<rparr>) = guarded cfg s"
  "guarded cfg (s\<lparr>sh_transport := t\<rparr>) = guarded cfg s" "guarded cfg (s\<lparr>sh_domainLastReqs := d1\<rparr>) = guarded cfg s"
  "guarded cfg (s\<lparr>sh_domainRPS := d2\<rparr>) = guarded cfg s" "guarded cfg (s\<lparr>sh_domainUnderAttack := d3\<rparr>) = guarded cfg s"
  "guarded cfg (s\<lparr>sh_domainAttackStart := d4\<rparr>) = guarded cfg s" "guarded cfg (s\<lparr>sh_domainNormalCount := d5\<rparr>) = guarded cfg s"
  "guarded cfg (s\<lparr>pl_alerts := a\<rparr>) = guarded cfg s" "guarded cfg (s\<lparr>pl_mesh := n\<rparr>) = guarded cfg s"
  "guarded cfg (s\<lparr>pl_xdpMgr := x\<rparr>) = guarded cfg s" "guarded cfg (s\<lparr>pl_adaptive := al\<rparr>) = guarded cfg s"
  "guarded cfg (s\<lparr>pl_fastUnixSec := i\<rparr>) = guarded cfg s" "guarded cfg (s\<lparr>pl_degrader := gd\<rparr>) = guarded cfg s"
  by (simp_all add: guarded_def shield_ok_def)

lemma guarded_queue: "guarded cfg s \<Longrightarrow> length q \<le> length (pl_banQueue s) \<Longrightarrow> guarded cfg (s\<lparr>pl_banQueue := q\<rparr>)"
  by (simp add: guarded_def shield_ok_def)

lemma sweep_degrader [simp]: "pl_degrader (pl_Cleanup now s) = pl_degrader s"
proof -
  have "pl_degrader (fold (cleanup_ban now) kvs s) = pl_degrader s" for kvs s
    by (induction kvs arbitrary: s) (simp_all add: cleanup_ban_def add_banned_stat_def split: prod.split)
  then show ?thesis by (simp add: pl_Cleanup_def Let_def)
qed

interpretation guarded_server: server_contract "guarded cfg" for cfg :: Config
  by unfold_locales (simp_all add: guarded_queue)

interpretation degrading_server: server_contract "\<lambda>s. pl_degrader s \<noteq> Some []"
  by unfold_locales (simp_all add: UnbanIP_def push_cf_unban_def UnbanAllIPs_def GetBannedIPsList_def Let_def)

subsection \<open>Start and steps\<close>

text \<open>The start as \<open>main\<close> wires it; the engines are made from the configuration, the mesh joins last.\<close>

definition start_server ::
  "Config \<Rightarrow> XDPManager \<Rightarrow> (string \<Rightarrow> bool) \<Rightarrow> (string \<Rightarrow> CustomRuleEntry list option) \<Rightarrow> CDNManager option \<Rightarrow> MeshNode option \<Rightarrow> gotime \<Rightarrow> Shield" where
  "start_server cfg xdp exists decode cdn mesh now =
     (let s0 = (New cfg xdp (Some \<lparr>cf_BanQueue = [], cf_UnbanQueue = []\<rparr>) now)\<lparr>sh_cdn := cdn\<rparr>;
          we0 = NewEngine (cfg_WAF cfg);
          we = (if waf_CustomRulesPath (cfg_WAF cfg) \<noteq> [] then snd (LoadCustomRules decode (waf_CustomRulesPath (cfg_WAF cfg)) we0) else we0);
          s1 = SetFingerprintStore (Some []) s0;
          s2 = SetIntel (NewIntel exists cfg) s1;
          s3 = SetDetectionEngine (de_NewEngine cfg now) s2;
          s4 = SetBehaviorAnalyzer [] s3;
          s5 = SetBotClassifier NewBotClassifier s4;
          s6 = SetAdaptiveLearner NewAdaptiveLearner s5;
          s7 = SetWAFEngine we s6;
          rate = pr_RateLimit (cfg_Protection cfg);
          s8 = SetRateLimiter (NewIPRateLimiter (f_of_int (rl_RequestsPerSecond rate)) (f_of_int (rl_Burst rate))) s7;
          s9 = SetGracefulDegrader NewGracefulDegrader s8;
          s10 = SetUpstreamManager (NewUpstreamManager (Some cfg)) s9
      in s10\<lparr>pl_mesh := mesh\<rparr>)"

inductive server_step :: "Shield \<Rightarrow> Shield \<Rightarrow> bool" where
  step_request: "handleRequest env r now s = Some (effs, s') \<Longrightarrow> server_step s s'"
| step_redirect: "handleRedirect env r now s = Some (effs, s') \<Longrightarrow> server_step s s'"
| step_conn: "server_step s (snd (conn_event addr st now s))"
| step_rps: "server_step s (snd (rps_tick prev s))"
| step_attack: "server_step s (attack_tick now s)"
| step_cleanup: "server_step s (cleanup_tick now s)"
| step_sampler: "server_step s (sampler_tick hr now s)"
| step_clock: "server_step s (clock_tick now s)"
| step_mesh: "server_step s (receive w now s)"
| step_worker: "server_step s (snd (snd (ban_worker ev now (batch, s))))"
| step_unban: "server_step s (UnbanIP ip now s)"
| step_unban_all: "server_step s (UnbanAllIPs now s)"
| step_list: "server_step s (snd (GetBannedIPsList now s))"
| step_stop: "server_step s (Stop now s)"

abbreviation server_reaches :: "Shield \<Rightarrow> Shield \<Rightarrow> bool" where
  "server_reaches \<equiv> server_step\<^sup>*\<^sup>*"

lemma contract_step:
  assumes "server_contract P" and "server_step s s'" and "P s"
  shows "P s'"
  using assms(2,3)
proof (induction rule: server_step.induct)
  case (step_request env r now s effs s')
  then show ?case using server_contract.handle_keeps [OF assms(1)] by blast
next
  case (step_redirect env r now s effs s')
  then show ?case using server_contract.redirect_keeps [OF assms(1)] by blast
qed (rule server_contract.conn_keeps [OF assms(1)] server_contract.rps_keeps [OF assms(1)] server_contract.attack_keeps [OF assms(1)]
    server_contract.workers_keep [OF assms(1)] server_contract.receive_keeps [OF assms(1)] server_contract.worker_keeps [OF assms(1)]
    server_contract.keep_UnbanIP [OF assms(1)] server_contract.keep_UnbanAll [OF assms(1)] server_contract.keep_BannedList [OF assms(1)];
    assumption)+

lemma contract_reaches:
  assumes "server_contract P" and "server_reaches s s'" and "P s"
  shows "P s'"
  using assms(2,3) by (induction rule: rtranclp_induct) (simp_all add: contract_step [OF assms(1)])

lemma guarded_start: "guarded cfg (start_server cfg xdp exists decode cdn mesh now)"
  using guarded_new [of cfg xdp "Some \<lparr>cf_BanQueue = [], cf_UnbanQueue = []\<rparr>" now]
  by (simp add: start_server_def Let_def SetFingerprintStore_def SetIntel_def SetDetectionEngine_def SetBehaviorAnalyzer_def
      SetBotClassifier_def SetAdaptiveLearner_def SetWAFEngine_def SetRateLimiter_def SetGracefulDegrader_def SetUpstreamManager_def)

lemma degrading_start: "pl_degrader (start_server cfg xdp exists decode cdn mesh now) \<noteq> Some []"
  by (simp add: start_server_def Let_def SetGracefulDegrader_def SetUpstreamManager_def NewGracefulDegrader_def)

end
