(* ===== verification/Guarantees.thy ===== *)
theory Guarantees
  imports Server_Contract
begin

section \<open>What the server guarantees, and what it does not\<close>

text \<open>
  Properties of the whole server: of every reachable state, of every answer, of the modes that demand a
  proof, and of the counters shared between addresses and between connections.
\<close>

subsection \<open>Every request is answered\<close>

definition replies :: "effect list \<Rightarrow> reply list" where
  "replies effs = List.map_filter (\<lambda>e. case e of Send p \<Rightarrow> Some p | _ \<Rightarrow> None) effs"

definition answered :: "env \<Rightarrow> effect list \<Rightarrow> bool" where
  "answered env effs \<longleftrightarrow> length (replies effs) \<le> 2 \<and> (replies effs = [] \<longrightarrow> ev_backend env = ClientGone)"

lemma replies_simps [simp]:
  "replies [] = []" "replies (Send p # effs) = p # replies effs" "replies (SetHeader k v # effs) = replies effs"
  "replies (SendCookie c # effs) = replies effs" "replies (AbortConn # effs) = replies effs"
  "replies (effs @ effs') = replies effs @ replies effs'"
  by (simp_all add: replies_def List.map_filter_def)

lemma replies_rest [simp]: "replies (map SendCookie cs) = []" "replies (alt_svc cfg) = []" "replies [rate_limit_page ip n] \<noteq> []"
  "length (replies [rate_limit_page ip n]) = 1" "length (replies (rate_limit_page ip n # effs)) = Suc (length (replies effs))"
  "replies (rate_limit_page ip n # effs) \<noteq> []"
  by (simp_all add: replies_def List.map_filter_def alt_svc_def rate_limit_page_def Let_def comp_def)

lemma answered_more [simp]: "replies pre = [] \<Longrightarrow> answered env (pre @ effs) = answered env effs"
  "answered env (SetHeader k v # effs) = answered env effs"
  by (simp_all add: answered_def)

lemma answered_proxy: "length (replies (fst (proxyRequest env r now um s))) \<le> 1 \<and> answered env (fst (proxyRequest env r now um s))"
  by (simp add: proxyRequest_def answered_def proxy_error_page_def Let_def case_prod_unfold split: option.split backend_answer.split)

lemma answered_site: "length (replies (fst (serve_site env idle r now s))) \<le> 1 \<and> answered env (fst (serve_site env idle r now s))"
  using answered_proxy by (simp add: serve_site_def Let_def case_prod_unfold split: option.split) (simp add: answered_def)

lemma answered_logo: "answered env (serve_logo env r)"
  by (simp add: answered_def serve_logo_def)

lemma answered_verified: "answered env (fst (verified_visit env r ip now s))"
  using answered_site by (simp add: verified_visit_def Let_def case_prod_unfold split: option.split) (simp add: answered_def)

lemma answered_allow: "answered env (fst (allow_request env r ip now s))"
  using answered_site by (simp add: allow_request_def Let_def case_prod_unfold)

lemma answered_hold: "answered env (fst (challenge_request env a ip now s))" "answered env (fst (block_request a r ip now s))"
  by (simp_all add: challenge_request_def block_request_def Let_def case_prod_unfold) (simp_all add: answered_def)

lemma answered_action: "answered env (fst (execute_action env a r ip now s))"
  using answered_allow answered_hold by (simp add: execute_action_def split: ActionType.split)

lemma process_total: "pl_degrader s \<noteq> Some [] \<Longrightarrow> ProcessWithFingerprint r ip fp abuse hr now s \<noteq> None"
  using pipeline_total [of r ip fp abuse hr now]
  by (auto simp: ProcessWithFingerprint_def total_on_def split: option.split)

lemma visit_answers:
  assumes "pl_degrader s \<noteq> Some []"
  shows "\<exists>effs s'. protected_visit env r ip now s = Some (effs, s') \<and> answered env effs"
proof -
  obtain fp fs where fp: "GetCompositeForRequest (r_remote_addr r) (user_agent r) (sh_fpStore s) = (fp, fs)" by fastforce
  obtain a s2 where "ProcessWithFingerprint r ip fp (ev_abuse env) (ev_hour env) now (s\<lparr>sh_fpStore := fs\<rparr>) = Some (a, s2)"
    using process_total [of "s\<lparr>sh_fpStore := fs\<rparr>"] assms by fastforce
  then show ?thesis
    using answered_action [of env a r ip now s2] fp by (auto simp: protected_visit_def intro: prod.collapse [symmetric])
qed

lemma counted_answers:
  assumes "pl_degrader s \<noteq> Some []"
  shows "\<exists>effs s'. handle_counted env r ip now s = Some (effs, s') \<and> answered env effs"
proof (cases "r_path r \<in> set logo_paths \<or> verify_post env r ip now s = None")
  case True
  then show ?thesis using answered_logo by (auto simp: handle_counted_def) (simp_all add: answered_def)
next
  case False
  then obtain x cs s1 where v: "verify_post env r ip now s = Some (x, cs, s1)" by auto
  show ?thesis
  proof (cases x)
    case (Some redirect)
    then have "answered env redirect"
      using v by (auto simp: verify_post_def Let_def answered_def split: if_splits option.splits)
    moreover have "replies cs = []"
      using v by (auto simp: verify_post_def Let_def split: if_splits option.splits)
    ultimately show ?thesis using False v Some by (simp add: handle_counted_def)
  next
    case None
    have cs: "replies cs = []" using v by (auto simp: verify_post_def Let_def split: if_splits option.splits)
    obtain proved s2 where p: "hasValidProof r ip now s1 = (proved, s2)" by fastforce
    have d: "pl_degrader s2 \<noteq> Some []"
      using degrading_server.pipe_keeps(12) [OF degrading_server.verify_keeps [OF assms v]] p by (metis snd_conv)
    obtain effs1 s3 where v1: "verified_visit env r ip now s2 = (effs1, s3)" by fastforce
    obtain effs2 s4 where v2: "protected_visit env r ip now s2 = Some (effs2, s4)" "answered env effs2"
      using visit_answers [OF d] by blast
    have "answered env effs1" using answered_verified [of env r ip now s2] v1 by simp
    then show ?thesis using False v None p cs v1 v2 by (cases proved) (simp_all add: handle_counted_def)
  qed
qed

lemma request_answers:
  assumes "pl_degrader s \<noteq> Some []"
  shows "\<exists>effs s'. handleRequest env r now s = Some (effs, s') \<and> answered env effs"
proof -
  obtain ip s1 where e: "extractIP r now s = (ip, s1)" by fastforce
  have "pl_degrader (begin_request r s1) \<noteq> Some []"
    using degrading_server.bracket_keeps(1) [OF degrading_server.extract_keeps [OF assms]] e by (metis snd_conv)
  from counted_answers [OF this] show ?thesis using e by (fastforce simp: handleRequest_def)
qed


definition demo_start :: Shield where
  "demo_start = start_server zero_Config disabled_xdp (\<lambda>_. False) (\<lambda>_. None) None None 0"

definition demo_env :: env where
  "demo_env = \<lparr>ev_hour = 0, ev_abuse = (\<lambda>_. None), ev_random = [], ev_formParses = True, ev_smallLogo = False, ev_logo = False,
     ev_urlHost = (\<lambda>_. None), ev_testSite = False, ev_backend = BackendFailed, ev_ristretto = demo_cache\<rparr>"


subsection \<open>Whitelisted addresses\<close>


definition friendly_config :: Config where
  "friendly_config = zero_Config\<lparr>cfg_Protection := (cfg_Protection zero_Config)\<lparr>pr_WhitelistIPs := [''10.0.0.1'']\<rparr>\<rparr>"

definition friendly_server :: Shield where
  "friendly_server = start_server friendly_config disabled_xdp (\<lambda>_. False) (\<lambda>_. None) None
     (Some \<lparr>mn_cfg = zero_ClusterConfig\<lparr>clu_NodeName := ''a''\<rparr>, mn_broadcasts = [], mn_peerDomainStats = []\<rparr>) 0"

definition hostile_message :: wire where
  "hostile_message = empty_wire\<lparr>w_action := ''ban'', w_ip := ''10.0.0.1'', w_duration := 60 * minute, w_source := ''b''\<rparr>"


subsection \<open>What a request leaves alone\<close>

lemma extractIP_eq:
  "extractIP r now s =
     (if trusted_now (peer_host r) s \<or> checkIsTrustedProxy (peer_host r) (pl_cfg s) then header_ip r (peer_host r) else peer_host r,
      s\<lparr>pl_ipStates := touched (peer_host r) now s\<rparr>)"
  by (simp add: extractIP_def isTrustedProxy_touch Let_def)

lemma begin_frame [simp]:
  "pl_cfg (begin_request r s) = pl_cfg s" "pl_domainModeMap (begin_request r s) = pl_domainModeMap s"
  "pl_whitelist (begin_request r s) = pl_whitelist s" "sh_challMgr (begin_request r s) = sh_challMgr s"
  "pl_banned (begin_request r s) = pl_banned s" "pl_wafEngine (begin_request r s) = pl_wafEngine s"
  "pl_degrader (begin_request r s) = pl_degrader s" "pl_ipStates (begin_request r s) = pl_ipStates s"
  by (simp_all add: begin_request_def update_domain_def map_stats_def Let_def)

lemma unproved_frame:
  "pl_whitelist t = pl_whitelist s \<Longrightarrow> sh_challMgr t = sh_challMgr s \<Longrightarrow> unproved r ip now t = unproved r ip now s"
  by (simp add: unproved_def)

lemma proof_refused:
  assumes "unproved r ip now s"
  obtains w m where "hasValidProof r ip now s = (False, s\<lparr>pl_whitelist := w, sh_challMgr := m\<rparr>)"
    and "mg_secret m = mg_secret (sh_challMgr s)" and "mg_cfg m = mg_cfg (sh_challMgr s)"
    and "tm_ok (pl_whitelist s) \<Longrightarrow> tm_ok w \<and> unproved r ip now (s\<lparr>pl_whitelist := w, sh_challMgr := m\<rparr>)"
proof -
  let ?m = "snd (VerifyProof r ip now (sh_challMgr s))"
  let ?w = "case tm_load ip (pl_whitelist s) of None \<Rightarrow> pl_whitelist s | Some t \<Rightarrow> tm_delete ip (pl_whitelist s)"
  have "hasValidProof r ip now s = (False, s\<lparr>pl_whitelist := ?w, sh_challMgr := ?m\<rparr>)"
    using assms by (auto simp: hasValidProof_def hasDynamicWhitelist_def unproved_def Let_def case_prod_unfold split: option.splits)
  moreover have "tm_ok (pl_whitelist s) \<Longrightarrow> tm_ok ?w \<and> unproved r ip now (s\<lparr>pl_whitelist := ?w, sh_challMgr := ?m\<rparr>)"
    using assms VerifyProof_stays by (auto simp: unproved_def split: option.splits)
  ultimately show thesis using that [where w = ?w and m = ?m] by simp
qed

subsection \<open>The modes that demand a proof\<close>

fun lets_through :: "effect \<Rightarrow> bool" where
  "lets_through (SendCookie c) = True"
| "lets_through (Send (Forwarded r p)) = True"
| "lets_through (Send (FromCache c)) = True"
| "lets_through (Send (Tunnel b)) = True"
| "lets_through (Send (Plain status b)) = (status = 200)"
| "lets_through _ = False"

lemma logo_static: "path \<in> set logo_paths \<Longrightarrow> isStaticAsset path"
proof -
  have "list_all isStaticAsset logo_paths" by code_simp
  then show "path \<in> set logo_paths \<Longrightarrow> isStaticAsset path" by (simp add: list_all_iff)
qed

lemma holding_action:
  "holding a \<Longrightarrow> e \<in> set (fst (execute_action env a r ip now s)) \<Longrightarrow> \<not> lets_through e"
  by (cases "ac_Type a")
    (auto simp: holding_def execute_action_def challenge_request_def block_request_def rate_limit_page_def Let_def case_prod_unfold
      split: if_splits)

lemma sealed_visit:
  assumes "sealed cfg modes r ip now s" and "protected_visit env r ip now s = Some (effs, s')"
  shows "\<forall>e \<in> set effs. \<not> lets_through e"
proof -
  obtain fp fs where fp: "GetCompositeForRequest (r_remote_addr r) (user_agent r) (sh_fpStore s) = (fp, fs)" by fastforce
  have P: "sealed cfg modes r ip now (s\<lparr>sh_fpStore := fs\<rparr>)"
    using assms(1) sealed_frame [of "s\<lparr>sh_fpStore := fs\<rparr>" s] by simp
  obtain a s2 where a: "ProcessWithFingerprint r ip fp (ev_abuse env) (ev_hour env) now (s\<lparr>sh_fpStore := fs\<rparr>) = Some (a, s2)"
      and effs: "execute_action env a r ip now s2 = (effs, s')"
    using assms(2) fp by (auto simp: protected_visit_def split: option.splits)
  have "pipeline_layers r ip fp (ev_abuse env) (ev_hour env) now (s\<lparr>sh_fpStore := fs\<rparr>) = Some (Some a, s2)"
    using a pipeline_answers by (auto simp: ProcessWithFingerprint_def split: option.splits)
  then have "holding a" using layer_okD [OF sealed_pipeline P] by blast
  then show ?thesis using holding_action effs by (metis fst_conv)
qed


definition captcha_config :: Config where
  "captcha_config = zero_Config\<lparr>cfg_Protection := (cfg_Protection zero_Config)\<lparr>pr_Mode := ''captcha''\<rparr>\<rparr>"

definition captcha_server :: Shield where
  "captcha_server = New captcha_config disabled_xdp None 0"

definition login_request :: request where
  "login_request = blank_request\<lparr>r_path := ''/login''\<rparr>"

lemma New_fields:
  "pl_cfg (New cfg xdp cf now) = cfg" "pl_domainModeMap (New cfg xdp cf now) = fst (buildDomainMaps cfg)"
  "pl_whitelist (New cfg xdp cf now) = NewShardedTimeMap" "pl_banned (New cfg xdp cf now) = NewShardedTimeMap"
  "sh_challMgr (New cfg xdp cf now) = NewManager (pr_Challenge (cfg_Protection cfg))" "pl_degrader (New cfg xdp cf now) = None"
  "pl_wafEngine (New cfg xdp cf now) = None" "pl_ipStates (New cfg xdp cf now) = newIPStateMap"
  by (simp_all add: New_def NewPipeline_def Shield.Pipeline.defs Shield.Shield.defs)

lemma new_unproved: "pick_cookie r = None \<Longrightarrow> unproved r ip now (New cfg xdp cf t)"
  by (simp add: unproved_def New_fields VerifyProof_result NewManager_def Let_def)


subsection \<open>The price of a session\<close>

lemma process_static:
  assumes "isStaticAsset (r_path r)" and "tm_load ip (pl_banned s) = None" and "pl_degrader s \<noteq> Some []"
    and "\<forall>we. pl_wafEngine s = Some we \<longrightarrow> \<not> ir_Blocked (fst (Inspect r we))"
  obtains s' where "ProcessWithFingerprint r ip fp abuse hr now s = Some (act ActionAllow ''static_asset'', s')"
    and "pl_whitelist s' = pl_whitelist s" and "sh_challMgr s' = sh_challMgr s"
proof -
  let ?s1 = "s\<lparr>pl_ipStates := touched ip now s\<rparr>"
  have b: "banned_layer ip now s = go_on ?s1" using assms(2) by (simp add: banned_layer_def isBanned_eq)
  obtain we where w: "waf_layer r ip now ?s1 = go_on (?s1\<lparr>pl_wafEngine := we\<rparr>)"
  proof (cases "waf_layer r ip now ?s1 = go_on ?s1")
    case True
    then show thesis using that [of "pl_wafEngine s"] by simp
  next
    case False
    then obtain e where e: "pl_wafEngine s = Some e" by (auto simp: waf_layer_def split: option.splits)
    have "feature_disabled ''waf_deep_inspect'' ?s1 \<noteq> None" using feature_total [of _ ?s1] assms(3) by auto
    then have "waf_layer r ip now ?s1 = go_on (?s1\<lparr>pl_wafEngine := Some (snd (Inspect r e))\<rparr>)"
      using False e assms(4) by (auto simp: waf_layer_def Let_def case_prod_unfold split: option.splits if_splits)
    then show thesis by (rule that)
  qed
  have "ProcessWithFingerprint r ip fp abuse hr now s = Some (act ActionAllow ''static_asset'', ?s1\<lparr>pl_wafEngine := we\<rparr>)"
    using b w assms(1)
    by (simp add: ProcessWithFingerprint_def pipeline_layers_def inner_layers_def static_layer_def go_on_def stop_def)
  then show thesis by (rule that) simp_all
qed

lemma extract_manager [simp]: "sh_challMgr (snd (extractIP r now s)) = sh_challMgr s"
  by (simp add: extractIP_eq)

lemma proxy_cache_manager [simp]: "sh_challMgr (snd (proxy_cache env r now s)) = sh_challMgr s"
  by (simp add: proxy_cache_def Let_def case_prod_unfold split: option.split)

lemma proxy_manager [simp]: "sh_challMgr (snd (proxyRequest env r now um s)) = sh_challMgr s"
  by (simp add: proxyRequest_def Let_def case_prod_unfold split: option.split backend_answer.split)

lemma site_manager [simp]: "sh_challMgr (snd (serve_site env idle r now s)) = sh_challMgr s"
  by (simp add: serve_site_def Let_def case_prod_unfold split: option.split)

lemma end_manager [simp]: "sh_challMgr (end_request r s) = sh_challMgr s"
  by (simp add: end_request_def update_domain_def Let_def)

lemma session_cookie_valid:
  assumes "ip \<noteq> []" and "CHR ''|'' \<notin> set ip" and "min_int64 \<le> unix_sec now" "unix_sec now \<le> max_int64"
    and "find_cookie r' ''mango_proof'' = None" and "find_cookie r' ''mango_session'' = Some (sc_value (fst (SetSessionCookie ip now m)))"
    and "time_sub later (unix_sec now * second) \<le> cookie_ttl m" and "mg_secret m' = mg_secret m" and "mg_cfg m' = mg_cfg m"
  shows "fst (VerifyProof r' ip' later m')"
proof -
  let ?v = "cookie_payload ip now @ ''|'' @ hmac_hex (mg_secret m) (cookie_payload ip now)"
  have v: "sc_value (fst (SetSessionCookie ip now m)) = ?v" by (simp add: SetSessionCookie_def setCookieWithName_def Let_def)
  have "cookie_ttl m' = cookie_ttl m" using assms(9) by (simp add: cookie_ttl_def)
  then have "cookie_valid m' later ?v"
    using assms(8) payload_fresh [OF assms(1,3,4), of m' later] assms(7) payload_cut [OF assms(2)]
    by (simp add: cookie_valid_def)
  moreover have "pick_cookie r' = Some (?v, False)" using assms(5,6) v by (simp add: pick_cookie_def Let_def)
  ultimately show ?thesis unfolding VerifyProof_result by blast
qed

text \<open>
  C4: One request for a path that is let through is all a proof costs: in every mode, under attack and in an emergency as
  well, an address that is not banned gets a session cookie with the reply to a request for such a path, and
  every later request that carries the cookie, from any address, passes \<open>VerifyProof\<close> as if a challenge had been solved,
  for the lifetime of a proof.
\<close>

theorem static_path_buys_session:
  assumes "ip = fst (extractIP r now s)" and "isStaticAsset (r_path r)" and "r_path r \<notin> set logo_paths" and "\<not> form_post r"
    and "unproved r ip now s" and "tm_ok (pl_whitelist s)" and "tm_load ip (pl_banned s) = None" and "pl_degrader s \<noteq> Some []"
    and "\<forall>we. pl_wafEngine s = Some we \<longrightarrow> \<not> ir_Blocked (fst (Inspect r we))"
    and "ip \<noteq> []" and "CHR ''|'' \<notin> set ip" and "min_int64 \<le> unix_sec now" and "unix_sec now \<le> max_int64"
  shows "\<exists>effs s' c. handleRequest env r now s = Some (effs, s') \<and> SendCookie c \<in> set effs \<and> sc_name c = ''mango_session'' \<and>
    (\<forall>r' ip' later. find_cookie r' ''mango_proof'' = None \<and> find_cookie r' ''mango_session'' = Some (sc_value c) \<and>
       time_sub later (unix_sec now * second) \<le> cookie_ttl (sh_challMgr s) \<longrightarrow> fst (VerifyProof r' ip' later (sh_challMgr s')))"
proof -
  define s1 where "s1 = begin_request r (snd (extractIP r now s))"
  have f1: "pl_whitelist s1 = pl_whitelist s" "sh_challMgr s1 = sh_challMgr s" "pl_banned s1 = pl_banned s"
      "pl_wafEngine s1 = pl_wafEngine s" "pl_degrader s1 = pl_degrader s"
    by (simp_all add: s1_def extractIP_eq)
  have u1: "unproved r ip now s1" using assms(5) unproved_frame [of s1 s] f1 by simp
  obtain w m where p1: "hasValidProof r ip now s1 = (False, s1\<lparr>pl_whitelist := w, sh_challMgr := m\<rparr>)"
      and m: "mg_secret m = mg_secret (sh_challMgr s)" "mg_cfg m = mg_cfg (sh_challMgr s)"
      and u2: "unproved r ip now (s1\<lparr>pl_whitelist := w, sh_challMgr := m\<rparr>)"
    using proof_refused [OF u1] f1 assms(6) by metis
  obtain fp fs where fp: "GetCompositeForRequest (r_remote_addr r) (user_agent r) (sh_fpStore s1) = (fp, fs)" by fastforce
  define s2 where "s2 = s1\<lparr>pl_whitelist := w, sh_challMgr := m, sh_fpStore := fs\<rparr>"
  obtain s3 where a: "ProcessWithFingerprint r ip fp (ev_abuse env) (ev_hour env) now s2 = Some (act ActionAllow ''static_asset'', s3)"
      and s3: "pl_whitelist s3 = w" "sh_challMgr s3 = m"
    using process_static [of r ip s2 fp "ev_abuse env" "ev_hour env" now] assms(2,7,8,9) f1 by (auto simp: s2_def)
  have u3: "unproved r ip now (add_passed s3)"
    using u2 unproved_frame [of "add_passed s3" "s1\<lparr>pl_whitelist := w, sh_challMgr := m\<rparr>"] s3 by (simp add: add_passed_def map_stats_def)
  have ap: "sh_challMgr (add_passed s3) = m" using s3 by (simp add: add_passed_def map_stats_def)
  obtain w' m' where p3: "hasValidProof r ip now (add_passed s3) = (False, (add_passed s3)\<lparr>pl_whitelist := w', sh_challMgr := m'\<rparr>)"
      and m': "mg_secret m' = mg_secret m" "mg_cfg m' = mg_cfg m"
    using proof_refused [OF u3] unfolding ap by blast
  define c where "c = fst (SetSessionCookie ip now m')"
  obtain effs s4 where site: "serve_site env ''Mango Shield v3.0 Active (No Upstream Configured)'' r now
      ((add_passed s3)\<lparr>pl_whitelist := w', sh_challMgr := m'\<rparr>) = (effs, s4)" by fastforce
  have s4: "sh_challMgr s4 = m'" using site_manager [of env "''Mango Shield v3.0 Active (No Upstream Configured)''" r now
      "(add_passed s3)\<lparr>pl_whitelist := w', sh_challMgr := m'\<rparr>"] site by simp
  have allow: "allow_request env r ip now s3 = (SendCookie c # effs, s4)"
    using p3 site by (simp add: allow_request_def SetSessionCookie_def c_def)
  have visit: "protected_visit env r ip now (s1\<lparr>pl_whitelist := w, sh_challMgr := m\<rparr>) = Some (SendCookie c # effs, s4)"
    using fp a allow by (simp add: protected_visit_def s2_def execute_action_def act_def)
  have "handleRequest env r now s = Some (alt_svc (pl_cfg s) @ SendCookie c # effs, end_request r s4)"
    using assms(1,3,4) p1 visit by (simp add: handleRequest_def handle_counted_def verify_post_def s1_def case_prod_unfold)
  moreover have "sc_name c = ''mango_session''" by (simp add: c_def SetSessionCookie_def setCookieWithName_def Let_def)
  moreover have "cookie_ttl m' = cookie_ttl (sh_challMgr s)" using m m' by (simp add: cookie_ttl_def)
  then have "\<forall>r' ip' later. find_cookie r' ''mango_proof'' = None \<and> find_cookie r' ''mango_session'' = Some (sc_value c) \<and>
      time_sub later (unix_sec now * second) \<le> cookie_ttl (sh_challMgr s) \<longrightarrow> fst (VerifyProof r' ip' later m')"
    using session_cookie_valid [OF assms(10-13), of _ m' _ m'] by (auto simp: c_def)
  ultimately show ?thesis using s4 by (intro exI [of _ "alt_svc (pl_cfg s) @ SendCookie c # effs"] exI [of _ "end_request r s4"] exI [of _ c]) simp
qed

definition css_request :: request where
  "css_request = blank_request\<lparr>r_path := ''/x.css'', r_remote_addr := ''192.0.2.9:4711''\<rparr>"

theorem static_path_buys_session_witness:
  "\<exists>effs s' c. handleRequest demo_env css_request 0 captcha_server = Some (effs, s') \<and> SendCookie c \<in> set effs \<and>
     fst (VerifyProof (login_request\<lparr>r_cookies := [(''mango_session'', sc_value c)]\<rparr>) ''198.51.100.7'' 0 (sh_challMgr s'))"
proof -
  have e: "isStaticAsset (r_path css_request)" "form_post css_request = False" "pick_cookie css_request = None"
    "list_ex (\<lambda>p. p = r_path css_request) logo_paths = False" "peer_host css_request = ''192.0.2.9''"
    "cfl_Enabled (cfg_Cloudflare captcha_config) = False" "pr_TrustedProxies (cfg_Protection captcha_config) = []"
    by code_simp+
  have ip: "fst (extractIP css_request 0 captcha_server) = ''192.0.2.9''"
    using e(5-7) by (simp add: extractIP_eq trusted_now_def checkIsTrustedProxy_def captcha_server_def New_fields split: option.split)
  have "\<exists>effs s' c. handleRequest demo_env css_request 0 captcha_server = Some (effs, s') \<and> SendCookie c \<in> set effs \<and> sc_name c = ''mango_session'' \<and>
    (\<forall>r' ip' later. find_cookie r' ''mango_proof'' = None \<and> find_cookie r' ''mango_session'' = Some (sc_value c) \<and>
       time_sub later (unix_sec 0 * second) \<le> cookie_ttl (sh_challMgr captcha_server) \<longrightarrow> fst (VerifyProof r' ip' later (sh_challMgr s')))"
    by (rule static_path_buys_session [OF ip [symmetric] e(1)])
      (use e in \<open>simp_all add: captcha_server_def New_fields new_unproved list_ex_iff unix_sec_def min_int64_def max_int64_def\<close>)
  then obtain effs s' c where h: "handleRequest demo_env css_request 0 captcha_server = Some (effs, s')" "SendCookie c \<in> set effs"
    and all: "\<forall>r' ip' later. find_cookie r' ''mango_proof'' = None \<and> find_cookie r' ''mango_session'' = Some (sc_value c) \<and>
       time_sub later (unix_sec 0 * second) \<le> cookie_ttl (sh_challMgr captcha_server) \<longrightarrow> fst (VerifyProof r' ip' later (sh_challMgr s'))"
    by blast
  have "fst (VerifyProof (login_request\<lparr>r_cookies := [(''mango_session'', sc_value c)]\<rparr>) ''198.51.100.7'' 0 (sh_challMgr s'))"
    by (rule all [rule_format]) (use cookie_ttl_pos [of "sh_challMgr captcha_server"] in
      \<open>simp add: find_cookie_def time_sub_def unix_sec_def min_int64_def max_int64_def\<close>)
  then show ?thesis using h by blast
qed

end
