(* ===== verification/Counters.thy ===== *)
theory Counters
  imports Server_Run Config_Center
begin

section \<open>Addresses, connections and attacks\<close>

text \<open>
  Properties of \<open>extractIP\<close> and the forwarded headers, of the counters kept per address, and of the detector
  that starts and ends the attack of a domain.
\<close>

subsection \<open>Whose address it is\<close>

lemma direct_host_headers [simp]: "hdr_get (direct_host target r) k = hdr_get r k"
  by (simp add: direct_host_def hdr_get_def)

lemma extractIP_states:
  "pl_ipStates t = pl_ipStates s \<Longrightarrow> pl_cfg t = pl_cfg s \<Longrightarrow> fst (extractIP r now t) = fst (extractIP r now s)"
  by (simp add: extractIP_def isTrustedProxy_touch Let_def trusted_now_cong [of t s])

lemma proxy_cache_frame [simp]:
  "pl_ipStates (snd (proxy_cache env r now s)) = pl_ipStates s" "pl_cfg (snd (proxy_cache env r now s)) = pl_cfg s"
  by (simp_all add: proxy_cache_def Let_def case_prod_unfold split: option.split)

lemma proxied_request:
  assumes "Send (Forwarded r' resp) \<in> set (fst (proxyRequest env r now um s))"
  shows "\<exists>target bypass key. r' = direct_host target (forward_headers (fst (extractIP r now s)) bypass key r)"
proof -
  obtain backend um' where n: "GetNext (r_host r) um = (backend, um')" by fastforce
  define s1 where "s1 = s\<lparr>sh_upstreams := Some um'\<rparr>"
  define s2 where "s2 = s1\<lparr>sh_transport := Some (getTransport (pl_cfg s1) (sh_transport s1))\<rparr>"
  obtain bypass key hit s3 where c: "proxy_cache env r now s2 = ((bypass, key, hit), s3)" by (metis prod_cases3 surj_pair)
  obtain ip s4 where e: "extractIP r now s3 = (ip, s4)" by fastforce
  have "pl_ipStates s3 = pl_ipStates s" "pl_cfg s3 = pl_cfg s"
    using proxy_cache_frame [of env r now s2] unfolding c by (simp_all add: s1_def s2_def)
  then have ip: "ip = fst (extractIP r now s)" using e extractIP_states [of s3 s r now] by simp
  obtain bk where bk: "backend = Some bk"
    using assms n by (cases backend) (simp_all add: proxyRequest_def)
  have ws: "\<not> (prx_WebSocket (cfg_Proxy (pl_cfg s)) \<and> isWebSocket r)" and ne: "bk \<noteq> []"
    using assms n bk by (auto simp: proxyRequest_def Let_def split: if_splits)
  obtain host where h: "ev_urlHost env bk = Some host"
    using assms n bk ws ne by (cases "ev_urlHost env bk") (auto simp: proxyRequest_def Let_def)
  have c': "proxy_cache env r now (s\<lparr>sh_upstreams := Some um', sh_transport := Some (getTransport (pl_cfg s) (sh_transport s))\<rparr>)
      = ((bypass, key, hit), s3)"
    using c by (simp add: s1_def s2_def)
  have hit: "hit = None"
    using assms n bk ws ne h c' by (cases hit) (simp_all add: proxyRequest_def Let_def)
  show ?thesis
    using assms n bk ws ne h c' hit e
    by (cases "ev_backend env") (auto simp: proxyRequest_def Let_def proxy_error_page_def ip split: prod.splits)
qed

text \<open>
  The headers of a client whose connection does not come from a trusted proxy never change the address it is held by:
  that is the peer, and the reverse proxy is given it as \<open>X-Real-IP\<close>. But the same client chooses what the proxy is
  given as \<open>X-Forwarded-For\<close>: whatever it sends as \<open>CF-Connecting-IP\<close> stands there.
\<close>

theorem client_address_trust:
  assumes "\<not> trusted_now (peer_host r) s" and "\<not> checkIsTrustedProxy (peer_host r) (pl_cfg s)"
  shows "fst (extractIP (r\<lparr>r_header := h\<rparr>) now s) = peer_host r \<and>
    (Send (Forwarded r' resp) \<in> set (fst (proxyRequest env r now um s)) \<longrightarrow>
       hdr_get r' ''X-Real-IP'' = peer_host r \<and>
       hdr_get r' ''X-Forwarded-For'' = (if hdr_get r ''CF-Connecting-IP'' \<noteq> [] then hdr_get r ''CF-Connecting-IP'' else peer_host r))"
proof -
  have "fst (extractIP q now s) = peer_host r" if "peer_host q = peer_host r" for q
    using assms that by (simp add: extractIP_def isTrustedProxy_touch Let_def)
  moreover have "peer_host (r\<lparr>r_header := h\<rparr>) = peer_host r" by (simp add: peer_host_def split: option.split)
  ultimately show ?thesis using proxied_request [of r' resp env r now um s] by (auto simp: forwarded)
qed

definition spoofing_request :: request where
  "spoofing_request = blank_request\<lparr>r_remote_addr := ''192.0.2.9:4711'', r_header := [(''Cf-Connecting-Ip'', [''10.0.0.1''])]\<rparr>"

theorem client_address_trust_witness:
  "fst (extractIP (spoofing_request\<lparr>r_header := [(''X-Forwarded-For'', [''10.0.0.1''])]\<rparr>) 5 (New zero_Config disabled_xdp None 0)) = ''192.0.2.9''"
proof -
  have e: "peer_host spoofing_request = ''192.0.2.9''" by code_simp
  have "pl_cfg (New zero_Config disabled_xdp None 0) = zero_Config" "pl_ipStates (New zero_Config disabled_xdp None 0) = newIPStateMap"
    by (simp_all add: New_def NewPipeline_def Shield.Pipeline.defs Shield.Shield.defs)
  moreover have "\<not> checkIsTrustedProxy ip zero_Config" for ip
    by (simp add: checkIsTrustedProxy_def zero_Config_def zero_CloudflareConfig_def zero_ProtectionConfig_def split: option.split)
  ultimately have "\<not> trusted_now (peer_host spoofing_request) (New zero_Config disabled_xdp None 0)"
    "\<not> checkIsTrustedProxy (peer_host spoofing_request) (pl_cfg (New zero_Config disabled_xdp None 0))"
    by (simp_all add: trusted_now_def)
  from client_address_trust [OF this] show ?thesis using e by simp
qed

subsection \<open>The end of an attack\<close>

definition tick_at :: "gotime \<times> (string, int) gomap \<Rightarrow> Shield \<Rightarrow> Shield" where
  "tick_at e s = attack_tick (fst e) (s\<lparr>sh_domainRPS := snd e\<rparr>)"

definition measured :: "string \<Rightarrow> (string, int) gomap \<Rightarrow> int" where
  "measured dName rates = (case map_of rates (normalizeHost dName) of Some v \<Rightarrow> v | None \<Rightarrow> 0)"

definition attack_view :: "string \<Rightarrow> Shield \<Rightarrow> bool \<times> int option" where
  "attack_view dName s = (under_attack dName s, map_of (sh_domainNormalCount s) dName)"

lemma alone_load: "pl_mesh s = None \<Longrightarrow> cluster_load dName now s = ((GetDomainRPS dName s, st_ActiveConns (sh_stats s)), s)"
  by (simp add: cluster_load_def Let_def)

lemma detect_frame [simp]:
  "pl_mesh s = None \<Longrightarrow> pl_mesh (detect_domain now d s) = None"
  "pl_mesh s = None \<Longrightarrow> pl_cfg (detect_domain now d s) = pl_cfg s"
  "pl_mesh s = None \<Longrightarrow> sh_domainRPS (detect_domain now d s) = sh_domainRPS s"
  by (simp_all add: detect_domain_def alone_load calm_tick_def start_attack_def end_attack_def map_stats_def Let_def)

lemma detect_other:
  "pl_mesh s = None \<Longrightarrow> to_lower (dom_Name d) \<noteq> dName \<Longrightarrow> attack_view dName (detect_domain now d s) = attack_view dName s"
  by (auto simp: attack_view_def detect_domain_def alone_load calm_tick_def start_attack_def end_attack_def under_attack_def
      map_stats_def Let_def gomap_simps)

lemma detect_calm:
  assumes "pl_mesh s = None" and "GetDomainRPS (to_lower (dom_Name d)) s \<le> domain_threshold (pl_cfg s) d"
    and "attack_view (to_lower (dom_Name d)) s = (True, Some c)"
  shows "attack_view (to_lower (dom_Name d)) (detect_domain now d s) = (if c + 1 < 10 then (True, Some (c + 1)) else (False, Some 0))"
  using assms by (auto simp: attack_view_def detect_domain_def alone_load calm_tick_def end_attack_def under_attack_def Let_def gomap_simps)

lemma fold_other:
  "pl_mesh s = None \<Longrightarrow> dName \<notin> to_lower ` dom_Name ` set ds \<Longrightarrow>
     attack_view dName (fold (detect_domain now) ds s) = attack_view dName s \<and> pl_mesh (fold (detect_domain now) ds s) = None \<and>
     pl_cfg (fold (detect_domain now) ds s) = pl_cfg s \<and> sh_domainRPS (fold (detect_domain now) ds s) = sh_domainRPS s"
  by (induction ds arbitrary: s) (auto simp: detect_other)

lemma fold_detect_frame:
  "pl_mesh s = None \<Longrightarrow> pl_mesh (fold (detect_domain now) ds s) = None \<and> pl_cfg (fold (detect_domain now) ds s) = pl_cfg s"
  by (induction ds arbitrary: s) auto

lemma GetDomainRPS_measured: "GetDomainRPS dName s = measured dName (sh_domainRPS s)"
  by (simp add: GetDomainRPS_def measured_def)

lemma tick_frame: "pl_mesh s = None \<Longrightarrow> pl_mesh (tick_at e s) = None \<and> pl_cfg (tick_at e s) = pl_cfg s"
  using fold_detect_frame [of "s\<lparr>sh_domainRPS := snd e\<rparr>"] by (simp add: tick_at_def attack_tick_def)

lemma tick_calm:
  assumes "pl_mesh s = None" and "d \<in> set (cfg_Domains (pl_cfg s))" and "distinct (map (\<lambda>d. to_lower (dom_Name d)) (cfg_Domains (pl_cfg s)))"
    and "measured (to_lower (dom_Name d)) (snd e) \<le> domain_threshold (pl_cfg s) d"
    and "attack_view (to_lower (dom_Name d)) s = (True, Some c)"
  shows "attack_view (to_lower (dom_Name d)) (tick_at e s) = (if c + 1 < 10 then (True, Some (c + 1)) else (False, Some 0))"
proof -
  obtain as bs where ds: "cfg_Domains (pl_cfg s) = as @ d # bs" using assms(2) by (auto dest: split_list)
  let ?n = "to_lower (dom_Name d)"
  have n: "?n \<notin> to_lower ` dom_Name ` set as" "?n \<notin> to_lower ` dom_Name ` set bs"
    using assms(3) unfolding ds by (auto simp: image_image)
  define s1 where "s1 = fold (detect_domain (fst e)) as (s\<lparr>sh_domainRPS := snd e\<rparr>)"
  have s1: "attack_view ?n s1 = (True, Some c)" "pl_mesh s1 = None" "pl_cfg s1 = pl_cfg s" "sh_domainRPS s1 = snd e"
    using fold_other [OF _ n(1), of "s\<lparr>sh_domainRPS := snd e\<rparr>" "fst e"] assms(1,5)
    by (simp_all add: s1_def attack_view_def under_attack_def)
  have "attack_view ?n (detect_domain (fst e) d s1) = (if c + 1 < 10 then (True, Some (c + 1)) else (False, Some 0))"
    by (rule detect_calm [OF s1(2) _ s1(1)]) (simp add: GetDomainRPS_measured s1 assms(4))
  then show ?thesis
    using fold_other [OF _ n(2), of "detect_domain (fst e) d s1" "fst e"] s1(2)
    by (simp add: tick_at_def attack_tick_def ds s1_def [symmetric])
qed

lemma calm_ticks:
  assumes "pl_mesh s = None" and "d \<in> set (cfg_Domains (pl_cfg s))" and "distinct (map (\<lambda>d. to_lower (dom_Name d)) (cfg_Domains (pl_cfg s)))"
    and "\<forall>e \<in> set es. measured (to_lower (dom_Name d)) (snd e) \<le> domain_threshold (pl_cfg s) d"
    and "attack_view (to_lower (dom_Name d)) s = (True, Some c)" and "c + int (length es) < 10"
  shows "attack_view (to_lower (dom_Name d)) (fold tick_at es s) = (True, Some (c + int (length es)))"
  using assms
proof (induction es arbitrary: s c)
  case (Cons e es)
  have v: "attack_view (to_lower (dom_Name d)) (tick_at e s) = (True, Some (c + 1))"
    using tick_calm [OF Cons.prems(1-3) _ Cons.prems(5), of e] Cons.prems(4,6) by simp
  have f: "pl_mesh (tick_at e s) = None" "pl_cfg (tick_at e s) = pl_cfg s" using tick_frame [OF Cons.prems(1)] by simp_all
  show ?case using Cons.IH [of "tick_at e s" "c + 1"] v f Cons.prems(2-4,6) by simp
qed simp

text \<open>
  C17: An attack ends. On a node without a mesh, with distinct names of domains, ten ticks of the detector whose rates for
  the domain do not exceed its threshold end its attack, whatever the other domains do meanwhile, and not one
  tick earlier.
\<close>

theorem attack_ends_after_calm:
  assumes "pl_mesh s = None" and "d \<in> set (cfg_Domains (pl_cfg s))" and "distinct (map (\<lambda>d. to_lower (dom_Name d)) (cfg_Domains (pl_cfg s)))"
    and "under_attack (to_lower (dom_Name d)) s" and "map_of (sh_domainNormalCount s) (to_lower (dom_Name d)) = Some 0"
    and "length es = 10" and "\<forall>e \<in> set es. measured (to_lower (dom_Name d)) (snd e) \<le> domain_threshold (pl_cfg s) d"
  shows "\<not> under_attack (to_lower (dom_Name d)) (fold tick_at es s) \<and>
    (\<forall>n < 10. under_attack (to_lower (dom_Name d)) (fold tick_at (take n es) s))"
proof -
  have v: "attack_view (to_lower (dom_Name d)) s = (True, Some 0)" using assms(4,5) by (simp add: attack_view_def)
  have early: "attack_view (to_lower (dom_Name d)) (fold tick_at (take n es) s) = (True, Some (int n))" if "n < 10" for n
    using calm_ticks [OF assms(1-3) _ v, of "take n es"] assms(6,7) that by (auto dest: in_set_takeD)
  obtain es' e where es: "es = es' @ [e]" "length es' = 9" using assms(6) by (cases es rule: rev_cases) auto
  have f: "pl_mesh (fold tick_at es' s) = None \<and> pl_cfg (fold tick_at es' s) = pl_cfg s" for es'
    using assms(1) by (induction es' rule: rev_induct) (auto simp: tick_frame)
  have "attack_view (to_lower (dom_Name d)) (fold tick_at es s) = (False, Some 0)"
    using tick_calm [of "fold tick_at es' s" d e 9] early [of 9] f [of es'] assms(2,3,7) es by simp
  then show ?thesis using early by (simp add: attack_view_def)
qed

definition shop :: DomainConfig where
  "shop = default_domain ''Shop.test'' ''http://10.1.0.5:8000''"

definition attacked_server :: Shield where
  "attacked_server = (New (zero_Config\<lparr>cfg_Domains := [shop]\<rparr>) disabled_xdp None 0)
     \<lparr>sh_domainUnderAttack := [(''shop.test'', True)], sh_domainNormalCount := [(''shop.test'', 0)]\<rparr>"

theorem attack_ends_after_calm_witness:
  "\<not> under_attack ''shop.test'' (fold tick_at (replicate 10 (5, [])) attacked_server) \<and>
    under_attack ''shop.test'' (fold tick_at (replicate 9 (5, [])) attacked_server)"
proof -
  have name: "to_lower (dom_Name shop) = ''shop.test''" by code_simp
  have f: "pl_mesh attacked_server = None" "pl_cfg attacked_server = zero_Config\<lparr>cfg_Domains := [shop]\<rparr>"
    "under_attack ''shop.test'' attacked_server" "map_of (sh_domainNormalCount attacked_server) ''shop.test'' = Some 0"
    by (simp_all add: attacked_server_def New_def NewPipeline_def Shield.Pipeline.defs Shield.Shield.defs under_attack_def)
  have "domain_threshold (zero_Config\<lparr>cfg_Domains := [shop]\<rparr>) shop = 200" by code_simp
  then have "measured ''shop.test'' [] \<le> domain_threshold (pl_cfg attacked_server) shop" by (simp add: measured_def f)
  then have "\<not> under_attack (to_lower (dom_Name shop)) (fold tick_at (replicate 10 (5, [])) attacked_server) \<and>
    (\<forall>n < 10. under_attack (to_lower (dom_Name shop)) (fold tick_at (take n (replicate 10 (5, []))) attacked_server))"
    by (intro attack_ends_after_calm) (simp_all add: f name)
  then show ?thesis by (auto simp: name dest: spec [of _ 9])
qed

subsection \<open>Counting connections\<close>

definition active_at :: "byte list \<Rightarrow> Shield \<Rightarrow> int" where
  "active_at key s = (case load_state key (pl_ipStates s) of Some st \<Rightarrow> sint (is_ActiveConns st) | None \<Rightarrow> 0)"

abbreviation active_conns :: "string \<Rightarrow> Shield \<Rightarrow> int" where
  "active_conns ip \<equiv> active_at (parseIPFast ip)"

text \<open>The rate that the next connection makes, and whether it is refused for it.\<close>

definition next_rate :: "string \<Rightarrow> gotime \<Rightarrow> Shield \<Rightarrow> int" where
  "next_rate ip now s = (case load_state (parseIPFast ip) (pl_ipStates s) of
     Some st \<Rightarrow> if second \<le> time_sub now (is_ConnLastReset st) then 1 else is_CPS st + 1 | None \<Rightarrow> 1)"

definition refused :: "string \<Rightarrow> gotime \<Rightarrow> Shield \<Rightarrow> bool" where
  "refused ip now s \<longleftrightarrow> (\<exists>e. tm_load ip (pl_banned s) = Some e \<and> now \<le> e) \<or>
     (if st_IsUnderAttack (sh_stats s) then 25 else 50) < next_rate ip now s"

lemma load_touched:
  "ipm_ok (pl_ipStates s) \<Longrightarrow> load_state k (touched ip now s) = (if ip \<noteq> [] \<and> k = parseIPFast ip
     then Some (case load_state k (pl_ipStates s) of Some st \<Rightarrow> st\<lparr>is_LastSeen := now\<rparr>
       | None \<Rightarrow> new_state (checkIsTrustedProxy ip (pl_cfg s)) now)
     else load_state k (pl_ipStates s))"
  by (simp add: touched_def load_GetOrCreate fst_GetOrCreate)

lemma active_touched: "ipm_ok (pl_ipStates s) \<Longrightarrow> pl_ipStates s' = touched ip now s \<Longrightarrow> active_at k s' = active_at k s"
  by (simp add: active_at_def load_touched new_state_def split: option.split)

lemma rate_touched:
  "ipm_ok (pl_ipStates s) \<Longrightarrow> pl_ipStates s' = touched ip now s \<Longrightarrow> next_rate ip now s' = next_rate ip now s"
  by (simp add: next_rate_def load_touched new_state_def split: option.split)

lemma sint_shift: "- (2 ^ 31) \<le> sint w + i \<Longrightarrow> sint w + i < 2 ^ 31 \<Longrightarrow> sint (w + word_of_int i) = sint w + i" for w :: "32 word"
proof -
  assume "- (2 ^ 31) \<le> sint w + i" "sint w + i < 2 ^ 31"
  then have "signed_take_bit 31 (sint w + i) = sint w + i" by (simp add: signed_take_bit_int_eq_self_iff)
  moreover have e: "w + word_of_int i = word_of_int (sint w + i)" by (simp add: wi_hom_syms)
  ultimately show ?thesis unfolding e sint_sbintrunc' by simp
qed

lemma increment_sint: "0 \<le> sint w \<Longrightarrow> sint w < 2 ^ 31 - 1 \<Longrightarrow> sint (w + 1) = sint w + 1" for w :: "32 word"
  using sint_shift [of w 1] by simp

lemma decrement_sint: "0 \<le> sint w \<Longrightarrow> sint (w - 1) = sint w - 1" for w :: "32 word"
  using sint_shift [of w "- 1"] sint_lt [of w] by simp

lemma increment_effect:
  assumes "ipm_ok (pl_ipStates s)" and "0 \<le> active_conns ip s" and "active_conns ip s < 2 ^ 31 - 1"
  obtains m where "IncrementConnCount ip now s = (active_conns ip s + 1, s\<lparr>pl_ipStates := m\<rparr>)" and "ipm_ok m"
    and "\<And>k. active_at k (s\<lparr>pl_ipStates := m\<rparr>) = (if k = parseIPFast ip then active_conns ip s + 1 else active_at k s)"
    and "\<And>ip'. trusted_now ip' (s\<lparr>pl_ipStates := m\<rparr>) = (if parseIPFast ip' = parseIPFast ip \<and> load_state (parseIPFast ip) (pl_ipStates s) = None
        then ip' \<noteq> [] \<and> checkIsTrustedProxy ip (pl_cfg s) else trusted_now ip' s)"
proof -
  define st where "st = fst (GetOrCreate ip (checkIsTrustedProxy ip (pl_cfg s)) now (pl_ipStates s))"
  define m0 where "m0 = snd (GetOrCreate ip (checkIsTrustedProxy ip (pl_cfg s)) now (pl_ipStates s))"
  define m where "m = put_state (parseIPFast ip) (st\<lparr>is_ActiveConns := is_ActiveConns st + 1\<rparr>) m0"
  have m0: "ipm_ok m0" "load_state k m0 = (if k = parseIPFast ip then Some st else load_state k (pl_ipStates s))" for k
    using assms(1) by (simp_all add: m0_def st_def load_GetOrCreate)
  have v: "sint (is_ActiveConns st) = active_conns ip s"
    by (simp add: st_def fst_GetOrCreate active_at_def new_state_def split: option.split)
  then have w: "sint (is_ActiveConns st + 1) = active_conns ip s + 1" using increment_sint assms(2,3) by metis
  show thesis
  proof (rule that [where m = m])
    show "IncrementConnCount ip now s = (active_conns ip s + 1, s\<lparr>pl_ipStates := m\<rparr>)"
      using w by (simp add: IncrementConnCount_def getState_def set_state_def m_def m0_def st_def Let_def case_prod_unfold)
    show "ipm_ok m" using m0(1) by (simp add: m_def)
    show "active_at k (s\<lparr>pl_ipStates := m\<rparr>) = (if k = parseIPFast ip then active_conns ip s + 1 else active_at k s)" for k
      using m0 w by (simp add: active_at_def m_def)
    show "trusted_now ip' (s\<lparr>pl_ipStates := m\<rparr>) = (if parseIPFast ip' = parseIPFast ip \<and> load_state (parseIPFast ip) (pl_ipStates s) = None
        then ip' \<noteq> [] \<and> checkIsTrustedProxy ip (pl_cfg s) else trusted_now ip' s)" for ip'
      using m0 by (auto simp: trusted_now_def m_def st_def fst_GetOrCreate new_state_def split: option.splits)
  qed
qed

lemma decrement_effect:
  assumes "ipm_ok (pl_ipStates s)" and "0 \<le> active_conns ip s"
  shows "active_conns ip (snd (DecrementConnCount ip now s)) = max 0 (active_conns ip s - 1)"
proof -
  define st where "st = fst (GetOrCreate ip (checkIsTrustedProxy ip (pl_cfg s)) now (pl_ipStates s))"
  define m0 where "m0 = snd (GetOrCreate ip (checkIsTrustedProxy ip (pl_cfg s)) now (pl_ipStates s))"
  have m0: "ipm_ok m0" using assms(1) by (simp add: m0_def)
  have v: "sint (is_ActiveConns st) = active_conns ip s"
    by (simp add: st_def fst_GetOrCreate active_at_def new_state_def split: option.split)
  then have w: "sint (is_ActiveConns st - 1) = active_conns ip s - 1" using decrement_sint assms(2) by metis
  have "snd (DecrementConnCount ip now s) = s\<lparr>pl_ipStates := put_state (parseIPFast ip)
      (st\<lparr>is_ActiveConns := if sint (is_ActiveConns st - 1) < 0 then 0 else is_ActiveConns st - 1\<rparr>) m0\<rparr>"
    by (simp add: DecrementConnCount_def getState_def set_state_def m0_def st_def Let_def case_prod_unfold)
  then show ?thesis using m0 w by (simp add: active_at_def)
qed

lemma rate_effect:
  assumes "ipm_ok (pl_ipStates s)" and "\<not> trusted_now ip s" and "\<not> isWhitelisted ip (pl_cfg s)"
  obtains m where "CheckConnRate ip now s =
      (\<not> (if st_IsUnderAttack (sh_stats s) then 25 else 50) < next_rate ip now s, s\<lparr>pl_ipStates := m\<rparr>)" and "ipm_ok m"
    and "\<And>k. active_at k (s\<lparr>pl_ipStates := m\<rparr>) = active_at k s" and "\<not> trusted_now ip (s\<lparr>pl_ipStates := m\<rparr>)"
proof -
  define s1 where "s1 = s\<lparr>pl_ipStates := touched ip now s\<rparr>"
  define st where "st = fst (GetOrCreate ip (checkIsTrustedProxy ip (pl_cfg s)) now (pl_ipStates s1))"
  define m0 where "m0 = snd (GetOrCreate ip (checkIsTrustedProxy ip (pl_cfg s)) now (pl_ipStates s1))"
  define st' where "st' = (if second \<le> time_sub now (is_ConnLastReset st) then st\<lparr>is_CPS := 1, is_ConnLastReset := now\<rparr>
                      else st\<lparr>is_CPS := is_CPS st + 1\<rparr>)"
  define m where "m = put_state (parseIPFast ip) st' m0"
  have ok1: "ipm_ok (pl_ipStates s1)" using assms(1) touched_ok by (simp add: s1_def)
  have m0: "ipm_ok m0" "load_state k m0 = (if k = parseIPFast ip then Some st else load_state k (pl_ipStates s1))" for k
    using ok1 by (simp_all add: m0_def st_def load_GetOrCreate)
  have st: "is_CPS st' = next_rate ip now s1"
    by (simp add: st'_def st_def fst_GetOrCreate next_rate_def new_state_def split: option.split)
  have a: "sint (is_ActiveConns st') = active_conns ip s1"
    by (simp add: st'_def st_def fst_GetOrCreate active_at_def new_state_def split: option.split)
  have t1: "\<not> trusted_now ip s1" using assms(1,2) by (simp add: s1_def)
  show thesis
  proof (rule that [where m = m])
    have "CheckConnRate ip now s = (\<not> (if st_IsUnderAttack (sh_stats s) then 25 else 50) < is_CPS st', s\<lparr>pl_ipStates := m\<rparr>)"
      using assms by (simp add: CheckConnRate_def isTrustedProxy_touch getState_def set_state_def Let_def case_prod_unfold
          m_def m0_def st'_def st_def s1_def)
    then show "CheckConnRate ip now s = (\<not> (if st_IsUnderAttack (sh_stats s) then 25 else 50) < next_rate ip now s, s\<lparr>pl_ipStates := m\<rparr>)"
      unfolding st using rate_touched [OF assms(1), of s1 ip now] by (simp add: s1_def)
    show "ipm_ok m" using m0(1) by (simp add: m_def)
    show "active_at k (s\<lparr>pl_ipStates := m\<rparr>) = active_at k s" for k
      using m0 a active_touched [OF assms(1), of s1 ip now] by (simp add: m_def s1_def active_at_def)
    show "\<not> trusted_now ip (s\<lparr>pl_ipStates := m\<rparr>)"
      using m0 t1 by (auto simp: trusted_now_def m_def st'_def st_def fst_GetOrCreate new_state_def s1_def split: option.splits)
  qed
qed

lemma conn_state_frame [simp]:
  "pl_cfg (map_stats f s) = pl_cfg s" "pl_ipStates (map_stats f s) = pl_ipStates s" "pl_banned (map_stats f s) = pl_banned s"
  "active_at k (map_stats f s) = active_at k s"
  by (simp_all add: map_stats_def active_at_def)

lemma trusted_map_stats [simp]: "trusted_now ip (map_stats f s) = trusted_now ip s"
  by (rule trusted_now_cong) simp_all

text \<open>A connection that is neither trusted nor whitelisted: what the server does when it opens.\<close>

lemma admit_effect:
  assumes "ipm_ok (pl_ipStates s)" and "\<not> trusted_now ip s" and "\<not> isWhitelisted ip (pl_cfg s)"
    and "0 \<le> active_conns ip s" and "active_conns ip s < 2 ^ 31 - 1"
  shows "fst (admit_conn ip now s) = (refused ip now s \<or> cl_MaxPerIP (pr_ConnectionLimit (cfg_Protection (pl_cfg s))) < active_conns ip s + 1)"
    and "active_conns ip (snd (admit_conn ip now s)) = (if refused ip now s then active_conns ip s else active_conns ip s + 1)"
    and "ipm_ok (pl_ipStates (snd (admit_conn ip now s)))" and "pl_cfg (snd (admit_conn ip now s)) = pl_cfg s"
    and "ip \<noteq> [] \<Longrightarrow> \<not> trusted_now ip (snd (admit_conn ip now s))"
proof -
  define b where "b = (\<exists>e. tm_load ip (pl_banned s) = Some e \<and> now \<le> e)"
  define s1 where "s1 = snd (isBanned ip now (open_conn s))"
  have banned: "isBanned ip now (open_conn s) = (b, s1)"
    using assms(2,3) by (simp add: s1_def b_def isBanned_eq open_conn_def)
  have s1: "pl_ipStates s1 = touched ip now (open_conn s)" "pl_cfg s1 = pl_cfg s" "sh_stats s1 = sh_stats (open_conn s)"
    by (simp_all add: s1_def isBanned_eq open_conn_def)
  have ok: "ipm_ok (pl_ipStates (open_conn s))" using assms(1) by (simp add: open_conn_def)
  have ok1: "ipm_ok (pl_ipStates s1)" using touched_ok [OF ok] by (simp add: s1)
  have t1: "\<not> trusted_now ip s1"
    using trusted_now_touched [OF ok, of ip now] trusted_now_cong [of s1 "(open_conn s)\<lparr>pl_ipStates := touched ip now (open_conn s)\<rparr>" ip]
      s1 assms(2) by (simp add: open_conn_def)
  have a1: "active_at k s1 = active_at k s" for k using active_touched [OF ok, of s1 ip now k] s1(1) by (simp add: open_conn_def)
  have r1: "next_rate ip now s1 = next_rate ip now s"
    using rate_touched [OF ok s1(1)] by (simp add: next_rate_def open_conn_def)
  have att: "st_IsUnderAttack (sh_stats s1) = st_IsUnderAttack (sh_stats s)" by (simp add: s1 open_conn_def map_stats_def)
  have wl: "\<not> isWhitelisted ip (pl_cfg s1)" using assms(3) s1(2) by simp
  obtain m where m: "CheckConnRate ip now s1 =
      (\<not> (if st_IsUnderAttack (sh_stats s1) then 25 else 50) < next_rate ip now s1, s1\<lparr>pl_ipStates := m\<rparr>)" "ipm_ok m"
      "\<And>k. active_at k (s1\<lparr>pl_ipStates := m\<rparr>) = active_at k s1" "\<not> trusted_now ip (s1\<lparr>pl_ipStates := m\<rparr>)"
    using rate_effect [OF ok1 t1 wl, where now = now] by blast
  define s2 where "s2 = s1\<lparr>pl_ipStates := m\<rparr>"
  have s2: "ipm_ok (pl_ipStates s2)" "active_conns ip s2 = active_conns ip s" "\<not> trusted_now ip s2" "pl_cfg s2 = pl_cfg s"
    using m(2-4) s1(2) a1 by (simp_all add: s2_def)
  have bounds: "0 \<le> active_conns ip s2" "active_conns ip s2 < 2 ^ 31 - 1" using assms(4,5) s2(2) by simp_all
  obtain m' where inc: "IncrementConnCount ip now s2 = (active_conns ip s2 + 1, s2\<lparr>pl_ipStates := m'\<rparr>)" and m': "ipm_ok m'"
      and act: "\<And>k. active_at k (s2\<lparr>pl_ipStates := m'\<rparr>) = (if k = parseIPFast ip then active_conns ip s2 + 1 else active_at k s2)"
      and tru: "\<And>ip'. trusted_now ip' (s2\<lparr>pl_ipStates := m'\<rparr>) = (if parseIPFast ip' = parseIPFast ip \<and> load_state (parseIPFast ip) (pl_ipStates s2) = None
        then ip' \<noteq> [] \<and> checkIsTrustedProxy ip (pl_cfg s2) else trusted_now ip' s2)"
    using increment_effect [OF s2(1) bounds, where now = now] by blast
  have tr: "\<not> trusted_now ip (s2\<lparr>pl_ipStates := m'\<rparr>)" if "ip \<noteq> []"
    using tru [of ip] s2(3) that by (auto simp: trusted_now_def split: if_splits)
  have split: "admit_conn ip now s = (if refused ip now s then (True, snd (admit_conn ip now s))
      else (cl_MaxPerIP (pr_ConnectionLimit (cfg_Protection (pl_cfg s))) < active_conns ip s + 1, s2\<lparr>pl_ipStates := m'\<rparr>))"
    using banned m(1) inc s2(2,4) r1 att
    by (simp_all add: admit_conn_def refused_def b_def [symmetric] s2_def [symmetric] split: if_splits)
  have early: "(\<exists>f. snd (admit_conn ip now s) = map_stats f s1) \<or> snd (admit_conn ip now s) = s2" if "refused ip now s"
    using banned m(1) r1 att that
    by (cases b) (auto simp: admit_conn_def refused_def b_def [symmetric] s2_def [symmetric] split: if_splits)
  have rest: "active_conns ip s' = active_conns ip s" "ipm_ok (pl_ipStates s')" "pl_cfg s' = pl_cfg s" "\<not> trusted_now ip s'"
    if "(\<exists>f. s' = map_stats f s1) \<or> s' = s2" for s'
    using that s2 a1 ok1 t1 s1(2) by auto
  show "fst (admit_conn ip now s) = (refused ip now s \<or> cl_MaxPerIP (pr_ConnectionLimit (cfg_Protection (pl_cfg s))) < active_conns ip s + 1)"
    "active_conns ip (snd (admit_conn ip now s)) = (if refused ip now s then active_conns ip s else active_conns ip s + 1)"
    "ipm_ok (pl_ipStates (snd (admit_conn ip now s)))" "pl_cfg (snd (admit_conn ip now s)) = pl_cfg s"
    "ip \<noteq> [] \<Longrightarrow> \<not> trusted_now ip (snd (admit_conn ip now s))"
    using rest [OF early] act [of "parseIPFast ip"] tr m' s2
    by (cases "refused ip now s"; subst split; simp)+
qed

text \<open>
  C18: What a connection does to the count of its address, for one that is neither trusted nor whitelisted. It is closed at
  once when the address is banned, above its rate of connections, or at its limit of open ones. Only in the last case
  has it been counted, but its end is always subtracted: a connection refused for a ban or the rate leaves the count one
  below what it was, so by being refused often enough an address makes the server forget the connections it still holds.
\<close>

theorem connection_accounting:
  assumes "ipm_ok (pl_ipStates s)" and "ip = remote_ip addr" and "ip \<noteq> []" and "\<not> trusted_now ip s" and "\<not> isWhitelisted ip (pl_cfg s)"
    and "0 \<le> active_conns ip s" and "active_conns ip s < 2 ^ 31 - 1"
  shows "let (closed, s1) = conn_event addr StateNew now s; s2 = snd (conn_event addr StateClosed t s1) in
    closed = (refused ip now s \<or> cl_MaxPerIP (pr_ConnectionLimit (cfg_Protection (pl_cfg s))) < active_conns ip s + 1) \<and>
    active_conns ip s1 = (if refused ip now s then active_conns ip s else active_conns ip s + 1) \<and>
    active_conns ip s2 = (if refused ip now s then max 0 (active_conns ip s - 1) else active_conns ip s)"
proof -
  define s0 where "s0 = s\<lparr>pl_ipStates := touched ip now s\<rparr>"
  have s0: "ipm_ok (pl_ipStates s0)" "\<not> trusted_now ip s0" "\<not> isWhitelisted ip (pl_cfg s0)" "active_conns ip s0 = active_conns ip s"
      "pl_cfg s0 = pl_cfg s"
    using assms touched_ok active_touched [OF assms(1), of s0 ip now] by (simp_all add: s0_def)
  have r: "refused ip now s0 = refused ip now s"
    using rate_touched [OF assms(1), of s0 ip now] by (simp add: refused_def s0_def)
  obtain c s1 where c: "admit_conn ip now s0 = (c, s1)" by fastforce
  have bounds: "0 \<le> active_conns ip s0" "active_conns ip s0 < 2 ^ 31 - 1" using assms(6,7) s0(4) by simp_all
  note e = admit_effect [OF s0(1-3) bounds, where now = now, unfolded c fst_conv snd_conv s0(4,5) r]
  have new: "conn_event addr StateNew now s = (c, s1)"
    using assms(2-5) c by (simp add: conn_event_def isTrustedProxy_touch s0_def)
  define s2 where "s2 = close_conn (s1\<lparr>pl_ipStates := touched ip t s1\<rparr>)"
  have gone: "conn_event addr StateClosed t s1 = (False, snd (DecrementConnCount ip t s2))"
    using assms(2,5) e(4) e(5) [OF assms(3)] by (simp add: conn_event_def isTrustedProxy_touch s2_def Let_def)
  have "ipm_ok (pl_ipStates s2)" "active_conns ip s2 = active_conns ip s1"
    using touched_ok [OF e(3)] active_touched [OF e(3), of "s1\<lparr>pl_ipStates := touched ip t s1\<rparr>" ip t]
    by (simp_all add: s2_def close_conn_def)
  then have "active_conns ip (snd (DecrementConnCount ip t s2)) = max 0 (active_conns ip s1 - 1)"
    using decrement_effect [of s2 ip t] e(2) assms(6) by simp
  then show ?thesis using new gone e(1,2) assms(6) by simp
qed

text \<open>An address whose second connection of the same moment is refused, with one connection open.\<close>

definition busy_state :: IPState where
  "busy_state = (new_state False 0)\<lparr>is_CPS := 50, is_ConnLastReset := 0, is_ActiveConns := 1\<rparr>"

definition busy_server :: Shield where
  "busy_server = (New zero_Config disabled_xdp None 0)\<lparr>pl_ipStates := put_state (parseIPFast ''192.0.2.9'') busy_state newIPStateMap\<rparr>"

theorem connection_accounting_witness:
  "let (closed, s1) = conn_event ''192.0.2.9:4711'' StateNew 0 busy_server; s2 = snd (conn_event ''192.0.2.9:4711'' StateClosed 0 s1)
   in closed \<and> active_conns ''192.0.2.9'' busy_server = 1 \<and> active_conns ''192.0.2.9'' s2 = 0"
proof -
  have ip: "''192.0.2.9'' = remote_ip ''192.0.2.9:4711''" by code_simp
  have f: "pl_ipStates busy_server = put_state (parseIPFast ''192.0.2.9'') busy_state newIPStateMap" "pl_cfg busy_server = zero_Config"
    "st_IsUnderAttack (sh_stats busy_server) = False"
    by (simp_all add: busy_server_def New_def NewPipeline_def Shield.Pipeline.defs Shield.Shield.defs zero_stats_def)
  have ok: "ipm_ok (pl_ipStates busy_server)" by (simp add: f)
  have a: "active_conns ''192.0.2.9'' busy_server = 1" by (simp add: active_at_def f busy_state_def)
  have t: "\<not> trusted_now ''192.0.2.9'' busy_server" "\<not> isWhitelisted ''192.0.2.9'' (pl_cfg busy_server)"
    by (simp_all add: trusted_now_def f busy_state_def new_state_def nobody_trusted)
  have "refused ''192.0.2.9'' 0 busy_server"
    by (simp add: refused_def next_rate_def f busy_state_def time_sub_def second_def)
  then show ?thesis
    using connection_accounting [OF ok ip _ t, of 0 0] a by (simp add: case_prod_unfold Let_def)
qed

subsection \<open>Counting challenges\<close>

text \<open>What the lookups of a ban leave alone.\<close>

definition quiet :: "Shield \<Rightarrow> Shield \<Rightarrow> bool" where
  "quiet s s' \<longleftrightarrow> pl_cfg s' = pl_cfg s \<and> st_IsUnderAttack (sh_stats s') = st_IsUnderAttack (sh_stats s) \<and> ipm_ok (pl_ipStates s') \<and> (\<forall>k. active_at k s' = active_at k s) \<and>
     (\<forall>ip. \<not> exempt ip s \<longrightarrow> \<not> exempt ip s')"

lemma quiet_trans: "quiet s s' \<Longrightarrow> quiet s' s'' \<Longrightarrow> quiet s s''"
  by (simp add: quiet_def)

lemma exempt_cong: "pl_ipStates s' = pl_ipStates s \<Longrightarrow> pl_cfg s' = pl_cfg s \<Longrightarrow> exempt ip s' = exempt ip s"
  by (simp add: exempt_def trusted_now_cong [of s' s])

lemma quiet_same:
  "ipm_ok (pl_ipStates s) \<Longrightarrow> pl_ipStates s' = pl_ipStates s \<Longrightarrow> pl_cfg s' = pl_cfg s \<Longrightarrow>
     st_IsUnderAttack (sh_stats s') = st_IsUnderAttack (sh_stats s) \<Longrightarrow> quiet s s'"
  using exempt_cong [of s' s] by (simp add: quiet_def active_at_def)

lemma quiet_touch:
  assumes "ipm_ok (pl_ipStates s)" and "\<not> checkIsTrustedProxy ip (pl_cfg s)" and "pl_ipStates s' = touched ip now s" and "pl_cfg s' = pl_cfg s"
    and "st_IsUnderAttack (sh_stats s') = st_IsUnderAttack (sh_stats s)"
  shows "quiet s s'"
proof -
  have "\<not> trusted_now ip' s'" if "\<not> trusted_now ip' s" "\<not> checkIsTrustedProxy ip' (pl_cfg s)" for ip'
    using that assms by (auto simp: trusted_now_def load_touched new_state_def split: option.splits if_splits)
  then show ?thesis using assms touched_ok [OF assms(1)] active_touched [OF assms(1,3)] by (auto simp: quiet_def exempt_def)
qed

lemma quiet_banIP:
  assumes "shield_ok s" and "\<not> exempt ip s"
  shows "quiet s (banIP ip d now s)"
proof -
  define s1 where "s1 = s\<lparr>pl_ipStates := touched ip now s\<rparr>"
  have ok: "ipm_ok (pl_ipStates s)" and check: "\<not> checkIsTrustedProxy ip (pl_cfg s)" using assms by (simp_all add: shield_ok_def exempt_def)
  have q1: "quiet s s1" using quiet_touch [OF ok check, of s1 now] by (simp add: s1_def)
  have ok1: "ipm_ok (pl_ipStates s1)" using q1 by (simp add: quiet_def)
  define s2 where "s2 = store_ban ip (now + d) s1"
  have s2: "pl_ipStates s2 = pl_ipStates s1" "pl_cfg s2 = pl_cfg s1" "st_IsUnderAttack (sh_stats s2) = st_IsUnderAttack (sh_stats s1)"
    by (simp_all add: s2_def store_ban_def add_banned_stat_def Let_def case_prod_unfold)
  obtain m where m: "m \<in> {pl_ipStates s2, touched ip now s2}" "pl_ipStates (push_kernel ip d now s2) = m"
      "pl_cfg (push_kernel ip d now s2) = pl_cfg s2" "sh_stats (push_kernel ip d now s2) = sh_stats s2"
    using push_kernel_eq [of s2 ip now d] ok1 s2(1) by fastforce
  have "quiet s2 (push_kernel ip d now s2)"
    using m(1) quiet_same [of s2 "push_kernel ip d now s2"] quiet_touch [of s2 ip "push_kernel ip d now s2" now] m(2-4) ok1 check s2
    by (auto simp: s1_def)
  moreover have "quiet s1 s2" by (rule quiet_same [OF ok1 s2])
  ultimately have q2: "quiet s (push_kernel ip d now s2)" using q1 quiet_trans by blast
  then have "ipm_ok (pl_ipStates (push_kernel ip d now s2))" by (simp add: quiet_def)
  then have "quiet (push_kernel ip d now s2) (push_cf_ban ip (push_kernel ip d now s2))"
    by (rule quiet_same) (simp_all add: push_cf_ban_def)
  moreover have "banIP ip d now s = push_cf_ban ip (push_kernel ip d now s2)"
    using assms(2) by (simp add: banIP_def exempt_def isTrustedProxy_touch Let_def s2_def s1_def)
  ultimately show ?thesis using quiet_trans [OF q2] by simp
qed

lemma quiet_BanIPLocal:
  assumes "shield_ok s" and "\<not> exempt ip s"
  shows "quiet s (BanIPLocal ip d now s)" and "shield_ok (BanIPLocal ip d now s)"
    and "tm_load k (pl_banned (BanIPLocal ip d now s)) = (if k = ip then Some (now + d) else tm_load k (pl_banned s))"
proof -
  define s1 where "s1 = s\<lparr>pl_ipStates := touched ip now s\<rparr>"
  have ok: "ipm_ok (pl_ipStates s)" and check: "\<not> checkIsTrustedProxy ip (pl_cfg s)" using assms by (simp_all add: shield_ok_def exempt_def)
  have q1: "quiet s s1" using quiet_touch [OF ok check, of s1 now] by (simp add: s1_def)
  note b = touched_bannable [OF assms, of now, folded s1_def]
  note e = banIP_effect [OF b, where d = d and now = now]
  note eq = BanIPLocal_bans [OF assms, of d now, folded s1_def]
  have "\<not> exempt ip s1" using q1 assms(2) by (simp add: quiet_def)
  from quiet_banIP [OF b(1) this] have q2: "quiet s (banIP ip d now s1)" using q1 quiet_trans by blast
  then have "ipm_ok (pl_ipStates (banIP ip d now s1))" by (simp add: quiet_def)
  then have "quiet (banIP ip d now s1) ((banIP ip d now s1)\<lparr>pl_mesh := n\<rparr>)" for n
    by (rule quiet_same) simp_all
  then show "quiet s (BanIPLocal ip d now s)" unfolding eq by (rule quiet_trans [OF q2])
  show "shield_ok (BanIPLocal ip d now s)" unfolding eq using e(1) by (simp add: shield_ok_def)
  show "tm_load k (pl_banned (BanIPLocal ip d now s)) = (if k = ip then Some (now + d) else tm_load k (pl_banned s))"
    unfolding eq using e(2) by (simp add: s1_def)
qed

abbreviation shared_key :: "byte list" where
  "shared_key \<equiv> replicate 16 0"

lemma challenge_key_shared: "CHR ''%'' \<notin> set ip \<Longrightarrow> parse_addr (challenge_key ip) = None"
proof -
  have "\<not> addr_char CHR ''_''" by code_simp
  then show "CHR ''%'' \<notin> set ip \<Longrightarrow> parse_addr (challenge_key ip) = None"
    by (intro parse_addr_bad [of "CHR ''_''"]) (simp_all add: challenge_key_def)
qed

lemma challenge_key_trust: "parse_addr (challenge_key ip) = None \<Longrightarrow> \<not> checkIsTrustedProxy (challenge_key ip) cfg"
  by (simp add: checkIsTrustedProxy_def parse_ip_def)

text \<open>One challenge page: one more on the shared counter, and a ban from the third on.\<close>

lemma challenge_step:
  fixes env :: env and a :: Action and now :: gotime
  assumes "shield_ok s" and "CHR ''%'' \<notin> set ip" and "\<not> exempt ip s" and "\<not> st_IsUnderAttack (sh_stats s)"
    and "0 \<le> active_at shared_key s" and "active_at shared_key s < 2 ^ 31 - 1"
  defines "s' \<equiv> snd (challenge_request env a ip now s)"
  shows "shield_ok s'" and "active_at shared_key s' = active_at shared_key s + 1" and "pl_cfg s' = pl_cfg s"
    and "\<not> st_IsUnderAttack (sh_stats s')"
    and "\<not> exempt ip' s \<Longrightarrow> \<not> exempt ip' s'"
    and "tm_load k (pl_banned s') = (if k = ip \<and> 2 \<le> active_at shared_key s then Some (now + ban_duration s) else tm_load k (pl_banned s))"
proof -
  define s1 where "s1 = (add_blocked s)\<lparr>pl_ipStates := touched ip now (add_blocked s)\<rparr>"
  have ok: "ipm_ok (pl_ipStates (add_blocked s))" using assms(1) by (simp add: add_blocked_def shield_ok_def)
  have "st_IsUnderAttack (sh_stats (add_blocked s)) = st_IsUnderAttack (sh_stats s)" by (simp add: add_blocked_def map_stats_def)
  then have q0: "quiet s (add_blocked s)" using quiet_same [of s "add_blocked s"] ok by (simp add: add_blocked_def)
  have check: "\<not> checkIsTrustedProxy ip (pl_cfg (add_blocked s))" using assms(3) by (simp add: exempt_def add_blocked_def)
  have q1: "quiet s s1" using quiet_touch [OF ok check, of s1 now] q0 quiet_trans by (simp add: s1_def)
  have s1: "ipm_ok (pl_ipStates s1)" "active_at shared_key s1 = active_at shared_key s" "pl_cfg s1 = pl_cfg s" "\<not> exempt ip s1"
    using q1 assms(3) by (simp_all add: quiet_def)
  have key: "parseIPFast (challenge_key ip) = shared_key" using challenge_key_shared [OF assms(2)] by (rule parseIPFast_none)
  have kt: "\<not> checkIsTrustedProxy (challenge_key ip) (pl_cfg s1)" by (rule challenge_key_trust [OF challenge_key_shared [OF assms(2)]])
  have bounds: "0 \<le> active_conns (challenge_key ip) s1" "active_conns (challenge_key ip) s1 < 2 ^ 31 - 1"
    using assms(5,6) s1(2) by (simp_all add: key)
  obtain m where inc: "IncrementConnCount (challenge_key ip) now s1 = (active_at shared_key s + 1, s1\<lparr>pl_ipStates := m\<rparr>)" and m: "ipm_ok m"
      and act: "active_at shared_key (s1\<lparr>pl_ipStates := m\<rparr>) = active_at shared_key s + 1"
      and tru: "\<And>ip'. trusted_now ip' (s1\<lparr>pl_ipStates := m\<rparr>) \<Longrightarrow> trusted_now ip' s1"
    using increment_effect [OF s1(1) bounds, where now = now] kt unfolding key s1(2) by (smt (verit))
  define s2 where "s2 = s1\<lparr>pl_ipStates := m\<rparr>"
  have s2: "shield_ok s2" "pl_cfg s2 = pl_cfg s" "pl_banned s2 = pl_banned s" "st_IsUnderAttack (sh_stats s2) = False" "ban_duration s2 = ban_duration s"
    using assms(1,4) m s1(3) by (simp_all add: s2_def s1_def shield_ok_def add_blocked_def map_stats_def ban_duration_def)
  have ex: "\<not> exempt ip' s2" if "\<not> exempt ip' s" for ip'
    using that q1 tru [of ip'] by (auto simp: quiet_def exempt_def s2_def)
  have trust: "isTrustedProxy ip now (add_blocked s) = (False, s1)"
    using assms(3) trusted_now_cong [of "add_blocked s" s ip] by (simp add: isTrustedProxy_touch s1_def exempt_def add_blocked_def)
  have s': "s' = (if 2 < active_at shared_key s + 1 then BanIPLocal ip (ban_duration s2) now s2 else s2)"
    using inc s1(3) assms(3) s2(4) unfolding s'_def s2_def by (simp add: challenge_request_def trust exempt_def)
  note b = quiet_BanIPLocal [OF s2(1) ex [OF assms(3)], where d = "ban_duration s2" and now = now]
  show "shield_ok s'" "active_at shared_key s' = active_at shared_key s + 1" "pl_cfg s' = pl_cfg s" "\<not> st_IsUnderAttack (sh_stats s')"
    "\<not> exempt ip' s \<Longrightarrow> \<not> exempt ip' s'"
    "tm_load k (pl_banned s') = (if k = ip \<and> 2 \<le> active_at shared_key s then Some (now + ban_duration s) else tm_load k (pl_banned s))"
    unfolding s' using b ex act s2 by (auto simp: quiet_def s2_def [symmetric])
qed

definition serve_challenge :: "env \<Rightarrow> Action \<Rightarrow> gotime \<Rightarrow> string \<Rightarrow> Shield \<Rightarrow> Shield" where
  "serve_challenge env a now ip s = snd (challenge_request env a ip now s)"

lemma challenge_round:
  assumes "shield_ok s" and "\<forall>ip \<in> set ips. CHR ''%'' \<notin> set ip \<and> \<not> exempt ip s" and "\<not> st_IsUnderAttack (sh_stats s)"
    and "active_at shared_key s = int n" and "n + length ips < 2 ^ 31 - 1"
  shows "tm_load k (pl_banned (fold (serve_challenge env a now) ips s)) =
    (if k \<in> set (drop (2 - n) ips) then Some (now + ban_duration s) else tm_load k (pl_banned s))"
  using assms
proof (induction ips arbitrary: s n)
  case (Cons ip ips)
  have b: "0 \<le> active_at shared_key s" "active_at shared_key s < 2 ^ 31 - 1" using Cons.prems(4,5) by simp_all
  have c: "CHR ''%'' \<notin> set ip" "\<not> exempt ip s" using Cons.prems(2) by simp_all
  note e = challenge_step [OF Cons.prems(1) c Cons.prems(3) b, where env = env and a = a and now = now, folded serve_challenge_def]
  have "active_at shared_key (serve_challenge env a now ip s) = int (Suc n)" using e(2) Cons.prems(4) by simp
  from Cons.IH [OF e(1) _ e(4) this] have "tm_load k (pl_banned (fold (serve_challenge env a now) ips (serve_challenge env a now ip s))) =
      (if k \<in> set (drop (2 - Suc n) ips) then Some (now + ban_duration s)
       else if k = ip \<and> 2 \<le> n then Some (now + ban_duration s) else tm_load k (pl_banned s))"
    using Cons.prems(2,4,5) e(3) e(5) [of _] e(6) [of k] by (simp add: ban_duration_def)
  moreover have "drop (2 - n) (ip # ips) = (if 2 \<le> n then ip # ips else drop (2 - Suc n) ips)"
    by (cases n) (auto simp: drop_Cons' numeral_2_eq_2 split: nat.split)
  ultimately show ?case by auto
qed simp

text \<open>
  C35: The counter of challenge pages is one for all addresses: the key that \<open>handleRequest\<close> counts under is no address, so
  all of them share a state. Of a series of addresses that get a challenge page each, all but the first two are banned at
  once for the full time, also those that have never been seen before; only the first two are spared.
\<close>

theorem challenge_counter_shared:
  assumes "shield_ok s" and "\<forall>ip \<in> set ips. CHR ''%'' \<notin> set ip \<and> \<not> exempt ip s" and "\<not> st_IsUnderAttack (sh_stats s)"
    and "active_at shared_key s = 0" and "length ips < 2 ^ 31 - 1"
  shows "tm_load k (pl_banned (fold (serve_challenge env a now) ips s)) =
    (if k \<in> set (drop 2 ips) then Some (now + ban_duration s) else tm_load k (pl_banned s))"
  using challenge_round [OF assms(1-3), of 0 k env a now] assms(4,5) by simp

theorem challenge_counter_shared_witness:
  "\<forall>env. let ips = [''192.0.2.1'', ''198.51.100.2'', ''203.0.113.9'']; s = xdp_shield
   in tm_load ''203.0.113.9'' (pl_banned (fold (serve_challenge env (act ActionChallenge []) 7) ips s)) = Some (7 + ban_duration s) \<and>
     tm_load ''192.0.2.1'' (pl_banned (fold (serve_challenge env (act ActionChallenge []) 7) ips s)) = None"
proof -
  have ok: "shield_ok xdp_shield" by (simp add: xdp_shield_def)
  have at: "\<not> st_IsUnderAttack (sh_stats xdp_shield)" "active_at shared_key xdp_shield = 0"
    by (simp_all add: xdp_shield_def New_def NewPipeline_def Shield.Pipeline.defs Shield.Shield.defs zero_stats_def active_at_def)
  have ips: "\<forall>ip \<in> set [''192.0.2.1'', ''198.51.100.2'', ''203.0.113.9'']. CHR ''%'' \<notin> set ip \<and> \<not> exempt ip xdp_shield"
    by (simp add: xdp_shield_exempt)
  show ?thesis using challenge_counter_shared [OF ok ips at, where now = 7] by (simp add: Let_def)
qed

end
