(* ===== verification/Admin_Store.thy ===== *)
theory Admin_Store
  imports Http Config_Load
begin

section \<open>Accounts, roles and the audit log (api/storage.go, rbac.go, audit.go)\<close>

text \<open>
  The data of the dashboard with the account of the administrator taken over from the configuration, the permissions of
  the roles, and the audit log with its queries and its export. The file of the storage comes decoded, the formatting of a
  time is an argument. Lemmas: reading an export back gives what was written.
\<close>

subsection \<open>Storage\<close>

record UserAccount =
  ua_Username :: string
  ua_Password :: string
  ua_Email :: string
  ua_Role :: string
  ua_Domains :: "string list"
  ua_SessionToken :: string

record PricingPlan =
  pp_ID :: string
  pp_Name :: string
  pp_Price :: string
  pp_Period :: string
  pp_Subtitle :: string
  pp_Featured :: bool
  pp_Features :: "string list"
  pp_ButtonText :: string

record DocItem =
  di_ID :: string
  di_Title :: string
  di_Category :: string
  di_Content :: string

record SystemSettings =
  ss_TelegramToken :: string
  ss_TelegramChat :: string
  ss_DiscordURL :: string
  ss_WebhookURL :: string
  ss_ProtectionMode :: string

record StorageData =
  sd_Users :: "UserAccount list"
  sd_Domains :: "DomainConfig list"
  sd_Pricing :: "PricingPlan list"
  sd_Docs :: "DocItem list"
  sd_Settings :: SystemSettings

definition no_settings :: SystemSettings where
  "no_settings = \<lparr>ss_TelegramToken = [], ss_TelegramChat = [], ss_DiscordURL = [], ss_WebhookURL = [], ss_ProtectionMode = []\<rparr>"

definition admin_login :: "Config option \<Rightarrow> string \<times> string" where
  "admin_login cfg = (case cfg of
     None \<Rightarrow> (''admin'', [])
   | Some c \<Rightarrow> (or_empty ''admin'' (dash_Username (cfg_Dashboard c)), dash_Password (cfg_Dashboard c)))"

definition sync_admin :: "string \<Rightarrow> string \<Rightarrow> UserAccount \<Rightarrow> UserAccount" where
  "sync_admin adminUser adminPass u =
     (if equal_fold (ua_Username u) adminUser \<or> ua_Role u = ''super_admin''
      then u\<lparr>ua_Username := or_empty (ua_Username u) adminUser, ua_Password := or_empty (ua_Password u) adminPass\<rparr>
      else u)"

text \<open>\<open>pricing\<close> and \<open>docs\<close> are the built-in texts, \<open>file\<close> the decoded file.\<close>

definition load_storage :: "PricingPlan list \<Rightarrow> DocItem list \<Rightarrow> Config option \<Rightarrow> StorageData option \<Rightarrow> StorageData" where
  "load_storage pricing docs cfg file =
     (let (adminUser, adminPass) = admin_login cfg;
          s = \<lparr>sd_Users = [\<lparr>ua_Username = adminUser, ua_Password = adminPass, ua_Email = adminUser @ ''@mango-shield.local'',
                   ua_Role = ''super_admin'', ua_Domains = [], ua_SessionToken = []\<rparr>],
               sd_Domains = [], sd_Pricing = pricing, sd_Docs = docs, sd_Settings = no_settings\<rparr>
      in case file of
           None \<Rightarrow> s
         | Some loaded \<Rightarrow>
             s\<lparr>sd_Users := (if sd_Users loaded = [] then sd_Users s else map (sync_admin adminUser adminPass) (sd_Users loaded)),
               sd_Domains := (if sd_Domains loaded = [] then sd_Domains s else sd_Domains loaded),
               sd_Pricing := (if sd_Pricing loaded = [] then sd_Pricing s else sd_Pricing loaded),
               sd_Docs := (if sd_Docs loaded = [] then sd_Docs s else sd_Docs loaded),
               sd_Settings := sd_Settings loaded\<rparr>)"

subsection \<open>Roles\<close>

definition IsSuperAdmin :: "string \<Rightarrow> bool" where "IsSuperAdmin role \<longleftrightarrow> role = ''super_admin'' \<or> role = ''admin''"
definition CanEditYAML :: "string \<Rightarrow> bool" where "CanEditYAML role \<longleftrightarrow> role = ''super_admin'' \<or> role = ''admin''"
definition CanManageSystem :: "string \<Rightarrow> bool" where "CanManageSystem role \<longleftrightarrow> role = ''super_admin'' \<or> role = ''admin''"
definition CanManageGlobalSecurity :: "string \<Rightarrow> bool" where
  "CanManageGlobalSecurity role \<longleftrightarrow> role = ''super_admin'' \<or> role = ''admin''"
definition CanManageAllDomains :: "string \<Rightarrow> bool" where
  "CanManageAllDomains role \<longleftrightarrow> role = ''super_admin'' \<or> role = ''admin''"
definition CanViewLogs :: "string \<Rightarrow> bool" where
  "CanViewLogs role \<longleftrightarrow> role = ''super_admin'' \<or> role = ''admin'' \<or> role = ''operator''"
definition CanRestartServices :: "string \<Rightarrow> bool" where
  "CanRestartServices role \<longleftrightarrow> role = ''super_admin'' \<or> role = ''admin'' \<or> role = ''operator''"

definition CheckDomainOwnership :: "string \<Rightarrow> string \<Rightarrow> string \<Rightarrow> DomainConfig list \<Rightarrow> bool" where
  "CheckDomainOwnership username role domainName domains \<longleftrightarrow> CanManageAllDomains role \<or>
     (case find (\<lambda>d. dom_Name d = domainName) domains of
        None \<Rightarrow> False | Some d \<Rightarrow> dom_Owner d = username \<or> dom_Owner d = [])"

text \<open>\<open>RequireRole\<close>: whether the next handler is called for the role in the context, empty if there is none.\<close>

definition RequireRole :: "string list \<Rightarrow> string \<Rightarrow> bool" where
  "RequireRole allowedRoles ctxRole =
     (let role = (if ctxRole = [] then ''user'' else ctxRole) in role = ''super_admin'' \<or> role \<in> set allowedRoles)"

subsection \<open>The audit log\<close>

record AuditEntry =
  ae_ID :: string
  ae_Timestamp :: gotime
  ae_User :: string
  ae_Role :: string
  ae_Action :: string
  ae_Module :: string
  ae_Target :: string
  ae_Details :: string
  ae_ClientIP :: string
  ae_Status :: string

definition LogAction ::
  "gotime \<Rightarrow> string \<Rightarrow> string \<Rightarrow> string \<Rightarrow> string \<Rightarrow> string \<Rightarrow> string \<Rightarrow> string \<Rightarrow> string \<Rightarrow> AuditEntry list \<Rightarrow> AuditEntry list" where
  "LogAction now user role action modu target details clientIP status entries =
     take 5000 (\<lparr>ae_ID = ''audit_'' @ itoa now, ae_Timestamp = now, ae_User = user, ae_Role = role, ae_Action = action,
       ae_Module = modu, ae_Target = target, ae_Details = details, ae_ClientIP = clientIP, ae_Status = status\<rparr> # entries)"

definition audit_matches :: "string \<Rightarrow> string \<Rightarrow> string \<Rightarrow> string \<Rightarrow> string \<Rightarrow> AuditEntry \<Rightarrow> bool" where
  "audit_matches user role action modu search e \<longleftrightarrow>
     (user = [] \<or> equal_fold (ae_User e) user) \<and> (role = [] \<or> equal_fold (ae_Role e) role) \<and>
     (action = [] \<or> equal_fold (ae_Action e) action) \<and> (modu = [] \<or> equal_fold (ae_Module e) modu) \<and>
     (search = [] \<or> str_contains (to_lower (join_with '' ''
        [ae_User e, ae_Action e, ae_Module e, ae_Target e, ae_Details e, ae_ClientIP e])) (to_lower search))"

fun query_audit :: "(AuditEntry \<Rightarrow> bool) \<Rightarrow> int \<Rightarrow> AuditEntry list \<Rightarrow> AuditEntry list \<Rightarrow> AuditEntry list" where
  "query_audit ok limit [] result = result"
| "query_audit ok limit (e # es) result =
     (if \<not> ok e then query_audit ok limit es result
      else let result' = result @ [e] in
        if 0 < limit \<and> limit \<le> int (length result') then result' else query_audit ok limit es result')"

definition QueryEntries :: "string \<Rightarrow> string \<Rightarrow> string \<Rightarrow> string \<Rightarrow> string \<Rightarrow> int \<Rightarrow> AuditEntry list \<Rightarrow> AuditEntry list" where
  "QueryEntries user role action modu search limit entries =
     query_audit (audit_matches user role action modu search) limit entries []"

lemma query_audit_all: "query_audit ok 0 es result = result @ filter ok es"
  by (induction es arbitrary: result) simp_all

subsection \<open>Export\<close>

fun escapeCSV :: "string \<Rightarrow> string" where
  "escapeCSV [] = []"
| "escapeCSV (c # s) = (if c = CHR ''\"'' then ''\"\"'' @ escapeCSV s else c # escapeCSV s)"

definition csv_quoted :: "string \<Rightarrow> string" where
  "csv_quoted s = ''\"'' @ s @ ''\"''"

definition csv_line :: "string list \<Rightarrow> string" where
  "csv_line cells = join_with '','' (map csv_quoted cells) @ ''\<newline>''"

definition audit_header :: "string list" where
  "audit_header = [''Timestamp'', ''User'', ''Role'', ''Action'', ''Module'', ''Target'', ''ClientIP'', ''Status'', ''Details'']"

definition audit_row :: "(gotime \<Rightarrow> string) \<Rightarrow> AuditEntry \<Rightarrow> string" where
  "audit_row rfc3339 e = csv_line [rfc3339 (ae_Timestamp e), escapeCSV (ae_User e), escapeCSV (ae_Role e), escapeCSV (ae_Action e),
     escapeCSV (ae_Module e), escapeCSV (ae_Target e), escapeCSV (ae_ClientIP e), escapeCSV (ae_Status e), escapeCSV (ae_Details e)]"

definition ExportCSV :: "(gotime \<Rightarrow> string) \<Rightarrow> string \<Rightarrow> string \<Rightarrow> string \<Rightarrow> string \<Rightarrow> string \<Rightarrow> AuditEntry list \<Rightarrow> string" where
  "ExportCSV rfc3339 user role action modu search entries =
     join_with '','' audit_header @ ''\<newline>'' @
     concat (map (audit_row rfc3339) (QueryEntries user role action modu search 0 entries))"

text \<open>A reader of the format: fields in quotes, with doubled quotes inside, or plain up to a comma or the end of the line.\<close>

fun read_quoted :: "string \<Rightarrow> (string \<times> string) option" where
  "read_quoted [] = None"
| "read_quoted (c # s) =
     (if c \<noteq> CHR ''\"'' then map_option (\<lambda>(f, r). (c # f, r)) (read_quoted s)
      else case s of
        [] \<Rightarrow> Some ([], [])
      | d # s' \<Rightarrow> if d = CHR ''\"'' then map_option (\<lambda>(f, r). (c # f, r)) (read_quoted s') else Some ([], s))"

definition read_field :: "string \<Rightarrow> (string \<times> string) option" where
  "read_field s = (if prefix ''\"'' s then read_quoted (tl s)
     else Some (takeWhile (\<lambda>c. c \<noteq> CHR '','' \<and> c \<noteq> CHR ''\<newline>'') s, dropWhile (\<lambda>c. c \<noteq> CHR '','' \<and> c \<noteq> CHR ''\<newline>'') s))"

fun read_csv :: "nat \<Rightarrow> string list \<Rightarrow> string \<Rightarrow> string list list option" where
  "read_csv 0 acc s = None"
| "read_csv (Suc n) acc s =
     (if s = [] \<and> acc = [] then Some []
      else case read_field s of
        None \<Rightarrow> None
      | Some (f, r) \<Rightarrow>
          if prefix '','' r then read_csv n (acc @ [f]) (tl r)
          else if prefix ''\<newline>'' r then map_option ((#) (acc @ [f])) (read_csv n [] (tl r))
          else None)"

lemma read_quoted_escape: "\<not> prefix ''\"'' r \<Longrightarrow> read_quoted (escapeCSV f @ ''\"'' @ r) = Some (f, r)"
  by (induction f) (auto split: list.split)

lemma escape_plain: "CHR ''\"'' \<notin> set s \<Longrightarrow> escapeCSV s = s"
  by (induction s) auto

lemma read_line:
  assumes "fs \<noteq> []"
  shows "read_csv (length fs + n) acc (csv_line (map escapeCSV fs) @ r) = map_option ((#) (acc @ fs)) (read_csv n [] r)"
  using assms
proof (induction fs arbitrary: acc)
  case (Cons f fs)
  show ?case
  proof (cases fs)
    case Nil
    then show ?thesis
      using read_quoted_escape [of "''\<newline>'' @ r" f] by (simp add: csv_line_def csv_quoted_def read_field_def)
  next
    case (Cons g gs)
    have "csv_line (map escapeCSV (f # fs)) = ''\"'' @ escapeCSV f @ ''\"'' @ '','' @ csv_line (map escapeCSV fs)"
      using Cons by (simp add: csv_line_def csv_quoted_def)
    then show ?thesis
      using Cons Cons.IH [of "acc @ [f]"] read_quoted_escape [of "'','' @ csv_line (map escapeCSV fs) @ r" f]
      by (simp add: read_field_def)
  qed
qed simp

text \<open>The fields of an entry in the order of the export.\<close>

definition audit_fields :: "(gotime \<Rightarrow> string) \<Rightarrow> AuditEntry \<Rightarrow> string list" where
  "audit_fields rfc3339 e = [rfc3339 (ae_Timestamp e), ae_User e, ae_Role e, ae_Action e, ae_Module e, ae_Target e, ae_ClientIP e,
     ae_Status e, ae_Details e]"

lemma read_rows:
  assumes "\<forall>t. CHR ''\"'' \<notin> set (rfc3339 t)"
  shows "read_csv (9 * length es + Suc n) [] (concat (map (audit_row rfc3339) es)) = Some (map (audit_fields rfc3339) es)"
proof (induction es)
  case (Cons e es)
  have "audit_row rfc3339 e = csv_line (map escapeCSV (audit_fields rfc3339 e))"
    using assms by (simp add: audit_row_def audit_fields_def escape_plain)
  moreover have "audit_fields rfc3339 e \<noteq> []" "length (audit_fields rfc3339 e) = 9" by (simp_all add: audit_fields_def)
  ultimately show ?case
    using read_line [of "audit_fields rfc3339 e" "9 * length es + Suc n" "[]" "concat (map (audit_row rfc3339) es)"] Cons.IH
    by (simp add: algebra_simps)
qed simp

lemma read_header: "read_csv (9 + n) [] (join_with '','' audit_header @ ''\<newline>'' @ r) = map_option ((#) audit_header) (read_csv n [] r)"
  by (simp add: audit_header_def read_field_def numeral_eq_Suc)

text \<open>
  C37: An export of the audit log can be read back: whatever users wrote into names, targets and details, quotes, commas and
  line ends included, a reader of the format gets the header and then exactly the fields of the entries that match.
\<close>

theorem audit_export_round_trip:
  assumes "\<forall>t. CHR ''\"'' \<notin> set (rfc3339 t)"
  shows "let found = filter (audit_matches user role action modu search) entries in
    read_csv (9 * length found + 10) [] (ExportCSV rfc3339 user role action modu search entries) =
      Some (audit_header # map (audit_fields rfc3339) found)"
proof -
  define found where "found = filter (audit_matches user role action modu search) entries"
  have "QueryEntries user role action modu search 0 entries = found"
    by (simp add: QueryEntries_def query_audit_all found_def)
  then have "ExportCSV rfc3339 user role action modu search entries =
      join_with '','' audit_header @ ''\<newline>'' @ concat (map (audit_row rfc3339) found)"
    by (simp add: ExportCSV_def)
  then show ?thesis
    using read_rows [OF assms(1), of found 0] read_header [of "9 * length found + 1"] by (simp add: found_def [symmetric] add.commute)
qed

definition noted :: "AuditEntry list" where
  "noted = LogAction 7 ''eve'' ''admin'' ''USER_CREATE'' ''users'' ''x\",\"y'' ''a\<newline>b'' ''10.0.0.1'' ''success'' []"

theorem audit_export_round_trip_witness:
  "read_csv 19 [] (ExportCSV (\<lambda>t. itoa t) [] [] [] [] [] noted) = Some [audit_header, audit_fields itoa (hd noted)]"
proof -
  have "CHR ''\"'' \<notin> set (show_nat n)" for n using show_nat_digits [of n] by (auto simp: is_digit_def)
  then have q: "\<forall>t. CHR ''\"'' \<notin> set (itoa t)" by (simp add: itoa_def)
  have "filter (audit_matches [] [] [] [] []) noted = [hd noted]" by (simp add: audit_matches_def noted_def LogAction_def)
  then show ?thesis using audit_export_round_trip [OF q, of "[]" "[]" "[]" "[]" "[]" noted] by simp
qed

end
