(* ===== verification/Center_Start.thy ===== *)
theory Center_Start
  imports Config_Center
begin

section \<open>Start and reading of the configuration center (config/center.go)\<close>

text \<open>
  \<open>NewCenter\<close>, the reload from the disk and the parts that only read. The absolute path of the file, what
  \<open>Load\<close> makes of it, and the directories are arguments. Lemmas: a center always has a configuration.
\<close>

definition GetRawYAML :: "(Config \<Rightarrow> string option) \<Rightarrow> 'w ConfigCenter \<Rightarrow> string" where
  "GetRawYAML mar cc =
     (if cc_rawYAML cc \<noteq> [] then cc_rawYAML cc
      else case cc_currentConfig cc of
        None \<Rightarrow> ''null\<newline>''
      | Some c \<Rightarrow> (case mar c of Some raw \<Rightarrow> raw | None \<Rightarrow> []))"

definition ReloadFromDisk :: "(string \<Rightarrow> Config option) \<Rightarrow> disk \<Rightarrow> 'w ConfigCenter \<Rightarrow> bool \<times> 'w ConfigCenter" where
  "ReloadFromDisk load d cc = (case read_text d (cc_currentPath cc) of
     None \<Rightarrow> (False, cc)
   | Some data \<Rightarrow> (case load data of
       None \<Rightarrow> (False, cc)
     | Some cfg \<Rightarrow> (True, cc\<lparr>cc_currentConfig := Some cfg, cc_rawYAML := data\<rparr>)))"

definition saveYAMLToDisk :: "(Config \<Rightarrow> string option) \<Rightarrow> (string \<Rightarrow> bool) \<Rightarrow> Config \<Rightarrow> 'w ConfigCenter \<times> disk \<Rightarrow> 'w ConfigCenter \<times> disk" where
  "saveYAMLToDisk mar writable cfg st = (case st of (cc, d) \<Rightarrow> case mar cfg of
     None \<Rightarrow> (cc, d)
   | Some raw \<Rightarrow> (cc\<lparr>cc_rawYAML := raw\<rparr>, fst (write_file writable (cc_currentPath cc) (Text raw) d)))"

definition loadRevisionsList :: "disk \<Rightarrow> 'w ConfigCenter \<Rightarrow> 'w ConfigCenter" where
  "loadRevisionsList d cc = (case map_of d (rev_index cc) of
     Some (RevIndex revs) \<Rightarrow> cc\<lparr>cc_revisions := revs\<rparr> | _ \<Rightarrow> cc)"

definition loadBackupsList :: "disk \<Rightarrow> 'w ConfigCenter \<Rightarrow> 'w ConfigCenter" where
  "loadBackupsList d cc = (case map_of d (bak_index cc) of
     Some (BakIndex baks) \<Rightarrow> cc\<lparr>cc_backups := baks\<rparr> | _ \<Rightarrow> cc)"

definition NewCenter ::
  "(Config \<Rightarrow> string option) \<Rightarrow> (string \<Rightarrow> Config option) \<Rightarrow> (string \<Rightarrow> bool) \<Rightarrow> string \<Rightarrow> string \<Rightarrow> disk \<Rightarrow> 'w ConfigCenter \<times> disk" where
  "NewCenter mar load writable absPath absDir d =
     (let cc = \<lparr>cc_currentPath = absPath, cc_currentConfig = None, cc_rawYAML = [], cc_revisions = [], cc_backups = [],
                cc_reloadHooks = [], cc_historyDir = path_join (path_join absDir ''..'') ''data/config_history'',
                cc_backupDir = path_join (path_join absDir ''..'') ''data/backups''\<rparr>;
          (ok, cc1) = ReloadFromDisk load d cc;
          (cc2, d') = (if ok then (cc1, d)
                       else saveYAMLToDisk mar writable DefaultConfig (cc1\<lparr>cc_currentConfig := Some DefaultConfig\<rparr>, d))
      in (loadBackupsList d' (loadRevisionsList d' cc2), d'))"

text \<open>Version 0 is the running text.\<close>

definition version_text :: "int \<Rightarrow> 'w ConfigCenter \<Rightarrow> disk \<Rightarrow> string option" where
  "version_text v cc d = (if v = 0 then Some (cc_rawYAML cc) else read_text d (rev_path cc v))"

definition DiffRevisions :: "int \<Rightarrow> int \<Rightarrow> 'w ConfigCenter \<Rightarrow> disk \<Rightarrow> string option" where
  "DiffRevisions v1 v2 cc d = (case version_text v1 cc d of
     None \<Rightarrow> None
   | Some t1 \<Rightarrow> (case version_text v2 cc d of None \<Rightarrow> None | Some t2 \<Rightarrow> Some (generateDiff t1 t2)))"

lemma lists_keep_config [simp]:
  "cc_currentConfig (loadRevisionsList d cc) = cc_currentConfig cc" "cc_currentConfig (loadBackupsList d cc) = cc_currentConfig cc"
  by (simp_all add: loadRevisionsList_def loadBackupsList_def split: option.split content.split)

lemma NewCenter_config: "cc_currentConfig (fst (NewCenter mar load writable absPath absDir d)) \<noteq> None"
  by (auto simp: NewCenter_def ReloadFromDisk_def saveYAMLToDisk_def Let_def split: option.split)

lemma SaveYAML_config:
  "cc_currentConfig (fst st) \<noteq> None \<Longrightarrow> cc_currentConfig (fst (snd (SaveYAML unm writable ts raw author role desc st))) \<noteq> None"
  by (auto simp: SaveYAML_def Let_def case_prod_unfold split: sum.split)

end
