(* ===== verification/Log_Store.thy ===== *)
theory Log_Store
  imports Intel
begin

section \<open>The event log (core/logstore.go)\<close>

text \<open>
  A channel of at most 10000 events, the worker that moves them into a ring of 2000, and the query of the dashboard.
  The rate of requests that the sampling looks at, the number drawn and the formatted time are arguments. Lemmas: the
  ring is the list of the newest events, and a query runs over that list from its end.
\<close>

record SecurityLogEvent =
  lg_ID :: nat
  lg_Timestamp :: string
  lg_Type :: string
  lg_ClientIP :: string
  lg_Domain :: string
  lg_Method :: string
  lg_Path :: string
  lg_Status :: int
  lg_Action :: string
  lg_Rule :: string
  lg_Desc :: string
  lg_CountryCode :: string
  lg_CountryName :: string

text \<open>\<open>ls_lastID\<close> is the package variable \<open>logIDCounter\<close>.\<close>

record LogStore =
  ls_events :: "SecurityLogEvent list"
  ls_head :: nat
  ls_maxCap :: nat
  ls_ch :: "SecurityLogEvent list"
  ls_lastID :: nat

definition logCap :: nat where "logCap = 2000"
definition logChanCap :: nat where "logChanCap = 10000"

definition GetLogStore :: LogStore where
  "GetLogStore = \<lparr>ls_events = [], ls_head = 0, ls_maxCap = logCap, ls_ch = [], ls_lastID = 0\<rparr>"

subsection \<open>Recording\<close>

text \<open>The events that are sampled above 200 requests per second.\<close>

definition sampled_kind :: "string \<Rightarrow> string \<Rightarrow> string \<Rightarrow> bool" where
  "sampled_kind eventType action rule \<longleftrightarrow> eventType = ''ACCESS'' \<or>
     (eventType = ''CHALLENGE'' \<and> action = ''CHALLENGE_REQUIRED'') \<or>
     (eventType = ''SECURITY'' \<and> rule \<in> {''rate_limit'', ''banned'', ''ddos_flood_xdp'', ''auto_l7_drop'', ''conn_limit'', ''rate_limited''})"

definition event_country :: "int option \<Rightarrow> string \<Rightarrow> string \<times> string" where
  "event_country rps clientIP =
     (let (code, name) = (if (case rps of Some v \<Rightarrow> 1000 < v | None \<Rightarrow> False) then ([], [])
                          else (ge_CountryCode (geo_Lookup clientIP), ge_Country (geo_Lookup clientIP)))
      in (if code = [] then ''XX'' else code, if name = [] then ''Unknown'' else name))"

definition RecordEvent ::
  "int option \<Rightarrow> nat \<Rightarrow> string \<Rightarrow> string \<Rightarrow> string \<Rightarrow> string \<Rightarrow> string \<Rightarrow> string \<Rightarrow> int \<Rightarrow> string \<Rightarrow> string \<Rightarrow> string \<Rightarrow> LogStore \<Rightarrow> LogStore" where
  "RecordEvent rps draw stamp eventType clientIP domain method path status action rule desc ls =
     (if (case rps of Some v \<Rightarrow> 200 < v | None \<Rightarrow> False) \<and> sampled_kind eventType action rule \<and> draw mod 50 \<noteq> 0 then ls
      else let (code, name) = event_country rps clientIP; ident = ls_lastID ls + 1;
               event = \<lparr>lg_ID = ident, lg_Timestamp = stamp, lg_Type = eventType, lg_ClientIP = clientIP, lg_Domain = domain,
                 lg_Method = method, lg_Path = path, lg_Status = status, lg_Action = action, lg_Rule = rule, lg_Desc = desc,
                 lg_CountryCode = code, lg_CountryName = name\<rparr>;
               ls1 = ls\<lparr>ls_lastID := ident\<rparr>
           in if length (ls_ch ls1) < logChanCap then ls1\<lparr>ls_ch := ls_ch ls1 @ [event]\<rparr> else ls1)"

text \<open>One turn of the worker.\<close>

definition store_event :: "SecurityLogEvent \<Rightarrow> LogStore \<Rightarrow> LogStore" where
  "store_event event ls =
     (if length (ls_events ls) < ls_maxCap ls then ls\<lparr>ls_events := ls_events ls @ [event]\<rparr>
      else ls\<lparr>ls_events := (ls_events ls)[ls_head ls := event], ls_head := (ls_head ls + 1) mod ls_maxCap ls\<rparr>)"

definition log_worker :: "LogStore \<Rightarrow> LogStore" where
  "log_worker ls = (case ls_ch ls of [] \<Rightarrow> ls | event # rest \<Rightarrow> store_event event (ls\<lparr>ls_ch := rest\<rparr>))"

definition log_Clear :: "LogStore \<Rightarrow> LogStore" where
  "log_Clear ls = ls\<lparr>ls_events := [], ls_head := 0\<rparr>"

subsection \<open>Queries\<close>

definition log_matches :: "string \<Rightarrow> string \<Rightarrow> string \<Rightarrow> SecurityLogEvent \<Rightarrow> bool" where
  "log_matches logType search domain e \<longleftrightarrow>
     (let search = to_lower (trim_ws search); domain = to_lower (trim_ws domain); logType = to_upper (trim_ws logType) in
      (logType = [] \<or> logType = ''ALL'' \<or> equal_fold (lg_Type e) logType) \<and>
      (domain = [] \<or> str_contains (to_lower (lg_Domain e)) domain) \<and>
      (search = [] \<or> str_contains (to_lower (join_with '' '' [lg_ClientIP e, lg_Domain e, lg_Path e, lg_Rule e, lg_Action e, lg_Desc e])) search))"

text \<open>The loop of \<open>QueryLogs\<close> from the index \<open>i\<close> on, \<open>n\<close> the number of events.\<close>

function query_loop :: "(SecurityLogEvent \<Rightarrow> bool) \<Rightarrow> LogStore \<Rightarrow> nat \<Rightarrow> nat \<Rightarrow> SecurityLogEvent list \<Rightarrow> SecurityLogEvent list" where
  "query_loop ok ls n i result =
     (if n \<le> i then result
      else let idx = (ls_head ls + n - 1 - i) mod n; e = ls_events ls ! idx in
        if \<not> ok e then query_loop ok ls n (Suc i) result
        else let result' = result @ [e] in if 500 \<le> length result' then result' else query_loop ok ls n (Suc i) result')"
  by pat_completeness auto

termination by (relation "measure (\<lambda>(ok, ls, n, i, result). n - i)") auto

declare query_loop.simps [simp del]

definition QueryLogs :: "string \<Rightarrow> string \<Rightarrow> string \<Rightarrow> LogStore \<Rightarrow> SecurityLogEvent list" where
  "QueryLogs logType search domain ls = query_loop (log_matches logType search domain) ls (length (ls_events ls)) 0 []"

subsection \<open>The ring as a list\<close>

definition log_view :: "LogStore \<Rightarrow> SecurityLogEvent list" where
  "log_view ls = drop (ls_head ls) (ls_events ls) @ take (ls_head ls) (ls_events ls)"

definition log_ok :: "LogStore \<Rightarrow> bool" where
  "log_ok ls \<longleftrightarrow> ls_maxCap ls = logCap \<and> length (ls_events ls) \<le> logCap \<and> ls_head ls < logCap \<and>
     (length (ls_events ls) < logCap \<longrightarrow> ls_head ls = 0)"

lemma length_log_view [simp]: "length (log_view ls) = length (ls_events ls)"
  by (simp add: log_view_def)

lemma store_event_view:
  assumes "log_ok ls"
  shows "log_ok (store_event e ls) \<and> log_view (store_event e ls) = newest logCap (log_view ls @ [e])"
proof (cases "length (ls_events ls) < logCap")
  case True
  then show ?thesis using assms by (simp add: log_ok_def log_view_def store_event_def newest_def)
next
  case False
  define evs where "evs = ls_events ls"
  define h where "h = ls_head ls"
  have len: "length evs = logCap" and h: "h < logCap" and cap: "ls_maxCap ls = logCap"
    using assms False by (simp_all add: log_ok_def evs_def h_def)
  have s: "store_event e ls = ls\<lparr>ls_events := evs[h := e], ls_head := (h + 1) mod logCap\<rparr>"
    using False cap by (simp add: store_event_def evs_def h_def)
  have v: "log_view ls = drop h evs @ take h evs" by (simp add: log_view_def evs_def h_def)
  have "newest logCap (log_view ls @ [e]) = drop (Suc h) evs @ take h evs @ [e]"
    using len h unfolding v by (simp add: newest_def)
  moreover have "log_view (store_event e ls) = drop (Suc h) evs @ take h evs @ [e]"
  proof (cases "Suc h = logCap")
    case True
    have "evs[h := e] = take h evs @ [e]" using len h True by (simp add: upd_conv_take_nth_drop)
    then show ?thesis using True len by (simp add: s log_view_def)
  next
    case False
    then have "Suc h < logCap" using h by simp
    then show ?thesis using len h by (simp add: s log_view_def take_Suc_conv_app_nth)
  qed
  moreover have "log_ok (store_event e ls)"
    using len cap by (simp add: s log_ok_def logCap_def)
  ultimately show ?thesis by simp
qed

lemma query_loop_eq:
  assumes "i \<le> n" and "n = length (ls_events ls)" and "ls_head ls < n \<or> ls_head ls = 0" and "length result < 500"
  shows "query_loop ok ls n i result = take 500 (result @ filter ok (drop i (rev (log_view ls))))"
  using assms
proof (induction ok ls n i result rule: query_loop.induct)
  case (1 ok ls n i result)
  show ?case
  proof (cases "n \<le> i")
    case True
    then show ?thesis using "1.prems" by (simp add: query_loop.simps)
  next
    case False
    define x where "x = ls_events ls ! ((ls_head ls + n - 1 - i) mod n)"
    have "rev (log_view ls) ! i = x"
    proof -
      have "rev (log_view ls) ! i = log_view ls ! (n - Suc i)" using False "1.prems"(2) by (simp add: rev_nth)
      also have "\<dots> = ls_events ls ! ((ls_head ls + (n - Suc i)) mod n)"
      proof (cases "ls_head ls + (n - Suc i) < n")
        case True
        then show ?thesis using "1.prems"(2,3) by (simp add: log_view_def nth_append)
      next
        case False
        then have "(ls_head ls + (n - Suc i)) mod n = ls_head ls + (n - Suc i) - n"
          using "1.prems"(3) by (subst mod_if) auto
        then show ?thesis using False "1.prems"(2,3) by (auto simp: log_view_def nth_append)
      qed
      also have "ls_head ls + (n - Suc i) = ls_head ls + n - 1 - i" using False by simp
      finally show ?thesis by (simp add: x_def)
    qed
    then have d: "drop i (rev (log_view ls)) = x # drop (Suc i) (rev (log_view ls))"
      using False "1.prems"(2) by (metis Cons_nth_drop_Suc length_log_view length_rev not_le)
    have step: "query_loop ok ls n i result = (if \<not> ok x then query_loop ok ls n (Suc i) result
        else if 500 \<le> length (result @ [x]) then result @ [x] else query_loop ok ls n (Suc i) (result @ [x]))"
      using False by (subst query_loop.simps) (simp add: Let_def x_def)
    show ?thesis
    proof (cases "ok x")
      case True
      show ?thesis
      proof (cases "length result = 499")
        case full: True
        then show ?thesis unfolding step d using True by simp
      next
        case more: False
        then have "query_loop ok ls n (Suc i) (result @ [x]) = take 500 ((result @ [x]) @ filter ok (drop (Suc i) (rev (log_view ls))))"
          using "1.IH"(2) [OF False refl refl _ refl] "1.prems" False True unfolding x_def by simp
        then show ?thesis unfolding step d using True more "1.prems"(4) by simp
      qed
    next
      case no: False
      have "query_loop ok ls n (Suc i) result = take 500 (result @ filter ok (drop (Suc i) (rev (log_view ls))))"
        using "1.IH"(1) [OF False refl refl] "1.prems" False no unfolding x_def by simp
      then show ?thesis unfolding step d using no by simp
    qed
  qed
qed

text \<open>
  C29: The log is the list of the newest 2000 events: after any number of turns of the worker on a fresh store, also after
  a clearing, the ring holds the last 2000 events in their order, and a query gives the first 500 that match,
  newest first.
\<close>

theorem log_keeps_newest:
  "log_view (fold store_event es (log_Clear (fold store_event old GetLogStore))) = newest logCap es \<and>
   QueryLogs logType search domain (fold store_event es (log_Clear (fold store_event old GetLogStore))) =
     take 500 (filter (log_matches logType search domain) (rev (newest logCap es)))"
proof -
  have run: "log_ok (fold store_event es ls) \<and> log_view (fold store_event es ls) = newest logCap (log_view ls @ es)"
    if "log_ok ls" for ls es
  proof (induction es rule: rev_induct)
    case Nil
    then show ?case using that by (simp add: newest_def log_ok_def)
  next
    case (snoc e es)
    then show ?case using store_event_view [of "fold store_event es ls" e] newest_newest [of logCap "log_view ls @ es" "[e]"]
      by (simp add: logCap_def)
  qed
  have "log_ok GetLogStore" by (simp add: log_ok_def GetLogStore_def logCap_def)
  then have "log_ok (log_Clear (fold store_event old GetLogStore))"
    using run [of GetLogStore old] by (simp add: log_ok_def log_Clear_def)
  moreover have "log_view (log_Clear (fold store_event old GetLogStore)) = []" by (simp add: log_view_def log_Clear_def)
  ultimately have v: "log_ok (fold store_event es (log_Clear (fold store_event old GetLogStore)))"
    "log_view (fold store_event es (log_Clear (fold store_event old GetLogStore))) = newest logCap es"
    using run [of "log_Clear (fold store_event old GetLogStore)" es] by simp_all
  then show ?thesis
    unfolding QueryLogs_def by (subst query_loop_eq) (auto simp: log_ok_def)
qed

end
