(* ===== verification/Admin.thy ===== *)
theory Admin
  imports Admin_Store Center_Start Net_Addr Log_Store
begin

section \<open>The dashboard API (api/dashboard.go)\<close>

text \<open>
  Authentication, the handlers that change accounts, domains, the configuration and the bans, and the routes to them.
  The body of a request comes as what \<open>encoding/json\<close> makes of it for each structure a handler decodes; the engines of
  the server are the world \<open>'w\<close> of the configuration center. The statistics and the pages are left out. Lemmas: who
  a request is taken for, what the handlers keep of accounts and domains.
\<close>

subsection \<open>Requests and replies\<close>

record UserRequest =
  ur_Username :: string
  ur_Password :: string
  ur_Email :: string
  ur_Role :: string
  ur_Domains :: "string list option"
  ur_SessionToken :: string

record RulesRequest =
  rr_ProtectionMode :: string
  rr_ParanoiaLevel :: int
  rr_OWASPRules :: "bool option"
  rr_WhitelistIPs :: "string list option"
  rr_RPS :: int
  rr_Burst :: int
  rr_PowDifficulty :: int
  rr_BlockedCountries :: "string list option"
  rr_BlockDatacenter :: "bool option"

text \<open>
  The decoded body, \<open>None\<close> where the decoder reports an error; \<open>bo_login\<close>, \<open>bo_backup\<close> and \<open>bo_diff\<close> are what
  it leaves in the structure, whose error the handlers ignore.
\<close>

record body =
  bo_credentials :: "(string \<times> string \<times> string) option"
  bo_login :: "string \<times> string"
  bo_user :: "UserRequest option"
  bo_domain :: "DomainConfig option"
  bo_mode :: "(string \<times> string) option"
  bo_rules :: "RulesRequest option"
  bo_yaml :: "(string \<times> string) option"
  bo_rollback :: "(string \<times> int \<times> string) option"
  bo_backup :: "string \<times> string"
  bo_diff :: "int \<times> int"
  bo_pricing :: "PricingPlan list option"
  bo_docs :: "DocItem list option"

datatype payload = Nothing | Message string | Session string string string | Users "(string \<times> string \<times> string \<times> string list) list"
  | Domains "DomainConfig list" | Center string "ConfigRevision list" "ConfigBackup list" | Backups "ConfigBackup list"
  | Backup ConfigBackup | File string | Diff string | Rules Config | Audit "AuditEntry list" | Csv string
  | Logs "SecurityLogEvent list" | Bans "(string \<times> gotime \<times> int) list" | Pricing "PricingPlan list" | Docs "DocItem list" | Page

datatype api_reply = Success payload | Failure string | HttpError nat | Options | View | Panicked

text \<open>What the handlers use of the surroundings; \<open>en_call\<close> is the access to the engines through \<open>StatsAdapter\<close>.\<close>

datatype engine_call = CallUpdateUpstreams "DomainConfig list" | CallUnbanIP string | CallUnbanAll

record 'w surroundings =
  su_now :: gotime
  su_stamp :: string
  su_random :: "string option"
  su_loaded :: "Config option"
  su_unm :: "string \<Rightarrow> Config option"
  su_mar :: "Config \<Rightarrow> string option"
  su_writable :: "string \<Rightarrow> bool"
  su_rfc3339 :: "gotime \<Rightarrow> string"
  su_query :: "string \<Rightarrow> string \<Rightarrow> string"
  su_basic :: "request \<Rightarrow> (string \<times> string) option"
  su_members :: "string list"
  su_bans :: "'w \<Rightarrow> (string \<times> gotime \<times> int) list \<times> 'w"
  su_call :: "engine_call \<Rightarrow> 'w \<Rightarrow> 'w"

text \<open>A message to the configuration center of another node: host, port, text, description, author.\<close>

record peer_push =
  pu_host :: string
  pu_port :: string
  pu_yaml :: string
  pu_description :: string
  pu_author :: string

record 'w Dash =
  da_store :: StorageData
  da_audit :: "AuditEntry list"
  da_center :: "'w center_state"
  da_logs :: LogStore
  da_pushes :: "peer_push list"

definition getConfig :: "'w Dash \<Rightarrow> Config option" where
  "getConfig d = cc_currentConfig (fst (da_center d))"

definition call_engines :: "'w surroundings \<Rightarrow> engine_call \<Rightarrow> 'w Dash \<Rightarrow> 'w Dash" where
  "call_engines su c d = (case da_center d of (cc, disk, w) \<Rightarrow> d\<lparr>da_center := (cc, disk, su_call su c w)\<rparr>)"

subsection \<open>Who is asking\<close>

definition getUserFromRequest :: "'w surroundings \<Rightarrow> request \<Rightarrow> UserAccount list \<Rightarrow> string \<times> string" where
  "getUserFromRequest su r users =
     (let by_basic = (case su_basic su r of
            None \<Rightarrow> (''admin'', ''admin'')
          | Some (user, pass) \<Rightarrow>
              if user = [] then (''admin'', ''admin'')
              else (case find (\<lambda>u. equal_fold (ua_Username u) user) users of
                  Some u \<Rightarrow> (ua_Username u, ua_Role u) | None \<Rightarrow> (user, ''admin''))) in
      if hdr_get r ''X-User-Name'' \<noteq> []
      then (hdr_get r ''X-User-Name'', if hdr_get r ''X-User-Role'' = [] then ''user'' else hdr_get r ''X-User-Role'')
      else case find_cookie r ''mango_admin_session'' of
        None \<Rightarrow> by_basic
      | Some v \<Rightarrow>
          if v = [] then by_basic
          else (case find (\<lambda>u. ua_SessionToken u = v) users of
            Some u \<Rightarrow> (ua_Username u, if ua_Role u = [] then ''user'' else ua_Role u)
          | None \<Rightarrow> if v = ''mango-session-admin-token'' then (''admin'', ''admin'') else by_basic))"

definition publicPaths :: "string list" where
  "publicPaths = [''/'', ''/api/health'', ''/api/login'', ''/api/register'', ''/api/dns/check'', ''/api/pricing'', ''/api/docs'']"

text \<open>\<open>authMiddleware\<close>: whether the request is let through; \<open>None\<close> if it panics for want of a configuration.\<close>

definition authorized :: "'w surroundings \<Rightarrow> request \<Rightarrow> 'w Dash \<Rightarrow> bool option" where
  "authorized su r d =
     (if hdr_get r ''X-Sync-Internal'' = ''true'' \<or> r_path r \<in> set publicPaths then Some True
      else if (case find_cookie r ''mango_admin_session'' of Some v \<Rightarrow> has_prefix v ''mango-session-'' | None \<Rightarrow> False) then Some True
      else case getConfig d of
        None \<Rightarrow> None
      | Some c \<Rightarrow> Some (dash_Username (cfg_Dashboard c) \<noteq> [] \<and> dash_Password (cfg_Dashboard c) \<noteq> [] \<and>
          su_basic su r = Some (dash_Username (cfg_Dashboard c), dash_Password (cfg_Dashboard c))))"

definition getClientIP :: "request \<Rightarrow> string" where
  "getClientIP r =
     (let xff = hdr_get r ''X-Forwarded-For''; xri = hdr_get r ''X-Real-IP'' in
      if xff \<noteq> [] then trim_ws (hd (split_at CHR '','' xff))
      else if xri \<noteq> [] then xri
      else case split_host_port (r_remote_addr r) of Some (host, port) \<Rightarrow> host | None \<Rightarrow> r_remote_addr r)"

definition log_action :: "'w surroundings \<Rightarrow> request \<Rightarrow> string \<Rightarrow> string \<Rightarrow> string \<Rightarrow> string \<Rightarrow> string \<Rightarrow> string \<Rightarrow> string \<Rightarrow> 'w Dash \<Rightarrow> 'w Dash" where
  "log_action su r user role action modu target details status d =
     d\<lparr>da_audit := LogAction (su_now su) user role action modu target details (getClientIP r) status (da_audit d)\<rparr>"

subsection \<open>Accounts\<close>

definition set_users :: "UserAccount list \<Rightarrow> 'w Dash \<Rightarrow> 'w Dash" where
  "set_users us d = d\<lparr>da_store := (da_store d)\<lparr>sd_Users := us\<rparr>\<rparr>"

definition user_exists :: "string \<Rightarrow> UserAccount list \<Rightarrow> bool" where
  "user_exists name us \<longleftrightarrow> list_ex (\<lambda>u. equal_fold (ua_Username u) name) us"

definition handleRegister :: "request \<Rightarrow> body \<Rightarrow> 'w Dash \<Rightarrow> api_reply \<times> 'w Dash" where
  "handleRegister r b d =
     (if r_method r \<noteq> ''POST'' then (HttpError 405, d)
      else case bo_credentials b of
        None \<Rightarrow> (HttpError 400, d)
      | Some (name, pass, email) \<Rightarrow>
          if name = [] \<or> pass = [] then (Failure ''Username and password required'', d)
          else if user_exists name (sd_Users (da_store d)) then (Failure ''Username already exists'', d)
          else (Success (Message ''User registered successfully''),
                set_users (sd_Users (da_store d) @ [\<lparr>ua_Username = name, ua_Password = pass, ua_Email = email, ua_Role = ''user'',
                  ua_Domains = [], ua_SessionToken = []\<rparr>]) d))"

text \<open>The credentials of a login: of the body, or of the form if one of them is missing there.\<close>

definition login_credentials :: "request \<Rightarrow> body \<Rightarrow> string \<times> string" where
  "login_credentials r b =
     (let (name, pass) = bo_login b
      in if name = [] \<or> pass = [] then (form_value r ''username'', form_value r ''password'') else (name, pass))"

definition authenticate :: "'w surroundings \<Rightarrow> string \<Rightarrow> string \<Rightarrow> UserAccount list \<Rightarrow> (string \<times> string) option" where
  "authenticate su name pass users =
     (case find (\<lambda>u. equal_fold (ua_Username u) name \<and> ua_Password u = pass) users of
        Some u \<Rightarrow> Some (ua_Username u, ua_Role u)
      | None \<Rightarrow> (let (cfgUser, cfgPass) = (case su_loaded su of
                   Some c \<Rightarrow> (dash_Username (cfg_Dashboard c), dash_Password (cfg_Dashboard c)) | None \<Rightarrow> ([], []))
                 in if cfgUser \<noteq> [] \<and> cfgPass \<noteq> [] \<and> name = cfgUser \<and> pass = cfgPass then Some (name, ''admin'') else None))"

fun set_token :: "string \<Rightarrow> string \<Rightarrow> UserAccount list \<Rightarrow> UserAccount list" where
  "set_token name token [] = []"
| "set_token name token (u # us) =
     (if equal_fold (ua_Username u) name then u\<lparr>ua_SessionToken := token\<rparr> # us else u # set_token name token us)"

definition handleLogin :: "'w surroundings \<Rightarrow> request \<Rightarrow> body \<Rightarrow> 'w Dash \<Rightarrow> api_reply \<times> 'w Dash" where
  "handleLogin su r b d =
     (if r_method r \<noteq> ''POST'' then (HttpError 405, d)
      else let (name, pass) = login_credentials r b in
        case authenticate su name pass (sd_Users (da_store d)) of
          None \<Rightarrow> (HttpError 401, d)
        | Some (user, role) \<Rightarrow>
            (case su_random su of
               None \<Rightarrow> (HttpError 500, d)
             | Some hex \<Rightarrow> let token = ''mango-session-'' @ hex
                 in (Success (Session token user role), set_users (set_token user token (sd_Users (da_store d))) d)))"

fun update_user :: "UserRequest \<Rightarrow> UserAccount list \<Rightarrow> UserAccount list option" where
  "update_user q [] = None"
| "update_user q (u # us) =
     (if equal_fold (ua_Username u) (ur_Username q)
      then Some (u\<lparr>ua_Password := or_empty (ua_Password u) (ur_Password q), ua_Email := or_empty (ua_Email u) (ur_Email q),
             ua_Role := or_empty (ua_Role u) (ur_Role q),
             ua_Domains := (case ur_Domains q of Some ds \<Rightarrow> ds | None \<Rightarrow> ua_Domains u)\<rparr> # us)
      else map_option ((#) u) (update_user q us))"

definition handleUsers :: "'w surroundings \<Rightarrow> request \<Rightarrow> body \<Rightarrow> 'w Dash \<Rightarrow> api_reply \<times> 'w Dash" where
  "handleUsers su r b d =
     (let (username, role) = getUserFromRequest su r (sd_Users (da_store d)); users = sd_Users (da_store d) in
      if r_method r \<notin> {''GET'', ''POST'', ''PUT'', ''DELETE''} then (Success Nothing, d)
      else if \<not> CanManageSystem role then (Failure ''Access Denied'', d)
      else if r_method r = ''GET''
      then (Success (Users (map (\<lambda>u. (ua_Username u, ua_Email u, ua_Role u, ua_Domains u)) users)), d)
      else if r_method r = ''POST'' then
        (case bo_user b of
           None \<Rightarrow> (HttpError 400, d)
         | Some q \<Rightarrow>
             if ur_Username q = [] \<or> ur_Password q = [] then (Failure ''Username and password required'', d)
             else if user_exists (ur_Username q) users then (Failure ''User already exists'', d)
             else let ro = or_empty ''user'' (ur_Role q);
                      u = \<lparr>ua_Username = ur_Username q, ua_Password = ur_Password q, ua_Email = ur_Email q, ua_Role = ro,
                        ua_Domains = (case ur_Domains q of Some ds \<Rightarrow> ds | None \<Rightarrow> []), ua_SessionToken = ur_SessionToken q\<rparr>
                  in (Success (Message ''User created successfully''),
                      log_action su r username role ''USER_CREATE'' ''users'' (ur_Username q) (''Role: '' @ ro) ''success''
                        (set_users (users @ [u]) d)))
      else if r_method r = ''PUT'' then
        (case bo_user b of
           None \<Rightarrow> (HttpError 400, d)
         | Some q \<Rightarrow>
             (case update_user q users of
                None \<Rightarrow> (Failure ''User not found'', d)
              | Some us \<Rightarrow> (Success (Message ''User updated successfully''),
                  log_action su r username role ''USER_UPDATE'' ''users'' (ur_Username q) (''Updated role to '' @ ur_Role q) ''success''
                    (set_users us d))))
      else let target = su_query su (r_rawquery r) ''username'' in
        if target = ''admin'' then (Failure ''Cannot delete primary admin account'', d)
        else if \<not> user_exists target users then (Failure ''User not found'', d)
        else (Success (Message ''User deleted successfully''),
              log_action su r username role ''USER_DELETE'' ''users'' target ''Account deleted'' ''success''
                (set_users (filter (\<lambda>u. \<not> equal_fold (ua_Username u) target) users) d)))"

subsection \<open>Publishing a configuration\<close>

definition join_host :: "string \<Rightarrow> string" where
  "join_host p = (case split_host_port p of Some (host, port) \<Rightarrow> if host \<noteq> [] then host else p | None \<Rightarrow> p)"

text \<open>
  The other nodes, in the order of the map: the peers of the configuration and the members of the mesh. A center always has
  a configuration, so the case without one, where the code panics, does not arise below.
\<close>

definition peers :: "'w surroundings \<Rightarrow> ClusterConfig \<Rightarrow> string list" where
  "peers su c = filter (\<lambda>h. h \<noteq> clu_AdvertiseIP c \<and> h \<noteq> ''127.0.0.1'' \<and> h \<noteq> ''localhost'' \<and> h \<noteq> [])
     (remdups (map join_host (filter (\<lambda>p. p \<noteq> []) (clu_JoinPeers c)) @ su_members su))"

definition broadcastConfigToPeers :: "'w surroundings \<Rightarrow> string \<Rightarrow> string \<Rightarrow> string \<Rightarrow> 'w Dash \<Rightarrow> 'w Dash" where
  "broadcastConfigToPeers su raw author description d = (case getConfig d of
     None \<Rightarrow> d
   | Some c \<Rightarrow> d\<lparr>da_pushes := da_pushes d @ concat (map (\<lambda>host. map (\<lambda>port. \<lparr>pu_host = host, pu_port = port, pu_yaml = raw,
       pu_description = ''[Mesh Sync from '' @ author @ ''] '' @ description, pu_author = author\<rparr>) [''9090'', ''1234''])
       (peers su (cfg_Cluster c)))\<rparr>)"

text \<open>
  The copy a handler edits: of the text, or the running configuration itself if the text cannot be read; then what the
  handler writes into it is at once in the running configuration.
\<close>

definition getConfigClone :: "'w surroundings \<Rightarrow> 'w Dash \<Rightarrow> (Config \<times> bool) option" where
  "getConfigClone su d = (case su_unm su (GetRawYAML (su_mar su) (fst (da_center d))) of
     Some c \<Rightarrow> Some (c, False)
   | None \<Rightarrow> map_option (\<lambda>c. (c, True)) (getConfig d))"

definition write_through :: "bool \<Rightarrow> Config \<Rightarrow> 'w Dash \<Rightarrow> 'w Dash" where
  "write_through aliased c d = (if aliased
     then (case da_center d of (cc, disk, w) \<Rightarrow> d\<lparr>da_center := (cc\<lparr>cc_currentConfig := Some c\<rparr>, disk, w)\<rparr>) else d)"

definition store_domains :: "DomainConfig list \<Rightarrow> 'w Dash \<Rightarrow> 'w Dash" where
  "store_domains ds d = d\<lparr>da_store := (da_store d)\<lparr>sd_Domains := ds\<rparr>\<rparr>"

definition apply_config :: "'w surroundings \<Rightarrow> Config \<Rightarrow> string \<Rightarrow> string \<Rightarrow> string \<Rightarrow> 'w Dash \<Rightarrow> center_error option \<times> 'w Dash" where
  "apply_config su c user role desc d =
     (let (err, st) = UpdateConfig (su_unm su) (su_mar su) (su_writable su) (su_now su) c user role desc (da_center d)
      in (err, d\<lparr>da_center := st\<rparr>))"

definition push_unless_internal :: "'w surroundings \<Rightarrow> request \<Rightarrow> string \<Rightarrow> string \<Rightarrow> string \<Rightarrow> 'w Dash \<Rightarrow> 'w Dash" where
  "push_unless_internal su r raw user desc d =
     (if hdr_get r ''X-Sync-Internal'' = ''true'' then d else broadcastConfigToPeers su raw user desc d)"

text \<open>What every change of the domains ends with: the error of the configuration center is not looked at.\<close>

definition publish_domains :: "'w surroundings \<Rightarrow> request \<Rightarrow> Config \<times> bool \<Rightarrow> DomainConfig list \<Rightarrow> string \<Rightarrow> string \<Rightarrow> string \<Rightarrow> 'w Dash \<Rightarrow> 'w Dash" where
  "publish_domains su r clone ds user role desc d =
     (let c = (fst clone)\<lparr>cfg_Domains := ds\<rparr>;
          d1 = store_domains ds (write_through (snd clone) c d);
          d2 = snd (apply_config su c user role desc d1);
          d3 = push_unless_internal su r (GetRawYAML (su_mar su) (fst (da_center d2))) user desc d2
      in call_engines su (CallUpdateUpstreams ds) d3)"

subsection \<open>Domains\<close>

datatype edit = NotFound | Forbidden | Edited "DomainConfig list"

definition may_edit :: "string \<Rightarrow> string \<Rightarrow> DomainConfig \<Rightarrow> bool" where
  "may_edit user role dm \<longleftrightarrow> \<not> (role \<noteq> ''admin'' \<and> dom_Owner dm \<noteq> [] \<and> dom_Owner dm \<noteq> user)"

fun replace_domain :: "string \<Rightarrow> string \<Rightarrow> DomainConfig \<Rightarrow> DomainConfig list \<Rightarrow> edit" where
  "replace_domain user role q [] = NotFound"
| "replace_domain user role q (dm # dms) =
     (if equal_fold (dom_Name dm) (dom_Name q)
      then (if may_edit user role dm then Edited (q # dms) else Forbidden)
      else case replace_domain user role q dms of Edited ds \<Rightarrow> Edited (dm # ds) | x \<Rightarrow> x)"

fun remove_domain :: "string \<Rightarrow> string \<Rightarrow> string \<Rightarrow> DomainConfig list \<Rightarrow> edit" where
  "remove_domain user role name [] = NotFound"
| "remove_domain user role name (dm # dms) =
     (if equal_fold (dom_Name dm) name
      then (if may_edit user role dm
            then (case remove_domain user role name dms of NotFound \<Rightarrow> Edited dms | x \<Rightarrow> x) else Forbidden)
      else case remove_domain user role name dms of Edited ds \<Rightarrow> Edited (dm # ds) | x \<Rightarrow> x)"

definition with_clone :: "'w surroundings \<Rightarrow> 'w Dash \<Rightarrow> (Config \<times> bool \<Rightarrow> api_reply \<times> 'w Dash) \<Rightarrow> api_reply \<times> 'w Dash" where
  "with_clone su d k = (case getConfigClone su d of None \<Rightarrow> (Panicked, d) | Some clone \<Rightarrow> k clone)"

definition post_domain :: "'w surroundings \<Rightarrow> request \<Rightarrow> string \<Rightarrow> string \<Rightarrow> DomainConfig \<Rightarrow> 'w Dash \<Rightarrow> api_reply \<times> 'w Dash" where
  "post_domain su r user role q0 d =
     (if dom_Name q0 = [] \<or> dom_Upstreams q0 = [] then (Failure ''domain name and upstreams are required'', d)
      else let q = q0\<lparr>dom_Owner := or_empty user (dom_Owner q0)\<rparr>; desc = ''Added domain '' @ dom_Name q in
        with_clone su d (\<lambda>clone.
          case replace_domain user role q (cfg_Domains (fst clone)) of
            Forbidden \<Rightarrow> (Failure ''You do not have permission to modify this domain'', d)
          | Edited ds \<Rightarrow> (Success (Domains [q]), publish_domains su r clone ds user role desc d)
          | NotFound \<Rightarrow> (Success (Domains [q]), publish_domains su r clone (cfg_Domains (fst clone) @ [q]) user role desc d)))"

definition handleDomains :: "'w surroundings \<Rightarrow> request \<Rightarrow> body \<Rightarrow> 'w Dash \<Rightarrow> api_reply \<times> 'w Dash" where
  "handleDomains su r b d =
     (let (user, role) = getUserFromRequest su r (sd_Users (da_store d)) in
      if r_method r = ''GET'' then
        (case getConfig d of
           None \<Rightarrow> (Panicked, d)
         | Some c \<Rightarrow> (Success (Domains (if CanManageAllDomains role then cfg_Domains c
             else filter (\<lambda>dm. dom_Owner dm = user) (cfg_Domains c))), d))
      else if r_method r = ''POST'' then
        (case bo_domain b of None \<Rightarrow> (HttpError 400, d) | Some q \<Rightarrow> post_domain su r user role q d)
      else if r_method r = ''PUT'' then
        (case bo_domain b of
           None \<Rightarrow> (HttpError 400, d)
         | Some q \<Rightarrow> with_clone su d (\<lambda>clone.
             case replace_domain user role q (cfg_Domains (fst clone)) of
               Forbidden \<Rightarrow> (Failure ''You do not have permission to modify this domain'', d)
             | Edited ds \<Rightarrow> (Success (Message ''domain updated successfully''),
                 publish_domains su r clone ds user role (''Updated domain '' @ dom_Name q) d)
             | NotFound \<Rightarrow> (Failure ''domain not found'', d)))
      else if r_method r = ''DELETE'' then
        (let name = su_query su (r_rawquery r) ''name'' in
         if name = [] then (Failure ''missing domain name'', d)
         else with_clone su d (\<lambda>clone.
           case remove_domain user role name (cfg_Domains (fst clone)) of
             Forbidden \<Rightarrow> (Failure ''You do not have permission to delete this domain'', d)
           | NotFound \<Rightarrow> (Failure ''domain not found'', d)
           | Edited ds \<Rightarrow> (Success (Message ''domain deleted successfully''),
               publish_domains su r clone ds user role (''Deleted domain '' @ name) d)))
      else (HttpError 405, d))"

fun set_mode :: "string \<Rightarrow> string \<Rightarrow> DomainConfig list \<Rightarrow> DomainConfig list option" where
  "set_mode name mode [] = None"
| "set_mode name mode (dm # dms) =
     (if equal_fold (dom_Name dm) name then Some (dm\<lparr>dom_ProtectionMode := mode\<rparr> # dms)
      else map_option ((#) dm) (set_mode name mode dms))"

definition handleDomainProtectionMode :: "'w surroundings \<Rightarrow> request \<Rightarrow> body \<Rightarrow> 'w Dash \<Rightarrow> api_reply \<times> 'w Dash" where
  "handleDomainProtectionMode su r b d =
     (let (user, role) = getUserFromRequest su r (sd_Users (da_store d)) in
      if r_method r \<noteq> ''POST'' then (Failure ''Method not allowed'', d)
      else if \<not> CanManageGlobalSecurity role then (Failure ''Access Denied'', d)
      else case bo_mode b of
        None \<Rightarrow> (Failure ''Invalid request'', d)
      | Some (domain, mode) \<Rightarrow>
          if domain = [] then (Failure ''Domain name is required'', d)
          else with_clone su d (\<lambda>clone.
            case set_mode domain mode (cfg_Domains (fst clone)) of
              None \<Rightarrow> (Failure ''Domain not found'', d)
            | Some ds \<Rightarrow>
                let c = (fst clone)\<lparr>cfg_Domains := ds\<rparr>; label = or_empty ''global (inherit)'' mode;
                    desc = ''Set protection mode for '' @ domain @ '' to '' @ label;
                    d1 = store_domains ds (write_through (snd clone) c d);
                    d2 = snd (apply_config su c user role desc d1);
                    d3 = broadcastConfigToPeers su (GetRawYAML (su_mar su) (fst (da_center d2))) user desc d2
                in (Success (Message desc),
                    log_action su r user role ''DOMAIN_PROTECTION_MODE'' ''security'' domain (''Mode: '' @ label) ''success'' d3)))"

subsection \<open>The configuration center\<close>

definition install_config :: "'w surroundings \<Rightarrow> bool \<Rightarrow> 'w Dash \<Rightarrow> 'w Dash" where
  "install_config su store d = (case getConfig d of
     None \<Rightarrow> d
   | Some c \<Rightarrow> call_engines su (CallUpdateUpstreams (cfg_Domains c)) (if store then store_domains (cfg_Domains c) d else d))"

definition save_yaml :: "'w surroundings \<Rightarrow> request \<Rightarrow> string \<Rightarrow> string \<Rightarrow> string \<Rightarrow> string \<Rightarrow> 'w Dash \<Rightarrow> api_reply \<times> 'w Dash" where
  "save_yaml su r raw desc0 user role d =
     (if trim_ws raw = [] then (Failure ''Raw YAML content cannot be empty'', d)
      else let desc = or_empty ''Updated via Configuration Center Dashboard'' desc0;
               (err, st) = SaveYAML (su_unm su) (su_writable su) (su_now su) raw user role desc (da_center d);
               d1 = d\<lparr>da_center := st\<rparr>
           in case err of
                Some e \<Rightarrow> (Failure ''Validation/Reload Error'',
                  log_action su r user role ''CONFIG_SAVE'' ''config'' ''yaml'' ''Validation/Reload Error'' ''failure'' d1)
              | None \<Rightarrow> (Success (Center (GetRawYAML (su_mar su) (fst st)) (cc_revisions (fst st)) (cc_backups (fst st))),
                  log_action su r user role ''CONFIG_SAVE'' ''config'' ''yaml'' desc ''success''
                    (push_unless_internal su r raw user desc (install_config su True d1))))"

definition handleConfigCenter :: "'w surroundings \<Rightarrow> request \<Rightarrow> body \<Rightarrow> 'w Dash \<Rightarrow> api_reply \<times> 'w Dash" where
  "handleConfigCenter su r b d =
     (let (user, role) = getUserFromRequest su r (sd_Users (da_store d)); cc = fst (da_center d) in
      if r_method r = ''GET'' then (Success (Center (GetRawYAML (su_mar su) cc) (cc_revisions cc) (cc_backups cc)), d)
      else if r_method r = ''POST'' then
        (if \<not> CanEditYAML role
         then (Failure ''Access Denied'',
               log_action su r user role ''CONFIG_SAVE'' ''config'' ''yaml'' ''Denied: Insufficient permission'' ''failure'' d)
         else case bo_yaml b of None \<Rightarrow> (HttpError 400, d) | Some (raw, desc) \<Rightarrow> save_yaml su r raw desc user role d)
      else if r_method r = ''PUT'' then
        (if \<not> CanEditYAML role then (Failure ''Access Denied'', d)
         else case bo_rollback b of
           None \<Rightarrow> (HttpError 400, d)
         | Some (action, version, backupID) \<Rightarrow>
             if \<not> (action = ''restore_backup'' \<and> backupID \<noteq> []) \<and> version \<le> 0 then (Failure ''invalid rollback target'', d)
             else let (err, st) = (if action = ''restore_backup'' \<and> backupID \<noteq> []
                        then RestoreBackup (su_unm su) (su_writable su) (su_now su) backupID user role (da_center d)
                        else RestoreRevision (su_unm su) (su_writable su) (su_now su) version user role (da_center d));
                      d1 = d\<lparr>da_center := st\<rparr>
                  in case err of
                       Some e \<Rightarrow> (Failure ''Rollback Error'',
                         log_action su r user role ''CONFIG_ROLLBACK'' ''config'' ''yaml'' ''Rollback Error'' ''failure'' d1)
                     | None \<Rightarrow> (Success (Center (GetRawYAML (su_mar su) (fst st)) (cc_revisions (fst st)) (cc_backups (fst st))),
                         log_action su r user role ''CONFIG_ROLLBACK'' ''config'' ''yaml''
                           (''Restored revision/backup version '' @ itoa version @ '' / '' @ backupID) ''success''
                           (install_config su False d1)))
      else (Success Nothing, d))"

definition handleConfigDiff :: "request \<Rightarrow> body \<Rightarrow> 'w Dash \<Rightarrow> api_reply \<times> 'w Dash" where
  "handleConfigDiff r b d =
     (if r_method r \<noteq> ''POST'' then (HttpError 405, d)
      else let (v1, v2) = bo_diff b in
        case DiffRevisions v1 v2 (fst (da_center d)) (fst (snd (da_center d))) of
          None \<Rightarrow> (Failure ''version error'', d)
        | Some diff \<Rightarrow> (Success (Diff diff), d))"

definition handleConfigBackup :: "'w surroundings \<Rightarrow> request \<Rightarrow> body \<Rightarrow> 'w Dash \<Rightarrow> api_reply \<times> 'w Dash" where
  "handleConfigBackup su r b d =
     (let (user, role) = getUserFromRequest su r (sd_Users (da_store d)); backups = cc_backups (fst (da_center d)) in
      if r_method r = ''GET'' then
        (let ident = su_query su (r_rawquery r) ''id'' in
         if ident = [] then (Success (Backups backups), d)
         else case find (\<lambda>k. bak_ID k = ident \<or> bak_Name k = ident) backups of
           None \<Rightarrow> (HttpError 404, d)
         | Some k \<Rightarrow> (case read_text (fst (snd (da_center d))) (bak_FilePath k) of
             None \<Rightarrow> (HttpError 404, d) | Some data \<Rightarrow> (Success (File data), d)))
      else if r_method r = ''POST'' then
        (if \<not> CanManageSystem role then (Failure ''Access Denied'', d)
         else let (name, desc) = bo_backup b;
                  (res, st) = CreateBackup (su_writable su) (su_now su) (su_stamp su) name user desc (da_center d);
                  d1 = d\<lparr>da_center := st\<rparr>
              in case res of
                   Inl e \<Rightarrow> (Failure ''backup error'', log_action su r user role ''BACKUP_CREATE'' ''config'' name ''backup error'' ''failure'' d1)
                 | Inr k \<Rightarrow> (Success (Backup k),
                     log_action su r user role ''BACKUP_CREATE'' ''config'' (bak_Name k) (bak_Description k) ''success'' d1))
      else (Success Nothing, d))"

definition edit_rules :: "RulesRequest \<Rightarrow> Config \<Rightarrow> Config" where
  "edit_rules q c =
     (let p = cfg_Protection c; w = cfg_WAF c; i = cfg_Intelligence c;
          p1 = p\<lparr>pr_Mode := or_empty (pr_Mode p) (rr_ProtectionMode q),
                 pr_WhitelistIPs := (case rr_WhitelistIPs q of Some ips \<Rightarrow> ips | None \<Rightarrow> pr_WhitelistIPs p),
                 pr_RateLimit := (pr_RateLimit p)\<lparr>
                   rl_RequestsPerSecond := (if 0 < rr_RPS q then rr_RPS q else rl_RequestsPerSecond (pr_RateLimit p)),
                   rl_Burst := (if 0 < rr_Burst q then rr_Burst q else rl_Burst (pr_RateLimit p))\<rparr>,
                 pr_Challenge := (pr_Challenge p)\<lparr>
                   ch_PowDifficulty := (if 0 < rr_PowDifficulty q then rr_PowDifficulty q else ch_PowDifficulty (pr_Challenge p))\<rparr>\<rparr>;
          w1 = w\<lparr>waf_ParanoiaLevel := (if 1 \<le> rr_ParanoiaLevel q \<and> rr_ParanoiaLevel q \<le> 4 then rr_ParanoiaLevel q else waf_ParanoiaLevel w),
                 waf_OWASPRules := (case rr_OWASPRules q of Some v \<Rightarrow> v | None \<Rightarrow> waf_OWASPRules w)\<rparr>;
          i1 = i\<lparr>itl_GeoIP := (itl_GeoIP i)\<lparr>geo_BlockedCountries :=
                   (case rr_BlockedCountries q of Some cs \<Rightarrow> cs | None \<Rightarrow> geo_BlockedCountries (itl_GeoIP i))\<rparr>,
                 itl_ASN := (itl_ASN i)\<lparr>asn_BlockDatacenter :=
                   (case rr_BlockDatacenter q of Some v \<Rightarrow> v | None \<Rightarrow> asn_BlockDatacenter (itl_ASN i))\<rparr>\<rparr>
      in c\<lparr>cfg_Protection := p1, cfg_WAF := w1, cfg_Intelligence := i1\<rparr>)"

definition rules_summary :: "Config \<Rightarrow> string" where
  "rules_summary c = ''(RPS: '' @ itoa (rl_RequestsPerSecond (pr_RateLimit (cfg_Protection c))) @ '', Burst: '' @
     itoa (rl_Burst (pr_RateLimit (cfg_Protection c))) @ '', Mode: '' @ pr_Mode (cfg_Protection c) @ '')''"

definition handleSecurityRules :: "'w surroundings \<Rightarrow> request \<Rightarrow> body \<Rightarrow> 'w Dash \<Rightarrow> api_reply \<times> 'w Dash" where
  "handleSecurityRules su r b d =
     (let (user, role) = getUserFromRequest su r (sd_Users (da_store d)) in
      if r_method r = ''GET'' then (case getConfig d of None \<Rightarrow> (Panicked, d) | Some c \<Rightarrow> (Success (Rules c), d))
      else if r_method r = ''POST'' \<or> r_method r = ''PUT'' then
        (if \<not> CanManageGlobalSecurity role then (Failure ''Access Denied'', d)
         else with_clone su d (\<lambda>clone. case bo_rules b of
           None \<Rightarrow> (HttpError 400, d)
         | Some q \<Rightarrow>
             let c = edit_rules q (fst clone); d1 = write_through (snd clone) c d;
                 (err, d2) = apply_config su c user role (''Updated WAF Security Policies '' @ rules_summary c) d1
             in (case err of
                   Some e \<Rightarrow> (Failure ''update error'', d2)
                 | None \<Rightarrow> (Success (Message ''Security rules updated & hot-reloaded successfully''),
                     log_action su r user role ''SECURITY_UPDATE'' ''security'' ''global''
                       (''Mode: '' @ pr_Mode (cfg_Protection c) @ '', Paranoia: '' @ itoa (waf_ParanoiaLevel (cfg_WAF c)) @ '', RPS: '' @
                        itoa (rl_RequestsPerSecond (pr_RateLimit (cfg_Protection c))) @ '', Burst: '' @
                        itoa (rl_Burst (pr_RateLimit (cfg_Protection c)))) ''success'' d2))))
      else (Success Nothing, d))"

definition handleClusterSync :: "'w surroundings \<Rightarrow> request \<Rightarrow> 'w Dash \<Rightarrow> api_reply \<times> 'w Dash" where
  "handleClusterSync su r d =
     (let (user, role) = getUserFromRequest su r (sd_Users (da_store d)) in
      if \<not> CanManageSystem role then (Failure ''Access Denied'', d)
      else if getConfig d = None then (Panicked, d)
      else if r_method r = ''POST'' then
        (Success (Message ''Cluster config sync broadcasted''),
         log_action su r user role ''CLUSTER_SYNC'' ''cluster'' ''all_nodes'' ''Manual cluster sync triggered'' ''success''
           (broadcastConfigToPeers su (GetRawYAML (su_mar su) (fst (da_center d))) user ''Manual Force Sync Node'' d))
      else (Success Nothing, d))"

subsection \<open>Bans, logs and texts\<close>

definition handleUnban :: "'w surroundings \<Rightarrow> request \<Rightarrow> 'w Dash \<Rightarrow> api_reply \<times> 'w Dash" where
  "handleUnban su r d =
     (let q = su_query su (r_rawquery r) ''ip''; ip = (if q = [] then form_value r ''ip'' else q) in
      if ip = ''all'' then (Success (Message ''All IPs unbanned''), call_engines su CallUnbanAll d)
      else if ip \<noteq> [] then (Success (Message (''IP '' @ ip @ '' unbanned'')), call_engines su (CallUnbanIP ip) d)
      else (Failure ''missing ip'', d))"

definition handleAuditLogs :: "'w surroundings \<Rightarrow> request \<Rightarrow> 'w Dash \<Rightarrow> api_reply \<times> 'w Dash" where
  "handleAuditLogs su r d =
     (let (user, role) = getUserFromRequest su r (sd_Users (da_store d)); q = su_query su (r_rawquery r) in
      if \<not> CanViewLogs role then (Failure ''Access Denied'', d)
      else if q ''export'' = ''csv''
      then (Success (Csv (ExportCSV (su_rfc3339 su) (q ''user'') (q ''role'') (q ''action'') (q ''module'') (q ''search'') (da_audit d))), d)
      else (Success (Audit (QueryEntries (q ''user'') (q ''role'') (q ''action'') (q ''module'') (q ''search'') 500 (da_audit d))), d))"

definition log_row :: "SecurityLogEvent \<Rightarrow> string" where
  "log_row l = csv_line [lg_Timestamp l, lg_Type l, lg_ClientIP l, lg_CountryCode l, lg_Domain l, lg_Method l, lg_Path l,
     itoa (lg_Status l), lg_Action l, lg_Rule l, escapeCSV (lg_Desc l)]"

definition handleLogsQuery :: "'w surroundings \<Rightarrow> request \<Rightarrow> 'w Dash \<Rightarrow> api_reply \<times> 'w Dash" where
  "handleLogsQuery su r d =
     (let (user, role) = getUserFromRequest su r (sd_Users (da_store d)); q = su_query su (r_rawquery r);
          found = QueryLogs (q ''type'') (q ''search'') (q ''domain'') (da_logs d) in
      if \<not> CanViewLogs role then (Failure ''Access Denied'', d)
      else if q ''export'' = ''csv''
      then (Success (Csv (''Timestamp,Type,ClientIP,Country,Domain,Method,Path,Status,Action,Rule,Description\<newline>'' @
              concat (map log_row found))), d)
      else (Success (Logs found), d))"

definition handleLogsClear :: "'w Dash \<Rightarrow> api_reply \<times> 'w Dash" where
  "handleLogsClear d = (Success (Message ''Log store cleared''), d\<lparr>da_logs := log_Clear (da_logs d)\<rparr>)"

definition handleFirewallBans :: "'w surroundings \<Rightarrow> request \<Rightarrow> 'w Dash \<Rightarrow> api_reply \<times> 'w Dash" where
  "handleFirewallBans su r d =
     (let (user, role) = getUserFromRequest su r (sd_Users (da_store d)) in
      if \<not> CanViewLogs role then (Failure ''Access Denied'', d)
      else case da_center d of (cc, disk, w) \<Rightarrow>
        let (bans, w') = su_bans su w in (Success (Bans bans), d\<lparr>da_center := (cc, disk, w')\<rparr>))"

definition handlePricing :: "request \<Rightarrow> body \<Rightarrow> 'w Dash \<Rightarrow> api_reply \<times> 'w Dash" where
  "handlePricing r b d =
     (if r_method r = ''GET'' then (Success (Pricing (sd_Pricing (da_store d))), d)
      else if r_method r = ''POST'' \<or> r_method r = ''PUT'' then
        (case bo_pricing b of
           None \<Rightarrow> (HttpError 400, d)
         | Some ps \<Rightarrow> (Success (Message ''Pricing updated successfully''), d\<lparr>da_store := (da_store d)\<lparr>sd_Pricing := ps\<rparr>\<rparr>))
      else (HttpError 405, d))"

definition handleDocs :: "request \<Rightarrow> body \<Rightarrow> 'w Dash \<Rightarrow> api_reply \<times> 'w Dash" where
  "handleDocs r b d =
     (if r_method r = ''GET'' then (Success (Docs (sd_Docs (da_store d))), d)
      else if r_method r = ''POST'' \<or> r_method r = ''PUT'' then
        (case bo_docs b of
           None \<Rightarrow> (HttpError 400, d)
         | Some ds \<Rightarrow> (Success (Message ''Docs updated successfully''), d\<lparr>da_store := (da_store d)\<lparr>sd_Docs := ds\<rparr>\<rparr>))
      else (HttpError 405, d))"

definition post_only :: "request \<Rightarrow> string \<Rightarrow> 'w Dash \<Rightarrow> api_reply \<times> 'w Dash" where
  "post_only r text d = (if r_method r \<noteq> ''POST'' then (HttpError 405, d) else (Success (Message text), d))"

subsection \<open>Routes\<close>

definition view_routes :: "string list" where
  "view_routes = [''/api/stats'', ''/api/health'', ''/api/config'', ''/api/rps-history'', ''/api/system-stats'', ''/api/dns/check'',
     ''/api/nodes'', ''/api/events/security'', ''/logo-mango.png'', ''/logo-mango-small.png'', ''/favicon.ico'', ''/apple-touch-icon.png'',
     ''/world.svg'']"

definition route :: "'w surroundings \<Rightarrow> request \<Rightarrow> body \<Rightarrow> 'w Dash \<Rightarrow> api_reply \<times> 'w Dash" where
  "route su r b d =
     (let p = r_path r in
      if p = ''/api/login'' then handleLogin su r b d
      else if p = ''/api/register'' then handleRegister r b d
      else if p = ''/api/cache/purge'' then post_only r ''purged'' d
      else if p = ''/api/unban'' then handleUnban su r d
      else if p = ''/api/domains'' then handleDomains su r b d
      else if p = ''/api/ssl/generate'' then post_only r ''SSL certificate successfully generated'' d
      else if p = ''/api/pricing'' then handlePricing r b d
      else if p = ''/api/docs'' then handleDocs r b d
      else if p = ''/api/config/center'' then handleConfigCenter su r b d
      else if p = ''/api/config/diff'' then handleConfigDiff r b d
      else if p = ''/api/config/backup'' then handleConfigBackup su r b d
      else if p = ''/api/audit-logs'' then handleAuditLogs su r d
      else if p = ''/api/users'' then handleUsers su r b d
      else if p = ''/api/security/rules'' then handleSecurityRules su r b d
      else if p = ''/api/cluster/sync'' then handleClusterSync su r d
      else if p = ''/api/logs/query'' then handleLogsQuery su r d
      else if p = ''/api/logs/clear'' then handleLogsClear d
      else if p = ''/api/domains/protection-mode'' then handleDomainProtectionMode su r b d
      else if p = ''/api/firewall/bans'' then handleFirewallBans su r d
      else if p \<in> set view_routes then (View, d)
      else (Success Page, d))"

text \<open>\<open>corsMiddleware\<close>: the header that lets another origin in, and the answer to a preflight.\<close>

definition cors_origin :: "request \<Rightarrow> string option" where
  "cors_origin r = (let origin = hdr_get r ''Origin'' in
     if origin \<noteq> [] \<and> (str_contains origin (r_host r) \<or> str_contains origin ''localhost'' \<or> str_contains origin ''127.0.0.1'')
     then Some origin else None)"

text \<open>A request to one of the two ports of the dashboard, its path in the clean form the multiplexer insists on.\<close>

definition serve_api :: "'w surroundings \<Rightarrow> request \<Rightarrow> body \<Rightarrow> 'w Dash \<Rightarrow> api_reply \<times> 'w Dash" where
  "serve_api su r b d = (case authorized su r d of
     None \<Rightarrow> (Panicked, d)
   | Some False \<Rightarrow> (HttpError 401, d)
   | Some True \<Rightarrow> if r_method r = ''OPTIONS'' then (Options, d) else route su r b d)"

end
