(* ===== verification/Admin_Access.thy ===== *)
theory Admin_Access
  imports Admin
begin

section \<open>Who may do what in the dashboard\<close>

text \<open>
  Properties of the authentication, the accounts, the owners of domains and the exchange of configurations between nodes.
\<close>

subsection \<open>A small dashboard\<close>

text \<open>A node with one account, one domain of that account and no peers, for the concrete instances below.\<close>

definition demo_shop :: DomainConfig where
  "demo_shop = \<lparr>dom_Name = ''a.io'', dom_Upstreams = [\<lparr>up_URL = ''http://b'', up_Weight = 1\<rparr>], dom_SSL = False, dom_Owner = ''root'', dom_RateLimitRPS = 0,
     dom_RateLimitConn = 0, dom_PoWDifficulty = 0, dom_ProtectionMode = []\<rparr>"

definition dash_config :: Config where
  "dash_config = DefaultConfig\<lparr>cfg_Domains := [demo_shop]\<rparr>"

definition demo_around :: "unit surroundings" where
  "demo_around = \<lparr>su_now = 7, su_stamp = ''t'', su_random = Some ''ab'', su_loaded = None,
     su_unm = (\<lambda>raw. if raw = ''bad'' then None else Some dash_config), su_mar = (\<lambda>c. Some ''one''),
     su_writable = (\<lambda>p. True), su_rfc3339 = (\<lambda>t. []), su_query = (\<lambda>q k. ''a.io''), su_basic = (\<lambda>r. None),
     su_members = [], su_bans = (\<lambda>w. ([], w)), su_call = (\<lambda>c w. w)\<rparr>"

definition demo_dash :: "unit Dash" where
  "demo_dash = \<lparr>da_store = \<lparr>sd_Users = [\<lparr>ua_Username = ''root'', ua_Password = ''p'', ua_Email = [], ua_Role = ''super_admin'',
       ua_Domains = [], ua_SessionToken = []\<rparr>], sd_Domains = [demo_shop], sd_Pricing = [], sd_Docs = [], sd_Settings = no_settings\<rparr>,
     da_audit = [], da_center = (demo_center\<lparr>cc_currentConfig := Some dash_config\<rparr>, [], ()), da_logs = GetLogStore, da_pushes = []\<rparr>"

definition demo_body :: body where
  "demo_body = \<lparr>bo_credentials = Some (''bob'', ''pw'', []), bo_login = (''bob'', ''pw''), bo_user = None, bo_domain = None, bo_mode = None, bo_rules = None,
     bo_yaml = Some (''mine'', ''x''), bo_rollback = None, bo_backup = ([], []), bo_diff = (0, 0), bo_pricing = None, bo_docs = None\<rparr>"

subsection \<open>Accounts\<close>

definition fold_names :: "UserAccount list \<Rightarrow> string list" where
  "fold_names us = map (\<lambda>u. to_lower (ua_Username u)) us"

abbreviation users_of :: "'w Dash \<Rightarrow> UserAccount list" where
  "users_of d \<equiv> sd_Users (da_store d)"

lemma fold_names_simps [simp]:
  "fold_names [] = []" "fold_names (u # us) = to_lower (ua_Username u) # fold_names us" "fold_names (us @ vs) = fold_names us @ fold_names vs"
  by (simp_all add: fold_names_def)

lemma user_exists_names: "user_exists name us \<longleftrightarrow> to_lower name \<in> set (fold_names us)"
  by (induction us) (auto simp: user_exists_def equal_fold_def)

lemma set_token_names [simp]: "fold_names (set_token name token us) = fold_names us"
  by (induction us) auto

lemma update_user_names: "update_user q us = Some us' \<Longrightarrow> fold_names us' = fold_names us"
  by (induction us arbitrary: us') (auto split: if_splits)

lemma filter_names: "distinct (fold_names us) \<Longrightarrow> distinct (fold_names (filter P us))"
  by (simp add: fold_names_def distinct_map_filter)

lemma users_frame [simp]:
  "users_of (set_users us d) = us" "users_of (log_action su r user role a m t x st d) = users_of d"
  "users_of (call_engines su c d) = users_of d" "users_of (store_domains ds d) = users_of d"
  "users_of (write_through al cf d) = users_of d" "users_of (snd (apply_config su cf user role desc d)) = users_of d"
  "users_of (broadcastConfigToPeers su raw author desc d) = users_of d"
  "users_of (push_unless_internal su r raw user desc d) = users_of d" "users_of (d\<lparr>da_center := st'\<rparr>) = users_of d"
  by (simp_all add: set_users_def log_action_def call_engines_def store_domains_def write_through_def apply_config_def
      broadcastConfigToPeers_def push_unless_internal_def Let_def case_prod_unfold split: option.split)

lemma publish_users [simp]: "users_of (publish_domains su r clone ds user role desc d) = users_of d"
  by (simp add: publish_domains_def Let_def)

lemma install_users [simp]: "users_of (install_config su b d) = users_of d"
  by (simp add: install_config_def split: option.split)

lemma domains_users [simp]: "users_of (snd (handleDomains su r b d)) = users_of d"
  by (simp add: handleDomains_def post_domain_def with_clone_def Let_def case_prod_unfold split: option.split edit.split)

lemma mode_users [simp]: "users_of (snd (handleDomainProtectionMode su r b d)) = users_of d"
  by (simp add: handleDomainProtectionMode_def with_clone_def Let_def case_prod_unfold split: option.split)

lemma center_users [simp]: "users_of (snd (handleConfigCenter su r b d)) = users_of d"
  by (simp add: handleConfigCenter_def save_yaml_def Let_def case_prod_unfold split: option.split)

lemma other_users [simp]:
  "users_of (snd (handleConfigDiff r b d)) = users_of d" "users_of (snd (handleConfigBackup su r b d)) = users_of d"
  "users_of (snd (handleSecurityRules su r b d)) = users_of d" "users_of (snd (handleClusterSync su r d)) = users_of d"
  "users_of (snd (handleUnban su r d)) = users_of d" "users_of (snd (handleAuditLogs su r d)) = users_of d"
  "users_of (snd (handleLogsQuery su r d)) = users_of d" "users_of (snd (handleLogsClear d)) = users_of d"
  "users_of (snd (handleFirewallBans su r d)) = users_of d" "users_of (snd (handlePricing r b d)) = users_of d"
  "users_of (snd (handleDocs r b d)) = users_of d" "users_of (snd (post_only r text d)) = users_of d"
  by (simp_all add: handleConfigDiff_def handleConfigBackup_def handleSecurityRules_def handleClusterSync_def handleUnban_def
      handleAuditLogs_def handleLogsQuery_def handleLogsClear_def handleFirewallBans_def handlePricing_def handleDocs_def
      post_only_def with_clone_def Let_def case_prod_unfold split: option.split sum.split)

lemma register_names: "distinct (fold_names (users_of d)) \<Longrightarrow> distinct (fold_names (users_of (snd (handleRegister r b d))))"
  by (auto simp: handleRegister_def user_exists_names split: option.split)

lemma login_names: "fold_names (users_of (snd (handleLogin su r b d))) = fold_names (users_of d)"
  by (simp add: handleLogin_def Let_def case_prod_unfold split: option.split)

lemma manage_names: "distinct (fold_names (users_of d)) \<Longrightarrow> distinct (fold_names (users_of (snd (handleUsers su r b d))))"
  by (auto simp: handleUsers_def Let_def case_prod_unfold user_exists_names filter_names update_user_names split: option.split)

text \<open>
  C27: No request to the dashboard, whoever sends it, makes two accounts with names that differ at most in case: if the names
  of the accounts are distinct in this sense they stay so.
\<close>

theorem usernames_stay_unique:
  assumes "distinct (fold_names (users_of d))"
  shows "distinct (fold_names (users_of (snd (serve_api su r b d))))"
  using assms register_names [of d r b] login_names [of su r b d] manage_names [of d su r b]
  by (simp add: serve_api_def route_def Let_def split: option.split bool.split)

theorem usernames_stay_unique_witness:
  "distinct (fold_names (users_of (snd (serve_api demo_around
     (blank_request\<lparr>r_method := ''POST'', r_path := ''/api/register''\<rparr>) demo_body demo_dash))))"
  by (rule usernames_stay_unique) (simp add: demo_dash_def)

subsection \<open>Registering and logging in\<close>

lemma find_snoc: "\<forall>y \<in> set xs. \<not> Q y \<Longrightarrow> Q x \<Longrightarrow> find Q (xs @ [x]) = Some x"
  by (induction xs) auto

lemma find_set_token:
  assumes "user_exists name us" and "\<forall>u \<in> set us. ua_SessionToken u \<noteq> token"
  shows "\<exists>u. find (\<lambda>u. equal_fold (ua_Username u) name) us = Some u \<and>
    find (\<lambda>u. ua_SessionToken u = token) (set_token name token us) = Some (u\<lparr>ua_SessionToken := token\<rparr>)"
  using assms by (induction us) (auto simp: user_exists_def)

text \<open>
  Whoever registers can log in: after a registration with a new name, a login with the name and the password gives a
  token, and a request whose cookie is this token, of a client that sends no \<open>X-User-Name\<close>, is taken for this
  account with the role of a user and passes the authentication, unless the token had been drawn before.
\<close>

theorem registered_user_logs_in:
  assumes "r_method r = ''POST''" and "bo_credentials b = Some (name, pass, email)" and "bo_login b = (name, pass)"
    and "name \<noteq> []" and "pass \<noteq> []"
    and "\<not> user_exists name (users_of d)" and "su_random su = Some hex"
    and "\<forall>u \<in> set (users_of d). ua_SessionToken u \<noteq> ''mango-session-'' @ hex"
    and "hdr_get q ''X-User-Name'' = []" and "find_cookie q ''mango_admin_session'' = Some (''mango-session-'' @ hex)"
  shows "\<exists>d1 d2. handleRegister r b d = (Success (Message ''User registered successfully''), d1) \<and>
    handleLogin su r b d1 = (Success (Session (''mango-session-'' @ hex) name ''user''), d2) \<and>
    getUserFromRequest su q (users_of d2) = (name, ''user'') \<and> authorized su q d2 = Some True"
proof -
  let ?t = "''mango-session-'' @ hex"
  let ?u = "\<lparr>ua_Username = name, ua_Password = pass, ua_Email = email, ua_Role = ''user'', ua_Domains = [], ua_SessionToken = []\<rparr>"
  define us where "us = users_of d @ [?u]"
  have absent: "\<forall>u \<in> set (users_of d). \<not> equal_fold (ua_Username u) name" using assms(6) by (auto simp: user_exists_def list_ex_iff)
  have reg: "handleRegister r b d = (Success (Message ''User registered successfully''), set_users us d)"
    using assms(1-6) by (simp add: handleRegister_def us_def)
  have found: "find (\<lambda>u. equal_fold (ua_Username u) name \<and> ua_Password u = pass) us = Some ?u"
    unfolding us_def using absent by (intro find_snoc) auto
  have byname: "find (\<lambda>u. equal_fold (ua_Username u) name) us = Some ?u"
    unfolding us_def using absent by (intro find_snoc) auto
  have "user_exists name us" "\<forall>u \<in> set us. ua_SessionToken u \<noteq> ?t" using assms(8) by (auto simp: us_def user_exists_def)
  then have tok: "find (\<lambda>u. ua_SessionToken u = ?t) (set_token name ?t us) = Some (?u\<lparr>ua_SessionToken := ?t\<rparr>)"
    using find_set_token [of name us ?t] byname by auto
  have log: "handleLogin su r b (set_users us d) = (Success (Session ?t name ''user''), set_users (set_token name ?t us) (set_users us d))"
    using assms(1-5,7) found by (simp add: handleLogin_def login_credentials_def authenticate_def Let_def)
  have "getUserFromRequest su q (set_token name ?t us) = (name, ''user'')"
    using assms(9,10) tok by (simp add: getUserFromRequest_def)
  moreover have "authorized su q (set_users (set_token name ?t us) (set_users us d)) = Some True"
    using assms(10) by (simp add: authorized_def has_prefix_def)
  ultimately show ?thesis using reg log by auto
qed

lemma demo_new_name: "\<not> user_exists ''bob'' [\<lparr>ua_Username = ''root'', ua_Password = ''p'', ua_Email = [], ua_Role = ''super_admin'',
    ua_Domains = [], ua_SessionToken = []\<rparr>]"
  by code_simp

theorem registered_user_logs_in_witness:
  "\<exists>d1 d2. handleRegister (blank_request\<lparr>r_method := ''POST''\<rparr>) demo_body demo_dash =
       (Success (Message ''User registered successfully''), d1) \<and>
    handleLogin demo_around (blank_request\<lparr>r_method := ''POST''\<rparr>) demo_body d1 = (Success (Session ''mango-session-ab'' ''bob'' ''user''), d2) \<and>
    getUserFromRequest demo_around (blank_request\<lparr>r_cookies := [(''mango_admin_session'', ''mango-session-ab'')]\<rparr>) (users_of d2) =
       (''bob'', ''user'') \<and>
    authorized demo_around (blank_request\<lparr>r_cookies := [(''mango_admin_session'', ''mango-session-ab'')]\<rparr>) d2 = Some True"
  using registered_user_logs_in [of "blank_request\<lparr>r_method := ''POST''\<rparr>" demo_body "''bob''" "''pw''" "[]" demo_dash demo_around "''ab''"
      "blank_request\<lparr>r_cookies := [(''mango_admin_session'', ''mango-session-ab'')]\<rparr>"]
  by (simp add: demo_body_def demo_dash_def demo_around_def blank_request_def hdr_get_def find_cookie_def demo_new_name)

subsection \<open>Anybody is an administrator\<close>

text \<open>
  A request without any secret: it names its own role and claims to come from another node, or it does so and names
  nobody, or it has a cookie with the right beginning that belongs to nobody.
\<close>

definition impostor :: "'w surroundings \<Rightarrow> request \<Rightarrow> UserAccount list \<Rightarrow> bool" where
  "impostor su r us \<longleftrightarrow>
     (let v = find_cookie r ''mango_admin_session'' in
      (hdr_get r ''X-Sync-Internal'' = ''true'' \<and> hdr_get r ''X-User-Name'' \<noteq> [] \<and> hdr_get r ''X-User-Role'' = ''super_admin'') \<or>
      (hdr_get r ''X-Sync-Internal'' = ''true'' \<and> hdr_get r ''X-User-Name'' = [] \<and> v = None \<and> su_basic su r = None) \<or>
      (hdr_get r ''X-User-Name'' = [] \<and> su_basic su r = None \<and>
        (\<exists>x. v = Some (''mango-session-'' @ x) \<and> (\<forall>u \<in> set us. ua_SessionToken u \<noteq> ''mango-session-'' @ x))))"

lemma impostor_admitted: "impostor su r (users_of d) \<Longrightarrow> authorized su r d = Some True"
  by (auto simp: impostor_def authorized_def has_prefix_def Let_def)

lemma impostor_role:
  assumes "impostor su r us"
  shows "snd (getUserFromRequest su r us) \<in> {''admin'', ''super_admin''}"
proof -
  have "find (\<lambda>u. ua_SessionToken u = v) us = None" if "\<forall>u \<in> set us. ua_SessionToken u \<noteq> v" for v
    using that by (simp add: find_None_iff)
  then show ?thesis using assms by (auto simp: impostor_def getUserFromRequest_def Let_def)
qed

lemma engines_center [simp]:
  "da_center (log_action su r user role a m t x st d) = da_center d"
  "da_center (store_domains ds d) = da_center d" "da_center (push_unless_internal su r raw user desc d) = da_center d"
  by (simp_all add: call_engines_def log_action_def store_domains_def push_unless_internal_def broadcastConfigToPeers_def
      case_prod_unfold split: option.split)

lemma impostor_saves:
  assumes "impostor su r (users_of d)" and "r_path r = ''/api/config/center''" and "r_method r = ''POST''"
    and "bo_yaml b = Some (raw, desc)" and "trim_ws raw \<noteq> []" and "da_center d = (cc, disk, w)"
    and "su_unm su raw = Some cfg" and "ValidateConfig cfg = None" and "su_writable su (rev_path cc (su_now su))"
    and "run_hooks (cc_reloadHooks cc) (Some cfg) w = (w', False)"
  shows "\<exists>p d' cc' disk'. serve_api su r b d = (Success p, d') \<and> cc_rawYAML cc' = raw \<and> cc_currentConfig cc' = Some cfg \<and>
    da_center d' = (cc', disk', su_call su (CallUpdateUpstreams (cfg_Domains cfg)) w')"
proof -
  obtain user role where u: "getUserFromRequest su r (users_of d) = (user, role)" by fastforce
  have role: "CanEditYAML role" using impostor_role [OF assms(1)] u by (auto simp: CanEditYAML_def)
  obtain cc' disk' where s: "SaveYAML (su_unm su) (su_writable su) (su_now su) raw user role
      (or_empty ''Updated via Configuration Center Dashboard'' desc) (cc, disk, w) = (None, cc', disk', w')"
    and c: "cc_currentConfig cc' = Some cfg" "cc_rawYAML cc' = raw"
    using assms(7-10) by (auto simp: SaveYAML_eq ValidateYAML_def Let_def case_prod_unfold)
  have "serve_api su r b d = save_yaml su r raw desc user role d"
    using impostor_admitted [OF assms(1)] assms(2-4) u role by (simp add: serve_api_def route_def handleConfigCenter_def)
  then show ?thesis
    using assms(5,6) s c by (auto simp: save_yaml_def getConfig_def install_config_def call_engines_def Let_def)
qed

lemma impostor_unbans:
  assumes "impostor su r (users_of d)" and "r_path r = ''/api/unban''" and "r_method r \<noteq> ''OPTIONS''"
    and "su_query su (r_rawquery r) ''ip'' = ip" and "ip \<noteq> []" and "ip \<noteq> ''all''"
  shows "serve_api su r b d = (Success (Message (''IP '' @ ip @ '' unbanned'')), call_engines su (CallUnbanIP ip) d)"
  using assms impostor_admitted [OF assms(1)] by (simp add: serve_api_def route_def handleUnban_def Let_def)

subsection \<open>Owners\<close>

lemma replace_keeps:
  "replace_domain user role q ds = Edited ds' \<Longrightarrow> dm \<in> set ds \<Longrightarrow> \<not> may_edit user role dm \<Longrightarrow> dm \<in> set ds'"
  by (induction ds arbitrary: ds') (auto split: if_splits edit.splits)

lemma remove_keeps:
  "remove_domain user role name ds = Edited ds' \<Longrightarrow> dm \<in> set ds \<Longrightarrow> \<not> may_edit user role dm \<Longrightarrow> dm \<in> set ds'"
  by (induction ds arbitrary: ds') (auto split: if_splits edit.splits)

lemma publish_stores [simp]: "sd_Domains (da_store (publish_domains su r clone ds user role desc d)) = ds"
  by (simp add: publish_domains_def call_engines_def push_unless_internal_def broadcastConfigToPeers_def apply_config_def
      store_domains_def Let_def case_prod_unfold split: option.split)



end
