(* ===== verification/Node.thy ===== *)
theory Node
  imports Admin_Access Bans
begin

section \<open>The dashboard of a running server (main.go)\<close>

text \<open>
  How \<open>main\<close> ties the dashboard and the configuration center to the server: the hook that reloads it and the functions
  of the \<open>StatsAdapter\<close>. The world of the dashboard is then the state of the server. Lemmas: what a request to the
  dashboard does to the server.
\<close>

text \<open>The hook that \<open>main\<close> registers; it never reports an error.\<close>

definition server_hook :: "Shield hook" where
  "server_hook c s = (ReloadConfig c s, False)"

definition sh_UpdateUpstreams :: "DomainConfig list \<Rightarrow> Shield \<Rightarrow> Shield" where
  "sh_UpdateUpstreams domains s = s\<lparr>sh_upstreams := map_option (UpdateDomains domains) (sh_upstreams s)\<rparr>"

definition engine_step :: "gotime \<Rightarrow> engine_call \<Rightarrow> Shield \<Rightarrow> Shield" where
  "engine_step now c s = (case c of
     CallUpdateUpstreams domains \<Rightarrow> sh_UpdateUpstreams domains s
   | CallUnbanIP ip \<Rightarrow> UnbanIP ip now s
   | CallUnbanAll \<Rightarrow> UnbanAllIPs now s)"

definition on_server :: "Shield surroundings \<Rightarrow> Shield surroundings" where
  "on_server su = su\<lparr>su_bans := GetBannedIPsList (su_now su), su_call := engine_step (su_now su)\<rparr>"

lemma on_server_simps [simp]:
  "su_now (on_server su) = su_now su" "su_unm (on_server su) = su_unm su" "su_writable (on_server su) = su_writable su"
  "su_query (on_server su) = su_query su" "su_call (on_server su) = engine_step (su_now su)"
  by (simp_all add: on_server_def)

lemma impostor_on_server [simp]: "impostor (on_server su) r us = impostor su r us"
  by (simp add: impostor_def on_server_def)

lemma reload_config [simp]: "pl_cfg (ReloadConfig (Some cfg) s) = cfg"
  by (simp add: ReloadConfig_def)

lemma engine_config [simp]: "pl_cfg (engine_step now (CallUpdateUpstreams ds) s) = pl_cfg s"
  by (simp add: engine_step_def sh_UpdateUpstreams_def)

text \<open>
  C25: No secret is needed to take over a server. One posted text, from a client that only sends a header or a cookie of its
  own making, is saved as by an administrator: if it decodes to a configuration that the few checks accept and the
  revision can be written, it is the running configuration of the center and of the server, and no address on its
  whitelist is banned any more.
\<close>

theorem intruder_controls_server:
  assumes "impostor su r (users_of d)" and "r_path r = ''/api/config/center''" and "r_method r = ''POST''"
    and "bo_yaml b = Some (raw, desc)" and "trim_ws raw \<noteq> []" and "su_unm su raw = Some cfg" and "ValidateConfig cfg = None"
    and "da_center d = (cc, disk, s)" and "cc_reloadHooks cc = [server_hook]" and "su_writable su (rev_path cc (su_now su))"
  shows "\<exists>p d' cc' disk' s'. serve_api (on_server su) r b d = (Success p, d') \<and> da_center d' = (cc', disk', s') \<and>
    cc_rawYAML cc' = raw \<and> cc_currentConfig cc' = Some cfg \<and> pl_cfg s' = cfg \<and>
    (\<forall>ip now. isWhitelisted ip cfg \<longrightarrow> \<not> fst (isBanned ip now s'))"
proof -
  have hooks: "run_hooks (cc_reloadHooks cc) (Some cfg) s = (ReloadConfig (Some cfg) s, False)"
    using assms(9) by (simp add: server_hook_def)
  obtain p d' cc' disk' where d: "serve_api (on_server su) r b d = (Success p, d')" "cc_rawYAML cc' = raw" "cc_currentConfig cc' = Some cfg"
    "da_center d' = (cc', disk', engine_step (su_now su) (CallUpdateUpstreams (cfg_Domains cfg)) (ReloadConfig (Some cfg) s))"
    using impostor_saves [of "on_server su" r d b raw desc cc disk s cfg] assms(1-8,10) hooks by auto
  show ?thesis by (intro exI conjI, rule d(1), rule d(4)) (auto simp: d(2,3) isBanned_eq)
qed

text \<open>
  C26: A ban does not hold against a client that reaches the dashboard: one request without any secret lifts the ban of any
  address, in the table and in the kernel, and tells all nodes of the mesh to lift it.
\<close>

theorem banned_client_frees_itself:
  assumes "impostor su r (users_of d)" and "r_path r = ''/api/unban''" and "r_method r \<noteq> ''OPTIONS''"
    and "su_query su (r_rawquery r) ''ip'' = ip" and "ip \<noteq> []" and "ip \<noteq> ''all''"
    and "da_center d = (cc, disk, s)" and "shield_ok s"
  shows "let s' = snd (snd (da_center (snd (serve_api (on_server su) r b d)))) in
    (\<forall>t. \<not> fst (isBanned ip t s')) \<and> (\<forall>key. xdp_key ip = Some key \<longrightarrow> \<not> kernel_drops (pl_xdpMgr s') key) \<and>
    pl_mesh s' = map_option (BroadcastUnban ip (su_now su)) (pl_mesh s)"
proof -
  have "serve_api (on_server su) r b d = (Success (Message (''IP '' @ ip @ '' unbanned'')), d\<lparr>da_center := (cc, disk, UnbanIP ip (su_now su) s)\<rparr>)"
    using impostor_unbans [of "on_server su" r d ip b] assms(1-7) by (simp add: call_engines_def engine_step_def)
  moreover have "tm_load ip (pl_banned (UnbanIP ip (su_now su) s)) = None"
    using assms(8) by (simp add: UnbanIP_def push_cf_unban_def shield_ok_def)
  ultimately show ?thesis
    by (simp add: isBanned_eq) (simp add: UnbanIP_def push_cf_unban_def kernel_drops_unban)
qed

subsection \<open>A server that has banned a client\<close>

definition freeing_config :: Config where
  "freeing_config = dash_config\<lparr>cfg_Protection := (cfg_Protection dash_config)\<lparr>pr_WhitelistIPs := [''203.0.113.9'']\<rparr>\<rparr>"

definition node_around :: "Shield surroundings" where
  "node_around = \<lparr>su_now = 90, su_stamp = ''t'', su_random = None, su_loaded = None, su_unm = (\<lambda>raw. Some freeing_config),
     su_mar = (\<lambda>c. None), su_writable = (\<lambda>p. True), su_rfc3339 = (\<lambda>t. []), su_query = (\<lambda>q k. ''203.0.113.9''),
     su_basic = (\<lambda>r. None), su_members = [], su_bans = (\<lambda>w. ([], w)), su_call = (\<lambda>c w. w)\<rparr>"

definition node_center :: "Shield ConfigCenter" where
  "node_center = \<lparr>cc_currentPath = ''/c/p.yaml'', cc_currentConfig = Some dash_config, cc_rawYAML = ''one'', cc_revisions = [],
     cc_backups = [], cc_reloadHooks = [server_hook], cc_historyDir = ''/data/h'', cc_backupDir = ''/data/b''\<rparr>"

definition banned_shield :: Shield where
  "banned_shield = BanIPLocal ''203.0.113.9'' 60 100 xdp_shield"

definition node_dash :: "Shield Dash" where
  "node_dash = \<lparr>da_store = \<lparr>sd_Users = [], sd_Domains = [], sd_Pricing = [], sd_Docs = [], sd_Settings = no_settings\<rparr>,
     da_audit = [], da_center = (node_center, [], banned_shield), da_logs = GetLogStore, da_pushes = []\<rparr>"

definition intruder :: "string \<Rightarrow> request" where
  "intruder path = blank_request\<lparr>r_method := ''POST'', r_path := path, r_header := [(''X-Sync-Internal'', [''true''])]\<rparr>"

lemma intruder_impostor: "impostor node_around (intruder path) us" "r_path (intruder path) = path" "r_method (intruder path) = ''POST''"
  by (simp_all add: impostor_def intruder_def blank_request_def hdr_get_def find_cookie_def node_around_def Let_def)

theorem intruder_controls_server_witness:
  "\<exists>p d' cc' disk' s'. serve_api (on_server node_around) (intruder ''/api/config/center'') demo_body node_dash = (Success p, d') \<and>
     da_center d' = (cc', disk', s') \<and> \<not> fst (isBanned ''203.0.113.9'' 90 s')"
proof -
  have "trim_ws ''mine'' \<noteq> []" "ValidateConfig freeing_config = None" by code_simp+
  moreover have "bo_yaml demo_body = Some (''mine'', ''x'')" by (simp add: demo_body_def)
  moreover have "isWhitelisted ''203.0.113.9'' freeing_config" by (simp add: isWhitelisted_def freeing_config_def)
  moreover have "su_unm node_around ''mine'' = Some freeing_config" "su_writable node_around p" for p by (simp_all add: node_around_def)
  moreover have "da_center node_dash = (node_center, [], banned_shield)" "cc_reloadHooks node_center = [server_hook]"
    by (simp_all add: node_dash_def node_center_def)
  ultimately show ?thesis
    using intruder_controls_server [OF intruder_impostor(1) intruder_impostor(2,3), where b = demo_body and d = node_dash] by blast
qed

lemma banned_shield_bans: "tm_load ''203.0.113.9'' (pl_banned banned_shield) = Some 160"
proof -
  have s: "shield_ok xdp_shield" "\<not> exempt ''203.0.113.9'' xdp_shield" by (simp_all add: xdp_shield_exempt) (simp add: xdp_shield_def)
  show ?thesis
    unfolding banned_shield_def using banIP_effect(2) [OF touched_bannable [OF s]] by (simp add: BanIPLocal_bans [OF s])
qed

theorem banned_client_frees_itself_witness:
  "tm_load ''203.0.113.9'' (pl_banned banned_shield) = Some 160 \<and>
   \<not> fst (isBanned ''203.0.113.9'' 91 (snd (snd (da_center (snd (serve_api (on_server node_around) (intruder ''/api/unban'') demo_body node_dash))))))"
proof -
  have c: "da_center node_dash = (node_center, [], banned_shield)" by (simp add: node_dash_def)
  have q: "su_query node_around (r_rawquery (intruder ''/api/unban'')) ''ip'' = ''203.0.113.9''" by (simp add: node_around_def)
  have "guarded zero_Config xdp_shield" unfolding xdp_shield_def by (rule guarded_new)
  then have ok: "shield_ok banned_shield" using guarded_BanIPLocal [of zero_Config xdp_shield] by (simp add: banned_shield_def guarded_def)
  show ?thesis
    using banned_shield_bans banned_client_frees_itself [OF intruder_impostor(1,2) _ q _ _ c ok] intruder_impostor(3) by (simp add: Let_def)
qed

end
