(* ===== verification/Alerts.thy ===== *)
theory Alerts
  imports Shield Config_Center
begin

section \<open>Alerts (core/alerts.go)\<close>

text \<open>
  The manager of alerts: the time between two alerts of a kind, what the other nodes are told and tell, the queue and
  the worker with its retries. Of a message the numbers and names are kept, its template is not. The mesh is given by the
  node and by the name of this and of all members; the remote services are arguments. Lemmas: how often an alert
  can be sent, and that a cluster sends it once.
\<close>

subsection \<open>State\<close>

record TelegramStatusInfo =
  tgs_Connected :: bool
  tgs_LastSentAt :: gotime
  tgs_LastError :: string
  tgs_TotalSent :: int
  tgs_TotalFailed :: int

datatype alert_message = AttackStarted string string int int nat | AttackEnded string string string
  | StatusReport string string string string string int int string | Custom string

record AlertManager =
  am_cfg :: Config
  am_lastSent :: "(string, gotime) gomap"
  am_cooldown :: duration
  am_queue :: "alert_message list"
  am_tgStatus :: TelegramStatusInfo

definition NewAlertManager :: "Config \<Rightarrow> AlertManager" where
  "NewAlertManager cfg =
     \<lparr>am_cfg = cfg, am_lastSent = [], am_cooldown = 5 * minute, am_queue = [],
      am_tgStatus = \<lparr>tgs_Connected = (tg_Enabled (al_Telegram (cfg_Alerts cfg)) \<and> tg_Token (al_Telegram (cfg_Alerts cfg)) \<noteq> [] \<and>
        tg_ChatID (al_Telegram (cfg_Alerts cfg)) \<noteq> []), tgs_LastSentAt = 0, tgs_LastError = [], tgs_TotalSent = 0, tgs_TotalFailed = 0\<rparr>\<rparr>"

definition am_UpdateConfig :: "Config option \<Rightarrow> AlertManager \<Rightarrow> AlertManager" where
  "am_UpdateConfig new a = (case new of None \<Rightarrow> a | Some cfg \<Rightarrow> a\<lparr>am_cfg := cfg\<rparr>)"

text \<open>The node, its own name and address, and those of all members.\<close>

type_synonym mesh_view = "MeshNode \<times> (string \<times> string) \<times> (string \<times> string) list"

subsection \<open>How often\<close>

definition RemoteSilence :: "string \<Rightarrow> gotime \<Rightarrow> AlertManager \<Rightarrow> AlertManager" where
  "RemoteSilence alertType now a = a\<lparr>am_lastSent := AList.update alertType now (am_lastSent a)\<rparr>"

definition ClearCooldown :: "string \<Rightarrow> AlertManager \<Rightarrow> AlertManager" where
  "ClearCooldown alertType a = a\<lparr>am_lastSent := AList.delete alertType (am_lastSent a)\<rparr>"

definition alert_cooldown :: "string \<Rightarrow> AlertManager \<Rightarrow> duration" where
  "alert_cooldown alertType a =
     (if str_contains alertType ''ban_'' then 30 * second
      else if has_prefix alertType ''attack_start_'' \<or> has_prefix alertType ''attack_end_'' then 0
      else am_cooldown a)"

definition canSend :: "string \<Rightarrow> gotime \<Rightarrow> AlertManager \<times> mesh_view option \<Rightarrow> bool \<times> AlertManager \<times> mesh_view option" where
  "canSend alertType now am = (case am of (a, mesh) \<Rightarrow>
     if (case map_of (am_lastSent a) alertType of
           None \<Rightarrow> False | Some prev \<Rightarrow> time_sub now prev < alert_cooldown alertType a) then (False, a, mesh)
     else (True, a\<lparr>am_lastSent := AList.update alertType now (am_lastSent a)\<rparr>,
       map_option (\<lambda>(n, view). (BroadcastAlert alertType now n, view)) mesh))"

subsection \<open>Texts\<close>

text \<open>\<open>%.1f\<close> of a number that is not negative: the nearest decimal, a tie to the even one.\<close>

definition format_1f :: "f64 \<Rightarrow> string" where
  "format_1f x = (let t = rnd_even (x * 10) in itoa (t div 10) @ ''.'' @ itoa (t mod 10))"

definition formatNumber :: "int \<Rightarrow> string" where
  "formatNumber n =
     (if n < 1000 then itoa n
      else if n < 1000000 then format_1f (fdiv (f_of_int n) 1000) @ ''K''
      else if n < 1000000000 then format_1f (fdiv (f_of_int n) 1000000) @ ''M''
      else format_1f (fdiv (f_of_int n) 1000000000) @ ''B'')"

definition round_second :: "duration \<Rightarrow> duration" where
  "round_second d =
     (if d < 0 then let r = - go_rem d second in if r + r < second then d + r else max min_int64 (d - second + r)
      else let r = go_rem d second in if r + r < second then d - r else min max_int64 (d + second - r))"

definition day_word :: string where "day_word = '' ng'' @ [CHR 0xC3, CHR 0xA0] @ ''y''"
definition hour_word :: string where "hour_word = '' gi'' @ [CHR 0xE1, CHR 0xBB, CHR 0x9D]"
definition minute_word :: string where "minute_word = '' ph'' @ [CHR 0xC3, CHR 0xBA] @ ''t''"
definition second_word :: string where "second_word = '' gi'' @ [CHR 0xC3, CHR 0xA2] @ ''y''"

text \<open>The floating-point fractions of \<open>Hours\<close> and the others never reach the next unit, so the truncation is a quotient.\<close>

definition formatDuration :: "duration \<Rightarrow> string" where
  "formatDuration d0 =
     (let d = round_second d0; h = go_quot d hour; m = go_rem (go_quot d minute) 60; s = go_rem (go_quot d second) 60 in
      if 24 < h then itoa (go_quot h 24) @ day_word @ '' '' @ itoa (go_rem h 24) @ hour_word
      else if 0 < h then itoa h @ hour_word @ '' '' @ itoa m @ minute_word
      else if 0 < m then itoa m @ minute_word @ '' '' @ itoa s @ second_word
      else itoa s @ second_word)"

subsection \<open>Sending\<close>

definition alertQueueCap :: nat where "alertQueueCap = 1000"

definition sendAllRich :: "alert_message \<Rightarrow> AlertManager \<Rightarrow> AlertManager" where
  "sendAllRich msg a = (if length (am_queue a) < alertQueueCap then a\<lparr>am_queue := am_queue a @ [msg]\<rparr> else a)"

definition leads :: "mesh_view option \<Rightarrow> bool" where
  "leads mesh = (case mesh of None \<Rightarrow> True | Some (n, local, members) \<Rightarrow> IsLeader local members)"

definition SendDomainAttackStart :: "string \<Rightarrow> int \<Rightarrow> int \<Rightarrow> gotime \<Rightarrow> AlertManager \<times> mesh_view option \<Rightarrow> AlertManager \<times> mesh_view option" where
  "SendDomainAttackStart domain totalRPS totalConns now am =
     (if \<not> leads (snd am) then am
      else let (ok, a, mesh) = canSend (''attack_start_'' @ domain) now am in
        if \<not> ok then (a, mesh)
        else let clusterSize = (case mesh of None \<Rightarrow> 1 | Some (n, local, members) \<Rightarrow> length members);
                 triggerReason = (if 500 < totalConns then ''L7 Connection Load / Slowloris Flood'' else ''L7 HTTP DDoS Attack'')
             in (sendAllRich (AttackStarted domain triggerReason totalRPS totalConns clusterSize)
                  (ClearCooldown (''attack_end_'' @ domain) a), mesh))"

definition SendDomainAttackEnd :: "string \<Rightarrow> duration \<Rightarrow> int \<Rightarrow> gotime \<Rightarrow> AlertManager \<times> mesh_view option \<Rightarrow> AlertManager \<times> mesh_view option" where
  "SendDomainAttackEnd domain d blocked now am =
     (if \<not> leads (snd am) then am
      else let (ok, a, mesh) = canSend (''attack_end_'' @ domain) now am in
        if \<not> ok then (a, mesh)
        else (sendAllRich (AttackEnded domain (formatDuration d) (formatNumber blocked))
               (ClearCooldown (''attack_start_'' @ domain) a), mesh))"

definition SendReport ::
  "int \<Rightarrow> int \<Rightarrow> int \<Rightarrow> int \<Rightarrow> int \<Rightarrow> duration \<Rightarrow> gotime \<Rightarrow> AlertManager \<times> mesh_view option \<Rightarrow> AlertManager \<times> mesh_view option" where
  "SendReport totalReqs blocked passed bannedIPs attacks uptime now am =
     (let (ok, a, mesh) = canSend ''report'' now am in
      if \<not> ok then (a, mesh)
      else let blockRate = (if 0 < totalReqs then fmul (fdiv (f_of_int blocked) (f_of_int totalReqs)) 100 else 0)
           in (sendAllRich (StatusReport (clu_NodeName (cfg_Cluster (am_cfg a))) (formatNumber totalReqs) (formatNumber blocked)
                (format_1f blockRate) (formatNumber passed) bannedIPs attacks (formatDuration uptime)) a, mesh))"

definition SendCustom :: "string \<Rightarrow> AlertManager \<Rightarrow> AlertManager" where
  "SendCustom msg a = sendAllRich (Custom msg) a"

text \<open>A call the server has recorded.\<close>

definition send_alert :: "alert_call \<Rightarrow> gotime \<Rightarrow> AlertManager \<times> mesh_view option \<Rightarrow> AlertManager \<times> mesh_view option" where
  "send_alert c now am = (case c of
     DomainAttackStart domain rps conns \<Rightarrow> SendDomainAttackStart domain rps conns now am
   | DomainAttackEnd domain d blocked \<Rightarrow> SendDomainAttackEnd domain d blocked now am)"

subsection \<open>The worker\<close>

text \<open>A post and its answer, the text of an error or the status.\<close>

datatype alert_post = TelegramPost string string alert_message | DiscordPost string alert_message
  | WebhookPost string string alert_message

fun attempts :: "nat \<Rightarrow> (int \<Rightarrow> bool) \<Rightarrow> ('w \<Rightarrow> (string + int) \<times> 'w) \<Rightarrow> string \<Rightarrow> 'w \<Rightarrow> (string option) \<times> 'w" where
  "attempts 0 ok post lastErr w = (Some lastErr, w)"
| "attempts (Suc n) ok post lastErr w =
     (case post w of
        (Inl err, w') \<Rightarrow> attempts n ok post err w'
      | (Inr status, w') \<Rightarrow> if ok status then (None, w') else attempts n ok post (''HTTP status '' @ itoa status) w')"

definition sendTelegram ::
  "(alert_post \<Rightarrow> 'w \<Rightarrow> (string + int) \<times> 'w) \<Rightarrow> gotime \<Rightarrow> alert_message \<Rightarrow> AlertManager \<times> 'w \<Rightarrow> AlertManager \<times> 'w" where
  "sendTelegram http now msg aw = (case aw of (a, w) \<Rightarrow>
     let cfg = al_Telegram (cfg_Alerts (am_cfg a)); t = am_tgStatus a in
     if tg_Token cfg = [] \<or> tg_ChatID cfg = [] then (a, w)
     else case attempts 3 (\<lambda>st. st = 200) (http (TelegramPost (tg_Token cfg) (tg_ChatID cfg) msg)) [] w of
       (None, w') \<Rightarrow> (a\<lparr>am_tgStatus := t\<lparr>tgs_Connected := True, tgs_LastSentAt := now, tgs_TotalSent := tgs_TotalSent t + 1\<rparr>\<rparr>, w')
     | (Some err, w') \<Rightarrow> (a\<lparr>am_tgStatus := t\<lparr>tgs_Connected := False, tgs_LastError := err, tgs_TotalFailed := tgs_TotalFailed t + 1\<rparr>\<rparr>, w'))"

definition sendDiscord :: "(alert_post \<Rightarrow> 'w \<Rightarrow> (string + int) \<times> 'w) \<Rightarrow> alert_message \<Rightarrow> AlertManager \<times> 'w \<Rightarrow> AlertManager \<times> 'w" where
  "sendDiscord http msg aw = (case aw of (a, w) \<Rightarrow>
     let cfg = al_Discord (cfg_Alerts (am_cfg a)) in
     if dc_WebhookURL cfg = [] then (a, w)
     else (a, snd (attempts 3 (\<lambda>st. st < 400) (http (DiscordPost (dc_WebhookURL cfg) msg)) [] w)))"

definition sendWebhook :: "(alert_post \<Rightarrow> 'w \<Rightarrow> (string + int) \<times> 'w) \<Rightarrow> alert_message \<Rightarrow> AlertManager \<times> 'w \<Rightarrow> AlertManager \<times> 'w" where
  "sendWebhook http msg aw = (case aw of (a, w) \<Rightarrow>
     let cfg = al_Webhook (cfg_Alerts (am_cfg a)) in
     if wh_URL cfg = [] then (a, w)
     else (a, snd (attempts 3 (\<lambda>st. st < 400) (http (WebhookPost (wh_URL cfg) (wh_Secret cfg) msg)) [] w)))"

text \<open>The job of a message and one turn of \<open>workerLoop\<close>; the three channels one after the other.\<close>

definition alert_job :: "(alert_post \<Rightarrow> 'w \<Rightarrow> (string + int) \<times> 'w) \<Rightarrow> gotime \<Rightarrow> alert_message \<Rightarrow> AlertManager \<times> 'w \<Rightarrow> AlertManager \<times> 'w" where
  "alert_job http now msg aw =
     (let c = cfg_Alerts (am_cfg (fst aw));
          aw1 = (if tg_Enabled (al_Telegram c) then sendTelegram http now msg aw else aw);
          aw2 = (if dc_Enabled (al_Discord c) then sendDiscord http msg aw1 else aw1)
      in if wh_Enabled (al_Webhook c) then sendWebhook http msg aw2 else aw2)"

definition workerLoop :: "(alert_post \<Rightarrow> 'w \<Rightarrow> (string + int) \<times> 'w) \<Rightarrow> gotime \<Rightarrow> AlertManager \<times> 'w \<Rightarrow> AlertManager \<times> 'w" where
  "workerLoop http now aw = (case aw of (a, w) \<Rightarrow> case am_queue a of
     [] \<Rightarrow> (a, w) | msg # rest \<Rightarrow> alert_job http now msg (a\<lparr>am_queue := rest\<rparr>, w))"

subsection \<open>The time between alerts\<close>

datatype alert_op = Send string | Silenced string | Cleared string

fun alert_step :: "alert_op \<Rightarrow> gotime \<Rightarrow> AlertManager \<Rightarrow> bool \<times> AlertManager" where
  "alert_step (Send kind) now a = (let (ok, a', mesh) = canSend kind now (a, None) in (ok, a'))"
| "alert_step (Silenced kind) now a = (False, RemoteSilence kind now a)"
| "alert_step (Cleared kind) now a = (False, ClearCooldown kind a)"

text \<open>The times at which alerts of a kind are let through.\<close>

fun sends :: "string \<Rightarrow> (alert_op \<times> gotime) list \<Rightarrow> AlertManager \<Rightarrow> gotime list" where
  "sends kind [] a = []"
| "sends kind ((q, now) # ops) a =
     (if fst (alert_step q now a) \<and> q = Send kind then [now] else []) @ sends kind ops (snd (alert_step q now a))"

lemma not_time_sub_less: "0 \<le> cd \<Longrightarrow> \<not> time_sub now prev < cd \<Longrightarrow> prev + cd \<le> now"
  by (simp add: time_sub_def min_int64_def max_int64_def max_def min_def split: if_splits)

lemma step_cooldown: "alert_cooldown kind (snd (alert_step q now a)) = alert_cooldown kind a"
  by (cases q) (simp_all add: alert_cooldown_def RemoteSilence_def ClearCooldown_def canSend_def split: option.split)

lemma step_last:
  "q \<noteq> Cleared kind \<Longrightarrow> map_of (am_lastSent (snd (alert_step q now a))) kind =
     (if fst (alert_step q now a) \<and> q = Send kind \<or> q = Silenced kind then Some now else map_of (am_lastSent a) kind)"
  by (cases q) (auto simp: RemoteSilence_def ClearCooldown_def canSend_def update_conv' delete_conv' split: option.split)

lemma step_waits:
  "map_of (am_lastSent a) kind = Some prev \<Longrightarrow> fst (alert_step (Send kind) now a) \<Longrightarrow> 0 \<le> alert_cooldown kind a \<Longrightarrow>
   prev + alert_cooldown kind a \<le> now"
  by (auto simp: canSend_def intro: not_time_sub_less split: if_splits)

lemma sends_in_ops: "x \<in> set (sends kind ops a) \<Longrightarrow> x \<in> snd ` set ops"
  by (induction kind ops a rule: sends.induct) (auto split: if_splits)

lemma sends_wait:
  assumes "map_of (am_lastSent a) kind = Some prev" and "sorted (prev # map snd ops)" and "Cleared kind \<notin> fst ` set ops"
    and "0 \<le> alert_cooldown kind a" and "x \<in> set (sends kind ops a)"
  shows "prev + alert_cooldown kind a \<le> x"
  using assms
proof (induction kind ops a arbitrary: prev rule: sends.induct)
  case (2 kind q now ops a)
  let ?a = "snd (alert_step q now a)" and ?sent = "fst (alert_step q now a) \<and> q = Send kind"
  have l: "map_of (am_lastSent ?a) kind = Some (if ?sent \<or> q = Silenced kind then now else prev)"
    using step_last [of q kind now a] "2.prems"(1,3) by auto
  have later: "(if ?sent \<or> q = Silenced kind then now else prev) + alert_cooldown kind a \<le> x" if "x \<in> set (sends kind ops ?a)"
    using "2.IH" [OF l] "2.prems"(2-4) that by (auto simp: step_cooldown)
  have "prev \<le> now" using "2.prems"(2) by simp
  then show ?case
    using "2.prems"(1,4,5) later step_waits [of a kind prev now] by (auto split: if_splits)
qed simp

text \<open>
  C31: An alert of a kind is sent at most once in its cooldown, and not within the cooldown after another node has said
  that it sent one: in any sequence of operations at times in order that does not clear the kind, the alerts that are let
  through are apart by the cooldown of the kind, and each is before or a cooldown after every silencing.
\<close>

theorem alert_rate:
  assumes "sorted (map snd ops)" and "Cleared kind \<notin> fst ` set ops" and "0 \<le> am_cooldown a"
  shows "sorted_wrt (\<lambda>x y. x + alert_cooldown kind a \<le> y) (sends kind ops a) \<and>
    (\<forall>t x. (Silenced kind, t) \<in> set ops \<longrightarrow> x \<in> set (sends kind ops a) \<longrightarrow> x \<le> t \<or> t + alert_cooldown kind a \<le> x)"
  using assms
proof (induction kind ops a rule: sends.induct)
  case (2 kind q now ops a)
  let ?a = "snd (alert_step q now a)" and ?sent = "fst (alert_step q now a) \<and> q = Send kind"
  have nonneg: "0 \<le> alert_cooldown kind a" using "2.prems"(3) by (simp add: alert_cooldown_def second_def)
  have cd: "am_cooldown ?a = am_cooldown a"
    by (cases q) (simp_all add: RemoteSilence_def ClearCooldown_def canSend_def split: option.split)
  have wait: "now + alert_cooldown kind a \<le> x" if "?sent \<or> q = Silenced kind" "x \<in> set (sends kind ops ?a)" for x
    using sends_wait [of ?a kind now ops x] step_last [of q kind now a] that "2.prems"(1,2) nonneg by (auto simp: step_cooldown)
  have "now \<le> t" if "(Silenced kind, t) \<in> set ops" for t using "2.prems"(1) that by force
  then show ?case using "2.IH" "2.prems" wait cd by (auto simp: step_cooldown split: if_splits)
qed simp

theorem alert_rate_witness:
  "sorted_wrt (\<lambda>x y. x + 5 * minute \<le> y) (sends ''report'' [(Send ''report'', 1), (Send ''report'', 2 * minute),
     (Silenced ''report'', 4 * minute), (Send ''report'', 6 * minute), (Send ''report'', 9 * minute)] (NewAlertManager DefaultConfig))"
proof -
  let ?ops = "[(Send ''report'', 1), (Send ''report'', 2 * minute), (Silenced ''report'', 4 * minute), (Send ''report'', 6 * minute),
      (Send ''report'', 9 * minute)]"
  have p: "sorted (map snd ?ops)" "Cleared ''report'' \<notin> fst ` set ?ops" "0 \<le> am_cooldown (NewAlertManager DefaultConfig)"
    by (simp_all add: NewAlertManager_def minute_def second_def)
  have "alert_cooldown ''report'' (NewAlertManager DefaultConfig) = 5 * minute" by code_simp
  then show ?thesis using alert_rate [OF p] by (simp del: sends.simps)
qed

subsection \<open>One alert for a cluster\<close>

lemma byte_of_inj: "byte_of c = byte_of d \<Longrightarrow> c = d"
  by simp

lemma str_less_irrefl: "\<not> str_less s s"
  by (induction s) auto

lemma str_less_trans: "str_less s t \<Longrightarrow> str_less t u \<Longrightarrow> str_less s u"
proof (induction s t arbitrary: u rule: str_less.induct)
  case (4 c cs d ds)
  then show ?case by (cases u) (auto dest: less_trans)
qed (auto elim: str_less.elims)

lemma str_less_total: "s \<noteq> t \<Longrightarrow> str_less s t \<or> str_less t s"
  by (induction s t rule: str_less.induct) (auto dest: byte_of_inj simp: not_less_iff_gr_or_eq)

definition lowest :: "(string \<times> string) list \<Rightarrow> string \<Rightarrow> string" where
  "lowest ms k = fold (\<lambda>m low. if str_less (member_key m) low then member_key m else low) ms k"

lemma lowest_props:
  "lowest ms k \<in> insert k (member_key ` set ms) \<and> \<not> str_less k (lowest ms k) \<and> (\<forall>m \<in> set ms. \<not> str_less (member_key m) (lowest ms k))"
proof (induction ms arbitrary: k)
  case Nil
  then show ?case by (simp add: lowest_def str_less_irrefl)
next
  case (Cons m ms)
  let ?k = "if str_less (member_key m) k then member_key m else k"
  have eq: "lowest (m # ms) k = lowest ms ?k" by (simp add: lowest_def)
  have *: "\<not> str_less ?k (lowest ms ?k)" using Cons.IH [of ?k] by simp
  have "\<not> str_less k (lowest ms ?k) \<and> \<not> str_less (member_key m) (lowest ms ?k)"
  proof (cases "str_less (member_key m) k")
    case True
    then show ?thesis using * str_less_trans [of "member_key m" k] by auto
  next
    case False
    then show ?thesis using * str_less_trans [of k "member_key m"] str_less_total [of "member_key m" k] by auto
  qed
  then show ?case using Cons.IH [of ?k] unfolding eq by (auto split: if_splits)
qed

lemma lowest_unique:
  assumes "a \<in> set ms" "b \<in> set ms" "member_key a = lowest ms (member_key a)" "member_key b = lowest ms (member_key b)"
  shows "member_key a = member_key b"
  using lowest_props [of ms "member_key a"] lowest_props [of ms "member_key b"] assms
    str_less_total [of "member_key a" "member_key b"] by auto

lemma lowest_exists:
  assumes "m \<in> set ms"
  shows "\<exists>a \<in> set ms. member_key a = lowest ms (member_key a)"
proof -
  obtain a where a: "a \<in> set ms" "lowest ms (member_key m) = member_key a" using lowest_props [of ms "member_key m"] assms by auto
  have "lowest ms (member_key a) = member_key a"
  proof (rule ccontr)
    assume "lowest ms (member_key a) \<noteq> member_key a"
    then have "str_less (lowest ms (member_key a)) (member_key a)"
      using str_less_total lowest_props [of ms "member_key a"] by blast
    then show False using lowest_props [of ms "member_key a"] lowest_props [of ms "member_key m"] a by (auto simp: str_less_irrefl)
  qed
  then show ?thesis by (intro bexI [OF _ a(1)]) simp
qed

lemma IsLeader_lowest: "k \<in> set members \<Longrightarrow> IsLeader k members \<longleftrightarrow> member_key k = lowest members (member_key k)"
  by (cases members; cases "tl members") (auto simp: IsLeader_def lowest_def str_less_irrefl)

lemma attack_start_sent:
  assumes "\<not> str_contains (''attack_start_'' @ domain) ''ban_''" and "length (am_queue a) < alertQueueCap"
    and "\<forall>t. map_of (am_lastSent a) (''attack_start_'' @ domain) = Some t \<longrightarrow> t \<le> now"
  shows "am_queue (fst (SendDomainAttackStart domain rps conns now (a, Some (n, k, members)))) = am_queue a @
    (if IsLeader k members then [AttackStarted domain (if 500 < conns then ''L7 Connection Load / Slowloris Flood'' else ''L7 HTTP DDoS Attack'')
       rps conns (length members)] else [])"
proof -
  have "alert_cooldown (''attack_start_'' @ domain) a = 0" using assms(1) by (simp add: alert_cooldown_def has_prefix_def)
  moreover have "\<not> time_sub now t < 0" if "t \<le> now" for t using that by (simp add: time_sub_def min_int64_def max_int64_def)
  ultimately have "canSend (''attack_start_'' @ domain) now (a, Some (n, k, members)) =
      (True, a\<lparr>am_lastSent := AList.update (''attack_start_'' @ domain) now (am_lastSent a)\<rparr>,
       Some (BroadcastAlert (''attack_start_'' @ domain) now n, k, members))"
    using assms(3) by (simp add: canSend_def split: option.split)
  then show ?thesis using assms(2) by (simp add: SendDomainAttackStart_def leads_def sendAllRich_def ClearCooldown_def Let_def)
qed

text \<open>
  C30: A cluster reports an attack once: if all nodes know the same members, whose names with addresses differ, then exactly
  one of them queues the message about the start of an attack, whatever their managers have sent before, as long as its
  queue has room and the name of the domain does not contain \<open>ban_\<close>.
\<close>

theorem one_alert_per_attack:
  assumes "members \<noteq> []" and "distinct (map member_key members)" and "\<not> str_contains (''attack_start_'' @ domain) ''ban_''"
    and "\<forall>k \<in> set members. length (am_queue (mgr k)) < alertQueueCap \<and>
      (\<forall>t. map_of (am_lastSent (mgr k)) (''attack_start_'' @ domain) = Some t \<longrightarrow> t \<le> now)"
  shows "\<exists>m \<in> set members. \<forall>k \<in> set members.
    am_queue (fst (SendDomainAttackStart domain (rps k) (conns k) now (mgr k, Some (node k, k, members)))) = am_queue (mgr k) @
      (if k = m then [AttackStarted domain (if 500 < conns k then ''L7 Connection Load / Slowloris Flood'' else ''L7 HTTP DDoS Attack'')
         (rps k) (conns k) (length members)] else [])"
proof -
  obtain m where m: "m \<in> set members" "member_key m = lowest members (member_key m)"
    using assms(1) lowest_exists [of "hd members" members] by auto
  have leader: "IsLeader k members \<longleftrightarrow> k = m" if "k \<in> set members" for k
    using IsLeader_lowest [OF that] m that assms(2) lowest_unique [of k members m] by (auto simp: distinct_map dest: inj_onD)
  show ?thesis
  proof (intro bexI [OF _ m(1)] ballI)
    fix k assume k: "k \<in> set members"
    show "am_queue (fst (SendDomainAttackStart domain (rps k) (conns k) now (mgr k, Some (node k, k, members)))) = am_queue (mgr k) @
      (if k = m then [AttackStarted domain (if 500 < conns k then ''L7 Connection Load / Slowloris Flood'' else ''L7 HTTP DDoS Attack'')
         (rps k) (conns k) (length members)] else [])"
      using attack_start_sent [OF assms(3), of "mgr k" now] assms(4) k by (simp add: leader)
  qed
qed

theorem one_alert_per_attack_witness:
  "\<exists>m \<in> {(''a'', ''10.0.0.1''), (''b'', ''10.0.0.2'')}. \<forall>k \<in> {(''a'', ''10.0.0.1''), (''b'', ''10.0.0.2'')}.
    am_queue (fst (SendDomainAttackStart ''shop.io'' 900 40 5 (NewAlertManager DefaultConfig,
      Some (\<lparr>mn_cfg = cfg_Cluster DefaultConfig, mn_broadcasts = [], mn_peerDomainStats = []\<rparr>, k, [(''a'', ''10.0.0.1''), (''b'', ''10.0.0.2'')])))) =
    (if k = m then [AttackStarted ''shop.io'' ''L7 HTTP DDoS Attack'' 900 40 2] else [])"
proof -
  let ?ms = "[(''a'', ''10.0.0.1''), (''b'', ''10.0.0.2'')]"
  have "\<not> str_contains (''attack_start_'' @ ''shop.io'') ''ban_''" by code_simp
  moreover have "distinct (map member_key ?ms)" by (simp add: member_key_def)
  ultimately show ?thesis
    using one_alert_per_attack [of ?ms "''shop.io''" "\<lambda>k. NewAlertManager DefaultConfig" 5 "\<lambda>k. 900" "\<lambda>k. 40"
        "\<lambda>k. \<lparr>mn_cfg = cfg_Cluster DefaultConfig, mn_broadcasts = [], mn_peerDomainStats = []\<rparr>"]
    by (simp add: NewAlertManager_def alertQueueCap_def numeral_2_eq_2)
qed

end
