(* ===== verification/Cloudflare.thy ===== *)
theory Cloudflare
  imports Shield Config_Center
begin

section \<open>Bans at Cloudflare (core/cloudflare.go)\<close>

text \<open>
  The worker of the two queues and the sweep of old rules. The API is an argument: a call and the world give an answer,
  of a list the decoded rules and the number of pages, and a new world. The order in which the worker takes from two
  filled queues is an argument, as is the order of the zones, that of their list. A sweep
  has one time for all its pages. Lemmas: the sweep ends,
  and what it leaves.
\<close>

subsection \<open>Calls\<close>

record cf_rule =
  cfr_ID :: string
  cfr_CreatedOn :: string

datatype cf_call = ListRules string int | FindRules string string | CreateRule string string | DeleteRule string string

datatype cf_reply = NoReply | Rules "cf_rule list" int | Status int

definition api_base :: "string \<Rightarrow> string \<Rightarrow> string" where
  "api_base level ident = ''https://api.cloudflare.com/client/v4/'' @ level @ ''/'' @ ident @ ''/firewall/access_rules/rules''"

definition api_urls :: "CloudflareConfig \<Rightarrow> string list" where
  "api_urls cfg =
     (if cfl_AccountID cfg \<noteq> [] then [api_base ''accounts'' (cfl_AccountID cfg)]
      else map (api_base ''zones'') (filter (\<lambda>z. z \<noteq> []) (map snd (cfl_Zones cfg))))"

subsection \<open>The queues\<close>

definition processBan :: "(cf_call \<Rightarrow> 'w \<Rightarrow> cf_reply \<times> 'w) \<Rightarrow> CloudflareConfig \<Rightarrow> string \<Rightarrow> 'w \<Rightarrow> 'w" where
  "processBan api cfg ip w = fold (\<lambda>url w. snd (api (CreateRule url ip) w)) (api_urls cfg) w"

definition delete_all :: "(cf_call \<Rightarrow> 'w \<Rightarrow> cf_reply \<times> 'w) \<Rightarrow> string \<Rightarrow> cf_rule list \<Rightarrow> 'w \<Rightarrow> 'w" where
  "delete_all api url rules w = fold (\<lambda>rule w. snd (api (DeleteRule url (cfr_ID rule)) w)) rules w"

definition unban_url :: "(cf_call \<Rightarrow> 'w \<Rightarrow> cf_reply \<times> 'w) \<Rightarrow> string \<Rightarrow> string \<Rightarrow> 'w \<Rightarrow> 'w" where
  "unban_url api ip url w = (case api (FindRules url ip) w of
     (Rules rules pages, w') \<Rightarrow> delete_all api url rules w'
   | (reply, w') \<Rightarrow> w')"

definition processUnban :: "(cf_call \<Rightarrow> 'w \<Rightarrow> cf_reply \<times> 'w) \<Rightarrow> CloudflareConfig \<Rightarrow> string \<Rightarrow> 'w \<Rightarrow> 'w" where
  "processUnban api cfg ip w = fold (unban_url api ip) (api_urls cfg) w"

text \<open>One turn of the worker; \<open>unban_first\<close> is the choice of \<open>select\<close> when both queues have something.\<close>

definition RunWorker :: "(cf_call \<Rightarrow> 'w \<Rightarrow> cf_reply \<times> 'w) \<Rightarrow> CloudflareConfig \<Rightarrow> bool \<Rightarrow> CFManager \<times> 'w \<Rightarrow> CFManager \<times> 'w" where
  "RunWorker api cfg unban_first mw = (case mw of (m, w) \<Rightarrow>
     if \<not> cfl_Enabled cfg \<or> cfl_APIToken cfg = [] then (m, w)
     else if cf_BanQueue m \<noteq> [] \<and> (cf_UnbanQueue m = [] \<or> \<not> unban_first)
     then (m\<lparr>cf_BanQueue := tl (cf_BanQueue m)\<rparr>, processBan api cfg (hd (cf_BanQueue m)) w)
     else if cf_UnbanQueue m \<noteq> []
     then (m\<lparr>cf_UnbanQueue := tl (cf_UnbanQueue m)\<rparr>, processUnban api cfg (hd (cf_UnbanQueue m)) w)
     else (m, w))"

subsection \<open>The sweep\<close>

text \<open>\<open>parse\<close> reads the time of RFC 3339.\<close>

definition rule_expired :: "(string \<Rightarrow> gotime option) \<Rightarrow> gotime \<Rightarrow> duration \<Rightarrow> cf_rule \<Rightarrow> bool" where
  "rule_expired parse now banDuration rule = (case parse (cfr_CreatedOn rule) of
     None \<Rightarrow> False | Some created \<Rightarrow> banDuration < time_sub now created)"

text \<open>The loop over the pages, which goes on for as long as the answers announce more of them.\<close>

partial_function (option) clean_pages ::
  "(cf_call \<Rightarrow> 'w \<Rightarrow> cf_reply \<times> 'w) \<Rightarrow> (cf_rule \<Rightarrow> bool) \<Rightarrow> string \<Rightarrow> int \<Rightarrow> 'w \<Rightarrow> 'w option" where
  "clean_pages api expired url page w = (case api (ListRules url page) w of
     (Rules rules pages, w1) \<Rightarrow>
       if rules = [] then Some w1
       else let w2 = delete_all api url (filter expired rules) w1
            in if pages \<le> page then Some w2 else clean_pages api expired url (page + 1) w2
   | (reply, w1) \<Rightarrow> Some w1)"

fun clean_urls :: "(cf_call \<Rightarrow> 'w \<Rightarrow> cf_reply \<times> 'w) \<Rightarrow> (cf_rule \<Rightarrow> bool) \<Rightarrow> string list \<Rightarrow> 'w \<Rightarrow> 'w option" where
  "clean_urls api expired [] w = Some w"
| "clean_urls api expired (url # urls) w = (case clean_pages api expired url 1 w of
     None \<Rightarrow> None | Some w' \<Rightarrow> clean_urls api expired urls w')"

definition cleanExpiredRules ::
  "(cf_call \<Rightarrow> 'w \<Rightarrow> cf_reply \<times> 'w) \<Rightarrow> (string \<Rightarrow> gotime option) \<Rightarrow> CloudflareConfig \<Rightarrow> gotime \<Rightarrow> duration \<Rightarrow> 'w \<Rightarrow> 'w option" where
  "cleanExpiredRules api parse cfg now banDuration w = clean_urls api (rule_expired parse now banDuration) (api_urls cfg) w"

text \<open>What the auto-cleanup does at the start and then every hour.\<close>

definition StartAutoCleanup ::
  "(cf_call \<Rightarrow> 'w \<Rightarrow> cf_reply \<times> 'w) \<Rightarrow> (string \<Rightarrow> gotime option) \<Rightarrow> CloudflareConfig \<Rightarrow> gotime \<Rightarrow> duration \<Rightarrow> 'w \<Rightarrow> 'w option" where
  "StartAutoCleanup api parse cfg now banDuration w =
     (if \<not> cfl_Enabled cfg \<or> cfl_APIToken cfg = [] then Some w else cleanExpiredRules api parse cfg now banDuration w)"

subsection \<open>What the sweep leaves\<close>

lemma clean_pages_keeps:
  assumes "P w"
    and "\<And>w p rules pages w1. P w \<Longrightarrow> api (ListRules url p) w = (Rules rules pages, w1) \<Longrightarrow>
      pages \<le> N \<and> P w1 \<and> P (delete_all api url (filter expired rules) w1)"
    and "\<And>w p reply w1. P w \<Longrightarrow> api (ListRules url p) w = (reply, w1) \<Longrightarrow> P w1"
  shows "\<exists>w'. clean_pages api expired url page w = Some w' \<and> P w'"
  using assms(1)
proof (induction "nat (N - page)" arbitrary: page w rule: less_induct)
  case less
  obtain reply w1 where r: "api (ListRules url page) w = (reply, w1)" by fastforce
  show ?case
  proof (cases reply)
    case (Rules rules pages)
    then have "pages \<le> N" "P w1" "P (delete_all api url (filter expired rules) w1)" using assms(2) [OF less.prems] r by auto
    then show ?thesis
      using less.hyps [of "page + 1"] by (subst clean_pages.simps) (auto simp: r Rules Let_def)
  qed (subst clean_pages.simps; simp add: r assms(3) [OF less.prems r])+
qed

text \<open>
  The documented behaviour of the API for the rules under a URL, \<open>stock\<close>: pages of 100 in order, counted from 1, and
  the removal of a rule by its identifier.
\<close>

definition keeps_rules :: "(cf_call \<Rightarrow> 'w \<Rightarrow> cf_reply \<times> 'w) \<Rightarrow> string \<Rightarrow> ('w \<Rightarrow> cf_rule list) \<Rightarrow> bool" where
  "keeps_rules api url stock \<longleftrightarrow>
     (\<forall>w page. fst (api (ListRules url page) w) =
        Rules (take 100 (drop (100 * nat (page - 1)) (stock w))) (int ((length (stock w) + 99) div 100)) \<and>
        stock (snd (api (ListRules url page) w)) = stock w) \<and>
     (\<forall>w ident. stock (snd (api (DeleteRule url ident) w)) = filter (\<lambda>rule. cfr_ID rule \<noteq> ident) (stock w))"

lemma listed:
  "keeps_rules api url stock \<Longrightarrow> api (ListRules url page) w = (reply, w1) \<Longrightarrow>
   reply = Rules (take 100 (drop (100 * nat (page - 1)) (stock w))) (int ((length (stock w) + 99) div 100)) \<and> stock w1 = stock w"
  unfolding keeps_rules_def by (metis fst_conv snd_conv)

lemma stock_delete_all:
  "keeps_rules api url stock \<Longrightarrow> stock (delete_all api url rules w) = filter (\<lambda>rule. cfr_ID rule \<notin> cfr_ID ` set rules) (stock w)"
  by (induction rules arbitrary: w) (auto simp: delete_all_def keeps_rules_def intro: filter_cong)

lemma filter_ids:
  assumes "distinct (map cfr_ID rules)" and "set listed \<subseteq> set rules"
  shows "filter (\<lambda>rule. cfr_ID rule \<notin> cfr_ID ` set listed) rules = filter (\<lambda>rule. rule \<notin> set listed) rules"
  using assms by (intro filter_cong) (auto simp: distinct_map dest: inj_onD)

lemma sweep_keeps_young:
  assumes "keeps_rules api url stock" and "distinct (map cfr_ID (stock w))"
  shows "\<exists>w'. clean_pages api expired url page w = Some w' \<and> (\<forall>rule \<in> set (stock w). \<not> expired rule \<longrightarrow> rule \<in> set (stock w'))"
proof -
  define P where "P v \<longleftrightarrow> length (stock v) \<le> length (stock w) \<and> distinct (map cfr_ID (stock v)) \<and>
      (\<forall>rule \<in> set (stock w). \<not> expired rule \<longrightarrow> rule \<in> set (stock v))" for v
  have deleted: "P (delete_all api url (filter expired (take 100 (drop n (stock v)))) v)" if "P v" for v n
  proof -
    let ?page = "filter expired (take 100 (drop n (stock v)))"
    have sub: "set ?page \<subseteq> set (stock v)" by (auto dest: in_set_takeD in_set_dropD)
    have "stock (delete_all api url ?page v) = filter (\<lambda>rule. rule \<notin> set ?page) (stock v)"
      using stock_delete_all [OF assms(1)] filter_ids [OF _ sub] that by (simp add: P_def)
    then show ?thesis using that by (auto simp: P_def distinct_map_filter intro: le_trans [OF length_filter_le])
  qed
  have "\<exists>w'. clean_pages api expired url page w = Some w' \<and> P w'"
  proof (rule clean_pages_keeps [where N = "int ((length (stock w) + 99) div 100)"])
    show "P w" using assms(2) by (simp add: P_def)
  next
    fix v p rules pages v1
    assume v: "P v" and "api (ListRules url p) v = (Rules rules pages, v1)"
    then have l: "rules = take 100 (drop (100 * nat (p - 1)) (stock v))" "pages = int ((length (stock v) + 99) div 100)" "stock v1 = stock v"
      using listed [OF assms(1)] by blast+
    have "P v1" using v l(3) by (simp add: P_def)
    then show "pages \<le> int ((length (stock w) + 99) div 100) \<and> P v1 \<and> P (delete_all api url (filter expired rules) v1)"
      using deleted [of v1] v l by (simp add: P_def div_le_mono)
  next
    fix v p reply v1
    assume "P v" "api (ListRules url p) v = (reply, v1)"
    then show "P v1" using listed [OF assms(1)] by (simp add: P_def)
  qed
  then show ?thesis by (auto simp: P_def)
qed

lemma first_page:
  assumes "keeps_rules api url stock" and "distinct (map cfr_ID (stock w))"
  obtains w1 w2 where "api (ListRules url 1) w = (Rules (take 100 (stock w)) (int ((length (stock w) + 99) div 100)), w1)"
    and "w2 = delete_all api url (filter expired (take 100 (stock w))) w1" and "stock w1 = stock w"
    and "stock w2 = filter (\<lambda>rule. rule \<notin> set (filter expired (take 100 (stock w)))) (stock w)"
proof -
  obtain reply w1 where r: "api (ListRules url 1) w = (reply, w1)" by fastforce
  have sub: "set (filter expired (take 100 (stock w))) \<subseteq> set (stock w)" by (auto dest: in_set_takeD)
  show ?thesis
    using that [OF _ refl] r listed [OF assms(1) r]
    by (simp add: stock_delete_all [OF assms(1)] filter_ids [OF assms(2) sub, simplified])
qed

lemma sweep_one_page:
  assumes "keeps_rules api url stock" and "distinct (map cfr_ID (stock w))" and "length (stock w) \<le> 100"
    and "clean_pages api expired url 1 w = Some w'"
  shows "stock w' = filter (\<lambda>rule. \<not> expired rule) (stock w)"
proof -
  obtain w1 w2 where p: "api (ListRules url 1) w = (Rules (take 100 (stock w)) (int ((length (stock w) + 99) div 100)), w1)"
    "w2 = delete_all api url (filter expired (take 100 (stock w))) w1" "stock w1 = stock w"
    "stock w2 = filter (\<lambda>rule. rule \<notin> set (filter expired (take 100 (stock w)))) (stock w)"
    using first_page [OF assms(1,2)] by metis
  have "(length (stock w) + 99) div 100 \<le> 1" using assms(3) by simp
  then have "int ((length (stock w) + 99) div 100) \<le> 1" by linarith
  then have "w' = (if stock w = [] then w1 else w2)"
    using assms(3,4) p(1,2) by (subst (asm) clean_pages.simps) (simp add: Let_def split: if_splits)
  then show ?thesis using p(3,4) assms(3) by (auto intro: filter_cong)
qed

lemma sweep_two_pages:
  assumes "keeps_rules api url stock" and "distinct (map cfr_ID (stock w))" and n: "100 < length (stock w)" "length (stock w) \<le> 200"
    and "\<forall>rule \<in> set (stock w). expired rule" and "clean_pages api expired url 1 w = Some w'"
  shows "stock w' = drop 100 (stock w)"
proof -
  obtain w1 w2 where p: "api (ListRules url 1) w = (Rules (take 100 (stock w)) (int ((length (stock w) + 99) div 100)), w1)"
    "w2 = delete_all api url (filter expired (take 100 (stock w))) w1"
    "stock w2 = filter (\<lambda>rule. rule \<notin> set (filter expired (take 100 (stock w)))) (stock w)"
    using first_page [OF assms(1,2)] by metis
  have "filter expired (take 100 (stock w)) = take 100 (stock w)" using assms(5) by (auto intro: filter_True dest: in_set_takeD)
  moreover have "distinct (take 100 (stock w) @ drop 100 (stock w))" using assms(2) by (simp add: distinct_map)
  ultimately have s: "stock w2 = drop 100 (stock w)"
    unfolding p(3) by (subst (2) append_take_drop_id [of 100 "stock w", symmetric]) (auto simp del: append_take_drop_id intro: filter_True)
  obtain reply w3 where r: "api (ListRules url 2) w2 = (reply, w3)" by fastforce
  have l: "reply = Rules [] (int ((length (stock w2) + 99) div 100))" "stock w3 = stock w2"
    using listed [OF assms(1) r] s n by simp_all
  have "clean_pages api expired url 2 w2 = Some w3" by (subst clean_pages.simps) (simp add: r l)
  moreover have "clean_pages api expired url 1 w = clean_pages api expired url 2 w2"
    using n by (subst clean_pages.simps) (auto simp: p(1,2) Let_def)
  ultimately show ?thesis using assms(6) l(2) s by simp
qed

text \<open>
  C39: The sweep of the rules of an account ends and keeps every rule that has not expired. If they fit on one page
  exactly the expired ones go. But the loop goes on to the next page after it has deleted from this one: of
  101 to 200 expired rules the sweep deletes the first hundred and misses all others.
\<close>

theorem cloudflare_sweep_skips:
  assumes "cfl_Enabled cfg" and "cfl_APIToken cfg \<noteq> []" and "cfl_AccountID cfg \<noteq> []"
    and "keeps_rules api (api_base ''accounts'' (cfl_AccountID cfg)) stock" and "distinct (map cfr_ID (stock w))"
  shows "\<exists>w'. StartAutoCleanup api parse cfg now banDuration w = Some w' \<and>
    (\<forall>rule \<in> set (stock w). \<not> rule_expired parse now banDuration rule \<longrightarrow> rule \<in> set (stock w')) \<and>
    (length (stock w) \<le> 100 \<longrightarrow> stock w' = filter (\<lambda>rule. \<not> rule_expired parse now banDuration rule) (stock w)) \<and>
    (100 < length (stock w) \<and> length (stock w) \<le> 200 \<and> (\<forall>rule \<in> set (stock w). rule_expired parse now banDuration rule) \<longrightarrow>
       stock w' = drop 100 (stock w))"
proof -
  obtain w' where w': "clean_pages api (rule_expired parse now banDuration) (api_base ''accounts'' (cfl_AccountID cfg)) 1 w = Some w'"
    "\<forall>rule \<in> set (stock w). \<not> rule_expired parse now banDuration rule \<longrightarrow> rule \<in> set (stock w')"
    using sweep_keeps_young [OF assms(4,5)] by blast
  have "StartAutoCleanup api parse cfg now banDuration w = Some w'"
    using assms(1-3) w'(1) by (simp add: StartAutoCleanup_def cleanExpiredRules_def api_urls_def)
  then show ?thesis using w'(2) sweep_one_page [OF assms(4,5) _ w'(1)] sweep_two_pages [OF assms(4,5) _ _ _ w'(1)] by blast
qed

text \<open>A service that keeps its rules in a list.\<close>

definition demo_api :: "cf_call \<Rightarrow> cf_rule list \<Rightarrow> cf_reply \<times> cf_rule list" where
  "demo_api c rules = (case c of
     ListRules url page \<Rightarrow> (Rules (take 100 (drop (100 * nat (page - 1)) rules)) (int ((length rules + 99) div 100)), rules)
   | DeleteRule url ident \<Rightarrow> (Status 200, filter (\<lambda>rule. cfr_ID rule \<noteq> ident) rules)
   | _ \<Rightarrow> (NoReply, rules))"

theorem cloudflare_sweep_skips_witness:
  "\<exists>w'. StartAutoCleanup demo_api (\<lambda>t. Some 0) \<lparr>cfl_Enabled = True, cfl_APIToken = ''t'', cfl_AccountID = ''a'', cfl_Zones = []\<rparr> hour minute
       (map (\<lambda>i. \<lparr>cfr_ID = itoa i, cfr_CreatedOn = []\<rparr>) [1..150]) = Some w' \<and> length w' = 50"
proof -
  let ?cfg = "\<lparr>cfl_Enabled = True, cfl_APIToken = ''t'', cfl_AccountID = ''a'', cfl_Zones = []\<rparr>"
    and ?rules = "map (\<lambda>i. \<lparr>cfr_ID = itoa i, cfr_CreatedOn = []\<rparr>) [1..150]"
  have "keeps_rules demo_api url (\<lambda>w. w)" for url by (simp add: keeps_rules_def demo_api_def)
  moreover have "distinct (map cfr_ID ?rules)" by (simp add: comp_def distinct_map inj_on_def itoa_inj)
  moreover have "\<forall>rule \<in> set ?rules. rule_expired (\<lambda>t. Some 0) hour minute rule"
    by (simp add: rule_expired_def time_sub_def min_int64_def max_int64_def duration_defs)
  ultimately show ?thesis
    using cloudflare_sweep_skips [of ?cfg demo_api "\<lambda>w. w" ?rules "\<lambda>t. Some 0" hour minute] by force
qed

end
