(* ===== verification/Startup.thy ===== *)
theory Startup
  imports Admin_Store "HOL-Library.List_Lexorder" "HOL-Library.Multiset"
begin

section \<open>The domains at the start (main.go)\<close>

text \<open>
  \<open>main\<close> merges the domains that the dashboard has stored into those of the configuration file: a stored domain
  replaces the configured one of its name in its place, the others follow in the order of their names. The order in
  which the map is ranged over is an argument. Lemmas: what is replaced and what is left in the map.
\<close>

definition domain_key :: "DomainConfig \<Rightarrow> string" where
  "domain_key d = to_lower (dom_Name d)"

definition byte_string :: "string \<Rightarrow> nat list" where
  "byte_string s = map of_char s"

definition stored_domains :: "DomainConfig list \<Rightarrow> (string, DomainConfig) gomap" where
  "stored_domains stored = fold (\<lambda>d m. AList.update (domain_key d) d m) stored []"

fun replace_stored :: "DomainConfig list \<Rightarrow> (string, DomainConfig) gomap \<Rightarrow> DomainConfig list \<times> (string, DomainConfig) gomap" where
  "replace_stored [] m = ([], m)"
| "replace_stored (d # ds) m = (case map_of m (domain_key d) of
     Some stored \<Rightarrow> (let (ds', m') = replace_stored ds (AList.delete (domain_key d) m) in (stored # ds', m'))
   | None \<Rightarrow> (let (ds', m') = replace_stored ds m in (d # ds', m')))"

definition merge_domains :: "(string list \<Rightarrow> string list) \<Rightarrow> DomainConfig list \<Rightarrow> DomainConfig list \<Rightarrow> DomainConfig list" where
  "merge_domains order stored cfg =
     (if stored = [] then cfg
      else let (ds, m) = replace_stored cfg (stored_domains stored);
               newNames = sort_key byte_string (order (map fst m))
           in ds @ map (\<lambda>k. the (map_of m k)) newNames)"

lemma byte_string_inj: "inj_on byte_string A"
  by (simp add: byte_string_def inj_on_def inj_map_eq_map inj_def)

definition keyed :: "(string, DomainConfig) gomap \<Rightarrow> bool" where
  "keyed m \<longleftrightarrow> gomap_ok m \<and> (\<forall>k d. map_of m k = Some d \<longrightarrow> domain_key d = k)"

lemma keyed_ops:
  "keyed []" "keyed m \<Longrightarrow> keyed (AList.update (domain_key d) d m)" "keyed m \<Longrightarrow> keyed (AList.delete k m)"
  by (auto simp: keyed_def update_conv' delete_conv' split: if_splits)

lemma stored_keyed: "keyed (stored_domains stored)"
proof -
  have "keyed (fold (\<lambda>d m. AList.update (domain_key d) d m) stored m)" if "keyed m" for m
    using that by (induction stored arbitrary: m) (simp_all add: keyed_ops)
  then show ?thesis by (simp add: stored_domains_def keyed_ops)
qed

lemma stored_names: "dom (map_of (stored_domains stored)) = domain_key ` set stored"
proof -
  have "dom (map_of (fold (\<lambda>d m. AList.update (domain_key d) d m) stored m)) = domain_key ` set stored \<union> dom (map_of m)" for m
    by (induction stored arbitrary: m) (auto simp: update_conv')
  then show ?thesis by (simp add: stored_domains_def)
qed

lemma replace_stored_props:
  assumes "keyed m" and "replace_stored cfg m = (ds, m')"
  shows "map domain_key ds = map domain_key cfg \<and> keyed m' \<and>
    (\<forall>k. map_of m' k = (if k \<in> domain_key ` set cfg then None else map_of m k)) \<and>
    (\<forall>k d. map_of m k = Some d \<longrightarrow> k \<in> domain_key ` set cfg \<longrightarrow> d \<in> set ds)"
  using assms
proof (induction cfg arbitrary: m ds m')
  case (Cons d cfg)
  show ?case
  proof (cases "map_of m (domain_key d)")
    case None
    then obtain ds1 where r: "replace_stored cfg m = (ds1, m')" "ds = d # ds1" using Cons.prems(2) by (auto split: prod.splits)
    then show ?thesis using Cons.IH [OF Cons.prems(1) r(1)] None by auto
  next
    case (Some s)
    then obtain ds1 where r: "replace_stored cfg (AList.delete (domain_key d) m) = (ds1, m')" "ds = s # ds1"
      using Cons.prems(2) by (auto split: prod.splits)
    have "domain_key s = domain_key d" using Some Cons.prems(1) by (simp add: keyed_def)
    moreover note ih = Cons.IH [OF keyed_ops(3) [OF Cons.prems(1)] r(1)]
    moreover have "e \<in> set ds" if "map_of m k = Some e" "k \<in> domain_key ` set (d # cfg)" for k e
    proof (cases "k = domain_key d")
      case False
      then have "map_of (AList.delete (domain_key d) m) k = Some e" "k \<in> domain_key ` set cfg" using that by (auto simp: delete_conv')
      then have "e \<in> set ds1" using ih by blast
      then show ?thesis using r(2) by simp
    qed (use that(1) Some r(2) in simp)
    ultimately show ?thesis using r(2) by (auto simp: delete_conv')
  qed
qed simp

text \<open>
  C38: The merge at the start loses no domain and does not depend on the order of a map: the names are those of the
  configuration, in their places, followed by the other stored ones in order, a stored domain is there as it was stored
  last, and no name appears twice if none does in the configuration.
\<close>

theorem domains_merged:
  assumes "\<And>ks. mset (order ks) = mset ks"
  shows "merge_domains order stored cfg = merge_domains (\<lambda>ks. ks) stored cfg \<and>
    (\<exists>names. map domain_key (merge_domains order stored cfg) = map domain_key cfg @ names \<and> sorted (map byte_string names) \<and>
       distinct names \<and> set names = domain_key ` set stored - domain_key ` set cfg) \<and>
    (\<forall>k d. map_of (stored_domains stored) k = Some d \<longrightarrow> d \<in> set (merge_domains order stored cfg))"
proof (cases "stored = []")
  case True
  then show ?thesis by (simp add: merge_domains_def stored_domains_def)
next
  case False
  obtain ds m where r: "replace_stored cfg (stored_domains stored) = (ds, m)" by fastforce
  define names where "names = sort_key byte_string (map fst m)"
  have "sort_key byte_string (order (map fst m)) = names"
    unfolding names_def using assms by (intro sort_key_inj_key_eq) (auto simp: byte_string_inj)
  then have eq: "merge_domains order stored cfg = ds @ map (\<lambda>k. the (map_of m k)) names"
    "merge_domains (\<lambda>ks. ks) stored cfg = ds @ map (\<lambda>k. the (map_of m k)) names"
    using False by (simp_all add: merge_domains_def r names_def)
  have p: "map domain_key ds = map domain_key cfg" "keyed m"
    "\<And>k. map_of m k = (if k \<in> domain_key ` set cfg then None else map_of (stored_domains stored) k)"
    "\<And>k d. map_of (stored_domains stored) k = Some d \<Longrightarrow> k \<in> domain_key ` set cfg \<Longrightarrow> d \<in> set ds"
    using replace_stored_props [OF stored_keyed r] by blast+
  have n: "set names = dom (map_of m)" "distinct names" "sorted (map byte_string names)"
    using p(2) by (simp_all add: names_def keyed_def dom_map_of_conv_image_fst gomap_ok_def)
  have keys: "map (domain_key \<circ> (\<lambda>k. the (map_of m k))) names = names"
    using p(2) n(1) by (intro map_idI) (auto simp: keyed_def)
  have "set names = domain_key ` set stored - domain_key ` set cfg"
    unfolding n(1) stored_names [of stored, symmetric] using p(3) by (auto simp: domIff split: if_splits)
  moreover have "d \<in> set ds \<union> (\<lambda>k. the (map_of m k)) ` set names" if "map_of (stored_domains stored) k = Some d" for k d
  proof (cases "k \<in> domain_key ` set cfg")
    case False
    then have "map_of m k = Some d" using that p(3) by simp
    then show ?thesis unfolding n(1) by force
  qed (use p(4) that in simp)
  ultimately show ?thesis using eq p(1) keys n(2,3) by auto
qed

definition plain_domain :: "string \<Rightarrow> DomainConfig" where
  "plain_domain name = \<lparr>dom_Name = name, dom_Upstreams = [], dom_SSL = False, dom_Owner = [], dom_RateLimitRPS = 0,
     dom_RateLimitConn = 0, dom_PoWDifficulty = 0, dom_ProtectionMode = []\<rparr>"

theorem domains_merged_witness:
  "\<exists>names. map domain_key (merge_domains rev (map plain_domain [''z.io'', ''A.io'', ''b.io'']) [plain_domain ''a.io'']) = ''a.io'' # names \<and>
     distinct names \<and> set names = {''z.io'', ''b.io''}"
proof -
  let ?stored = "map plain_domain [''z.io'', ''A.io'', ''b.io'']" and ?cfg = "[plain_domain ''a.io'']"
  have k: "domain_key (plain_domain ''z.io'') = ''z.io''" "domain_key (plain_domain ''A.io'') = ''a.io''"
    "domain_key (plain_domain ''b.io'') = ''b.io''" "domain_key (plain_domain ''a.io'') = ''a.io''"
    by (simp_all add: domain_key_def plain_domain_def) code_simp+
  have "mset (rev ks) = mset ks" for ks :: "string list" by simp
  then obtain names where "map domain_key (merge_domains rev ?stored ?cfg) = map domain_key ?cfg @ names" "distinct names"
    "set names = domain_key ` set ?stored - domain_key ` set ?cfg"
    using domains_merged [of rev ?stored ?cfg] by blast
  then show ?thesis by (intro exI [of _ names]) (simp add: k, blast)
qed

end
