(* ===== verification/Pages.thy ===== *)
theory Pages
  imports Challenge
begin

section \<open>The pages shown to visitors (challenge/challenge.go, challenge/templates.go)\<close>

text \<open>
  What \<open>Server\<close> names as a page, here with its status, headers and text: the three challenges, the block page, the page of the rate limit and
  of a denied policy. A template is the sequence of its literal text and its verbs; of the literal text the lines
  that hold a verb are kept, without their indentation, since the others are the same on every page. The date of the block page is computed
  as \<open>time.Format\<close> does for UTC.
  Lemmas: every call passes as many values as the template has verbs; the values add no markup to the page; what is
  escaped reads as the original; the number of a Ray ID.
\<close>

subsection \<open>Escaping\<close>

text \<open>\<open>html.EscapeString\<close> of the standard library.\<close>

definition escape_char :: "char \<Rightarrow> string" where
  "escape_char c =
     (if c = CHR ''&'' then ''&amp;'' else if c = CHR 0x27 then ''&#39;'' else if c = CHR ''<'' then ''&lt;''
      else if c = CHR ''>'' then ''&gt;'' else if c = CHR 0x22 then ''&#34;'' else [c])"

definition html_escape :: "string \<Rightarrow> string" where
  "html_escape s = concat (map escape_char s)"

text \<open>What a reader of HTML makes of the five entities above.\<close>

definition entities :: "(string \<times> char) list" where
  "entities = [(''&amp;'', CHR ''&''), (''&#39;'', CHR 0x27), (''&lt;'', CHR ''<''), (''&gt;'', CHR ''>''), (''&#34;'', CHR 0x22)]"

definition read_char :: "string \<Rightarrow> (char \<times> string) option" where
  "read_char s = (case s of [] \<Rightarrow> None
     | c # t \<Rightarrow> (case find (\<lambda>(e, d). prefix e s) entities of None \<Rightarrow> Some (c, t) | Some (e, d) \<Rightarrow> Some (d, drop (length e) s)))"

lemma read_char_shorter: "read_char s = Some (c, t) \<Longrightarrow> length t < length s"
  by (auto simp: read_char_def entities_def split: list.splits if_splits)

function html_read :: "string \<Rightarrow> string" where
  "html_read s = (case read_char s of None \<Rightarrow> [] | Some (c, t) \<Rightarrow> c # html_read t)"
  by auto
termination by (relation "measure length") (auto simp: read_char_shorter)

declare html_read.simps [simp del]

definition markup :: "char \<Rightarrow> bool" where
  "markup c \<longleftrightarrow> c \<in> {CHR ''<'', CHR ''>'', CHR 0x22, CHR 0x27}"

subsection \<open>Templates\<close>

datatype part = Lit string | Verb

fun sprintf :: "part list \<Rightarrow> string list \<Rightarrow> string" where
  "sprintf [] vs = []"
| "sprintf (Lit s # t) vs = s @ sprintf t vs"
| "sprintf (Verb # t) [] = ''%!s(MISSING)'' @ sprintf t []"
| "sprintf (Verb # t) (v # vs) = v @ sprintf t vs"

definition verbs :: "part list \<Rightarrow> nat" where
  "verbs t = length (filter (\<lambda>p. p = Verb) t)"

abbreviation quote :: string where
  "quote \<equiv> [CHR 0x27]"

definition client_meta :: "part list" where
  "client_meta = [Lit ''<div><div class=\"meta-label\">Client IP</div><div class=\"meta-val\">'', Verb, Lit ''</div></div>'',
     Lit ''<div><div class=\"meta-label\">Ray ID</div><div class=\"meta-val\">'', Verb, Lit ''</div></div>'']"

definition powTemplate :: "part list" where
  "powTemplate = [Lit ''<div class=\"desc\">Please wait while Mango Shield validates your browser session before granting access to <strong>'',
       Verb, Lit ''</strong>.</div>''] @
     [Lit ''<div class=\"meta-item\"><div class=\"meta-label\">Client IP</div><div class=\"meta-val\">'', Verb, Lit ''</div></div>'',
      Lit ''<div class=\"meta-item\"><div class=\"meta-label\">Ray ID</div><div class=\"meta-val\">'', Verb, Lit ''</div></div>'',
      Lit (''var challenge='' @ quote), Verb, Lit (quote @ '',difficulty=''), Verb, Lit '',target='', Verb,
      Lit ('',redir='' @ quote), Verb, Lit (quote @ '';'')]"

definition silentTemplate :: "part list" where
  "silentTemplate = [Lit (''if(!fp.w)setTimeout(function(){location.href='' @ quote), Verb, Lit (quote @ '';},400);'')]"

definition captchaTemplate :: "part list" where
  "captchaTemplate = [Lit ''<div class=\"desc\">Press and hold the button below for 1.5 seconds to confirm you are a human visitor to <strong>'',
      Verb, Lit ''</strong>.</div>'', Lit ''<form id=\"vform\" method=\"POST\" action=\"'', Verb, Lit ''\">'',
      Lit ''<input type=\"hidden\" name=\"t_id\" value=\"'', Verb, Lit ''\">'',
      Lit ''<input type=\"hidden\" name=\"t_hash\" value=\"'', Verb, Lit ''\">''] @ client_meta"

definition blockTemplate :: "part list" where
  "blockTemplate = [Lit ''<div class=\"desc\">Your request to <strong>'', Verb,
      Lit ''</strong> was intercepted and blocked by Mango Shield Web Application Firewall due to a security policy violation.</div>''] @
     client_meta @
     [Lit ''<div><div class=\"meta-label\">Rule Triggered</div><div class=\"meta-val\">'', Verb, Lit ''</div></div>'',
      Lit ''<div><div class=\"meta-label\">Timestamp</div><div class=\"meta-val\">'', Verb, Lit ''</div></div>'']"

definition rateLimitTemplate :: "part list" where
  "rateLimitTemplate = [Lit ''<div class=\"desc\">You have exceeded the request rate limit configured for <strong>'', Verb,
      Lit ''</strong>. Please wait before retrying.</div>'', Lit ''<div class=\"timer-box\" id=\"timer\">'', Verb, Lit ''s</div>''] @
     client_meta @ [Lit ''var secs = '', Verb, Lit '';'']"

definition accessDeniedTemplate :: "part list" where
  "accessDeniedTemplate = [Lit ''<div class=\"desc\">You do not have permission to access <strong>'', Verb,
      Lit ''</strong>. Security Policy: <strong>'', Verb, Lit ''</strong></div>''] @ client_meta"

subsection \<open>Dates\<close>

text \<open>The day of a \<open>time.Time\<close> in the proleptic Gregorian calendar: year, month and day from the days since 1970-01-01.\<close>

definition civil :: "int \<Rightarrow> int \<times> int \<times> int" where
  "civil z =
     (let z' = z + 719468; era = z' div 146097; doe = z' mod 146097;
          yoe = (doe - doe div 1460 + doe div 36524 - doe div 146096) div 365;
          doy = doe - (365 * yoe + yoe div 4 - yoe div 100); mp = (5 * doy + 2) div 153;
          m = (if mp < 10 then mp + 3 else mp - 9)
      in (yoe + era * 400 + (if m \<le> 2 then 1 else 0), m, doy - (153 * mp + 2) div 5 + 1))"

definition padded :: "nat \<Rightarrow> int \<Rightarrow> string" where
  "padded w n = replicate (w - length (itoa n)) CHR ''0'' @ itoa n"

text \<open>\<open>Format("2006-01-02 15:04:05 UTC")\<close> of a time in UTC.\<close>

definition format_utc :: "gotime \<Rightarrow> string" where
  "format_utc t =
     (let s = unix_sec t; (y, mo, d) = civil (s div 86400); r = s mod 86400 in
      padded 4 y @ ''-'' @ padded 2 mo @ ''-'' @ padded 2 d @ '' '' @
      padded 2 (r div 3600) @ '':'' @ padded 2 (r div 60 mod 60) @ '':'' @ padded 2 (r mod 60) @ '' UTC'')"

lemma civil_leap_day: "civil 11016 = (2000, 2, 29)"
  by code_simp

subsection \<open>The pages\<close>

record http_page =
  pg_status :: int
  pg_header :: "(string \<times> string) list"
  pg_text :: string

definition generateRayID :: "request \<Rightarrow> gotime \<Rightarrow> string" where
  "generateRayID r now =
     take 16 (hex_encode (sha256 (bytes_of (r_remote_addr r @ ''-'' @ itoa now @ ''-'' @ r_path r))))"

text \<open>The address that a challenge shows: the headers are believed whoever sends them.\<close>

definition shown_ip :: "request \<Rightarrow> string" where
  "shown_ip r =
     (let cfip = hdr_get r ''CF-Connecting-IP''; xff = hdr_get r ''X-Forwarded-For'' in
      if cfip \<noteq> [] then cfip else if xff \<noteq> [] then trim_ws (takeWhile (\<lambda>c. c \<noteq> CHR '','') xff) else r_remote_addr r)"

definition html_type :: "string \<times> string" where
  "html_type = (''Content-Type'', ''text/html; charset=utf-8'')"

definition serveJSChallenge :: "Manager \<Rightarrow> request \<Rightarrow> gotime \<Rightarrow> byte list \<Rightarrow> int \<Rightarrow> http_page" where
  "serveJSChallenge m r now rnd difficulty =
     (let challengeStr = hex_encode rnd;
          difficulty = (if difficulty = 0 then ch_PowDifficulty (mg_cfg m) else difficulty)
      in \<lparr>pg_status = 403, pg_header = [html_type, (''Cache-Control'', ''no-store, no-cache'')],
           pg_text = sprintf powTemplate [html_escape (r_host r), html_escape (shown_ip r), html_escape (generateRayID r now),
             html_escape challengeStr, itoa difficulty, itoa difficulty, html_escape (r_uri r)]\<rparr>)"

definition serveCAPTCHAChallenge :: "Manager \<Rightarrow> request \<Rightarrow> gotime \<Rightarrow> http_page" where
  "serveCAPTCHAChallenge m r now =
     (let ts = itoa (unix_sec now); hash = hmac_hex (mg_secret m) ts
      in \<lparr>pg_status = 403, pg_header = [html_type, (''Cache-Control'', ''no-store, no-cache'')],
           pg_text = sprintf captchaTemplate [html_escape (r_host r), html_escape (r_uri r), ts, html_escape hash,
             html_escape (shown_ip r), html_escape (generateRayID r now)]\<rparr>)"

definition serveSilentChallenge :: "request \<Rightarrow> http_page" where
  "serveSilentChallenge r =
     \<lparr>pg_status = 200, pg_header = [html_type], pg_text = sprintf silentTemplate [html_escape (r_uri r)]\<rparr>"

definition serve_challenge_page :: "Manager \<Rightarrow> request \<Rightarrow> gotime \<Rightarrow> byte list \<Rightarrow> int \<Rightarrow> int \<Rightarrow> http_page" where
  "serve_challenge_page m r now rnd stage difficulty =
     (if stage = 1 then serveJSChallenge m r now rnd difficulty
      else if stage = 2 then serveCAPTCHAChallenge m r now
      else if stage = 3 then serveSilentChallenge r
      else serveJSChallenge m r now rnd difficulty)"

definition ServeBlockPage :: "request \<Rightarrow> gotime \<Rightarrow> string \<Rightarrow> string \<Rightarrow> string \<Rightarrow> http_page" where
  "ServeBlockPage r now clientIP ruleID reason =
     (let ruleInfo = (if reason \<noteq> [] then ruleID @ '' ('' @ reason @ '')'' else ruleID)
      in \<lparr>pg_status = 403, pg_header = [html_type, (''X-Mango-Shield'', ''blocked'')],
           pg_text = sprintf blockTemplate [html_escape (r_host r), html_escape clientIP, html_escape (generateRayID r now),
             html_escape ruleInfo, format_utc now]\<rparr>)"

definition ServeRateLimitPage :: "request \<Rightarrow> gotime \<Rightarrow> string \<Rightarrow> int \<Rightarrow> http_page" where
  "ServeRateLimitPage r now clientIP retryAfterSeconds =
     (let n = (if retryAfterSeconds \<le> 0 then 10 else retryAfterSeconds)
      in \<lparr>pg_status = 429, pg_header = [html_type, (''Retry-After'', itoa n), (''X-Mango-Shield'', ''rate-limited'')],
           pg_text = sprintf rateLimitTemplate [html_escape (r_host r), itoa n, html_escape clientIP,
             html_escape (generateRayID r now), itoa n]\<rparr>)"

definition ServeAccessDeniedPage :: "request \<Rightarrow> gotime \<Rightarrow> string \<Rightarrow> string \<Rightarrow> http_page" where
  "ServeAccessDeniedPage r now clientIP policy =
     (let policy = (if policy = [] then ''Unauthorized Client Request'' else policy)
      in \<lparr>pg_status = 403, pg_header = [html_type, (''X-Mango-Shield'', ''denied'')],
           pg_text = sprintf accessDeniedTemplate [html_escape (r_host r), html_escape policy, html_escape clientIP,
             html_escape (generateRayID r now)]\<rparr>)"

subsection \<open>Lemmas\<close>

lemma verbs_simps [simp]:
  "verbs [] = 0" "verbs (Verb # t) = Suc (verbs t)" "verbs (Lit s # t) = verbs t" "verbs (t @ u) = verbs t + verbs u"
  by (simp_all add: verbs_def)

lemmas template_defs = powTemplate_def silentTemplate_def captchaTemplate_def blockTemplate_def rateLimitTemplate_def
  accessDeniedTemplate_def client_meta_def

lemma template_verbs:
  "verbs powTemplate = 7" "verbs captchaTemplate = 6" "verbs silentTemplate = 1" "verbs blockTemplate = 5"
  "verbs rateLimitTemplate = 5" "verbs accessDeniedTemplate = 4"
  by (simp_all add: template_defs)

lemma escape_char_ne [simp]: "escape_char c \<noteq> []"
  by (simp add: escape_char_def)

lemma html_escape_simps [simp]:
  "html_escape [] = []" "html_escape (c # s) = escape_char c @ html_escape s" "html_escape (s @ t) = html_escape s @ html_escape t"
  by (simp_all add: html_escape_def)

lemma escape_char_markup: "filter markup (escape_char c) = []"
  by (simp add: escape_char_def markup_def)

lemma html_escape_markup [simp]: "filter markup (html_escape s) = []"
  by (induction s) (simp_all add: escape_char_markup)

lemma no_markup_digits: "is_digit c \<Longrightarrow> \<not> markup c"
  by (auto simp: is_digit_def markup_def)

lemma itoa_markup [simp]: "filter markup (itoa n) = []"
  using show_nat_digits no_markup_digits by (auto simp: itoa_def filter_empty_conv markup_def)

lemma padded_markup [simp]: "filter markup (padded w n) = []"
  by (simp add: padded_def markup_def)

lemma format_utc_markup [simp]: "filter markup (format_utc t) = []"
  by (simp add: format_utc_def Let_def split: prod.splits) (simp add: markup_def)

text \<open>Values without markup leave that of the template as it is.\<close>

definition template_markup :: "part list \<Rightarrow> string" where
  "template_markup t = concat (map (\<lambda>p. case p of Lit s \<Rightarrow> filter markup s | Verb \<Rightarrow> []) t)"

lemma sprintf_markup:
  "\<forall>v \<in> set vs. filter markup v = [] \<Longrightarrow> filter markup (sprintf t vs) = template_markup t"
proof (induction t vs rule: sprintf.induct)
  case (3 t)
  then show ?case by (simp add: template_markup_def markup_def)
qed (simp_all add: template_markup_def)

lemma read_char_plain: "escape_char c = [c] \<Longrightarrow> read_char (c # t) = Some (c, t)"
  by (auto simp: read_char_def entities_def escape_char_def split: if_splits)

lemma read_char_escape: "read_char (escape_char c @ t) = Some (c, t)"
proof (cases "escape_char c = [c]")
  case True
  then show ?thesis using read_char_plain by simp
next
  case False
  then show ?thesis by (auto simp: escape_char_def read_char_def entities_def split: if_splits)
qed

lemma html_read_escape: "html_read (html_escape s) = s"
proof (induction s)
  case Nil
  then show ?case by (subst html_read.simps) (simp add: read_char_def)
next
  case (Cons c s)
  then show ?case by (subst html_read.simps) (simp add: read_char_escape)
qed

lemma html_escape_same: "html_escape s = s \<longleftrightarrow> (\<forall>c \<in> set s. escape_char c = [c])"
proof
  have grows: "length s \<le> length (html_escape s)" for s :: string
  proof (induction s)
    case (Cons c s)
    moreover have "1 \<le> length (escape_char c)" by (simp add: Suc_leI)
    ultimately show ?case by simp
  qed simp
  show "html_escape s = s \<Longrightarrow> \<forall>c \<in> set s. escape_char c = [c]"
  proof (induction s)
    case (Cons c s)
    have one: "escape_char c = [c]"
    proof (rule ccontr)
      assume "escape_char c \<noteq> [c]"
      then have "2 \<le> length (escape_char c)" by (auto simp: escape_char_def split: if_splits)
      moreover have "length (escape_char c) + length (html_escape s) = Suc (length s)"
        using arg_cong [OF Cons.prems, of length] by simp
      ultimately show False using grows [of s] by simp
    qed
    then show ?case using Cons by simp
  qed simp
  show "\<forall>c \<in> set s. escape_char c = [c] \<Longrightarrow> html_escape s = s" by (induction s) auto
qed

lemma generateRayID_length: "length (generateRayID r now) = 16"
  by (simp add: generateRayID_def)

subsection \<open>Where a solved challenge leads\<close>

text \<open>The text after the first occurrence of a marker, up to the character that closes it.\<close>

fun after :: "string \<Rightarrow> string \<Rightarrow> string" where
  "after p [] = []"
| "after p (c # s) = (if prefix p (c # s) then drop (length p) (c # s) else after p s)"

definition field :: "string \<Rightarrow> char \<Rightarrow> string \<Rightarrow> string" where
  "field p c s = takeWhile (\<lambda>d. d \<noteq> c) (after p s)"

definition form_target :: "http_page \<Rightarrow> string" where
  "form_target pg = field ''action=\"'' CHR 0x22 (pg_text pg)"

definition script_target :: "string \<Rightarrow> http_page \<Rightarrow> string" where
  "script_target var pg = field (var @ ''='' @ quote) CHR 0x27 (pg_text pg)"

lemma after_skip:
  assumes "d \<in> set p" and "d \<notin> set x" and "e \<notin> set p"
  shows "after p (x @ e # y) = after p (e # y)"
  using assms(2)
proof (induction x)
  case (Cons c x)
  have "\<not> prefix p (c # x @ e # y)"
  proof
    assume p: "prefix p (c # x @ e # y)"
    then have "prefix p ((c # x) @ e # y)" by simp
    then consider "prefix p (c # x)" | q where "p = (c # x) @ q" "prefix q (e # y)" "q \<noteq> []"
      by (metis append_Nil2 prefix_append prefix_order.refl)
    then show False
    proof cases
      case 1
      then show ?thesis using Cons.prems assms(1) set_mono_prefix by blast
    next
      case 2
      then show ?thesis using assms(3) by (cases q) auto
    qed
  qed
  then show ?case using Cons by simp
qed simp

lemma after_skip_hd: "h \<notin> set x \<Longrightarrow> after (h # p) (x @ y) = after (h # p) y"
  by (induction x) auto

lemma escape_no_quotes: "CHR 0x22 \<notin> set (html_escape s)" "CHR 0x27 \<notin> set (html_escape s)"
  using iffD1 [OF filter_empty_conv html_escape_markup [of s]] by (auto simp: markup_def)

lemma takeWhile_upto: "c \<notin> set x \<Longrightarrow> takeWhile (\<lambda>d. d \<noteq> c) (x @ c # y) = x"
  by (induction x) auto

lemma escape_hex: "set s \<subseteq> set hex_digits \<Longrightarrow> html_escape s = s"
  by (induction s) (auto simp: hex_digits_def escape_char_def)

lemma hex_no_r: "set s \<subseteq> set hex_digits \<Longrightarrow> CHR ''r'' \<notin> set s"
  by (auto simp: hex_digits_def)

lemma itoa_no_r: "CHR ''r'' \<notin> set (itoa n)"
  by (rule itoa_no) (simp_all add: is_digit_def)

lemma captcha_target: "form_target (serveCAPTCHAChallenge m r now) = html_escape (r_uri r)"
  by (simp add: form_target_def field_def serveCAPTCHAChallenge_def captchaTemplate_def Let_def
      after_skip [of "CHR 0x22"] escape_no_quotes takeWhile_upto)

lemma silent_target: "script_target ''location.href'' (serveSilentChallenge r) = html_escape (r_uri r)"
  by (simp add: script_target_def field_def serveSilentChallenge_def silentTemplate_def escape_no_quotes takeWhile_upto)

lemma pow_target: "script_target ''redir'' (serveJSChallenge m r now rnd d) = html_escape (r_uri r)"
  by (simp add: script_target_def field_def serveJSChallenge_def powTemplate_def Let_def
      after_skip [of "CHR 0x27"] after_skip_hd itoa_no_r hex_no_r escape_hex hex_encode_chars escape_no_quotes takeWhile_upto)

text \<open>
  C11: Whatever the request, the address shown, the rule or the reason hold, the values add no markup to any of the pages:
  the characters \<open><\<close>, \<open>>\<close> and the two quotes of the text are those of the template, in the same order.
\<close>

theorem pages_add_no_markup:
  "filter markup (pg_text (serve_challenge_page m r now rnd stage d)) =
     template_markup (if stage = 2 then captchaTemplate else if stage = 3 then silentTemplate else powTemplate) \<and>
   filter markup (pg_text (ServeBlockPage r now ip rule reason)) = template_markup blockTemplate \<and>
   filter markup (pg_text (ServeRateLimitPage r now ip n)) = template_markup rateLimitTemplate \<and>
   filter markup (pg_text (ServeAccessDeniedPage r now ip policy)) = template_markup accessDeniedTemplate"
  by (simp add: serve_challenge_page_def serveJSChallenge_def serveCAPTCHAChallenge_def serveSilentChallenge_def
      ServeBlockPage_def ServeRateLimitPage_def ServeAccessDeniedPage_def Let_def sprintf_markup)

text \<open>
  Where a challenge sends the visitor afterwards. The form of the captcha leads back to the address that was asked for, since the
  reader of an attribute undoes the escaping. The scripts of the other two hold the escaped text in a string, where nothing
  undoes it: they lead back exactly when the address has none of the five escaped characters, so never for a query of two parameters.
\<close>

theorem challenge_leads_back:
  "html_read (form_target (serveCAPTCHAChallenge m r now)) = r_uri r \<and>
   (script_target ''location.href'' (serveSilentChallenge r) = r_uri r \<longleftrightarrow> (\<forall>c \<in> set (r_uri r). escape_char c = [c])) \<and>
   (script_target ''redir'' (serveJSChallenge m r now rnd d) = r_uri r \<longleftrightarrow> (\<forall>c \<in> set (r_uri r). escape_char c = [c]))"
  by (simp add: captcha_target silent_target pow_target html_read_escape html_escape_same)

lemma two_parameters_lost:
  "r_uri r = ''/search?a=1&b=2'' \<Longrightarrow> script_target ''redir'' (serveJSChallenge m r now rnd d) = ''/search?a=1&amp;b=2''"
  by (simp add: pow_target escape_char_def)

end
