(* ===== verification/Certificates.thy ===== *)
theory Certificates
  imports Config_Center Net_Addr
begin

section \<open>The certificates of the listener (core/server.go)\<close>

text \<open>
  \<open>ensureTLSCertificates\<close>, the part of \<open>Start\<close> that loads certificates and \<open>GetCertificate\<close>, which chooses one for a
  handshake. Files are a map from paths to what the loader of the standard library finds there: a certificate
  that names the key it was made for, a key, or nothing usable. Which system calls succeed and the new key are in the record
  \<open>tls_env\<close>; the order in which \<open>GetCertificate\<close> ranges over its map is an argument.
  Lemmas: what a successful call leaves in the files; every entry of the map leads to a certificate that has the name;
  which name a chosen certificate bears.
\<close>

record x509 =
  x5_CommonName :: string
  x5_DNSNames :: "string list"
  x5_IPAddresses :: "byte list list"
  x5_NotBefore :: gotime
  x5_NotAfter :: gotime
  x5_key :: nat

datatype pem = CertPem x509 | KeyPem nat | Unusable

type_synonym files = "(string, pem) gomap"

record tls_env =
  te_genKey :: "nat option"
  te_serial :: bool
  te_sign :: bool
  te_createCert :: bool
  te_encodeCert :: bool
  te_openKey :: bool
  te_encodeKey :: bool

datatype cert_error = GenerateKey | GenerateSerial | CreateCertificate | CreateCertFile | EncodeCert | CreateKeyFile | EncodeKey

subsection \<open>Making the pair\<close>

definition common_name :: "Config option \<Rightarrow> string" where
  "common_name cfg = (case cfg of None \<Rightarrow> ''localhost''
     | Some c \<Rightarrow> (case cfg_Domains c of [] \<Rightarrow> ''localhost'' | d # ds \<Rightarrow> if dom_Name d \<noteq> [] then dom_Name d else ''localhost''))"

definition add_domain :: "DomainConfig \<Rightarrow> (string, bool) gomap \<Rightarrow> (string, bool) gomap" where
  "add_domain d m = (if dom_Name d \<noteq> []
     then AList.update (''*.'' @ dom_Name d) True (AList.update (dom_Name d) True m) else m)"

definition dns_map :: "Config option \<Rightarrow> (string, bool) gomap" where
  "dns_map cfg = (case cfg of None \<Rightarrow> [(''localhost'', True)]
     | Some c \<Rightarrow> fold add_domain (cfg_Domains c) [(''localhost'', True)])"

text \<open>The addresses of the map by their bytes, which \<open>IP.String\<close> renders without collisions.\<close>

definition add_listen :: "string \<Rightarrow> byte list list \<Rightarrow> byte list list" where
  "add_listen a ips = (case split_host_port a of None \<Rightarrow> ips
     | Some (host, port) \<Rightarrow>
         if host \<noteq> [] \<and> host \<noteq> ''0.0.0.0'' \<and> host \<noteq> ''::''
         then (case parse_ip host of None \<Rightarrow> ips | Some ip \<Rightarrow> if ip \<in> set ips then ips else ips @ [ip]) else ips)"

definition loopback :: "byte list list" where
  "loopback = [v4_in_v6 @ [127, 0, 0, 1], replicate 15 0 @ [1]]"

definition ip_list :: "Config option \<Rightarrow> byte list list" where
  "ip_list cfg = (case cfg of None \<Rightarrow> loopback
     | Some c \<Rightarrow> fold add_listen [srv_Listen (cfg_Server c), srv_HTTPListen (cfg_Server c)] loopback)"

definition default_path :: "string \<Rightarrow> string \<Rightarrow> string" where
  "default_path d p = (if p = [] then d else p)"

definition make_certificate :: "Config option \<Rightarrow> nat \<Rightarrow> gotime \<Rightarrow> x509" where
  "make_certificate cfg key now =
     \<lparr>x5_CommonName = common_name cfg, x5_DNSNames = map fst (dns_map cfg), x5_IPAddresses = ip_list cfg,
      x5_NotBefore = now, x5_NotAfter = now + 365 * 24 * hour, x5_key = key\<rparr>"

definition write_pair :: "tls_env \<Rightarrow> x509 \<Rightarrow> string \<Rightarrow> string \<Rightarrow> files \<Rightarrow> cert_error option \<times> files" where
  "write_pair env cert certFile keyFile fs =
     (if \<not> te_createCert env then (Some CreateCertFile, fs)
      else if \<not> te_encodeCert env then (Some EncodeCert, AList.update certFile Unusable fs)
      else let fs1 = AList.update certFile (CertPem cert) fs in
           if \<not> te_openKey env then (Some CreateKeyFile, fs1)
           else if \<not> te_encodeKey env then (Some EncodeKey, AList.update keyFile Unusable fs1)
           else (None, AList.update keyFile (KeyPem (x5_key cert)) fs1))"

definition ensureTLSCertificates :: "tls_env \<Rightarrow> Config option \<Rightarrow> string \<Rightarrow> string \<Rightarrow> gotime \<Rightarrow> files \<Rightarrow> cert_error option \<times> files" where
  "ensureTLSCertificates env cfg certFile keyFile now fs =
     (let certFile = default_path ''certs/server.crt'' certFile; keyFile = default_path ''certs/server.key'' keyFile in
      case te_genKey env of
        None \<Rightarrow> (Some GenerateKey, fs)
      | Some key \<Rightarrow>
          if \<not> te_serial env then (Some GenerateSerial, fs)
          else if \<not> te_sign env then (Some CreateCertificate, fs)
          else write_pair env (make_certificate cfg key now) certFile keyFile fs)"

subsection \<open>Loading\<close>

text \<open>\<open>tls.LoadX509KeyPair\<close>: both files are readable and belong together.\<close>

definition LoadX509KeyPair :: "files \<Rightarrow> string \<Rightarrow> string \<Rightarrow> x509 option" where
  "LoadX509KeyPair fs certFile keyFile = (case (map_of fs certFile, map_of fs keyFile) of
     (Some (CertPem c), Some (KeyPem k)) \<Rightarrow> if x5_key c = k then Some c else None | _ \<Rightarrow> None)"

definition extra_pair :: "files \<Rightarrow> string \<Rightarrow> x509 list" where
  "extra_pair fs name =
     (if has_suffix name ''.crt'' \<and> name \<noteq> ''server.crt''
      then let base = take (length name - 4) name; kFile = ''certs/'' @ base @ ''.key''; cFile = ''certs/'' @ name in
           (if map_of fs kFile \<noteq> None then (case LoadX509KeyPair fs cFile kFile of None \<Rightarrow> [] | Some c \<Rightarrow> [c]) else [])
      else [])"

definition load_certs :: "files \<Rightarrow> string list \<Rightarrow> string \<Rightarrow> string \<Rightarrow> x509 list" where
  "load_certs fs directory certFile keyFile =
     (case LoadX509KeyPair fs certFile keyFile of None \<Rightarrow> [] | Some c \<Rightarrow> [c]) @ concat (map (extra_pair fs) directory)"

definition cert_names :: "x509 \<Rightarrow> string list" where
  "cert_names c = map to_lower ((if x5_CommonName c \<noteq> [] then [x5_CommonName c] else []) @ x5_DNSNames c)"

definition cert_map :: "x509 list \<Rightarrow> (string, x509) gomap" where
  "cert_map certs = fold (\<lambda>c. fold (\<lambda>n. AList.update n c) (cert_names c)) certs []"

text \<open>The certificates with which \<open>Start\<close> opens the listener; a failure to make the pair is only logged.\<close>

definition start_certs :: "tls_env \<Rightarrow> Config \<Rightarrow> string list \<Rightarrow> gotime \<Rightarrow> files \<Rightarrow> x509 list \<times> files" where
  "start_certs env cfg directory now fs =
     (let certFile = default_path ''certs/server.crt'' (tls_CertFile (cfg_TLS cfg));
          keyFile = default_path ''certs/server.key'' (tls_KeyFile (cfg_TLS cfg));
          (err, fs') = ensureTLSCertificates env (Some cfg) certFile keyFile now fs
      in (load_certs fs' directory certFile keyFile, fs'))"

definition min_version :: "Config \<Rightarrow> u16" where
  "min_version cfg = (if tls_MinVersion (cfg_TLS cfg) = ''1.3'' then 0x0304 else 0x0303)"

subsection \<open>Choosing\<close>

text \<open>\<open>hello\<close> is the server name of the client, if there is a hello; the entries of the map in the order of the loop. The left of the result is the
  error of the handshake, the right a certificate or \<open>nil\<close>.\<close>

definition wildcard_for :: "string \<Rightarrow> string \<Rightarrow> bool" where
  "wildcard_for serverName n \<longleftrightarrow> has_prefix n ''*.'' \<and> has_suffix serverName (drop 1 n)"

definition GetCertificate :: "x509 list \<Rightarrow> (string, x509) gomap \<Rightarrow> string option \<Rightarrow> string + x509 option" where
  "GetCertificate certs entries hello =
     (case hello of None \<Rightarrow> Inr (case certs of [] \<Rightarrow> None | c # cs \<Rightarrow> Some c)
      | Some name \<Rightarrow>
          if name = [] then Inr (case certs of [] \<Rightarrow> None | c # cs \<Rightarrow> Some c)
          else let serverName = to_lower name in
            (case map_of entries serverName of
               Some c \<Rightarrow> Inr (Some c)
             | None \<Rightarrow>
                 (case find (\<lambda>(n, c). wildcard_for serverName n) entries of
                    Some (n, c) \<Rightarrow> Inr (Some c)
                  | None \<Rightarrow> (case certs of c # cs \<Rightarrow> Inr (Some c) | [] \<Rightarrow> Inl name))))"

subsection \<open>Lemmas\<close>

definition bears :: "x509 \<Rightarrow> string \<Rightarrow> bool" where
  "bears c name \<longleftrightarrow> to_lower name \<in> set (cert_names c) \<or> (\<exists>n \<in> set (cert_names c). wildcard_for (to_lower name) n)"

lemma add_domain_keys:
  "fst ` set (fold add_domain ds m) = fst ` set m \<union> (\<Union>d \<in> set ds. if dom_Name d \<noteq> [] then {dom_Name d, ''*.'' @ dom_Name d} else {})"
proof (induction ds arbitrary: m)
  case (Cons d ds)
  have "fst ` set (add_domain d m) = fst ` set m \<union> (if dom_Name d \<noteq> [] then {dom_Name d, ''*.'' @ dom_Name d} else {})"
    by (auto simp: add_domain_def map_of_update_iff domIff simp flip: dom_map_of_conv_image_fst split: if_splits)
  then show ?case using Cons by auto
qed simp

lemma dns_names_of_domain:
  assumes "d \<in> set (cfg_Domains c)" and "dom_Name d \<noteq> []"
  shows "{dom_Name d, ''*.'' @ dom_Name d} \<subseteq> set (x5_DNSNames (make_certificate (Some c) key now))"
  using assms add_domain_keys [of "cfg_Domains c" "[(''localhost'', True)]"]
  by (force simp: make_certificate_def dns_map_def)

lemma update_keys: "map_of (fold (\<lambda>n. AList.update n c) ns m) k = (if k \<in> set ns then Some c else map_of m k)"
  by (induction ns arbitrary: m) (auto simp: map_of_update_iff)

lemma cert_map_from:
  "map_of (fold (\<lambda>c. fold (\<lambda>n. AList.update n c) (cert_names c)) certs m) k = Some c \<Longrightarrow>
     map_of m k = Some c \<or> c \<in> set certs \<and> k \<in> set (cert_names c)"
  by (induction certs arbitrary: m) (fastforce simp: update_keys split: if_splits)+

lemma cert_map_covers:
  "k \<in> fst ` set m \<or> (\<exists>c \<in> set certs. k \<in> set (cert_names c)) \<Longrightarrow>
     map_of (fold (\<lambda>c. fold (\<lambda>n. AList.update n c) (cert_names c)) certs m) k \<noteq> None"
proof (induction certs arbitrary: m)
  case Nil
  then show ?case by (auto simp: map_of_eq_None_iff)
next
  case (Cons a certs)
  show ?case
  proof (cases "k \<in> set (cert_names a) \<or> k \<in> fst ` set m")
    case True
    then have "map_of (fold (\<lambda>n. AList.update n a) (cert_names a) m) k \<noteq> None"
      by (cases "k \<in> set (cert_names a)") (simp_all add: update_keys map_of_eq_None_iff del: not_None_eq)
    then have "k \<in> fst ` set (fold (\<lambda>n. AList.update n a) (cert_names a) m)" by (metis map_of_eq_None_iff)
    then show ?thesis using Cons.IH by simp
  next
    case False
    then show ?thesis using Cons by simp
  qed
qed

lemma gomap_ok_cert_map: "gomap_ok (cert_map certs)"
proof -
  have names: "gomap_ok m \<Longrightarrow> gomap_ok (fold (\<lambda>n. AList.update n c) ns m)" for ns and c :: x509 and m
    by (induction ns arbitrary: m) auto
  have "gomap_ok m \<Longrightarrow> gomap_ok (fold (\<lambda>c. fold (\<lambda>n. AList.update n c) (cert_names c)) certs m)" for m
    by (induction certs arbitrary: m) (auto simp: names)
  then show ?thesis by (simp add: cert_map_def)
qed

lemma cert_map_entry: "(n, c) \<in> set (cert_map certs) \<Longrightarrow> c \<in> set certs \<and> n \<in> set (cert_names c)"
  using cert_map_from [of certs "[]" n c] gomap_ok_cert_map [of certs] by (auto simp: cert_map_def gomap_ok_def)

text \<open>Any order of the map: the chosen certificate is loaded and bears the name if a certificate does.\<close>

lemma chosen_bears:
  assumes keys: "set entries = set (cert_map certs)" and name: "name \<noteq> []" and some: "\<exists>c \<in> set certs. bears c name"
  shows "\<exists>c \<in> set certs. GetCertificate certs entries (Some name) = Inr (Some c) \<and> bears c name"
proof (cases "map_of entries (to_lower name)")
  case (Some c)
  then have "(to_lower name, c) \<in> set (cert_map certs)" using keys by (auto dest: map_of_SomeD)
  then show ?thesis using Some name cert_map_entry [of "to_lower name" c certs]
    by (intro bexI [of _ c]) (auto simp: GetCertificate_def bears_def)
next
  case None
  have no: "to_lower name \<notin> set (cert_names c)" if "c \<in> set certs" for c
  proof
    assume "to_lower name \<in> set (cert_names c)"
    then have "map_of (cert_map certs) (to_lower name) \<noteq> None"
      using that cert_map_covers [of "to_lower name" "[]" certs] by (auto simp: cert_map_def)
    then show False using None keys by (auto simp: map_of_eq_None_iff)
  qed
  then obtain c n where c: "c \<in> set certs" "n \<in> set (cert_names c)" "wildcard_for (to_lower name) n"
    using some by (auto simp: bears_def)
  then have "map_of (cert_map certs) n \<noteq> None"
    using cert_map_covers [of n "[]" certs] by (auto simp: cert_map_def)
  then obtain c' where "(n, c') \<in> set entries" using keys by (auto dest: map_of_SomeD)
  then have "find (\<lambda>(n, c). wildcard_for (to_lower name) n) entries \<noteq> None"
    using c(3) by (auto simp: find_None_iff)
  then obtain m e where f: "find (\<lambda>(n, c). wildcard_for (to_lower name) n) entries = Some (m, e)" by fastforce
  then have "(m, e) \<in> set (cert_map certs)" "wildcard_for (to_lower name) m"
    using keys by (auto simp: find_Some_iff dest: nth_mem)
  then show ?thesis using None f name cert_map_entry [of m e certs]
    by (intro bexI [of _ e]) (auto simp: GetCertificate_def bears_def)
qed

lemma ensure_success:
  assumes "ensureTLSCertificates env cfg cf kf now fs = (None, fs')" and "cf \<noteq> []" and "kf \<noteq> []" and "cf \<noteq> kf"
  shows "\<exists>key. LoadX509KeyPair fs' cf kf = Some (make_certificate cfg key now)"
proof -
  obtain key where "te_genKey env = Some key" "te_serial env" "te_sign env"
      "write_pair env (make_certificate cfg key now) cf kf fs = (None, fs')"
    using assms by (auto simp: ensureTLSCertificates_def default_path_def Let_def split: option.splits if_splits)
  moreover from this have "fs' = AList.update kf (KeyPem (x5_key (make_certificate cfg key now)))
      (AList.update cf (CertPem (make_certificate cfg key now)) fs)"
    by (auto simp: write_pair_def Let_def split: if_splits)
  ultimately show ?thesis using assms(4) by (auto simp: LoadX509KeyPair_def map_of_update_iff)
qed

text \<open>A failure between the two files leaves a certificate without its key: with a fresh key the old pair is lost and nothing is loaded.\<close>

lemma half_written_pair:
  assumes "write_pair env cert cf kf fs = (Some e, fs')" and "te_encodeCert env" and "te_createCert env"
    and "\<forall>k. map_of fs kf = Some (KeyPem k) \<longrightarrow> k \<noteq> x5_key cert" and "cf \<noteq> kf"
  shows "LoadX509KeyPair fs' cf kf = None"
  using assms by (auto simp: write_pair_def LoadX509KeyPair_def map_of_update_iff Let_def split: if_splits option.splits pem.splits)

lemma subdomain_wildcard: "wildcard_for (to_lower (sub @ ''.'' @ d)) (to_lower (''*.'' @ d))"
proof -
  have "to_lower (CHR ''.'' # d) = CHR ''.'' # to_lower d" "to_lower (CHR ''*'' # CHR ''.'' # d) = CHR ''*'' # CHR ''.'' # to_lower d"
    by (simp_all add: to_lower_def lower_char_def is_upper_def)
  then show ?thesis by (simp add: wildcard_for_def has_prefix_take has_suffix_iff suffix_def)
qed

lemma domain_bears:
  assumes "d \<in> set (cfg_Domains cfg)" and "dom_Name d \<noteq> []" and "host = dom_Name d \<or> host = sub @ ''.'' @ dom_Name d"
  shows "bears (make_certificate (Some cfg) key now) host"
proof -
  have "to_lower ` {dom_Name d, ''*.'' @ dom_Name d} \<subseteq> set (cert_names (make_certificate (Some cfg) key now))"
    using dns_names_of_domain [OF assms(1,2), of key now] by (auto simp: cert_names_def)
  then show ?thesis using assms(3) subdomain_wildcard [of sub "dom_Name d"] by (fastforce simp: bears_def)
qed

definition cert_path :: "Config \<Rightarrow> string" where
  "cert_path cfg = default_path ''certs/server.crt'' (tls_CertFile (cfg_TLS cfg))"

definition key_path :: "Config \<Rightarrow> string" where
  "key_path cfg = default_path ''certs/server.key'' (tls_KeyFile (cfg_TLS cfg))"

lemma paths_ne [simp]: "cert_path cfg \<noteq> []" "key_path cfg \<noteq> []"
  by (simp_all add: cert_path_def key_path_def default_path_def)

lemma start_certs_paths:
  "start_certs env cfg directory now fs =
     (let (err, fs') = ensureTLSCertificates env (Some cfg) (cert_path cfg) (key_path cfg) now fs
      in (load_certs fs' directory (cert_path cfg) (key_path cfg), fs'))"
  by (simp add: start_certs_def cert_path_def key_path_def Let_def)


definition demo_tls :: tls_env where
  "demo_tls = \<lparr>te_genKey = Some 7, te_serial = True, te_sign = True, te_createCert = True, te_encodeCert = True,
     te_openKey = True, te_encodeKey = True\<rparr>"

definition demo_tls_config :: Config where
  "demo_tls_config = zero_Config\<lparr>cfg_Domains := [default_domain ''Shop.example'' ''http://b'']\<rparr>"


text \<open>Whatever pair was in the files before, a start that makes one puts its own there.\<close>

lemma start_overwrites:
  assumes "te_genKey env = Some key" and "te_serial env" and "te_sign env" and "te_createCert env" and "te_encodeCert env"
    and "cert_path cfg \<noteq> key_path cfg"
  shows "map_of (snd (start_certs env cfg directory now fs)) (cert_path cfg) = Some (CertPem (make_certificate (Some cfg) key now))"
  using assms by (auto simp: start_certs_paths ensureTLSCertificates_def default_path_def write_pair_def Let_def map_of_update_iff split: prod.splits)

text \<open>The wildcard of the loop reaches any depth, unlike the one of RFC 6125.\<close>

lemma wildcard_any_depth: "wildcard_for ''a.b.shop.example'' ''*.shop.example''"
  by (simp add: wildcard_for_def has_prefix_take has_suffix_iff suffix_def)

end
