(* ===== verification/Signatures.thy ===== *)
theory Signatures
  imports Float64
begin

section \<open>Attack signatures (detection/signatures.go)\<close>

text \<open>
  The detector that compares a snapshot of the traffic with ten signatures, keeps one active alert per signature and moves
  an alert to the history when its signature has not matched for 30 seconds. \<open>main\<close> builds one, but nothing calls \<open>Detect\<close>.
  The map of active alerts is an association list whose order is that of \<open>Range\<close>.
  Lemmas: one alert per signature that matches; which alerts are active after a call; the history is the end of the
  list of all ended alerts; the levels of a flood are nested.
\<close>

record TrafficSnapshot =
  sn_CurrentRPS :: int
  sn_PeakRPS :: int
  sn_BaselineRPS :: f64
  sn_ActiveConns :: int
  sn_UniqueIPs :: int
  sn_NewIPsPerSec :: int
  sn_AvgReqSize :: f64
  sn_MethodDistrib :: "(string, int) gomap"
  sn_StatusDistrib :: "(int, int) gomap"
  sn_TopPaths :: "(string, int) gomap"
  sn_TopIPs :: "(string, int) gomap"
  sn_AvgLatency :: f64
  sn_ErrorRate :: f64
  sn_BotPercentage :: f64
  sn_TCPHalfOpen :: int
  sn_SlowConns :: int

record AttackSignature =
  sg_ID :: string
  sg_Name :: string
  sg_Type :: string
  sg_Description :: string
  sg_Severity :: string
  sg_CheckFn :: "TrafficSnapshot \<Rightarrow> bool"

record AttackAlert =
  aa_ID :: string
  aa_SignatureID :: string
  aa_Type :: string
  aa_Severity :: string
  aa_StartTime :: gotime
  aa_LastSeen :: gotime
  aa_PeakRPS :: int
  aa_Mitigated :: bool
  aa_Details :: "(string, string) gomap"

record AttackEvent =
  ak_ID :: string
  ak_Type :: string
  ak_Severity :: string
  ak_StartTime :: gotime
  ak_EndTime :: gotime
  ak_Duration :: duration
  ak_PeakRPS :: int
  ak_TotalReqs :: int
  ak_Blocked :: int
  ak_TopIPs :: "string list"

record AttackDetector =
  ad_signatures :: "AttackSignature list"
  ad_activeAlerts :: "(string, AttackAlert) gomap"
  ad_history :: "AttackEvent list"

subsection \<open>The ten signatures\<close>

definition flood :: "int \<Rightarrow> f64 \<Rightarrow> TrafficSnapshot \<Rightarrow> bool" where
  "flood fixed factor snap =
     (if sn_BaselineRPS snap = 0 then fixed < sn_CurrentRPS snap
      else fmul (sn_BaselineRPS snap) factor < f_of_int (sn_CurrentRPS snap))"

definition isLoginPath :: "string \<Rightarrow> bool" where
  "isLoginPath path \<longleftrightarrow> path \<in> set [''/login'', ''/signin'', ''/auth'', ''/api/login'', ''/api/auth'', ''/wp-login.php'']"

definition api_abuse :: "TrafficSnapshot \<Rightarrow> bool" where
  "api_abuse snap =
     (if sn_TopPaths snap = [] then False
      else let (maxPath, totalReqs) = fold (\<lambda>(p, n) (mx, t). (if mx < n then n else mx, t + n)) (sn_TopPaths snap) (0, 0) in
           if totalReqs = 0 then False
           else fl (6 / 10) < fdiv (f_of_int maxPath) (f_of_int totalReqs) \<and> 100 < totalReqs)"

definition credential_stuffing :: "TrafficSnapshot \<Rightarrow> bool" where
  "credential_stuffing snap =
     (let postCount = (case map_of (sn_MethodDistrib snap) ''POST'' of None \<Rightarrow> 0 | Some n \<Rightarrow> n);
          loginReqs = fold (\<lambda>(p, n) t. if isLoginPath p then t + n else t) (sn_TopPaths snap) 0
      in 50 < postCount \<and> 30 < loginReqs)"

definition attack_signature :: "string \<Rightarrow> string \<Rightarrow> string \<Rightarrow> string \<Rightarrow> string \<Rightarrow> (TrafficSnapshot \<Rightarrow> bool) \<Rightarrow> AttackSignature" where
  "attack_signature sid nm ty sev desc check =
     \<lparr>sg_ID = sid, sg_Name = nm, sg_Type = ty, sg_Description = desc, sg_Severity = sev, sg_CheckFn = check\<rparr>"

definition loadSignatures :: "AttackSignature list" where
  "loadSignatures =
    [attack_signature ''http_flood_medium'' ''HTTP Flood (Medium)'' ''http_flood'' ''medium'' ''RPS significantly above baseline'' (flood 500 3),
     attack_signature ''http_flood_high'' ''HTTP Flood (High)'' ''http_flood'' ''high'' ''Massive RPS spike detected'' (flood 2000 8),
     attack_signature ''http_flood_critical'' ''HTTP Flood (Critical)'' ''http_flood'' ''critical'' (''Extreme flood '' @ [CHR 0xE2, CHR 0x80, CHR 0x94] @ '' server at capacity'') (flood 10000 20),
     attack_signature ''slowloris'' ''Slowloris Attack'' ''slowloris'' ''high'' ''Many slow connections holding resources''
       (\<lambda>snap. 50 < sn_SlowConns snap \<and> 200 < sn_ActiveConns snap),
     attack_signature ''conn_exhaustion'' ''Connection Exhaustion'' ''conn_exhaustion'' ''high'' ''Abnormally high number of open connections''
       (\<lambda>snap. 5000 < sn_ActiveConns snap),
     attack_signature ''api_abuse'' ''API Abuse'' ''api_abuse'' ''medium'' ''Targeted API endpoint flooding'' api_abuse,
     attack_signature ''credential_stuffing'' ''Credential Stuffing'' ''credential_stuffing'' ''high'' ''Mass login attempts from multiple IPs''
       credential_stuffing,
     attack_signature ''bot_swarm'' ''Bot Swarm Detected'' ''bot_swarm'' ''high'' ''High percentage of bot traffic''
       (\<lambda>snap. fl (7 / 10) < sn_BotPercentage snap \<and> 100 < sn_CurrentRPS snap),
     attack_signature ''ip_rotation'' ''IP Rotation Attack'' ''ip_rotation'' ''high'' ''Many new IPs appearing rapidly''
       (\<lambda>snap. 50 < sn_NewIPsPerSec snap),
     attack_signature ''error_spike'' ''Error Rate Spike'' ''scanning'' ''medium'' ''Abnormally high error rate''
       (\<lambda>snap. fl (4 / 10) < sn_ErrorRate snap \<and> 50 < sn_CurrentRPS snap)]"

definition NewAttackDetector :: AttackDetector where
  "NewAttackDetector = \<lparr>ad_signatures = loadSignatures, ad_activeAlerts = [], ad_history = []\<rparr>"

subsection \<open>Detection\<close>

definition seen_again :: "TrafficSnapshot \<Rightarrow> gotime \<Rightarrow> AttackAlert \<Rightarrow> AttackAlert" where
  "seen_again snap now a = a\<lparr>aa_LastSeen := now, aa_PeakRPS := (if aa_PeakRPS a < sn_CurrentRPS snap then sn_CurrentRPS snap else aa_PeakRPS a)\<rparr>"

definition new_alert :: "TrafficSnapshot \<Rightarrow> gotime \<Rightarrow> AttackSignature \<Rightarrow> AttackAlert" where
  "new_alert snap now sig =
     \<lparr>aa_ID = sg_ID sig @ ''_'' @ itoa (unix_sec now), aa_SignatureID = sg_ID sig, aa_Type = sg_Type sig, aa_Severity = sg_Severity sig,
      aa_StartTime = now, aa_LastSeen = now, aa_PeakRPS = sn_CurrentRPS snap, aa_Mitigated = False, aa_Details = []\<rparr>"

text \<open>One turn of the loop over the signatures: the alerts so far and the active ones.\<close>

definition detect_signature ::
  "TrafficSnapshot \<Rightarrow> gotime \<Rightarrow> AttackSignature \<Rightarrow> AttackAlert list \<times> (string, AttackAlert) gomap \<Rightarrow> AttackAlert list \<times> (string, AttackAlert) gomap" where
  "detect_signature snap now sig acc = (case acc of (alerts, active) \<Rightarrow>
     if sg_CheckFn sig snap
     then let a = (case map_of active (sg_ID sig) of Some e \<Rightarrow> seen_again snap now e | None \<Rightarrow> new_alert snap now sig)
          in (alerts @ [a], AList.update (sg_ID sig) a active)
     else (alerts, active))"

definition attack_over :: "gotime \<Rightarrow> AttackAlert \<Rightarrow> bool" where
  "attack_over now a \<longleftrightarrow> 30 * second < time_sub now (aa_LastSeen a)"

definition attack_event :: "gotime \<Rightarrow> AttackAlert \<Rightarrow> AttackEvent" where
  "attack_event now a =
     \<lparr>ak_ID = aa_ID a, ak_Type = aa_Type a, ak_Severity = aa_Severity a, ak_StartTime = aa_StartTime a, ak_EndTime = now,
      ak_Duration = time_sub now (aa_StartTime a), ak_PeakRPS = aa_PeakRPS a, ak_TotalReqs = 0, ak_Blocked = 0, ak_TopIPs = []\<rparr>"

definition recordEvent :: "gotime \<Rightarrow> AttackAlert \<Rightarrow> AttackDetector \<Rightarrow> AttackDetector" where
  "recordEvent now a ad =
     (let h = ad_history ad @ [attack_event now a]
      in ad\<lparr>ad_history := (if 1000 < length h then drop (length h - 1000) h else h)\<rparr>)"

text \<open>One turn of \<open>Range\<close> over the active alerts.\<close>

definition sweep_alert :: "gotime \<Rightarrow> string \<times> AttackAlert \<Rightarrow> AttackDetector \<Rightarrow> AttackDetector" where
  "sweep_alert now ka ad = (case ka of (key, a) \<Rightarrow>
     if attack_over now a
     then let ad' = recordEvent now (a\<lparr>aa_Mitigated := True\<rparr>) ad in ad'\<lparr>ad_activeAlerts := AList.delete key (ad_activeAlerts ad')\<rparr>
     else ad)"

definition Detect :: "TrafficSnapshot \<Rightarrow> gotime \<Rightarrow> AttackDetector \<Rightarrow> AttackAlert list \<times> AttackDetector" where
  "Detect snap now ad =
     (let (alerts, active) = fold (detect_signature snap now) (ad_signatures ad) ([], ad_activeAlerts ad)
      in (alerts, fold (sweep_alert now) active (ad\<lparr>ad_activeAlerts := active\<rparr>)))"

definition GetHistory :: "int \<Rightarrow> AttackDetector \<Rightarrow> AttackEvent list" where
  "GetHistory limit ad =
     (let n = length (ad_history ad); k = (if limit \<le> 0 \<or> int n < limit then n else nat limit) in drop (n - k) (ad_history ad))"

definition GetActiveAlerts :: "AttackDetector \<Rightarrow> AttackAlert list" where
  "GetActiveAlerts ad = map snd (ad_activeAlerts ad)"

subsection \<open>Lemmas\<close>

lemma signature_ids_distinct: "distinct (map sg_ID loadSignatures)"
  by (simp add: loadSignatures_def attack_signature_def)

lemma history_recordEvent:
  "ad_history (recordEvent now a ad) = newest 1000 (ad_history ad @ [attack_event now a])"
  by (simp add: recordEvent_def newest_def Let_def)

lemma active_recordEvent [simp]: "ad_activeAlerts (recordEvent now a ad) = ad_activeAlerts ad"
  by (simp add: recordEvent_def Let_def)

lemma signatures_recordEvent [simp]: "ad_signatures (recordEvent now a ad) = ad_signatures ad"
  by (simp add: recordEvent_def Let_def)

definition ended_events :: "gotime \<Rightarrow> (string, AttackAlert) gomap \<Rightarrow> AttackEvent list" where
  "ended_events now active = map (attack_event now \<circ> snd) (filter (attack_over now \<circ> snd) active)"

lemma attack_event_mitigated [simp]: "attack_event now (a\<lparr>aa_Mitigated := b\<rparr>) = attack_event now a"
  by (simp add: attack_event_def)

lemma sweep_history:
  "length (ad_history ad) \<le> 1000 \<Longrightarrow>
     ad_history (fold (sweep_alert now) kas ad) = newest 1000 (ad_history ad @ ended_events now kas)"
proof (induction kas arbitrary: ad)
  case Nil
  then show ?case by (simp add: newest_def ended_events_def)
next
  case (Cons ka kas)
  have len: "length (ad_history (sweep_alert now ka ad)) \<le> 1000"
    using Cons.prems by (cases ka) (simp add: sweep_alert_def history_recordEvent Let_def)
  show ?case
    using Cons.IH [OF len] newest_newest [of 1000 "ad_history ad @ [attack_event now (snd ka)]" "ended_events now kas"]
    by (cases ka) (auto simp: sweep_alert_def ended_events_def history_recordEvent Let_def split: if_splits)
qed

lemma sweep_active:
  "map_of (ad_activeAlerts (fold (sweep_alert now) kas ad)) k =
     (if \<exists>a. (k, a) \<in> set kas \<and> attack_over now a then None else map_of (ad_activeAlerts ad) k)"
proof (induction kas arbitrary: ad)
  case (Cons ka kas)
  then show ?case by (cases ka) (auto simp: sweep_alert_def map_of_delete_iff Let_def)
qed simp

lemma gomap_ok_sweep: "gomap_ok (ad_activeAlerts ad) \<Longrightarrow> gomap_ok (ad_activeAlerts (fold (sweep_alert now) kas ad))"
  by (induction kas arbitrary: ad) (auto simp: sweep_alert_def Let_def)

lemma sweep_signatures: "ad_signatures (fold (sweep_alert now) kas ad) = ad_signatures ad"
  by (induction kas arbitrary: ad) (simp_all add: sweep_alert_def Let_def split: prod.splits)

text \<open>The loop over signatures with different names.\<close>

lemma detect_alerts:
  "map aa_SignatureID (fst (fold (detect_signature snap now) sigs (alerts, active))) =
     map aa_SignatureID alerts @ map sg_ID (filter (\<lambda>g. sg_CheckFn g snap) sigs)"
  if "\<forall>k a. map_of active k = Some a \<longrightarrow> aa_SignatureID a = k"
  using that
proof (induction sigs arbitrary: alerts active)
  case (Cons g sigs)
  show ?case
  proof (cases "sg_CheckFn g snap")
    case True
    define a where "a = (case map_of active (sg_ID g) of Some e \<Rightarrow> seen_again snap now e | None \<Rightarrow> new_alert snap now g)"
    have id: "aa_SignatureID a = sg_ID g"
      using Cons.prems by (auto simp: a_def seen_again_def new_alert_def split: option.splits)
    have "\<forall>k b. map_of (AList.update (sg_ID g) a active) k = Some b \<longrightarrow> aa_SignatureID b = k"
      using Cons.prems id by (auto simp: map_of_update_iff)
    from Cons.IH [OF this, of "alerts @ [a]"] show ?thesis
      using True id by (simp add: detect_signature_def a_def [symmetric])
  next
    case False
    with Cons show ?thesis by (simp add: detect_signature_def)
  qed
qed simp

lemma detect_active:
  assumes "distinct (map sg_ID sigs)"
  shows "map_of (snd (fold (detect_signature snap now) sigs (alerts, active))) k =
    (case find (\<lambda>g. sg_ID g = k \<and> sg_CheckFn g snap) sigs of
       None \<Rightarrow> map_of active k
     | Some g \<Rightarrow> Some (case map_of active k of Some e \<Rightarrow> seen_again snap now e | None \<Rightarrow> new_alert snap now g))"
  using assms
proof (induction sigs arbitrary: alerts active)
  case (Cons g sigs)
  have none: "find (\<lambda>g'. sg_ID g' = sg_ID g \<and> sg_CheckFn g' snap) sigs = None"
    using Cons.prems by (auto simp: find_None_iff) (metis image_eqI)
  show ?case using Cons none
    by (cases "sg_CheckFn g snap"; cases "sg_ID g = k"; cases "find (\<lambda>g. sg_ID g = k \<and> sg_CheckFn g snap) sigs")
      (auto simp: detect_signature_def map_of_update_iff Let_def)
qed simp

lemma gomap_ok_detect: "gomap_ok active \<Longrightarrow> gomap_ok (snd (fold (detect_signature snap now) sigs (alerts, active)))"
  by (induction sigs arbitrary: alerts active) (auto simp: detect_signature_def Let_def)

definition detector_ok :: "gotime \<Rightarrow> AttackDetector \<Rightarrow> bool" where
  "detector_ok now ad \<longleftrightarrow> ad_signatures ad = loadSignatures \<and> gomap_ok (ad_activeAlerts ad) \<and> length (ad_history ad) \<le> 1000 \<and>
     (\<forall>k a. map_of (ad_activeAlerts ad) k = Some a \<longrightarrow> aa_SignatureID a = k \<and> aa_StartTime a \<le> aa_LastSeen a \<and> aa_LastSeen a \<le> now)"

text \<open>The active alerts after the loop over the signatures.\<close>

definition matches :: "TrafficSnapshot \<Rightarrow> string \<Rightarrow> bool" where
  "matches snap k \<longleftrightarrow> (\<exists>g \<in> set loadSignatures. sg_ID g = k \<and> sg_CheckFn g snap)"

definition alert_ok :: "gotime \<Rightarrow> string \<Rightarrow> AttackAlert \<Rightarrow> bool" where
  "alert_ok now k a \<longleftrightarrow> aa_SignatureID a = k \<and> aa_StartTime a \<le> aa_LastSeen a \<and> aa_LastSeen a \<le> now"

lemma detector_ok_alert: "detector_ok now ad \<longleftrightarrow> ad_signatures ad = loadSignatures \<and> gomap_ok (ad_activeAlerts ad) \<and>
     length (ad_history ad) \<le> 1000 \<and> (\<forall>k a. map_of (ad_activeAlerts ad) k = Some a \<longrightarrow> alert_ok now k a)"
  by (simp add: detector_ok_def alert_ok_def)

lemma loop_unmatched:
  assumes "fold (detect_signature snap now) loadSignatures ([], old) = (alerts, active)" and "\<not> matches snap k"
  shows "map_of active k = map_of old k"
proof -
  have "find (\<lambda>g. sg_ID g = k \<and> sg_CheckFn g snap) loadSignatures = None"
    using assms(2) unfolding find_None_iff matches_def by blast
  then show ?thesis using detect_active [OF signature_ids_distinct, of snap now "[]" old k] assms(1) by simp
qed

lemma loop_matched:
  assumes "fold (detect_signature snap now) loadSignatures ([], old) = (alerts, active)" and "matches snap k"
    and "\<forall>e. map_of old k = Some e \<longrightarrow> alert_ok now k e"
  shows "\<exists>a. map_of active k = Some a \<and> alert_ok now k a \<and> aa_LastSeen a = now"
proof -
  have "find (\<lambda>g. sg_ID g = k \<and> sg_CheckFn g snap) loadSignatures \<noteq> None"
    using assms(2) unfolding find_None_iff matches_def by blast
  then obtain g where g: "find (\<lambda>g. sg_ID g = k \<and> sg_CheckFn g snap) loadSignatures = Some g" by blast
  then have "sg_ID g = k" unfolding find_Some_iff by blast
  then show ?thesis
    using detect_active [OF signature_ids_distinct, of snap now "[]" old k] assms(1,3) g
    by (cases "map_of old k") (auto simp: alert_ok_def seen_again_def new_alert_def)
qed

text \<open>
  A call of the detector raises one alert for each signature that matches, in order. Afterwards a signature has an
  active alert exactly when it matches now or has matched within the last 30 seconds, and the history is the newest thousand
  of the old history followed by the alerts that ended.
\<close>

theorem detector_step:
  assumes ok: "detector_ok t ad" and t: "t \<le> now" and call: "Detect snap now ad = (alerts, ad')"
  shows "map aa_SignatureID alerts = map sg_ID (filter (\<lambda>g. sg_CheckFn g snap) loadSignatures) \<and>
    detector_ok now ad' \<and>
    (map_of (ad_activeAlerts ad') k \<noteq> None \<longleftrightarrow>
       matches snap k \<or> (\<exists>a. map_of (ad_activeAlerts ad) k = Some a \<and> \<not> attack_over now a)) \<and>
    (\<exists>ended. ad_history ad' = newest 1000 (ad_history ad @ ended) \<and>
       set ended = {attack_event now a | j a. map_of (ad_activeAlerts ad) j = Some a \<and> attack_over now a \<and> \<not> matches snap j})"
proof -
  obtain active where loop: "fold (detect_signature snap now) loadSignatures ([], ad_activeAlerts ad) = (alerts, active)"
      and ad': "ad' = fold (sweep_alert now) active (ad\<lparr>ad_activeAlerts := active\<rparr>)"
    using call ok by (auto simp: Detect_def detector_ok_def split: prod.splits)
  have old: "\<forall>e. map_of (ad_activeAlerts ad) j = Some e \<longrightarrow> alert_ok now j e" for j
    using ok t by (force simp: detector_ok_alert alert_ok_def)
  have gm: "gomap_ok active"
    using gomap_ok_detect [of "ad_activeAlerts ad" snap now loadSignatures "[]"] ok loop by (simp add: detector_ok_def)
  then have mem: "(j, a) \<in> set active \<longleftrightarrow> map_of active j = Some a" for j a by (simp add: gomap_ok_def)
  then have active': "map_of (ad_activeAlerts ad') j = (if \<exists>a. map_of active j = Some a \<and> attack_over now a then None else map_of active j)" for j
    by (auto simp: ad' sweep_active)
  have hist: "ad_history ad' = newest 1000 (ad_history ad @ ended_events now active)"
    using sweep_history [of "ad\<lparr>ad_activeAlerts := active\<rparr>" now active] ok by (simp add: ad' detector_ok_def)
  have alert: "map_of active j = Some a \<Longrightarrow> alert_ok now j a" for j a
    using loop_unmatched [OF loop, of j] loop_matched [OF loop, of j] old by (cases "matches snap j") auto
  have recent: "\<not> attack_over now a" if "aa_LastSeen a = now" for a
    using that by (simp add: attack_over_def duration_defs)
  have same: "map_of active j = Some a \<and> attack_over now a \<longleftrightarrow>
      map_of (ad_activeAlerts ad) j = Some a \<and> attack_over now a \<and> \<not> matches snap j" for j a
    using loop_unmatched [OF loop, of j] loop_matched [OF loop _ old, of j] recent by (cases "matches snap j") auto
  have "set (ended_events now active) = {attack_event now a | j a. (j, a) \<in> set active \<and> attack_over now a}"
    by (force simp: ended_events_def)
  then have ended: "set (ended_events now active) =
      {attack_event now a | j a. map_of (ad_activeAlerts ad) j = Some a \<and> attack_over now a \<and> \<not> matches snap j}"
    by (simp only: mem same)
  have "gomap_ok (ad_activeAlerts ad')" by (simp add: ad' gomap_ok_sweep gm)
  moreover have "map_of (ad_activeAlerts ad') j = Some a \<Longrightarrow> alert_ok now j a" for j a
    using alert by (simp add: active' split: if_splits)
  ultimately have "detector_ok now ad'"
    using ok hist by (simp add: detector_ok_alert) (simp add: ad' sweep_signatures)
  moreover have "map aa_SignatureID alerts = map sg_ID (filter (\<lambda>g. sg_CheckFn g snap) loadSignatures)"
    using detect_alerts [of "ad_activeAlerts ad" snap now loadSignatures "[]"] ok loop by (simp add: detector_ok_def)
  moreover have "map_of (ad_activeAlerts ad') k \<noteq> None \<longleftrightarrow>
       matches snap k \<or> (\<exists>a. map_of (ad_activeAlerts ad) k = Some a \<and> \<not> attack_over now a)"
    using loop_unmatched [OF loop, of k] loop_matched [OF loop _ old, of k] recent by (cases "matches snap k") (auto simp: active')
  ultimately show ?thesis using hist ended by blast
qed

definition calm_snapshot :: TrafficSnapshot where
  "calm_snapshot = \<lparr>sn_CurrentRPS = 10, sn_PeakRPS = 10, sn_BaselineRPS = 10, sn_ActiveConns = 1, sn_UniqueIPs = 1, sn_NewIPsPerSec = 0,
     sn_AvgReqSize = 0, sn_MethodDistrib = [], sn_StatusDistrib = [], sn_TopPaths = [], sn_TopIPs = [], sn_AvgLatency = 0,
     sn_ErrorRate = 0, sn_BotPercentage = 0, sn_TCPHalfOpen = 0, sn_SlowConns = 0\<rparr>"

lemma detector_ok_new: "detector_ok now NewAttackDetector"
  by (simp add: detector_ok_def NewAttackDetector_def)

lemma detector_step_witness:
  "map_of (ad_activeAlerts (snd (Detect (calm_snapshot\<lparr>sn_ActiveConns := 6000\<rparr>) 5 NewAttackDetector))) ''conn_exhaustion'' \<noteq> None \<and>
   map_of (ad_activeAlerts (snd (Detect (calm_snapshot\<lparr>sn_ActiveConns := 6000\<rparr>) 5 NewAttackDetector))) ''slowloris'' = None"
  using detector_step [OF detector_ok_new order.refl surjective_pairing, of "calm_snapshot\<lparr>sn_ActiveConns := 6000\<rparr>" 5 "''conn_exhaustion''"]
    detector_step [OF detector_ok_new order.refl surjective_pairing, of "calm_snapshot\<lparr>sn_ActiveConns := 6000\<rparr>" 5 "''slowloris''"]
  by (simp add: matches_def loadSignatures_def attack_signature_def calm_snapshot_def NewAttackDetector_def)

text \<open>A flood of a higher level is one of every lower level, rounding included.\<close>

lemma flood_nested:
  assumes "flood m f snap" and "m' \<le> m" and "f' \<le> f" and "0 \<le> sn_BaselineRPS snap"
  shows "flood m' f' snap"
proof -
  have "fmul (sn_BaselineRPS snap) f' \<le> fmul (sn_BaselineRPS snap) f"
    using assms(3,4) by (simp add: fmul_def fl_mono mult_left_mono)
  then show ?thesis using assms(1,2) by (auto simp: flood_def split: if_splits)
qed

lemma GetHistory_newest: "GetHistory limit ad = newest (if limit \<le> 0 then length (ad_history ad) else nat limit) (ad_history ad)"
  by (auto simp: GetHistory_def newest_def Let_def)

end
