(* ===== verification/Host_Stats.thy ===== *)
theory Host_Stats
  imports Float64
begin

section \<open>The load of the host (api/dashboard.go)\<close>

text \<open>
  The readers of \<open>/proc\<close> behind \<open>/api/system-stats\<close>. A file is an argument, \<open>None\<close> where it cannot be opened: the lines that the
  scanner delivers, or the text. The counters of the kernel are 64-bit words that wrap as in the code. The values that a reader keeps between calls are
  in \<open>cpu_state\<close> and \<open>tcp_state\<close>. Floats in another form than digits with a point are left to the argument \<open>other\<close>.
  Lemmas: fields of a line; the percentage of the processor lies between 0 and 100; the count of connections.
\<close>

subsection \<open>Splitting and numbers\<close>

lemma dropWhile_shorter: "t \<noteq> [] \<Longrightarrow> P (hd t) \<Longrightarrow> length (dropWhile P t) < length t"
  by (cases t) (simp_all add: length_dropWhile_le le_imp_less_Suc)

text \<open>\<open>strings.Fields\<close>, \<open>strconv.ParseUint(_, 10, 64)\<close> with its error ignored, and \<open>strconv.ParseFloat\<close> likewise.\<close>

function go_fields :: "string \<Rightarrow> string list" where
  "go_fields s = (let t = dropWhile is_space s in
     if t = [] then [] else takeWhile (\<lambda>c. \<not> is_space c) t # go_fields (dropWhile (\<lambda>c. \<not> is_space c) t))"
  by auto

termination
proof (relation "measure length")
  fix s :: string and t
  assume t: "t = dropWhile is_space s" and ne: "t \<noteq> []"
  then have "\<not> is_space (hd t)" using hd_dropWhile [of is_space s] by simp
  then have "length (dropWhile (\<lambda>c. \<not> is_space c) t) < length t" by (intro dropWhile_shorter ne)
  also have "length t \<le> length s" using t by (simp add: length_dropWhile_le)
  finally show "(dropWhile (\<lambda>c. \<not> is_space c) t, s) \<in> measure length" by simp
qed simp

declare go_fields.simps [simp del]

definition max_uint64 :: int where
  "max_uint64 = 18446744073709551615"

fun parse_uint_loop :: "int \<Rightarrow> string \<Rightarrow> int" where
  "parse_uint_loop n [] = n"
| "parse_uint_loop n (c # s) =
     (if \<not> is_digit c then 0
      else if max_uint64 div 10 + 1 \<le> n then max_uint64
      else if max_uint64 < n * 10 + int (digit_val c) then max_uint64
      else parse_uint_loop (n * 10 + int (digit_val c)) s)"

definition parse_uint64 :: "string \<Rightarrow> u64" where
  "parse_uint64 s = word_of_int (parse_uint_loop 0 s)"

definition plain_float :: "string \<Rightarrow> f64 option" where
  "plain_float s =
     (let (a, b) = (case cut_byte CHR ''.'' s of None \<Rightarrow> (s, []) | Some ab \<Rightarrow> ab) in
      if a @ b = [] then None
      else map_option (\<lambda>n. fl (of_nat n / 10 ^ length b)) (read_digits 0 (a @ b)))"

definition parse_float :: "(string \<Rightarrow> f64) \<Rightarrow> string \<Rightarrow> f64" where
  "parse_float other s = (case plain_float s of Some v \<Rightarrow> v | None \<Rightarrow> other s)"

definition f_of_u64 :: "u64 \<Rightarrow> f64" where
  "f_of_u64 w = f_of_int (uint w)"

subsection \<open>Processor\<close>

record cpu_state =
  cp_Idle :: u64
  cp_Total :: u64
  cp_Pct :: f64
  cp_Time :: gotime

definition initial_cpu :: cpu_state where
  "initial_cpu = \<lparr>cp_Idle = 0, cp_Total = 0, cp_Pct = 0, cp_Time = zero_time\<rparr>"

text \<open>The counters of the first line; \<open>None\<close> where the function returns 0.\<close>

definition cpu_counters :: "string list option \<Rightarrow> u64 list option" where
  "cpu_counters stat = (case stat of None \<Rightarrow> None | Some [] \<Rightarrow> None
     | Some (line # _) \<Rightarrow>
         (let fs = go_fields line in if length fs < 5 \<or> hd fs \<noteq> ''cpu'' then None else Some (map parse_uint64 (tl fs))))"

definition readCPUUsage :: "gotime \<Rightarrow> string list option \<Rightarrow> cpu_state \<Rightarrow> f64 \<times> cpu_state" where
  "readCPUUsage now stat st =
     (if time_sub now (cp_Time st) < 500 * millisecond then (cp_Pct st, st)
      else case cpu_counters stat of
        None \<Rightarrow> (0, st)
      | Some vals \<Rightarrow>
          let total = sum_list vals; idle = vals ! 3; dTotal = total - cp_Total st; dIdle = idle - cp_Idle st;
              st1 = st\<lparr>cp_Total := total, cp_Idle := idle, cp_Time := now\<rparr>
          in if dTotal = 0 then (cp_Pct st1, st1)
             else let pct = fmul (fdiv (f_of_u64 (dTotal - dIdle)) (f_of_u64 dTotal)) 100 in (pct, st1\<lparr>cp_Pct := pct\<rparr>))"

subsection \<open>Memory and disk\<close>

definition meminfo_values :: "string list \<Rightarrow> (string, u64) gomap" where
  "meminfo_values ls = fold (\<lambda>line m. let fs = go_fields line in
     if 2 \<le> length fs
     then AList.update (if has_suffix (fs ! 0) '':'' then butlast (fs ! 0) else fs ! 0) (parse_uint64 (fs ! 1)) m else m) ls []"

definition value_or_0 :: "(string, u64) gomap \<Rightarrow> string \<Rightarrow> u64" where
  "value_or_0 m k = (case map_of m k of None \<Rightarrow> 0 | Some v \<Rightarrow> v)"

definition readMemInfo :: "string list option \<Rightarrow> u64 \<times> u64 \<times> u64" where
  "readMemInfo meminfo = (case meminfo of None \<Rightarrow> (0, 0, 0)
     | Some ls \<Rightarrow> let m = meminfo_values ls; totalMB = value_or_0 m ''MemTotal'' div 1024; availMB = value_or_0 m ''MemAvailable'' div 1024
                  in (totalMB, totalMB - availMB, availMB))"

text \<open>\<open>statfs\<close>: blocks, free blocks and the size of a block as an unsigned number.\<close>

definition readDiskUsage :: "(u64 \<times> u64 \<times> u64) option \<Rightarrow> f64 \<times> f64 \<times> f64" where
  "readDiskUsage statfs = (case statfs of None \<Rightarrow> (0, 0, 0)
     | Some (blocks, bfree, bsize) \<Rightarrow>
         let total = blocks * bsize; used = total - bfree * bsize; gb = 1024 * 1024 * 1024
         in (fdiv (f_of_u64 total) gb, fdiv (f_of_u64 used) gb,
             if 0 < total then fmul (fdiv (f_of_u64 used) (f_of_u64 total)) 100 else 0))"

subsection \<open>Load, network, uptime, connections\<close>

definition readLoadAvg :: "(string \<Rightarrow> f64) \<Rightarrow> string option \<Rightarrow> f64 \<times> f64 \<times> f64" where
  "readLoadAvg other loadavg = (case loadavg of None \<Rightarrow> (0, 0, 0)
     | Some s \<Rightarrow> let fs = go_fields s in
         if 3 \<le> length fs then (parse_float other (fs ! 0), parse_float other (fs ! 1), parse_float other (fs ! 2)) else (0, 0, 0))"

definition counted_interface :: "string \<Rightarrow> bool" where
  "counted_interface line \<longleftrightarrow> has_prefix line ''eth0:'' \<or> has_prefix line ''ens'' \<or> has_prefix line ''enp''"

definition net_line :: "string \<Rightarrow> u64 \<times> u64 \<Rightarrow> u64 \<times> u64" where
  "net_line l acc =
     (let line = trim_ws l; parts = go_fields line in
      if counted_interface line \<and> 10 \<le> length parts
      then (fst acc + parse_uint64 (parts ! 1), snd acc + parse_uint64 (parts ! 9)) else acc)"

definition readNetworkStats :: "string list option \<Rightarrow> u64 \<times> u64" where
  "readNetworkStats netdev = (case netdev of None \<Rightarrow> (0, 0) | Some ls \<Rightarrow> fold net_line ls (0, 0))"

definition readUptime :: "(string \<Rightarrow> f64) \<Rightarrow> string option \<Rightarrow> f64" where
  "readUptime other uptime = (case uptime of None \<Rightarrow> 0
     | Some s \<Rightarrow> (case go_fields s of [] \<Rightarrow> 0 | v # vs \<Rightarrow> parse_float other v))"

record tcp_state =
  tp_Count :: int
  tp_Time :: gotime

definition initial_tcp :: tcp_state where
  "initial_tcp = \<lparr>tp_Count = 0, tp_Time = zero_time\<rparr>"

definition readTCPConnections :: "gotime \<Rightarrow> string list option list \<Rightarrow> tcp_state \<Rightarrow> int \<times> tcp_state" where
  "readTCPConnections now tables st =
     (if time_sub now (tp_Time st) < 2 * second then (tp_Count st, st)
      else let n = sum_list (map (\<lambda>f. case f of None \<Rightarrow> 0 | Some ls \<Rightarrow> int (length ls)) tables);
               n = (if 2 \<le> n then n - 2 else n)
           in (n, \<lparr>tp_Count = n, tp_Time = now\<rparr>))"

subsection \<open>Lemmas\<close>

lemma parse_uint_loop_bound: "0 \<le> n \<Longrightarrow> n \<le> max_uint64 \<Longrightarrow> 0 \<le> parse_uint_loop n s \<and> parse_uint_loop n s \<le> max_uint64"
  by (induction n s rule: parse_uint_loop.induct) (auto simp: max_uint64_def)

lemma sum_of_nat_u64: "sum_list (map of_nat ns) = (of_nat (sum_list ns) :: u64)"
  by (induction ns) auto

lemma sum_unat: "sum_list ws = (of_nat (sum_list (map unat ws)) :: u64)" for ws :: "u64 list"
  by (induction ws) auto

lemma f_of_u64_mono: "unat a \<le> unat b \<Longrightarrow> f_of_u64 a \<le> f_of_u64 b"
  unfolding f_of_u64_def by (rule f_of_int_mono) (simp add: word_le_nat_alt flip: word_le_def)

lemma f_of_u64_nonneg [simp]: "0 \<le> f_of_u64 w"
  by (simp add: f_of_u64_def)

lemma percent_bounds:
  assumes "unat a \<le> unat b"
  shows "0 \<le> fmul (fdiv (f_of_u64 a) (f_of_u64 b)) 100" and "fmul (fdiv (f_of_u64 a) (f_of_u64 b)) 100 \<le> 100"
proof -
  have q: "fdiv (f_of_u64 a) (f_of_u64 b) \<le> 1"
  proof (cases "f_of_u64 b = 0")
    case False
    then have "0 < f_of_u64 b" using f_of_u64_nonneg [of b] by (simp add: less_le)
    then have "f_of_u64 a / f_of_u64 b \<le> 1" using f_of_u64_mono [OF assms] by simp
    then show ?thesis using fl_mono [of "f_of_u64 a / f_of_u64 b" 1] by (simp add: fdiv_def)
  qed (simp add: fdiv_def)
  show "0 \<le> fmul (fdiv (f_of_u64 a) (f_of_u64 b)) 100" by (intro fmul_nonneg fdiv_nonneg) simp_all
  have "fmul (fdiv (f_of_u64 a) (f_of_u64 b)) 100 \<le> fmul 1 100" by (intro fmul_mono q) simp
  then show "fmul (fdiv (f_of_u64 a) (f_of_u64 b)) 100 \<le> 100" by (simp add: fmul_def)
qed

text \<open>Counters that only grow: the idle time is one of the summands, so its share of the difference is at most the whole.\<close>

lemma growing_idle:
  assumes "length ns = length ms" and "\<forall>i < length ns. ns ! i \<le> ms ! i" and "k < length ns"
  shows "sum_list ns \<le> sum_list ms" and "(ms ! k :: nat) - ns ! k \<le> sum_list ms - sum_list ns"
proof -
  have "sum_list ns \<le> sum_list ms \<and> (k < length ns \<longrightarrow> ms ! k - ns ! k \<le> sum_list ms - sum_list ns)"
    using assms(1,2)
  proof (induction ns ms arbitrary: k rule: list_induct2)
    case (Cons n ns m ms)
    have "n \<le> m" using Cons.prems by (force dest: spec [of _ 0])
    moreover have "\<forall>i < length ns. ns ! i \<le> ms ! i" using Cons.prems by (force dest: spec [of _ "Suc _"])
    ultimately show ?case using Cons.IH [of "k - 1"] by (cases k) auto
  qed simp
  then show "sum_list ns \<le> sum_list ms" "ms ! k - ns ! k \<le> sum_list ms - sum_list ns" using assms(3) by auto
qed

lemma unat_diff_of_nat: "a \<le> b \<Longrightarrow> b < 2 ^ 64 \<Longrightarrow> unat ((of_nat b :: u64) - of_nat a) = b - a"
  by (simp flip: of_nat_diff add: unat_of_nat take_bit_nat_eq_self)

subsection \<open>The processor over many readings\<close>

definition cpu_ok :: "nat list \<Rightarrow> cpu_state \<Rightarrow> bool" where
  "cpu_ok ns st \<longleftrightarrow> 4 \<le> length ns \<and> cp_Total st = of_nat (sum_list ns) \<and> cp_Idle st = of_nat (ns ! 3) \<and>
     0 \<le> cp_Pct st \<and> cp_Pct st \<le> 100"

lemma cpu_step:
  assumes ok: "cpu_ok ns st" and vals: "cpu_counters stat = Some vals" and len: "length ns = length vals"
    and grow: "\<forall>i < length ns. ns ! i \<le> unat (vals ! i)" and small: "sum_list (map unat vals) < 2 ^ 64"
    and step: "readCPUUsage now stat st = (p, st')"
  shows "0 \<le> p \<and> p \<le> 100 \<and> (st' = st \<or> cpu_ok (map unat vals) st')"
proof (cases "time_sub now (cp_Time st) < 500 * millisecond")
  case True
  then show ?thesis using step ok by (auto simp: readCPUUsage_def cpu_ok_def)
next
  case False
  define ms where "ms = map unat vals"
  have four: "3 < length ns" and len': "length ns = length ms" using ok len by (auto simp: cpu_ok_def ms_def)
  have grow': "\<forall>i < length ns. ns ! i \<le> ms ! i" using grow len by (simp add: ms_def)
  note d = growing_idle [OF len' grow' four]
  have sms: "sum_list ms < 2 ^ 64" using small by (simp add: ms_def)
  have idle: "vals ! 3 = of_nat (ms ! 3)" using four len by (simp add: ms_def)
  have le3: "ns ! 3 \<le> ms ! 3" using grow' four by blast
  have ms3: "ms ! 3 < 2 ^ 64" using four len' elem_le_sum_list [of 3 ms] sms by linarith
  have total: "sum_list vals = of_nat (sum_list ms)" by (simp add: ms_def sum_unat)
  let ?dT = "sum_list vals - cp_Total st" and ?dI = "vals ! 3 - cp_Idle st"
  have dT: "unat ?dT = sum_list ms - sum_list ns" using ok d(1) sms by (simp only: total cpu_ok_def unat_diff_of_nat)
  have dI: "unat ?dI = ms ! 3 - ns ! 3" using ok le3 ms3 by (simp only: idle cpu_ok_def unat_diff_of_nat)
  have "?dI \<le> ?dT" using d(2) by (simp add: word_le_nat_alt dT dI)
  then have "unat (?dT - ?dI) \<le> unat ?dT" by (simp add: unat_sub)
  note pb = percent_bounds [OF this]
  have "4 \<le> length ms" using four len' by simp
  then show ?thesis
    using pb False step ok vals four len idle total
    by (auto simp: readCPUUsage_def cpu_ok_def Let_def ms_def [symmetric] split: if_splits)
qed

text \<open>A sequence of calls, and the condition that the counters of the kernel never go down and do not overflow.\<close>

fun cpu_run :: "(gotime \<times> string list option) list \<Rightarrow> cpu_state \<Rightarrow> f64 list" where
  "cpu_run [] st = []"
| "cpu_run ((now, stat) # rs) st = (let (p, st') = readCPUUsage now stat st in p # cpu_run rs st')"

fun growing :: "nat list \<Rightarrow> (gotime \<times> string list option) list \<Rightarrow> bool" where
  "growing ns [] = True"
| "growing ns ((now, stat) # rs) = (case cpu_counters stat of None \<Rightarrow> growing ns rs
     | Some vals \<Rightarrow> list_all2 (\<le>) ns (map unat vals) \<and> sum_list (map unat vals) < 2 ^ 64 \<and> growing (map unat vals) rs)"

lemma cpu_run_bounds:
  "cpu_ok ms st \<Longrightarrow> length ms = length ns \<Longrightarrow> \<forall>i < length ns. ms ! i \<le> ns ! i \<Longrightarrow> growing ns rs \<Longrightarrow>
     \<forall>p \<in> set (cpu_run rs st). 0 \<le> p \<and> p \<le> 100"
proof (induction rs arbitrary: ns ms st)
  case (Cons r rs)
  obtain now stat p st' where r: "r = (now, stat)" and step: "readCPUUsage now stat st = (p, st')" by (metis surj_pair)
  show ?case
  proof (cases "cpu_counters stat")
    case None
    then have "(p = 0 \<or> p = cp_Pct st) \<and> st' = st" using step by (auto simp: readCPUUsage_def split: if_splits)
    moreover have "\<forall>q \<in> set (cpu_run rs st). 0 \<le> q \<and> q \<le> 100"
      by (rule Cons.IH [OF Cons.prems(1-3)]) (use Cons.prems(4) None r in simp)
    ultimately show ?thesis using Cons.prems(1) r step by (auto simp: cpu_ok_def)
  next
    case (Some vals)
    have g: "length ns = length vals" "\<forall>i < length ns. ns ! i \<le> unat (vals ! i)" "sum_list (map unat vals) < 2 ^ 64"
        "growing (map unat vals) rs" using Cons.prems(4) Some r by (auto simp: list_all2_conv_all_nth)
    have "\<forall>i < length ms. ms ! i \<le> unat (vals ! i)" using g(2) Cons.prems(2,3) by (metis order.trans)
    then have p: "0 \<le> p \<and> p \<le> 100" and st': "st' = st \<or> cpu_ok (map unat vals) st'"
      using cpu_step [OF Cons.prems(1) Some _ _ g(3) step] Cons.prems(2) g(1) by auto
    have "\<exists>ks. cpu_ok ks st' \<and> length ks = length (map unat vals) \<and> (\<forall>i < length (map unat vals). ks ! i \<le> map unat vals ! i)"
      using st'
    proof
      assume "st' = st"
      then show ?thesis using Cons.prems(1-3) g(1,2) by (intro exI [of _ ms]) (auto intro: order.trans)
    qed (auto intro!: exI [of _ "map unat vals"])
    then show ?thesis using Cons.IH [OF _ _ _ g(4)] p step r by auto
  qed
qed simp

text \<open>
  However often and at whatever moments the load of the processor is asked for, also when the file cannot be read in between, every percentage
  lies between 0 and 100, rounding and the wrap-around of the differences included, as long as the counters of the kernel grow.
\<close>

theorem cpu_percentage_bounds:
  assumes "growing (replicate n 0) rs" and "4 \<le> n" and "p \<in> set (cpu_run rs initial_cpu)"
  shows "0 \<le> p \<and> p \<le> 100"
proof -
  have "cpu_ok (replicate n 0) initial_cpu" using assms(2) by (simp add: cpu_ok_def initial_cpu_def sum_list_replicate)
  from cpu_run_bounds [OF this _ _ assms(1)] show ?thesis using assms(3) by simp
qed

definition two_readings :: "(gotime \<times> string list option) list" where
  "two_readings = [(second, Some [''cpu  10 0 10 80 0'']), (2 * second, None), (3 * second, Some [''cpu  40 0 20 140 0''])]"

lemma demo_counters:
  "cpu_counters (Some [''cpu  10 0 10 80 0'']) = Some [10, 0, 10, 80, 0]"
  "cpu_counters (Some [''cpu  40 0 20 140 0'']) = Some [40, 0, 20, 140, 0]"
  by code_simp+

lemma no_counters: "cpu_counters None = None"
  by (simp add: cpu_counters_def)

lemma two_readings_growing: "growing (replicate 5 0) two_readings"
proof -
  have "replicate 5 (0 :: nat) = [0, 0, 0, 0, 0]" by (simp add: eval_nat_numeral)
  then show ?thesis by (simp add: two_readings_def demo_counters no_counters)
qed

lemma demo_percent: "fmul (fdiv 20 100) 100 = 20" "fmul (fdiv 40 100) 100 = 40"
  by code_simp+

lemma two_readings_run: "cpu_run two_readings initial_cpu = [20, 0, 40]"
  by (simp add: two_readings_def readCPUUsage_def demo_counters no_counters initial_cpu_def time_sub_def min_int64_def max_int64_def
      duration_defs zero_time_def f_of_u64_def f_of_int_small demo_percent Let_def)

lemma cpu_percentage_bounds_witness: "0 \<le> (40 :: rat) \<and> (40 :: rat) \<le> 100"
  by (rule cpu_percentage_bounds [OF two_readings_growing]) (simp_all add: two_readings_run)

text \<open>Where IPv6 is off there is one table and one header, but two lines are subtracted: one connection too few.\<close>

lemma tcp_count_without_ipv6:
  "1 \<le> n \<Longrightarrow> fst (readTCPConnections now [Some (header # replicate n line), None] initial_tcp) = int n - 1"
  if "zero_time + 2 * second \<le> now"
  using that by (auto simp: readTCPConnections_def initial_tcp_def time_sub_def duration_defs min_int64_def max_int64_def zero_time_def Let_def)

end
