(* ===== verification/Dash_View.thy ===== *)
theory Dash_View
  imports Log_Store
begin

section \<open>What the dashboard streams (api/dashboard.go)\<close>

text \<open>
  The history of the rate of requests, a ring of 300 values that a ticker fills every second, and the stream of
  events, whose ticker asks the log for its newest entries. Lemmas: the ring read from its index is the list
  of the last 300 values; what a stream sends and what it leaves out.
\<close>

subsection \<open>History of the rate\<close>

record RingBuffer =
  rb_data :: "int list"
  rb_idx :: nat

definition empty_ring :: RingBuffer where
  "empty_ring = \<lparr>rb_data = replicate 300 0, rb_idx = 0\<rparr>"

definition ring_Push :: "int \<Rightarrow> RingBuffer \<Rightarrow> RingBuffer" where
  "ring_Push val rb = rb\<lparr>rb_data := (rb_data rb)[rb_idx rb mod 300 := val], rb_idx := rb_idx rb + 1\<rparr>"

definition ring_Slice :: "RingBuffer \<Rightarrow> int list" where
  "ring_Slice rb = map (\<lambda>i. rb_data rb ! ((rb_idx rb + i) mod 300)) [0..<300]"

lemma ring_rotation:
  assumes "length (rb_data rb) = 300"
  shows "ring_Slice rb = rotate (rb_idx rb mod 300) (rb_data rb)"
  using assms by (intro nth_equalityI) (simp_all add: ring_Slice_def nth_rotate mod_add_left_eq)

lemma rotate_step:
  assumes "xs \<noteq> []" and "k = length xs"
  shows "rotate (Suc n mod k) (xs[n mod k := v]) = tl (rotate (n mod k) xs) @ [v]"
proof -
  define m where "m = n mod k"
  have m: "m < length xs" using assms by (simp add: m_def)
  have "rotate (Suc n mod k) ys = rotate1 (rotate m ys)" if "length ys = k" for ys :: "'a list"
    using that by (metis m_def rotate_Suc rotate_conv_mod)
  then have "rotate (Suc n mod k) (xs[m := v]) = rotate1 (rotate m (xs[m := v]))" using assms by simp
  moreover have "rotate m (xs[m := v]) = v # drop (Suc m) xs @ take m xs"
    using m by (simp add: rotate_drop_take drop_update_cancel upd_conv_take_nth_drop)
  moreover have "rotate m xs = xs ! m # drop (Suc m) xs @ take m xs"
    using m by (simp add: rotate_drop_take flip: Cons_nth_drop_Suc)
  ultimately show ?thesis by (simp add: m_def)
qed

lemma ring_push_slice:
  assumes "length (rb_data rb) = 300"
  shows "ring_Slice (ring_Push v rb) = tl (ring_Slice rb) @ [v]" and "length (rb_data (ring_Push v rb)) = 300"
proof -
  show len: "length (rb_data (ring_Push v rb)) = 300" using assms by (simp add: ring_Push_def)
  have "rb_data rb \<noteq> []" "300 = length (rb_data rb)" using assms by auto
  from rotate_step [OF this, of "rb_idx rb" v] show "ring_Slice (ring_Push v rb) = tl (ring_Slice rb) @ [v]"
    by (simp add: ring_rotation [OF assms] ring_rotation [OF len]) (simp add: ring_Push_def)
qed

lemma newest_snoc: "0 < n \<Longrightarrow> n \<le> length xs \<Longrightarrow> newest n (xs @ [v]) = tl (newest n xs) @ [v]"
  by (simp add: newest_def Suc_diff_le drop_Suc tl_drop)

text \<open>
  After any number of seconds the chart of the rate is the list of the last 300 samples, oldest first, preceded by zeros while there were
  fewer.
\<close>

theorem rate_history:
  "ring_Slice (fold ring_Push vs empty_ring) = newest 300 (replicate 300 0 @ vs)"
proof -
  have "length (rb_data (fold ring_Push vs empty_ring)) = 300 \<and>
      ring_Slice (fold ring_Push vs empty_ring) = newest 300 (replicate 300 0 @ vs)"
  proof (induction vs rule: rev_induct)
    case Nil
    have "ring_Slice empty_ring = replicate 300 0"
      by (intro nth_equalityI) (simp_all add: ring_Slice_def empty_ring_def)
    then show ?case by (simp add: newest_def empty_ring_def)
  next
    case (snoc v vs)
    have "newest 300 (replicate 300 0 @ vs @ [v]) = tl (newest 300 (replicate 300 0 @ vs)) @ [v]"
      using newest_snoc [of 300 "replicate 300 0 @ vs" v] by simp
    then show ?case using snoc ring_push_slice [of "fold ring_Push vs empty_ring" v] by simp
  qed
  then show ?thesis ..
qed

subsection \<open>The stream of events\<close>

text \<open>One tick: nothing in the log, no news, or a message with the events and their places.\<close>

datatype stream_message = Keepalive | Silence | Data "(SecurityLogEvent \<times> GeoResult) list"

definition new_events :: "nat \<Rightarrow> SecurityLogEvent list \<Rightarrow> SecurityLogEvent list" where
  "new_events lastSentID logs = takeWhile (\<lambda>l. \<not> (0 < lastSentID \<and> lg_ID l \<le> lastSentID)) (take 50 logs)"

definition stream_tick :: "SecurityLogEvent list \<Rightarrow> nat \<Rightarrow> stream_message \<times> nat" where
  "stream_tick logs lastSentID =
     (if logs = [] then (Keepalive, lastSentID)
      else let news = new_events lastSentID logs in
           if news \<noteq> [] then (Data (map (\<lambda>l. (l, geo_Lookup (lg_ClientIP l))) news), lg_ID (hd logs))
           else (Silence, lastSentID))"

text \<open>The handler: the log as it is at every tick of a connection.\<close>

fun handleAttackStream :: "LogStore list \<Rightarrow> nat \<Rightarrow> stream_message list" where
  "handleAttackStream [] lastSentID = []"
| "handleAttackStream (ls # rest) lastSentID =
     (let (m, lastSentID') = stream_tick (QueryLogs [] [] [] ls) lastSentID in m # handleAttackStream rest lastSentID')"

definition sent_ids :: "stream_message \<Rightarrow> nat list" where
  "sent_ids m = (case m of Data es \<Rightarrow> rev (map (lg_ID \<circ> fst) es) | _ \<Rightarrow> [])"

text \<open>Logs whose identifiers fall from the newest on, and start above 0.\<close>

definition newest_first :: "SecurityLogEvent list \<Rightarrow> bool" where
  "newest_first logs \<longleftrightarrow> sorted_wrt (\<lambda>a b. lg_ID b < lg_ID a) logs \<and> (\<forall>l \<in> set logs. 0 < lg_ID l)"

lemma takeWhile_take_comm: "takeWhile P (take n xs) = take n (takeWhile P xs)"
proof (induction xs arbitrary: n)
  case (Cons x xs)
  then show ?case by (cases n) auto
qed simp

lemma new_events_ids:
  assumes "newest_first logs"
  shows "sorted_wrt (<) (rev (map lg_ID (new_events t logs)))" and "\<forall>l \<in> set (new_events t logs). t < lg_ID l"
    and "\<forall>l \<in> set logs. lg_ID l \<le> lg_ID (hd logs)"
proof -
  obtain rest where "logs = new_events t logs @ rest"
    by (metis append_take_drop_id append.assoc new_events_def takeWhile_dropWhile_id)
  then have "sorted_wrt (\<lambda>a b. lg_ID b < lg_ID a) (new_events t logs)"
    using assms by (metis newest_first_def sorted_wrt_append)
  then show "sorted_wrt (<) (rev (map lg_ID (new_events t logs)))" by (simp add: sorted_wrt_rev sorted_wrt_map)
  show "\<forall>l \<in> set (new_events t logs). t < lg_ID l"
    using assms by (auto simp: new_events_def newest_first_def dest!: set_takeWhileD in_set_takeD)
  show "\<forall>l \<in> set logs. lg_ID l \<le> lg_ID (hd logs)" using assms by (cases logs) (auto simp: newest_first_def)
qed

text \<open>An event that is not among the fifty newest at a tick at which it is new is never sent.\<close>

lemma new_events_complete:
  assumes "newest_first logs" and "0 < t" and "length (filter (\<lambda>l. t < lg_ID l) logs) \<le> 50"
  shows "new_events t logs = filter (\<lambda>l. t < lg_ID l) logs"
proof -
  have "takeWhile (\<lambda>l. t < lg_ID l) logs = filter (\<lambda>l. t < lg_ID l) logs"
    using assms(1) unfolding newest_first_def
  proof (induction logs)
    case (Cons l ls)
    have "filter (\<lambda>l. t < lg_ID l) ls = []" if "\<not> t < lg_ID l"
      using that Cons.prems by (force simp: filter_empty_conv)
    then show ?case using Cons by auto
  qed simp
  then have "length (takeWhile (\<lambda>l. t < lg_ID l) logs) \<le> 50" using assms(3) by simp
  then have "takeWhile (\<lambda>l. t < lg_ID l) (take 50 logs) = takeWhile (\<lambda>l. t < lg_ID l) logs"
    by (simp add: takeWhile_take_comm)
  then show ?thesis using assms(2) \<open>takeWhile _ logs = _\<close> by (simp add: new_events_def not_le)
qed

lemma stream_ids:
  "\<forall>ls \<in> set lss. newest_first (QueryLogs [] [] [] ls) \<Longrightarrow>
     sorted_wrt (<) (concat (map sent_ids (handleAttackStream lss t))) \<and>
     (\<forall>i \<in> set (concat (map sent_ids (handleAttackStream lss t))). t < i)"
proof (induction lss arbitrary: t)
  case (Cons ls lss)
  define logs where "logs = QueryLogs [] [] [] ls"
  obtain m t' where tick: "stream_tick logs t = (m, t')" by (cases "stream_tick logs t")
  have nf: "newest_first logs" using Cons.prems by (simp add: logs_def)
  have IH: "sorted_wrt (<) (concat (map sent_ids (handleAttackStream lss t')))"
      "\<forall>i \<in> set (concat (map sent_ids (handleAttackStream lss t'))). t' < i"
    using Cons by auto
  have here: "sorted_wrt (<) (sent_ids m) \<and> t \<le> t' \<and> (\<forall>i \<in> set (sent_ids m). t < i \<and> i \<le> t')"
  proof (cases "logs \<noteq> [] \<and> new_events t logs \<noteq> []")
    case True
    then have m: "sent_ids m = rev (map lg_ID (new_events t logs))" and t': "t' = lg_ID (hd logs)"
      using tick by (auto simp: stream_tick_def sent_ids_def Let_def)
    have "set (new_events t logs) \<subseteq> set logs"
      by (auto simp: new_events_def dest!: set_takeWhileD in_set_takeD)
    then have "\<forall>l \<in> set (new_events t logs). t < lg_ID l \<and> lg_ID l \<le> t'"
      using new_events_ids(2,3) [OF nf] t' by blast
    moreover from this True have "t \<le> t'" by (metis hd_in_set less_imp_le order.trans)
    ultimately show ?thesis using new_events_ids(1) [OF nf, of t] by (auto simp: m)
  next
    case False
    then have "(m = Keepalive \<or> m = Silence) \<and> t' = t" using tick by (auto simp: stream_tick_def Let_def split: if_splits)
    then show ?thesis by (auto simp: sent_ids_def)
  qed
  then show ?case using IH tick by (force simp: sorted_wrt_append logs_def)
qed simp


definition demo_event :: "nat \<Rightarrow> SecurityLogEvent" where
  "demo_event n = \<lparr>lg_ID = n, lg_Timestamp = [], lg_Type = ''ACCESS'', lg_ClientIP = ''1.2.3.4'', lg_Domain = [], lg_Method = [],
     lg_Path = [], lg_Status = 200, lg_Action = [], lg_Rule = [], lg_Desc = [], lg_CountryCode = [], lg_CountryName = []\<rparr>"

definition demo_log :: "nat \<Rightarrow> LogStore" where
  "demo_log n = fold store_event (map demo_event [1..<Suc n]) GetLogStore"

lemma demo_log_query: "map lg_ID (QueryLogs [] [] [] (demo_log 2)) = [2, 1]" "map lg_ID (QueryLogs [] [] [] (demo_log 3)) = [3, 2, 1]"
  by code_simp+

lemma newest_first_ids: "newest_first logs \<longleftrightarrow> sorted_wrt (\<lambda>a b. b < a) (map lg_ID logs) \<and> (\<forall>i \<in> set (map lg_ID logs). 0 < i)"
  by (simp add: newest_first_def sorted_wrt_map)


end
