(* ===== verification/Dash_Cluster.thy ===== *)
theory Dash_Cluster
  imports Node Alerts Server_Run Host_Stats Dash_View "HOL-Library.Multiset"
begin

section \<open>What the dashboard shows of the cluster (api/dashboard.go)\<close>

text \<open>
  The read-only answers of the dashboard: the counters and the load of all nodes, the nodes with their places, the check of a domain's DNS,
  health and configuration. The names behind these are what \<open>main\<close> passes in \<open>StatsAdapter\<close>. A peer answers with a JSON object,
  here a map from keys to numbers or other values; \<open>reply\<close> gives the answer of a host, \<open>None\<close> where it fails or cannot be read, and
  \<open>arrival\<close> the hosts in the order in which their answers come in. Names are resolved by the argument \<open>resolve\<close>.
  Lemmas: the counters are sums that do not depend on the order of the answers; every node has a place; what counts as pointing here.
\<close>

subsection \<open>Statistics of this node\<close>

record StatsProvider =
  sp_TotalRequests :: int
  sp_BlockedRequests :: int
  sp_PassedRequests :: int
  sp_CurrentRPS :: int
  sp_PeakRPS :: int
  sp_ActiveConns :: int
  sp_BannedIPs :: int
  sp_AttacksDetected :: int
  sp_XDP :: "bool \<times> int \<times> int"
  sp_Early :: "int \<times> int"
  sp_Cache :: "int \<times> int \<times> int"
  sp_Mesh :: "bool \<times> int"
  sp_Members :: "(string \<times> string) list"
  sp_Uptime :: gotime

text \<open>The adapter over the running server; \<open>early\<close> are the counters of the sniffer, \<open>mesh\<close> the members, if there is a mesh.\<close>

definition stats_adapter :: "int \<times> int \<Rightarrow> (string \<times> string) list option \<Rightarrow> Shield \<Rightarrow> StatsProvider \<times> Shield" where
  "stats_adapter early mesh s =
     (let (xdp, s') = GetXDPStats s; st = sh_stats s in
      (\<lparr>sp_TotalRequests = st_TotalRequests st, sp_BlockedRequests = st_BlockedRequests st, sp_PassedRequests = st_PassedRequests st,
        sp_CurrentRPS = st_CurrentRPS st, sp_PeakRPS = st_PeakRPS st, sp_ActiveConns = st_ActiveConns st, sp_BannedIPs = st_BannedIPs st,
        sp_AttacksDetected = st_AttacksDetected st, sp_XDP = xdp, sp_Early = early, sp_Cache = cdn_GetStats (sh_cdn s),
        sp_Mesh = (case mesh of None \<Rightarrow> (False, 0) | Some ms \<Rightarrow> (True, int (length ms))),
        sp_Members = (case mesh of None \<Rightarrow> [] | Some ms \<Rightarrow> ms), sp_Uptime = st_Uptime st\<rparr>, s'))"

subsection \<open>Asking the other nodes\<close>

datatype json_value = Number f64 | Truth bool | Text string | OtherJson

type_synonym json_object = "(string, json_value) gomap"

definition json_number :: "string \<Rightarrow> json_object \<Rightarrow> f64 option" where
  "json_number k p = (case map_of p k of Some (Number v) \<Rightarrow> Some v | _ \<Rightarrow> None)"

definition fetchPeerStats :: "(string \<Rightarrow> json_object option) \<Rightarrow> string list \<Rightarrow> json_object list" where
  "fetchPeerStats reply arrival = List.map_filter reply arrival"

definition answers_of :: "'w surroundings \<Rightarrow> Config \<Rightarrow> string list \<Rightarrow> bool" where
  "answers_of su c arrival \<longleftrightarrow> distinct arrival \<and> set arrival = set (peers su (cfg_Cluster c))"

definition asks_peers :: "'w surroundings \<Rightarrow> request \<Rightarrow> bool" where
  "asks_peers su r \<longleftrightarrow> su_query su (r_rawquery r) ''local'' \<noteq> ''true''"

record totals =
  tot_TotalRequests :: int
  tot_BlockedRequests :: int
  tot_PassedRequests :: int
  tot_CurrentRPS :: int
  tot_PeakRPS :: int
  tot_ActiveConns :: int
  tot_ActiveBans :: int
  tot_AttacksDetected :: int
  tot_XDPDrops :: int
  tot_EarlyRejected :: int
  tot_CacheHits :: int
  tot_CacheMisses :: int
  tot_CacheBypasses :: int

definition own_totals :: "StatsProvider \<Rightarrow> totals" where
  "own_totals sp =
     \<lparr>tot_TotalRequests = sp_TotalRequests sp, tot_BlockedRequests = sp_BlockedRequests sp, tot_PassedRequests = sp_PassedRequests sp,
      tot_CurrentRPS = sp_CurrentRPS sp, tot_PeakRPS = sp_PeakRPS sp, tot_ActiveConns = sp_ActiveConns sp, tot_ActiveBans = sp_BannedIPs sp,
      tot_AttacksDetected = sp_AttacksDetected sp, tot_XDPDrops = snd (snd (sp_XDP sp)), tot_EarlyRejected = snd (sp_Early sp),
      tot_CacheHits = fst (sp_Cache sp), tot_CacheMisses = fst (snd (sp_Cache sp)), tot_CacheBypasses = snd (snd (sp_Cache sp))\<rparr>"

definition peer_count :: "string \<Rightarrow> json_object \<Rightarrow> int" where
  "peer_count k p = (case json_number k p of None \<Rightarrow> 0 | Some v \<Rightarrow> f_trunc v)"

definition peer_peak :: "json_object \<Rightarrow> int \<Rightarrow> int" where
  "peer_peak p n = (case json_number ''peak_rps'' p of None \<Rightarrow> n | Some v \<Rightarrow> if n < f_trunc v then f_trunc v else n)"

definition add_peer :: "json_object \<Rightarrow> totals \<Rightarrow> totals" where
  "add_peer p t =
     \<lparr>tot_TotalRequests = tot_TotalRequests t + peer_count ''total_requests'' p,
      tot_BlockedRequests = tot_BlockedRequests t + peer_count ''blocked_requests'' p,
      tot_PassedRequests = tot_PassedRequests t + peer_count ''passed_requests'' p,
      tot_CurrentRPS = tot_CurrentRPS t + peer_count ''current_rps'' p,
      tot_PeakRPS = peer_peak p (tot_PeakRPS t),
      tot_ActiveConns = tot_ActiveConns t + peer_count ''active_conns'' p,
      tot_ActiveBans = tot_ActiveBans t + peer_count ''active_bans'' p,
      tot_AttacksDetected = tot_AttacksDetected t + peer_count ''attacks_detected'' p,
      tot_XDPDrops = tot_XDPDrops t + peer_count ''xdp_dropped_pkts'' p,
      tot_EarlyRejected = tot_EarlyRejected t + peer_count ''early_rejected'' p,
      tot_CacheHits = tot_CacheHits t + peer_count ''cache_hits'' p,
      tot_CacheMisses = tot_CacheMisses t + peer_count ''cache_misses'' p,
      tot_CacheBypasses = tot_CacheBypasses t + peer_count ''cache_bypasses'' p\<rparr>"

record stats_reply =
  sr_totals :: totals
  sr_xdp_enabled :: bool
  sr_xdp_banned :: int
  sr_early_processed :: int
  sr_mesh :: "bool \<times> int"
  sr_members :: "(string \<times> string) list"
  sr_detection :: "bool list"
  sr_ratelimit :: "int \<times> int"
  sr_mode :: string
  sr_domains :: nat
  sr_uptime :: f64
  sr_telegram :: TelegramStatusInfo

definition GetTelegramStatus :: "AlertManager \<Rightarrow> TelegramStatusInfo" where
  "GetTelegramStatus a = am_tgStatus a"

definition telegram_info :: "Config \<Rightarrow> AlertManager option \<Rightarrow> TelegramStatusInfo" where
  "telegram_info c alerts = (case alerts of Some a \<Rightarrow> GetTelegramStatus a
     | None \<Rightarrow> \<lparr>tgs_Connected = (tg_Enabled (al_Telegram (cfg_Alerts c)) \<and> tg_Token (al_Telegram (cfg_Alerts c)) \<noteq> [] \<and>
                  tg_ChatID (al_Telegram (cfg_Alerts c)) \<noteq> []),
                tgs_LastSentAt = zero_time, tgs_LastError = [], tgs_TotalSent = 0, tgs_TotalFailed = 0\<rparr>)"

definition handleStats ::
  "'w surroundings \<Rightarrow> request \<Rightarrow> Config \<Rightarrow> StatsProvider \<Rightarrow> AlertManager option \<Rightarrow> gotime \<Rightarrow> (string \<Rightarrow> json_object option) \<Rightarrow> string list \<Rightarrow> stats_reply" where
  "handleStats su r c sp alerts startTime reply arrival =
     \<lparr>sr_totals = (if asks_peers su r then fold add_peer (fetchPeerStats reply arrival) (own_totals sp) else own_totals sp),
      sr_xdp_enabled = fst (sp_XDP sp), sr_xdp_banned = fst (snd (sp_XDP sp)), sr_early_processed = fst (sp_Early sp),
      sr_mesh = sp_Mesh sp, sr_members = sp_Members sp,
      sr_detection = [ja3_Enabled (fpc_JA3 (cfg_Fingerprint c)), ja4_Enabled (fpc_JA4 (cfg_Fingerprint c)),
        h2fp_Enabled (fpc_HTTP2 (cfg_Fingerprint c)), bc_Enabled (det_BotClassifier (cfg_Detection c)),
        bl_Enabled (det_Baseline (cfg_Detection c)), geo_Enabled (itl_GeoIP (cfg_Intelligence c))],
      sr_ratelimit = (rl_RequestsPerSecond (pr_RateLimit (cfg_Protection c)), rl_Burst (pr_RateLimit (cfg_Protection c))),
      sr_mode = pr_Mode (cfg_Protection c), sr_domains = length (cfg_Domains c),
      sr_uptime = seconds (time_sub (su_now su) startTime), sr_telegram = telegram_info c alerts\<rparr>"

subsection \<open>Load of the nodes\<close>

record host_load =
  hl_cpu :: f64
  hl_ram :: "u64 \<times> u64 \<times> u64"
  hl_disk :: "f64 \<times> f64 \<times> f64"
  hl_load :: "f64 \<times> f64 \<times> f64"
  hl_net :: "u64 \<times> u64"
  hl_tcp :: int
  hl_goroutines :: int
  hl_nodes :: int

definition add_number :: "string \<Rightarrow> json_object \<Rightarrow> f64 \<Rightarrow> f64" where
  "add_number k p x = (case json_number k p of None \<Rightarrow> x | Some v \<Rightarrow> fadd x v)"

definition add_unsigned :: "string \<Rightarrow> json_object \<Rightarrow> u64 \<Rightarrow> u64" where
  "add_unsigned k p w = (case json_number k p of None \<Rightarrow> w | Some v \<Rightarrow> w + word_of_int (f_trunc v))"

definition add_load :: "json_object \<Rightarrow> host_load \<Rightarrow> host_load" where
  "add_load p h =
     \<lparr>hl_cpu = add_number ''cpu_percent'' p (hl_cpu h),
      hl_ram = (case hl_ram h of (t, u, a) \<Rightarrow> (add_unsigned ''ram_total_mb'' p t, add_unsigned ''ram_used_mb'' p u, add_unsigned ''ram_avail_mb'' p a)),
      hl_disk = (case hl_disk h of (t, u, pc) \<Rightarrow> (add_number ''disk_total_gb'' p t, add_number ''disk_used_gb'' p u, pc)),
      hl_load = (case hl_load h of (a, b, c) \<Rightarrow> (add_number ''load_1m'' p a, add_number ''load_5m'' p b, add_number ''load_15m'' p c)),
      hl_net = (case hl_net h of (rx, tx) \<Rightarrow> (add_unsigned ''net_rx_bytes'' p rx, add_unsigned ''net_tx_bytes'' p tx)),
      hl_tcp = hl_tcp h + peer_count ''tcp_connections'' p, hl_goroutines = hl_goroutines h + peer_count ''goroutines'' p,
      hl_nodes = hl_nodes h + 1\<rparr>"

definition averaged :: "host_load \<Rightarrow> host_load" where
  "averaged h =
     (if 1 < hl_nodes h
      then let n = f_of_int (hl_nodes h) in
        h\<lparr>hl_cpu := fdiv (hl_cpu h) n,
          hl_load := (case hl_load h of (a, b, c) \<Rightarrow> (fdiv a n, fdiv b n, fdiv c n)),
          hl_disk := (case hl_disk h of (t, u, pc) \<Rightarrow> (t, u, if 0 < t then fmul (fdiv u t) 100 else pc))\<rparr>
      else h)"

record proc_files =
  pf_stat :: "string list option"
  pf_meminfo :: "string list option"
  pf_statfs :: "(u64 \<times> u64 \<times> u64) option"
  pf_loadavg :: "string option"
  pf_netdev :: "string list option"
  pf_uptime :: "string option"
  pf_tcp :: "string list option"
  pf_tcp6 :: "string list option"
  pf_other :: "string \<Rightarrow> f64"
  pf_goroutines :: int
  pf_cpus :: int

definition own_load :: "proc_files \<Rightarrow> gotime \<Rightarrow> cpu_state \<Rightarrow> tcp_state \<Rightarrow> host_load \<times> cpu_state \<times> tcp_state" where
  "own_load pf now cs ts =
     (let (cpu, cs') = readCPUUsage now (pf_stat pf) cs; (conns, ts') = readTCPConnections now [pf_tcp pf, pf_tcp6 pf] ts in
      (\<lparr>hl_cpu = cpu, hl_ram = readMemInfo (pf_meminfo pf), hl_disk = readDiskUsage (pf_statfs pf),
        hl_load = readLoadAvg (pf_other pf) (pf_loadavg pf), hl_net = readNetworkStats (pf_netdev pf),
        hl_tcp = conns, hl_goroutines = pf_goroutines pf, hl_nodes = 1\<rparr>, cs', ts'))"

text \<open>The reply: the load, the uptime, the number of processors and the time.\<close>

definition handleSystemStats ::
  "'w surroundings \<Rightarrow> request \<Rightarrow> proc_files \<Rightarrow> (string \<Rightarrow> json_object option) \<Rightarrow> string list \<Rightarrow> cpu_state \<times> tcp_state \<Rightarrow>
     (host_load \<times> f64 \<times> int \<times> int) \<times> cpu_state \<times> tcp_state" where
  "handleSystemStats su r pf reply arrival st =
     (let (own, st') = own_load pf (su_now su) (fst st) (snd st);
          h = (if asks_peers su r then averaged (fold add_load (fetchPeerStats reply arrival) own) else own)
      in ((h, readUptime (pf_other pf) (pf_uptime pf), pf_cpus pf * hl_nodes h, unix_sec (su_now su)), st'))"
subsection \<open>Nodes and their places\<close>

definition configured_nodes :: "ClusterConfig \<Rightarrow> (string \<times> string) list" where
  "configured_nodes c =
     (if clu_NodeName c = [] then ''mango-node-primary'' else clu_NodeName c, if clu_AdvertiseIP c = [] then ''127.0.0.1'' else clu_AdvertiseIP c) #
     map (\<lambda>(i, peer). (''mango-peer-node-'' @ itoa (int i + 1), join_host peer)) (enumerate 0 (clu_JoinPeers c))"

definition shown_nodes :: "ClusterConfig \<Rightarrow> (string \<times> string) list option \<Rightarrow> (string \<times> string) list" where
  "shown_nodes c mesh = (case mesh of None \<Rightarrow> configured_nodes c | Some ms \<Rightarrow> if ms = [] then configured_nodes c else ms)"

text \<open>The address of a node: a part of its name that is an address, else the host of its address.\<close>

definition named_ip :: "string \<times> string \<Rightarrow> string" where
  "named_ip n = (case find (\<lambda>part. parse_ip part \<noteq> None) (split_at CHR ''-'' (fst n)) of
     Some part \<Rightarrow> part | None \<Rightarrow> join_host (snd n))"

definition private_ip :: "string \<Rightarrow> bool" where
  "private_ip ip = (case parse_ip ip of None \<Rightarrow> True
     | Some b \<Rightarrow> (case to4 b of None \<Rightarrow> True
         | Some v \<Rightarrow> v ! 0 = 127 \<or> v ! 0 = 10 \<or> (v ! 0 = 172 \<and> 16 \<le> v ! 1 \<and> v ! 1 \<le> 31) \<or> (v ! 0 = 192 \<and> v ! 1 = 168)))"

definition node_index :: "(string \<times> string) list \<Rightarrow> string \<Rightarrow> nat" where
  "node_index nodes name = (case find (\<lambda>(i, m). fst m = name) (enumerate 0 nodes) of Some (i, m) \<Rightarrow> i | None \<Rightarrow> 0)"

text \<open>\<open>None\<close> would be an index out of range.\<close>

definition public_ip :: "ClusterConfig \<Rightarrow> (string \<times> string) list \<Rightarrow> string \<times> string \<Rightarrow> string option" where
  "public_ip c nodes n =
     (let ip = named_ip n; jp = clu_JoinPeers c in
      if private_ip ip \<and> jp \<noteq> []
      then let idx = node_index nodes (fst n); idx = (if length jp \<le> idx then length jp - 1 else idx)
           in if idx < length jp then Some (if jp ! idx = [] then ip else join_host (jp ! idx)) else None
      else Some ip)"

definition fallback_places :: "(f64 \<times> f64) list" where
  "fallback_places = [(fl (210285 / 10000), fl (1058542 / 10000)), (fl (108231 / 10000), fl (1066297 / 10000)), (fl (160544 / 10000), fl (1082022 / 10000))]"

record ResponseNode =
  rn_Name :: string
  rn_Addr :: string
  rn_IP :: string
  rn_Latitude :: f64
  rn_Longitude :: f64

definition response_node :: "ClusterConfig \<Rightarrow> (string \<times> string) list \<Rightarrow> string \<times> string \<Rightarrow> ResponseNode option" where
  "response_node c nodes n = (case public_ip c nodes n of None \<Rightarrow> None
     | Some ip \<Rightarrow>
         (let g = geo_Lookup ip;
              (lat, lon) = (if ge_Latitude g = 0 \<and> ge_Longitude g = 0
                            then fallback_places ! (node_index nodes (fst n) mod length fallback_places)
                            else (ge_Latitude g, ge_Longitude g))
          in Some \<lparr>rn_Name = fst n, rn_Addr = snd n, rn_IP = ip, rn_Latitude = lat, rn_Longitude = lon\<rparr>))"

definition handleNodes :: "ClusterConfig \<Rightarrow> (string \<times> string) list option \<Rightarrow> ResponseNode list option" where
  "handleNodes c mesh = (let nodes = shown_nodes c mesh; rs = map (response_node c nodes) nodes in
     if None \<in> set rs then None else Some (map the rs))"

subsection \<open>DNS, health, configuration\<close>

definition getClusterIPs :: "'w surroundings \<Rightarrow> ClusterConfig \<Rightarrow> string list" where
  "getClusterIPs su c =
     (let ips = remdups ((if clu_AdvertiseIP c \<noteq> [] then [clu_AdvertiseIP c] else []) @
                 map join_host (filter (\<lambda>p. p \<noteq> []) (clu_JoinPeers c)) @ filter (\<lambda>m. m \<noteq> []) (su_members su))
      in if ips = [] then [''127.0.0.1''] else ips)"

text \<open>The answers name the domain, the addresses found, the target for a \<open>CNAME\<close> and the addresses of the nodes.\<close>

datatype dns_reply = MissingDomain | DnsPending string string "string list" | DnsActive string bool "string list" string "string list"

definition cname_target :: "ClusterConfig \<Rightarrow> string" where
  "cname_target c = (if clu_CNAMETarget c = [] then ''fw.hidev.dev'' else clu_CNAMETarget c)"

definition points_here :: "string list \<Rightarrow> string \<Rightarrow> bool" where
  "points_here clusterIPs ip \<longleftrightarrow> ip \<in> set clusterIPs \<or> has_prefix ip ''104.'' \<or> has_prefix ip ''172.''"

definition handleDNSCheck :: "'w surroundings \<Rightarrow> request \<Rightarrow> ClusterConfig \<Rightarrow> (string \<Rightarrow> string list option) \<Rightarrow> dns_reply" where
  "handleDNSCheck su r c resolve =
     (let domain = su_query su (r_rawquery r) ''domain'' in
      if domain = [] then MissingDomain
      else let target = cname_target c; clusterIPs = getClusterIPs su c in
        (case resolve domain of
           None \<Rightarrow> DnsPending domain target clusterIPs
         | Some ips \<Rightarrow> DnsActive domain (list_ex (points_here clusterIPs) ips) ips target clusterIPs))"

definition handleHealth :: "gotime \<Rightarrow> StatsProvider \<Rightarrow> duration" where
  "handleHealth now sp = time_sub now (sp_Uptime sp)"

definition handleConfig :: "Config \<Rightarrow> string \<times> nat \<times> bool \<times> bool \<times> bool \<times> bool" where
  "handleConfig c = (pr_Mode (cfg_Protection c), length (cfg_Domains c), tls_Enabled (cfg_TLS c), waf_Enabled (cfg_WAF c),
     ja3_Enabled (fpc_JA3 (cfg_Fingerprint c)), ja4_Enabled (fpc_JA4 (cfg_Fingerprint c)))"

definition handleRPSHistory :: "RingBuffer \<Rightarrow> int list" where
  "handleRPSHistory rb = ring_Slice rb"

text \<open>The assets: the first of the files that exists, else what the handler writes itself.\<close>

definition asset :: "(string \<Rightarrow> bool) \<Rightarrow> string \<Rightarrow> string \<Rightarrow> string option" where
  "asset exists first other = (if exists first then Some first else if exists other then Some other else None)"

definition handleLogoMango :: "(string \<Rightarrow> bool) \<Rightarrow> string option" where
  "handleLogoMango exists = asset exists ''assets/logo-mango.png'' ''../logo-mango.png''"

definition handleLogoMangoSmall :: "(string \<Rightarrow> bool) \<Rightarrow> string option" where
  "handleLogoMangoSmall exists = asset exists ''assets/logo-mango-small.png'' ''../logo-mango-small.png''"

definition handleWorldSVG :: "(string \<Rightarrow> bool) \<Rightarrow> string option" where
  "handleWorldSVG exists = asset exists ''assets/world.svg'' ''../world.svg''"

subsection \<open>Lemmas\<close>

lemma add_peer_swap: "add_peer p (add_peer q t) = add_peer q (add_peer p t)"
  by (auto simp: add_peer_def peer_peak_def split: option.splits)

lemma fold_fetch:
  "fold add_peer (fetchPeerStats reply hs) t = fold (\<lambda>h t. case reply h of None \<Rightarrow> t | Some p \<Rightarrow> add_peer p t) hs t"
  by (induction hs arbitrary: t) (auto simp: fetchPeerStats_def map_filter_simps split: option.splits)

lemma totals_permute:
  assumes "answers_of su c hs" and "answers_of su c hs'"
  shows "fold add_peer (fetchPeerStats reply hs) t = fold add_peer (fetchPeerStats reply hs') t"
proof -
  have "mset hs = mset hs'" using assms by (simp add: answers_of_def flip: set_eq_iff_mset_eq_distinct)
  then have "fold (\<lambda>h t. case reply h of None \<Rightarrow> t | Some p \<Rightarrow> add_peer p t) hs =
      fold (\<lambda>h t. case reply h of None \<Rightarrow> t | Some p \<Rightarrow> add_peer p t) hs'"
    by (intro fold_multiset_equiv) (auto simp: fun_eq_iff add_peer_swap split: option.splits)
  then show ?thesis by (simp add: fold_fetch)
qed

lemma totals_sum:
  "tot_TotalRequests (fold add_peer ps t) = tot_TotalRequests t + (\<Sum>p \<leftarrow> ps. peer_count ''total_requests'' p)"
  "tot_BlockedRequests (fold add_peer ps t) = tot_BlockedRequests t + (\<Sum>p \<leftarrow> ps. peer_count ''blocked_requests'' p)"
  "tot_PassedRequests (fold add_peer ps t) = tot_PassedRequests t + (\<Sum>p \<leftarrow> ps. peer_count ''passed_requests'' p)"
  "tot_CurrentRPS (fold add_peer ps t) = tot_CurrentRPS t + (\<Sum>p \<leftarrow> ps. peer_count ''current_rps'' p)"
  by (induction ps arbitrary: t) (simp_all add: add_peer_def)

lemma totals_peak: "tot_PeakRPS (fold add_peer ps t) =
    fold max (List.map_filter (\<lambda>p. map_option f_trunc (json_number ''peak_rps'' p)) ps) (tot_PeakRPS t)"
  by (induction ps arbitrary: t) (auto simp: add_peer_def peer_peak_def map_filter_simps max_def split: option.splits)


lemma length_configured: "configured_nodes c \<noteq> []"
  by (simp add: configured_nodes_def)

lemma public_ip_defined: "public_ip c nodes n \<noteq> None"
  by (cases "clu_JoinPeers c") (auto simp: public_ip_def Let_def)

lemma fallback_place: "fallback_places ! (i mod length fallback_places) \<noteq> (0, 0)"
proof -
  have "i mod 3 \<in> {0, 1, 2}" by auto
  moreover have "fl x \<noteq> 0" if "0 < x" for x using fl_pos [OF that] by simp
  ultimately show ?thesis by (auto simp: fallback_places_def)
qed

text \<open>Every node of the list is answered, none of them at the place (0, 0), and no index is out of range.\<close>

lemma nodes_have_places:
  "\<exists>rs. handleNodes c mesh = Some rs \<and> map rn_Name rs = map fst (shown_nodes c mesh) \<and> rs \<noteq> [] \<and>
     (\<forall>n \<in> set rs. (rn_Latitude n, rn_Longitude n) \<noteq> (0, 0))"
proof -
  define nodes where "nodes = shown_nodes c mesh"
  have node: "\<exists>r. response_node c nodes n = Some r \<and> rn_Name r = fst n \<and> (rn_Latitude r, rn_Longitude r) \<noteq> (0, 0)" for n
    using public_ip_defined [of c nodes n] fallback_place [of "node_index nodes (fst n)"]
    by (auto simp: response_node_def Let_def split: prod.splits if_splits)
  then have "None \<notin> set (map (response_node c nodes) nodes)" by (metis (no_types, lifting) imageE list.set_map option.distinct(1))
  then have "handleNodes c mesh = Some (map (the \<circ> response_node c nodes) nodes)"
    by (simp add: handleNodes_def nodes_def Let_def)
  moreover have "nodes \<noteq> []" by (auto simp: nodes_def shown_nodes_def length_configured split: option.splits)
  moreover have "rn_Name (the (response_node c nodes n)) = fst n"
      "(rn_Latitude (the (response_node c nodes n)), rn_Longitude (the (response_node c nodes n))) \<noteq> (0, 0)" for n
    using node [of n] by auto
  ultimately show ?thesis by (auto simp: nodes_def [symmetric])
qed

text \<open>The list of join peers does not have this node itself, but is read at its index: it is shown with the address of the first peer.\<close>

lemma own_node_shown_as_peer:
  "let c = zero_ClusterConfig\<lparr>clu_NodeName := ''a'', clu_JoinPeers := [''8.8.8.8:7946'', ''1.1.1.1:7946'']\<rparr>
   in configured_nodes c = [(''a'', ''127.0.0.1''), (''mango-peer-node-1'', ''8.8.8.8''), (''mango-peer-node-2'', ''1.1.1.1'')] \<and>
      public_ip c (configured_nodes c) (''a'', ''127.0.0.1'') = Some ''8.8.8.8''"
  by code_simp

text \<open>An address of somebody else counts as pointing here if it starts with 104 or 172.\<close>

lemma foreign_address_points_here: "points_here [''203.0.113.7''] ''172.16.0.1''" "points_here [''203.0.113.7''] ''104.0.0.1''"
  by code_simp+

definition two_peers :: "unit surroundings" where
  "two_peers = \<lparr>su_now = 0, su_stamp = [], su_random = None, su_loaded = None, su_unm = (\<lambda>_. None), su_mar = (\<lambda>_. None),
     su_writable = (\<lambda>_. True), su_rfc3339 = (\<lambda>_. []), su_query = (\<lambda>_ _. []), su_basic = (\<lambda>_. None), su_members = [''10.0.0.2'', ''10.0.0.3''],
     su_bans = (\<lambda>w. ([], w)), su_call = (\<lambda>_ w. w)\<rparr>"

definition peer_reply :: "string \<Rightarrow> json_object option" where
  "peer_reply h = (if h = ''10.0.0.2'' then Some [(''total_requests'', Number 7), (''peak_rps'', Number 90)] else None)"

definition demo_provider :: StatsProvider where
  "demo_provider = \<lparr>sp_TotalRequests = 5, sp_BlockedRequests = 1, sp_PassedRequests = 4, sp_CurrentRPS = 1, sp_PeakRPS = 9, sp_ActiveConns = 0,
     sp_BannedIPs = 0, sp_AttacksDetected = 0, sp_XDP = (False, 0, 0), sp_Early = (0, 0), sp_Cache = (0, 0, 0), sp_Mesh = (True, 2),
     sp_Members = [], sp_Uptime = 0\<rparr>"

lemma two_peers_answers: "answers_of two_peers zero_Config [''10.0.0.2'', ''10.0.0.3'']" "answers_of two_peers zero_Config [''10.0.0.3'', ''10.0.0.2'']"
  by (auto simp: answers_of_def peers_def two_peers_def zero_Config_def zero_ClusterConfig_def)


end
