(* ===== verification/Cli.thy ===== *)
theory Cli
  imports Dash_Cluster
begin

section \<open>The command line client (cmd/cli/main.go)\<close>

text \<open>
  \<open>mango-cli\<close>: which command runs, what it takes from the reply of the dashboard and what it shows. \<open>get\<close> stands for the
  request to the dashboard: the JSON object of the body, whatever its status, or \<open>None\<close> if there is no connection; a body that is no object
  decodes to the empty map. The labels and the layout are left out. \<open>stats_object\<close> is the object that the
  dashboard sends for \<open>/api/stats\<close>. Lemmas: what the client shows of a reply of this dashboard.
\<close>

subsection \<open>The reply of the dashboard\<close>

definition stats_object :: "stats_reply \<Rightarrow> json_object" where
  "stats_object r =
     (let t = sr_totals r; n = (\<lambda>i. Number (f_of_int i)) in
      [(''total_requests'', n (tot_TotalRequests t)), (''blocked_requests'', n (tot_BlockedRequests t)),
       (''passed_requests'', n (tot_PassedRequests t)), (''current_rps'', n (tot_CurrentRPS t)), (''peak_rps'', n (tot_PeakRPS t)),
       (''active_conns'', n (tot_ActiveConns t)), (''active_bans'', n (tot_ActiveBans t)), (''attacks_detected'', n (tot_AttacksDetected t)),
       (''xdp_enabled'', Truth (sr_xdp_enabled r)), (''xdp_banned_ips'', n (sr_xdp_banned r)), (''xdp_dropped_pkts'', n (tot_XDPDrops t)),
       (''early_processed'', n (sr_early_processed r)), (''early_rejected'', n (tot_EarlyRejected t)),
       (''cache_hits'', n (tot_CacheHits t)), (''cache_misses'', n (tot_CacheMisses t)), (''cache_bypasses'', n (tot_CacheBypasses t)),
       (''mesh_enabled'', Truth (fst (sr_mesh r))), (''mesh_nodes'', n (snd (sr_mesh r))), (''mesh_members'', OtherJson),
       (''cfg_ja3'', Truth (sr_detection r ! 0)), (''cfg_ja4'', Truth (sr_detection r ! 1)), (''cfg_http2'', Truth (sr_detection r ! 2)),
       (''cfg_bot'', Truth (sr_detection r ! 3)), (''cfg_behavior'', Truth (sr_detection r ! 4)), (''cfg_geoip'', Truth (sr_detection r ! 5)),
       (''cfg_ratelimit_rps'', n (fst (sr_ratelimit r))), (''cfg_ratelimit_burst'', n (snd (sr_ratelimit r))),
       (''protection_mode'', Text (sr_mode r)), (''domains'', n (int (sr_domains r))), (''uptime_seconds'', Number (sr_uptime r)),
       (''telegram'', OtherJson)])"

subsection \<open>Reading and writing values\<close>

definition getFloat :: "json_object \<Rightarrow> string \<Rightarrow> f64" where
  "getFloat m key = (case map_of m key of Some (Number n) \<Rightarrow> n | _ \<Rightarrow> 0)"

definition getString :: "json_object \<Rightarrow> string \<Rightarrow> string" where
  "getString m key = (case map_of m key of Some (Text s) \<Rightarrow> s | _ \<Rightarrow> [])"

definition getBool :: "json_object \<Rightarrow> string \<Rightarrow> bool" where
  "getBool m key = (case map_of m key of Some (Truth b) \<Rightarrow> b | _ \<Rightarrow> False)"

definition fmtNum :: "f64 \<Rightarrow> string" where
  "fmtNum n =
     (if 1000000000 \<le> n then format_1f (fdiv n 1000000000) @ ''B''
      else if 1000000 \<le> n then format_1f (fdiv n 1000000) @ ''M''
      else if 1000 \<le> n then format_1f (fdiv n 1000) @ ''K''
      else itoa (rnd_even n))"

definition fmtDuration :: "f64 \<Rightarrow> string" where
  "fmtDuration secs =
     (let d = f_trunc secs * second; h = go_quot d hour; m = go_rem (go_quot d minute) 60; s = go_rem (go_quot d second) 60 in
      if 0 < h then itoa h @ ''h'' @ itoa m @ ''m''
      else if 0 < m then itoa m @ ''m'' @ itoa s @ ''s''
      else itoa s @ ''s'')"

subsection \<open>Commands\<close>

record status_screen =
  ss_attack :: bool
  ss_rows :: "(string \<times> string) list"
  ss_rate :: "string option"

definition status_screen_of :: "json_object \<Rightarrow> status_screen" where
  "status_screen_of stats =
     \<lparr>ss_attack = getBool stats ''is_under_attack'',
      ss_rows = map (\<lambda>k. (k, fmtNum (getFloat stats k)))
          [''current_rps'', ''peak_rps'', ''total_requests'', ''blocked_requests'', ''passed_requests'', ''active_conns'', ''banned_ips'',
           ''attacks_detected''] @ [(''uptime_seconds'', fmtDuration (getFloat stats ''uptime_seconds''))],
      ss_rate = (let total = getFloat stats ''total_requests''; blocked = getFloat stats ''blocked_requests'' in
          if 0 < total then Some (format_1f (fmul (fdiv blocked total) 100)) else None)\<rparr>"

text \<open>What a command does: leave with a code, show a screen, or for \<open>watch\<close> one line, \<open>None\<close> without a connection.\<close>

datatype cli_result = Usage nat | NoConnection | StatusShown status_screen | HealthShown bool string string string
  | ConfigShown string f64 "bool list" | Watching "(bool \<times> string list) option"

definition cmdStatus :: "(string \<Rightarrow> json_object option) \<Rightarrow> cli_result" where
  "cmdStatus get = (case get ''/api/stats'' of None \<Rightarrow> NoConnection | Some stats \<Rightarrow> StatusShown (status_screen_of stats))"

definition cmdHealth :: "(string \<Rightarrow> json_object option) \<Rightarrow> cli_result" where
  "cmdHealth get = (case get ''/api/health'' of None \<Rightarrow> NoConnection
     | Some h \<Rightarrow> let status = getString h ''status'' in
         HealthShown (status = ''healthy'') (to_upper status) (getString h ''version'') (getString h ''uptime''))"

text \<open>\<open>fingerprint\<close> is the nested object of the reply.\<close>

definition cmdConfig :: "(string \<Rightarrow> json_object option) \<Rightarrow> json_object option \<Rightarrow> cli_result" where
  "cmdConfig get fingerprint = (case get ''/api/config'' of None \<Rightarrow> NoConnection
     | Some c \<Rightarrow> ConfigShown (getString c ''mode'') (getFloat c ''domains'')
         ([getBool c ''tls'', getBool c ''waf''] @ (case fingerprint of None \<Rightarrow> [] | Some fp \<Rightarrow> [getBool fp ''ja3'', getBool fp ''ja4''])))"

definition watch_line :: "json_object \<Rightarrow> bool \<times> string list" where
  "watch_line stats = (getBool stats ''is_under_attack'',
     map (\<lambda>k. fmtNum (getFloat stats k)) [''current_rps'', ''blocked_requests'', ''active_conns'', ''banned_ips''] @
     [fmtDuration (getFloat stats ''uptime_seconds'')])"

definition cmdWatch :: "(string \<Rightarrow> json_object option) \<Rightarrow> cli_result" where
  "cmdWatch get = Watching (map_option watch_line (get ''/api/stats''))"

definition cli_main :: "string list \<Rightarrow> (string \<Rightarrow> json_object option) \<Rightarrow> json_object option \<Rightarrow> cli_result" where
  "cli_main args get fingerprint = (case args of [] \<Rightarrow> Usage 1 | [prog] \<Rightarrow> Usage 1
     | prog # cmd # rest \<Rightarrow>
         if cmd \<in> {''status'', ''st''} then cmdStatus get
         else if cmd \<in> {''health'', ''h''} then cmdHealth get
         else if cmd \<in> {''config'', ''cf''} then cmdConfig get fingerprint
         else if cmd \<in> {''watch'', ''w''} then cmdWatch get
         else if cmd = ''help'' then Usage 0
         else Usage 1)"

subsection \<open>Lemmas\<close>

lemma stats_object_lookup:
  "map_of (stats_object r) ''is_under_attack'' = None" "map_of (stats_object r) ''banned_ips'' = None"
  "map_of (stats_object r) ''current_rps'' = Some (Number (f_of_int (tot_CurrentRPS (sr_totals r))))"
  "map_of (stats_object r) ''active_bans'' = Some (Number (f_of_int (tot_ActiveBans (sr_totals r))))"
  by (simp_all add: stats_object_def Let_def)

lemma rnd_even_0 [simp]: "rnd_even 0 = 0"
  using rnd_even_of_int [of 0] by simp

text \<open>
  Whatever the state of the server, of the reply that its dashboard sends the client shows no attack and no banned address, neither with
  \<open>status\<close> nor with \<open>watch\<close>: it asks for keys that the reply does not have. The rate of requests it shows as it is.
\<close>

theorem cli_never_alarms:
  "\<exists>screen line. cli_main [prog, ''status''] (\<lambda>path. Some (stats_object r)) fp = StatusShown screen \<and>
     cli_main [prog, ''watch''] (\<lambda>path. Some (stats_object r)) fp = Watching (Some line) \<and>
     \<not> ss_attack screen \<and> \<not> fst line \<and>
     map_of (ss_rows screen) ''banned_ips'' = Some ''0'' \<and> snd line ! 3 = ''0'' \<and>
     map_of (ss_rows screen) ''current_rps'' = Some (fmtNum (f_of_int (tot_CurrentRPS (sr_totals r))))"
proof -
  have "itoa 0 = ''0''" by code_simp
  then show ?thesis
    by (simp add: cli_main_def cmdStatus_def cmdWatch_def status_screen_of_def watch_line_def getBool_def getFloat_def
        stats_object_lookup fmtNum_def)
qed

end
