(* ===== verification/Runtime.thy ===== *)
theory Runtime
  imports Server_Run Guarantees
begin

section \<open>Around the server (logger/logger.go, perf/pool.go, perf/hardening.go, core/server.go, main.go)\<close>

text \<open>
  What surrounds the engines: the choice of the logger, the watch over memory, the pool of request contexts, the two middlewares, the
  listeners that \<open>Start\<close> opens, the page of metrics and the signals. Which calls of the system succeed is an argument. Lemmas: a
  context from the pool carries nothing of an earlier request; which headers a response has.
\<close>

subsection \<open>Logger\<close>

datatype log_level = DebugLevel | InfoLevel | WarnLevel | ErrorLevel

definition zap_level :: "string \<Rightarrow> log_level" where
  "zap_level level = (if level = ''debug'' then DebugLevel else if level = ''warn'' then WarnLevel
     else if level = ''error'' then ErrorLevel else InfoLevel)"

record log_core =
  lo_level :: log_level
  lo_json :: bool
  lo_colour :: bool
  lo_file :: "string option"

text \<open>The package variables: the logger, the file, and whether \<open>once\<close> has run.\<close>

record log_state =
  lo_log :: "log_core option"
  lo_logFile :: "string option"
  lo_once :: bool

definition no_logger :: log_state where
  "no_logger = \<lparr>lo_log = None, lo_logFile = None, lo_once = False\<rparr>"

text \<open>\<open>dirs\<close> and \<open>opens\<close> say for which paths the directory and the file can be made; the result is \<open>True\<close> for a nil error.\<close>

definition initLogger :: "(string \<Rightarrow> bool) \<Rightarrow> (string \<Rightarrow> bool) \<Rightarrow> string \<Rightarrow> string \<Rightarrow> string \<Rightarrow> log_state \<Rightarrow> bool \<times> log_state" where
  "initLogger dirs opens level format filePath st =
     (let core = \<lparr>lo_level = zap_level level, lo_json = (format = ''json''), lo_colour = (format \<noteq> ''json''), lo_file = None\<rparr> in
      if filePath = [] then (True, st\<lparr>lo_log := Some core\<rparr>)
      else if \<not> dirs filePath then (False, st)
      else if \<not> opens filePath then (False, st)
      else (True, st\<lparr>lo_logFile := Some filePath, lo_log := Some (core\<lparr>lo_file := Some filePath\<rparr>)\<rparr>))"

definition logger_Init :: "(string \<Rightarrow> bool) \<Rightarrow> (string \<Rightarrow> bool) \<Rightarrow> string \<Rightarrow> string \<Rightarrow> string \<Rightarrow> log_state \<Rightarrow> bool \<times> log_state" where
  "logger_Init dirs opens level format filePath st =
     (if lo_once st then (True, st) else initLogger dirs opens level format filePath (st\<lparr>lo_once := True\<rparr>))"

text \<open>\<open>L\<close>: without a logger a new development logger, at the lowest level on the console.\<close>

definition logger_L :: "log_state \<Rightarrow> log_core" where
  "logger_L st = (case lo_log st of Some c \<Rightarrow> c
     | None \<Rightarrow> \<lparr>lo_level = DebugLevel, lo_json = False, lo_colour = False, lo_file = None\<rparr>)"

text \<open>A second call reports success and changes nothing, also when the first one failed.\<close>

lemma second_Init: "logger_Init d' p' l' f' q' (snd (logger_Init d p l f q st)) = (True, snd (logger_Init d p l f q st))"
  by (auto simp: logger_Init_def initLogger_def Let_def)

subsection \<open>Memory\<close>

record MemoryManager =
  mem_maxMemoryMB :: int
  mem_gcThreshold :: f64
  mem_forceGCCount :: int

definition NewMemoryManager :: "int \<Rightarrow> MemoryManager" where
  "NewMemoryManager maxMB = \<lparr>mem_maxMemoryMB = maxMB, mem_gcThreshold = fl (8 / 10), mem_forceGCCount = 0\<rparr>"

text \<open>The runtime's numbers: allocated and reserved bytes, objects, collections, goroutines. A tick warns or does nothing.\<close>

record mem_stats =
  ms_Alloc :: int
  ms_Sys :: int
  ms_HeapObjects :: int
  ms_NumGC :: int
  ms_goroutines :: int

definition memory_tick :: "MemoryManager \<Rightarrow> mem_stats \<Rightarrow> (int \<times> int \<times> int) option" where
  "memory_tick mm m =
     (let allocMB = ms_Alloc m div 1024 div 1024; sysMB = ms_Sys m div 1024 div 1024 in
      if 0 < mem_maxMemoryMB mm \<and> f_trunc (fmul (f_of_int (mem_maxMemoryMB mm)) (mem_gcThreshold mm)) < allocMB
      then Some (allocMB, sysMB, mem_maxMemoryMB mm) else None)"

definition GetMemStats :: "MemoryManager \<Rightarrow> mem_stats \<Rightarrow> (string \<times> int) list" where
  "GetMemStats mm m =
     [(''alloc_mb'', ms_Alloc m div 1024 div 1024), (''sys_mb'', ms_Sys m div 1024 div 1024), (''heap_objects'', ms_HeapObjects m),
      (''gc_runs'', ms_NumGC m), (''force_gc'', mem_forceGCCount mm), (''goroutines'', ms_goroutines m),
      (''max_memory_mb'', mem_maxMemoryMB mm)]"

subsection \<open>Pool of request contexts\<close>

record RequestContext =
  rc_IP :: string
  rc_URL :: string
  rc_Method :: string
  rc_UserAgent :: string
  rc_Headers :: "(string \<times> string) list"
  rc_TrustScore :: f64
  rc_Fingerprint :: "string option"
  rc_StartTime :: gotime

definition fresh_context :: RequestContext where
  "fresh_context = \<lparr>rc_IP = [], rc_URL = [], rc_Method = [], rc_UserAgent = [], rc_Headers = [], rc_TrustScore = 0, rc_Fingerprint = None,
     rc_StartTime = zero_time\<rparr>"

text \<open>\<open>sync.Pool\<close>: \<open>Get\<close> takes any of the objects that were put back, or makes a new one; \<open>slot\<close> is the choice.\<close>

definition AcquireRequestContext :: "nat option \<Rightarrow> gotime \<Rightarrow> RequestContext list \<Rightarrow> RequestContext \<times> RequestContext list" where
  "AcquireRequestContext slot now pool = (case slot of
     Some i \<Rightarrow> if i < length pool then ((pool ! i)\<lparr>rc_StartTime := now\<rparr>, take i pool @ drop (Suc i) pool)
               else (fresh_context\<lparr>rc_StartTime := now\<rparr>, pool)
   | None \<Rightarrow> (fresh_context\<lparr>rc_StartTime := now\<rparr>, pool))"

definition ReleaseRequestContext :: "RequestContext \<Rightarrow> RequestContext list \<Rightarrow> RequestContext list" where
  "ReleaseRequestContext c pool =
     c\<lparr>rc_IP := [], rc_URL := [], rc_Method := [], rc_UserAgent := [], rc_TrustScore := 0, rc_Fingerprint := None, rc_Headers := []\<rparr> # pool"

datatype pool_op = Acquire "nat option" gotime | Release RequestContext

fun pool_run :: "pool_op list \<Rightarrow> RequestContext list \<Rightarrow> RequestContext list \<times> RequestContext list" where
  "pool_run [] pool = ([], pool)"
| "pool_run (Acquire slot now # ops) pool =
     (let (c, pool1) = AcquireRequestContext slot now pool; (cs, pool2) = pool_run ops pool1 in (c # cs, pool2))"
| "pool_run (Release c # ops) pool = pool_run ops (ReleaseRequestContext c pool)"

definition blank :: "RequestContext \<Rightarrow> bool" where
  "blank c \<longleftrightarrow> c\<lparr>rc_StartTime := zero_time\<rparr> = fresh_context"

lemma blank_start [simp]: "blank (c\<lparr>rc_StartTime := t\<rparr>) = blank c" "blank fresh_context"
  by (simp_all add: blank_def fresh_context_def)

lemma acquire_blank:
  assumes "AcquireRequestContext slot now pool = (c, pool1)" and "list_all blank pool"
  shows "blank c \<and> list_all blank pool1"
proof (cases "\<exists>i. slot = Some i \<and> i < length pool")
  case True
  then obtain i where i: "slot = Some i" "i < length pool" by blast
  have "pool = take i pool @ pool ! i # drop (Suc i) pool" by (rule id_take_nth_drop [OF i(2)])
  then have "list_all blank (take i pool @ pool ! i # drop (Suc i) pool)" using assms(2) by simp
  then show ?thesis using assms(1) i by (auto simp: AcquireRequestContext_def)
next
  case False
  then show ?thesis using assms by (auto simp: AcquireRequestContext_def split: option.splits)
qed

lemma release_blank: "list_all blank pool \<Longrightarrow> list_all blank (ReleaseRequestContext c pool)"
  by (simp add: ReleaseRequestContext_def blank_def fresh_context_def)

text \<open>Whatever was put back in between, a context that is handed out holds nothing but the time of the request.\<close>

lemma pool_hands_out_blank: "list_all blank pool \<Longrightarrow> list_all blank (fst (pool_run ops pool)) \<and> list_all blank (snd (pool_run ops pool))"
proof (induction ops pool rule: pool_run.induct)
  case (2 slot now ops pool)
  obtain c pool1 where a: "AcquireRequestContext slot now pool = (c, pool1)" by (cases "AcquireRequestContext slot now pool")
  then show ?case using "2.IH" [OF a [symmetric] refl] acquire_blank [OF a "2.prems"] by (cases "pool_run ops pool1") simp
next
  case (3 c ops pool)
  then show ?case by (simp add: release_blank)
qed simp

subsection \<open>Middlewares\<close>

text \<open>A writer: the header as it stands and what went out with the first byte.\<close>

record writer =
  wr_header :: "(string \<times> string list) list"
  wr_sent :: "(string \<times> string list) list option"

definition set_header :: "string \<Rightarrow> string \<Rightarrow> writer \<Rightarrow> writer" where
  "set_header k v w = w\<lparr>wr_header := AList.update k [v] (wr_header w)\<rparr>"

definition send_header :: "writer \<Rightarrow> writer" where
  "send_header w = (case wr_sent w of None \<Rightarrow> w\<lparr>wr_sent := Some (wr_header w)\<rparr> | Some h \<Rightarrow> w)"

definition security_headers :: "(string \<times> string) list" where
  "security_headers =
    [(''X-Content-Type-Options'', ''nosniff''), (''X-XSS-Protection'', ''1; mode=block''), (''X-Frame-Options'', ''DENY''),
     (''Strict-Transport-Security'', ''max-age=0''), (''Referrer-Policy'', ''strict-origin-when-cross-origin''),
     (''Permissions-Policy'', ''camera=(), microphone=(), geolocation=(), interest-cohort=()''),
     (''Content-Security-Policy'', ''default-src '' @ [CHR 0x27] @ ''self'' @ [CHR 0x27] @ ''; script-src '' @ [CHR 0x27] @ ''self'' @ [CHR 0x27] @
       '' '' @ [CHR 0x27] @ ''unsafe-inline'' @ [CHR 0x27] @ '' blob: cdn.jsdelivr.net https://static.cloudflareinsights.com; worker-src '' @
       [CHR 0x27] @ ''self'' @ [CHR 0x27] @ '' blob:; style-src '' @ [CHR 0x27] @ ''self'' @ [CHR 0x27] @ '' '' @ [CHR 0x27] @ ''unsafe-inline'' @ [CHR 0x27] @
       '' fonts.googleapis.com; font-src '' @ [CHR 0x27] @ ''self'' @ [CHR 0x27] @ '' fonts.gstatic.com; img-src '' @ [CHR 0x27] @ ''self'' @ [CHR 0x27] @
       '' data:; connect-src '' @ [CHR 0x27] @ ''self'' @ [CHR 0x27] @ '' https://static.cloudflareinsights.com''),
     (''Server'', ''Mango'')]"

definition SecurityHeaders :: "(writer \<Rightarrow> writer) \<Rightarrow> writer \<Rightarrow> writer" where
  "SecurityHeaders next_handler w =
     (let w1 = fold (\<lambda>(k, v). set_header k v) security_headers w
      in next_handler (w1\<lparr>wr_header := AList.delete ''X-Powered-By'' (wr_header w1)\<rparr>))"

definition TimingMiddleware :: "string \<Rightarrow> (writer \<Rightarrow> writer) \<Rightarrow> writer \<Rightarrow> writer" where
  "TimingMiddleware elapsed next_handler w =
     set_header ''X-Served-By'' ''Mango-Shield/2.0'' (set_header ''X-Response-Time'' elapsed (next_handler w))"

text \<open>The header is deleted before the handler runs, which may set it again; and the time is written after the header has gone out.\<close>

lemma powered_by_passes:
  "map_of (wr_header (SecurityHeaders (set_header ''X-Powered-By'' v) w)) ''X-Powered-By'' = Some [v]"
  by (simp add: SecurityHeaders_def set_header_def Let_def map_of_update_iff)

lemma timing_not_sent: "wr_sent w' = Some h \<Longrightarrow> next_handler w = w' \<Longrightarrow> wr_sent (TimingMiddleware elapsed next_handler w) = Some h"
  by (simp add: TimingMiddleware_def set_header_def)

lemma set_headers:
  "map_of (wr_header (fold (\<lambda>(k, v). set_header k v) kvs w)) k =
     (case map_of (rev kvs) k of Some v \<Rightarrow> Some [v] | None \<Rightarrow> map_of (wr_header w) k)"
  by (induction kvs arbitrary: w) (auto simp: set_header_def map_of_update_iff map_add_def update_conv' split: option.splits)

lemma security_headers_keys: "distinct (map fst (rev security_headers))" "''X-Powered-By'' \<notin> fst ` set security_headers"
  by code_simp+

text \<open>A handler that leaves the header alone sends every one of them, whatever the writer held before.\<close>

lemma security_headers_set: "(k, v) \<in> set security_headers \<Longrightarrow> map_of (wr_header (SecurityHeaders (\<lambda>w. w) w)) k = Some [v]"
  using security_headers_keys
  by (force simp: SecurityHeaders_def Let_def set_headers delete_conv' map_of_eq_Some_iff)

subsection \<open>Listeners of the server (core/server.go)\<close>

text \<open>
  What \<open>Start\<close> opens, from the configuration alone: the address, the HTTP/3 server, the time-outs, and the layers between the socket and
  the handlers, the lowest first. With TLS enabled its configuration is never nil.
\<close>

datatype listener_layer = Limited int | Sniffing | TlsLayer

definition listener_layers :: "Config \<Rightarrow> listener_layer list" where
  "listener_layers cfg = [Limited (max_connections cfg)] @ (if tls_Enabled (cfg_TLS cfg) then [Sniffing, TlsLayer] else [])"

record server_plan =
  pn_Addr :: string
  pn_http3 :: "int option"
  pn_redirect :: bool
  pn_ReadTimeout :: duration
  pn_WriteTimeout :: duration
  pn_IdleTimeout :: duration
  pn_ReadHeaderTimeout :: duration
  pn_MaxHeaderBytes :: int
  pn_layers :: "listener_layer list"
  pn_intercepted :: bool

definition plan_server :: "Config \<Rightarrow> server_plan" where
  "plan_server cfg =
     (let tls = tls_Enabled (cfg_TLS cfg); srv = cfg_Server cfg; h3 = cfg_HTTP3 cfg in
      \<lparr>pn_Addr = (if tls then srv_Listen srv else srv_HTTPListen srv),
       pn_http3 = (if h3_Enabled h3 \<and> tls then Some (if h3_Port h3 \<le> 0 then 443 else h3_Port h3) else None),
       pn_redirect = tls,
       pn_ReadTimeout = srv_ReadTimeout srv, pn_WriteTimeout = srv_WriteTimeout srv, pn_IdleTimeout = 5 * second,
       pn_ReadHeaderTimeout = 3 * second, pn_MaxHeaderBytes = srv_MaxHeaderBytes srv, pn_layers = listener_layers cfg,
       pn_intercepted = (tls \<and> (ja3_Enabled (fpc_JA3 (cfg_Fingerprint cfg)) \<or> ja4_Enabled (fpc_JA4 (cfg_Fingerprint cfg))))\<rparr>)"

text \<open>The limit lies below everything else and between 1 and 4000; TLS is never without the sniffer, and HTTP/3 passes by both.\<close>

lemma plan_layers:
  "\<exists>n. hd (pn_layers (plan_server cfg)) = Limited n \<and> 0 < n \<and> n \<le> 4000"
  "TlsLayer \<in> set (pn_layers (plan_server cfg)) \<longleftrightarrow> Sniffing \<in> set (pn_layers (plan_server cfg))"
  "pn_http3 (plan_server cfg) = Some port \<Longrightarrow> 0 < port"
  by (auto simp: plan_server_def listener_layers_def max_connections_def Let_def split: if_splits)

subsection \<open>WebSocket tunnels (core/proxy.go)\<close>

text \<open>
  The address that \<open>net.Dial\<close> is given: it must be a host and a port, the port a number or the name of a service. \<open>opens\<close> says
  whether the connection to a host and port succeeds.
\<close>

definition port_number :: "string \<Rightarrow> nat option" where
  "port_number p = (case p of [] \<Rightarrow> Some 0
     | c # t \<Rightarrow> if c = CHR ''+'' then read_digits 0 t
         else if c = CHR ''-'' then (if read_digits 0 t = Some 0 then Some 0 else None) else read_digits 0 p)"

definition dial_target :: "(string \<Rightarrow> bool) \<Rightarrow> string \<Rightarrow> (string \<times> string) option" where
  "dial_target services address = (case split_host_port address of None \<Rightarrow> None
     | Some (host, port) \<Rightarrow>
         if (case port_number port of Some n \<Rightarrow> n \<le> 65535 | None \<Rightarrow> services port) then Some (host, port) else None)"

text \<open>What the two sides send, in order; the tunnel ends when the first of the two copies ends.\<close>

datatype tunnel_event = ClientSends "byte list" | BackendSends "byte list" | CopyEnds

fun relay :: "tunnel_event list \<Rightarrow> byte list \<times> byte list" where
  "relay [] = ([], [])"
| "relay (ClientSends bs # es) = (case relay es of (to_backend, to_client) \<Rightarrow> (bs @ to_backend, to_client))"
| "relay (BackendSends bs # es) = (case relay es of (to_backend, to_client) \<Rightarrow> (to_backend, bs @ to_client))"
| "relay (CopyEnds # es) = ([], [])"

datatype tunnel_result = Unsupported | Dropped | Tunnelled request "byte list" "byte list"

definition proxyWebSocket ::
  "(string \<Rightarrow> bool) \<Rightarrow> (string \<times> string \<Rightarrow> bool) \<Rightarrow> bool \<Rightarrow> bool \<Rightarrow> bool \<Rightarrow> tunnel_event list \<Rightarrow> request \<Rightarrow> string \<Rightarrow> tunnel_result" where
  "proxyWebSocket services opens hijacker hijacked written events r backend =
     (if \<not> hijacker then Unsupported
      else if \<not> hijacked then Dropped
      else case dial_target services backend of
        None \<Rightarrow> Dropped
      | Some target \<Rightarrow> if \<not> opens target then Dropped
          else if \<not> written then Dropped
          else (case relay events of (to_backend, to_client) \<Rightarrow> Tunnelled r to_backend to_client))"

lemma relay_ends: "relay (es @ CopyEnds # es') = relay es"
  by (induction es rule: relay.induct) simp_all

text \<open>A URL is no address: its last colon is the one of the scheme, before a port that begins with slashes, or has another before it.\<close>

lemma url_is_no_address:
  assumes "CHR '':'' \<notin> set scheme" and "scheme \<noteq> []" and "hd scheme \<noteq> CHR ''[''" and "\<And>p. services (''//'' @ p) = False"
  shows "dial_target services (scheme @ ''://'' @ rest) = None"
proof (cases "CHR '':'' \<in> set rest")
  case True
  then obtain a b where r: "rest = a @ CHR '':'' # b" "CHR '':'' \<notin> set b" using split_list_last [OF True] by blast
  then have "scheme @ ''://'' @ rest = (scheme @ ''://'' @ a) @ CHR '':'' # b" by simp
  then have "last_index_byte CHR '':'' (scheme @ ''://'' @ rest) = Some (length (scheme @ ''://'' @ a))"
    using last_index_byte_append [OF r(2)] by metis
  moreover have "CHR '':'' \<in> set (take (length (scheme @ ''://'' @ a)) (scheme @ ''://'' @ rest))"
    by (simp add: r take_Cons')
  moreover have "hd (scheme @ ''://'' @ rest) \<noteq> CHR ''[''" using assms(2,3) by (cases scheme) auto
  ultimately show ?thesis by (simp add: dial_target_def split_host_port_def)
next
  case False
  then have "last_index_byte CHR '':'' (scheme @ CHR '':'' # ''//'' @ rest) = Some (length scheme)"
    by (intro last_index_byte_append) simp
  moreover have "port_number (''//'' @ rest) = None" by (simp add: port_number_def is_digit_def)
  ultimately show ?thesis
    using assms by (auto simp: dial_target_def split_host_port_def split: option.splits if_splits)
qed

lemma GetNext_url:
  assumes "GetNext host um = (Some url, um')"
  shows "\<exists>p \<in> snd ` set um. \<exists>b \<in> set (ul_Backends p). ub_URL b = url"
proof -
  obtain name p where p: "map_of um name = Some p" "ul_Backends p \<noteq> []" "url = fst (pool_next p)"
    using assms by (auto simp: GetNext_def Let_def split: option.splits if_splits prod.splits)
  have "p \<in> snd ` set um" using map_of_SomeD [OF p(1)] by force
  moreover have "ul_Backends p ! pick p \<in> set (ul_Backends p)" using pick_bound [OF p(2)] by simp
  ultimately show ?thesis using p(3) by (auto simp: pool_next_pick)
qed

lemma tunnel_backend:
  assumes "proxyRequest env r now um s = (effs, s')" and "Send (Tunnel backend) \<in> set effs"
  shows "\<exists>um'. GetNext (r_host r) um = (Some backend, um')"
  using assms by (auto simp: proxyRequest_def Let_def proxy_error_page_def split: prod.splits option.splits if_splits backend_answer.splits)

definition web_url :: "string \<Rightarrow> bool" where
  "web_url url \<longleftrightarrow> prefix ''http://'' url \<or> prefix ''https://'' url"

lemma web_url_no_address: "web_url url \<Longrightarrow> (\<And>p. services (''//'' @ p) = False) \<Longrightarrow> dial_target services url = None"
  using url_is_no_address [of "''http''" services] url_is_no_address [of "''https''" services]
  by (auto simp: web_url_def prefix_def)

text \<open>
  C33: A WebSocket is never served: whenever the proxy hands a request to the tunnel, and the backends are URLs as everywhere else in
  the program, the tunnel dials the URL as if it were a host and a port, so no byte of the request reaches the backend, whatever
  the network does. (No service is called by a name that starts with two slashes.)
\<close>

theorem websocket_never_served:
  assumes "proxyRequest env r now um s = (effs, s')" and "Send (Tunnel backend) \<in> set effs"
    and "\<forall>p \<in> snd ` set um. \<forall>b \<in> set (ul_Backends p). web_url (ub_URL b)" and "\<And>p. services (''//'' @ p) = False"
  shows "proxyWebSocket services opens hijacker hijacked written events r backend = (if hijacker then Dropped else Unsupported)"
proof -
  obtain um' where "GetNext (r_host r) um = (Some backend, um')" using tunnel_backend [OF assms(1,2)] by blast
  then have "web_url backend" using GetNext_url assms(3) by blast
  then have "dial_target services backend = None" using web_url_no_address assms(4) by blast
  then show ?thesis by (simp add: proxyWebSocket_def)
qed

definition socket_server :: Shield where
  "socket_server = xdp_shield\<lparr>pl_cfg := zero_Config\<lparr>cfg_Proxy := zero_ProxyConfig\<lparr>prx_WebSocket := True\<rparr>\<rparr>\<rparr>"

definition socket_request :: request where
  "socket_request = blank_request\<lparr>r_host := ''www.shop.vn:443'', r_header := [(''Upgrade'', [''websocket''])]\<rparr>"

theorem websocket_never_served_witness:
  "fst (proxyRequest demo_env socket_request 7 [(''shop.vn'', demo_pool)] socket_server) = [Send (Tunnel ''http://a'')] \<and>
   proxyWebSocket (\<lambda>name. name = ''https'') (\<lambda>_. True) True True True [ClientSends [1]] socket_request ''http://a'' = Dropped"
proof -
  have next_backend: "fst (GetNext (r_host socket_request) [(''shop.vn'', demo_pool)]) = Some ''http://a''" by code_simp
  have "prx_WebSocket (cfg_Proxy (pl_cfg (socket_server\<lparr>sh_upstreams := u\<rparr>)))" for u
    by (simp add: socket_server_def)
  moreover have "isWebSocket socket_request" by code_simp
  ultimately have sent: "fst (proxyRequest demo_env socket_request 7 [(''shop.vn'', demo_pool)] socket_server) = [Send (Tunnel ''http://a'')]"
    using next_backend
    by (cases "GetNext (r_host socket_request) [(''shop.vn'', demo_pool)]") (simp add: proxyRequest_def)
  have "proxyWebSocket (\<lambda>name. name = ''https'') (\<lambda>_. True) True True True [ClientSends [1]] socket_request ''http://a'' = (if True then Dropped else Unsupported)"
  proof (rule websocket_never_served)
    show "proxyRequest demo_env socket_request 7 [(''shop.vn'', demo_pool)] socket_server =
        ([Send (Tunnel ''http://a'')], snd (proxyRequest demo_env socket_request 7 [(''shop.vn'', demo_pool)] socket_server))"
      using sent by (simp add: prod_eq_iff)
  qed (simp_all add: demo_pool_def web_url_def)
  then show ?thesis using sent by simp
qed

subsection \<open>The page of metrics (main.go)\<close>

definition metric :: "string \<Rightarrow> string \<Rightarrow> string \<Rightarrow> string \<Rightarrow> string list" where
  "metric name help kind val =
     [''# HELP '' @ name @ '' '' @ help, ''# TYPE '' @ name @ '' '' @ kind, name @ '' '' @ val]"

definition metrics_page :: "gotime \<Rightarrow> Stats \<Rightarrow> EngineStats \<Rightarrow> int \<Rightarrow> int \<Rightarrow> string list" where
  "metrics_page now st waf alloc goroutines = concat
     [metric ''mango_requests_total'' ''Total requests processed'' ''counter'' (itoa (st_TotalRequests st)),
      metric ''mango_requests_blocked'' ''Total blocked requests'' ''counter'' (itoa (st_BlockedRequests st)),
      metric ''mango_requests_passed'' ''Total passed requests'' ''counter'' (itoa (st_PassedRequests st)),
      metric ''mango_rps_current'' ''Current requests per second'' ''gauge'' (itoa (st_CurrentRPS st)),
      metric ''mango_rps_peak'' ''Peak RPS'' ''gauge'' (itoa (st_PeakRPS st)),
      metric ''mango_active_connections'' ''Current active connections'' ''gauge'' (itoa (st_ActiveConns st)),
      metric ''mango_banned_ips'' ''Total banned IPs'' ''gauge'' (itoa (st_BannedIPs st)),
      metric ''mango_attacks_detected'' ''Total attacks detected'' ''counter'' (itoa (st_AttacksDetected st)),
      metric ''mango_uptime_seconds'' ''Uptime in seconds'' ''gauge'' (itoa (rnd_even (seconds (time_sub now (st_Uptime st))))),
      metric ''mango_waf_inspected'' ''Total WAF inspected requests'' ''counter'' (itoa (es_TotalInspected waf)),
      metric ''mango_waf_blocked'' ''Total WAF blocked requests'' ''counter'' (itoa (es_TotalBlocked waf)),
      metric ''mango_memory_alloc_mb'' ''Allocated memory in MB'' ''gauge'' (itoa alloc),
      metric ''mango_goroutines'' ''Number of goroutines'' ''gauge'' (itoa goroutines)]"

definition engine_GetStats :: "Engine \<Rightarrow> (string \<times> int) list" where
  "engine_GetStats e = [(''total_inspected'', es_TotalInspected (en_stats e)), (''total_blocked'', es_TotalBlocked (en_stats e)),
     (''total_matched'', es_TotalMatched (en_stats e)), (''rules_loaded'', int (length (en_rules e)))]"

subsection \<open>Start and signals (main.go, config/config.go)\<close>

datatype main_mode = ShowHelp | ShowVersion | ConfigError | SyntaxOk | Serve Config

definition main_start :: "bool \<Rightarrow> bool \<Rightarrow> bool \<Rightarrow> (string \<Rightarrow> Config option) \<Rightarrow> string \<Rightarrow> main_mode" where
  "main_start showHelp showVersion testConfig load configPath =
     (if showHelp then ShowHelp else if showVersion then ShowVersion
      else case load configPath of None \<Rightarrow> ConfigError | Some cfg \<Rightarrow> if testConfig then SyntaxOk else Serve cfg)"

text \<open>
  The process: the configuration of the package (\<open>config.Get\<close>), the server with the configuration it works by, and whether it still
  runs. A signal after the end is none.
\<close>

record process =
  ps_global :: "Config option"
  ps_shield :: Shield
  ps_running :: bool

datatype os_signal = SIGHUP | SIGINT | SIGTERM

definition config_Reload :: "(string \<Rightarrow> Config option) \<Rightarrow> string \<Rightarrow> Config option \<Rightarrow> bool \<times> Config option" where
  "config_Reload load path glob = (case load path of None \<Rightarrow> (False, glob) | Some cfg \<Rightarrow> (True, Some cfg))"

definition on_signal :: "(string \<Rightarrow> Config option) \<Rightarrow> string \<Rightarrow> gotime \<Rightarrow> os_signal \<Rightarrow> process \<Rightarrow> process" where
  "on_signal load path now sig p =
     (if \<not> ps_running p then p
      else case sig of
        SIGHUP \<Rightarrow> p\<lparr>ps_global := snd (config_Reload load path (ps_global p))\<rparr>
      | _ \<Rightarrow> p\<lparr>ps_shield := Stop now (ps_shield p), ps_running := False\<rparr>)"

text \<open>
  A SIGHUP, which main announces as the way to load the configuration again, changes the package's variable and nothing of the
  server; only the Cloudflare worker and the login of the dashboard read that variable.
\<close>

lemma sighup_reaches_no_engine:
  "ps_shield (fold (\<lambda>(t, sig). on_signal load path t sig) (map (\<lambda>t. (t, SIGHUP)) ts) p) = ps_shield p"
  by (induction ts arbitrary: p) (simp_all add: on_signal_def)

lemma terminated_for_good: "\<not> ps_running p \<Longrightarrow> fold (\<lambda>(t, sig). on_signal load path t sig) sigs p = p"
  by (induction sigs arbitrary: p) (auto simp: on_signal_def)

text \<open>The first SIGINT or SIGTERM stops the server once; what comes later is not handled.\<close>

lemma stops_once:
  "ps_running p \<Longrightarrow> sig \<noteq> SIGHUP \<Longrightarrow>
     ps_shield (fold (\<lambda>(t, sig). on_signal load path t sig) (map (\<lambda>t. (t, SIGHUP)) ts @ (now, sig) # sigs) p) = Stop now (ps_shield p)"
proof (induction ts arbitrary: p)
  case Nil
  then have "\<not> ps_running (on_signal load path now sig p) \<and> ps_shield (on_signal load path now sig p) = Stop now (ps_shield p)"
    by (simp add: on_signal_def split: os_signal.splits)
  then show ?case by (simp add: terminated_for_good)
next
  case (Cons t ts)
  then have "ps_running (on_signal load path t SIGHUP p)" "ps_shield (on_signal load path t SIGHUP p) = ps_shield p"
    by (simp_all add: on_signal_def)
  then show ?case using Cons by simp
qed

subsection \<open>Connection pool (perf/pool.go)\<close>

text \<open>The pool has a constructor and a report, and no operation that changes it.\<close>

record ConnectionPool =
  cp_maxIdle :: int
  cp_maxOpen :: int
  cp_idleTimeout :: duration
  cp_active :: int
  cp_idle :: int
  cp_totalOpened :: int
  cp_totalClosed :: int
  cp_waitCount :: int

definition NewConnectionPool :: "int \<Rightarrow> int \<Rightarrow> ConnectionPool" where
  "NewConnectionPool maxIdle maxOpen = \<lparr>cp_maxIdle = maxIdle, cp_maxOpen = maxOpen, cp_idleTimeout = 90 * second, cp_active = 0,
     cp_idle = 0, cp_totalOpened = 0, cp_totalClosed = 0, cp_waitCount = 0\<rparr>"

definition pool_Stats :: "ConnectionPool \<Rightarrow> (string \<times> int) list" where
  "pool_Stats p = [(''active'', cp_active p), (''idle'', cp_idle p), (''total_opened'', cp_totalOpened p),
     (''total_closed'', cp_totalClosed p), (''waits'', cp_waitCount p)]"

subsection \<open>Servers of the dashboard (api/dashboard.go)\<close>

record web_server =
  ws_Addr :: string
  ws_ReadTimeout :: duration
  ws_WriteTimeout :: duration

text \<open>Both servers have the same routes behind the same middlewares; the configured address concerns only the first.\<close>

definition dashboard_servers :: "Config \<Rightarrow> web_server list" where
  "dashboard_servers cfg = (if \<not> dash_Enabled (cfg_Dashboard cfg) then []
     else [\<lparr>ws_Addr = dash_Listen (cfg_Dashboard cfg), ws_ReadTimeout = 10 * second, ws_WriteTimeout = 30 * second\<rparr>,
           \<lparr>ws_Addr = ''0.0.0.0:1234'', ws_ReadTimeout = 10 * second, ws_WriteTimeout = 30 * second\<rparr>])"

definition dashboard_page :: "string \<Rightarrow> Config \<Rightarrow> string" where
  "dashboard_page html cfg =
     (let target = clu_CNAMETarget (cfg_Cluster cfg)
      in replace_all ''fw.hidev.dev'' (if target = [] then ''fw.hidev.dev'' else target) html)"

lemma open_to_all: "dash_Enabled (cfg_Dashboard cfg) \<Longrightarrow> ''0.0.0.0:1234'' \<in> ws_Addr ` set (dashboard_servers cfg)"
  by (simp add: dashboard_servers_def)

lemma page_without_name: "\<not> str_contains html ''fw.hidev.dev'' \<Longrightarrow> dashboard_page html cfg = html"
  by (simp add: dashboard_page_def Let_def replace_all_absent)

end
