(* ===== verification/Sniffer.thy ===== *)
theory Sniffer
  imports Fingerprint
begin

section \<open>The sniffing listener (fingerprint/early_reject.go)\<close>

text \<open>
  The listener under TLS that looks at the first bytes of a connection and hands them on. A connection is the list of what its
  socket will deliver; the buffered reader is \<open>bufio.Reader\<close> with 2048 bytes. At the end the rest of the package: the fingerprint
  from a settings record, the databases' operations, the printed forms. Lemmas: no byte is lost, doubled or moved.
\<close>

subsection \<open>Sockets and the buffered reader\<close>

datatype net_event = Arrives "byte list" | Fails

text \<open>A socket whose events are used up is closed by the peer. An arrival of no bytes is no event.\<close>

datatype io_error = Eof | IoFailure | EarlyReject

fun raw_read :: "nat \<Rightarrow> net_event list \<Rightarrow> (io_error + byte list) \<times> net_event list" where
  "raw_read m [] = (Inl Eof, [])"
| "raw_read m (Fails # es) = (Inl IoFailure, es)"
| "raw_read m (Arrives bs # es) = (if bs = [] then raw_read m es
     else if length bs \<le> m then (Inr bs, es) else (Inr (take m bs), Arrives (drop m bs) # es))"

text \<open>
  The loop of \<open>Peek n\<close>: fill until \<open>n\<close> bytes are there, the buffer is full or the socket fails; the failure is given to the caller
  and forgotten by the reader.
\<close>

definition buf_size :: nat where "buf_size = 2048"

fun fill_to :: "nat \<Rightarrow> byte list \<Rightarrow> net_event list \<Rightarrow> byte list \<times> io_error option \<times> net_event list" where
  "fill_to n buf es = (if n \<le> length buf then (buf, None, es) else case es of
     [] \<Rightarrow> (buf, Some Eof, [])
   | Fails # es' \<Rightarrow> (buf, Some IoFailure, es')
   | Arrives bs # es' \<Rightarrow> if length buf + length bs \<le> buf_size then fill_to n (buf @ bs) es'
       else (buf @ take (buf_size - length buf) bs, None, Arrives (drop (buf_size - length buf) bs) # es'))"

declare fill_to.simps [simp del]

text \<open>\<open>Read\<close> into \<open>m\<close> bytes: from the buffer, else past it when \<open>m\<close> is at least its size, else one read into the buffer.\<close>

definition bufio_read :: "nat \<Rightarrow> byte list \<Rightarrow> net_event list \<Rightarrow> (io_error + byte list) \<times> byte list \<times> net_event list" where
  "bufio_read m buf es =
     (if buf \<noteq> [] then (Inr (take m buf), drop m buf, es)
      else if buf_size \<le> m then (let (r, es') = raw_read m es in (r, [], es'))
      else (case raw_read buf_size es of
          (Inl e, es') \<Rightarrow> (Inl e, [], es')
        | (Inr bs, es') \<Rightarrow> (Inr (take m bs), drop m bs, es')))"

subsection \<open>Connections\<close>

record SniffingConn =
  sc_events :: "net_event list"
  sc_deadline :: "gotime option"
  sc_reader :: "byte list option"
  sc_sniffed :: bool
  sc_sniffErr :: bool

record early_stats =
  es_TotalProcessed :: int
  es_TotalRejected :: int

definition GetEarlyRejectStats :: "early_stats \<Rightarrow> int \<times> int" where
  "GetEarlyRejectStats st = (es_TotalProcessed st, es_TotalRejected st)"

text \<open>\<open>Accept\<close>; \<open>None\<close> is an error of the inner listener.\<close>

definition sniffing_Accept :: "net_event list option \<Rightarrow> early_stats \<Rightarrow> SniffingConn option \<times> early_stats" where
  "sniffing_Accept inner st = (case inner of None \<Rightarrow> (None, st)
     | Some es \<Rightarrow> (Some \<lparr>sc_events = es, sc_deadline = None, sc_reader = None, sc_sniffed = False, sc_sniffErr = False\<rparr>,
         st\<lparr>es_TotalProcessed := es_TotalProcessed st + 1\<rparr>))"

text \<open>What the sniffer shares with the other connections: the database, whether an attack is on, the store and the counters.\<close>

record sniff_world =
  sw_db :: browser_db
  sw_attack :: bool
  sw_store :: FingerprintStore
  sw_stats :: early_stats

definition tls_record :: "byte list \<Rightarrow> bool" where
  "tls_record buf \<longleftrightarrow> buf ! 0 = 0x16 \<and> 0 < n16 buf 3 \<and> n16 buf 3 < 16384"

definition sniff_conn :: "string \<Rightarrow> SniffingConn \<Rightarrow> sniff_world \<Rightarrow> (SniffingConn \<times> sniff_world) option" where
  "sniff_conn addr c w =
     (case fill_to 5 [] (sc_events c) of
        (buf, Some err, es) \<Rightarrow> Some (c\<lparr>sc_events := es, sc_deadline := None, sc_reader := (if buf = [] then None else Some buf)\<rparr>, w)
      | (buf, None, es) \<Rightarrow>
          (case (if tls_record buf then fill_to (min (n16 buf 3 + 5) buf_size) buf es else (buf, None, es)) of (buf', err, es') \<Rightarrow>
             map_option (\<lambda>(fs, rej).
                 (c\<lparr>sc_events := es', sc_deadline := None, sc_reader := Some buf', sc_sniffErr := rej\<rparr>,
                  w\<lparr>sw_store := fs,
                    sw_stats := (if rej then (sw_stats w)\<lparr>es_TotalRejected := es_TotalRejected (sw_stats w) + 1\<rparr> else sw_stats w)\<rparr>))
               (performSniff (sw_db w) addr (sw_attack w) buf' (err = Some Eof) (sw_store w))))"

definition conn_Read :: "string \<Rightarrow> nat \<Rightarrow> SniffingConn \<Rightarrow> sniff_world \<Rightarrow> ((io_error + byte list) \<times> SniffingConn \<times> sniff_world) option" where
  "conn_Read addr m c w =
     map_option (\<lambda>(c, w). if sc_sniffErr c then (Inl EarlyReject, c, w)
         else case sc_reader c of
           Some buf \<Rightarrow> (case bufio_read m buf (sc_events c) of (r, buf', es) \<Rightarrow> (r, c\<lparr>sc_reader := Some buf', sc_events := es\<rparr>, w))
         | None \<Rightarrow> (case raw_read m (sc_events c) of (r, es) \<Rightarrow> (r, c\<lparr>sc_events := es\<rparr>, w)))
       (if sc_sniffed c then Some (c, w) else sniff_conn addr (c\<lparr>sc_sniffed := True\<rparr>) w)"

text \<open>A series of reads, with all that they deliver; \<open>None\<close> if the parser of the hello panics.\<close>

fun conn_reads :: "string \<Rightarrow> nat list \<Rightarrow> SniffingConn \<Rightarrow> sniff_world \<Rightarrow> (byte list \<times> SniffingConn \<times> sniff_world) option" where
  "conn_reads addr [] c w = Some ([], c, w)"
| "conn_reads addr (m # ms) c w = (case conn_Read addr m c w of None \<Rightarrow> None
     | Some (r, c', w') \<Rightarrow> map_option (\<lambda>(out, rest). ((case r of Inl e \<Rightarrow> [] | Inr bs \<Rightarrow> bs) @ out, rest)) (conn_reads addr ms c' w'))"

subsection \<open>No byte is lost\<close>

fun event_bytes :: "net_event list \<Rightarrow> byte list" where
  "event_bytes [] = []"
| "event_bytes (Fails # es) = event_bytes es"
| "event_bytes (Arrives bs # es) = bs @ event_bytes es"

abbreviation delivered :: "io_error + byte list \<Rightarrow> byte list" where
  "delivered r \<equiv> (case r of Inl e \<Rightarrow> [] | Inr bs \<Rightarrow> bs)"

lemma raw_read_bytes: "raw_read m es = (r, es') \<Longrightarrow> delivered r @ event_bytes es' = event_bytes es"
  by (induction m es rule: raw_read.induct) (auto split: if_splits)

lemma fill_to_bytes: "fill_to n buf es = (buf', err, es') \<Longrightarrow> buf' @ event_bytes es' = buf @ event_bytes es"
proof (induction n buf es rule: fill_to.induct)
  case (1 n buf es)
  then show ?case
    by (subst (asm) fill_to.simps) (auto split: if_splits list.splits net_event.splits)
qed

lemma take_drop_append [simp]: "take n xs @ drop n xs @ ys = xs @ ys"
  by (simp flip: append_assoc)

lemma bufio_read_bytes: "bufio_read m buf es = (r, buf', es') \<Longrightarrow> delivered r @ buf' @ event_bytes es' = buf @ event_bytes es"
  by (auto simp: bufio_read_def split: if_splits prod.splits sum.splits dest: raw_read_bytes)

text \<open>The bytes a connection still holds.\<close>

definition to_come :: "SniffingConn \<Rightarrow> byte list" where
  "to_come c = (case sc_reader c of None \<Rightarrow> [] | Some buf \<Rightarrow> buf) @ event_bytes (sc_events c)"

lemma sniff_conn_bytes:
  assumes "sniff_conn addr c w = Some (c', w')" and "sc_reader c = None"
  shows "to_come c' = to_come c"
  using assms
  by (auto simp: sniff_conn_def to_come_def split: prod.splits option.splits if_splits dest!: fill_to_bytes)

lemma sniff_conn_sniffed [simp]: "sniff_conn addr c w = Some (c', w') \<Longrightarrow> sc_sniffed c' = sc_sniffed c"
  by (auto simp: sniff_conn_def split: prod.splits option.splits if_splits)

text \<open>Before its first read a connection has no reader and no error.\<close>

definition fresh_or_sniffed :: "SniffingConn \<Rightarrow> bool" where
  "fresh_or_sniffed c \<longleftrightarrow> sc_sniffed c \<or> sc_reader c = None \<and> \<not> sc_sniffErr c"

lemma conn_Read_step:
  assumes "conn_Read addr m c w = Some (r, c', w')" and "fresh_or_sniffed c"
  shows "sc_sniffed c' \<and> (sc_sniffed c \<longrightarrow> sc_sniffErr c' = sc_sniffErr c) \<and>
    (if sc_sniffErr c' then delivered r = [] else delivered r @ to_come c' = to_come c)"
proof -
  obtain c1 w1 where first: "(if sc_sniffed c then Some (c, w) else sniff_conn addr (c\<lparr>sc_sniffed := True\<rparr>) w) = Some (c1, w1)"
    using assms(1) by (auto simp: conn_Read_def split: if_splits)
  have c1: "to_come c1 = to_come c \<and> sc_sniffed c1 \<and> (sc_sniffed c \<longrightarrow> c1 = c)"
  proof (cases "sc_sniffed c")
    case False
    then have sniff: "sniff_conn addr (c\<lparr>sc_sniffed := True\<rparr>) w = Some (c1, w1)" using first by simp
    have "sc_reader (c\<lparr>sc_sniffed := True\<rparr>) = None" using False assms(2) by (simp add: fresh_or_sniffed_def)
    then show ?thesis using sniff_conn_bytes [OF sniff] sniff_conn_sniffed [OF sniff] False by (simp add: to_come_def)
  qed (use first in simp)
  have rest: "sc_sniffed c' = sc_sniffed c1 \<and> sc_sniffErr c' = sc_sniffErr c1 \<and>
      (if sc_sniffErr c1 then delivered r = [] else delivered r @ to_come c' = to_come c1)"
    using assms(1) first
    by (auto simp: conn_Read_def to_come_def split: if_splits option.splits prod.splits dest: bufio_read_bytes raw_read_bytes)
  show ?thesis using c1 rest by auto
qed

lemma conn_reads_bytes:
  "conn_reads addr ms c w = Some (out, c', w') \<Longrightarrow> fresh_or_sniffed c \<Longrightarrow> (sc_sniffErr c \<longrightarrow> sc_sniffed c) \<Longrightarrow>
     (if sc_sniffErr c' then sc_sniffed c \<longrightarrow> sc_sniffErr c else True) \<and>
     (if sc_sniffErr c' then out = [] else \<not> sc_sniffErr c \<and> out @ to_come c' = to_come c)"
proof (induction ms arbitrary: c w out)
  case (Cons m ms)
  obtain r c1 w1 out1 where r: "conn_Read addr m c w = Some (r, c1, w1)"
    and rest: "conn_reads addr ms c1 w1 = Some (out1, c', w')" and out: "out = delivered r @ out1"
    using Cons.prems(1) by (auto split: option.splits)
  note step = conn_Read_step [OF r Cons.prems(2)]
  have "fresh_or_sniffed c1" using step by (simp add: fresh_or_sniffed_def)
  from Cons.IH [OF rest this] step show ?case using out Cons.prems(2,3) by (auto simp: fresh_or_sniffed_def split: if_splits)
qed auto

text \<open>
  C10: The layer under TLS is transparent: over any series of reads of an accepted connection, whatever arrives and however it is cut
  into packets, the bytes delivered, then those buffered, then those still to arrive are exactly the bytes the client sends, in order;
  and a connection that is rejected has delivered none of them.
\<close>

theorem sniffing_transparent:
  assumes "sniffing_Accept (Some es) st = (Some c, st')" and "conn_reads addr ms c w = Some (out, c', w')"
  shows "if sc_sniffErr c' then out = [] else out @ to_come c' = event_bytes es"
proof -
  have c: "c = \<lparr>sc_events = es, sc_deadline = None, sc_reader = None, sc_sniffed = False, sc_sniffErr = False\<rparr>"
    using assms(1) by (simp add: sniffing_Accept_def)
  then have "fresh_or_sniffed c" "\<not> sc_sniffErr c" "to_come c = event_bytes es" by (simp_all add: fresh_or_sniffed_def to_come_def)
  then show ?thesis using conn_reads_bytes [OF assms(2)] by auto
qed

definition plain_world :: sniff_world where
  "plain_world = \<lparr>sw_db = [], sw_attack = True, sw_store = [], sw_stats = \<lparr>es_TotalProcessed = 0, es_TotalRejected = 0\<rparr>\<rparr>"

definition plain_bytes :: "net_event list" where
  "plain_bytes = [Arrives [71, 69], Fails, Arrives [84]]"

theorem sniffing_transparent_witness:
  "\<exists>c c' w'. sniffing_Accept (Some plain_bytes) (sw_stats plain_world) = (Some c, \<lparr>es_TotalProcessed = 1, es_TotalRejected = 0\<rparr>) \<and>
     conn_reads ''1.2.3.4:5'' [3, 100] c plain_world = Some ([71, 69, 84], c', w') \<and> to_come c' = []"
proof -
  obtain c where acc: "sniffing_Accept (Some plain_bytes) (sw_stats plain_world) = (Some c, \<lparr>es_TotalProcessed = 1, es_TotalRejected = 0\<rparr>)"
    and c: "c = \<lparr>sc_events = plain_bytes, sc_deadline = None, sc_reader = None, sc_sniffed = False, sc_sniffErr = False\<rparr>"
    by (simp add: sniffing_Accept_def plain_world_def)
  have "map_option (\<lambda>(out, c', w'). (out, sc_sniffErr c'))
      (conn_reads ''1.2.3.4:5'' [3, 100] \<lparr>sc_events = plain_bytes, sc_deadline = None, sc_reader = None, sc_sniffed = False, sc_sniffErr = False\<rparr>
         plain_world) = Some ([71, 69, 84], False)"
    by code_simp
  then obtain c' w' where run: "conn_reads ''1.2.3.4:5'' [3, 100] c plain_world = Some ([71, 69, 84], c', w')" and "\<not> sc_sniffErr c'"
    by (auto simp: c)
  moreover have "event_bytes plain_bytes = [71, 69, 84]" by (simp add: plain_bytes_def)
  ultimately have "to_come c' = []" using sniffing_transparent [OF acc run] by simp
  then show ?thesis using acc run by blast
qed

text \<open>
  The sniffer lifts every read deadline the server had set: the two seconds of the connection callback and the handshake's own.
\<close>

lemma sniff_clears_deadline: "sniff_conn addr c w = Some (c', w') \<Longrightarrow> sc_deadline c' = None"
  by (auto simp: sniff_conn_def split: prod.splits option.splits if_splits)

subsection \<open>Fingerprints from settings, databases, printed forms\<close>

record H2Settings =
  hs_HeaderTableSize :: u32
  hs_EnablePush :: u32
  hs_MaxConcurrentStreams :: u32
  hs_InitialWindowSize :: u32
  hs_MaxFrameSize :: u32
  hs_MaxHeaderListSize :: u32
  hs_SettingsOrder :: "u16 list"

definition setting_value :: "H2Settings \<Rightarrow> u16 \<Rightarrow> u32" where
  "setting_value s i = (if i = 1 then hs_HeaderTableSize s else if i = 2 then hs_EnablePush s else if i = 3 then hs_MaxConcurrentStreams s
     else if i = 4 then hs_InitialWindowSize s else if i = 5 then hs_MaxFrameSize s else if i = 6 then hs_MaxHeaderListSize s else 0)"

definition ComputeH2Fingerprint :: "browser_db \<Rightarrow> H2Settings \<Rightarrow> u32 \<Rightarrow> H2Fingerprint" where
  "ComputeH2Fingerprint db s windowUpdate =
     (let parts = map (\<lambda>i. itoa (int (unat i)) @ '':'' @ show_u32 (setting_value s i)) (hs_SettingsOrder s); order = join_with '';'' parts
      in known_h2 db (zero_H2\<lparr>h2_Hash := md5_hex (order @ ''|'' @ show_u32 windowUpdate), h2_SettingsOrder := order,
           h2_WindowUpdate := windowUpdate\<rparr>))"

definition LookupH2 :: "browser_db \<Rightarrow> string \<Rightarrow> BrowserInfo option" where
  "LookupH2 db hash = map_of db hash"

definition AddJA3 :: "string \<Rightarrow> BrowserInfo \<Rightarrow> browser_db \<Rightarrow> browser_db" where
  "AddJA3 hash info db = AList.update hash info db"

definition AddH2 :: "string \<Rightarrow> BrowserInfo \<Rightarrow> browser_db \<Rightarrow> browser_db" where
  "AddH2 hash info db = AList.update hash info db"

record DBStats =
  ds_JA3Count :: int
  ds_TrustedJA3 :: int
  ds_MaliciousJA3 :: int
  ds_H2Count :: int

definition count_browser :: "BrowserInfo \<Rightarrow> DBStats \<Rightarrow> DBStats" where
  "count_browser bi st = (let st1 = st\<lparr>ds_JA3Count := ds_JA3Count st + 1\<rparr> in
     if 80 \<le> bi_TrustScore bi then st1\<lparr>ds_TrustedJA3 := ds_TrustedJA3 st1 + 1\<rparr>
     else if bi_TrustScore bi \<le> 20 then st1\<lparr>ds_MaliciousJA3 := ds_MaliciousJA3 st1 + 1\<rparr> else st1)"

definition StatsSnapshot :: "browser_db \<Rightarrow> browser_db \<Rightarrow> DBStats" where
  "StatsSnapshot ja3 h2 = (fold (\<lambda>(k, bi). count_browser bi) ja3 \<lparr>ds_JA3Count = 0, ds_TrustedJA3 = 0, ds_MaliciousJA3 = 0, ds_H2Count = 0\<rparr>)
     \<lparr>ds_H2Count := int (length h2)\<rparr>"

definition JA3RawString :: "ClientHelloInfo \<Rightarrow> string" where
  "JA3RawString info = (let raw = ja3_raw (ch_TLSVersion info) (ch_CipherSuites info) (ch_Extensions info) (ch_EllipticCurves info) (ch_ECPointFormats info)
     in ''JA3: '' @ md5_hex raw @ '' | Raw: '' @ raw)"

definition H2FingerprintString :: "H2Fingerprint \<Rightarrow> string" where
  "H2FingerprintString fp = ''H2FP: '' @ h2_Hash fp @ '' | Settings: '' @ h2_SettingsOrder fp @ '' | WU: '' @ show_u32 (h2_WindowUpdate fp)
     @ '' | Priority: '' @ h2_PriorityFrames fp"

text \<open>The printed form shows the hash that the lookup uses, and an added fingerprint is found.\<close>

lemma raw_string_hash: "JA3RawString info = ''JA3: '' @ j3_Hash (ComputeJA3FromClientHello db info) @ '' | Raw: '' @ j3_Raw (ComputeJA3FromClientHello db info)"
  by (simp add: JA3RawString_def ComputeJA3FromClientHello_def JA3_def Let_def split: option.split)

lemma lookup_added: "LookupJA3 (AddJA3 h bi db) h' = (if h' = h then Some bi else LookupJA3 db h')"
  by (simp add: LookupJA3_def AddJA3_def gomap_simps)

lemma added_h2_known:
  "h2_Known (ComputeH2Fingerprint (AddH2 (h2_Hash (ComputeH2Fingerprint db s win)) bi db) s win)"
  by (simp add: ComputeH2Fingerprint_def known_h2_def AddH2_def gomap_simps Let_def split: option.split)

text \<open>The classes of scores do not overlap, so the two counts of a snapshot never exceed the first.\<close>

lemma snapshot_counts:
  "ds_JA3Count (StatsSnapshot ja3 h2) = int (length ja3) \<and>
   ds_TrustedJA3 (StatsSnapshot ja3 h2) + ds_MaliciousJA3 (StatsSnapshot ja3 h2) \<le> ds_JA3Count (StatsSnapshot ja3 h2)"
proof -
  have "ds_JA3Count (fold (\<lambda>(k, bi). count_browser bi) xs st) = ds_JA3Count st + int (length xs) \<and>
    ds_TrustedJA3 (fold (\<lambda>(k, bi). count_browser bi) xs st) + ds_MaliciousJA3 (fold (\<lambda>(k, bi). count_browser bi) xs st)
      \<le> ds_TrustedJA3 st + ds_MaliciousJA3 st + int (length xs)" for xs :: browser_db and st
  proof (induction xs arbitrary: st)
    case (Cons x xs)
    obtain k bi where x: "x = (k, bi)" by (cases x)
    have one: "ds_JA3Count (count_browser bi st) = ds_JA3Count st + 1"
      "ds_TrustedJA3 (count_browser bi st) + ds_MaliciousJA3 (count_browser bi st) \<le> ds_TrustedJA3 st + ds_MaliciousJA3 st + 1"
      by (simp_all add: count_browser_def Let_def)
    show ?case using Cons [of "count_browser bi st"] one x by simp
  qed simp
  from this [of ja3 "\<lparr>ds_JA3Count = 0, ds_TrustedJA3 = 0, ds_MaliciousJA3 = 0, ds_H2Count = 0\<rparr>"] show ?thesis
    by (simp add: StatsSnapshot_def)
qed

end
