(* ===== verification/Xdp_Start.thy ===== *)
theory Xdp_Start
  imports Xdp Host_Stats Config_Types
begin

section \<open>Finding the kernel drop list (core/xdp.go)\<close>

text \<open>
  How the manager of the drop list comes to its map when the server starts: it has the program attached if the configuration asks for
  it, looks through the maps of the kernel, then through the pinned files, and at last makes a map of its own. The kernel is a state:
  its maps in the order of their numbers, the pinned files, the files of the disk and the commands that were run. What a command does,
  and which calls of the system succeed, are arguments. Lemmas: which map is taken, and which commands are never run.
\<close>

record bpf_map =
  bm_id :: u32
  bm_name :: string
  bm_hash :: bool
  bm_max :: nat
  bm_entries :: "(u32, u64) gomap"

record kernel =
  kn_maps :: "bpf_map list"
  kn_pins :: "(string, u32) gomap"
  kn_files :: "string list"
  kn_log :: "string list list"

text \<open>
  The surroundings: the effect of a command and whether it succeeds, the outputs of \<open>ip route\<close> and \<open>uname\<close>, the variable
  \<open>MANGO_XDP_HOST_ATTACH\<close>, and which maps open and give their description, which paths can be pinned and which number a new map gets.
\<close>

record surroundings_xdp =
  en_exec :: "string list \<Rightarrow> kernel \<Rightarrow> bool \<times> kernel"
  en_route :: "string option"
  en_uname :: "string option"
  en_clang :: bool
  en_host_attach :: string
  en_mkdir :: bool
  en_opens :: "u32 \<Rightarrow> bool"
  en_info :: "u32 \<Rightarrow> bool"
  en_pins :: "string \<Rightarrow> bool"
  en_create :: "u32 option"

definition run_cmd :: "surroundings_xdp \<Rightarrow> string list \<Rightarrow> kernel \<Rightarrow> bool \<times> kernel" where
  "run_cmd e cmd k = (let (ok, k') = en_exec e cmd k in (ok, k'\<lparr>kn_log := kn_log k @ [cmd]\<rparr>))"

definition stat_ok :: "string \<Rightarrow> kernel \<Rightarrow> bool" where
  "stat_ok path k \<longleftrightarrow> path \<in> set (kn_files k)"

subsection \<open>Attaching the program\<close>

fun after_dev :: "string list \<Rightarrow> string option" where
  "after_dev (f # g # fs) = (if f = ''dev'' then Some g else after_dev (g # fs))"
| "after_dev fs = None"

definition detectDefaultInterface :: "surroundings_xdp \<Rightarrow> string" where
  "detectDefaultInterface e = (case en_route e of None \<Rightarrow> ''eth0''
     | Some out \<Rightarrow> (case after_dev (go_fields out) of Some nic \<Rightarrow> nic | None \<Rightarrow> ''eth0''))"

definition getMachineArch :: "surroundings_xdp \<Rightarrow> string" where
  "getMachineArch e = (case en_uname e of None \<Rightarrow> ''x86_64'' | Some out \<Rightarrow> trim_ws out)"

definition xdp_nic :: "surroundings_xdp \<Rightarrow> Config \<Rightarrow> string" where
  "xdp_nic e cfg = (if xdp_Interface (cfg_XDP cfg) = [] then detectDefaultInterface e else xdp_Interface (cfg_XDP cfg))"

definition obj_file :: string where "obj_file = ''xdp/mango_xdp.o''"

definition compile_cmd :: "surroundings_xdp \<Rightarrow> string list" where
  "compile_cmd e = [''clang'', ''-O2'', ''-g'', ''-target'', ''bpf'', ''-c'', ''xdp/mango_xdp.c'', ''-o'', obj_file,
     ''-I/usr/include/'' @ getMachineArch e @ ''-linux-gnu'', ''-I/usr/include'']"

definition link_cmd :: "string \<Rightarrow> string list \<Rightarrow> string list" where
  "link_cmd nic args = [''ip'', ''link'', ''set'', ''dev'', nic] @ args"

definition host_nics :: "string list" where "host_nics = [''eth0'', ''ens3'', ''enp1s0'']"

definition mode_flag :: "Config \<Rightarrow> string" where
  "mode_flag cfg = (if xdp_Mode (cfg_XDP cfg) = ''drv'' \<or> xdp_Mode (cfg_XDP cfg) = ''native'' then ''xdpdrv'' else ''xdpgeneric'')"

definition attach_cmds :: "Config \<Rightarrow> string \<Rightarrow> string list list" where
  "attach_cmds cfg nic = [link_cmd nic [''xdp'', ''off''], link_cmd nic [''xdpgeneric'', ''off''],
     link_cmd nic [mode_flag cfg, ''obj'', obj_file, ''sec'', ''xdp_mango'']]"

definition ensureAttached :: "surroundings_xdp \<Rightarrow> Config \<Rightarrow> kernel \<Rightarrow> kernel" where
  "ensureAttached e cfg k =
     (let nic = xdp_nic e cfg in
      if nic = [] then k
      else if \<not> xdp_AutoAttach (cfg_XDP cfg) then k
      else let k1 = (if xdp_AutoCompile (cfg_XDP cfg) \<and> en_clang e then snd (run_cmd e (compile_cmd e) k) else k) in
        if nic \<in> set host_nics \<and> en_host_attach e \<noteq> ''true'' then k1
        else if stat_ok obj_file k1 then fold (\<lambda>cmd k. snd (run_cmd e cmd k)) (attach_cmds cfg nic) k1
        else k1)"

subsection \<open>Looking for the map\<close>

definition bpf_dir :: string where "bpf_dir = ''/sys/fs/bpf''"

definition mount_bpf :: "surroundings_xdp \<Rightarrow> kernel \<Rightarrow> kernel" where
  "mount_bpf e k = (if stat_ok bpf_dir k then k
     else snd (run_cmd e [''mount'', ''-t'', ''bpf'', ''bpffs'', bpf_dir]
            (if en_mkdir e then k\<lparr>kn_files := bpf_dir # kn_files k\<rparr> else k)))"

definition pin_path :: "Config \<Rightarrow> string" where
  "pin_path cfg = (if xdp_MapPinPath (cfg_XDP cfg) = [] then ''/sys/fs/bpf/mango_blacklist'' else xdp_MapPinPath (cfg_XDP cfg))"

text \<open>The manager with a map, and the old pin replaced by one of this map.\<close>

definition use_map :: "bpf_map \<Rightarrow> XDPManager" where
  "use_map m = disabled_xdp\<lparr>xm_Enabled := True, xm_bpfMap := Some (bm_entries m), xm_max := bm_max m\<rparr>"

definition repin :: "surroundings_xdp \<Rightarrow> string \<Rightarrow> u32 \<Rightarrow> kernel \<Rightarrow> kernel" where
  "repin e path n k = (let pins = AList.delete path (kn_pins k)
     in k\<lparr>kn_pins := (if en_pins e path then AList.update path n pins else pins)\<rparr>)"

definition is_blacklist :: "surroundings_xdp \<Rightarrow> bpf_map \<Rightarrow> bool" where
  "is_blacklist e m \<longleftrightarrow> en_opens e (bm_id m) \<and> en_info e (bm_id m) \<and> bm_name m = ''blacklist'' \<and> bm_hash m"

fun scan_maps :: "surroundings_xdp \<Rightarrow> bpf_map list \<Rightarrow> bpf_map option" where
  "scan_maps e [] = None"
| "scan_maps e (m # ms) = (if is_blacklist e m then Some m else scan_maps e ms)"

definition load_pinned :: "surroundings_xdp \<Rightarrow> kernel \<Rightarrow> string \<Rightarrow> bpf_map option" where
  "load_pinned e k path = (case map_of (kn_pins k) path of None \<Rightarrow> None
     | Some n \<Rightarrow> if en_opens e n then find (\<lambda>m. bm_id m = n) (kn_maps k) else None)"

fun first_pinned :: "surroundings_xdp \<Rightarrow> kernel \<Rightarrow> string list \<Rightarrow> bpf_map option" where
  "first_pinned e k [] = None"
| "first_pinned e k (p # ps) = (if p = [] then first_pinned e k ps
     else case load_pinned e k p of Some m \<Rightarrow> Some m | None \<Rightarrow> first_pinned e k ps)"

definition pin_paths :: "string \<Rightarrow> string list" where
  "pin_paths p = [p, ''/sys/fs/bpf/mango_blacklist'', ''/sys/fs/bpf/blacklist'', ''/sys/fs/bpf/tc/globals/blacklist'']"

definition new_blacklist :: "u32 \<Rightarrow> bpf_map" where
  "new_blacklist n = \<lparr>bm_id = n, bm_name = ''blacklist'', bm_hash = True, bm_max = 1000000, bm_entries = []\<rparr>"

definition NewXDPManager :: "surroundings_xdp \<Rightarrow> Config option \<Rightarrow> kernel \<Rightarrow> XDPManager \<times> kernel" where
  "NewXDPManager e cfg k = (case cfg of None \<Rightarrow> (disabled_xdp, k) | Some c \<Rightarrow>
     if \<not> xdp_Enabled (cfg_XDP c) then (disabled_xdp, k)
     else let k1 = mount_bpf e k; k2 = (if xdp_AutoAttach (cfg_XDP c) then ensureAttached e c k1 else k1); path = pin_path c in
       case scan_maps e (kn_maps k2) of
         Some m \<Rightarrow> (use_map m, repin e path (bm_id m) k2)
       | None \<Rightarrow> (case first_pinned e k2 (pin_paths path) of
           Some m \<Rightarrow> (use_map m, k2)
         | None \<Rightarrow> if stat_ok bpf_dir k2 then
             (case en_create e of
                Some n \<Rightarrow> (use_map (new_blacklist n), repin e path n (k2\<lparr>kn_maps := kn_maps k2 @ [new_blacklist n]\<rparr>))
              | None \<Rightarrow> (disabled_xdp, k2))
             else (disabled_xdp, k2)))"

subsection \<open>Which map is taken\<close>

lemma scan_maps_find: "scan_maps e ms = find (is_blacklist e) ms"
  by (induction ms) simp_all

lemma enabled_has_map: "xm_Enabled (fst (NewXDPManager e cfg k)) \<longleftrightarrow> xm_bpfMap (fst (NewXDPManager e cfg k)) \<noteq> None"
  by (simp add: NewXDPManager_def use_map_def disabled_xdp_def Let_def split: option.split)

lemma fresh_counters: "xm_lifetimeDrops (fst (NewXDPManager e cfg k)) = 0 \<and> xm_lastObserved (fst (NewXDPManager e cfg k)) = []"
  by (simp add: NewXDPManager_def use_map_def disabled_xdp_def Let_def split: option.split)

text \<open>A live map has precedence over every pinned file: what is pinned is looked at only when the kernel lists no such map.\<close>

lemma live_map_first:
  assumes "xdp_Enabled (cfg_XDP c)" and "\<not> xdp_AutoAttach (cfg_XDP c)" and "stat_ok bpf_dir k"
    and "find (is_blacklist e) (kn_maps k) = Some m"
  shows "fst (NewXDPManager e (Some c) k) = use_map m"
    and "map_of (kn_pins (snd (NewXDPManager e (Some c) k))) (pin_path c) = (if en_pins e (pin_path c) then Some (bm_id m) else None)"
  using assms by (simp_all add: NewXDPManager_def mount_bpf_def scan_maps_find repin_def gomap_simps Let_def)

subsection \<open>Which commands are run\<close>

definition ip_link :: "string list \<Rightarrow> bool" where
  "ip_link cmd \<longleftrightarrow> take 2 cmd = [''ip'', ''link'']"

lemma run_cmd_log [simp]: "kn_log (snd (run_cmd e cmd k)) = kn_log k @ [cmd]"
  by (simp add: run_cmd_def split: prod.split)

lemma run_all_log: "kn_log (fold (\<lambda>cmd k. snd (run_cmd e cmd k)) cmds k) = kn_log k @ cmds"
  by (induction cmds arbitrary: k) simp_all

lemma compile_no_link: "\<not> ip_link (compile_cmd e)"
  by (simp add: ip_link_def compile_cmd_def)

lemma ensureAttached_log: "\<exists>cmds. kn_log (ensureAttached e cfg k) = kn_log k @ cmds \<and>
    (\<forall>c \<in> set cmds. c = compile_cmd e \<or> c \<in> set (attach_cmds cfg (xdp_nic e cfg)) \<and>
       (xdp_nic e cfg \<in> set host_nics \<longrightarrow> en_host_attach e = ''true''))"
  by (auto simp: ensureAttached_def Let_def run_all_log)

lemma mount_log: "\<exists>cmds. kn_log (mount_bpf e k) = kn_log k @ cmds \<and> (\<forall>c \<in> set cmds. \<not> ip_link c)"
  by (auto simp: mount_bpf_def ip_link_def)

lemma repin_log [simp]: "kn_log (repin e p n k) = kn_log k"
  by (simp add: repin_def Let_def)

lemma manager_log:
  "kn_log (snd (NewXDPManager e cfg k)) =
     (case cfg of None \<Rightarrow> kn_log k | Some c \<Rightarrow> if \<not> xdp_Enabled (cfg_XDP c) then kn_log k
      else kn_log (if xdp_AutoAttach (cfg_XDP c) then ensureAttached e c (mount_bpf e k) else mount_bpf e k))"
  by (simp add: NewXDPManager_def Let_def split: option.split)

lemma attach_cmd_nic: "c \<in> set (attach_cmds cfg nic) \<Longrightarrow> ip_link c \<and> c ! 4 = nic"
  by (auto simp: attach_cmds_def link_cmd_def ip_link_def)


definition quiet_system :: surroundings_xdp where
  "quiet_system = \<lparr>en_exec = \<lambda>cmd k. (True, k), en_route = Some ''default via 10.0.0.1 dev wg0 proto static'', en_uname = None,
     en_clang = True, en_host_attach = [], en_mkdir = True, en_opens = \<lambda>n. True, en_info = \<lambda>n. True, en_pins = \<lambda>p. True,
     en_create = Some 7\<rparr>"

definition attaching :: Config where
  "attaching = zero_Config\<lparr>cfg_XDP := zero_XDPConfig\<lparr>xdp_Enabled := True, xdp_AutoAttach := True\<rparr>\<rparr>"

definition ready_kernel :: kernel where
  "ready_kernel = \<lparr>kn_maps = [], kn_pins = [], kn_files = [bpf_dir, obj_file], kn_log = []\<rparr>"


end
