(* ===== verification/Mesh_Start.thy ===== *)
theory Mesh_Start
  imports Mesh Net_Addr
begin

section \<open>Joining the mesh (cluster/gossip.go)\<close>

text \<open>
  How a node finds its addresses and its name, and with which settings it joins. What the interfaces, the services that tell the
  public address and the gossip library answer are arguments. Lemmas: the key has a length AES takes, the public address is asked
  for once, and what nodes without a configured name hear of one another.
\<close>

subsection \<open>Addresses of the node\<close>

definition dotted :: "byte list \<Rightarrow> string" where
  "dotted b = join_with ''.'' (map (\<lambda>x. show_nat (unat x)) b)"

definition is_loopback_ip :: "byte list \<Rightarrow> bool" where
  "is_loopback_ip ip = (case to4 ip of Some b \<Rightarrow> b ! 0 = 127 | None \<Rightarrow> ip = replicate 15 0 @ [1])"

definition docker_net :: "string \<Rightarrow> bool" where
  "docker_net s \<longleftrightarrow> prefix ''172.17.'' s \<or> prefix ''172.18.'' s"

text \<open>
  The local address of a socket towards 8.8.8.8 (an IPv4 address, as the peer's is), if the call succeeds, and the addresses of
  the interfaces.
\<close>

fun first_interface :: "byte list list \<Rightarrow> string" where
  "first_interface [] = []"
| "first_interface (ip # ips) =
     (if is_loopback_ip ip then first_interface ips
      else case to4 ip of
        None \<Rightarrow> first_interface ips
      | Some b \<Rightarrow> if \<not> prefix ''127.'' (dotted b) \<and> \<not> docker_net (dotted b) then dotted b else first_interface ips)"

definition autoDetectPublicIPv4 :: "byte list option \<Rightarrow> byte list list option \<Rightarrow> string" where
  "autoDetectPublicIPv4 local addrs =
     (let rest = (case addrs of None \<Rightarrow> [] | Some ips \<Rightarrow> first_interface ips) in
      case Option.bind local (\<lambda>ip. if is_loopback_ip ip then None else to4 ip) of
        Some b \<Rightarrow> if docker_net (dotted b) then rest else dotted b
      | None \<Rightarrow> rest)"

text \<open>The answers of the three services in turn; the first that is an address is kept for good, and so is the lack of one.\<close>

fun first_address :: "string option list \<Rightarrow> string" where
  "first_address [] = []"
| "first_address (None # rs) = first_address rs"
| "first_address (Some body # rs) = (let ip = trim_ws body in if parse_ip ip \<noteq> None then ip else first_address rs)"

definition getMyPublicIP :: "string option list \<Rightarrow> string option \<Rightarrow> string \<times> string option" where
  "getMyPublicIP replies known = (case known of Some ip \<Rightarrow> (ip, known) | None \<Rightarrow> (first_address replies, Some (first_address replies)))"

subsection \<open>Settings\<close>

record mesh_settings =
  mt_AdvertiseAddr :: "string option"
  mt_Name :: string
  mt_BindPort :: int
  mt_SecretKey :: "string option"
  mt_GossipInterval :: duration
  mt_ProbeInterval :: duration
  mt_ProbeTimeout :: duration
  mt_SuspicionMult :: int
  mt_RetransmitMult :: int

definition mesh_setup :: "ClusterConfig \<Rightarrow> string \<Rightarrow> string \<Rightarrow> string \<Rightarrow> mesh_settings" where
  "mesh_setup cfg detected pubIP host =
     (let advIP = (if clu_AdvertiseIP cfg = [] then detected else clu_AdvertiseIP cfg)
      in \<lparr>mt_AdvertiseAddr = (if advIP = [] then None else Some advIP), mt_Name = mesh_name cfg pubIP host advIP,
          mt_BindPort = clu_BindPort cfg, mt_SecretKey = (if clu_SecretKey cfg = [] then None else Some (mesh_key (clu_SecretKey cfg))),
          mt_GossipInterval = 500 * millisecond, mt_ProbeInterval = 3 * second, mt_ProbeTimeout = 2 * second,
          mt_SuspicionMult = 6, mt_RetransmitMult = 4\<rparr>)"

text \<open>
  \<open>InitMesh\<close>: the node of the process, or an error of \<open>memberlist.Create\<close>; it keeps the configuration as given, not the name
  it joins with.
\<close>

definition InitMesh ::
  "(mesh_settings \<Rightarrow> bool) \<Rightarrow> string \<Rightarrow> string option list \<Rightarrow> string \<Rightarrow> ClusterConfig \<Rightarrow> MeshNode option \<times> string option
     \<Rightarrow> bool \<times> MeshNode option \<times> string option" where
  "InitMesh creates detected replies host cfg st = (case st of (node, known) \<Rightarrow>
     if \<not> clu_Enabled cfg then (True, node, known)
     else let (pubIP, known') = getMyPublicIP replies known in
       if creates (mesh_setup cfg detected pubIP host)
       then (True, Some \<lparr>mn_cfg = cfg, mn_broadcasts = [], mn_peerDomainStats = []\<rparr>, known')
       else (False, node, known'))"

text \<open>The tick of the rejoin loop, which runs if peers are configured; \<open>join\<close> is the library's answer.\<close>

definition rejoin_due :: "ClusterConfig \<Rightarrow> nat \<Rightarrow> bool" where
  "rejoin_due cfg members \<longleftrightarrow> clu_JoinPeers cfg \<noteq> [] \<and> members < length (clu_JoinPeers cfg) + 1"

text \<open>Members by name and address, \<open>None\<close> for a process without a mesh.\<close>

definition NumMembers :: "(string \<times> string) list option \<Rightarrow> nat" where
  "NumMembers list = (case list of None \<Rightarrow> 0 | Some ms \<Rightarrow> length ms)"

definition GetMembers :: "(string \<times> string) list option \<Rightarrow> (string \<times> string) list" where
  "GetMembers list = (case list of None \<Rightarrow> [] | Some ms \<Rightarrow> ms)"

subsection \<open>What a node joins with\<close>

lemma mesh_key_length: "length (mesh_key key) \<in> {16, 24, 32}"
  by (auto simp: mesh_key_def)

lemma mesh_key_kept: "length key \<in> {16, 24, 32} \<Longrightarrow> mesh_key key = key"
  by (auto simp: mesh_key_def)

lemma first_address_parses: "first_address rs \<noteq> [] \<Longrightarrow> parse_ip (first_address rs) \<noteq> None"
  by (induction rs rule: first_address.induct) (auto simp: Let_def split: if_splits)

lemma public_ip_once: "getMyPublicIP r' (snd (getMyPublicIP r known)) = (fst (getMyPublicIP r known), snd (getMyPublicIP r known))"
  by (auto simp: getMyPublicIP_def split: option.splits)

lemma first_interface_clean: "first_interface ips \<noteq> [] \<Longrightarrow> \<not> docker_net (first_interface ips) \<and> \<not> prefix ''127.'' (first_interface ips)"
  by (induction ips) (auto split: if_splits option.splits)

lemma mesh_name_some: "mesh_name cfg pubIP host advIP \<noteq> []"
  by (auto simp: mesh_name_def)

text \<open>
  C34: Nodes that share their configured name, for instance because neither configures one, join the mesh under different names but
  take one another's messages for their own: a node drops every ban, unban, alert and metric the other broadcasts.
\<close>

theorem namesakes_are_deaf:
  assumes "InitMesh cr1 d1 r1 h1 cfg1 st1 = (True, Some n1, Some p1)" and "InitMesh cr2 d2 r2 h2 cfg2 st2 = (True, Some n2, Some p2)"
    and "clu_Enabled cfg1" and "clu_Enabled cfg2"
    and "clu_NodeName cfg1 = clu_NodeName cfg2" and "p1 \<noteq> p2" and "p1 \<noteq> []" and "p2 \<noteq> []"
    and "\<not> str_contains (clu_NodeName cfg1) p1" and "\<not> str_contains (clu_NodeName cfg1) p2"
  shows "mt_Name (mesh_setup cfg1 d1 p1 h1) \<noteq> mt_Name (mesh_setup cfg2 d2 p2 h2) \<and>
    (\<forall>w \<in> set (mn_broadcasts (BroadcastBan ip dur t n1)) \<union> set (mn_broadcasts (BroadcastUnban ip t n1)) \<union>
        set (mn_broadcasts (BroadcastAlert kind t n1)) \<union> set (mn_broadcasts (BroadcastDomainMetric dom_name rps conns over t n1)).
       NotifyMsg w now n2 = (None, n2))"
proof -
  have n: "mn_cfg n1 = cfg1" "mn_broadcasts n1 = []" "mn_cfg n2 = cfg2"
    using assms(1-4) by (auto simp: InitMesh_def split: if_splits prod.splits)
  have "mt_Name (mesh_setup cfg1 d1 p1 h1) \<noteq> mt_Name (mesh_setup cfg2 d2 p2 h2)"
    using assms(5-10) by (simp add: mesh_name_def mesh_setup_def)
  then show ?thesis
    using n assms(5)
    by (simp add: BroadcastBan_def BroadcastUnban_def BroadcastAlert_def BroadcastDomainMetric_def queue_broadcast_def
        NotifyMsg_def empty_wire_def Let_def)
qed

definition unnamed_cluster :: ClusterConfig where
  "unnamed_cluster = \<lparr>clu_Enabled = True, clu_NodeName = [], clu_BindPort = 7946, clu_AdvertiseIP = [], clu_CNAMETarget = [],
     clu_JoinPeers = [], clu_SecretKey = []\<rparr>"

definition unnamed_node :: MeshNode where
  "unnamed_node = \<lparr>mn_cfg = unnamed_cluster, mn_broadcasts = [], mn_peerDomainStats = []\<rparr>"

theorem namesakes_are_deaf_witness:
  "map (\<lambda>w. NotifyMsg w 5 unnamed_node) (mn_broadcasts (BroadcastBan ''6.6.6.6'' hour 0 unnamed_node)) = [(None, unnamed_node)]"
proof -
  have join: "InitMesh (\<lambda>_. True) [] [Some ip] [] unnamed_cluster (None, None) = (True, Some unnamed_node, Some ip)"
    if "first_address [Some ip] = ip" for ip
    using that by (simp add: InitMesh_def unnamed_cluster_def getMyPublicIP_def unnamed_node_def del: first_address.simps)
  have first: "first_address [Some ''192.0.2.1''] = ''192.0.2.1''" by code_simp
  have second: "first_address [Some ''192.0.2.2''] = ''192.0.2.2''" by code_simp
  have "mt_Name (mesh_setup unnamed_cluster [] ''192.0.2.1'' []) \<noteq> mt_Name (mesh_setup unnamed_cluster [] ''192.0.2.2'' []) \<and>
    (\<forall>w \<in> set (mn_broadcasts (BroadcastBan ''6.6.6.6'' hour 0 unnamed_node)) \<union> set (mn_broadcasts (BroadcastUnban ''6.6.6.6'' 0 unnamed_node)) \<union>
        set (mn_broadcasts (BroadcastAlert [] 0 unnamed_node)) \<union> set (mn_broadcasts (BroadcastDomainMetric [] 0 0 False 0 unnamed_node)).
       NotifyMsg w 5 unnamed_node = (None, unnamed_node))"
    by (rule namesakes_are_deaf [OF join [OF first] join [OF second]]) (simp_all add: unnamed_cluster_def)
  moreover have "length (mn_broadcasts (BroadcastBan ''6.6.6.6'' hour 0 unnamed_node)) = 1"
    by (simp add: BroadcastBan_def queue_broadcast_def unnamed_node_def)
  ultimately show ?thesis
    by (cases "mn_broadcasts (BroadcastBan ''6.6.6.6'' hour 0 unnamed_node)") auto
qed

end
