(* ===== verification/Spec2Isabelle.thy ===== *)
theory Spec2Isabelle
  imports Config_Center Sharded_Map Challenge Rate_Limit Hardening Waf_Rules Detection Behavior Fingerprint Intel Cluster Guarantees Counters Node Alerts
    Cloudflare Startup Pages Certificates Signatures Cli Runtime Sniffer Xdp_Start Mesh_Start
begin

text \<open>
  A model of the Mango WAF, a reverse proxy with DDoS and application-layer protection written in Go.

  \<^bold>\<open>The program.\<close> A connection is counted and may be refused (\<open>ConnState\<close> in \<open>core/server.go\<close>), its TLS hello is read for
  fingerprints (\<open>fingerprint/\<close>). A request goes to \<open>handleRequest\<close>: the address of the client is found, a posted challenge
  is verified, a valid proof is served at once; every other request goes through the layers of
  \<open>ProcessWithFingerprint\<close> (\<open>core/pipeline.go\<close>): bans, WAF rules, emergency, connections, fingerprints, intelligence,
  floods, rate limits, bots, behaviour, sessions and at last the stage of a challenge. The answer is a page, a challenge,
  an abort, or the reply of a backend through cache and proxy. Workers measure rates, start and end the attack of a
  domain, sweep tables and write bans to the kernel; nodes of a mesh exchange bans, unbans and metrics. The configuration
  is loaded, edited, kept in revisions and reloaded while the server runs; the dashboard serves accounts that edit it,
  lift bans and read the logs.

  \<^bold>\<open>Where what is.\<close>
  \<^item> \<open>Prelude\<close>, \<open>Kv_Store\<close>, \<open>Meter\<close>: Go values (strings, slices, maps, sharded maps), the contract of a keyed store
    (\<open>kv_store\<close>, \<open>shard_fn\<close>) and of a token bucket (\<open>meter\<close>), each interpreted by the theories of the tables and limiters.
  \<^item> \<open>Float64\<close>, \<open>Float_Math\<close>: \<open>float64\<close> with its rounding; \<open>Hashes\<close>: SHA-256, HMAC, MD5, FNV; \<open>Net_Addr\<close>: the
    address parsers of the standard library; \<open>Regex\<close>: the part of \<open>regexp\<close> that the rules use; \<open>Http\<close>: requests.
  \<^item> \<open>Config_Types\<close>, \<open>Config_Load\<close> (\<open>config/config.go\<close>), \<open>Config_Center\<close>, \<open>Center_Start\<close> (\<open>config/center.go\<close>).
  \<^item> \<open>Sharded_Map\<close> (\<open>core/sharded_map.go\<close>), \<open>Ip_State\<close> (the table of addresses of \<open>core/pipeline.go\<close>), \<open>Upstream\<close>, \<open>Xdp\<close>,
    \<open>Cdn\<close>, \<open>Proxy\<close> (\<open>core/upstream.go\<close>, \<open>xdp.go\<close>, \<open>cache.go\<close>, \<open>proxy.go\<close>).
  \<^item> \<open>Challenge\<close> (\<open>challenge/challenge.go\<close>), \<open>Rate_Limit\<close> (\<open>perf/pool.go\<close>), \<open>Hardening\<close> (\<open>perf/hardening.go\<close>).
  \<^item> \<open>Waf_Engine\<close>, \<open>Waf_Rules\<close> (\<open>rules/\<close>); \<open>Detection\<close>, \<open>Behavior\<close>, \<open>Bot_Classifier\<close>, \<open>Adaptive\<close> (\<open>detection/\<close>);
    \<open>Tls_Parser\<close>, \<open>Fingerprint\<close> (\<open>fingerprint/\<close>); \<open>Intel\<close> (\<open>intelligence/\<close>).
  \<^item> \<open>Shield\<close>: the state of the running server, the Go structures \<open>Pipeline\<close> and \<open>Shield\<close> in one record that extends the
    other; \<open>Bans\<close>: trust, bans and connection counts; \<open>Pipeline\<close>: the layers; \<open>Mesh\<close>, \<open>Cluster\<close>: messages and what a node
    does with them (\<open>cluster/gossip.go\<close>, the handlers of \<open>main.go\<close>); \<open>Server\<close>: \<open>handleRequest\<close> and \<open>proxyRequest\<close>;
    \<open>Server_Run\<close>: connections and the ticks of the workers.
  \<^item> \<open>Log_Store\<close> (\<open>core/logstore.go\<close>), \<open>Admin_Store\<close> (\<open>api/storage.go\<close>, \<open>rbac.go\<close>, \<open>audit.go\<close>), \<open>Admin\<close>
    (\<open>api/dashboard.go\<close>: who a request is taken for, the handlers and their routes), \<open>Admin_Access\<close> what holds of it;
    \<open>Node\<close>: the dashboard on a running server, as \<open>main.go\<close> ties them.
  \<^item> \<open>Alerts\<close> (\<open>core/alerts.go\<close>), \<open>Cloudflare\<close> (\<open>core/cloudflare.go\<close>), \<open>Startup\<close> (the merge of domains in \<open>main.go\<close>).
  \<^item> \<open>Pages\<close>: the challenge, block and error pages (\<open>challenge/challenge.go\<close>, \<open>templates.go\<close>); \<open>Certificates\<close>: the certificates
    of the listener (\<open>core/server.go\<close>); \<open>Signatures\<close> (\<open>detection/signatures.go\<close>); \<open>Sniffer\<close>: the listener under TLS
    (\<open>fingerprint/early_reject.go\<close>) and what else the package offers; \<open>Xdp_Start\<close>: how the kernel map is found and the program
    attached (\<open>core/xdp.go\<close>); \<open>Mesh_Start\<close>: how a node joins (\<open>cluster/gossip.go\<close>).
  \<^item> \<open>Host_Stats\<close>, \<open>Dash_View\<close>, \<open>Dash_Cluster\<close> (\<open>api/dashboard.go\<close>): the numbers of the host, the chart and the stream of events, the
    numbers of the cluster and the check of DNS; \<open>Cli\<close> (\<open>cmd/cli/main.go\<close>) on their replies.
  \<^item> \<open>Runtime\<close>: what surrounds the engines: logger, memory watch and pools, middlewares, the listeners, WebSocket tunnels
    (\<open>logger/logger.go\<close>, \<open>perf/\<close>, \<open>core/server.go\<close>, \<open>core/proxy.go\<close>), the page of metrics and the signals (\<open>main.go\<close>).
  \<^item> \<open>Decisions\<close>, \<open>Server_Contract\<close>, \<open>Guarantees\<close>, \<open>Counters\<close>: what holds across parts. \<open>Server_Contract\<close> has the start as
    \<open>main\<close> wires it and the step relation \<open>server_step\<close> of everything that happens afterwards.

  \<^bold>\<open>How the code is rendered.\<close> A Go structure is a record with its fields in order, a Go map an association list with
  distinct keys, a nil pointer \<open>None\<close>, a panic \<open>None\<close> of the result, an error return a value of a sum or option. The
  clock is an argument \<open>now\<close> in nanoseconds, as are random bytes, the order in which a map is ranged over, the answers of
  backends, files and remote services. A handler that holds a pointer into a table writes the state back at the places
  where the code assigns through it. A method that changes its receiver returns it. What is printed or logged is
  left out; of a page the lines of its template that hold a value are kept. Each operation is one step, as its mutex makes it; where the code has no mutex (\<open>LoadOrStore\<close> of the
  sharded map, \<open>Sharded_Map\<close>) the steps of the goroutines are interleaved.

  \<^bold>\<open>What is shown.\<close> Of the tables: they are plain maps from keys (refinement), with sweeps that drop exactly the expired
  entries. Of the limiters: what they admit in a period, rounding included. Of parsers, cookies, captcha and revisions: round
  trips. Of the rule engine, the intelligence, the classifier, the validator and the challenges: the exact decision on every
  input. Of the configuration: what holds of every configuration that was loaded or applied. Of the server: every
  request is answered, whitelisted addresses are never banned, a mode that demands a challenge lets nobody pass without
  a proof, an attack ends, gossip of bans ends. Of the dashboard: names stay unique, who registers can log in, domains keep
  their owners, the event log is the list of the newest events, and who needs no account at all.
  Of the pages: no value of a request adds markup. Of the connection: the sniffer hands on every byte, and a configured domain gets
  a certificate that bears its name. Of the numbers shown: totals do not depend on the order of answers, charts and streams
  repeat nothing. Of the start: which interface is touched.
  Of the alerts: how often one is sent and by which node; of the sweep at Cloudflare: that it ends, what it keeps and what it misses. The contracts \<open>pipeline_contract\<close> and \<open>server_contract\<close> carry
  an invariant through all layers, requests, ticks and messages once it survives the primitive updates. Some properties
  state how the code fails: what a session costs, which counters are shared, why no WebSocket is served,
  which nodes do not hear each other.

  \<^bold>\<open>Bounds and fuel.\<close> Loops over data are structural recursion, loops that consume a slice have a measure. The parser of
  regular expressions has fuel of three calls per character of the pattern, and reads every character once. Integers of Go's \<open>int64\<close> counters are unbounded here (they count events); 32-bit words are
  words where they wrap (hashes, addresses, connection counts), durations saturate where \<open>time.Sub\<close> does.

  \<^bold>\<open>Not modelled.\<close> The site of the dashboard, the script of \<open>silent_js.go\<close> and the lines of a template without a value (HTML and
  JavaScript in string literals), the templates of the messages to Telegram and Discord, the sockets and the cryptography of TLS,
  what is logged, the C program of the driver, the copies of the configuration under \<open>bin/\<close>, and the test site, which is a
  demonstration backend. \<open>ristretto\<close>, \<open>memberlist\<close>, \<open>cilium/ebpf\<close>, \<open>net/url\<close>, \<open>encoding/json\<close> and \<open>yaml\<close> are parameters, with
  their documented behaviour as hypotheses.
\<close>

end
